(* ===== verification/Sip_Prelude.thy ===== *)
theory Sip_Prelude
  imports Complex_Main "HOL-Library.Sublist" "HOL-Library.List_Lexorder" "HOL-Library.Char_ord"
begin

text \<open>
  Shared vocabulary of the development: the Python text operations the sources use, the result
  type of fallible code, keyed row tables (the SQLAlchemy session as the sources use it), and two
  interfaces, one for a store of rows under a primary key and one for a component whose
  operations keep an invariant.

  Text is \<open>string\<close> (a list of 8-bit characters); \<open>str.lower\<close> and \<open>str.strip\<close> are
  written out for ASCII.
  Instants are microseconds since the epoch in UTC (\<open>int\<close>); both naive and aware
  datetimes of the sources denote such an instant.
  Python floats are exact rationals (no rounding, no NaN: \<open>canonical_json\<close> refuses NaN).
\<close>

named_theorems result_simps \<open>inversion of results: a computation that returned took no raise\<close>

type_synonym time = int

section \<open>Results\<close>

text \<open>A Python function that may raise is a value of \<open>'e + 'a\<close>: \<open>Inl\<close> the exception.\<close>

definition bindE :: "'e + 'a \<Rightarrow> ('a \<Rightarrow> 'e + 'b) \<Rightarrow> 'e + 'b" where
  "bindE m f = (case m of Inl e \<Rightarrow> Inl e | Inr x \<Rightarrow> f x)"

lemma bindE_simps [simp]: "bindE (Inl e) f = Inl e" "bindE (Inr x) f = f x"
  by (simp_all add: bindE_def)

lemma bindE_Inr_conv [result_simps]: "bindE m f = Inr y \<longleftrightarrow> (\<exists>x. m = Inr x \<and> f x = Inr y)"
  by (cases m) simp_all

lemma bindE_Inl_conv: "bindE m f = Inl e \<longleftrightarrow> m = Inl e \<or> (\<exists>x. m = Inr x \<and> f x = Inl e)"
  by (cases m) simp_all

lemma bindE_assoc: "bindE (bindE m f) g = bindE m (\<lambda>x. bindE (f x) g)"
  by (cases m) simp_all

text \<open>\<open>if guard: raise e\<close> followed by the rest of the body.\<close>

lemma raise_if_Inr_conv [result_simps]: "(if b then Inl e else m) = Inr y \<longleftrightarrow> \<not> b \<and> m = Inr y"
  by simp

lemma raise_unless_Inr_conv [result_simps]: "(if b then m else Inl e) = Inr y \<longleftrightarrow> b \<and> m = Inr y"
  by simp

text \<open>\<open>for x in xs: f(x)\<close> where the body may raise: the first error ends the loop.\<close>

fun foldE :: "('a \<Rightarrow> 's \<Rightarrow> 'e + 's) \<Rightarrow> 'a list \<Rightarrow> 's \<Rightarrow> 'e + 's" where
  "foldE f [] s = Inr s"
| "foldE f (x # xs) s = bindE (f x s) (foldE f xs)"

lemma foldE_invariant:
  assumes "foldE f xs s = Inr t" and "P s"
    and "\<And>x s t. x \<in> set xs \<Longrightarrow> P s \<Longrightarrow> f x s = Inr t \<Longrightarrow> P t"
  shows "P t"
  using assms
proof (induction xs arbitrary: s)
  case (Cons x xs)
  then obtain u where "f x s = Inr u" "foldE f xs u = Inr t"
    by (auto simp: bindE_Inr_conv)
  with Cons show ?case by (metis list.set_intros)
qed simp

lemma foldE_append: "foldE f (xs @ ys) s = bindE (foldE f xs s) (foldE f ys)"
  by (induction xs arbitrary: s) (simp_all add: bindE_def split: sum.split)

section \<open>Text\<close>

definition ascii_space :: "char \<Rightarrow> bool" where
  "ascii_space c \<longleftrightarrow> (let n = of_char c :: nat in (9 \<le> n \<and> n \<le> 13) \<or> (28 \<le> n \<and> n \<le> 32))"

definition py_strip :: "string \<Rightarrow> string" where
  "py_strip s = rev (dropWhile ascii_space (rev (dropWhile ascii_space s)))"

definition lower_char :: "char \<Rightarrow> char" where
  "lower_char c = (let n = of_char c :: nat in if 65 \<le> n \<and> n \<le> 90 then char_of (n + 32) else c)"

definition upper_char :: "char \<Rightarrow> char" where
  "upper_char c = (let n = of_char c :: nat in if 97 \<le> n \<and> n \<le> 122 then char_of (n - 32) else c)"

definition py_lower :: "string \<Rightarrow> string" where
  "py_lower s = map lower_char s"

definition py_upper :: "string \<Rightarrow> string" where
  "py_upper s = map upper_char s"

definition removeprefix :: "string \<Rightarrow> string \<Rightarrow> string" where
  "removeprefix p s = (if prefix p s then drop (length p) s else s)"

text \<open>\<open>bool(value)\<close> for an optional string: \<open>None\<close> and the empty string are falsy.\<close>

definition truthy_str :: "string option \<Rightarrow> bool" where
  "truthy_str v = (case v of None \<Rightarrow> False | Some s \<Rightarrow> s \<noteq> [])"

text \<open>\<open>value or default\<close> for an optional string.\<close>

definition str_or :: "string option \<Rightarrow> string \<Rightarrow> string" where
  "str_or v d = (case v of None \<Rightarrow> d | Some s \<Rightarrow> if s = [] then d else s)"

text \<open>\<open>fragment in text\<close>, a fixed-width lower-case hexadecimal text (the pattern
  \<open>^[a-f0-9]{n}$\<close>) and \<open>text.split(sep)\<close> for a one-character separator.\<close>

definition contains_any :: "string list \<Rightarrow> string \<Rightarrow> bool" where
  "contains_any fragments t = list_ex (\<lambda>f. sublist f t) fragments"

definition hex_text :: "nat \<Rightarrow> string \<Rightarrow> bool" where
  "hex_text n s \<longleftrightarrow> length s = n \<and> list_all (\<lambda>c. c \<in> set ''0123456789abcdef'') s"

fun py_split :: "char \<Rightarrow> string \<Rightarrow> string list" where
  "py_split sep [] = [[]]"
| "py_split sep (c # cs) =
     (if c = sep then [] # py_split sep cs
      else case py_split sep cs of w # ws \<Rightarrow> (c # w) # ws | [] \<Rightarrow> [[c]])"

lemma truthy_str_simps [simp]:
  "\<not> truthy_str None" "truthy_str (Some s) \<longleftrightarrow> s \<noteq> []"
  by (simp_all add: truthy_str_def)

lemma lower_char_idem [simp]: "lower_char (lower_char c) = lower_char c"
  by (auto simp: lower_char_def Let_def)

lemma py_lower_idem [simp]: "py_lower (py_lower s) = py_lower s"
  by (simp add: py_lower_def)

lemma dropWhile_eq_self_conv: "dropWhile P xs = xs \<longleftrightarrow> xs = [] \<or> \<not> P (hd xs)"
proof (cases xs)
  case (Cons x ys)
  have "dropWhile P ys \<noteq> x # ys"
    using length_dropWhile_le [of P ys] by (metis impossible_Cons)
  with Cons show ?thesis by simp
qed simp

lemma py_strip_idem [simp]: "py_strip (py_strip s) = py_strip s"
proof -
  define t where "t = dropWhile ascii_space s"
  define u where "u = dropWhile ascii_space (rev t)"
  have u: "py_strip s = rev u"
    by (simp add: py_strip_def t_def u_def)
  have h: "u = [] \<or> \<not> ascii_space (hd u)"
    unfolding u_def by (metis hd_dropWhile dropWhile_eq_Nil_conv)
  have "rev u = [] \<or> \<not> ascii_space (hd (rev u))"
  proof (cases "u = []")
    case False
    then have "t \<noteq> []" by (auto simp: u_def)
    then have ht: "\<not> ascii_space (hd t)"
      unfolding t_def by (metis hd_dropWhile dropWhile_eq_Nil_conv)
    have "rev t = takeWhile ascii_space (rev t) @ u"
      by (simp add: u_def)
    then have "last u = last (rev t)"
      using False by (metis last_appendR)
    then have "hd (rev u) = hd t"
      by (simp add: hd_rev last_rev)
    with ht show ?thesis by simp
  qed simp
  then have "dropWhile ascii_space (rev u) = rev u"
    by (simp only: dropWhile_eq_self_conv)
  moreover from h have "dropWhile ascii_space u = u"
    by (simp only: dropWhile_eq_self_conv)
  ultimately show ?thesis
    by (simp add: u py_strip_def [of "rev u"])
qed

text \<open>
  Python's \<open>sorted({...})\<close>: the strictly ascending list of the members. Strings are ordered by
  character.
\<close>

definition sorted_set :: "string list \<Rightarrow> string list" where
  "sorted_set xs = sort (remdups xs)"

lemma set_sorted_set [simp]: "set (sorted_set xs) = set xs"
  by (simp add: sorted_set_def)

lemma distinct_sorted_set [simp]: "distinct (sorted_set xs)"
  by (simp add: sorted_set_def)

lemma sorted_sorted_set [simp]: "sorted (sorted_set xs)"
  by (simp add: sorted_set_def)

lemma sorted_set_Nil_iff [simp]: "sorted_set xs = [] \<longleftrightarrow> xs = []"
  by (metis set_empty set_sorted_set)

lemma sorted_set_cong: "set xs = set ys \<Longrightarrow> sorted_set xs = sorted_set ys"
  by (simp only: sorted_distinct_set_unique sorted_sorted_set distinct_sorted_set set_sorted_set)

text \<open>\<open>len(values) != len(set(values))\<close>, the sources' test for duplicates, is \<open>\<not> distinct\<close>.\<close>

lemma duplicates_by_length: "length xs \<noteq> card (set xs) \<longleftrightarrow> \<not> distinct xs"
  by (metis card_distinct distinct_card)

section \<open>Row tables\<close>

text \<open>
  A table is the list of its rows in insertion order. \<open>tget\<close> is \<open>session.get(Row, key)\<close>,
  \<open>tput\<close> the write-back of a row changed in place, \<open>tadd\<close> the insertion of a new row, which
  the primary-key constraint refuses when the key is taken.
\<close>

definition tget :: "('r \<Rightarrow> 'k) \<Rightarrow> 'r list \<Rightarrow> 'k \<Rightarrow> 'r option" where
  "tget key rows k = find (\<lambda>r. key r = k) rows"

definition tput :: "('r \<Rightarrow> 'k) \<Rightarrow> 'r \<Rightarrow> 'r list \<Rightarrow> 'r list" where
  "tput key r rows = map (\<lambda>x. if key x = key r then r else x) rows"

definition tkeys :: "('r \<Rightarrow> 'k) \<Rightarrow> 'r list \<Rightarrow> 'k set" where
  "tkeys key rows = key ` set rows"

lemma tget_Nil [simp]: "tget key [] k = None"
  by (simp add: tget_def)

lemma tget_Cons: "tget key (r # rows) k = (if key r = k then Some r else tget key rows k)"
  by (simp add: tget_def)

lemma tget_SomeD: "tget key rows k = Some r \<Longrightarrow> r \<in> set rows \<and> key r = k"
  by (auto simp: tget_def find_Some_iff)

lemma tget_None_iff: "tget key rows k = None \<longleftrightarrow> k \<notin> tkeys key rows"
  by (auto simp: tget_def find_None_iff tkeys_def)

lemma tget_append:
  "tget key (xs @ ys) k = (case tget key xs k of None \<Rightarrow> tget key ys k | Some r \<Rightarrow> Some r)"
  by (induction xs) (simp_all add: tget_Cons)

lemma tkeys_append [simp]: "tkeys key (xs @ ys) = tkeys key xs \<union> tkeys key ys"
  by (auto simp: tkeys_def)

lemma map_key_tput [simp]: "map key (tput key r rows) = map key rows"
  by (simp add: tput_def)

lemma tkeys_tput [simp]: "tkeys key (tput key r rows) = tkeys key rows"
  by (metis list.set_map map_key_tput tkeys_def)

lemma tget_tput_same:
  "key r = k \<Longrightarrow> tget key rows k = Some old \<Longrightarrow> tget key (tput key r rows) k = Some r"
  by (induction rows) (auto simp: tget_Cons tput_def)

lemma tget_tput_other: "key r \<noteq> k \<Longrightarrow> tget key (tput key r rows) k = tget key rows k"
  by (induction rows) (auto simp: tget_Cons tput_def)

lemma set_tput_subset: "set (tput key r rows) \<subseteq> insert r (set rows)"
  by (auto simp: tput_def)

lemma set_tput_unique:
  "r' \<in> set (tput key r rows) \<Longrightarrow> r' = r \<or> (r' \<in> set rows \<and> key r' \<noteq> key r)"
  by (auto simp: tput_def)

lemma tget_unique_row:
  "distinct (map key rows) \<Longrightarrow> r \<in> set rows \<Longrightarrow> tget key rows (key r) = Some r"
  by (induction rows) (auto simp: tget_Cons image_iff)

text \<open>The interface a service sees of a table with a primary key, and what follows from it.\<close>

locale row_store =
  fixes get :: "'s \<Rightarrow> 'k \<Rightarrow> 'r option"
    and put :: "'r \<Rightarrow> 's \<Rightarrow> 's"
    and key :: "'r \<Rightarrow> 'k"
  assumes get_key: "get s k = Some r \<Longrightarrow> key r = k"
    and get_put_same: "get s (key r) \<noteq> None \<Longrightarrow> get (put r s) (key r) = Some r"
    and get_put_other: "k \<noteq> key r \<Longrightarrow> get (put r s) k = get s k"
begin

lemma get_put:
  "get s (key r) \<noteq> None \<Longrightarrow> get (put r s) k = (if k = key r then Some r else get s k)"
  by (simp add: get_put_same get_put_other)

lemma get_put_dom: "get s (key r) \<noteq> None \<Longrightarrow> get (put r s) k = None \<longleftrightarrow> get s k = None"
  by (auto simp: get_put)

lemma update_all_rows:
  assumes "get s (key r) \<noteq> None" and "P r" and "\<And>k r. get s k = Some r \<Longrightarrow> P r"
    and "get (put r s) k = Some r'"
  shows "P r'"
  using assms by (auto simp: get_put split: if_splits)

end

section \<open>Components with an invariant\<close>

text \<open>
  A component is a step function over its events: \<open>Inl\<close> when the call raises (the
  transaction is rolled back, so the state is unchanged), \<open>Inr\<close> the next state otherwise.
  A driver that goes on after a failed call keeps the old state.
\<close>

definition settle :: "('s \<Rightarrow> 'e \<Rightarrow> 'x + 's) \<Rightarrow> 's \<Rightarrow> 'e \<Rightarrow> 's" where
  "settle step s e = (case step s e of Inl _ \<Rightarrow> s | Inr t \<Rightarrow> t)"

definition run :: "('s \<Rightarrow> 'e \<Rightarrow> 'x + 's) \<Rightarrow> 'e list \<Rightarrow> 's \<Rightarrow> 's" where
  "run step es s = foldl (settle step) s es"

lemma run_simps [simp]:
  "run step [] s = s"
  "run step (e # es) s = run step es (settle step s e)"
  by (simp_all add: run_def)

lemma run_append: "run step (xs @ ys) s = run step ys (run step xs s)"
  by (simp add: run_def)

locale invariant_component =
  fixes step :: "'s \<Rightarrow> 'e \<Rightarrow> 'x + 's"
    and inv :: "'s \<Rightarrow> bool"
  assumes step_inv: "inv s \<Longrightarrow> step s e = Inr t \<Longrightarrow> inv t"
begin

lemma settle_inv: "inv s \<Longrightarrow> inv (settle step s e)"
  by (auto simp: settle_def dest: step_inv split: sum.splits)

lemma run_inv: "inv s \<Longrightarrow> inv (run step es s)"
  by (induction es arbitrary: s) (simp_all add: settle_inv)

end

text \<open>
  A component whose states are ordered by a progress relation (no step goes back): what holds of
  one step holds between any two states of a run.
\<close>

locale monotone_component = invariant_component step inv
  for step :: "'s \<Rightarrow> 'e \<Rightarrow> 'x + 's" and inv :: "'s \<Rightarrow> bool" +
  fixes below :: "'s \<Rightarrow> 's \<Rightarrow> bool"
  assumes below_refl: "below s s"
    and below_trans: "below s t \<Longrightarrow> below t u \<Longrightarrow> below s u"
    and step_below: "inv s \<Longrightarrow> step s e = Inr t \<Longrightarrow> below s t"
begin

lemma settle_below: "inv s \<Longrightarrow> below s (settle step s e)"
  by (auto simp: settle_def below_refl dest: step_below split: sum.splits)

lemma run_below: "inv s \<Longrightarrow> below s (run step es s)"
proof (induction es arbitrary: s)
  case (Cons e es)
  then have "below s (settle step s e)" and "below (settle step s e) (run step es (settle step s e))"
    by (simp_all add: settle_below settle_inv)
  then show ?case by (auto intro: below_trans)
qed (simp add: below_refl)

end

end
