(* ===== verification/Canonical.thy ===== *)
theory Canonical
  imports Sip_Prelude "HOL-Library.Product_Lexorder" "HOL-Library.Multiset"
begin

text \<open>
  \<open>src/sip/canonical.py\<close>: JSON values, the canonical serialisation \<open>canonical_json\<close>
  (sorted keys, no white space, minimal escapes), the digests built on it, and \<open>merkle_root\<close>.

  The SHA-256 and HMAC primitives and Python's \<open>repr\<close> of a float are parameters, the record
  \<open>runtime\<close>; nothing below depends on which functions they are except where a hypothesis says
  so. The results: the serialisation does not depend on the order of the keys, two values with one
  serialisation are equal up to key order, the Merkle root does not depend on the order of the
  entries, and with no digest collision among the strings hashed it determines the entries.
\<close>

section \<open>JSON values\<close>

text \<open>
  A value the sources pass to \<open>json.dumps\<close>. A Python dict keeps its insertion order, so an
  object is the list of its items; \<open>json_wf\<close> says that every object has distinct keys.
\<close>

datatype json =
    JNull
  | JBool bool
  | JInt int
  | JFloat rat
  | JStr string
  | JArr "json list"
  | JObj "(string \<times> json) list"

type_synonym fields = "(string \<times> json) list"

fun json_wf :: "json \<Rightarrow> bool" and json_wf_list :: "json list \<Rightarrow> bool"
  and json_wf_fields :: "fields \<Rightarrow> bool" where
  "json_wf (JArr vs) = json_wf_list vs"
| "json_wf (JObj kvs) = (distinct (map fst kvs) \<and> json_wf_fields kvs)"
| "json_wf v = True"
| "json_wf_list [] = True"
| "json_wf_list (v # vs) = (json_wf v \<and> json_wf_list vs)"
| "json_wf_fields [] = True"
| "json_wf_fields ((k, v) # kvs) = (json_wf v \<and> json_wf_fields kvs)"

text \<open>\<open>bool(value)\<close>.\<close>

fun truthy :: "json \<Rightarrow> bool" where
  "truthy JNull = False"
| "truthy (JBool b) = b"
| "truthy (JInt i) = (i \<noteq> 0)"
| "truthy (JFloat q) = (q \<noteq> 0)"
| "truthy (JStr s) = (s \<noteq> [])"
| "truthy (JArr vs) = (vs \<noteq> [])"
| "truthy (JObj kvs) = (kvs \<noteq> [])"

text \<open>\<open>d.get(key)\<close> on a dict.\<close>

definition jget :: "fields \<Rightarrow> string \<Rightarrow> json" where
  "jget kvs k = (case map_of kvs k of None \<Rightarrow> JNull | Some v \<Rightarrow> v)"

text \<open>\<open>d[key] = value\<close> on a dict: a present key keeps its place.\<close>

definition jset :: "string \<Rightarrow> json \<Rightarrow> fields \<Rightarrow> fields" where
  "jset k v kvs = (if k \<in> set (map fst kvs)
     then map (\<lambda>(k', v'). if k' = k then (k', v) else (k', v')) kvs else kvs @ [(k, v)])"

abbreviation jopt :: "string option \<Rightarrow> json" where
  "jopt v \<equiv> (case v of None \<Rightarrow> JNull | Some s \<Rightarrow> JStr s)"

lemma map_of_jset: "map_of (jset k v kvs) k' = (if k' = k then Some v else map_of kvs k')"
proof -
  have upd: "map_of (map (\<lambda>(k', v'). if k' = k then (k', v) else (k', v')) kvs) k'
      = (if k' = k \<and> k \<in> fst ` set kvs then Some v else map_of kvs k')"
    by (induction kvs) force+
  show ?thesis
  proof (cases "k \<in> fst ` set kvs")
    case True
    then show ?thesis by (simp add: jset_def upd)
  next
    case False
    then have "map_of kvs k = None" by (simp add: map_of_eq_None_iff)
    with False show ?thesis
      by (auto simp: jset_def map_add_def split: option.splits)
  qed
qed

lemma jget_jset: "jget (jset k v kvs) k' = (if k' = k then v else jget kvs k')"
  by (simp add: jget_def map_of_jset)

section \<open>The serialisation\<close>

record runtime =
  rt_sha256 :: "string \<Rightarrow> string"
  rt_hmac :: "string \<Rightarrow> string \<Rightarrow> string"
  rt_float_repr :: "rat \<Rightarrow> string"

definition digit_char :: "nat \<Rightarrow> char" where
  "digit_char d = ''0123456789'' ! d"

fun nat_repr :: "nat \<Rightarrow> string" where
  "nat_repr n = (if n < 10 then [digit_char n] else nat_repr (n div 10) @ [digit_char (n mod 10)])"

declare nat_repr.simps [simp del]

definition int_repr :: "int \<Rightarrow> string" where
  "int_repr i = (if i < 0 then CHR ''-'' # nat_repr (nat (- i)) else nat_repr (nat i))"

definition hex_char :: "nat \<Rightarrow> char" where
  "hex_char d = ''0123456789abcdef'' ! d"

definition escape_char :: "char \<Rightarrow> string" where
  "escape_char c = (let n = of_char c :: nat in
     if n = 34 then [CHR 0x5C, CHR 0x22]
     else if n = 92 then [CHR 0x5C, CHR 0x5C]
     else if n = 8 then [CHR 0x5C, CHR ''b'']
     else if n = 9 then [CHR 0x5C, CHR ''t'']
     else if n = 10 then [CHR 0x5C, CHR ''n'']
     else if n = 12 then [CHR 0x5C, CHR ''f'']
     else if n = 13 then [CHR 0x5C, CHR ''r'']
     else if n < 32 then CHR 0x5C # ''u00'' @ [hex_char (n div 16), hex_char (n mod 16)]
     else [c])"

definition json_string :: "string \<Rightarrow> string" where
  "json_string s = CHR 0x22 # concat (map escape_char s) @ [CHR 0x22]"

fun commas :: "string list \<Rightarrow> string" where
  "commas [] = []"
| "commas [t] = t"
| "commas (t # ts) = t @ CHR '','' # commas ts"

definition field_text :: "string \<times> string \<Rightarrow> string" where
  "field_text kt = json_string (fst kt) @ CHR '':'' # snd kt"

fun dumps :: "runtime \<Rightarrow> json \<Rightarrow> string"
  and dumps_list :: "runtime \<Rightarrow> json list \<Rightarrow> string list"
  and dumps_fields :: "runtime \<Rightarrow> fields \<Rightarrow> (string \<times> string) list" where
  "dumps rt JNull = ''null''"
| "dumps rt (JBool b) = (if b then ''true'' else ''false'')"
| "dumps rt (JInt i) = int_repr i"
| "dumps rt (JFloat q) = rt_float_repr rt q"
| "dumps rt (JStr s) = json_string s"
| "dumps rt (JArr vs) = CHR ''['' # commas (dumps_list rt vs) @ '']''"
| "dumps rt (JObj kvs) = CHR ''{'' #
     commas (map field_text (sort_key fst (dumps_fields rt kvs))) @ ''}''"
| "dumps_list rt [] = []"
| "dumps_list rt (v # vs) = dumps rt v # dumps_list rt vs"
| "dumps_fields rt [] = []"
| "dumps_fields rt ((k, v) # kvs) = (k, dumps rt v) # dumps_fields rt kvs"

definition canonical_json :: "runtime \<Rightarrow> json \<Rightarrow> string" where
  "canonical_json rt v = dumps rt v"

definition sha256_bytes :: "runtime \<Rightarrow> string \<Rightarrow> string" where
  "sha256_bytes rt data = rt_sha256 rt data"

definition canonical_sha256 :: "runtime \<Rightarrow> json \<Rightarrow> string" where
  "canonical_sha256 rt v = rt_sha256 rt (canonical_json rt v)"

section \<open>The Merkle root of a set of files\<close>

text \<open>One level: a level of odd length repeats its last digest, then neighbours are hashed.\<close>

fun merkle_pairs :: "runtime \<Rightarrow> string list \<Rightarrow> string list" where
  "merkle_pairs rt [] = []"
| "merkle_pairs rt [x] = [sha256_bytes rt (x @ x)]"
| "merkle_pairs rt (x # y # zs) = sha256_bytes rt (x @ y) # merkle_pairs rt zs"

lemma length_merkle_pairs [simp]: "length (merkle_pairs rt xs) = (length xs + 1) div 2"
  by (induction rt xs rule: merkle_pairs.induct) auto

function merkle_levels :: "runtime \<Rightarrow> string list \<Rightarrow> string list" where
  "merkle_levels rt leaves =
     (if length leaves > 1 then merkle_levels rt (merkle_pairs rt leaves) else leaves)"
  by pat_completeness auto
termination
  by (relation "measure (\<lambda>(rt, leaves). length leaves)") auto

declare merkle_levels.simps [simp del]

definition merkle_leaf :: "runtime \<Rightarrow> string \<times> string \<Rightarrow> string" where
  "merkle_leaf rt e = sha256_bytes rt (fst e @ CHR 0x00 # snd e)"

definition merkle_root :: "runtime \<Rightarrow> (string \<times> string) list \<Rightarrow> string" where
  "merkle_root rt entries =
     (let leaves = map (merkle_leaf rt) (sort entries)
      in if leaves = [] then sha256_bytes rt [] else hd (merkle_levels rt leaves))"

section \<open>Key order\<close>

fun jnorm :: "json \<Rightarrow> json" and jnorm_list :: "json list \<Rightarrow> json list"
  and jnorm_fields :: "fields \<Rightarrow> fields" where
  "jnorm (JArr vs) = JArr (jnorm_list vs)"
| "jnorm (JObj kvs) = JObj (sort_key fst (jnorm_fields kvs))"
| "jnorm v = v"
| "jnorm_list [] = []"
| "jnorm_list (v # vs) = jnorm v # jnorm_list vs"
| "jnorm_fields [] = []"
| "jnorm_fields ((k, v) # kvs) = (k, jnorm v) # jnorm_fields kvs"

fun print :: "runtime \<Rightarrow> json \<Rightarrow> string"
  and print_list :: "runtime \<Rightarrow> json list \<Rightarrow> string"
  and print_fields :: "runtime \<Rightarrow> fields \<Rightarrow> string" where
  "print rt JNull = ''null''"
| "print rt (JBool b) = (if b then ''true'' else ''false'')"
| "print rt (JInt i) = int_repr i"
| "print rt (JFloat q) = rt_float_repr rt q"
| "print rt (JStr s) = json_string s"
| "print rt (JArr []) = ''[]''"
| "print rt (JArr (v # vs)) = CHR ''['' # print rt v @ print_list rt vs"
| "print rt (JObj []) = ''{}''"
| "print rt (JObj ((k, v) # kvs)) = CHR ''{'' # json_string k @ CHR '':'' # print rt v @ print_fields rt kvs"
| "print_list rt [] = '']''"
| "print_list rt (v # vs) = CHR '','' # print rt v @ print_list rt vs"
| "print_fields rt [] = ''}''"
| "print_fields rt ((k, v) # kvs) =
     CHR '','' # json_string k @ CHR '':'' # print rt v @ print_fields rt kvs"

lemma dumps_list_map: "dumps_list rt vs = map (dumps rt) vs"
  by (induction vs) auto

lemma dumps_fields_map: "dumps_fields rt kvs = map (apsnd (dumps rt)) kvs"
  by (induction kvs) auto

lemma jnorm_list_map: "jnorm_list vs = map jnorm vs"
  by (induction vs) auto

lemma jnorm_fields_map: "jnorm_fields kvs = map (apsnd jnorm) kvs"
  by (induction kvs) auto

lemma insort_key_map_fst:
  "insort_key fst (apsnd g p) (map (apsnd g) kvs)
     = map (apsnd g) (insort_key fst p (kvs :: (string \<times> 'v) list))"
  by (induction kvs) auto

lemma sort_key_map_fst:
  "sort_key fst (map (apsnd g) kvs) = map (apsnd g) (sort_key fst (kvs :: (string \<times> 'v) list))"
  by (induction kvs) (simp_all add: insort_key_map_fst)

lemma commas_print_list:
  "vs \<noteq> [] \<Longrightarrow> commas (map (print rt) vs) @ '']'' = tl (print_list rt vs)"
proof (induction vs)
  case (Cons v vs)
  then show ?case by (cases vs) auto
qed simp

lemma commas_print_fields:
  "kvs \<noteq> [] \<Longrightarrow> commas (map (\<lambda>(k, v). field_text (k, print rt v)) kvs) @ ''}''
     = tl (print_fields rt kvs)"
proof (induction kvs)
  case (Cons kv kvs)
  then show ?case by (cases kvs; cases kv) (auto simp: field_text_def)
qed simp

lemma print_JArr: "print rt (JArr vs) = CHR ''['' # commas (map (print rt) vs) @ '']''"
  by (cases vs) (simp, simp add: commas_print_list del: append.simps list.map commas.simps)

lemma print_JObj:
  "print rt (JObj kvs) = CHR ''{'' # commas (map (\<lambda>(k, v). field_text (k, print rt v)) kvs) @ ''}''"
proof (cases kvs)
  case (Cons kv kvs')
  then show ?thesis
    using commas_print_fields [of kvs rt] by (cases kv) simp
qed simp

lemma dumps_eq_print: "dumps rt v = print rt (jnorm v)"
proof (induction v)
  case (JArr vs)
  then have "map (dumps rt) vs = map (print rt) (map jnorm vs)"
    by simp
  then show ?case
    by (simp only: dumps.simps jnorm.simps print_JArr dumps_list_map jnorm_list_map)
next
  case (JObj kvs)
  have "map (apsnd (dumps rt)) kvs = map (apsnd (print rt)) (map (apsnd jnorm) kvs)"
    using JObj by force
  then have "sort_key fst (dumps_fields rt kvs)
      = map (apsnd (print rt)) (sort_key fst (jnorm_fields kvs))"
    by (simp only: dumps_fields_map jnorm_fields_map sort_key_map_fst)
  then have "map field_text (sort_key fst (dumps_fields rt kvs))
      = map (\<lambda>(k, v). field_text (k, print rt v)) (sort_key fst (jnorm_fields kvs))"
    by (auto simp: comp_def apsnd_def split_def)
  then show ?case
    by (simp only: dumps.simps jnorm.simps print_JObj)
qed auto

section \<open>Injectivity of the printer\<close>


definition low_chars :: "char list" where
  "low_chars = map char_of [0..<32::nat]"

lemma low_chars_eq: "low_chars = [CHR 0x00, CHR 0x01, CHR 0x02, CHR 0x03, CHR 0x04, CHR 0x05, CHR 0x06, CHR 0x07,
   CHR 0x08, CHR 0x09, CHR 0x0A, CHR 0x0B, CHR 0x0C, CHR 0x0D, CHR 0x0E, CHR 0x0F,
   CHR 0x10, CHR 0x11, CHR 0x12, CHR 0x13, CHR 0x14, CHR 0x15, CHR 0x16, CHR 0x17,
   CHR 0x18, CHR 0x19, CHR 0x1A, CHR 0x1B, CHR 0x1C, CHR 0x1D, CHR 0x1E, CHR 0x1F]"
  by code_simp

fun unescape :: "string \<Rightarrow> (char \<times> string) option" where
  "unescape (c # r) = (if c = CHR 0x22 then None
     else if c = CHR 0x5C then (case r of
          d # r' \<Rightarrow> (if d = CHR ''b'' then Some (CHR 0x08, r')
            else if d = CHR ''t'' then Some (CHR 0x09, r')
            else if d = CHR ''n'' then Some (CHR 0x0A, r')
            else if d = CHR ''f'' then Some (CHR 0x0C, r')
            else if d = CHR ''r'' then Some (CHR 0x0D, r')
            else if d = CHR ''u'' then Some (low_chars ! ((if r' ! 2 = CHR ''1'' then 16 else 0)
              + (let m = of_char (r' ! 3) :: nat in if m < 87 then m - 48 else m - 87)), drop 4 r')
            else Some (d, r'))
        | [] \<Rightarrow> None)
     else Some (c, r))"
| "unescape [] = None"

lemma unescape_low: "c \<in> set low_chars \<Longrightarrow> unescape (escape_char c @ r) = Some (c, r)"
  unfolding low_chars_eq by (auto simp: escape_char_def hex_char_def low_chars_eq)

lemma unescape_escape: "unescape (escape_char c @ r) = Some (c, r)"
proof (cases "(of_char c :: nat) < 32")
  case True
  then have "c \<in> set low_chars"
    by (auto simp: low_chars_def intro!: image_eqI [of _ _ "of_char c"])
  then show ?thesis by (rule unescape_low)
next
  case False
  consider "c = CHR 0x22" | "c = CHR 0x5C" | "c \<noteq> CHR 0x22" "c \<noteq> CHR 0x5C" by blast
  then show ?thesis
  proof cases
    case 3
    have "of_char c \<noteq> (34 :: nat)" "of_char c \<noteq> (92 :: nat)"
      using 3 of_char_eq_iff [of c "CHR 0x22", where ?'a = nat] of_char_eq_iff [of c "CHR 0x5C", where ?'a = nat] by simp_all
    with 3 False show ?thesis by (simp add: escape_char_def Let_def)
  qed (simp_all add: escape_char_def)
qed


lemma unescape_quote [simp]: "unescape (CHR 0x22 # r) = None"
  by simp

lemma json_string_cancel:
  "json_string s @ r = json_string t @ q \<Longrightarrow> s = t \<and> r = q"
proof -
  have *: "concat (map escape_char s) @ CHR 0x22 # r = concat (map escape_char t) @ CHR 0x22 # q
      \<Longrightarrow> s = t \<and> r = q" for s t
  proof (induction s arbitrary: t)
    case Nil
    show ?case
    proof (cases t)
      case (Cons d t')
      with Nil have "CHR 0x22 # r = escape_char d @ concat (map escape_char t') @ CHR 0x22 # q" by simp
      then have "unescape (CHR 0x22 # r) = Some (d, concat (map escape_char t') @ CHR 0x22 # q)"
        by (simp only: unescape_escape)
      then show ?thesis by simp
    qed (use Nil in simp)
  next
    case (Cons c s)
    show ?case
    proof (cases t)
      case Nil
      with Cons.prems have "CHR 0x22 # q = escape_char c @ concat (map escape_char s) @ CHR 0x22 # r" by simp
      then have "unescape (CHR 0x22 # q) = Some (c, concat (map escape_char s) @ CHR 0x22 # r)"
        by (simp only: unescape_escape)
      then show ?thesis by simp
    next
      case (Cons d t')
      with Cons.prems have "escape_char c @ concat (map escape_char s) @ CHR 0x22 # r
          = escape_char d @ concat (map escape_char t') @ CHR 0x22 # q" by simp
      then have "Some (c, concat (map escape_char s) @ CHR 0x22 # r)
          = Some (d, concat (map escape_char t') @ CHR 0x22 # q)"
        by (metis unescape_escape)
      with Cons.IH [of t'] Cons show ?thesis by simp
    qed
  qed
  assume "json_string s @ r = json_string t @ q"
  with * [of s t] show ?thesis by (simp add: json_string_def)
qed

section \<open>Numbers\<close>

definition digits :: "char set" where
  "digits = set ''0123456789''"

definition number_chars :: "char set" where
  "number_chars = set ''+-.e'' \<union> digits"

lemma digit_char_cases: "d < 10 \<Longrightarrow> digit_char d \<in> digits"
  unfolding digit_char_def digits_def by (rule nth_mem) simp

lemma digit_char_inj: "d < 10 \<Longrightarrow> e < 10 \<Longrightarrow> digit_char d = digit_char e \<Longrightarrow> d = e"
proof -
  assume "d < 10" "e < 10" and eq: "digit_char d = digit_char e"
  have "distinct ''0123456789''" by simp
  with \<open>d < 10\<close> \<open>e < 10\<close> eq show "d = e"
    unfolding digit_char_def by (subst (asm) nth_eq_iff_index_eq) simp_all
qed

lemma nat_repr_nonempty [simp]: "nat_repr n \<noteq> []"
  by (subst nat_repr.simps) simp

lemma nat_repr_digits: "set (nat_repr n) \<subseteq> digits"
proof (induction n rule: nat_repr.induct)
  case (1 n)
  then show ?case
    by (subst nat_repr.simps) (simp add: digit_char_cases)
qed

lemma nat_repr_inj: "nat_repr m = nat_repr n \<Longrightarrow> m = n"
proof (induction m arbitrary: n rule: nat_repr.induct)
  case (1 m)
  show ?case
  proof (cases "m < 10")
    case True
    have "n < 10"
    proof (rule ccontr)
      assume "\<not> n < 10"
      then have "length (nat_repr n) > 1"
        by (subst nat_repr.simps) (auto simp: neq_Nil_conv)
      moreover have "length (nat_repr n) = length (nat_repr m)" using 1 by simp
      ultimately show False using True by (simp add: nat_repr.simps [of m])
    qed
    with 1 True digit_char_inj [of m n] show ?thesis
      by (simp add: nat_repr.simps [of m] nat_repr.simps [of n])
  next
    case False
    have "\<not> n < 10"
    proof
      assume "n < 10"
      then have "length (nat_repr m) = 1" using 1 by (simp add: nat_repr.simps [of n])
      with False show False by (simp add: nat_repr.simps [of m])
    qed
    with 1 False have "nat_repr (m div 10) = nat_repr (n div 10)" and "digit_char (m mod 10) = digit_char (n mod 10)"
      by (simp_all add: nat_repr.simps [of m] nat_repr.simps [of n])
    then have "m div 10 = n div 10" "m mod 10 = n mod 10"
      using 1 False by (auto intro: digit_char_inj)
    then show ?thesis by (metis div_mult_mod_eq)
  qed
qed

lemma minus_not_digit: "CHR ''-'' \<notin> digits"
  by (simp add: digits_def)

lemma int_repr_inj: "int_repr i = int_repr j \<Longrightarrow> i = j"
proof -
  have *: "CHR ''-'' # s \<noteq> nat_repr n" for s n
    using nat_repr_digits [of n] minus_not_digit by (metis list.set_intros(1) subsetD)
  then show "int_repr i = int_repr j \<Longrightarrow> i = j"
    unfolding int_repr_def using * [symmetric] nat_repr_inj
    by (cases "i < 0"; cases "j < 0") (auto dest!: nat_repr_inj simp: nat_eq_iff)
qed

lemma int_repr_chars: "set (int_repr i) \<subseteq> insert (CHR ''-'') digits"
  by (cases "i < 0") (simp_all add: int_repr_def nat_repr_digits subset_insertI2)

lemma int_repr_nonempty [simp]: "int_repr i \<noteq> []"
  by (simp add: int_repr_def)

text \<open>
  What the serialisation relies on of Python's \<open>float.__repr__\<close>: distinct floats have
  distinct texts, made of digits, signs, the point and the exponent mark, with a point or an
  exponent (so that no float reads as an integer).
\<close>

definition float_repr_ok :: "runtime \<Rightarrow> bool" where
  "float_repr_ok rt \<longleftrightarrow> inj (rt_float_repr rt) \<and>
     (\<forall>q. rt_float_repr rt q \<noteq> [] \<and> set (rt_float_repr rt q) \<subseteq> number_chars \<and>
          set (rt_float_repr rt q) \<inter> set ''.e'' \<noteq> {})"

fun is_number :: "json \<Rightarrow> bool" where
  "is_number (JInt i) = True"
| "is_number (JFloat q) = True"
| "is_number v = False"

definition at_delim :: "string \<Rightarrow> bool" where
  "at_delim r \<longleftrightarrow> r = [] \<or> hd r \<in> set '',]}''"

lemma number_text:
  assumes "float_repr_ok rt" and "is_number v"
  shows "print rt v \<noteq> []" and "set (print rt v) \<subseteq> number_chars"
  using assms int_repr_chars
  by (cases v; force simp: float_repr_ok_def number_chars_def)+

lemma number_inj:
  assumes "float_repr_ok rt" and "is_number v" and "is_number w" and "print rt v = print rt w"
  shows "v = w"
proof -
  have "set (int_repr i) \<inter> set ''.e'' = {}" for i
    using int_repr_chars [of i] by (auto simp: digits_def)
  then have neq: "int_repr i \<noteq> rt_float_repr rt q" for i q
    using assms(1) unfolding float_repr_ok_def by metis
  show ?thesis
    using assms neq neq [symmetric] by (cases v; cases w) (auto simp: float_repr_ok_def dest: int_repr_inj injD)
qed

lemma text_run_cancel:
  assumes "set t \<subseteq> C" "set u \<subseteq> C" "r = [] \<or> hd r \<notin> C" "s = [] \<or> hd s \<notin> C" "t @ r = u @ s"
  shows "t = u \<and> r = s"
proof -
  have *: "takeWhile (\<lambda>c. c \<in> C) (x @ y) = x" if "set x \<subseteq> C" "y = [] \<or> hd y \<notin> C" for x y
    using that by (induction x) (auto simp: neq_Nil_conv takeWhile_eq_Nil_iff)
  have "t = u" using * [of t r] * [of u s] assms by metis
  with assms(5) show ?thesis by simp
qed

lemma number_chars_at_delim: "at_delim r \<Longrightarrow> r = [] \<or> hd r \<notin> number_chars"
  by (auto simp: at_delim_def number_chars_def digits_def)

lemma number_cancel:
  assumes "float_repr_ok rt" "is_number v" "is_number w" "at_delim r" "at_delim s"
    and "print rt v @ r = print rt w @ s"
  shows "v = w \<and> r = s"
  using text_run_cancel [OF number_text(2) [OF assms(1,2)] number_text(2) [OF assms(1,3)]
      number_chars_at_delim [OF assms(4)] number_chars_at_delim [OF assms(5)] assms(6)]
    number_inj [OF assms(1-3)] by blast

lemma number_hd: "float_repr_ok rt \<Longrightarrow> is_number v \<Longrightarrow> hd (print rt v @ r) \<in> number_chars"
  using number_text by (metis hd_append2 hd_in_set subsetD)

definition lead :: "json \<Rightarrow> char" where
  "lead v = (case v of JNull \<Rightarrow> CHR ''n'' | JBool b \<Rightarrow> if b then CHR ''t'' else CHR ''f''
     | JStr s \<Rightarrow> CHR 0x22 | JArr vs \<Rightarrow> CHR ''['' | JObj kvs \<Rightarrow> CHR ''{'' | _ \<Rightarrow> CHR ''0'')"

lemma hd_print: "\<not> is_number v \<Longrightarrow> print rt v \<noteq> [] \<and> hd (print rt v) = lead v"
  by (cases "(rt, v)" rule: print.cases) (auto simp: lead_def json_string_def)

lemma lead_not_number: "\<not> is_number v \<Longrightarrow> lead v \<notin> number_chars"
  by (cases v) (auto simp: lead_def number_chars_def digits_def)


lemma at_delim_print_list [simp]: "at_delim (print_list rt vs @ r)"
  by (cases vs) (simp_all add: at_delim_def)

lemma at_delim_print_fields [simp]: "at_delim (print_fields rt kvs @ r)"
  by (cases kvs) (auto simp: at_delim_def)

definition cancels :: "runtime \<Rightarrow> json \<Rightarrow> bool" where
  "cancels rt v \<longleftrightarrow>
     (\<forall>w r s. at_delim r \<longrightarrow> at_delim s \<longrightarrow> print rt v @ r = print rt w @ s \<longrightarrow> v = w \<and> r = s)"

lemma cancelsI:
  "(\<And>w r s. at_delim r \<Longrightarrow> at_delim s \<Longrightarrow> print rt v @ r = print rt w @ s \<Longrightarrow> v = w \<and> r = s)
     \<Longrightarrow> cancels rt v"
  by (simp add: cancels_def)

lemma cancelsD:
  "cancels rt v \<Longrightarrow> print rt v @ r = print rt w @ s \<Longrightarrow> at_delim r \<Longrightarrow> at_delim s \<Longrightarrow> v = w \<and> r = s"
  by (simp add: cancels_def)

lemma print_list_cancel:
  assumes "\<forall>v \<in> set vs. cancels rt v" and "print_list rt vs @ r = print_list rt ws @ s"
  shows "vs = ws \<and> r = s"
  using assms
proof (induction vs arbitrary: ws)
  case Nil
  then show ?case by (cases ws) auto
next
  case (Cons v vs)
  then obtain w ws' where ws: "ws = w # ws'" by (cases ws) auto
  with Cons.prems have "v = w \<and> print_list rt vs @ r = print_list rt ws' @ s"
    by (intro cancelsD [of rt]) auto
  with Cons ws show ?case by auto
qed

lemma print_fields_cancel:
  assumes "\<forall>kv \<in> set kvs. cancels rt (snd kv)" and "print_fields rt kvs @ r = print_fields rt lws @ s"
  shows "kvs = lws \<and> r = s"
  using assms
proof (induction kvs arbitrary: lws)
  case Nil
  then show ?case by (cases lws) auto
next
  case (Cons kv kvs)
  then obtain k v l w lws' where kv: "kv = (k, v)" and ws: "lws = (l, w) # lws'"
    by (cases kv; cases lws) auto
  with Cons.prems(2) have "k = l \<and> CHR '':'' # print rt v @ print_fields rt kvs @ r
      = CHR '':'' # print rt w @ print_fields rt lws' @ s"
    by (intro json_string_cancel) simp
  then have "k = l" "print rt v @ print_fields rt kvs @ r = print rt w @ print_fields rt lws' @ s"
    by auto
  moreover from this have "v = w \<and> print_fields rt kvs @ r = print_fields rt lws' @ s"
    using Cons.prems(1) kv by (intro cancelsD [of rt]) auto
  ultimately show ?case using Cons kv ws by auto
qed

lemma hd_print_any:
  assumes "float_repr_ok rt"
  shows "print rt v \<noteq> []" and "hd (print rt v @ r) \<notin> set '']}''"
proof -
  show ne: "print rt v \<noteq> []"
    using assms by (cases "is_number v") (simp_all add: number_text hd_print)
  have "lead v \<notin> set '']}''" if "\<not> is_number v"
    using that by (cases v) (auto simp: lead_def)
  moreover have "c \<notin> set '']}''" if "c \<in> number_chars" for c
    using that by (auto simp: number_chars_def digits_def)
  ultimately show "hd (print rt v @ r) \<notin> set '']}''"
    using ne number_hd [OF assms, of v r] hd_print [of v rt] by (cases "is_number v") auto
qed

lemma same_lead:
  assumes "float_repr_ok rt" and "print rt v @ r = print rt w @ s" and "\<not> is_number v"
  shows "\<not> is_number w \<and> lead w = lead v"
proof -
  have "hd (print rt w @ s) = lead v"
    using assms(2) [symmetric] hd_print [OF assms(3), of rt] by (metis hd_append2)
  then show ?thesis
    using number_hd [OF assms(1), of w s] lead_not_number [OF assms(3)] hd_print [of w rt]
    by (cases "is_number w") (auto simp: hd_append2)
qed

lemma print_arr_cancel:
  assumes "float_repr_ok rt" and "\<forall>v \<in> set vs. cancels rt v"
    and "print rt (JArr vs) @ r = print rt (JArr ws) @ s"
  shows "vs = ws \<and> r = s"
proof (cases vs; cases ws)
  fix v vs' w ws'
  assume vs: "vs = v # vs'" and ws: "ws = w # ws'"
  with assms(3) have "print_list rt vs @ r = print_list rt ws @ s" by simp
  with assms(2) show ?thesis by (rule print_list_cancel)
next
  fix w ws'
  assume "vs = []" and "ws = w # ws'"
  with assms(3) have "CHR '']'' # r = print rt w @ print_list rt ws' @ s" by simp
  then show ?thesis using hd_print_any(2) [OF assms(1), of w] by (metis list.sel(1) list.set_intros(1))
next
  fix v vs'
  assume "vs = v # vs'" and "ws = []"
  with assms(3) have "print rt v @ print_list rt vs' @ r = CHR '']'' # s" by simp
  then show ?thesis using hd_print_any(2) [OF assms(1), of v] by (metis list.sel(1) list.set_intros(1))
qed (use assms in auto)

lemma print_obj_cancel:
  assumes "\<forall>kv \<in> set kvs. cancels rt (snd kv)"
    and "print rt (JObj kvs) @ r = print rt (JObj lws) @ s"
  shows "kvs = lws \<and> r = s"
proof (cases kvs; cases lws)
  fix kv kvs' lw lws'
  assume kvs: "kvs = kv # kvs'" and lws: "lws = lw # lws'"
  with assms(2) have "print_fields rt kvs @ r = print_fields rt lws @ s"
    by (cases kv; cases lw) simp
  with assms(1) show ?thesis by (rule print_fields_cancel)
qed (use assms(2) in \<open>auto simp: json_string_def\<close>)

lemma print_cancel:
  assumes ok: "float_repr_ok rt"
  shows "cancels rt v"
proof (induction v)
  case (JArr vs)
  show ?case
  proof (rule cancelsI)
    fix w r s
    assume eq: "print rt (JArr vs) @ r = print rt w @ s"
    then have "lead w = CHR ''[''" "\<not> is_number w"
      using same_lead [OF ok eq] by (auto simp: lead_def)
    then obtain ws where "w = JArr ws" by (cases w) (auto simp: lead_def split: if_splits)
    with eq JArr show "JArr vs = w \<and> r = s" using print_arr_cancel [OF ok] by blast
  qed
next
  case (JObj kvs)
  then have IH: "\<forall>kv \<in> set kvs. cancels rt (snd kv)"
    by (metis snds.intros)
  show ?case
  proof (rule cancelsI)
    fix w r s
    assume eq: "print rt (JObj kvs) @ r = print rt w @ s"
    then have "lead w = CHR ''{''" "\<not> is_number w"
      using same_lead [OF ok eq] by (auto simp: lead_def)
    then obtain lws where "w = JObj lws" by (cases w) (auto simp: lead_def split: if_splits)
    with eq IH show "JObj kvs = w \<and> r = s" using print_obj_cancel by blast
  qed
next
  case (JInt i)
  show ?case
    by (rule cancelsI) (metis number_cancel [OF ok, of "JInt i"] same_lead [OF ok] is_number.simps(1))
next
  case (JFloat q)
  show ?case
    by (rule cancelsI) (metis number_cancel [OF ok, of "JFloat q"] same_lead [OF ok] is_number.simps(2))
next
  case (JStr t)
  show ?case
  proof (rule cancelsI)
    fix w r s
    assume eq: "print rt (JStr t) @ r = print rt w @ s"
    then have "lead w = CHR 0x22" "\<not> is_number w"
      using same_lead [OF ok eq] by (auto simp: lead_def)
    then obtain u where "w = JStr u" by (cases w) (auto simp: lead_def split: if_splits)
    with eq show "JStr t = w \<and> r = s" using json_string_cancel [of t r u s] by simp
  qed
next
  case JNull
  show ?case
  proof (rule cancelsI)
    fix w r s
    assume eq: "print rt JNull @ r = print rt w @ s"
    then have "lead w = CHR ''n''" "\<not> is_number w"
      using same_lead [OF ok eq] by (auto simp: lead_def)
    then have "w = JNull" by (cases w) (auto simp: lead_def split: if_splits)
    with eq show "JNull = w \<and> r = s" by auto
  qed
next
  case (JBool b)
  show ?case
  proof (rule cancelsI)
    fix w r s
    assume eq: "print rt (JBool b) @ r = print rt w @ s"
    then have "lead w = lead (JBool b)" "\<not> is_number w"
      using same_lead [OF ok eq] by auto
    then have "w = JBool b" by (cases w) (auto simp: lead_def split: if_splits)
    with eq show "JBool b = w \<and> r = s" by auto
  qed
qed

lemma canonical_text_inj:
  assumes "float_repr_ok rt" and "canonical_json rt a = canonical_json rt b"
  shows "jnorm a = jnorm b"
proof -
  have "print rt (jnorm a) @ [] = print rt (jnorm b) @ []"
    using assms(2) by (simp add: canonical_json_def dumps_eq_print)
  then show ?thesis
    using cancelsD [OF print_cancel [OF assms(1)]] by (metis at_delim_def)
qed

text \<open>
  C36. The canonical serialisation loses nothing but the order of keys: two JSON values have the
  same canonical text exactly when they are equal once the keys of every object are sorted, so a
  digest of the text is a digest of the value.
\<close>

theorem canonical_json_inj:
  assumes "float_repr_ok rt"
  shows "canonical_json rt a = canonical_json rt b \<longleftrightarrow> jnorm a = jnorm b"
  using canonical_text_inj [OF assms] by (auto simp: canonical_json_def dumps_eq_print)

lemma map_fst_jnorm_fields: "map fst (jnorm_fields kvs) = map fst kvs"
  by (simp add: jnorm_fields_map comp_def)

lemma jnorm_object_order:
  assumes "distinct (map fst kvs)" and "mset kvs = mset kvs'"
  shows "jnorm (JObj kvs) = jnorm (JObj kvs')"
proof -
  have d: "distinct (map fst (jnorm_fields kvs))"
    using assms(1) by (simp add: map_fst_jnorm_fields)
  then have inj: "inj_on fst (set (jnorm_fields kvs))"
    by (simp add: distinct_map)
  have ms: "mset (jnorm_fields kvs) = mset (jnorm_fields kvs')"
    using assms(2) by (simp add: jnorm_fields_map)
  have "sort_key fst (jnorm_fields kvs) = sort_key fst (jnorm_fields kvs')"
    by (rule sort_key_inj_key_eq) (use ms inj in simp_all)
  then show ?thesis by simp
qed

text \<open>Objects that are equal up to key order agree on every field.\<close>

lemma jnorm_object_field:
  assumes "jnorm (JObj kvs) = jnorm (JObj kvs')" and "(k, v) \<in> set kvs" and "distinct (map fst kvs')"
  shows "map_of (jnorm_fields kvs') k = Some (jnorm v)"
proof -
  have "set (jnorm_fields kvs) = set (jnorm_fields kvs')"
    using assms(1) by (metis jnorm.simps(2) json.inject(6) set_sort)
  moreover have "(k, jnorm v) \<in> set (jnorm_fields kvs)"
    using assms(2) by (force simp: jnorm_fields_map)
  ultimately show ?thesis
    using assms(3) by (metis map_fst_jnorm_fields map_of_is_SomeI)
qed

section \<open>The Merkle root binds the entries\<close>

text \<open>The strings hashed above the leaves.\<close>

fun pair_inputs :: "string list \<Rightarrow> string list" where
  "pair_inputs [] = []"
| "pair_inputs [x] = [x @ x]"
| "pair_inputs (x # y # zs) = (x @ y) # pair_inputs zs"

function merkle_inputs :: "runtime \<Rightarrow> string list \<Rightarrow> string list" where
  "merkle_inputs rt leaves = (if length leaves > 1
     then pair_inputs leaves @ merkle_inputs rt (merkle_pairs rt leaves) else [])"
  by pat_completeness auto
termination
  by (relation "measure (\<lambda>(rt, leaves). length leaves)") auto

declare merkle_inputs.simps [simp del]

definition entry_input :: "string \<times> string \<Rightarrow> string" where
  "entry_input e = fst e @ CHR 0x00 # snd e"

definition entry_inputs :: "runtime \<Rightarrow> (string \<times> string) list \<Rightarrow> string list" where
  "entry_inputs rt es = map entry_input es @ merkle_inputs rt (map (merkle_leaf rt) (sort es))"

lemma merkle_pairs_map: "merkle_pairs rt xs = map (rt_sha256 rt) (pair_inputs xs)"
  by (induction xs rule: pair_inputs.induct) (simp_all add: sha256_bytes_def)

lemma length_pair_inputs [simp]: "length (pair_inputs xs) = (length xs + 1) div 2"
  by (induction xs rule: pair_inputs.induct) auto

lemma pair_inputs_inj:
  assumes "length xs = length ys" and "\<forall>x \<in> set xs \<union> set ys. length x = n"
    and "pair_inputs xs = pair_inputs ys"
  shows "xs = ys"
  using assms
proof (induction xs arbitrary: ys rule: pair_inputs.induct)
  case (2 x)
  then obtain y where "ys = [y]" by (metis length_Suc_conv length_0_conv)
  with 2 show ?case by simp
next
  case (3 x x' zs)
  then obtain y y' ws where "ys = y # y' # ws"
    by (metis length_Suc_conv length_Cons)
  with 3 show ?case by auto
qed simp

lemma set_merkle_inputs: "length xs > 1 \<Longrightarrow>
    set (merkle_inputs rt xs) = set (pair_inputs xs) \<union> set (merkle_inputs rt (merkle_pairs rt xs))"
  by (simp add: merkle_inputs.simps [of rt xs])

lemma merkle_levels_inj:
  assumes "length xs = length ys" and "\<forall>x \<in> set xs \<union> set ys. length x = 64"
    and "\<forall>s. length (rt_sha256 rt s) = 64"
    and "inj_on (rt_sha256 rt) (set (merkle_inputs rt xs) \<union> set (merkle_inputs rt ys))"
    and "merkle_levels rt xs = merkle_levels rt ys"
  shows "xs = ys"
  using assms
proof (induction rt xs arbitrary: ys rule: merkle_levels.induct)
  case (1 rt xs)
  show ?case
  proof (cases "length xs > 1")
    case True
    with "1.prems"(1) have len: "length ys > 1" by simp
    note inputs = set_merkle_inputs [OF True, of rt] set_merkle_inputs [OF len, of rt]
    have "merkle_pairs rt xs = merkle_pairs rt ys"
    proof (rule "1.IH" [OF True])
      show "inj_on (rt_sha256 rt) (set (merkle_inputs rt (merkle_pairs rt xs)) \<union>
          set (merkle_inputs rt (merkle_pairs rt ys)))"
        using "1.prems"(4) unfolding inputs by (rule inj_on_subset) blast
    qed (use "1.prems" True in \<open>auto simp: merkle_levels.simps [of rt xs] merkle_levels.simps [of rt ys] merkle_pairs_map\<close>)
    then have "map (rt_sha256 rt) (pair_inputs xs) = map (rt_sha256 rt) (pair_inputs ys)"
      by (simp only: merkle_pairs_map)
    then have "pair_inputs xs = pair_inputs ys"
      by (rule map_inj_on) (rule inj_on_subset [OF "1.prems"(4) [unfolded inputs]], blast)
    then show ?thesis by (rule pair_inputs_inj [OF "1.prems"(1,2)])
  next
    case False
    with "1.prems" show ?thesis
      by (simp add: merkle_levels.simps [of rt xs] merkle_levels.simps [of rt ys])
  qed
qed

lemma merkle_levels_singleton: "xs \<noteq> [] \<Longrightarrow> \<exists>y. merkle_levels rt xs = [y]"
proof (induction rt xs rule: merkle_levels.induct)
  case (1 rt xs)
  show ?case
  proof (cases "length xs > 1")
    case True
    then have "merkle_pairs rt xs \<noteq> []" by (auto simp flip: length_greater_0_conv)
    with True "1.IH" show ?thesis by (simp add: merkle_levels.simps [of rt xs])
  next
    case False
    with "1.prems" show ?thesis by (cases xs) (auto simp: merkle_levels.simps)
  qed
qed

lemma entry_input_inj:
  "CHR 0x00 \<notin> set (fst e) \<Longrightarrow> CHR 0x00 \<notin> set (fst e') \<Longrightarrow> entry_input e = entry_input e' \<Longrightarrow> e = e'"
  by (cases e; cases e') (auto simp: entry_input_def append_eq_append_conv2 append_eq_Cons_conv Cons_eq_append_conv)

text \<open>The Merkle root of a package does not depend on the order in which its files are listed.\<close>

lemma merkle_root_order: "mset es = mset fs \<Longrightarrow> merkle_root rt es = merkle_root rt fs"
  unfolding merkle_root_def by (metis sorted_list_of_multiset_mset)

text \<open>
  Two packages with the same number of files and the same Merkle root have the same files: if
  the 64-character digests of the strings hashed on the way do not collide and no path holds a NUL
  character, equal roots imply equal path and digest entries.
\<close>

lemma merkle_root_binds:
  assumes "length es = length fs" and "es \<noteq> []"
    and "\<forall>e \<in> set es \<union> set fs. CHR 0x00 \<notin> set (fst e)"
    and hex: "\<forall>s. length (rt_sha256 rt s) = 64"
    and inj: "inj_on (rt_sha256 rt) (set (entry_inputs rt es) \<union> set (entry_inputs rt fs))"
    and "merkle_root rt es = merkle_root rt fs"
  shows "mset es = mset fs"
proof -
  let ?l = "\<lambda>es. map (merkle_leaf rt) (sort es)"
  have leaf: "merkle_leaf rt e = rt_sha256 rt (entry_input e)" for e
    by (simp add: merkle_leaf_def sha256_bytes_def entry_input_def)
  have ne: "?l es \<noteq> []" "?l fs \<noteq> []"
    using assms(1,2) by (metis length_0_conv length_map length_sort)+
  obtain x y where xy: "merkle_levels rt (?l es) = [x]" "merkle_levels rt (?l fs) = [y]"
    using merkle_levels_singleton [OF ne(1)] merkle_levels_singleton [OF ne(2)] by blast
  with assms(6) ne have "merkle_levels rt (?l es) = merkle_levels rt (?l fs)"
    by (simp add: merkle_root_def Let_def)
  moreover have "inj_on (rt_sha256 rt) (set (merkle_inputs rt (?l es)) \<union> set (merkle_inputs rt (?l fs)))"
    by (rule inj_on_subset [OF inj]) (auto simp: entry_inputs_def)
  moreover have "\<forall>x \<in> set (?l es) \<union> set (?l fs). length x = 64"
    using hex by (auto simp: leaf)
  ultimately have "?l es = ?l fs"
    using assms(1) hex by (intro merkle_levels_inj [of "?l es" "?l fs" rt]) simp_all
  then have "map (rt_sha256 rt) (map entry_input (sort es)) = map (rt_sha256 rt) (map entry_input (sort fs))"
    by (simp add: leaf [symmetric] comp_def)
  then have "map entry_input (sort es) = map entry_input (sort fs)"
    by (rule map_inj_on) (rule inj_on_subset [OF inj], auto simp: entry_inputs_def)
  then have "sort es = sort fs"
    by (rule map_inj_on) (rule inj_onI, rule entry_input_inj, use assms(3) in \<open>simp_all\<close>)
  then show ?thesis by (metis mset_sort)
qed


text \<open>The canonical text of an object does not depend on the order of its items.\<close>

lemma canonical_json_key_order:
  assumes "distinct (map fst kvs)" and "mset kvs = mset kvs'"
  shows "canonical_json rt (JObj kvs) = canonical_json rt (JObj kvs')"
  using jnorm_object_order [OF assms] by (simp add: canonical_json_def dumps_eq_print)

section \<open>Instances\<close>

text \<open>A runtime whose float texts satisfy \<open>float_repr_ok\<close>, for closed examples.\<close>

definition sample_float_repr :: "rat \<Rightarrow> string" where
  "sample_float_repr q = int_repr (fst (quotient_of q)) @ CHR ''e'' # int_repr (snd (quotient_of q))"

definition sample_sha256 :: "string \<Rightarrow> string" where
  "sample_sha256 s = replicate 63 CHR ''0'' @ [if s = [] then CHR ''0'' else
     if hd s = CHR ''a'' then CHR ''a'' else if hd s = CHR ''b'' then CHR ''b'' else CHR ''c'']"

definition sample_runtime :: runtime where
  "sample_runtime = \<lparr>rt_sha256 = sample_sha256, rt_hmac = (\<lambda>k s. k @ s), rt_float_repr = sample_float_repr\<rparr>"

lemma int_repr_no_e: "CHR ''e'' \<notin> set (int_repr i)"
  using int_repr_chars [of i] by (auto simp: digits_def)

lemma sample_float_repr_inj: "inj sample_float_repr"
proof (rule injI)
  fix p q
  assume "sample_float_repr p = sample_float_repr q"
  then have "int_repr (fst (quotient_of p)) = int_repr (fst (quotient_of q))
      \<and> CHR ''e'' # int_repr (snd (quotient_of p)) = CHR ''e'' # int_repr (snd (quotient_of q))"
    unfolding sample_float_repr_def
    by (intro text_run_cancel [where C = "- {CHR ''e''}"]) (auto simp: int_repr_no_e)
  then have "quotient_of p = quotient_of q"
    by (auto dest: int_repr_inj intro: prod_eqI)
  then show "p = q" by (rule quotient_of_inject)
qed

lemma sample_float_repr_ok: "float_repr_ok sample_runtime"
proof -
  have "set (int_repr i) \<subseteq> number_chars" for i
    using int_repr_chars [of i] by (auto simp: number_chars_def)
  then show ?thesis
    by (auto simp: float_repr_ok_def sample_runtime_def sample_float_repr_inj sample_float_repr_def number_chars_def)
qed

lemma canonical_json_inj_witness:
  "jnorm (JObj [(''b'', JFloat 2), (''a'', JArr [JInt 1, JNull])])
     = jnorm (JObj [(''a'', JArr [JInt 1, JNull]), (''b'', JFloat 2)])"
  by (rule canonical_json_inj [OF sample_float_repr_ok, THEN iffD1]) (simp add: canonical_json_def)

lemma canonical_json_key_order_witness:
  "canonical_json sample_runtime (JObj [(''b'', JInt 2), (''a'', JNull)])
     = canonical_json sample_runtime (JObj [(''a'', JNull), (''b'', JInt 2)])"
  by (rule canonical_json_key_order) (simp_all add: add_mset_commute)

lemma merkle_root_order_witness:
  "merkle_root sample_runtime [(''b'', ''2''), (''a'', ''1'')] = merkle_root sample_runtime [(''a'', ''1''), (''b'', ''2'')]"
  by (rule merkle_root_order) (simp add: add_mset_commute)

lemma merkle_root_binds_witness:
  "mset [(''b'', ''2''), (''a'', ''1'')] = mset [(''a'', ''1''), (''b'', ''2'')]"
proof (rule merkle_root_binds [of _ _ sample_runtime])
  show "inj_on (rt_sha256 sample_runtime)
     (set (entry_inputs sample_runtime [(''b'', ''2''), (''a'', ''1'')]) \<union>
      set (entry_inputs sample_runtime [(''a'', ''1''), (''b'', ''2'')]))"
    by (auto simp: inj_on_def entry_inputs_def entry_input_def merkle_inputs.simps merkle_leaf_def
        sha256_bytes_def sample_runtime_def sample_sha256_def)
  show "merkle_root sample_runtime [(''b'', ''2''), (''a'', ''1'')] = merkle_root sample_runtime [(''a'', ''1''), (''b'', ''2'')]"
    by (simp add: merkle_root_def)
qed (simp_all add: sample_runtime_def sample_sha256_def)

end
