(* ===== verification/Sip_Errors.thy ===== *)
theory Sip_Errors
  imports Canonical
begin

text \<open>
  \<open>src/sip/errors.py\<close> and the enumerations of \<open>src/sip/models.py\<close>.

  An exception of the \<open>SIPError\<close> family is its class, its stable error code and its
  structured details; the human-readable message is not part of the model (\<open>as_dict\<close> takes it
  as an argument). \<open>Uncaught\<close> stands for any other Python exception, by its class name: an
  \<open>IntegrityError\<close> of the database, a \<open>ValueError\<close>, a pydantic validation error.
\<close>

datatype sip_error =
    SIPError string fields int "bool option"
  | ValidationError string fields
  | AuthorizationError string fields
  | AuthenticationError string fields
  | ConflictError string fields
  | NotFoundError string string
  | Uncaught string

fun status_code :: "sip_error \<Rightarrow> int" where
  "status_code (SIPError c d s r) = s"
| "status_code (ValidationError c d) = 422"
| "status_code (AuthorizationError c d) = 403"
| "status_code (AuthenticationError c d) = 401"
| "status_code (ConflictError c d) = 409"
| "status_code (NotFoundError t i) = 404"
| "status_code (Uncaught n) = 500"

fun error_code :: "sip_error \<Rightarrow> string" where
  "error_code (SIPError c d s r) = c"
| "error_code (ValidationError c d) = c"
| "error_code (AuthorizationError c d) = c"
| "error_code (AuthenticationError c d) = c"
| "error_code (ConflictError c d) = c"
| "error_code (NotFoundError t i) = ''NOT_FOUND''"
| "error_code (Uncaught n) = n"

fun error_details :: "sip_error \<Rightarrow> fields" where
  "error_details (SIPError c d s r) = d"
| "error_details (ValidationError c d) = d"
| "error_details (AuthorizationError c d) = d"
| "error_details (AuthenticationError c d) = d"
| "error_details (ConflictError c d) = d"
| "error_details (NotFoundError t i) = [(''resource_type'', JStr t), (''resource_id'', JStr i)]"
| "error_details (Uncaught n) = []"

text \<open>\<open>self.retryable = status_code >= 500 if retryable is None else retryable\<close>; the
  subclasses pass \<open>retryable=False\<close>.\<close>

fun retryable :: "sip_error \<Rightarrow> bool" where
  "retryable (SIPError c d s r) = (case r of None \<Rightarrow> s \<ge> 500 | Some b \<Rightarrow> b)"
| "retryable e = False"

definition as_dict :: "sip_error \<Rightarrow> string \<Rightarrow> string option \<Rightarrow> string option \<Rightarrow> json" where
  "as_dict e message request_id trace_id = JObj [(''error'', JObj [
     (''code'', JStr (error_code e)),
     (''message'', JStr message),
     (''details'', JObj (error_details e)),
     (''retryable'', JBool (retryable e)),
     (''correlation'', JObj [
        (''request_id'', JStr (str_or request_id ''none'')),
        (''trace_id'', JStr (str_or trace_id ''none''))])])]"

section \<open>Enumerations of the domain\<close>

datatype classification = PUBLIC | INTERNAL | CONFIDENTIAL | RESTRICTED
  | CRITICAL_INFRASTRUCTURE | BIOMETRIC | MINOR

fun classification_value :: "classification \<Rightarrow> string" where
  "classification_value PUBLIC = ''public''"
| "classification_value INTERNAL = ''internal''"
| "classification_value CONFIDENTIAL = ''confidential''"
| "classification_value RESTRICTED = ''restricted''"
| "classification_value CRITICAL_INFRASTRUCTURE = ''critical_infrastructure''"
| "classification_value BIOMETRIC = ''biometric''"
| "classification_value MINOR = ''minor''"

datatype source_class = Source_DIRECT_CAPTURE | Source_OBSERVED | Source_MEASURED |
    Source_VERIFIED | Source_DESIGN | Source_PROPOSED | Source_INFERRED | Source_GENERATED |
    Source_RECALLED | Source_CORROBORATED | Source_DISPUTED | Source_SUPERSEDED

fun source_class_value :: "source_class \<Rightarrow> string" where
  "source_class_value Source_DIRECT_CAPTURE = ''direct_capture''"
| "source_class_value Source_OBSERVED = ''observed''"
| "source_class_value Source_MEASURED = ''measured''"
| "source_class_value Source_VERIFIED = ''verified''"
| "source_class_value Source_DESIGN = ''design''"
| "source_class_value Source_PROPOSED = ''proposed''"
| "source_class_value Source_INFERRED = ''inferred''"
| "source_class_value Source_GENERATED = ''generated''"
| "source_class_value Source_RECALLED = ''recalled''"
| "source_class_value Source_CORROBORATED = ''corroborated''"
| "source_class_value Source_DISPUTED = ''disputed''"
| "source_class_value Source_SUPERSEDED = ''superseded''"

datatype authority_class = Authority_NONE | Authority_EVIDENCE | Authority_METRIC |
    Authority_DESIGN | Authority_VISUAL | Authority_DERIVED_NON_AUTHORITATIVE |
    Authority_FIELD_VERIFIED | Authority_HISTORICAL_ASSERTION

fun authority_class_value :: "authority_class \<Rightarrow> string" where
  "authority_class_value Authority_NONE = ''none''"
| "authority_class_value Authority_EVIDENCE = ''evidence''"
| "authority_class_value Authority_METRIC = ''metric''"
| "authority_class_value Authority_DESIGN = ''design''"
| "authority_class_value Authority_VISUAL = ''visual''"
| "authority_class_value Authority_DERIVED_NON_AUTHORITATIVE = ''derived_non_authoritative''"
| "authority_class_value Authority_FIELD_VERIFIED = ''field_verified''"
| "authority_class_value Authority_HISTORICAL_ASSERTION = ''historical_assertion''"

datatype audience = PRIVATE | FAMILY | PROJECT | OWNER | PUBLIC_AUDIENCE

datatype operation_state = PENDING | LEASED | RUNNING | SUCCEEDED | FAILED
  | CANCEL_REQUESTED | CANCELLED | QUARANTINED

fun state_value :: "operation_state \<Rightarrow> string" where
  "state_value PENDING = ''pending''"
| "state_value LEASED = ''leased''"
| "state_value RUNNING = ''running''"
| "state_value SUCCEEDED = ''succeeded''"
| "state_value FAILED = ''failed''"
| "state_value CANCEL_REQUESTED = ''cancel_requested''"
| "state_value CANCELLED = ''cancelled''"
| "state_value QUARANTINED = ''quarantined''"

text \<open>The claims a signed token carries about its bearer.\<close>

record principal =
  subject_id :: string
  p_tenant_id :: string
  project_ids :: "string list"
  roles :: "string list"
  purposes :: "string list"
  p_audience :: audience
  spatial_region_ids :: "string list"

section \<open>Retry semantics\<close>

text \<open>A domain error (4xx) is never marked retryable by its class.\<close>

lemma retryable_status: "retryable e \<Longrightarrow> (\<exists>c d s r. e = SIPError c d s r)"
  by (cases e) auto

end
