(* ===== verification/Floats.thy ===== *)
theory Floats
  imports Complex_Main
begin

text \<open>
  The \<open>float\<close> of the language: IEEE doubles with the infinities and one NaN. A finite float is its
  exact value, a rational; the sign of a zero, which no test of the sources reads, is not kept. The
  operations compute the exact result and round it once, to the nearest double with ties to even, and
  a result beyond the largest double is an infinity. Comparisons with NaN are false.

  \<open>double_of_error\<close> bounds the rounding error and \<open>not_float_lt_conv\<close> says what a comparison that fails
  tells; the quota properties use both.
\<close>

section \<open>Values and comparisons\<close>

datatype py_float = Finite rat | Infinite bool | NaN

text \<open>The argument of \<^term>\<open>Infinite\<close> tells whether the infinity is the negative one.\<close>

definition is_finite :: "py_float \<Rightarrow> bool" where
  "is_finite x = (case x of Finite _ \<Rightarrow> True | _ \<Rightarrow> False)"

definition rat_of :: "py_float \<Rightarrow> rat" where
  "rat_of x = (case x of Finite q \<Rightarrow> q | _ \<Rightarrow> 0)"

fun float_lt :: "py_float \<Rightarrow> py_float \<Rightarrow> bool" where
  "float_lt NaN _ = False"
| "float_lt _ NaN = False"
| "float_lt (Finite a) (Finite b) = (a < b)"
| "float_lt (Finite _) (Infinite negative) = (\<not> negative)"
| "float_lt (Infinite negative) (Finite _) = negative"
| "float_lt (Infinite m) (Infinite n) = (m \<and> \<not> n)"

definition float_le :: "py_float \<Rightarrow> py_float \<Rightarrow> bool" where
  "float_le a b = (float_lt a b \<or> a = b \<and> a \<noteq> NaN)"

section \<open>Rounding\<close>

fun bit_length :: "int \<Rightarrow> nat" where
  "bit_length n = (if n \<le> 0 then 0 else Suc (bit_length (n div 2)))"

declare bit_length.simps [simp del]

text \<open>The binary exponent of a positive rational: the \<open>e\<close> with \<open>2 ^ e \<le> x < 2 ^ (e + 1)\<close>.\<close>

definition binary_exponent :: "rat \<Rightarrow> int" where
  "binary_exponent x =
     (case quotient_of x of (n, d) \<Rightarrow>
        let e = int (bit_length n) - int (bit_length d) in if 2 powi e \<le> x then e else e - 1)"

definition round_half_even :: "rat \<Rightarrow> int" where
  "round_half_even x =
     (let n = \<lfloor>x\<rfloor>; r = x - of_int n
      in if r < 1 / 2 then n else if r > 1 / 2 then n + 1 else if even n then n else n + 1)"

text \<open>The distance of the doubles around a number: 53 significant bits, and the subnormal numbers
  below \<open>2 ^ -1022\<close>.\<close>

definition spacing :: "rat \<Rightarrow> rat" where
  "spacing x = 2 powi (max (binary_exponent \<bar>x\<bar> - 52) (- 1074))"

definition double_of :: "rat \<Rightarrow> py_float" where
  "double_of x =
     (if x = 0 then Finite 0
      else let y = of_int (round_half_even (x / spacing x)) * spacing x
           in if \<bar>y\<bar> < 2 ^ 1024 then Finite y else Infinite (x < 0))"

section \<open>Arithmetic\<close>

fun float_add :: "py_float \<Rightarrow> py_float \<Rightarrow> py_float" where
  "float_add NaN _ = NaN"
| "float_add _ NaN = NaN"
| "float_add (Finite a) (Finite b) = double_of (a + b)"
| "float_add (Finite _) (Infinite n) = Infinite n"
| "float_add (Infinite m) (Finite _) = Infinite m"
| "float_add (Infinite m) (Infinite n) = (if m = n then Infinite m else NaN)"

fun float_mul :: "py_float \<Rightarrow> py_float \<Rightarrow> py_float" where
  "float_mul NaN _ = NaN"
| "float_mul _ NaN = NaN"
| "float_mul (Finite a) (Finite b) = double_of (a * b)"
| "float_mul (Finite a) (Infinite n) = (if a = 0 then NaN else Infinite (n \<noteq> (a < 0)))"
| "float_mul (Infinite m) (Finite b) = (if b = 0 then NaN else Infinite (m \<noteq> (b < 0)))"
| "float_mul (Infinite m) (Infinite n) = Infinite (m \<noteq> n)"

section \<open>The rounding error\<close>

lemma bit_length_bounds: "0 < n \<Longrightarrow> 0 < bit_length n \<and> 2 ^ (bit_length n - 1) \<le> n \<and> n < 2 ^ bit_length n"
proof (induction n rule: bit_length.induct)
  case (1 n)
  show ?case
  proof (cases "n = 1")
    case True
    then show ?thesis by (simp add: bit_length.simps)
  next
    case False
    with 1 have m: "0 < bit_length (n div 2)" "2 ^ (bit_length (n div 2) - 1) \<le> n div 2" "n div 2 < 2 ^ bit_length (n div 2)"
      by (simp_all add: pos_imp_zdiv_pos_iff)
    have n: "bit_length n = Suc (bit_length (n div 2))"
      using 1(2) by (simp add: bit_length.simps [of n])
    obtain k where "bit_length (n div 2) = Suc k" using m(1) by (cases "bit_length (n div 2)") auto
    with m n have "2 ^ k \<le> n div 2" "n div 2 < 2 * 2 ^ k" "bit_length n = Suc (Suc k)" by simp_all
    then show ?thesis unfolding power_Suc diff_Suc_1 by (simp; linarith)
  qed
qed

lemma binary_exponent_le:
  assumes "0 < x"
  shows "2 powi binary_exponent x \<le> x"
proof -
  obtain n d where q: "quotient_of x = (n, d)" by fastforce
  then have d: "0 < d" and x: "x = of_int n / of_int d" by (auto dest: quotient_of_denom_pos quotient_of_div)
  with assms have n: "0 < n" by (simp add: zero_less_divide_iff)
  obtain a b where a: "bit_length n = Suc a" and b: "bit_length d = b"
    using bit_length_bounds [OF n] by (cases "bit_length n") auto
  have "rat_of_int (2 ^ a) \<le> of_int n" "of_int d \<le> rat_of_int (2 ^ b)"
    using bit_length_bounds [OF n] bit_length_bounds [OF d] a b by (simp_all only: of_int_le_iff) simp_all
  then have "(2::rat) ^ a / 2 ^ b \<le> of_int n / of_int d"
    using n d by (intro frac_le) simp_all
  moreover have "(2::rat) powi (int a - int b) = 2 ^ a / 2 ^ b"
    by (subst power_int_diff) simp_all
  ultimately have "2 powi (int (bit_length n) - int (bit_length d) - 1) \<le> x" by (simp add: a b x)
  then show ?thesis by (simp add: binary_exponent_def q Let_def)
qed

lemma round_half_even_error: "\<bar>of_int (round_half_even x) - x\<bar> \<le> 1 / 2"
proof -
  have n: "of_int \<lfloor>x\<rfloor> \<le> x" "x < of_int \<lfloor>x\<rfloor> + 1" by linarith+
  consider "round_half_even x = \<lfloor>x\<rfloor>" "x - of_int \<lfloor>x\<rfloor> \<le> 1 / 2" | "round_half_even x = \<lfloor>x\<rfloor> + 1" "1 / 2 \<le> x - of_int \<lfloor>x\<rfloor>"
    by (cases "x - of_int \<lfloor>x\<rfloor> < 1 / 2"; cases "x - of_int \<lfloor>x\<rfloor> > 1 / 2"; cases "even \<lfloor>x\<rfloor>") (simp_all add: round_half_even_def)
  then show ?thesis using n unfolding abs_le_iff by cases (simp only: of_int_add of_int_1, linarith)+
qed

lemma spacing_pos: "0 < spacing x"
  by (simp add: spacing_def)

lemma powi_pred: "2 powi (k - 1) = (2 powi k :: rat) / 2"
  by (simp add: power_int_diff)

lemma powi_shift:
  assumes "0 < x"
  shows "2 powi (binary_exponent x + k) \<le> x * 2 powi k"
  using binary_exponent_le [OF assms] by (simp add: power_int_add mult_right_mono)

text \<open>The rounding error of an operation: half a unit in the last of 53 bits, or half the smallest
  subnormal number.\<close>

definition rounding_error :: "rat \<Rightarrow> rat" where
  "rounding_error x = max (\<bar>x\<bar> * 2 powi (- 53)) (2 powi (- 1075))"

lemma spacing_le:
  assumes "x \<noteq> 0"
  shows "spacing x / 2 \<le> rounding_error x"
proof -
  have "spacing x / 2 = 2 powi (max (binary_exponent \<bar>x\<bar> + - 53) (- 1075))"
    unfolding spacing_def powi_pred [symmetric] by (rule arg_cong [of _ _ "(powi) 2"]) (simp add: max_def)
  also have "\<dots> \<le> rounding_error x"
    using powi_shift [of "\<bar>x\<bar>" "- 53"] assms unfolding rounding_error_def max_def by auto
  finally show ?thesis .
qed

lemma double_of_error:
  assumes "double_of x = Finite y"
  shows "\<bar>y - x\<bar> \<le> rounding_error x"
proof (cases "x = 0")
  case True
  with assms show ?thesis unfolding double_of_def rounding_error_def by (auto simp: le_max_iff_disj)
next
  case False
  then have y: "y = of_int (round_half_even (x / spacing x)) * spacing x"
    using assms by (simp add: double_of_def Let_def split: if_splits)
  have "y - x = (of_int (round_half_even (x / spacing x)) - x / spacing x) * spacing x"
    using spacing_pos [of x] by (simp add: y left_diff_distrib)
  then have "\<bar>y - x\<bar> = \<bar>of_int (round_half_even (x / spacing x)) - x / spacing x\<bar> * spacing x"
    using spacing_pos [of x] by (simp add: abs_mult)
  also have "\<dots> \<le> 1 / 2 * spacing x"
    using round_half_even_error spacing_pos [of x] by (intro mult_right_mono) auto
  also have "\<dots> \<le> rounding_error x"
    using spacing_le [OF False] by simp
  finally show ?thesis .
qed

lemma not_float_lt_conv: "\<not> float_lt b a \<longleftrightarrow> float_le a b \<or> a = NaN \<or> b = NaN"
  by (cases a; cases b) (auto simp: float_le_def)

lemma float_le_simps [simp]:
  "float_le (Finite a) (Finite b) = (a \<le> b)" "float_le x NaN = False" "float_le NaN x = False"
  by (auto simp: float_le_def elim: float_lt.elims)

end
