(* ===== verification/Sip_Database.thy ===== *)
theory Sip_Database
  imports Sip_Errors Floats
begin

text \<open>
  \<open>src/sip/database.py\<close>: the rows of the tables the modelled services use, the database as
  the record of its tables, and \<open>Database.session\<close>.

  A service method is a function from the database to \<open>sip_error + 'a \<times> db\<close>: the body of
  its \<open>with self.database.session()\<close> block. \<open>session\<close> commits what the body returned and
  rolls back when it raised. Sessions autoflush, so a query in the body sees the rows the body
  has added before. The results of \<open>new_uuid()\<close> and \<open>db_now()\<close> are supplied by an
  \<open>env\<close>: \<open>ids E i\<close> and \<open>clk E i\<close> are the results of its i-th call site in the method (a callee's included).
\<close>

record env =
  ids :: "nat \<Rightarrow> string"
  clk :: "nat \<Rightarrow> time"

text \<open>The calls of a method that is called by another, counted from \<open>n\<close> on.\<close>

definition shift_env :: "nat \<Rightarrow> env \<Rightarrow> env" where
  "shift_env n E = \<lparr>ids = (\<lambda>i. ids E (n + i)), clk = (\<lambda>i. clk E (n + i))\<rparr>"

section \<open>Rows\<close>

record tenant_row =
  t_tenant_id :: string
  t_name :: string
  t_status :: string
  t_created_at :: time

record project_row =
  pr_project_id :: string
  pr_tenant_id :: string
  pr_name :: string
  pr_vertical :: string
  pr_classification :: string
  pr_status :: string
  pr_created_at :: time

record identity_row =
  i_identity_id :: string
  i_tenant_id :: string
  i_identity_type :: string
  i_display_name :: string
  i_disabled :: bool
  i_attributes_json :: fields
  i_created_at :: time

record role_binding_row =
  rb_binding_id :: string
  rb_tenant_id :: string
  rb_project_id :: "string option"
  rb_identity_id :: string
  rb_role :: string
  rb_purposes_json :: "string list"
  rb_spatial_restrictions_json :: "fields list"
  rb_expires_at :: "time option"
  rb_created_at :: time

record asset_row =
  a_sha256 :: string
  a_byte_count :: int
  a_media_type :: string
  a_storage_key :: string
  a_encryption_metadata :: fields
  a_created_at :: time

record asset_ref_row =
  r_asset_id :: string
  r_tenant_id :: string
  r_project_id :: string
  r_sha256 :: string
  r_original_name :: string
  r_classification :: string
  r_retention_class :: string
  r_source_class :: string
  r_authority_class :: string
  r_provenance_json :: fields
  r_legal_hold :: bool
  r_created_by :: string
  r_created_at :: time
  r_tombstoned_at :: "time option"

record multipart_upload_row =
  mu_upload_id :: string
  mu_tenant_id :: string
  mu_project_id :: string
  mu_expected_sha256 :: string
  mu_expected_bytes :: int
  mu_media_type :: string
  mu_metadata_json :: fields
  mu_state :: string
  mu_created_by :: string
  mu_created_at :: time
  mu_completed_at :: "time option"

record multipart_chunk_row =
  mc_chunk_id :: string
  mc_upload_id :: string
  mc_part_number :: int
  mc_sha256 :: string
  mc_byte_count :: int
  mc_path :: string
  mc_created_at :: time

record audit_event_row =
  ae_audit_id :: string
  ae_tenant_id :: string
  ae_project_id :: "string option"
  ae_actor_id :: string
  ae_action :: string
  ae_resource_type :: string
  ae_resource_id :: string
  ae_outcome :: string
  ae_details_json :: fields
  ae_occurred_at :: time
  ae_previous_hash :: string
  ae_event_hash :: string
  ae_signature :: string

record operation_row =
  o_operation_id :: string
  o_tenant_id :: string
  o_project_id :: string
  o_operation_type :: string
  o_idempotency_key :: string
  o_input_manifest_hash :: string
  o_input_json :: fields
  o_traceparent :: "string option"
  o_state :: operation_state
  o_progress :: rat
  o_attempt :: int
  o_max_attempts :: int
  o_lease_owner :: "string option"
  o_lease_expires_at :: "time option"
  o_checkpoint_json :: fields
  o_output_json :: fields
  o_output_hash :: "string option"
  o_error_json :: fields
  o_cancel_requested :: bool
  o_created_by :: string
  o_created_at :: time
  o_updated_at :: time

record outbox_event_row =
  e_event_id :: string
  e_tenant_id :: string
  e_project_id :: "string option"
  e_event_type :: string
  e_schema_version :: string
  e_aggregate_type :: string
  e_aggregate_id :: string
  e_producer :: string
  e_classification :: string
  e_actor_id :: "string option"
  e_workload_identity :: "string option"
  e_trace_id :: "string option"
  e_correlation_id :: "string option"
  e_causation_id :: "string option"
  e_payload_json :: fields
  e_payload_hash :: string
  e_occurred_at :: time
  e_recorded_at :: time
  e_published_at :: "time option"
  e_delivery_attempts :: int

record notification_row =
  n_notification_id :: string
  n_tenant_id :: string
  n_project_id :: string
  n_recipient_id :: string
  n_channel :: string
  n_template_id :: string
  n_payload_json :: fields
  n_sensitive :: bool
  n_state :: string
  n_created_at :: time

record comment_row =
  c_comment_id :: string
  c_tenant_id :: string
  c_project_id :: string
  c_scene_commit_id :: "string option"
  c_entity_id :: "string option"
  c_anchor_json :: "fields option"
  c_body :: string
  c_body_hash :: string
  c_author_id :: string
  c_supersedes_comment_id :: "string option"
  c_created_at :: time

record task_row =
  k_task_id :: string
  k_tenant_id :: string
  k_project_id :: string
  k_entity_id :: "string option"
  k_state :: string
  k_priority :: string
  k_title :: string
  k_description :: string
  k_assignee_id :: "string option"
  k_due_at :: "time option"
  k_created_by :: string
  k_created_at :: time

record retention_rule_row =
  rr_retention_rule_id :: string
  rr_tenant_id :: string
  rr_project_id :: "string option"
  rr_retention_class :: string
  rr_policy_source :: string
  rr_minimum_days :: int
  rr_maximum_days :: "int option"
  rr_backup_expiry_days :: int
  rr_deletion_mode :: string
  rr_active :: bool
  rr_version :: int
  rr_created_by :: string
  rr_created_at :: time

record legal_hold_row =
  h_hold_id :: string
  h_tenant_id :: string
  h_project_id :: string
  h_resource_type :: string
  h_resource_id :: string
  h_reason :: string
  h_authority_reference :: string
  h_state :: string
  h_placed_by :: string
  h_placed_at :: time
  h_released_by :: "string option"
  h_released_at :: "time option"

record backup_run_row =
  b_backup_id :: string
  b_tenant_id :: "string option"
  b_profile :: string
  b_backup_path :: string
  b_root_hash :: string
  b_schema_fingerprint :: string
  b_state :: string
  b_created_by :: string
  b_evidence :: fields
  b_created_at :: time
  b_verified_at :: "time option"
  b_restore_rehearsed_at :: "time option"

record deletion_request_row =
  d_deletion_id :: string
  d_tenant_id :: string
  d_project_id :: string
  d_resource_type :: string
  d_resource_id :: string
  d_dry_run_report :: fields
  d_backup_reference :: string
  d_state :: string
  d_requested_by :: string
  d_approved_by :: "string option"
  d_executed_by :: "string option"
  d_requested_at :: time
  d_approved_at :: "time option"
  d_executed_at :: "time option"

record deletion_evidence_row =
  de_evidence_id :: string
  de_deletion_id :: string
  de_tenant_id :: string
  de_project_id :: string
  de_resource_type :: string
  de_resource_id :: string
  de_action :: string
  de_affected_references :: "fields list"
  de_key_ids :: "string list"
  de_residual_locations :: "fields list"
  de_backup_expiry_deadline :: "time option"
  de_evidence_hash :: string
  de_created_at :: time

record key_rotation_row =
  kr_rotation_id :: string
  kr_old_key_id :: string
  kr_new_key_id :: string
  kr_object_count :: int
  kr_ciphertext_unchanged :: bool
  kr_evidence_hash :: string
  kr_state :: string
  kr_rotated_by :: string
  kr_rotated_at :: time
  kr_retired_key_destroyed_at :: "time option"

record quota_policy_row =
  q_quota_id :: string
  q_tenant_id :: string
  q_project_id :: "string option"
  q_resource_type :: string
  q_unit :: string
  q_period_seconds :: int
  q_soft_limit :: py_float
  q_hard_limit :: py_float
  q_active :: bool
  q_created_by :: string
  q_created_at :: time

record usage_ledger_row =
  u_usage_id :: string
  u_tenant_id :: string
  u_project_id :: string
  u_operation_id :: "string option"
  u_resource_type :: string
  u_quantity :: py_float
  u_unit :: string
  u_unit_cost :: py_float
  u_currency :: string
  u_price_source_version :: string
  u_estimated :: bool
  u_metadata_json :: fields
  u_occurred_at :: time

record export_row =
  x_export_id :: string
  x_tenant_id :: string
  x_project_id :: string
  x_format :: string
  x_status :: string
  x_manifest_json :: fields
  x_root_hash :: string
  x_path :: string
  x_created_by :: string
  x_created_at :: time

record scene_tag_row =
  sg_tag_id :: string
  sg_tenant_id :: string
  sg_project_id :: string
  sg_scene_id :: string
  sg_commit_id :: string
  sg_name :: string
  sg_immutable :: bool
  sg_metadata_json :: fields
  sg_created_by :: string
  sg_created_at :: time

record scene_commit_row =
  sc_commit_id :: string
  sc_tenant_id :: string
  sc_project_id :: string
  sc_scene_id :: string
  sc_branch :: string
  sc_parent_ids_json :: "string list"
  sc_message :: string
  sc_semantic_snapshot_json :: fields
  sc_snapshot_hash :: string
  sc_root_manifest_hash :: string
  sc_field_visit_id :: "string option"
  sc_workflow_event_id :: "string option"
  sc_change_evidence_ids_json :: "string list"
  sc_policy_checks_json :: fields
  sc_signatures_json :: "fields list"
  sc_review_state :: string
  sc_valid_from :: "time option"
  sc_valid_to :: "time option"
  sc_recorded_at :: time
  sc_created_by :: string
  sc_created_at :: time
  sc_supersedes_commit_id :: "string option"

record scene_branch_row =
  sb_branch_id :: string
  sb_tenant_id :: string
  sb_project_id :: string
  sb_scene_id :: string
  sb_name :: string
  sb_head_commit_id :: string
  sb_protected :: bool

record scene_entity_row =
  se_entity_id :: string
  se_tenant_id :: string
  se_project_id :: string
  se_scene_id :: string
  se_entity_type :: string
  se_name :: string
  se_attributes_json :: fields
  se_source_class :: string
  se_authority_class :: string
  se_confidence :: rat
  se_provenance_json :: fields
  se_policy_json :: fields
  se_stable_support_json :: fields
  se_created_at :: time
  se_superseded_at :: "time option"

record coordinate_frame_row =
  cf_frame_id :: string
  cf_tenant_id :: string
  cf_project_id :: string
  cf_name :: string
  cf_parent_frame_id :: "string option"
  cf_semantic_type :: string
  cf_convention :: string
  cf_units :: string
  cf_unit_scale_to_meters :: rat
  cf_original_units :: string
  cf_original_unit_scale_to_meters :: rat
  cf_axis_convention :: string
  cf_axis_directions_json :: fields
  cf_handedness :: string
  cf_origin_description :: string
  cf_gravity_alignment :: "string option"
  cf_source :: string
  cf_crs_identifier :: "string option"
  cf_vertical_datum :: "string option"
  cf_geodetic_json :: "fields option"
  cf_metadata_json :: fields
  cf_transform_json :: "(rat list list) option"
  cf_uncertainty_m :: "rat option"
  cf_supersedes_frame_id :: "string option"
  cf_deprecated_at :: "time option"
  cf_created_at :: time

record evidence_record_row =
  er_evidence_id :: string
  er_tenant_id :: string
  er_project_id :: string
  er_asset_id :: string
  er_source_type :: string
  er_collected_at :: time
  er_collected_by :: string
  er_device_or_tool :: string
  er_location_context_json :: fields
  er_relevant_region_json :: fields
  er_relevant_time_start :: time
  er_relevant_time_end :: time
  er_content_sha256 :: string
  er_chain_of_custody_json :: "fields list"
  er_retention_class :: string
  er_legal_hold :: bool
  er_consent_scope_json :: fields
  er_access_policy_json :: fields
  er_policy_json :: fields
  er_created_at :: time

record representation_row =
  re_representation_id :: string
  re_tenant_id :: string
  re_project_id :: string
  re_scene_id :: string
  re_asset_id :: string
  re_operation_id :: "string option"
  re_kind :: string
  re_provider_id :: string
  re_coordinate_frame_id :: string
  re_source_class :: string
  re_authority_class :: string
  re_authority_ceiling :: string
  re_disposable :: bool
  re_lossy :: bool
  re_intended_uses_json :: "string list"
  re_prohibited_uses_json :: "string list"
  re_quality_json :: fields
  re_provenance_json :: fields
  re_support_map_json :: fields
  re_format_json :: fields
  re_derivation_policy_json :: fields
  re_limitations_json :: "string list"
  re_information_loss_json :: "string list"
  re_privacy_inheritance_json :: fields
  re_dependencies_json :: "string list"
  re_fallback_representation_id :: "string option"
  re_manifest_hash :: "string option"
  re_metadata_json :: fields
  re_deprecated_at :: "time option"
  re_state :: string
  re_created_at :: time

record representation_binding_row =
  bi_binding_id :: string
  bi_tenant_id :: string
  bi_project_id :: string
  bi_scene_id :: string
  bi_commit_id :: string
  bi_representation_id :: string
  bi_role :: string
  bi_coordinate_frame_id :: string
  bi_transform_json :: "rat list list"
  bi_authority_class :: string
  bi_authority_ceiling :: string
  bi_intended_uses_json :: "string list"
  bi_review_decision_json :: fields
  bi_audience_policy_json :: fields
  bi_client_profile_json :: fields
  bi_published_by :: string
  bi_published_at :: time
  bi_superseded_at :: "time option"

record measurement_row =
  me_measurement_id :: string
  me_tenant_id :: string
  me_project_id :: string
  me_scene_id :: string
  me_entity_id :: "string option"
  me_measurement_type :: string
  me_geometry_json :: fields
  me_source_method :: string
  me_measured_at :: "time option"
  me_coordinate_frame_id :: "string option"
  me_source_commit_id :: "string option"
  me_permitted_uses_json :: "string list"
  me_state :: string
  me_supersedes_measurement_id :: "string option"
  me_originating_representation_id :: "string option"
  me_interaction_hit_json :: "fields option"
  me_resolved_metric_evidence_json :: "fields option"
  me_value :: rat
  me_unit :: string
  me_uncertainty :: rat
  me_source_asset_ids_json :: "string list"
  me_calibration_json :: fields
  me_verifier_id :: "string option"
  me_verified_at :: "time option"
  me_authority_class :: string
  me_created_by :: string
  me_created_at :: time

record construction_record_row =
  cr_record_id :: string
  cr_tenant_id :: string
  cr_project_id :: string
  cr_record_type :: string
  cr_parent_id :: "string option"
  cr_entity_id :: "string option"
  cr_state :: string
  cr_data_json :: fields
  cr_evidence_asset_ids_json :: "string list"
  cr_created_by :: string
  cr_created_at :: time
  cr_superseded_at :: "time option"

record provider_manifest_row =
  pm_provider_id :: string
  pm_version :: string
  pm_provider_class :: string
  pm_source_url :: string
  pm_source_revision :: string
  pm_image_digest :: "string option"
  pm_executable_digest :: "string option"
  pm_license_id :: string
  pm_approval_state :: string
  pm_allowed_classifications_json :: "string list"
  pm_allowed_purposes_json :: "string list"
  pm_allowed_regions_json :: "string list"
  pm_deployments_json :: "string list"
  pm_execution_modes_json :: "string list"
  pm_input_roles_json :: "string list"
  pm_output_roles_json :: "string list"
  pm_supported_formats_json :: fields
  pm_coordinate_contract_json :: fields
  pm_reproducibility_json :: fields
  pm_security_contract_json :: fields
  pm_recovery_contract_json :: fields
  pm_model_manifest_ids_json :: "string list"
  pm_dependency_inventory_json :: "fields list"
  pm_license_evidence_json :: "fields list"
  pm_benchmark_profile_ids_json :: "string list"
  pm_descriptor_json :: fields
  pm_retention_days :: "int option"
  pm_expires_at :: "time option"
  pm_manifest_hash :: string
  pm_manifest_signature :: "string option"
  pm_signed_by :: "string option"
  pm_registered_at :: "time option"
  pm_updated_at :: "time option"

record provider_revision_row =
  pv_manifest_hash :: string
  pv_provider_id :: string
  pv_provider_version :: string
  pv_descriptor_json :: fields
  pv_manifest_signature :: string
  pv_approval_state :: string
  pv_signed_by :: string
  pv_registered_by :: string
  pv_registered_at :: time

record provider_promotion_row =
  pp_promotion_id :: string
  pp_provider_id :: string
  pp_provider_version :: string
  pp_provider_manifest_hash :: string
  pp_state :: string
  pp_data_classifications_json :: "string list"
  pp_scene_classes_json :: "string list"
  pp_output_roles_json :: "string list"
  pp_intended_uses_json :: "string list"
  pp_execution_zones_json :: "string list"
  pp_hardware_profiles_json :: "string list"
  pp_benchmark_evidence_hash :: string
  pp_policy_snapshot_hash :: string
  pp_valid_from :: time
  pp_valid_until :: "time option"
  pp_promotion_hash :: string
  pp_signed_by :: string
  pp_signature :: string
  pp_superseded_at :: "time option"
  pp_created_at :: time

record spatial_conversion_row =
  cv_conversion_id :: string
  cv_operation_id :: string
  cv_tenant_id :: string
  cv_project_id :: string
  cv_scene_id :: string
  cv_scene_revision_id :: string
  cv_purpose :: string
  cv_intended_uses_json :: "string list"
  cv_output_roles_json :: "string list"
  cv_source_assets_json :: "fields list"
  cv_reference_assets_json :: "fields list"
  cv_constraints_json :: fields
  cv_policy_context_json :: fields
  cv_provider_selector_json :: fields
  cv_provider_id :: string
  cv_provider_version :: string
  cv_provider_manifest_hash :: string
  cv_promotion_id :: string
  cv_request_hash :: string
  cv_admission_state :: string
  cv_admission_decision_json :: fields
  cv_admission_decision_hash :: string
  cv_resource_estimate_json :: fields
  cv_credential_claims_json :: fields
  cv_worker_lease_generation :: int
  cv_worker_token_hash :: "string option"
  cv_worker_token_expires_at :: "time option"
  cv_failure_json :: fields
  cv_failure_hash :: "string option"
  cv_cleanup_receipt_hash :: "string option"
  cv_candidate_representation_id :: "string option"
  cv_state :: string
  cv_idempotency_key :: string
  cv_requested_by :: string
  cv_created_at :: time
  cv_updated_at :: time

record use_validation_row =
  uv_validation_id :: string
  uv_tenant_id :: string
  uv_project_id :: string
  uv_conversion_id :: string
  uv_representation_id :: string
  uv_intended_use :: string
  uv_profile_id :: string
  uv_profile_version :: string
  uv_validator_id :: string
  uv_validator_manifest_hash :: string
  uv_metrics_json :: fields
  uv_thresholds_json :: fields
  uv_coverage_json :: fields
  uv_topology_json :: fields
  uv_coordinate_validation_json :: fields
  uv_behavior_validation_json :: fields
  uv_limitations_json :: "string list"
  uv_passed :: bool
  uv_candidate_snapshot_hash :: string
  uv_policy_snapshot_hash :: string
  uv_validation_hash :: string
  uv_created_at :: time

record consent_grant_row =
  cg_grant_id :: string
  cg_tenant_id :: string
  cg_project_id :: string
  cg_subject_id :: string
  cg_granted_by :: string
  cg_purposes_json :: "string list"
  cg_audiences_json :: "string list"
  cg_scopes_json :: "string list"
  cg_derivative_policy_json :: fields
  cg_expires_at :: "time option"
  cg_revoked_at :: "time option"
  cg_revoked_by :: "string option"
  cg_state :: string
  cg_created_at :: time

record model_manifest_row =
  mm_model_id :: string
  mm_version :: string
  mm_checkpoint_hash :: string
  mm_code_revision :: string
  mm_code_license :: string
  mm_weights_license :: string
  mm_dataset_terms_json :: "string list"
  mm_output_terms :: string
  mm_approval_state :: string
  mm_usage_scope :: string
  mm_allowed_purposes_json :: "string list"
  mm_expires_at :: "time option"
  mm_manifest_hash :: string
  mm_schema_version :: "string option"
  mm_provider :: "string option"
  mm_model_name :: "string option"
  mm_revision :: "string option"
  mm_source_urls_json :: "(string list) option"
  mm_license_documents_json :: "(fields list) option"
  mm_allowed_classifications_json :: "(string list) option"
  mm_permitted_uses_json :: "(string list) option"
  mm_prohibited_uses_json :: "(string list) option"
  mm_geographic_restrictions_json :: "fields option"
  mm_customer_restrictions_json :: "fields option"
  mm_allowed_deployments_json :: "(string list) option"
  mm_approved_by :: "string option"
  mm_reviewed_at :: "time option"
  mm_review_due_at :: "time option"
  mm_revoked_at :: "time option"
  mm_manifest_signature :: "string option"
  mm_signed_by :: "string option"
  mm_registered_at :: "time option"
  mm_updated_at :: "time option"

record deployment_profile_row =
  dq_deployment_profile_id :: string
  dq_name :: string
  dq_revision :: string
  dq_mode :: string
  dq_canonical_contracts_json :: fields
  dq_canonical_contracts_hash :: string
  dq_features_json :: fields
  dq_service_images_json :: "(string \<times> string) list"
  dq_infrastructure_versions_json :: "(string \<times> string) list"
  dq_secret_references_json :: "(string \<times> string) list"
  dq_network_policy_json :: fields
  dq_resource_limits_json :: fields
  dq_supported_regions_json :: "string list"
  dq_degraded_modes_json :: fields
  dq_provider_replacements_json :: fields
  dq_production_approved :: bool
  dq_state :: string
  dq_profile_hash :: string
  dq_supersedes_profile_id :: "string option"
  dq_created_by :: string
  dq_created_at :: time

record project_deployment_row =
  dn_binding_id :: string
  dn_tenant_id :: string
  dn_project_id :: string
  dn_deployment_profile_id :: string
  dn_residency_policy_id :: "string option"
  dn_transfer_policy_id :: "string option"
  dn_revision :: string
  dn_feature_overrides_json :: fields
  dn_cloud_dependencies_acknowledged :: bool
  dn_state :: string
  dn_binding_hash :: string
  dn_created_by :: string
  dn_created_at :: time
  dn_superseded_at :: "time option"

record residency_policy_row =
  rz_residency_policy_id :: string
  rz_tenant_id :: string
  rz_project_id :: string
  rz_revision :: string
  rz_home_region :: string
  rz_allowed_regions_json :: "string list"
  rz_allowed_modes_json :: "string list"
  rz_asset_rules_json :: fields
  rz_worker_rules_json :: fields
  rz_provider_rules_json :: fields
  rz_default_action :: string
  rz_policy_hash :: string
  rz_state :: string
  rz_created_by :: string
  rz_created_at :: time

text \<open>The normalised rules of a transfer policy.\<close>

record transfer_rule =
  hr_asset_class :: string
  hr_minimum_stage :: string
  hr_allowed_regions :: "string list"
  hr_allowed_purposes :: "string list"
  hr_requires_approval :: bool

record transfer_policy_row =
  ht_transfer_policy_id :: string
  ht_tenant_id :: string
  ht_project_id :: string
  ht_revision :: string
  ht_source_profile_id :: string
  ht_destination_profile_id :: string
  ht_rules_json :: "transfer_rule list"
  ht_purpose :: string
  ht_policy_hash :: string
  ht_state :: string
  ht_created_by :: string
  ht_created_at :: time

record migration_row =
  mg_migration_id :: string
  mg_tenant_id :: string
  mg_project_id :: string
  mg_source_profile_id :: string
  mg_target_profile_id :: string
  mg_idempotency_key :: string
  mg_source_snapshot_json :: fields
  mg_source_snapshot_hash :: string
  mg_target_snapshot_json :: fields
  mg_target_snapshot_hash :: "string option"
  mg_validation_json :: fields
  mg_state :: string
  mg_migration_hash :: string
  mg_created_by :: string
  mg_created_at :: time
  mg_completed_at :: "time option"

record autoscaling_policy_row =
  ax_autoscaling_policy_id :: string
  ax_tenant_id :: string
  ax_project_id :: "string option"
  ax_queue_class :: string
  ax_revision :: string
  ax_min_replicas :: int
  ax_max_replicas :: int
  ax_tenant_concurrency_limit :: int
  ax_profile_quotas_json :: "(string \<times> int) list"
  ax_global_budget_limit :: rat
  ax_currency :: string
  ax_dead_letter_json :: fields
  ax_restricted_egress :: bool
  ax_policy_hash :: string
  ax_state :: string
  ax_created_by :: string
  ax_created_at :: time

record autoscaling_admission_row =
  aa_admission_id :: string
  aa_tenant_id :: string
  aa_project_id :: "string option"
  aa_autoscaling_policy_id :: string
  aa_queue_class :: string
  aa_capability_profile :: string
  aa_current_replicas :: int
  aa_requested_replicas :: int
  aa_admitted_replicas :: int
  aa_active_jobs :: int
  aa_estimated_incremental_cost :: rat
  aa_global_cost_after :: rat
  aa_decision :: string
  aa_reason_code :: string
  aa_decision_hash :: string
  aa_requested_by :: string
  aa_decided_at :: time

record deployment_admission_row =
  dm_admission_id :: string
  dm_tenant_id :: string
  dm_project_id :: "string option"
  dm_admission_type :: string
  dm_deployment_profile_id :: "string option"
  dm_region :: json
  dm_request_json :: fields
  dm_decision :: string
  dm_reason_code :: string
  dm_obligations_json :: "string list"
  dm_evidence_hash :: string
  dm_decided_by :: string
  dm_decided_at :: time

section \<open>The database\<close>

record db =
  tenants :: "tenant_row list"
  projects :: "project_row list"
  identities :: "identity_row list"
  role_bindings :: "role_binding_row list"
  assets :: "asset_row list"
  asset_refs :: "asset_ref_row list"
  audit_events :: "audit_event_row list"
  operations :: "operation_row list"
  outbox_events :: "outbox_event_row list"
  notifications :: "notification_row list"
  collaboration_comments :: "comment_row list"
  collaboration_tasks :: "task_row list"
  retention_rules :: "retention_rule_row list"
  legal_holds :: "legal_hold_row list"
  backup_runs :: "backup_run_row list"
  deletion_requests :: "deletion_request_row list"
  deletion_evidence :: "deletion_evidence_row list"
  quota_policies :: "quota_policy_row list"
  usage_ledger :: "usage_ledger_row list"
  exports :: "export_row list"
  multipart_uploads :: "multipart_upload_row list"
  multipart_chunks :: "multipart_chunk_row list"
  key_rotations :: "key_rotation_row list"
  scene_tags :: "scene_tag_row list"
  scene_commits :: "scene_commit_row list"
  scene_branches :: "scene_branch_row list"
  scene_entities :: "scene_entity_row list"
  coordinate_frames :: "coordinate_frame_row list"
  evidence_records :: "evidence_record_row list"
  representations :: "representation_row list"
  representation_bindings :: "representation_binding_row list"
  measurements :: "measurement_row list"
  construction_records :: "construction_record_row list"
  provider_manifests :: "provider_manifest_row list"
  provider_manifest_revisions :: "provider_revision_row list"
  provider_promotions :: "provider_promotion_row list"
  spatial_conversions :: "spatial_conversion_row list"
  intended_use_validations :: "use_validation_row list"
  consent_grants :: "consent_grant_row list"
  deployment_profiles :: "deployment_profile_row list"
  project_deployment_bindings :: "project_deployment_row list"
  residency_policies :: "residency_policy_row list"
  hybrid_transfer_policies :: "transfer_policy_row list"
  autoscaling_policies :: "autoscaling_policy_row list"
  autoscaling_admissions :: "autoscaling_admission_row list"
  deployment_admissions :: "deployment_admission_row list"
  model_manifests :: "model_manifest_row list"
  project_deployment_migrations :: "migration_row list"

definition empty_db :: db where
  "empty_db = \<lparr>tenants = [], projects = [], identities = [], role_bindings = [], assets = [],
     asset_refs = [], audit_events = [], operations = [], outbox_events = [], notifications = [],
     collaboration_comments = [], collaboration_tasks = [], retention_rules = [], legal_holds = [],
     backup_runs = [], deletion_requests = [], deletion_evidence = [], quota_policies = [],
     usage_ledger = [], exports = [], multipart_uploads = [], multipart_chunks = [], key_rotations = [],
     scene_tags = [], scene_commits = [], scene_branches = [], scene_entities = [], coordinate_frames = [], evidence_records = [], representations = [], representation_bindings = [], measurements = [], construction_records = [],
     provider_manifests = [], provider_manifest_revisions = [], provider_promotions = [], spatial_conversions = [], intended_use_validations = [], consent_grants = [],
     deployment_profiles = [], project_deployment_bindings = [], residency_policies = [], hybrid_transfer_policies = [],
     autoscaling_policies = [], autoscaling_admissions = [], deployment_admissions = [],
     model_manifests = [], project_deployment_migrations = []\<rparr>"

text \<open>\<open>Database.session\<close>: commit on return, roll back and re-raise on an exception.\<close>

definition session :: "(db \<Rightarrow> sip_error + 'a \<times> db) \<Rightarrow> db \<Rightarrow> (sip_error + 'a) \<times> db" where
  "session body s = (case body s of Inl e \<Rightarrow> (Inl e, s) | Inr (x, t) \<Rightarrow> (Inr x, t))"

text \<open>\<open>session.add(row)\<close>: the primary key of the table is unique.\<close>

definition insert_row :: "('r \<Rightarrow> string) \<Rightarrow> 'r \<Rightarrow> 'r list \<Rightarrow> sip_error + 'r list" where
  "insert_row key r rows =
     (if tget key rows (key r) \<noteq> None then Inl (Uncaught ''IntegrityError'') else Inr (rows @ [r]))"

text \<open>Lookups the services share.\<close>

definition get_project :: "db \<Rightarrow> string \<Rightarrow> project_row option" where
  "get_project s k = tget pr_project_id (projects s) k"

definition get_tenant :: "db \<Rightarrow> string \<Rightarrow> tenant_row option" where
  "get_tenant s k = tget t_tenant_id (tenants s) k"

section \<open>Facts about sessions and inserts\<close>

lemma session_error [simp]: "body s = Inl e \<Longrightarrow> session body s = (Inl e, s)"
  by (simp add: session_def)

lemma session_return [simp]: "body s = Inr (x, t) \<Longrightarrow> session body s = (Inr x, t)"
  by (simp add: session_def)

lemma session_rollback: "fst (session body s) = Inl e \<Longrightarrow> snd (session body s) = s"
  by (auto simp: session_def split: sum.splits)

lemma insert_row_Inr [result_simps]:
  "insert_row key r rows = Inr rows' \<longleftrightarrow> key r \<notin> tkeys key rows \<and> rows' = rows @ [r]"
  by (auto simp: insert_row_def tget_None_iff)

lemma insert_row_distinct:
  "insert_row key r rows = Inr rows' \<Longrightarrow> distinct (map key rows) \<Longrightarrow> distinct (map key rows')"
  by (auto simp: insert_row_Inr tkeys_def)

lemma insert_row_get:
  "insert_row key r rows = Inr rows' \<Longrightarrow>
     tget key rows' k = (if k = key r then Some r else tget key rows k)"
  by (auto simp: insert_row_def tget_append tget_Cons split: option.splits if_splits)

end
