(* ===== verification/Base64.thy ===== *)
theory Base64
  imports Sip_Prelude
begin

text \<open>
  The part of Python's \<open>base64\<close> module the sources use: \<open>b64encode\<close> and the non-strict
  \<open>b64decode\<close> (characters outside the alphabet are skipped, a completed padding ends the input,
  an incomplete group is an error), with the round trip between them.
\<close>

definition b64_alphabet :: string where
  "b64_alphabet = ''ABCDEFGHIJKLMNOPQRSTUVWXYZabcdefghijklmnopqrstuvwxyz0123456789+/''"

definition b64_char :: "nat \<Rightarrow> char" where
  "b64_char d = b64_alphabet ! d"

fun index_of :: "char \<Rightarrow> string \<Rightarrow> nat option" where
  "index_of c [] = None"
| "index_of c (d # ds) = (if c = d then Some 0 else map_option Suc (index_of c ds))"

definition b64_value :: "char \<Rightarrow> nat option" where
  "b64_value c = index_of c b64_alphabet"

fun b64encode :: "string \<Rightarrow> string" where
  "b64encode [] = []"
| "b64encode [a] = (let x = of_char a in
     [b64_char (x div 4), b64_char (x mod 4 * 16), CHR ''='', CHR ''=''])"
| "b64encode [a, b] = (let x = of_char a; y = of_char b in
     [b64_char (x div 4), b64_char (x mod 4 * 16 + y div 16), b64_char (y mod 16 * 4), CHR ''=''])"
| "b64encode (a # b # c # r) = (let x = of_char a; y = of_char b; z = of_char c in
     b64_char (x div 4) # b64_char (x mod 4 * 16 + y div 16) # b64_char (y mod 16 * 4 + z div 64)
       # b64_char (z mod 64) # b64encode r)"

text \<open>The scanner of \<open>binascii.a2b_base64\<close>: position in the group of four, the bits left
  over, the padding characters seen.\<close>

fun a2b :: "nat \<Rightarrow> nat \<Rightarrow> nat \<Rightarrow> string \<Rightarrow> string option" where
  "a2b quad left pads [] = (if quad = 0 then Some [] else None)"
| "a2b quad left pads (c # r) =
     (if c = CHR ''='' then
        (if quad \<ge> 2 \<and> quad + (pads + 1) \<ge> 4 then Some []
         else a2b quad left (if quad \<ge> 2 then pads + 1 else pads) r)
      else (case b64_value c of
          None \<Rightarrow> a2b quad left pads r
        | Some v \<Rightarrow>
            (if quad = 0 then a2b 1 v 0 r
             else if quad = 1 then map_option ((#) (char_of (left * 4 + v div 16))) (a2b 2 (v mod 16) 0 r)
             else if quad = 2 then map_option ((#) (char_of (left * 16 + v div 4))) (a2b 3 (v mod 4) 0 r)
             else map_option ((#) (char_of (left * 64 + v))) (a2b 0 0 0 r))))"

definition b64decode :: "string \<Rightarrow> string option" where
  "b64decode s = a2b 0 0 0 s"

lemma index_of_nth: "distinct ds \<Longrightarrow> d < length ds \<Longrightarrow> index_of (ds ! d) ds = Some d"
proof (induction ds arbitrary: d)
  case (Cons x ds)
  then show ?case by (cases d) (auto simp: nth_eq_iff_index_eq)
qed simp

lemma length_b64_alphabet [simp]: "length b64_alphabet = 64"
  by (simp add: b64_alphabet_def)

lemma b64_value_char [simp]: "d < 64 \<Longrightarrow> b64_value (b64_char d) = Some d"
  unfolding b64_value_def b64_char_def
  by (rule index_of_nth) (simp_all add: b64_alphabet_def)

lemma b64_char_not_pad [simp]: "d < 64 \<Longrightarrow> b64_char d \<noteq> CHR ''=''"
proof -
  assume "d < 64"
  then have "b64_char d \<in> set b64_alphabet" by (simp add: b64_char_def)
  then show ?thesis by (auto simp: b64_alphabet_def)
qed

lemma regroup_pair:
  fixes m q :: nat
  assumes "q < d"
  shows "(m * d + q) div d = m" and "(m * d + q) mod d = q"
  using assms by simp_all

lemma regroup_bound:
  fixes m q :: nat
  assumes "m < b" and "q < d"
  shows "m * d + q < b * d"
proof -
  have "m * d + q < Suc m * d" using assms(2) by simp
  also have "\<dots> \<le> b * d" using assms(1) by (intro mult_le_mono1) simp
  finally show ?thesis .
qed

lemma byte_parts:
  fixes c :: char
  shows "of_char c div 4 < (64 :: nat)" and "of_char c div 16 < (16 :: nat)" and "of_char c div 64 < (4 :: nat)"
  by (simp_all add: less_mult_imp_div_less)

lemma b64_round_trip: "b64decode (b64encode s) = Some s"
proof -
  have "a2b 0 0 0 (b64encode s) = Some s"
  proof (induction s rule: b64encode.induct)
    case (2 a)
    show ?case
      using byte_parts [of a] regroup_bound [of "of_char a mod 4" 4 0 16] by (simp add: Let_def)
  next
    case (3 a b)
    show ?case
      using byte_parts [of a] byte_parts [of b] regroup_bound [of "of_char a mod 4" 4 "of_char b div 16" 16]
        regroup_bound [of "of_char b mod 16" 16 0 4]
        regroup_pair [of "of_char b div 16" 16 "of_char a mod 4"]
      by (simp add: Let_def)
  next
    case (4 a b c r)
    then show ?case
      using byte_parts [of a] byte_parts [of b] byte_parts [of c]
        regroup_bound [of "of_char a mod 4" 4 "of_char b div 16" 16]
        regroup_bound [of "of_char b mod 16" 16 "of_char c div 64" 4]
        regroup_pair [of "of_char b div 16" 16 "of_char a mod 4"]
        regroup_pair [of "of_char c div 64" 4 "of_char b mod 16"]
      by (simp add: Let_def)
  qed simp
  then show ?thesis by (simp add: b64decode_def)
qed

end
