(* ===== verification/Audit_Log.thy ===== *)
theory Audit_Log
  imports Sip_Database Base64
begin

text \<open>
  \<open>src/sip/audit.py\<close>: the per-tenant hash chain of audit events. \<open>append\<close> links a new
  event to the last event of its tenant and signs it; \<open>verify\<close> replays the tenant's events in
  the order of their time stamps (ties by identifier) and recomputes every hash and signature.

  Shown: an append at a later position extends a verified chain; an append leaves the chains of the
  other tenants alone; two verified histories with the same head and length have the same events;
  two events recorded at one instant can break the chain.
\<close>

section \<open>Time stamps\<close>

text \<open>\<open>datetime.isoformat\<close> of an instant in UTC. The civil date of a day number is computed
  in eras of 400 years, counted from 1 March of year 0.\<close>

definition pad :: "nat \<Rightarrow> int \<Rightarrow> string" where
  "pad width n = (let t = int_repr n in replicate (width - length t) CHR ''0'' @ t)"

definition civil_from_days :: "int \<Rightarrow> int \<times> int \<times> int" where
  "civil_from_days days =
     (let z = days + 719468; era = z div 146097; doe = z mod 146097;
          yoe = (doe - doe div 1460 + doe div 36524 - doe div 146096) div 365;
          doy = doe - (365 * yoe + yoe div 4 - yoe div 100);
          mp = (5 * doy + 2) div 153;
          d = doy - (153 * mp + 2) div 5 + 1;
          m = (if mp < 10 then mp + 3 else mp - 9);
          y = yoe + era * 400 + (if m \<le> 2 then 1 else 0)
      in (y, m, d))"

definition isoformat :: "time \<Rightarrow> string" where
  "isoformat t =
     (let days = t div 86400000000; us = t mod 86400000000; secs = us div 1000000;
          frac = us mod 1000000
      in case civil_from_days days of (y, m, d) \<Rightarrow>
        pad 4 y @ ''-'' @ pad 2 m @ ''-'' @ pad 2 d @ ''T'' @ pad 2 (secs div 3600) @ '':''
        @ pad 2 (secs div 60 mod 60) @ '':'' @ pad 2 (secs mod 60)
        @ (if frac = 0 then [] else ''.'' @ pad 6 frac) @ ''+00:00'')"

definition audit_timestamp :: "time \<Rightarrow> string" where
  "audit_timestamp t = isoformat t"

section \<open>Appending\<close>

text \<open>The keyword arguments of \<open>append\<close>; a context argument that is \<open>None\<close> is \<open>JNull\<close>.\<close>

record audit_call =
  au_tenant_id :: string
  au_project_id :: "string option"
  au_actor_id :: string
  au_action :: string
  au_resource_type :: string
  au_resource_id :: string
  au_outcome :: string
  au_details :: fields
  au_purpose :: json
  au_workload_identity :: json
  au_source_ip :: json
  au_device_context :: json
  au_trace_id :: json
  au_before_ref :: json
  au_after_ref :: json
  au_referenced_manifests :: json
  au_manifest_refs :: json

text \<open>A call without the optional context.\<close>

definition audit_entry ::
  "string \<Rightarrow> string option \<Rightarrow> string \<Rightarrow> string \<Rightarrow> string \<Rightarrow> string \<Rightarrow> string \<Rightarrow> fields \<Rightarrow> audit_call" where
  "audit_entry tenant project actor action resource_type resource_id outcome details =
     \<lparr>au_tenant_id = tenant, au_project_id = project, au_actor_id = actor, au_action = action,
      au_resource_type = resource_type, au_resource_id = resource_id, au_outcome = outcome,
      au_details = details, au_purpose = JNull, au_workload_identity = JNull,
      au_source_ip = JNull, au_device_context = JNull, au_trace_id = JNull, au_before_ref = JNull,
      au_after_ref = JNull, au_referenced_manifests = JNull, au_manifest_refs = JNull\<rparr>"

definition normalized_details :: "audit_call \<Rightarrow> fields" where
  "normalized_details c =
     (let audit_context =
        [(''purpose'', au_purpose c), (''workload_identity'', au_workload_identity c),
         (''source_ip'', au_source_ip c), (''device_context'', au_device_context c),
         (''trace_id'', au_trace_id c), (''before_ref'', au_before_ref c),
         (''after_ref'', au_after_ref c),
         (''referenced_manifests'', if au_referenced_manifests c \<noteq> JNull
            then au_referenced_manifests c else au_manifest_refs c)];
        retained_context = filter (\<lambda>(k, v). v \<noteq> JNull) audit_context
      in if retained_context \<noteq> [] then jset ''audit_context'' (JObj retained_context) (au_details c)
         else au_details c)"

definition audit_body :: "audit_event_row \<Rightarrow> string \<Rightarrow> json" where
  "audit_body r previous_hash = JObj
     [(''audit_id'', JStr (ae_audit_id r)), (''tenant_id'', JStr (ae_tenant_id r)),
      (''project_id'', jopt (ae_project_id r)), (''actor_id'', JStr (ae_actor_id r)),
      (''action'', JStr (ae_action r)), (''resource_type'', JStr (ae_resource_type r)),
      (''resource_id'', JStr (ae_resource_id r)), (''outcome'', JStr (ae_outcome r)),
      (''details'', JObj (ae_details_json r)),
      (''occurred_at'', JStr (audit_timestamp (ae_occurred_at r))),
      (''previous_hash'', JStr previous_hash)]"

definition genesis_hash :: string where
  "genesis_hash = replicate 64 CHR ''0''"

text \<open>The order of a tenant's chain: \<open>occurred_at\<close>, then \<open>audit_id\<close>.\<close>

definition chain_key :: "audit_event_row \<Rightarrow> time \<times> string" where
  "chain_key r = (ae_occurred_at r, ae_audit_id r)"

definition tenant_chain :: "string \<Rightarrow> audit_event_row list \<Rightarrow> audit_event_row list" where
  "tenant_chain tenant rows = sort_key chain_key (filter (\<lambda>r. ae_tenant_id r = tenant) rows)"

text \<open>The query of \<open>append\<close> orders the other way round and takes one row: the last of the chain.\<close>

definition previous_event :: "string \<Rightarrow> audit_event_row list \<Rightarrow> audit_event_row option" where
  "previous_event tenant rows =
     (case rev (tenant_chain tenant rows) of [] \<Rightarrow> None | r # _ \<Rightarrow> Some r)"

definition audit_event :: "runtime \<Rightarrow> string \<Rightarrow> string \<Rightarrow> time \<Rightarrow> audit_call \<Rightarrow> string \<Rightarrow> audit_event_row" where
  "audit_event rt signing_key audit_id now c previous_hash =
     (let r = \<lparr>ae_audit_id = audit_id, ae_tenant_id = au_tenant_id c, ae_project_id = au_project_id c,
          ae_actor_id = au_actor_id c, ae_action = au_action c, ae_resource_type = au_resource_type c,
          ae_resource_id = au_resource_id c, ae_outcome = au_outcome c,
          ae_details_json = normalized_details c, ae_occurred_at = now,
          ae_previous_hash = previous_hash, ae_event_hash = [], ae_signature = []\<rparr>;
          event_hash = canonical_sha256 rt (audit_body r previous_hash)
      in r\<lparr>ae_event_hash := event_hash,
           ae_signature := b64encode (rt_hmac rt signing_key event_hash)\<rparr>)"

text \<open>The table refuses a repeated identifier or event hash.\<close>

definition audit_append ::
  "runtime \<Rightarrow> string \<Rightarrow> string \<Rightarrow> time \<Rightarrow> audit_call \<Rightarrow> audit_event_row list \<Rightarrow> sip_error + audit_event_row list" where
  "audit_append rt signing_key audit_id now c rows =
     (let previous = previous_event (au_tenant_id c) rows;
          previous_hash = (case previous of Some p \<Rightarrow> ae_event_hash p | None \<Rightarrow> genesis_hash);
          r = audit_event rt signing_key audit_id now c previous_hash
      in if ae_event_hash r \<in> ae_event_hash ` set rows then Inl (Uncaught ''IntegrityError'')
         else insert_row ae_audit_id r rows)"

text \<open>\<open>audit.append(..., session=session)\<close> inside a service's transaction.\<close>

definition append_audit :: "runtime \<Rightarrow> string \<Rightarrow> string \<Rightarrow> time \<Rightarrow> audit_call \<Rightarrow> db \<Rightarrow> sip_error + db" where
  "append_audit rt signing_key audit_id now c s =
     bindE (audit_append rt signing_key audit_id now c (audit_events s))
       (\<lambda>rows. Inr (s\<lparr>audit_events := rows\<rparr>))"

section \<open>Verification\<close>

fun verify_chain :: "runtime \<Rightarrow> string \<Rightarrow> nat \<Rightarrow> string \<Rightarrow> audit_event_row list \<Rightarrow> sip_error + string" where
  "verify_chain rt signing_key index previous_hash [] = Inr previous_hash"
| "verify_chain rt signing_key index previous_hash (r # rows) =
     (let expected_hash = canonical_sha256 rt (audit_body r previous_hash);
          expected_signature = rt_hmac rt signing_key expected_hash
      in case b64decode (ae_signature r) of
           None \<Rightarrow> Inl (ValidationError ''AUDIT_SIGNATURE_MALFORMED'' [(''index'', JInt (int index))])
         | Some actual_signature \<Rightarrow>
             (if ae_previous_hash r \<noteq> previous_hash \<or> ae_event_hash r \<noteq> expected_hash
                 \<or> actual_signature \<noteq> expected_signature
              then Inl (ValidationError ''AUDIT_CHAIN_INVALID''
                [(''index'', JInt (int index)), (''audit_id'', JStr (ae_audit_id r))])
              else verify_chain rt signing_key (Suc index) (ae_event_hash r) rows))"

record audit_report =
  ar_tenant_id :: string
  ar_events :: nat
  ar_valid :: bool
  ar_head_hash :: string

definition audit_verify :: "runtime \<Rightarrow> string \<Rightarrow> string \<Rightarrow> audit_event_row list \<Rightarrow> sip_error + audit_report" where
  "audit_verify rt signing_key tenant rows =
     (let chain = tenant_chain tenant rows
      in bindE (verify_chain rt signing_key 0 genesis_hash chain)
           (\<lambda>h. Inr \<lparr>ar_tenant_id = tenant, ar_events = length chain, ar_valid = True, ar_head_hash = h\<rparr>))"

section \<open>Facts about chains\<close>

text \<open>The constraints of the table: identifiers and event hashes are unique.\<close>

definition audit_wf :: "audit_event_row list \<Rightarrow> bool" where
  "audit_wf rows \<longleftrightarrow> distinct (map ae_audit_id rows) \<and> distinct (map ae_event_hash rows)"

lemma insort_key_split: "\<exists>a b. S = a @ b \<and> insort_key f r S = a @ r # b"
proof (induction S)
  case (Cons x S)
  then obtain a b where "S = a @ b" "insort_key f r S = a @ r # b" by blast
  then show ?case
  proof (cases "f r \<le> f x")
    case True
    then have "insort_key f r (x # S) = [] @ r # x # S" by simp
    then show ?thesis by (metis append_Nil)
  next
    case False
    with \<open>insort_key f r S = a @ r # b\<close> have "insort_key f r (x # S) = (x # a) @ r # b" by simp
    with \<open>S = a @ b\<close> show ?thesis by (metis append_Cons)
  qed
qed simp

lemma insort_key_greatest: "\<forall>x \<in> set S. f x < f r \<Longrightarrow> insort_key f r S = S @ [r]"
  by (induction S) (auto simp: not_le)

lemma chain_key_inj: "audit_wf rows \<Longrightarrow> inj_on chain_key (set rows)"
  by (auto simp: audit_wf_def chain_key_def distinct_map inj_on_def)

lemma tenant_chain_snoc:
  assumes "audit_wf (rows @ [r])"
  shows "tenant_chain t (rows @ [r])
    = (if ae_tenant_id r = t then insort_key chain_key r (tenant_chain t rows) else tenant_chain t rows)"
proof (cases "ae_tenant_id r = t")
  case True
  let ?old = "filter (\<lambda>r. ae_tenant_id r = t) rows"
  have "sort_key chain_key (?old @ [r]) = insort_key chain_key r (sort_key chain_key ?old)"
  proof (rule sort_key_inj_key_eq)
    show "mset (?old @ [r]) = mset (insort_key chain_key r (sort_key chain_key ?old))"
      by simp
    show "inj_on chain_key (set (?old @ [r]))"
      using chain_key_inj [OF assms] by (rule inj_on_subset) auto
  qed (simp add: sorted_insort_key)
  with True show ?thesis by (simp add: tenant_chain_def)
qed (simp add: tenant_chain_def)

lemma set_tenant_chain: "set (tenant_chain t rows) = {r \<in> set rows. ae_tenant_id r = t}"
  by (simp add: tenant_chain_def)

lemma verify_chain_append:
  "verify_chain rt k i h (xs @ ys) = bindE (verify_chain rt k i h xs) (\<lambda>h'. verify_chain rt k (i + length xs) h' ys)"
  by (induction xs arbitrary: i h) (auto simp: Let_def split: option.splits)

lemma verify_chain_head:
  "verify_chain rt k i h rows = Inr h' \<Longrightarrow> h' = (if rows = [] then h else ae_event_hash (last rows))"
  by (induction rows arbitrary: i h) (auto simp: Let_def split: option.splits if_splits)

lemma verify_chain_index: "verify_chain rt k i h rows = Inr h' \<Longrightarrow> verify_chain rt k j h rows = Inr h'"
  by (induction rows arbitrary: i j h) (auto simp: Let_def split: option.splits if_splits)

lemma previous_event_last:
  "previous_event t rows = (if tenant_chain t rows = [] then None else Some (last (tenant_chain t rows)))"
  by (cases "tenant_chain t rows" rule: rev_cases) (simp_all add: previous_event_def)

definition chain_head :: "string \<Rightarrow> audit_event_row list \<Rightarrow> string" where
  "chain_head t rows = (case previous_event t rows of Some p \<Rightarrow> ae_event_hash p | None \<Rightarrow> genesis_hash)"

lemma audit_append_Inr:
  "audit_append rt k i now c rows = Inr rows' \<longleftrightarrow>
     (let r = audit_event rt k i now c (chain_head (au_tenant_id c) rows)
      in rows' = rows @ [r] \<and> ae_event_hash r \<notin> ae_event_hash ` set rows \<and> i \<notin> tkeys ae_audit_id rows)"
  by (auto simp: audit_append_def chain_head_def insert_row_Inr Let_def audit_event_def)

lemma audit_event_simps [simp]:
  "ae_audit_id (audit_event rt k i now c h) = i"
  "ae_tenant_id (audit_event rt k i now c h) = au_tenant_id c"
  "ae_project_id (audit_event rt k i now c h) = au_project_id c"
  "ae_actor_id (audit_event rt k i now c h) = au_actor_id c"
  "ae_action (audit_event rt k i now c h) = au_action c"
  "ae_resource_type (audit_event rt k i now c h) = au_resource_type c"
  "ae_resource_id (audit_event rt k i now c h) = au_resource_id c"
  "ae_outcome (audit_event rt k i now c h) = au_outcome c"
  "ae_details_json (audit_event rt k i now c h) = normalized_details c"
  "ae_occurred_at (audit_event rt k i now c h) = now"
  "ae_previous_hash (audit_event rt k i now c h) = h"
  by (simp_all add: audit_event_def Let_def)

lemma verify_chain_event:
  "verify_chain rt k n h' [audit_event rt k i now c h]
     = (if h' = h then Inr (ae_event_hash (audit_event rt k i now c h))
        else Inl (ValidationError ''AUDIT_CHAIN_INVALID'' [(''index'', JInt (int n)), (''audit_id'', JStr i)]))"
proof -
  have "audit_body (audit_event rt k i now c h) h = audit_body (audit_event rt k i now c h\<lparr>ae_event_hash := [], ae_signature := []\<rparr>) h"
    by (simp add: audit_body_def)
  then show ?thesis
    by (auto simp: audit_event_def Let_def audit_body_def b64_round_trip)
qed

lemma audit_append_wf:
  "audit_append rt k i now c rows = Inr rows' \<Longrightarrow> audit_wf rows \<Longrightarrow> audit_wf rows'"
  by (auto simp: audit_append_Inr audit_wf_def Let_def tkeys_def)

lemma audit_verify_Inr:
  "audit_verify rt k t rows = Inr rep \<longleftrightarrow>
     verify_chain rt k 0 genesis_hash (tenant_chain t rows) = Inr (chain_head t rows) \<and>
     rep = \<lparr>ar_tenant_id = t, ar_events = length (tenant_chain t rows), ar_valid = True,
            ar_head_hash = chain_head t rows\<rparr>"
proof -
  have "verify_chain rt k 0 genesis_hash (tenant_chain t rows) = Inr h \<Longrightarrow> h = chain_head t rows" for h
    by (drule verify_chain_head) (simp add: chain_head_def previous_event_last)
  then show ?thesis
    by (auto simp: audit_verify_def Let_def bindE_Inr_conv)
qed

text \<open>
  C7. A recorded event extends a verified chain: when the tenant's audit chain verifies and the new
  event sorts after all of the tenant's events, the chain after \<open>append\<close> verifies, counts one
  event more and its head is the new event's hash.
\<close>

theorem audit_append_extends_chain:
  assumes "audit_wf rows"
    and "audit_verify rt k (au_tenant_id c) rows = Inr rep"
    and "\<forall>r \<in> set rows. ae_tenant_id r = au_tenant_id c \<longrightarrow> chain_key r < (now, i)"
    and "audit_append rt k i now c rows = Inr rows'"
  shows "audit_verify rt k (au_tenant_id c) rows'
    = Inr (rep\<lparr>ar_events := Suc (ar_events rep), ar_head_hash := ae_event_hash (last rows')\<rparr>)"
proof -
  let ?t = "au_tenant_id c" and ?e = "audit_event rt k i now c (chain_head (au_tenant_id c) rows)"
  have rows': "rows' = rows @ [?e]"
    using assms(4) by (simp add: audit_append_Inr Let_def)
  have "tenant_chain ?t rows' = insort_key chain_key ?e (tenant_chain ?t rows)"
    using audit_append_wf [OF assms(4,1)] unfolding rows' by (simp add: tenant_chain_snoc)
  also have "\<dots> = tenant_chain ?t rows @ [?e]"
    using assms(3) by (intro insort_key_greatest) (simp add: set_tenant_chain chain_key_def [of ?e])
  finally have chain: "tenant_chain ?t rows' = tenant_chain ?t rows @ [?e]" .
  from assms(2) have "verify_chain rt k 0 genesis_hash (tenant_chain ?t rows) = Inr (chain_head ?t rows)"
    by (simp add: audit_verify_Inr)
  then have "verify_chain rt k 0 genesis_hash (tenant_chain ?t rows') = Inr (ae_event_hash ?e)"
    by (simp add: chain verify_chain_append verify_chain_event del: verify_chain.simps)
  then have "audit_verify rt k ?t rows' = Inr \<lparr>ar_tenant_id = ?t,
      ar_events = Suc (length (tenant_chain ?t rows)), ar_valid = True, ar_head_hash = ae_event_hash ?e\<rparr>"
    by (simp add: audit_verify_def Let_def) (simp add: chain)
  with assms(2) rows' show ?thesis
    by (auto simp: audit_verify_Inr)
qed

text \<open>
  Recording an event of one tenant leaves the verification result of every other tenant's
  chain unchanged.
\<close>

lemma audit_append_other_tenants:
  assumes "audit_wf rows" and "audit_append rt k i now c rows = Inr rows'" and "t \<noteq> au_tenant_id c"
  shows "audit_verify rt k t rows' = audit_verify rt k t rows"
proof -
  have "tenant_chain t rows' = tenant_chain t rows"
    using audit_append_wf [OF assms(2,1)] assms(2,3) by (auto simp: audit_append_Inr Let_def tenant_chain_snoc)
  then show ?thesis by (simp add: audit_verify_def)
qed

text \<open>
  An event that sorts before the tenant's last event breaks the chain. \<open>append\<close> links
  it to the last event, \<open>verify\<close> orders by time stamp and then by the random identifier; so an
  event recorded at the same instant as the last one, with a smaller identifier, or after the
  clock stepped back, makes a later \<open>verify\<close> raise AUDIT_CHAIN_INVALID on an untampered log.
\<close>

lemma audit_out_of_order_breaks_chain:
  assumes "audit_wf rows" and "audit_verify rt k (au_tenant_id c) rows = Inr rep"
    and "previous_event (au_tenant_id c) rows = Some p" and "(now, i) < chain_key p"
    and "genesis_hash \<notin> ae_event_hash ` set rows"
    and "audit_append rt k i now c rows = Inr rows'"
  shows "\<exists>n. audit_verify rt k (au_tenant_id c) rows'
    = Inl (ValidationError ''AUDIT_CHAIN_INVALID'' [(''index'', JInt (int n)), (''audit_id'', JStr i)])"
proof -
  let ?t = "au_tenant_id c" and ?e = "audit_event rt k i now c (chain_head (au_tenant_id c) rows)"
  have rows': "rows' = rows @ [?e]"
    using assms(6) by (simp add: audit_append_Inr Let_def)
  have "tenant_chain ?t rows' = insort_key chain_key ?e (tenant_chain ?t rows)"
    using audit_append_wf [OF assms(6,1)] unfolding rows' by (simp add: tenant_chain_snoc)
  moreover obtain a b where ab: "tenant_chain ?t rows = a @ b"
      "insort_key chain_key ?e (tenant_chain ?t rows) = a @ ?e # b"
    using insort_key_split [of "tenant_chain ?t rows" chain_key ?e] by blast
  ultimately have chain: "tenant_chain ?t rows' = a @ ?e # b" by simp
  have last: "tenant_chain ?t rows \<noteq> []" "p = last (tenant_chain ?t rows)"
    using assms(3) by (auto simp: previous_event_last split: if_splits)
  have "b \<noteq> []"
  proof
    assume "b = []"
    with ab last have "p \<in> set a" by simp
    moreover have "sorted (map chain_key (a @ [?e]))"
      using ab(2) \<open>b = []\<close> sorted_insort_key [of chain_key ?e "tenant_chain ?t rows"]
      by (simp add: tenant_chain_def)
    ultimately have "chain_key p \<le> chain_key ?e" by (auto simp: sorted_append)
    with assms(4) show False by (simp add: chain_key_def [of ?e])
  qed
  with ab last have "p \<in> set b" "last b = p" by auto
  have ver: "verify_chain rt k 0 genesis_hash (a @ b) = Inr (ae_event_hash p)" 
    using assms(2,3) ab(1) by (simp add: audit_verify_Inr chain_head_def)
  then obtain h where h: "verify_chain rt k 0 genesis_hash a = Inr h"
    by (auto simp: verify_chain_append bindE_Inr_conv)
  have "h \<noteq> ae_event_hash p"
  proof (cases "a = []")
    case True
    with h assms(5) have "h = genesis_hash" by simp
    moreover have "p \<in> set rows" using last by (metis (mono_tags, lifting) last_in_set set_tenant_chain mem_Collect_eq)
    ultimately show ?thesis using assms(5) by auto
  next
    case False
    have "distinct (map ae_event_hash (tenant_chain ?t rows))"
      using assms(1) by (simp add: audit_wf_def tenant_chain_def distinct_map inj_on_def) 
    with False \<open>p \<in> set b\<close> have "ae_event_hash (last a) \<noteq> ae_event_hash p"
      unfolding ab(1) map_append distinct_append set_map
      by (metis IntI empty_iff imageI last_in_set)
    with False verify_chain_head [OF h] show ?thesis by simp
  qed
  then have "verify_chain rt k (length a) h (?e # b) = Inl (ValidationError ''AUDIT_CHAIN_INVALID''
      [(''index'', JInt (int (length a))), (''audit_id'', JStr i)])"
    using verify_chain_event [of rt k "length a" h i now c "chain_head ?t rows"] assms(3)
    by (simp add: chain_head_def Let_def split: option.splits if_splits)
  with h chain show ?thesis
    by (auto simp: audit_verify_def Let_def verify_chain_append)
qed


section \<open>A verified head fixes the history\<close>

definition event_body :: "audit_event_row \<Rightarrow> json" where
  "event_body r = audit_body r (ae_previous_hash r)"

text \<open>Two rows record the same event: every column of the table agrees, the details up to the order of
  keys, the time as it is printed and the signature as it is decoded.\<close>

definition same_event :: "audit_event_row \<Rightarrow> audit_event_row \<Rightarrow> bool" where
  "same_event x y \<longleftrightarrow>
     ae_audit_id x = ae_audit_id y \<and> ae_tenant_id x = ae_tenant_id y \<and> ae_project_id x = ae_project_id y
     \<and> ae_actor_id x = ae_actor_id y \<and> ae_action x = ae_action y
     \<and> ae_resource_type x = ae_resource_type y \<and> ae_resource_id x = ae_resource_id y
     \<and> ae_outcome x = ae_outcome y \<and> jnorm (JObj (ae_details_json x)) = jnorm (JObj (ae_details_json y))
     \<and> isoformat (ae_occurred_at x) = isoformat (ae_occurred_at y)
     \<and> ae_previous_hash x = ae_previous_hash y \<and> ae_event_hash x = ae_event_hash y
     \<and> b64decode (ae_signature x) = b64decode (ae_signature y)"

lemma jnorm_object_map_of:
  assumes "jnorm (JObj kvs) = jnorm (JObj kvs')" and "distinct (map fst kvs)" and "distinct (map fst kvs')"
  shows "map_of (jnorm_fields kvs) = map_of (jnorm_fields kvs')"
proof -
  have "set (jnorm_fields kvs) = set (jnorm_fields kvs')"
    using assms(1) by (metis jnorm.simps(2) json.inject(6) set_sort)
  moreover have "map fst (jnorm_fields l) = map fst l" for l
    by (simp add: jnorm_fields_map)
  ultimately show ?thesis using assms(2,3) by (simp add: map_of_inject_set)
qed

lemma audit_body_fields:
  assumes "jnorm (event_body x) = jnorm (event_body y)"
    and "ae_event_hash x = ae_event_hash y" and "b64decode (ae_signature x) = b64decode (ae_signature y)"
  shows "same_event x y"
proof -
  let ?f = "\<lambda>r k. map_of (jnorm_fields (case event_body r of JObj kvs \<Rightarrow> kvs)) k"
  have "?f x = ?f y"
    using assms(1) jnorm_object_map_of [of "case event_body x of JObj kvs \<Rightarrow> kvs" "case event_body y of JObj kvs \<Rightarrow> kvs"]
    by (simp add: event_body_def audit_body_def)
  then have field: "?f x k = ?f y k" for k by (rule fun_cong)
  have opt: "jnorm (jopt a) = jnorm (jopt b) \<longleftrightarrow> a = b" for a b by (cases a; cases b) auto
  show ?thesis
    using field [of "''audit_id''"] field [of "''tenant_id''"] field [of "''project_id''"] field [of "''actor_id''"]
      field [of "''action''"] field [of "''resource_type''"] field [of "''resource_id''"] field [of "''outcome''"]
      field [of "''details''"] field [of "''occurred_at''"] field [of "''previous_hash''"] assms(2,3)
    unfolding same_event_def event_body_def audit_body_def by (simp add: audit_timestamp_def opt)
qed

lemma verify_chain_snoc:
  "verify_chain rt k i h (xs @ [x]) = Inr h' \<Longrightarrow>
     verify_chain rt k i h xs = Inr (ae_previous_hash x) \<and> ae_event_hash x = h'
     \<and> h' = canonical_sha256 rt (event_body x) \<and> b64decode (ae_signature x) = Some (rt_hmac rt k h')"
  by (auto simp: verify_chain_append bindE_Inr_conv Let_def event_body_def split: option.splits if_splits)

lemma verify_chain_history:
  assumes "float_repr_ok rt" and "length xs = length ys"
    and "verify_chain rt k i h xs = Inr e" and "verify_chain rt k j h' ys = Inr e"
    and "inj_on (rt_sha256 rt) (canonical_json rt ` event_body ` (set xs \<union> set ys))"
  shows "list_all2 same_event xs ys"
  using assms
proof (induction xs arbitrary: ys e rule: rev_induct)
  case (snoc x xs)
  then obtain ys' y where ys: "ys = ys' @ [y]"
    by (metis length_0_conv rev_exhaust snoc_eq_iff_butlast)
  note x = verify_chain_snoc [OF snoc.prems(3)] and y = verify_chain_snoc [OF snoc.prems(4) [unfolded ys]]
  have "rt_sha256 rt (canonical_json rt (event_body x)) = rt_sha256 rt (canonical_json rt (event_body y))"
    using x y by (simp add: canonical_sha256_def)
  then have "canonical_json rt (event_body x) = canonical_json rt (event_body y)"
    by (rule inj_onD [OF snoc.prems(5)]) (simp_all add: ys)
  then have "jnorm (event_body x) = jnorm (event_body y)"
    by (rule canonical_text_inj [OF snoc.prems(1)])
  then have eq: "same_event x y"
    by (rule audit_body_fields) (use x y in auto)
  have "list_all2 same_event xs ys'"
  proof (rule snoc.IH [OF snoc.prems(1)])
    show "inj_on (rt_sha256 rt) (canonical_json rt ` event_body ` (set xs \<union> set ys'))"
      using snoc.prems(5) by (rule inj_on_subset) (auto simp: ys)
    show "verify_chain rt k j h' ys' = Inr (ae_previous_hash x)"
      using y eq by (simp add: same_event_def)
  qed (use snoc.prems(2) x ys in auto)
  with eq ys show ?case by (simp add: list_all2_appendI)
qed simp

text \<open>
  C28. A verified report fixes the history: two audit tables that verify for a tenant with the same
  report (event count and head hash) hold the same events for it in the same order, column by column: identifier,
  tenant, project, actor, action, resource, outcome, details up to the order of keys, the printed
  time, both hashes and the decoded signature, unless two of the hashed event texts collide.
\<close>

theorem audit_head_fixes_history:
  assumes "float_repr_ok rt"
    and "audit_verify rt k t rows = Inr rep" and "audit_verify rt k t rows' = Inr rep"
    and "inj_on (rt_sha256 rt) (canonical_json rt ` event_body ` (set rows \<union> set rows'))"
  shows "list_all2 same_event (tenant_chain t rows) (tenant_chain t rows')"
proof (rule verify_chain_history [OF assms(1)])
  show "inj_on (rt_sha256 rt) (canonical_json rt ` event_body ` (set (tenant_chain t rows) \<union> set (tenant_chain t rows')))"
    using assms(4) by (rule inj_on_subset) (auto simp: set_tenant_chain)
  show "verify_chain rt k 0 genesis_hash (tenant_chain t rows') = Inr (chain_head t rows)"
    using assms(2,3) by (simp add: audit_verify_Inr)
qed (use assms(2,3) in \<open>auto simp: audit_verify_Inr\<close>)


section \<open>The interface the services use\<close>

text \<open>
  What a service relies on when it records an action inside its own transaction: the log grows by
  one entry that carries the arguments of the call, and nothing else of the state changes.
\<close>

locale audit_sink =
  fixes append :: "string \<Rightarrow> time \<Rightarrow> audit_call \<Rightarrow> 's \<Rightarrow> sip_error + 's"
    and log :: "'s \<Rightarrow> audit_event_row list"
    and set_log :: "audit_event_row list \<Rightarrow> 's \<Rightarrow> 's"
  assumes append_grows: "append i now c s = Inr s' \<Longrightarrow>
      \<exists>r. s' = set_log (log s @ [r]) s \<and> ae_audit_id r = i \<and> ae_occurred_at r = now \<and>
        ae_tenant_id r = au_tenant_id c \<and> ae_actor_id r = au_actor_id c \<and>
        ae_action r = au_action c \<and> ae_resource_id r = au_resource_id c \<and> ae_outcome r = au_outcome c"
    and log_set_log: "log (set_log l s) = l"
begin

lemma append_log:
  "append i now c s = Inr s' \<Longrightarrow>
     \<exists>r. log s' = log s @ [r] \<and> ae_action r = au_action c \<and> ae_actor_id r = au_actor_id c
       \<and> ae_tenant_id r = au_tenant_id c \<and> ae_resource_id r = au_resource_id c \<and> ae_outcome r = au_outcome c"
  using append_grows log_set_log by metis

lemma append_frame: "append i now c s = Inr s' \<Longrightarrow> \<exists>l. s' = set_log (log s @ l) s"
  using append_grows by blast

lemma append_all_grow:
  assumes "foldE (\<lambda>(i, now, c). append i now c) calls s = Inr s'"
  shows "\<exists>l. log s' = log s @ l \<and> length l = length calls"
  using assms
proof (induction calls arbitrary: s)
  case (Cons call calls)
  obtain i now c where "call = (i, now, c)" by (cases call)
  with Cons.prems obtain u where u: "append i now c s = Inr u"
      "foldE (\<lambda>(i, now, c). append i now c) calls u = Inr s'"
    by (auto simp: bindE_Inr_conv)
  from Cons.IH [OF u(2)] append_log [OF u(1)] show ?case by force
qed simp

end

lemma append_audit_Inr:
  "append_audit rt k i now c s = Inr s' \<longleftrightarrow>
     (\<exists>rows. audit_append rt k i now c (audit_events s) = Inr rows \<and> s' = s\<lparr>audit_events := rows\<rparr>)"
  by (auto simp: append_audit_def bindE_Inr_conv)

interpretation audit: audit_sink "append_audit rt k" audit_events "\<lambda>l s. s\<lparr>audit_events := l\<rparr>"
  for rt k
proof (unfold_locales, goal_cases)
  case (1 i now c s s')
  then show ?case
    by (auto simp: append_audit_Inr audit_append_Inr Let_def)
qed simp

text \<open>The first entry of a log.\<close>

lemma append_audit_first:
  "audit_events s = [] \<Longrightarrow> append_audit rt key i now c s = Inr (s\<lparr>audit_events := [audit_event rt key i now c genesis_hash]\<rparr>)"
  by (simp add: append_audit_def audit_append_def Let_def insert_row_def previous_event_def tenant_chain_def)

section \<open>Instances\<close>

definition plain_runtime :: runtime where
  "plain_runtime = sample_runtime\<lparr>rt_sha256 := (\<lambda>s. s)\<rparr>"

definition sample_call :: "string \<Rightarrow> fields \<Rightarrow> audit_call" where
  "sample_call t d = audit_entry t None ''u'' ''tenant:create'' ''tenant'' t ''allowed'' d"

definition sample_event :: "string \<Rightarrow> fields \<Rightarrow> audit_event_row" where
  "sample_event i d = audit_event plain_runtime ''k'' i 5 (sample_call ''t'' d) genesis_hash"

lemma sample_rows_wf: "audit_wf [sample_event i d]"
  by (simp add: audit_wf_def)

lemma sample_verified:
  "audit_verify plain_runtime ''k'' ''t'' [sample_event i d]
     = Inr \<lparr>ar_tenant_id = ''t'', ar_events = 1, ar_valid = True, ar_head_hash = ae_event_hash (sample_event i d)\<rparr>"
  by (simp add: audit_verify_def tenant_chain_def sample_event_def sample_call_def audit_entry_def
      verify_chain_event del: verify_chain.simps)

lemma plain_float_repr_ok: "float_repr_ok plain_runtime"
  using sample_float_repr_ok by (simp add: float_repr_ok_def plain_runtime_def)

lemma plain_event_hash_id:
  assumes "ae_event_hash (audit_event plain_runtime k i now c h) = ae_event_hash (audit_event plain_runtime k' i' now' c' h')"
  shows "i = i'"
proof -
  let ?e = "audit_event plain_runtime k i now c h" and ?e' = "audit_event plain_runtime k' i' now' c' h'"
  have "canonical_json plain_runtime (audit_body ?e h) = canonical_json plain_runtime (audit_body ?e' h')"
    using assms by (simp add: audit_event_def Let_def canonical_sha256_def plain_runtime_def audit_body_def)
  then have "jnorm (audit_body ?e h) = jnorm (audit_body ?e' h')"
    by (rule canonical_text_inj [OF plain_float_repr_ok])
  then show "i = i'"
    using jnorm_object_field [OF _ , of _ _ "''audit_id''" "JStr i"] by (simp add: audit_body_def)
qed

lemma sample_append:
  assumes "j \<noteq> i"
  shows "\<exists>e. audit_append plain_runtime ''k'' j now c [sample_event i d] = Inr [sample_event i d, e]"
  using assms plain_event_hash_id [of "''k''" j now c _ "''k''" i 5 "sample_call ''t'' d" genesis_hash]
  by (auto simp: audit_append_Inr Let_def sample_event_def tkeys_def)


lemma audit_append_extends_chain_witness:
  "\<exists>rows' rep'. audit_append plain_runtime ''k'' ''b'' 6 (sample_call ''t'' []) [sample_event ''a'' []] = Inr rows'
     \<and> audit_verify plain_runtime ''k'' ''t'' rows' = Inr rep' \<and> ar_events rep' = 2"
proof -
  obtain e where e: "audit_append plain_runtime ''k'' ''b'' 6 (sample_call ''t'' []) [sample_event ''a'' []] = Inr [sample_event ''a'' [], e]"
    using sample_append [of "''b''" "''a''" _ _ "[]"] by auto
  have t: "au_tenant_id (sample_call ''t'' []) = ''t''"
    by (simp add: sample_call_def audit_entry_def)
  have later: "chain_key (sample_event ''a'' []) < (6, ''b'')"
    by (simp add: sample_event_def chain_key_def)
  show ?thesis
    using audit_append_extends_chain [OF sample_rows_wf _ _ e, unfolded t, OF sample_verified] e later
    by fastforce
qed

lemma audit_append_other_tenants_witness:
  "\<exists>rows'. audit_append plain_runtime ''k'' ''b'' 6 (sample_call ''u'' []) [sample_event ''a'' []] = Inr rows'
     \<and> audit_verify plain_runtime ''k'' ''t'' rows' = audit_verify plain_runtime ''k'' ''t'' [sample_event ''a'' []]"
proof -
  obtain e where e: "audit_append plain_runtime ''k'' ''b'' 6 (sample_call ''u'' []) [sample_event ''a'' []] = Inr [sample_event ''a'' [], e]"
    using sample_append [of "''b''" "''a''" _ _ "[]"] by auto
  have "''t'' \<noteq> au_tenant_id (sample_call ''u'' [])"
    by (simp add: sample_call_def audit_entry_def)
  from audit_append_other_tenants [OF sample_rows_wf e this] e show ?thesis by blast
qed

lemma audit_out_of_order_breaks_chain_witness:
  "\<exists>rows' n. audit_append plain_runtime ''k'' ''a'' 5 (sample_call ''t'' []) [sample_event ''b'' []] = Inr rows'
     \<and> audit_verify plain_runtime ''k'' ''t'' rows'
       = Inl (ValidationError ''AUDIT_CHAIN_INVALID'' [(''index'', JInt (int n)), (''audit_id'', JStr ''a'')])"
proof -
  obtain e where e: "audit_append plain_runtime ''k'' ''a'' 5 (sample_call ''t'' []) [sample_event ''b'' []] = Inr [sample_event ''b'' [], e]"
    using sample_append [of "''a''" "''b''" _ _ "[]"] by auto
  have t: "au_tenant_id (sample_call ''t'' []) = ''t''"
    by (simp add: sample_call_def audit_entry_def)
  have prev: "previous_event ''t'' [sample_event ''b'' []] = Some (sample_event ''b'' [])"
    by (simp add: previous_event_def tenant_chain_def sample_event_def t)
  have earlier: "(5, ''a'') < chain_key (sample_event ''b'' [])"
    by (simp add: sample_event_def chain_key_def)
  have "genesis_hash \<noteq> ae_event_hash (sample_event ''b'' [])"
    by (simp add: genesis_hash_def sample_event_def audit_event_def canonical_sha256_def plain_runtime_def
        audit_body_def canonical_json_def numeral_eq_Suc Let_def del: dumps_fields.simps)
  then show ?thesis
    using audit_out_of_order_breaks_chain [OF sample_rows_wf _ _ _ _ e, unfolded t, OF sample_verified prev earlier] e
    by auto
qed

lemma sample_details_order:
  "ae_event_hash (sample_event ''a'' [(''x'', JInt 1), (''y'', JInt 2)])
     = ae_event_hash (sample_event ''a'' [(''y'', JInt 2), (''x'', JInt 1)])"
  by (simp add: sample_event_def audit_event_def sample_call_def audit_entry_def normalized_details_def
      Let_def audit_body_def canonical_sha256_def canonical_json_def)

lemma audit_head_fixes_history_witness:
  "list_all2 same_event (tenant_chain ''t'' [sample_event ''a'' [(''x'', JInt 1), (''y'', JInt 2)]])
     (tenant_chain ''t'' [sample_event ''a'' [(''y'', JInt 2), (''x'', JInt 1)]])"
  by (rule audit_head_fixes_history [OF plain_float_repr_ok sample_verified])
    (simp only: sample_verified sample_details_order, simp add: plain_runtime_def)

end
