(* ===== verification/Policy.thy ===== *)
theory Policy
  imports Audit_Log
begin

text \<open>
  \<open>src/sip/policy.py\<close> and \<open>src/sip/tenancy.py\<close>: the role table, the authorisation
  decision, \<open>require\<close> with its audit trail of denials, identities and role bindings, the
  principal assembled from the bindings in force, and the creation of tenants and projects.

  Of the principal's free-form attributes only \<open>spatial_region_ids\<close> is read; of a spatial
  restriction only the text fields \<open>effect\<close> and \<open>region_id\<close>.
\<close>

section \<open>The role table\<close>

definition ROLE_ACTIONS :: "(string \<times> string list) list" where
  "ROLE_ACTIONS = [
     (''tenant_admin'', [''*'']),
     (''project_admin'', [''project:*'', ''asset:*'', ''scene:*'', ''construction:*'', ''liveforever:*'', 
        ''representation:*'', ''export:*'', ''ops:support_request'', ''ops:cost_read'']),
     (''restricted_export_approver'', [''construction:restricted_export'', ''construction:read'', ''asset:read'']),
     (''restricted_reader'', [''construction:restricted_read'', ''construction:read'', ''asset:read'']),
     (''construction_verifier'', [''construction:verify'', ''construction:read'', ''asset:read'']),
     (''liveforever_reviewer'', [''liveforever:review'', ''liveforever:read'', ''asset:read'']),
     (''capture_operator'', [''asset:create'', ''capture:*'', ''scene:read'']),
     (''reviewer'', [''asset:read'', ''scene:read'', ''scene:review'', ''measurement:review'', 
        ''construction:read'', ''liveforever:read'']),
     (''publisher'', [''representation:publish'', ''scene:commit'', ''scene:read'', ''asset:read'']),
     (''privacy_officer'', [''consent:*'', ''deletion:*'', ''liveforever:*'', ''asset:read'', 
        ''security:privacy_manage'', ''security:incident_manage'', ''security:cache_invalidate'']),
     (''security_admin'', [''security:threat_manage'', ''security:privileged_access'', 
        ''security:workload_identity'', ''security:key_manage'', ''security:privacy_manage'', 
        ''security:audit_verify'', ''security:provider_governance'', 
        ''security:cache_invalidate'', ''security:release_manage'', 
        ''security:transport_verify'', ''security:capture_finalize'', 
        ''security:immersive_safety'', ''security:incident_manage'', ''asset:read'']),
     (''key_custodian'', [''security:key_manage'', ''asset:read'']),
     (''release_manager'', [''security:release_manage'', ''security:audit_verify'', ''qa:campaign_manage'', 
        ''qa:waiver_approve'', ''qa:candidate_sign'', ''qa:production_admit'', ''qa:read'', 
        ''asset:read'']),
     (''qa_operator'', [''qa:evidence_record'', ''qa:read'', ''asset:read'']),
     (''qa_reviewer'', [''qa:evidence_record'', ''qa:read'', ''security:audit_verify'', ''asset:read'']),
     (''ops_admin'', [''ops:observe'', ''ops:slo_manage'', ''ops:cost_manage'', ''ops:quota_manage'', 
        ''ops:incident_manage'', ''ops:support_request'', ''deployment:read'', ''asset:read'']),
     (''deployment_admin'', [''deployment:profile_manage'', ''deployment:project_assign'', 
        ''deployment:residency_manage'', ''deployment:transfer_manage'', 
        ''deployment:edge_manage'', ''deployment:update_manage'', ''deployment:migrate'', 
        ''deployment:autoscale_manage'', ''deployment:aws_manage'', ''deployment:admit'', 
        ''deployment:drift_check'', ''deployment:read'', ''asset:read'']),
     (''recovery_admin'', [''recovery:objective_manage'', ''recovery:backup_manage'', ''recovery:restore'', 
        ''recovery:key_recover'', ''recovery:game_day'', ''recovery:production_admit'', 
        ''retention:manage'', ''deletion:plan'', ''deletion:approve'', ''deletion:execute'', 
        ''tenant:offboard'', ''migration:exercise'', ''asset:read'', ''export:read'']),
     (''recovery_operator'', [''recovery:backup_manage'', ''recovery:restore'', ''recovery:game_day'', 
        ''retention:manage'', ''deletion:plan'', ''asset:read'', ''export:read'']),
     (''deletion_approver'', [''deletion:approve'', ''asset:read'']),
     (''deletion_executor'', [''deletion:execute'', ''asset:read'']),
     (''residency_officer'', [''deployment:residency_manage'', ''deployment:transfer_manage'', ''deployment:admit'', 
        ''deployment:read'', ''asset:read'']),
     (''edge_operator'', [''deployment:edge_manage'', ''deployment:update_manage'', ''deployment:read'', 
        ''asset:read'']),
     (''budget_approver'', [''ops:budget_override'', ''ops:cost_read'', ''asset:read'']),
     (''support_approver'', [''ops:support_approve'', ''ops:support_read'', ''asset:read'']),
     (''support_engineer'', [''ops:support_access'', ''ops:support_read'', ''ops:observe'', ''asset:read'']),
     (''specialized_support'', [''ops:support_access'', ''ops:support_read'', ''ops:observe'', 
        ''construction:restricted_read'', ''liveforever:read'', ''asset:read'']),
     (''viewer'', [''asset:read'', ''scene:read'', ''construction:read'', ''liveforever:read'', 
        ''ops:cost_read'']),
     (''service_worker'', [''operation:lease'', ''operation:checkpoint'', ''operation:complete'', ''asset:read'', 
        ''asset:create''])]"

definition EXACT_GRANT_ACTIONS :: "string list" where
  "EXACT_GRANT_ACTIONS = [''construction:restricted_export'', ''construction:restricted_read'', 
     ''construction:verify'', ''liveforever:review'', ''security:threat_manage'', 
     ''security:privileged_access'', ''security:workload_identity'', ''security:key_manage'', 
     ''security:privacy_manage'', ''security:audit_verify'', ''security:provider_governance'', 
     ''security:cache_invalidate'', ''security:release_manage'', ''security:transport_verify'', 
     ''security:capture_finalize'', ''security:immersive_safety'', 
     ''security:incident_manage'', ''qa:campaign_manage'', ''qa:evidence_record'', 
     ''qa:waiver_approve'', ''qa:candidate_sign'', ''qa:production_admit'', ''ops:slo_manage'', 
     ''ops:cost_manage'', ''ops:quota_manage'', ''ops:budget_override'', 
     ''ops:support_approve'', ''ops:support_access'', ''ops:incident_manage'', 
     ''deployment:profile_manage'', ''deployment:project_assign'', 
     ''deployment:residency_manage'', ''deployment:transfer_manage'', 
     ''deployment:edge_manage'', ''deployment:update_manage'', ''deployment:migrate'', 
     ''deployment:autoscale_manage'', ''deployment:aws_manage'', ''deployment:admit'', 
     ''deployment:drift_check'', ''recovery:objective_manage'', ''recovery:backup_manage'', 
     ''recovery:restore'', ''recovery:key_recover'', ''recovery:game_day'', 
     ''recovery:production_admit'', ''retention:manage'', ''deletion:plan'', 
     ''deletion:approve'', ''deletion:execute'', ''tenant:offboard'', ''migration:exercise'']"

definition role_grants :: "string \<Rightarrow> string list" where
  "role_grants role = (case map_of ROLE_ACTIONS role of None \<Rightarrow> [] | Some g \<Rightarrow> g)"

definition namespace_grant :: "string \<Rightarrow> string" where
  "namespace_grant action = takeWhile (\<lambda>c. c \<noteq> CHR '':'') action @ '':*''"

definition role_allows :: "string \<Rightarrow> string \<Rightarrow> bool" where
  "role_allows role action =
     (let grants = role_grants role
      in if ''*'' \<in> set grants \<or> action \<in> set grants then True
         else if action \<in> set EXACT_GRANT_ACTIONS then False
         else namespace_grant action \<in> set grants)"

section \<open>The decision\<close>

record access_request =
  rq_action :: string
  rq_tenant_id :: string
  rq_project_id :: "string option"
  rq_purpose :: "string option"
  rq_classification :: string
  rq_required_audience :: "audience option"
  rq_spatial_region_id :: "string option"
  rq_audit_denial :: bool

record policy_decision =
  allowed :: bool
  reason_code :: string
  obligations :: "string list"
  evaluated_policy_version :: string

definition sensitive_classifications :: "string list" where
  "sensitive_classifications = map classification_value [CRITICAL_INFRASTRUCTURE, BIOMETRIC, MINOR]"

definition sensitive_roles :: "string list" where
  "sensitive_roles = [''tenant_admin'', ''project_admin'', ''privacy_officer'', ''reviewer'']"

abbreviation is_tenant_admin :: "principal \<Rightarrow> bool" where
  "is_tenant_admin p \<equiv> ''tenant_admin'' \<in> set (roles p)"

text \<open>The first test that fails gives the reason; the tests on a sensitive classification and on
  the spatial region come after it and override it.\<close>

definition base_decision :: "principal \<Rightarrow> access_request \<Rightarrow> bool \<times> string" where
  "base_decision p rq =
     (if p_tenant_id p \<noteq> rq_tenant_id rq then (False, ''TENANT_MISMATCH'')
      else if truthy_str (rq_project_id rq) \<and> the (rq_project_id rq) \<notin> set (project_ids p) \<and> \<not> is_tenant_admin p
        then (False, ''PROJECT_SCOPE_DENIED'')
      else if \<not> list_ex (\<lambda>role. role_allows role (rq_action rq)) (roles p) then (False, ''ACTION_DENIED'')
      else if truthy_str (rq_purpose rq) \<and> the (rq_purpose rq) \<notin> set (purposes p) \<and> \<not> is_tenant_admin p
        then (False, ''PURPOSE_DENIED'')
      else if rq_required_audience rq \<noteq> None \<and> p_audience p \<noteq> the (rq_required_audience rq)
          \<and> p_audience p \<noteq> PRIVATE \<and> \<not> is_tenant_admin p then (False, ''AUDIENCE_DENIED'')
      else (True, ''ALLOW''))"

definition is_sensitive :: "access_request \<Rightarrow> bool" where
  "is_sensitive rq \<longleftrightarrow> rq_classification rq \<in> set sensitive_classifications"

definition authorize_decision :: "principal \<Rightarrow> access_request \<Rightarrow> policy_decision" where
  "authorize_decision p rq =
     (let d0 = base_decision p rq;
          obls = (if is_sensitive rq
            then [''no_external_provider'', ''watermark_sensitive'', ''audit_every_read''] else []);
          d1 = (if is_sensitive rq \<and> \<not> list_ex (\<lambda>r. r \<in> set sensitive_roles) (roles p)
            then (False, ''SENSITIVE_CLASSIFICATION_DENIED'') else d0);
          d2 = (if truthy_str (rq_spatial_region_id rq) \<and> spatial_region_ids p \<noteq> []
              \<and> the (rq_spatial_region_id rq) \<notin> set (spatial_region_ids p)
            then (False, ''SPATIAL_REGION_DENIED'') else d1)
      in \<lparr>allowed = fst d2, reason_code = snd d2, obligations = obls,
          evaluated_policy_version = ''sip-policy-1.1.0''\<rparr>)"

text \<open>The denial is recorded in a session of the audit service itself, so it is committed whatever
  the caller does with the decision.\<close>

definition denial_entry :: "principal \<Rightarrow> access_request \<Rightarrow> string \<Rightarrow> audit_call" where
  "denial_entry p rq reason = audit_entry (rq_tenant_id rq) (rq_project_id rq) (subject_id p)
     (''authorize:'' @ rq_action rq) ''policy_decision'' (str_or (rq_project_id rq) (rq_tenant_id rq)) ''denied''
     [(''reason'', JStr reason), (''purpose'', jopt (rq_purpose rq)),
      (''classification'', JStr (rq_classification rq)),
      (''spatial_region_id'', jopt (rq_spatial_region_id rq))]"

definition authorize ::
  "runtime \<Rightarrow> string \<Rightarrow> env \<Rightarrow> principal \<Rightarrow> access_request \<Rightarrow> db \<Rightarrow> (sip_error + policy_decision) \<times> db" where
  "authorize rt key E p rq s =
     (let d = authorize_decision p rq
      in if \<not> allowed d \<and> rq_audit_denial rq
         then (case append_audit rt key (ids E 0) (clk E 0) (denial_entry p rq (reason_code d)) s of
                 Inl e \<Rightarrow> (Inl e, s) | Inr s' \<Rightarrow> (Inr d, s'))
         else (Inr d, s))"

definition require ::
  "runtime \<Rightarrow> string \<Rightarrow> env \<Rightarrow> principal \<Rightarrow> access_request \<Rightarrow> db \<Rightarrow> (sip_error + policy_decision) \<times> db" where
  "require rt key E p rq s =
     (case authorize rt key E p rq s of
        (Inl e, s') \<Rightarrow> (Inl e, s')
      | (Inr d, s') \<Rightarrow>
          (if \<not> allowed d
           then (Inl (AuthorizationError (reason_code d)
                   [(''obligations'', JArr (map JStr (obligations d)))]), s')
           else (Inr d, s')))"

section \<open>Identities and role bindings\<close>

definition get_identity :: "db \<Rightarrow> string \<Rightarrow> identity_row option" where
  "get_identity s k = tget i_identity_id (identities s) k"

definition create_identity :: "env \<Rightarrow> string \<Rightarrow> string \<Rightarrow> string \<Rightarrow> string \<Rightarrow> db \<Rightarrow> sip_error + unit \<times> db" where
  "create_identity E tenant identity display_name identity_type s =
     (if get_identity s identity \<noteq> None then Inl (ValidationError ''IDENTITY_EXISTS'' [])
      else if get_tenant s tenant = None then Inl (Uncaught ''IntegrityError'')
      else bindE (insert_row i_identity_id
             \<lparr>i_identity_id = identity, i_tenant_id = tenant, i_identity_type = identity_type,
              i_display_name = display_name, i_disabled = False, i_attributes_json = [],
              i_created_at = clk E 0\<rparr> (identities s))
           (\<lambda>rows. Inr ((), s\<lparr>identities := rows\<rparr>)))"

definition bind_role ::
  "env \<Rightarrow> string \<Rightarrow> string \<Rightarrow> string option \<Rightarrow> string \<Rightarrow> string \<Rightarrow> string list \<Rightarrow> fields list \<Rightarrow> time option
     \<Rightarrow> db \<Rightarrow> sip_error + unit \<times> db" where
  "bind_role E binding tenant project identity role purps restrictions expires s =
     (if role \<notin> fst ` set ROLE_ACTIONS then Inl (ValidationError ''ROLE_UNKNOWN'' [])
      else case get_identity s identity of
        None \<Rightarrow> Inl (NotFoundError ''identity'' identity)
      | Some idn \<Rightarrow>
          (if i_tenant_id idn \<noteq> tenant then Inl (NotFoundError ''identity'' identity)
           else if truthy_str project \<and>
              (case get_project s (the project) of None \<Rightarrow> True | Some pr \<Rightarrow> pr_tenant_id pr \<noteq> tenant)
             then Inl (NotFoundError ''project'' (the project))
           else bindE (insert_row rb_binding_id
               \<lparr>rb_binding_id = binding, rb_tenant_id = tenant, rb_project_id = project,
                rb_identity_id = identity, rb_role = role, rb_purposes_json = purps,
                rb_spatial_restrictions_json = restrictions, rb_expires_at = expires,
                rb_created_at = clk E 0\<rparr> (role_bindings s))
             (\<lambda>rows. Inr ((), s\<lparr>role_bindings := rows\<rparr>))))"

definition binding_in_scope :: "string \<Rightarrow> string \<Rightarrow> string option \<Rightarrow> role_binding_row \<Rightarrow> bool" where
  "binding_in_scope tenant identity project r \<longleftrightarrow>
     rb_tenant_id r = tenant \<and> rb_identity_id r = identity \<and>
     (rb_project_id r = project \<or> rb_project_id r = None)"

definition binding_active :: "time \<Rightarrow> role_binding_row \<Rightarrow> bool" where
  "binding_active now r = (case rb_expires_at r of None \<Rightarrow> True | Some t \<Rightarrow> t > now)"

fun allowed_region :: "fields \<Rightarrow> string list" where
  "allowed_region restriction =
     (case (jget restriction ''effect'', jget restriction ''region_id'') of
        (JStr eff, JStr region) \<Rightarrow> (if eff = ''allow'' \<and> region \<noteq> [] then [region] else [])
      | _ \<Rightarrow> [])"

definition principal_for ::
  "env \<Rightarrow> string \<Rightarrow> string \<Rightarrow> string option \<Rightarrow> audience \<Rightarrow> db \<Rightarrow> sip_error + principal \<times> db" where
  "principal_for E tenant identity project aud s =
     (case get_identity s identity of
        None \<Rightarrow> Inl (NotFoundError ''identity'' identity)
      | Some idn \<Rightarrow>
          (if i_tenant_id idn \<noteq> tenant \<or> i_disabled idn then Inl (NotFoundError ''identity'' identity)
           else let rows = filter (binding_in_scope tenant identity project) (role_bindings s);
                    active = filter (binding_active (clk E 0)) rows
                in Inr (\<lparr>subject_id = identity, p_tenant_id = tenant,
                     project_ids = (if truthy_str project then [the project] else []),
                     roles = sorted_set (map rb_role active),
                     purposes = sorted_set (concat (map rb_purposes_json active)),
                     p_audience = aud,
                     spatial_region_ids = sorted_set (concat (map
                       (\<lambda>r. concat (map allowed_region (rb_spatial_restrictions_json r))) active))\<rparr>, s)))"

section \<open>Tenants and projects\<close>

definition create_tenant ::
  "runtime \<Rightarrow> string \<Rightarrow> env \<Rightarrow> string \<Rightarrow> string option \<Rightarrow> string \<Rightarrow> db \<Rightarrow> sip_error + string \<times> db" where
  "create_tenant rt key E name tenant_id actor s =
     (let identifier = str_or tenant_id (ids E 0)
      in if get_tenant s identifier \<noteq> None then Inl (ConflictError ''TENANT_EXISTS'' [])
         else let s' = s\<lparr>tenants := tenants s @ [\<lparr>t_tenant_id = identifier, t_name = name,
                          t_status = ''active'', t_created_at = clk E 0\<rparr>]\<rparr>
              in bindE (append_audit rt key (ids E 1) (clk E 1)
                   (audit_entry identifier None actor ''tenant:create'' ''tenant'' identifier ''allowed''
                      [(''name'', JStr name)]) s')
                 (\<lambda>s''. Inr (identifier, s'')))"

definition create_project ::
  "runtime \<Rightarrow> string \<Rightarrow> env \<Rightarrow> string \<Rightarrow> string \<Rightarrow> string \<Rightarrow> string \<Rightarrow> string option \<Rightarrow> string
     \<Rightarrow> db \<Rightarrow> sip_error + string \<times> db" where
  "create_project rt key E tenant name vertical classif project_id actor s =
     (let identifier = str_or project_id (ids E 0)
      in if get_tenant s tenant = None then Inl (NotFoundError ''tenant'' tenant)
         else if get_project s identifier \<noteq> None then Inl (ConflictError ''PROJECT_EXISTS'' [])
         else let s' = s\<lparr>projects := projects s @ [\<lparr>pr_project_id = identifier, pr_tenant_id = tenant,
                          pr_name = name, pr_vertical = vertical, pr_classification = classif,
                          pr_status = ''active'', pr_created_at = clk E 0\<rparr>]\<rparr>
              in bindE (append_audit rt key (ids E 1) (clk E 1)
                   (audit_entry tenant (Some identifier) actor ''project:create'' ''project'' identifier ''allowed''
                      [(''name'', JStr name), (''vertical'', JStr vertical), (''classification'', JStr classif)]) s')
                 (\<lambda>s''. Inr (identifier, s'')))"

section \<open>Properties of the role table\<close>

lemma star_only_tenant_admin: "\<forall>(r, g) \<in> set ROLE_ACTIONS. ''*'' \<in> set g \<longrightarrow> r = ''tenant_admin''"
  by code_simp

lemma tenant_admin_star: "''*'' \<in> set (role_grants ''tenant_admin'')"
  by code_simp

lemma role_grants_star: "''*'' \<in> set (role_grants r) \<longleftrightarrow> r = ''tenant_admin''"
proof (cases "map_of ROLE_ACTIONS r")
  case (Some g)
  then have "(r, g) \<in> set ROLE_ACTIONS" by (rule map_of_SomeD)
  with Some star_only_tenant_admin tenant_admin_star show ?thesis
    by (auto simp: role_grants_def)
next
  case None
  with tenant_admin_star show ?thesis by (auto simp: role_grants_def)
qed

text \<open>
  An action that needs an exact grant (deletions, exports of restricted data, key management,
  releases, recovery ...) is allowed by a role only when the role lists that very action or is
  \<open>tenant_admin\<close>; a namespace grant such as \<open>deletion:*\<close> never covers it.
\<close>

lemma exact_grant_needs_listing:
  assumes "action \<in> set EXACT_GRANT_ACTIONS"
  shows "role_allows role action \<longleftrightarrow> role = ''tenant_admin'' \<or> action \<in> set (role_grants role)"
  using assms by (auto simp: role_allows_def Let_def role_grants_star)

definition routine_roles :: "string list" where
  "routine_roles = [''project_admin'', ''capture_operator'', ''reviewer'', ''publisher'', ''viewer'', ''service_worker'']"

lemma routine_grants:
  "list_all (\<lambda>(r, g). r \<in> set routine_roles \<longrightarrow> list_all (\<lambda>a. a \<notin> set EXACT_GRANT_ACTIONS) g) ROLE_ACTIONS"
  "''tenant_admin'' \<notin> set routine_roles"
  by code_simp+

text \<open>
  The routine project roles (project administrator, capture operator, reviewer, publisher,
  viewer, service worker) allow none of the actions that need an exact grant.
\<close>

lemma routine_roles_lack_exact_grants:
  "\<forall>action \<in> set EXACT_GRANT_ACTIONS. \<forall>role \<in> set routine_roles. \<not> role_allows role action"
proof (intro ballI)
  fix action role assume a: "action \<in> set EXACT_GRANT_ACTIONS" and r: "role \<in> set routine_roles"
  have "action \<notin> set (role_grants role)"
  proof (cases "map_of ROLE_ACTIONS role")
    case (Some g)
    then have "(role, g) \<in> set ROLE_ACTIONS" by (rule map_of_SomeD)
    with routine_grants(1) r a have "action \<notin> set g" by (auto simp: list_all_iff)
    with Some show ?thesis by (simp add: role_grants_def)
  qed (simp add: role_grants_def)
  moreover have "role \<noteq> ''tenant_admin''" using r routine_grants(2) by metis
  ultimately show "\<not> role_allows role action"
    using a by (simp add: role_allows_def role_grants_star)
qed

section \<open>Properties of the decision\<close>

text \<open>What the policy promises, as one condition without an order of tests.\<close>

definition access_granted :: "principal \<Rightarrow> access_request \<Rightarrow> bool" where
  "access_granted p rq \<longleftrightarrow>
     p_tenant_id p = rq_tenant_id rq \<and>
     (\<exists>role \<in> set (roles p). role_allows role (rq_action rq)) \<and>
     (is_tenant_admin p \<or>
        (truthy_str (rq_project_id rq) \<longrightarrow> the (rq_project_id rq) \<in> set (project_ids p)) \<and>
        (truthy_str (rq_purpose rq) \<longrightarrow> the (rq_purpose rq) \<in> set (purposes p)) \<and>
        (\<forall>a. rq_required_audience rq = Some a \<longrightarrow> p_audience p \<in> {a, PRIVATE})) \<and>
     (is_sensitive rq \<longrightarrow> set (roles p) \<inter> set sensitive_roles \<noteq> {}) \<and>
     (truthy_str (rq_spatial_region_id rq) \<longrightarrow>
        spatial_region_ids p = [] \<or> the (rq_spatial_region_id rq) \<in> set (spatial_region_ids p))"

lemma base_decision_allows: "fst (base_decision p rq) \<longleftrightarrow>
     p_tenant_id p = rq_tenant_id rq \<and> (\<exists>role \<in> set (roles p). role_allows role (rq_action rq)) \<and>
     (is_tenant_admin p \<or>
        (truthy_str (rq_project_id rq) \<longrightarrow> the (rq_project_id rq) \<in> set (project_ids p)) \<and>
        (truthy_str (rq_purpose rq) \<longrightarrow> the (rq_purpose rq) \<in> set (purposes p)) \<and>
        (\<forall>a. rq_required_audience rq = Some a \<longrightarrow> p_audience p \<in> {a, PRIVATE}))"
  by (cases "rq_required_audience rq") (simp_all add: base_decision_def list_ex_iff, blast+)

lemma allowed_decision: "allowed (authorize_decision p rq) \<longleftrightarrow> access_granted p rq"
proof -
  have "list_ex (\<lambda>r. r \<in> set sensitive_roles) (roles p) \<longleftrightarrow> set (roles p) \<inter> set sensitive_roles \<noteq> {}"
    by (auto simp: list_ex_iff)
  then show ?thesis
    unfolding access_granted_def authorize_decision_def Let_def
    using base_decision_allows [of p rq] by simp
qed

lemma reason_allow: "reason_code (authorize_decision p rq) = ''ALLOW'' \<longleftrightarrow> allowed (authorize_decision p rq)"
  by (auto simp: authorize_decision_def Let_def base_decision_def)

text \<open>
  C11. The chain of tests in \<open>authorize\<close> decides exactly the declarative policy: the tenant
  matches, some role allows the action, project, purpose and audience are in scope (or the
  principal is a tenant administrator), a sensitive classification needs a sensitive role, a
  spatial region must be among the allowed ones. The reason is ALLOW exactly for a granted access,
  and the handling obligations are returned exactly for a sensitive classification.
\<close>

theorem authorize_refines_policy:
  "allowed (authorize_decision p rq) = access_granted p rq \<and>
   (reason_code (authorize_decision p rq) = ''ALLOW'') = access_granted p rq \<and>
   (obligations (authorize_decision p rq) \<noteq> []) = is_sensitive rq"
  using allowed_decision [of p rq] reason_allow [of p rq]
  by (auto simp: authorize_decision_def Let_def)

text \<open>
  A denial by \<open>require\<close> raises and leaves exactly one committed audit event: the denied
  action, by this subject, in the tenant of the request.
\<close>

lemma require_denial_is_recorded:
  assumes "\<not> access_granted p rq" and "rq_audit_denial rq"
    and "require rt key E p rq s = (Inl (AuthorizationError code details), s')"
  shows "\<exists>r. s' = s\<lparr>audit_events := audit_events s @ [r]\<rparr> \<and> ae_outcome r = ''denied'' \<and>
      ae_actor_id r = subject_id p \<and> ae_action r = ''authorize:'' @ rq_action rq \<and>
      ae_tenant_id r = rq_tenant_id rq"
proof -
  obtain u where u: "append_audit rt key (ids E 0) (clk E 0)
      (denial_entry p rq (reason_code (authorize_decision p rq))) s = Inr u" "s' = u"
    using assms
    by (auto simp: require_def authorize_def Let_def allowed_decision append_audit_def audit_append_def
        bindE_Inl_conv insert_row_def split: sum.splits if_splits)
  from audit.append_grows [OF u(1)] u(2) show ?thesis
    by (auto simp: denial_entry_def audit_entry_def)
qed

text \<open>
  \<open>require\<close> returns only when the declarative policy grants the access, and then it
  changes nothing.
\<close>

lemma require_grants_only_policy:
  assumes "require rt key E p rq s = (Inr d, s')"
  shows "access_granted p rq \<and> d = authorize_decision p rq \<and> s' = s"
  using assms
  by (auto simp: require_def authorize_def Let_def allowed_decision split: sum.splits if_splits)

section \<open>Bindings\<close>

text \<open>
  C29. Every access allowed to an assembled principal rests on a role binding of the same tenant and
  identity, for the project or the whole tenant, that has not expired and whose role allows the
  action.
\<close>

theorem access_needs_active_binding:
  assumes "principal_for E tenant identity project aud s = Inr (p, s')"
    and "allowed (authorize_decision p rq)"
  shows "rq_tenant_id rq = tenant \<and>
    (\<exists>r \<in> set (role_bindings s). rb_tenant_id r = tenant \<and> rb_identity_id r = identity \<and>
       rb_project_id r \<in> {project, None} \<and> (\<forall>t. rb_expires_at r = Some t \<longrightarrow> clk E 0 < t) \<and>
       role_allows (rb_role r) (rq_action rq))"
proof -
  have p: "p_tenant_id p = tenant"
      "set (roles p) = rb_role ` {r \<in> set (role_bindings s). binding_in_scope tenant identity project r \<and> binding_active (clk E 0) r}"
    using assms(1) by (auto simp: principal_for_def Let_def split: option.splits if_splits)
  from assms(2) obtain role where "role \<in> set (roles p)" "role_allows role (rq_action rq)"
      "p_tenant_id p = rq_tenant_id rq"
    unfolding allowed_decision access_granted_def by blast
  then show ?thesis
    unfolding p by (auto simp: binding_in_scope_def binding_active_def split: option.splits)
qed


section \<open>Tenants stay separate\<close>

text \<open>
  The invariant of the tenancy tables: keys are unique, every project, identity and role binding
  belongs to an existing tenant, and a binding names an identity and a project of its own tenant.
\<close>

definition binding_ok :: "identity_row list \<Rightarrow> project_row list \<Rightarrow> role_binding_row \<Rightarrow> bool" where
  "binding_ok idents projs r \<longleftrightarrow>
     (\<exists>i \<in> set idents. i_identity_id i = rb_identity_id r \<and> i_tenant_id i = rb_tenant_id r) \<and>
     (\<forall>p. rb_project_id r = Some p \<and> p \<noteq> [] \<longrightarrow>
        (\<exists>pr \<in> set projs. pr_project_id pr = p \<and> pr_tenant_id pr = rb_tenant_id r))"

definition tenancy_wf :: "db \<Rightarrow> bool" where
  "tenancy_wf s \<longleftrightarrow>
     distinct (map t_tenant_id (tenants s)) \<and> distinct (map pr_project_id (projects s)) \<and>
     distinct (map i_identity_id (identities s)) \<and> distinct (map rb_binding_id (role_bindings s)) \<and>
     (\<forall>pr \<in> set (projects s). pr_tenant_id pr \<in> tkeys t_tenant_id (tenants s)) \<and>
     (\<forall>i \<in> set (identities s). i_tenant_id i \<in> tkeys t_tenant_id (tenants s)) \<and>
     (\<forall>r \<in> set (role_bindings s). binding_ok (identities s) (projects s) r)"

datatype tenancy_event =
    CreateTenant env string "string option" string
  | CreateProject env string string string string "string option" string
  | CreateIdentity env string string string string
  | BindRole env string string "string option" string string "string list" "fields list" "time option"

fun tenancy_step :: "runtime \<Rightarrow> string \<Rightarrow> db \<Rightarrow> tenancy_event \<Rightarrow> sip_error + db" where
  "tenancy_step rt key s (CreateTenant E name tenant_id actor) =
     bindE (create_tenant rt key E name tenant_id actor s) (\<lambda>(_, t). Inr t)"
| "tenancy_step rt key s (CreateProject E tenant name vertical classif project_id actor) =
     bindE (create_project rt key E tenant name vertical classif project_id actor s) (\<lambda>(_, t). Inr t)"
| "tenancy_step rt key s (CreateIdentity E tenant identity display_name identity_type) =
     bindE (create_identity E tenant identity display_name identity_type s) (\<lambda>(_, t). Inr t)"
| "tenancy_step rt key s (BindRole E binding tenant project identity role purps restrictions expires) =
     bindE (bind_role E binding tenant project identity role purps restrictions expires s) (\<lambda>(_, t). Inr t)"

lemma tenancy_wf_audit [simp]: "tenancy_wf (s\<lparr>audit_events := l\<rparr>) = tenancy_wf s"
  by (simp add: tenancy_wf_def)

lemma append_audit_tenancy_wf: "append_audit rt key i now c s = Inr t \<Longrightarrow> tenancy_wf t = tenancy_wf s"
  using audit.append_frame by fastforce

lemma binding_ok_mono:
  "binding_ok idents projs r \<Longrightarrow> binding_ok (idents @ is') (projs @ ps) r"
  unfolding binding_ok_def set_append by blast

lemma tenancy_wf_add_tenant:
  "tenancy_wf s \<Longrightarrow> t_tenant_id r \<notin> tkeys t_tenant_id (tenants s) \<Longrightarrow> tenancy_wf (s\<lparr>tenants := tenants s @ [r]\<rparr>)"
  unfolding tenancy_wf_def by (simp add: tkeys_def)

lemma tenancy_wf_add_project:
  "tenancy_wf s \<Longrightarrow> pr_project_id r \<notin> tkeys pr_project_id (projects s) \<Longrightarrow>
     pr_tenant_id r \<in> tkeys t_tenant_id (tenants s) \<Longrightarrow> tenancy_wf (s\<lparr>projects := projects s @ [r]\<rparr>)"
  unfolding tenancy_wf_def using binding_ok_mono [where is' = "[]"] by (simp add: tkeys_def)

lemma tenancy_wf_add_identity:
  "tenancy_wf s \<Longrightarrow> i_identity_id r \<notin> tkeys i_identity_id (identities s) \<Longrightarrow>
     i_tenant_id r \<in> tkeys t_tenant_id (tenants s) \<Longrightarrow> tenancy_wf (s\<lparr>identities := identities s @ [r]\<rparr>)"
  unfolding tenancy_wf_def using binding_ok_mono [where ps = "[]"] by (simp add: tkeys_def)

lemma tenancy_wf_add_binding:
  "tenancy_wf s \<Longrightarrow> rb_binding_id r \<notin> tkeys rb_binding_id (role_bindings s) \<Longrightarrow>
     binding_ok (identities s) (projects s) r \<Longrightarrow> tenancy_wf (s\<lparr>role_bindings := role_bindings s @ [r]\<rparr>)"
  unfolding tenancy_wf_def by (simp add: tkeys_def)

lemma create_tenant_wf:
  assumes "create_tenant rt key E name tenant_id actor s = Inr (x, t)" and "tenancy_wf s"
  shows "tenancy_wf t"
  using assms
  by (auto simp: create_tenant_def Let_def result_simps get_tenant_def tget_None_iff
      intro!: tenancy_wf_add_tenant dest!: append_audit_tenancy_wf)

lemma create_project_wf:
  assumes "create_project rt key E tenant name vertical classif project_id actor s = Inr (x, t)" and "tenancy_wf s"
  shows "tenancy_wf t"
  using assms
  by (auto simp: create_project_def Let_def result_simps get_project_def get_tenant_def tget_None_iff
      intro!: tenancy_wf_add_project dest!: append_audit_tenancy_wf)

lemma create_identity_wf:
  assumes "create_identity E tenant identity display_name identity_type s = Inr (x, t)" and "tenancy_wf s"
  shows "tenancy_wf t"
  using assms
  by (auto simp: create_identity_def result_simps get_tenant_def tget_None_iff intro!: tenancy_wf_add_identity)

lemma bind_role_wf:
  assumes "bind_role E binding tenant project identity role purps restrictions expires s = Inr (x, t)" and "tenancy_wf s"
  shows "tenancy_wf t"
  using assms
  by (auto simp: bind_role_def result_simps get_identity_def get_project_def binding_ok_def
      intro!: tenancy_wf_add_binding dest!: tget_SomeD split: option.splits) blast+

lemma tenancy_step_wf: "tenancy_wf s \<Longrightarrow> tenancy_step rt key s e = Inr t \<Longrightarrow> tenancy_wf t"
  by (cases e) (auto simp: result_simps split: prod.splits
      dest: create_tenant_wf create_project_wf create_identity_wf bind_role_wf)

interpretation tenancy: invariant_component "tenancy_step rt key" tenancy_wf
  for rt key
  by unfold_locales (rule tenancy_step_wf)

text \<open>
  Any sequence of tenant, project, identity and role-binding operations, failed ones included,
  keeps the tables separated: unique keys, no project or identity without its tenant, and no
  binding to an identity or a project of another tenant.
\<close>

lemma tenancy_tables_stay_separate:
  assumes "tenancy_wf s"
  shows "tenancy_wf (run (tenancy_step rt key) events s)"
  using assms by (rule tenancy.run_inv)


section \<open>Instances\<close>

definition sample_env :: env where
  "sample_env = \<lparr>ids = (\<lambda>n. ''id'' @ nat_repr n), clk = (\<lambda>n. 10 + int n)\<rparr>"

definition sample_principal :: principal where
  "sample_principal = \<lparr>subject_id = ''u'', p_tenant_id = ''t'', project_ids = [''p''], roles = [''viewer''],
     purposes = [], p_audience = PRIVATE, spatial_region_ids = []\<rparr>"

definition sample_request :: "string \<Rightarrow> access_request" where
  "sample_request action = \<lparr>rq_action = action, rq_tenant_id = ''t'', rq_project_id = Some ''p'', rq_purpose = None,
     rq_classification = ''internal'', rq_required_audience = None, rq_spatial_region_id = None,
     rq_audit_denial = True\<rparr>"

definition sample_tenancy :: db where
  "sample_tenancy = run (tenancy_step plain_runtime ''k'')
     [CreateTenant sample_env ''T'' (Some ''t'') ''root'',
      CreateIdentity sample_env ''t'' ''u'' ''User'' ''user'',
      BindRole sample_env ''b'' ''t'' None ''u'' ''viewer'' [] [] (Some 100)] empty_db"

lemma viewer_reads: "role_allows ''viewer'' ''scene:read''" and viewer_no_export: "\<not> role_allows ''viewer'' ''export:read''"
  by code_simp+

lemma exact_grant_needs_listing_witness:
  "role_allows ''recovery_operator'' ''deletion:approve'' \<longleftrightarrow> ''recovery_operator'' = ''tenant_admin''
     \<or> ''deletion:approve'' \<in> set (role_grants ''recovery_operator'')"
  by (rule exact_grant_needs_listing) code_simp

lemma routine_roles_lack_exact_grants_witness: "\<not> role_allows ''viewer'' ''deletion:approve''"
proof -
  have "''deletion:approve'' \<in> set EXACT_GRANT_ACTIONS" "''viewer'' \<in> set routine_roles" by code_simp+
  then show ?thesis using routine_roles_lack_exact_grants by blast
qed

lemma sample_denied: "\<not> access_granted sample_principal (sample_request ''export:read'')"
  by (simp add: access_granted_def sample_principal_def sample_request_def viewer_no_export)

lemma require_denial_is_recorded_witness:
  "\<exists>s'. fst (require plain_runtime ''k'' sample_env sample_principal (sample_request ''export:read'') empty_db)
       = Inl (AuthorizationError ''ACTION_DENIED'' [(''obligations'', JArr [])])
     \<and> s' = snd (require plain_runtime ''k'' sample_env sample_principal (sample_request ''export:read'') empty_db)
     \<and> (\<exists>r. s' = empty_db\<lparr>audit_events := audit_events empty_db @ [r]\<rparr> \<and> ae_outcome r = ''denied'')"
proof -
  let ?rq = "sample_request ''export:read''"
  have d: "authorize_decision sample_principal ?rq = \<lparr>allowed = False, reason_code = ''ACTION_DENIED'',
      obligations = [], evaluated_policy_version = ''sip-policy-1.1.0''\<rparr>"
    by (simp add: authorize_decision_def Let_def base_decision_def sample_principal_def sample_request_def
        viewer_no_export is_sensitive_def sensitive_classifications_def)
  have audited: "rq_audit_denial ?rq" by (simp add: sample_request_def)
  obtain s' where a: "append_audit plain_runtime ''k'' (ids sample_env 0) (clk sample_env 0)
      (denial_entry sample_principal ?rq ''ACTION_DENIED'') empty_db = Inr s'"
    by (simp add: append_audit_def audit_append_def insert_row_def empty_db_def Let_def)
  have r: "require plain_runtime ''k'' sample_env sample_principal ?rq empty_db
      = (Inl (AuthorizationError ''ACTION_DENIED'' [(''obligations'', JArr [])]), s')"
    by (simp add: require_def authorize_def d audited a)
  from require_denial_is_recorded [OF sample_denied audited r] r show ?thesis by auto
qed

lemma sample_allowed: "allowed (authorize_decision sample_principal (sample_request ''scene:read''))"
  by (simp add: authorize_decision_def Let_def base_decision_def sample_principal_def sample_request_def
      viewer_reads is_sensitive_def sensitive_classifications_def)

lemma require_grants_only_policy_witness:
  "access_granted sample_principal (sample_request ''scene:read'')"
proof -
  let ?rq = "sample_request ''scene:read''"
  have "require plain_runtime ''k'' sample_env sample_principal ?rq empty_db
      = (Inr (authorize_decision sample_principal ?rq), empty_db)"
    using sample_allowed by (simp add: require_def authorize_def Let_def)
  from require_grants_only_policy [OF this] show ?thesis by simp
qed

lemma sample_binding:
  "role_bindings sample_tenancy = [\<lparr>rb_binding_id = ''b'', rb_tenant_id = ''t'', rb_project_id = None,
     rb_identity_id = ''u'', rb_role = ''viewer'', rb_purposes_json = [], rb_spatial_restrictions_json = [],
     rb_expires_at = Some 100, rb_created_at = 10\<rparr>]"
  and sample_identity: "get_identity sample_tenancy ''u'' = Some \<lparr>i_identity_id = ''u'', i_tenant_id = ''t'',
     i_identity_type = ''user'', i_display_name = ''User'', i_disabled = False, i_attributes_json = [], i_created_at = 10\<rparr>"
proof -
  have "''viewer'' \<in> fst ` set ROLE_ACTIONS" by code_simp
  then show "role_bindings sample_tenancy = [\<lparr>rb_binding_id = ''b'', rb_tenant_id = ''t'', rb_project_id = None,
     rb_identity_id = ''u'', rb_role = ''viewer'', rb_purposes_json = [], rb_spatial_restrictions_json = [],
     rb_expires_at = Some 100, rb_created_at = 10\<rparr>]"
    and "get_identity sample_tenancy ''u'' = Some \<lparr>i_identity_id = ''u'', i_tenant_id = ''t'',
     i_identity_type = ''user'', i_display_name = ''User'', i_disabled = False, i_attributes_json = [], i_created_at = 10\<rparr>"
    by (simp_all add: sample_tenancy_def settle_def create_tenant_def create_identity_def bind_role_def
        append_audit_def audit_append_def insert_row_def empty_db_def get_tenant_def get_identity_def
        tget_Cons str_or_def sample_env_def Let_def)
qed

lemma access_needs_active_binding_witness:
  "\<exists>p. principal_for sample_env ''t'' ''u'' (Some ''p'') PRIVATE sample_tenancy = Inr (p, sample_tenancy)
     \<and> allowed (authorize_decision p (sample_request ''scene:read''))
     \<and> (\<exists>r \<in> set (role_bindings sample_tenancy). role_allows (rb_role r) ''scene:read'')"
proof -
  have p: "principal_for sample_env ''t'' ''u'' (Some ''p'') PRIVATE sample_tenancy = Inr (sample_principal, sample_tenancy)"
    by (simp add: principal_for_def sample_binding sample_identity sample_principal_def binding_in_scope_def
        binding_active_def sorted_set_def sample_env_def Let_def)
  from access_needs_active_binding [OF p sample_allowed] p sample_allowed show ?thesis
    by (auto simp: sample_request_def)
qed

lemma tenancy_tables_stay_separate_witness:
  "tenancy_wf (run (tenancy_step plain_runtime ''k'') [CreateTenant sample_env ''T'' (Some ''t'') ''root''] empty_db)"
  by (rule tenancy_tables_stay_separate) (simp add: tenancy_wf_def empty_db_def)

end
