(* ===== verification/Failures.thy ===== *)
theory Failures
  imports Sip_Errors
begin

text \<open>
  \<open>src/sip/failures.py\<close>: the versioned failure catalogue. A definition and the catalogue
  are validated when they are loaded (pydantic validators, here \<open>validate_definition\<close> and
  \<open>validate_catalog\<close>, raising a \<open>ValueError\<close>); the operations resolve a code or an alias,
  build a sanitised diagnostic, decide on publication and link a recovery to the failed run.

  Shown: what passes the sanitiser, that unsafe and fatal failures always block publication, and
  that aliases are interchangeable with the code they stand for.
\<close>

section \<open>Definitions and the catalogue document\<close>

datatype failure_severity = Info | Warning | Error | Unsafe | Fatal

datatype retry_class = Transient | Capacity | Policy_Failure | Invalid_Input
  | Deterministic_Algorithm | Manual_Review | Non_Retryable

datatype publication_action = No_Action | Quarantine | Block | Withdraw

fun retry_class_value :: "retry_class \<Rightarrow> string" where
  "retry_class_value Transient = ''transient''"
| "retry_class_value Capacity = ''capacity''"
| "retry_class_value Policy_Failure = ''policy''"
| "retry_class_value Invalid_Input = ''invalid_input''"
| "retry_class_value Deterministic_Algorithm = ''deterministic_algorithm''"
| "retry_class_value Manual_Review = ''manual_review''"
| "retry_class_value Non_Retryable = ''non_retryable''"

fun publication_action_value :: "publication_action \<Rightarrow> string" where
  "publication_action_value No_Action = ''none''"
| "publication_action_value Quarantine = ''quarantine''"
| "publication_action_value Block = ''block''"
| "publication_action_value Withdraw = ''withdraw''"

record failure_definition =
  f_code :: string
  f_introduced_version :: string
  f_category :: string
  f_coverage_tags :: "string list"
  f_severity :: failure_severity
  f_retry_class :: retry_class
  f_retryable :: bool
  f_safe_checkpoint :: "string option"
  f_operator_action :: string
  f_customer_message :: string
  f_audit_required :: bool
  f_test_references :: "string list"
  f_publication_action :: publication_action
  f_diagnostic_fields :: "string list"
  f_recovery_mode :: string
  f_fallback :: string
  f_remediation :: "string list"
  f_affected_representations :: "string list"
  f_compatibility_aliases :: "string list"

text \<open>The pattern \<open>^[A-Z][A-Z0-9_]{2,127}$\<close>.\<close>

definition upper_letter :: "char \<Rightarrow> bool" where
  "upper_letter c \<longleftrightarrow> (let n = of_char c :: nat in 65 \<le> n \<and> n \<le> 90)"

definition digit :: "char \<Rightarrow> bool" where
  "digit c \<longleftrightarrow> (let n = of_char c :: nat in 48 \<le> n \<and> n \<le> 57)"

fun failure_code_pattern :: "string \<Rightarrow> bool" where
  "failure_code_pattern [] = False"
| "failure_code_pattern (c # cs) =
     (upper_letter c \<and> 2 \<le> length cs \<and> length cs \<le> 127 \<and>
      list_all (\<lambda>d. upper_letter d \<or> digit d \<or> d = CHR ''_'') cs)"

text \<open>The field constraints, then \<open>unique_sorted\<close> on three lists, then \<open>enforce_safety\<close>.\<close>

definition unique_sorted :: "string list \<Rightarrow> sip_error + string list" where
  "unique_sorted value = (if \<not> distinct value then Inl (Uncaught ''ValueError'') else Inr (sort value))"

definition enforce_safety :: "failure_definition \<Rightarrow> sip_error + failure_definition" where
  "enforce_safety d =
     (if f_severity d \<in> {Unsafe, Fatal} \<and> f_publication_action d \<notin> {Block, Withdraw}
      then Inl (Uncaught ''ValueError'')
      else if f_retry_class d \<in> {Policy_Failure, Invalid_Input, Non_Retryable} \<and> f_retryable d
      then Inl (Uncaught ''ValueError'')
      else Inr d)"

definition validate_definition :: "failure_definition \<Rightarrow> sip_error + failure_definition" where
  "validate_definition d =
     (if \<not> failure_code_pattern (f_code d) \<or> f_coverage_tags d = [] \<or> f_operator_action d = []
         \<or> f_customer_message d = [] \<or> f_test_references d = [] \<or> f_recovery_mode d = []
         \<or> f_fallback d = [] \<or> f_remediation d = []
      then Inl (Uncaught ''ValueError'')
      else bindE (unique_sorted (f_coverage_tags d)) (\<lambda>tags.
           bindE (unique_sorted (f_diagnostic_fields d)) (\<lambda>diag.
           bindE (unique_sorted (f_compatibility_aliases d)) (\<lambda>als.
             enforce_safety (d\<lparr>f_coverage_tags := tags, f_diagnostic_fields := diag,
               f_compatibility_aliases := als\<rparr>)))))"

record failure_catalog =
  fc_catalog_version :: string
  fc_compatibility_policy :: string
  fc_sensitive_diagnostic_policy :: string
  fc_required_coverage_tags :: "string list"
  fc_component_fallbacks :: "(string \<times> string) list"
  fc_failures :: "failure_definition list"

definition required_components :: "string list" where
  "required_components =
     [''picking'', ''collision'', ''navigation'', ''occlusion'', ''spatial_audio'', ''visual_rendering'']"

fun validate_definitions :: "failure_definition list \<Rightarrow> sip_error + failure_definition list" where
  "validate_definitions [] = Inr []"
| "validate_definitions (d # ds) =
     bindE (validate_definition d) (\<lambda>d'. bindE (validate_definitions ds) (\<lambda>ds'. Inr (d' # ds')))"

definition validate_catalog :: "failure_catalog \<Rightarrow> sip_error + failure_catalog" where
  "validate_catalog doc =
     (if fc_required_coverage_tags doc = [] \<or> fc_failures doc = [] then Inl (Uncaught ''ValueError'')
      else bindE (validate_definitions (fc_failures doc)) (\<lambda>defs.
        let codes = map f_code defs;
            aliases = concat (map f_compatibility_aliases defs);
            covered = concat (map f_coverage_tags defs)
        in if \<not> distinct codes then Inl (Uncaught ''ValueError'')
           else if set aliases \<inter> set codes \<noteq> {} then Inl (Uncaught ''ValueError'')
           else if \<not> distinct aliases then Inl (Uncaught ''ValueError'')
           else if \<not> set (fc_required_coverage_tags doc) \<subseteq> set covered then Inl (Uncaught ''ValueError'')
           else if \<not> set required_components \<subseteq> fst ` set (fc_component_fallbacks doc)
             then Inl (Uncaught ''ValueError'')
           else Inr (doc\<lparr>fc_failures := defs\<rparr>)))"

text \<open>\<open>FailureCatalog.load\<close> turns any error of the validation into FAILURE_CATALOG_INVALID.\<close>

definition load_failure_catalog :: "string \<Rightarrow> failure_catalog \<Rightarrow> sip_error + failure_catalog" where
  "load_failure_catalog path doc =
     (case validate_catalog doc of
        Inl e \<Rightarrow> Inl (ValidationError ''FAILURE_CATALOG_INVALID'' [(''path'', JStr path)])
      | Inr c \<Rightarrow> Inr c)"

section \<open>Resolution\<close>

text \<open>The dictionaries of the constructor; in a comprehension the last item with a key wins.\<close>

definition by_code :: "failure_catalog \<Rightarrow> string \<Rightarrow> failure_definition option" where
  "by_code c = map_of (rev (map (\<lambda>d. (f_code d, d)) (fc_failures c)))"

definition alias_items :: "failure_catalog \<Rightarrow> (string \<times> string) list" where
  "alias_items c = concat (map (\<lambda>d. map (\<lambda>a. (a, f_code d)) (f_compatibility_aliases d)) (fc_failures c))"

definition alias_target :: "failure_catalog \<Rightarrow> string \<Rightarrow> string" where
  "alias_target c code = (case map_of (rev (alias_items c)) code of None \<Rightarrow> code | Some t \<Rightarrow> t)"

definition resolve :: "failure_catalog \<Rightarrow> string \<Rightarrow> sip_error + failure_definition" where
  "resolve c code =
     (case by_code c (alias_target c code) of
        None \<Rightarrow> Inl (ValidationError ''FAILURE_CODE_UNKNOWN'' [(''code'', JStr code)])
      | Some d \<Rightarrow> Inr d)"

section \<open>Diagnostics\<close>

definition forbidden_fragments :: "string list" where
  "forbidden_fragments = [''raw'', ''photo'', ''image'', ''frame_bytes'', ''transcript'', ''recording'',
     ''secret'', ''token'', ''password'', ''biometric'', ''precise_coordinates'']"

fun json_scalar :: "json \<Rightarrow> bool" where
  "json_scalar (JStr _) = True"
| "json_scalar (JInt _) = True"
| "json_scalar (JFloat _) = True"
| "json_scalar (JBool _) = True"
| "json_scalar _ = False"

fun diagnostic_value :: "json \<Rightarrow> bool" where
  "diagnostic_value (JArr vs) = (length vs \<le> 32 \<and> list_all json_scalar vs)"
| "diagnostic_value (JObj kvs) = (length kvs \<le> 32 \<and> list_all (\<lambda>(k, v). json_scalar v \<or> v = JNull) kvs)"
| "diagnostic_value v = True"

definition diagnostic_field :: "failure_definition \<Rightarrow> string \<times> json \<Rightarrow> bool" where
  "diagnostic_field d kv \<longleftrightarrow> fst kv \<in> set (f_diagnostic_fields d) \<and>
     \<not> contains_any forbidden_fragments (py_lower (fst kv)) \<and> diagnostic_value (snd kv)"

definition sanitize_diagnostic :: "runtime \<Rightarrow> failure_definition \<Rightarrow> fields \<Rightarrow> sip_error + fields" where
  "sanitize_diagnostic rt d diagnostic =
     (let safe = filter (diagnostic_field d) diagnostic
      in if length (canonical_json rt (JObj safe)) > 32768
         then Inl (ValidationError ''FAILURE_DIAGNOSTIC_TOO_LARGE'' []) else Inr safe)"

record failure_manifest =
  fm_failure_record_id :: string
  fm_code :: string
  fm_occurred_at :: time
  fm_tenant_id :: string
  fm_project_id :: string
  fm_operation_id :: "string option"
  fm_run_id :: "string option"
  fm_diagnostic :: fields
  fm_diagnostic_hash :: string
  fm_publication_blocked :: bool
  fm_audit_required :: bool

definition create_diagnostic ::
  "runtime \<Rightarrow> failure_catalog \<Rightarrow> string \<times> time \<Rightarrow> string \<Rightarrow> string \<Rightarrow> string \<Rightarrow> string option \<Rightarrow> string option
     \<Rightarrow> fields \<Rightarrow> time option \<Rightarrow> sip_error + failure_manifest" where
  "create_diagnostic rt c e code tenant project operation run_id diagnostic occurred =
     bindE (resolve c code) (\<lambda>d.
     bindE (sanitize_diagnostic rt d diagnostic) (\<lambda>safe.
       if \<not> hex_text 64 (canonical_sha256 rt (JObj safe)) then Inl (Uncaught ''ValidationError'')
       else Inr \<lparr>fm_failure_record_id = fst e, fm_code = f_code d,
          fm_occurred_at = (case occurred of None \<Rightarrow> snd e | Some t \<Rightarrow> t),
          fm_tenant_id = tenant, fm_project_id = project, fm_operation_id = operation, fm_run_id = run_id,
          fm_diagnostic = safe, fm_diagnostic_hash = canonical_sha256 rt (JObj safe),
          fm_publication_blocked = (f_publication_action d \<in> {Block, Withdraw}),
          fm_audit_required = f_audit_required d\<rparr>))"

text \<open>The exception \<open>CataloguedFailure\<close> and \<open>raise_failure\<close>, which always raises.\<close>

definition catalogued_failure :: "failure_definition \<Rightarrow> failure_manifest \<Rightarrow> sip_error" where
  "catalogued_failure d m = SIPError (f_code d)
     [(''failure_record_id'', JStr (fm_failure_record_id m)),
      (''diagnostic_hash'', JStr (fm_diagnostic_hash m)),
      (''remediation'', JArr (map JStr (f_remediation d))),
      (''publication_action'', JStr (publication_action_value (f_publication_action d)))]
     (if f_retry_class d \<in> {Transient, Capacity} then 503 else 409) (Some (f_retryable d))"

definition raise_failure ::
  "runtime \<Rightarrow> failure_catalog \<Rightarrow> string \<times> time \<Rightarrow> string \<Rightarrow> string \<Rightarrow> string \<Rightarrow> string option \<Rightarrow> string option
     \<Rightarrow> fields \<Rightarrow> time option \<Rightarrow> sip_error" where
  "raise_failure rt c e code tenant project operation run_id diagnostic occurred =
     (case bindE (resolve c code) (\<lambda>d.
        bindE (create_diagnostic rt c e code tenant project operation run_id diagnostic occurred)
          (\<lambda>m. Inr (catalogued_failure d m))) of Inl err \<Rightarrow> err | Inr err \<Rightarrow> err)"

section \<open>Publication, fallbacks and recovery\<close>

definition assert_publication_allowed :: "failure_catalog \<Rightarrow> string \<Rightarrow> sip_error + unit" where
  "assert_publication_allowed c code =
     bindE (resolve c code) (\<lambda>d.
       if f_publication_action d \<in> {Block, Withdraw}
       then Inl (ConflictError ''FAILURE_BLOCKS_PUBLICATION''
         [(''failure_code'', JStr (f_code d)),
          (''publication_action'', JStr (publication_action_value (f_publication_action d)))])
       else Inr ())"

record recovery_lineage_row =
  rl_recovery_id :: string
  rl_failed_record_id :: string
  rl_failed_run_id :: "string option"
  rl_new_run_id :: string
  rl_new_revision_id :: "string option"
  rl_preserves_failed_evidence :: bool
  rl_rewrites_failed_record :: bool
  rl_created_at :: time

definition recovery_lineage ::
  "string \<times> time \<Rightarrow> failure_manifest \<Rightarrow> string \<Rightarrow> string option \<Rightarrow> time option \<Rightarrow> sip_error + recovery_lineage_row" where
  "recovery_lineage e failed new_run new_revision created =
     (if new_run = [] \<or> Some new_run = fm_run_id failed
      then Inl (ValidationError ''RECOVERY_LINEAGE_INVALID''
        [(''failed_run_id'', jopt (fm_run_id failed)), (''new_run_id'', JStr new_run)])
      else Inr \<lparr>rl_recovery_id = fst e, rl_failed_record_id = fm_failure_record_id failed,
        rl_failed_run_id = fm_run_id failed, rl_new_run_id = new_run, rl_new_revision_id = new_revision,
        rl_preserves_failed_evidence = True, rl_rewrites_failed_record = False,
        rl_created_at = (case created of None \<Rightarrow> snd e | Some t \<Rightarrow> t)\<rparr>)"

record safe_state =
  ss_failure_code :: string
  ss_publication_allowed :: bool
  ss_partial_publication_allowed :: bool
  ss_preserve :: "(string \<times> bool) list"
  ss_affected_representations :: "string list"
  ss_fallback :: string

definition hybrid_safe_state :: "failure_catalog \<Rightarrow> string \<Rightarrow> sip_error + safe_state" where
  "hybrid_safe_state c code =
     bindE (resolve c code) (\<lambda>d. Inr
       \<lparr>ss_failure_code = f_code d, ss_publication_allowed = (f_publication_action d = No_Action),
        ss_partial_publication_allowed = False,
        ss_preserve = [(''source'', True), (''metric'', True), (''visual'', True), (''evidence'', True),
          (''prior_accepted_interaction'', True), (''failed_provider_evidence'', True)],
        ss_affected_representations = f_affected_representations d, ss_fallback = f_fallback d\<rparr>)"

definition component_fallback :: "failure_catalog \<Rightarrow> string \<Rightarrow> sip_error + string" where
  "component_fallback c component =
     (case map_of (fc_component_fallbacks c) component of
        None \<Rightarrow> Inl (ValidationError ''COMPONENT_FALLBACK_UNKNOWN'' [(''component'', JStr component)])
      | Some f \<Rightarrow> Inr f)"

section \<open>Properties\<close>

lemma validate_definition_Inr:
  assumes "validate_definition d = Inr d'"
  shows "(f_severity d' \<in> {Unsafe, Fatal} \<longrightarrow> f_publication_action d' \<in> {Block, Withdraw}) \<and>
     (f_retryable d' \<longrightarrow> f_retry_class d' \<notin> {Policy_Failure, Invalid_Input, Non_Retryable})"
  using assms by (auto simp: validate_definition_def enforce_safety_def result_simps)

lemma validate_definitions_all:
  "validate_definitions ds = Inr ds' \<Longrightarrow> d' \<in> set ds' \<Longrightarrow> \<exists>d \<in> set ds. validate_definition d = Inr d'"
  by (induction ds arbitrary: ds') (auto simp: result_simps)

text \<open>What loading a catalogue guarantees.\<close>

definition catalog_ok :: "failure_catalog \<Rightarrow> bool" where
  "catalog_ok c \<longleftrightarrow> distinct (map f_code (fc_failures c)) \<and> distinct (map fst (alias_items c)) \<and>
     fst ` set (alias_items c) \<inter> f_code ` set (fc_failures c) = {} \<and>
     (\<forall>d \<in> set (fc_failures c).
        (f_severity d \<in> {Unsafe, Fatal} \<longrightarrow> f_publication_action d \<in> {Block, Withdraw}) \<and>
        (f_retryable d \<longrightarrow> f_retry_class d \<notin> {Policy_Failure, Invalid_Input, Non_Retryable}))"

lemma map_fst_alias_items: "map fst (alias_items c) = concat (map f_compatibility_aliases (fc_failures c))"
  by (simp add: alias_items_def map_concat comp_def)

lemma load_failure_catalog_ok:
  assumes "load_failure_catalog path doc = Inr c"
  shows "catalog_ok c"
proof -
  obtain defs where v: "validate_definitions (fc_failures doc) = Inr defs" and c: "c = doc\<lparr>fc_failures := defs\<rparr>"
    and d: "distinct (map f_code defs)" "distinct (concat (map f_compatibility_aliases defs))"
      "set (concat (map f_compatibility_aliases defs)) \<inter> set (map f_code defs) = {}"
    using assms by (auto simp: load_failure_catalog_def validate_catalog_def Let_def result_simps split: sum.splits)
  from d have "fst ` set (alias_items c) \<inter> f_code ` set (fc_failures c) = {}"
    unfolding list.set_map [symmetric] map_fst_alias_items by (simp add: c)
  with d v show ?thesis
    unfolding catalog_ok_def map_fst_alias_items
    by (auto simp: c dest!: validate_definitions_all [OF v] validate_definition_Inr)
qed

lemma map_of_rev_distinct: "distinct (map fst xs) \<Longrightarrow> map_of (rev xs) = map_of xs"
  by (metis distinct_rev map_of_inject_set rev_map set_rev)

lemma by_code_member:
  assumes "catalog_ok c" and "d \<in> set (fc_failures c)"
  shows "by_code c (f_code d) = Some d"
  using assms by (auto simp: by_code_def catalog_ok_def map_of_rev_distinct comp_def intro!: map_of_is_SomeI)

lemma resolve_code:
  assumes "catalog_ok c" and "d \<in> set (fc_failures c)"
  shows "resolve c (f_code d) = Inr d"
proof -
  have "f_code d \<notin> fst ` set (alias_items c)"
    using assms by (auto simp: catalog_ok_def)
  then have "map_of (rev (alias_items c)) (f_code d) = None"
    by (simp add: map_of_eq_None_iff)
  then show ?thesis
    using by_code_member [OF assms] by (simp add: resolve_def alias_target_def)
qed

lemma resolve_alias:
  assumes "catalog_ok c" and "d \<in> set (fc_failures c)" and "a \<in> set (f_compatibility_aliases d)"
  shows "resolve c a = Inr d"
proof -
  have "(a, f_code d) \<in> set (alias_items c)"
    using assms(2,3) by (auto simp: alias_items_def)
  then have "map_of (rev (alias_items c)) a = Some (f_code d)"
    using assms(1) by (simp add: map_of_rev_distinct catalog_ok_def)
  then show ?thesis
    using by_code_member [OF assms(1,2)] by (simp add: resolve_def alias_target_def)
qed

lemma resolve_member: "resolve c code = Inr d \<Longrightarrow> d \<in> set (fc_failures c)"
  by (auto simp: resolve_def by_code_def split: option.splits dest!: map_of_SomeD)

text \<open>
  In a loaded catalogue every failure is found under its code and under each of its
  compatibility aliases, and every operation that takes a code does the same for the alias.
\<close>

lemma failure_alias_is_code:
  assumes "load_failure_catalog path doc = Inr c" and "d \<in> set (fc_failures c)"
    and "a \<in> set (f_compatibility_aliases d)"
  shows "resolve c (f_code d) = Inr d \<and> resolve c a = Inr d \<and>
     hybrid_safe_state c a = hybrid_safe_state c (f_code d) \<and>
     assert_publication_allowed c a = assert_publication_allowed c (f_code d) \<and>
     create_diagnostic rt c e a = create_diagnostic rt c e (f_code d)"
  using load_failure_catalog_ok [OF assms(1)] assms(2,3)
  by (simp add: resolve_code resolve_alias hybrid_safe_state_def assert_publication_allowed_def
      create_diagnostic_def fun_eq_iff)

text \<open>
  In a loaded catalogue an unsafe or fatal failure blocks publication everywhere: the
  publication guard raises, every diagnostic of it is marked as blocking and the safe state of a
  hybrid scene does not allow publication, not even a partial one.
\<close>

lemma unsafe_failure_blocks_publication:
  assumes "load_failure_catalog path doc = Inr c" and "resolve c code = Inr d"
    and "f_severity d \<in> {Unsafe, Fatal}"
  shows "(\<exists>details. assert_publication_allowed c code = Inl (ConflictError ''FAILURE_BLOCKS_PUBLICATION'' details)) \<and>
     (\<forall>m. create_diagnostic rt c e code tenant project operation run_id diag occurred = Inr m \<longrightarrow> fm_publication_blocked m) \<and>
     (\<exists>st. hybrid_safe_state c code = Inr st \<and> \<not> ss_publication_allowed st \<and> \<not> ss_partial_publication_allowed st)"
proof -
  have "f_publication_action d \<in> {Block, Withdraw}"
    using load_failure_catalog_ok [OF assms(1)] resolve_member [OF assms(2)] assms(3)
    by (auto simp: catalog_ok_def)
  with assms(2) show ?thesis
    by (auto simp: assert_publication_allowed_def create_diagnostic_def hybrid_safe_state_def result_simps)
qed

text \<open>
  A sanitised diagnostic holds exactly the submitted items whose field is declared for the
  failure, whose name has no sensitive fragment and whose value is a scalar or a bounded flat
  collection; its canonical text has at most 32768 bytes, and sanitising it again changes nothing.
\<close>

lemma sanitized_diagnostic_is_safe:
  assumes "sanitize_diagnostic rt d diagnostic = Inr safe"
  shows "set safe = {(k, v). (k, v) \<in> set diagnostic \<and> k \<in> set (f_diagnostic_fields d) \<and>
        \<not> (\<exists>fragment \<in> set forbidden_fragments. sublist fragment (py_lower k)) \<and> diagnostic_value v} \<and>
     length (canonical_json rt (JObj safe)) \<le> 32768 \<and> sanitize_diagnostic rt d safe = Inr safe"
proof -
  have safe: "safe = filter (diagnostic_field d) diagnostic" "length (canonical_json rt (JObj safe)) \<le> 32768"
    using assms by (auto simp: sanitize_diagnostic_def Let_def split: if_splits)
  have "set safe = {(k, v). (k, v) \<in> set diagnostic \<and> diagnostic_field d (k, v)}"
    by (auto simp: safe(1))
  moreover have "sanitize_diagnostic rt d safe = Inr safe"
    using safe by (simp add: sanitize_diagnostic_def)
  ultimately show ?thesis
    using safe(2) by (simp add: diagnostic_field_def contains_any_def list_ex_iff)
qed

section \<open>Instances\<close>

definition sample_failure :: failure_definition where
  "sample_failure = \<lparr>f_code = ''MESH_CORRUPT'', f_introduced_version = ''1'', f_category = ''c'',
     f_coverage_tags = [''mesh''], f_severity = Fatal, f_retry_class = Transient, f_retryable = True,
     f_safe_checkpoint = None, f_operator_action = ''a'', f_customer_message = ''m'',
     f_audit_required = True, f_test_references = [''t''], f_publication_action = Block,
     f_diagnostic_fields = [''input_hash''], f_recovery_mode = ''r'', f_fallback = ''f'',
     f_remediation = [''x''], f_affected_representations = [], f_compatibility_aliases = [''BAD_MESH'']\<rparr>"

definition sample_catalog :: failure_catalog where
  "sample_catalog = \<lparr>fc_catalog_version = ''1'', fc_compatibility_policy = ''p'',
     fc_sensitive_diagnostic_policy = ''s'', fc_required_coverage_tags = [''mesh''],
     fc_component_fallbacks = map (\<lambda>c. (c, ''none'')) required_components,
     fc_failures = [sample_failure]\<rparr>"

lemma sample_catalog_loads: "load_failure_catalog ''p'' sample_catalog = Inr sample_catalog"
  by code_simp

lemma sample_catalog_member: "sample_failure \<in> set (fc_failures sample_catalog)"
  by (simp add: sample_catalog_def)

lemma sample_resolves: "resolve sample_catalog ''BAD_MESH'' = Inr sample_failure"
  by (rule resolve_alias [OF load_failure_catalog_ok [OF sample_catalog_loads] sample_catalog_member])
    (simp add: sample_failure_def)

lemma failure_alias_is_code_witness:
  "resolve sample_catalog ''BAD_MESH'' = Inr sample_failure
     \<and> hybrid_safe_state sample_catalog ''BAD_MESH'' = hybrid_safe_state sample_catalog (f_code sample_failure)"
  using failure_alias_is_code [OF sample_catalog_loads sample_catalog_member, of "''BAD_MESH''" sample_runtime]
  by (simp add: sample_failure_def)

lemma unsafe_failure_blocks_publication_witness:
  "\<exists>details. assert_publication_allowed sample_catalog ''BAD_MESH'' = Inl (ConflictError ''FAILURE_BLOCKS_PUBLICATION'' details)"
  using unsafe_failure_blocks_publication [OF sample_catalog_loads sample_resolves, of sample_runtime]
  by (simp add: sample_failure_def)

lemma sample_sanitized:
  "sanitize_diagnostic sample_runtime sample_failure [(''input_hash'', JStr ''h''), (''photo'', JStr ''x'')]
     = Inr [(''input_hash'', JStr ''h'')]"
  by code_simp

lemma sanitized_diagnostic_is_safe_witness:
  "sanitize_diagnostic sample_runtime sample_failure [(''input_hash'', JStr ''h'')] = Inr [(''input_hash'', JStr ''h'')]"
  using sanitized_diagnostic_is_safe [OF sample_sanitized] by blast

end
