(* ===== verification/Events.thy ===== *)
theory Events
  imports Sip_Database Failures
begin

text \<open>
  \<open>src/sip/events.py\<close> and \<open>EventEnvelopeContract\<close> of \<open>src/sip/contracts.py\<close>: the event
  catalogue, the factory of outbox events with its bound on the payload, the idempotent consumer,
  and the retry and dead-letter policy.

  Shown: the payload check accepts exactly the bounded payloads without a sensitive key at any
  depth; a created event belongs to the catalogue, carries the digest of its payload and passes the
  envelope contract; a consumer takes every event identifier at most once; retries are bounded.
\<close>

section \<open>The catalogue\<close>

record event_entry =
  ec_type :: string
  ec_version :: string
  ec_aggregate :: string
  ec_owner :: string
  ec_classification :: string

type_synonym event_catalog = "event_entry list"

definition entry_key :: "event_entry \<Rightarrow> string \<times> string" where
  "entry_key e = (ec_type e, ec_version e)"

definition load_event_catalog :: "string \<Rightarrow> event_entry list \<Rightarrow> sip_error + event_catalog" where
  "load_event_catalog path entries =
     (if \<not> distinct (map entry_key entries)
      then Inl (ValidationError ''EVENT_CATALOG_INVALID'' [(''path'', JStr path)]) else Inr entries)"

definition catalog_get :: "event_catalog \<Rightarrow> string \<Rightarrow> string \<Rightarrow> sip_error + event_entry" where
  "catalog_get c event_type version =
     (case map_of (rev (map (\<lambda>e. (entry_key e, e)) c)) (event_type, version) of
        None \<Rightarrow> Inl (ValidationError ''EVENT_SCHEMA_UNREGISTERED''
          [(''event_type'', JStr event_type), (''schema_version'', JStr version)])
      | Some e \<Rightarrow> Inr e)"

section \<open>Payloads\<close>

definition FORBIDDEN_PAYLOAD_FRAGMENTS :: "string list" where
  "FORBIDDEN_PAYLOAD_FRAGMENTS = [''raw_geometry'', ''mesh_vertices'', ''gaussians'', ''media_bytes'',
     ''image_bytes'', ''audio_bytes'', ''transcript_text'', ''precise_coordinates'', ''secret'',
     ''password'', ''access_token'']"

definition lstrip_dots :: "string \<Rightarrow> string" where
  "lstrip_dots s = dropWhile (\<lambda>c. c = CHR ''.'') s"

fun walk :: "json \<Rightarrow> string \<Rightarrow> sip_error + unit"
  and walk_fields :: "fields \<Rightarrow> string \<Rightarrow> sip_error + unit"
  and walk_items :: "nat \<Rightarrow> json list \<Rightarrow> string \<Rightarrow> sip_error + unit" where
  "walk (JObj kvs) path = walk_fields kvs path"
| "walk (JArr vs) path =
     (if length vs > 256 then Inl (ValidationError ''EVENT_PAYLOAD_UNBOUNDED'' [(''path'', JStr path)])
      else walk_items 0 vs path)"
| "walk v path = Inr ()"
| "walk_fields [] path = Inr ()"
| "walk_fields ((key, child) # kvs) path =
     (if contains_any FORBIDDEN_PAYLOAD_FRAGMENTS (py_lower key)
      then Inl (ValidationError ''EVENT_PAYLOAD_SENSITIVE''
        [(''path'', JStr (lstrip_dots (path @ ''.'' @ key)))])
      else bindE (walk child (if path \<noteq> [] then path @ ''.'' @ key else key)) (\<lambda>_. walk_fields kvs path))"
| "walk_items index [] path = Inr ()"
| "walk_items index (child # vs) path =
     bindE (walk child (path @ ''['' @ nat_repr index @ '']'')) (\<lambda>_. walk_items (Suc index) vs path)"

definition validate_payload :: "runtime \<Rightarrow> fields \<Rightarrow> sip_error + unit" where
  "validate_payload rt payload =
     (if length (canonical_json rt (JObj payload)) > 65536
      then Inl (ValidationError ''EVENT_PAYLOAD_TOO_LARGE'' []) else walk (JObj payload) [])"

section \<open>Envelopes\<close>

record event_envelope =
  ev_event_id :: string
  ev_event_type :: string
  ev_schema_version :: string
  ev_tenant_id :: string
  ev_project_id :: "string option"
  ev_aggregate_type :: string
  ev_aggregate_id :: string
  ev_occurred_at :: time
  ev_recorded_at :: time
  ev_actor_id :: "string option"
  ev_workload_identity :: "string option"
  ev_producer :: string
  ev_classification :: string
  ev_trace_id :: "string option"
  ev_causation_id :: "string option"
  ev_correlation_id :: "string option"
  ev_payload :: fields
  ev_payload_hash :: string

text \<open>The contract: the digest pattern of the field, then \<open>verify_payload_hash\<close>. A violation
  is pydantic's own \<open>ValidationError\<close>.\<close>

definition envelope_contract :: "runtime \<Rightarrow> event_envelope \<Rightarrow> sip_error + event_envelope" where
  "envelope_contract rt v =
     (if \<not> hex_text 64 (ev_payload_hash v) then Inl (Uncaught ''ValidationError'')
      else if ev_payload_hash v \<noteq> canonical_sha256 rt (JObj (ev_payload v)) then Inl (Uncaught ''ValidationError'')
      else if ev_recorded_at v < ev_occurred_at v then Inl (Uncaught ''ValidationError'')
      else Inr v)"

definition to_envelope :: "runtime \<Rightarrow> outbox_event_row \<Rightarrow> sip_error + event_envelope" where
  "to_envelope rt r = envelope_contract rt
     \<lparr>ev_event_id = e_event_id r, ev_event_type = e_event_type r, ev_schema_version = e_schema_version r,
      ev_tenant_id = e_tenant_id r, ev_project_id = e_project_id r, ev_aggregate_type = e_aggregate_type r,
      ev_aggregate_id = e_aggregate_id r, ev_occurred_at = e_occurred_at r, ev_recorded_at = e_recorded_at r,
      ev_actor_id = e_actor_id r, ev_workload_identity = e_workload_identity r, ev_producer = e_producer r,
      ev_classification = e_classification r, ev_trace_id = e_trace_id r, ev_causation_id = e_causation_id r,
      ev_correlation_id = e_correlation_id r, ev_payload = e_payload_json r, ev_payload_hash = e_payload_hash r\<rparr>"

section \<open>The factory\<close>

text \<open>The keyword arguments of \<open>create\<close>.\<close>

record event_spec =
  es_event_type :: string
  es_schema_version :: string
  es_tenant_id :: string
  es_project_id :: "string option"
  es_aggregate_type :: string
  es_aggregate_id :: string
  es_payload :: fields
  es_producer :: string
  es_actor_id :: "string option"
  es_workload_identity :: "string option"
  es_traceparent :: "string option"
  es_correlation_id :: "string option"
  es_causation_id :: "string option"

definition trace_id :: "string option \<Rightarrow> string option" where
  "trace_id traceparent =
     (if \<not> truthy_str traceparent then None
      else let parts = py_split (CHR ''-'') (the traceparent)
           in if length parts = 4 then Some (parts ! 1) else None)"

definition project_classification :: "db \<Rightarrow> string option \<Rightarrow> string" where
  "project_classification s project =
     (if truthy_str project
      then case get_project s (the project) of Some pr \<Rightarrow> pr_classification pr | None \<Rightarrow> ''internal''
      else ''internal'')"

definition outbox_row :: "runtime \<Rightarrow> string \<Rightarrow> time \<Rightarrow> event_spec \<Rightarrow> string \<Rightarrow> outbox_event_row" where
  "outbox_row rt event_id now a classif =
     \<lparr>e_event_id = event_id, e_tenant_id = es_tenant_id a, e_project_id = es_project_id a,
      e_event_type = es_event_type a, e_schema_version = es_schema_version a,
      e_aggregate_type = es_aggregate_type a, e_aggregate_id = es_aggregate_id a,
      e_producer = es_producer a, e_classification = classif, e_actor_id = es_actor_id a,
      e_workload_identity = es_workload_identity a, e_trace_id = trace_id (es_traceparent a),
      e_correlation_id = Some (str_or (es_correlation_id a) (es_aggregate_id a)),
      e_causation_id = es_causation_id a, e_payload_json = es_payload a,
      e_payload_hash = canonical_sha256 rt (JObj (es_payload a)), e_occurred_at = now,
      e_recorded_at = now, e_published_at = None, e_delivery_attempts = 0\<rparr>"

definition create_event ::
  "runtime \<Rightarrow> event_catalog \<Rightarrow> string \<Rightarrow> time \<Rightarrow> event_spec \<Rightarrow> db \<Rightarrow> sip_error + outbox_event_row" where
  "create_event rt c event_id now a s =
     bindE (catalog_get c (es_event_type a) (es_schema_version a)) (\<lambda>entry.
       if es_producer a \<noteq> ec_owner entry
       then Inl (AuthorizationError ''EVENT_PRODUCER_DENIED''
         [(''event_type'', JStr (es_event_type a)), (''expected'', JStr (ec_owner entry)),
          (''actual'', JStr (es_producer a))])
       else if ec_aggregate entry \<noteq> es_aggregate_type a
       then Inl (ValidationError ''EVENT_AGGREGATE_MISMATCH''
         [(''event_type'', JStr (es_event_type a)), (''expected'', JStr (ec_aggregate entry)),
          (''actual'', JStr (es_aggregate_type a))])
       else bindE (validate_payload rt (es_payload a)) (\<lambda>_.
         let row = outbox_row rt event_id now a (project_classification s (es_project_id a))
         in bindE (to_envelope rt row) (\<lambda>_. Inr row)))"

text \<open>\<open>session.add(events.create(session, ...))\<close>, the use every service makes of the factory.\<close>

definition emit_event ::
  "runtime \<Rightarrow> event_catalog \<Rightarrow> string \<Rightarrow> time \<Rightarrow> event_spec \<Rightarrow> db \<Rightarrow> sip_error + db" where
  "emit_event rt c event_id now a s =
     bindE (create_event rt c event_id now a s) (\<lambda>row.
     bindE (insert_row e_event_id row (outbox_events s)) (\<lambda>rows. Inr (s\<lparr>outbox_events := rows\<rparr>)))"

section \<open>The consumer\<close>

type_synonym processed = "string \<Rightarrow> string option"

definition accept :: "event_envelope \<Rightarrow> processed \<Rightarrow> (sip_error + bool) \<times> processed" where
  "accept v seen =
     (case seen (ev_event_id v) of
        None \<Rightarrow> (Inr True, seen(ev_event_id v \<mapsto> ev_payload_hash v))
      | Some prior \<Rightarrow>
          (if prior \<noteq> ev_payload_hash v
           then (Inl (ConflictError ''EVENT_ID_PAYLOAD_CONFLICT'' [(''event_id'', JStr (ev_event_id v))]), seen)
           else (Inr False, seen)))"

section \<open>Retries and dead letters\<close>

record disposition_report =
  dr_retry :: bool
  dr_retry_class :: retry_class
  dr_attempt :: int
  dr_maximum_attempts :: int
  dr_backoff_seconds :: "int option"
  dr_dead_letter :: bool

definition disposition :: "failure_catalog \<Rightarrow> string \<Rightarrow> int \<Rightarrow> int \<Rightarrow> sip_error + disposition_report" where
  "disposition failures failure_code attempt max_attempts =
     bindE (resolve failures failure_code) (\<lambda>d.
       let retry = (f_retryable d \<and> attempt < max_attempts)
       in Inr \<lparr>dr_retry = retry, dr_retry_class = f_retry_class d, dr_attempt = attempt,
            dr_maximum_attempts = max_attempts,
            dr_backoff_seconds = (if retry then Some (min 300 (2 ^ nat (max 0 (attempt - 1)))) else None),
            dr_dead_letter = (\<not> retry)\<rparr>)"

record dead_letter_record =
  dl_dead_letter_id :: string
  dl_event_id :: string
  dl_event_type :: string
  dl_payload_hash :: string
  dl_failure_code :: string
  dl_retry_class :: retry_class
  dl_attempts :: int
  dl_remediation_required :: bool
  dl_replay_authorized :: bool
  dl_created_at :: time

definition dead_letter ::
  "failure_catalog \<Rightarrow> string \<Rightarrow> time \<Rightarrow> event_envelope \<Rightarrow> string \<Rightarrow> int \<Rightarrow> sip_error + dead_letter_record" where
  "dead_letter failures new_id now v failure_code attempts =
     bindE (disposition failures failure_code attempts attempts) (\<lambda>d.
       if \<not> hex_text 64 (ev_payload_hash v) \<or> attempts < 1 then Inl (Uncaught ''ValidationError'')
       else Inr \<lparr>dl_dead_letter_id = new_id, dl_event_id = ev_event_id v, dl_event_type = ev_event_type v,
         dl_payload_hash = ev_payload_hash v, dl_failure_code = failure_code,
         dl_retry_class = dr_retry_class d, dl_attempts = attempts, dl_remediation_required = True,
         dl_replay_authorized = False, dl_created_at = now\<rparr>)"

definition authorize_replay :: "dead_letter_record \<Rightarrow> string \<Rightarrow> string \<Rightarrow> sip_error + dead_letter_record" where
  "authorize_replay r actor evidence_hash =
     (if actor = [] \<or> length evidence_hash \<noteq> 64
      then Inl (AuthorizationError ''DEAD_LETTER_REPLAY_DENIED'' [])
      else Inr (r\<lparr>dl_replay_authorized := True\<rparr>))"

section \<open>Properties of payloads\<close>

text \<open>The values inside a JSON value, itself included.\<close>

inductive subvalue :: "json \<Rightarrow> json \<Rightarrow> bool" where
  self: "subvalue v v"
| in_object: "(k, child) \<in> set kvs \<Longrightarrow> subvalue v child \<Longrightarrow> subvalue v (JObj kvs)"
| in_array: "child \<in> set vs \<Longrightarrow> subvalue v child \<Longrightarrow> subvalue v (JArr vs)"

inductive_simps subvalue_obj: "subvalue v (JObj kvs)"
inductive_simps subvalue_arr: "subvalue v (JArr vs)"
inductive_simps subvalue_leaf: "subvalue v JNull" "subvalue v (JBool b)" "subvalue v (JInt i)"
  "subvalue v (JFloat q)" "subvalue v (JStr t)"

fun node_ok :: "json \<Rightarrow> bool" where
  "node_ok (JObj kvs) = (\<forall>key \<in> fst ` set kvs.
     \<not> (\<exists>fragment \<in> set FORBIDDEN_PAYLOAD_FRAGMENTS. sublist fragment (py_lower key)))"
| "node_ok (JArr vs) = (length vs \<le> 256)"
| "node_ok v = True"

lemma contains_any_iff: "contains_any fs t \<longleftrightarrow> (\<exists>f \<in> set fs. sublist f t)"
  by (simp add: contains_any_def list_ex_iff)

lemma walk_exact:
  "walk v path = Inr () \<longleftrightarrow> (\<forall>w. subvalue w v \<longrightarrow> node_ok w)"
  "walk_fields kvs path = Inr () \<longleftrightarrow>
     node_ok (JObj kvs) \<and> (\<forall>(k, child) \<in> set kvs. \<forall>w. subvalue w child \<longrightarrow> node_ok w)"
  "walk_items n vs path = Inr () \<longleftrightarrow> (\<forall>child \<in> set vs. \<forall>w. subvalue w child \<longrightarrow> node_ok w)"
proof (induction v path and kvs path and n vs path rule: walk_walk_fields_walk_items.induct)
  case (1 kvs path)
  then show ?case by (auto simp: subvalue_obj simp del: node_ok.simps)
next
  case (2 vs path)
  then show ?case by (auto simp: subvalue_arr)
next
  case (5 key child kvs path)
  then show ?case by (auto simp: contains_any_iff bindE_Inr_conv)
next
  case (7 index child vs path)
  then show ?case by (auto simp: bindE_Inr_conv)
qed (auto simp: subvalue_leaf)

text \<open>
  The payload check is exact: it passes exactly when the canonical text has at most 65536
  bytes and, at every depth, no key contains a forbidden fragment and no list is longer than 256
  items.
\<close>

lemma payload_check_exact:
  "validate_payload rt payload = Inr () \<longleftrightarrow>
     length (canonical_json rt (JObj payload)) \<le> 65536 \<and>
     \<not> (\<exists>w. subvalue w (JObj payload) \<and> \<not> node_ok w)"
  by (auto simp: validate_payload_def walk_exact(1) simp del: walk.simps)

section \<open>Properties of created events\<close>

lemma catalog_get_Inr:
  assumes "distinct (map entry_key c)"
  shows "catalog_get c t v = Inr e \<longleftrightarrow> e \<in> set c \<and> ec_type e = t \<and> ec_version e = v"
proof -
  have d: "distinct (map fst (map (\<lambda>e. (entry_key e, e)) c))"
    using assms by (simp add: comp_def)
  have "map_of (rev (map (\<lambda>e. (entry_key e, e)) c)) = map_of (map (\<lambda>e. (entry_key e, e)) c)"
    by (rule map_of_rev_distinct [OF d])
  with map_of_eq_Some_iff [OF d, of "(t, v)" e] show ?thesis
    by (auto simp: catalog_get_def entry_key_def split: option.splits)
qed

lemma to_envelope_outbox_row:
  "(\<exists>v. to_envelope rt (outbox_row rt i now a cl) = Inr v) \<longleftrightarrow> hex_text 64 (canonical_sha256 rt (JObj (es_payload a)))"
  by (simp add: to_envelope_def envelope_contract_def outbox_row_def)

lemma to_envelope_hash:
  "to_envelope rt r = Inr v \<Longrightarrow> ev_payload_hash v = canonical_sha256 rt (JObj (ev_payload v))"
  by (auto simp: to_envelope_def envelope_contract_def split: if_splits)

text \<open>
  The factory creates an event exactly when its type and version are registered, the producer
  owns the contract, the aggregate type matches and the payload passes the check (SHA-256 giving
  64 hexadecimal digits); the row is then the one built from the arguments, in the classification
  of its project, and it satisfies the envelope contract.
\<close>

lemma created_event_exact:
  assumes "load_event_catalog path entries = Inr c"
    and "\<forall>t. hex_text 64 (rt_sha256 rt t)"
  shows "create_event rt c i now a s = Inr row \<longleftrightarrow>
     (\<exists>e \<in> set entries. ec_type e = es_event_type a \<and> ec_version e = es_schema_version a \<and>
        ec_owner e = es_producer a \<and> ec_aggregate e = es_aggregate_type a) \<and>
     validate_payload rt (es_payload a) = Inr () \<and>
     row = outbox_row rt i now a (project_classification s (es_project_id a)) \<and>
     (\<exists>v. to_envelope rt row = Inr v \<and> ev_payload_hash v = canonical_sha256 rt (JObj (ev_payload v)))"
proof -
  have c: "c = entries" "distinct (map entry_key entries)"
    using assms(1) by (auto simp: load_event_catalog_def split: if_splits)
  let ?r = "outbox_row rt i now a (project_classification s (es_project_id a))"
  obtain v where v: "to_envelope rt ?r = Inr v"
    using to_envelope_outbox_row assms(2) by (metis canonical_sha256_def)
  moreover from v have "ev_payload_hash v = canonical_sha256 rt (JObj (ev_payload v))"
    by (rule to_envelope_hash)
  ultimately show ?thesis
    unfolding c(1) create_event_def
    by (auto simp: bindE_Inr_conv catalog_get_Inr [OF c(2)] Let_def split: if_splits)
qed

lemma create_event_row:
  "create_event rt c i now a s = Inr row \<Longrightarrow> row = outbox_row rt i now a (project_classification s (es_project_id a))"
  by (auto simp: create_event_def bindE_Inr_conv Let_def split: if_splits)

section \<open>The interface of the outbox\<close>

text \<open>What a service relies on when it emits an event inside its transaction: the outbox grows by
  the one event described by the arguments and nothing else changes.\<close>

locale event_sink =
  fixes emit :: "string \<Rightarrow> time \<Rightarrow> event_spec \<Rightarrow> 's \<Rightarrow> sip_error + 's"
    and outbox :: "'s \<Rightarrow> outbox_event_row list"
    and set_outbox :: "outbox_event_row list \<Rightarrow> 's \<Rightarrow> 's"
  assumes emit_grows: "emit i now a s = Inr s' \<Longrightarrow>
      \<exists>r. s' = set_outbox (outbox s @ [r]) s \<and> e_event_id r = i \<and> e_event_type r = es_event_type a \<and>
        e_tenant_id r = es_tenant_id a \<and> e_project_id r = es_project_id a \<and>
        e_aggregate_id r = es_aggregate_id a \<and> e_payload_json r = es_payload a \<and> i \<notin> tkeys e_event_id (outbox s)"
    and outbox_set_outbox: "outbox (set_outbox l s) = l"
begin

lemma emit_frame: "emit i now a s = Inr s' \<Longrightarrow> \<exists>l. s' = set_outbox l s"
  using emit_grows by blast

lemma emit_distinct:
  "emit i now a s = Inr s' \<Longrightarrow> distinct (map e_event_id (outbox s)) \<Longrightarrow> distinct (map e_event_id (outbox s'))"
  using emit_grows outbox_set_outbox by (fastforce simp: tkeys_def)

lemma emit_all_grow:
  assumes "foldE (\<lambda>(i, now, a). emit i now a) calls s = Inr s'"
  shows "\<exists>l. outbox s' = outbox s @ l \<and> map e_event_type l = map (\<lambda>(i, now, a). es_event_type a) calls"
  using assms
proof (induction calls arbitrary: s)
  case (Cons x calls)
  obtain i now a where x: "x = (i, now, a)" by (cases x)
  with Cons.prems obtain u where u: "emit i now a s = Inr u" "foldE (\<lambda>(i, now, a). emit i now a) calls u = Inr s'"
    by (auto simp: bindE_Inr_conv)
  obtain r where r: "outbox u = outbox s @ [r]" "e_event_type r = es_event_type a"
    using emit_grows [OF u(1)] outbox_set_outbox by auto
  from Cons.IH [OF u(2)] obtain l where l: "outbox s' = outbox u @ l"
      "map e_event_type l = map (\<lambda>(i, now, a). es_event_type a) calls" by blast
  from l r x have "outbox s' = outbox s @ r # l"
      "map e_event_type (r # l) = map (\<lambda>(i, now, a). es_event_type a) (x # calls)" by auto
  then show ?case by blast
qed simp

end

lemma emit_event_grows:
  assumes "emit_event rt c i now a s = Inr s'"
  shows "\<exists>r. s' = s\<lparr>outbox_events := outbox_events s @ [r]\<rparr> \<and> e_event_id r = i \<and> e_event_type r = es_event_type a \<and>
        e_tenant_id r = es_tenant_id a \<and> e_project_id r = es_project_id a \<and>
        e_aggregate_id r = es_aggregate_id a \<and> e_payload_json r = es_payload a \<and> i \<notin> tkeys e_event_id (outbox_events s)"
  using assms create_event_row
  by (fastforce simp: emit_event_def result_simps outbox_row_def)

interpretation outbox: event_sink "emit_event rt c" outbox_events "\<lambda>l s. s\<lparr>outbox_events := l\<rparr>"
  for rt c
  by unfold_locales (rule emit_event_grows, assumption, simp)

section \<open>Properties of the consumer\<close>

fun consume :: "event_envelope list \<Rightarrow> processed \<Rightarrow> (sip_error + bool) list \<times> processed" where
  "consume [] seen = ([], seen)"
| "consume (v # vs) seen =
     (case accept v seen of (r, seen') \<Rightarrow> case consume vs seen' of (rs, seen'') \<Rightarrow> (r # rs, seen''))"

definition accepted :: "string \<Rightarrow> event_envelope list \<Rightarrow> (sip_error + bool) list \<Rightarrow> event_envelope list" where
  "accepted i vs rs = map fst (filter (\<lambda>(v, r). ev_event_id v = i \<and> r = Inr True) (zip vs rs))"

lemma accepted_simps [simp]:
  "accepted i [] rs = []"
  "accepted i (v # vs) (r # rs) = (if ev_event_id v = i \<and> r = Inr True then v # accepted i vs rs else accepted i vs rs)"
  by (simp_all add: accepted_def)

lemma fst_consume [simp]:
  "fst (consume (v # vs) seen) = fst (accept v seen) # fst (consume vs (snd (accept v seen)))"
  by (simp split: prod.splits)

lemma consume_accepted:
  "accepted i vs (fst (consume vs seen)) =
     (if seen i = None then take 1 (filter (\<lambda>v. ev_event_id v = i) vs) else [])"
proof (induction vs arbitrary: seen)
  case (Cons v vs)
  show ?case
    by (cases "seen (ev_event_id v)") (auto simp: accept_def Cons.IH simp del: consume.simps)
qed simp

text \<open>
  C35. Exactly-once consumption under at-least-once delivery: whatever is delivered, in whatever
  order and however often, a fresh consumer takes for each event identifier the first delivery and
  no other; a redelivery is reported as a duplicate when it carries the same payload digest and
  raises EVENT_ID_PAYLOAD_CONFLICT when it carries another.
\<close>

theorem consumer_exactly_once:
  "accepted i vs (fst (consume vs Map.empty)) = take 1 (filter (\<lambda>v. ev_event_id v = i) vs) \<and>
   fst (accept w (snd (accept v seen))) =
     (if ev_event_id w \<noteq> ev_event_id v then fst (accept w seen)
      else if ev_payload_hash w = (case seen (ev_event_id v) of None \<Rightarrow> ev_payload_hash v | Some h \<Rightarrow> h)
      then Inr False
      else Inl (ConflictError ''EVENT_ID_PAYLOAD_CONFLICT'' [(''event_id'', JStr (ev_event_id v))]))"
  by (auto simp: consume_accepted accept_def split: option.splits)

section \<open>Properties of the retry policy\<close>

lemma pow2_bounds: "1 \<le> min 300 ((2::int) ^ n)" "min 300 ((2::int) ^ n) \<le> 300"
  by simp_all

lemma pow2_step: "min 300 ((2::int) ^ n) \<le> min 300 (2 ^ m)" if "n \<le> m"
  using power_increasing [OF that, of "2::int"] by linarith

text \<open>
  Retries end: with a loaded failure catalogue a failure is retried only below the attempt
  bound and never when its class is policy, invalid input or non-retryable; every failure that is
  not retried is dead-lettered; the back-off lies between 1 and 300 seconds and does not shrink
  from one attempt to the next; the disposition used for a dead letter never asks for a retry.
\<close>

lemma retry_policy_bounded:
  assumes "load_failure_catalog path doc = Inr failures"
    and "disposition failures code attempt max_attempts = Inr r"
  shows "(dr_retry r \<longrightarrow> attempt < max_attempts \<and> dr_retry_class r \<notin> {Policy_Failure, Invalid_Input, Non_Retryable}) \<and>
     (dr_dead_letter r \<longleftrightarrow> \<not> dr_retry r) \<and>
     (dr_retry r \<longleftrightarrow> dr_backoff_seconds r \<noteq> None) \<and>
     (\<forall>b. dr_backoff_seconds r = Some b \<longrightarrow> 1 \<le> b \<and> b \<le> 300 \<and>
        (\<forall>r' b'. disposition failures code (attempt + 1) max_attempts = Inr r' \<and> dr_backoff_seconds r' = Some b' \<longrightarrow> b \<le> b')) \<and>
     (\<forall>r'. disposition failures code attempt attempt = Inr r' \<longrightarrow> dr_dead_letter r')"
proof -
  obtain d where d: "resolve failures code = Inr d"
      "r = \<lparr>dr_retry = (f_retryable d \<and> attempt < max_attempts), dr_retry_class = f_retry_class d,
        dr_attempt = attempt, dr_maximum_attempts = max_attempts,
        dr_backoff_seconds = (if f_retryable d \<and> attempt < max_attempts
          then Some (min 300 (2 ^ nat (max 0 (attempt - 1)))) else None),
        dr_dead_letter = (\<not> (f_retryable d \<and> attempt < max_attempts))\<rparr>"
    using assms(2) by (auto simp: disposition_def bindE_Inr_conv Let_def)
  have "f_retryable d \<longrightarrow> f_retry_class d \<notin> {Policy_Failure, Invalid_Input, Non_Retryable}"
    using load_failure_catalog_ok [OF assms(1)] resolve_member [OF d(1)] by (auto simp: catalog_ok_def)
  moreover have "min 300 ((2::int) ^ nat (max 0 (attempt - 1))) \<le> min 300 (2 ^ nat (max 0 (attempt + 1 - 1)))"
    by (rule pow2_step) simp
  ultimately show ?thesis
    using pow2_bounds [of "nat (max 0 (attempt - 1))"] d
    by (auto simp: disposition_def bindE_Inr_conv Let_def split: if_splits)
qed

section \<open>A bound on the size of payloads\<close>

text \<open>An upper bound on the length of the canonical text, by the lengths of the texts in a value.\<close>

fun text_bound :: "runtime \<Rightarrow> json \<Rightarrow> nat" and list_bound :: "runtime \<Rightarrow> json list \<Rightarrow> nat"
  and fields_bound :: "runtime \<Rightarrow> fields \<Rightarrow> nat" where
  "text_bound rt (JStr s) = 6 * length s + 2"
| "text_bound rt (JArr vs) = list_bound rt vs + 2"
| "text_bound rt (JObj kvs) = fields_bound rt kvs + 2"
| "text_bound rt v = length (dumps rt v)"
| "list_bound rt [] = 0"
| "list_bound rt (v # vs) = text_bound rt v + 1 + list_bound rt vs"
| "fields_bound rt [] = 0"
| "fields_bound rt ((k, v) # kvs) = 6 * length k + text_bound rt v + 4 + fields_bound rt kvs"

lemma length_escape: "length (escape_char c) \<le> 6"
  by (simp add: escape_char_def Let_def)

lemma length_json_string: "length (json_string s) \<le> 6 * length s + 2"
  using length_escape by (induction s) (auto simp: json_string_def intro: add_mono)

lemma length_commas: "length (commas ts) \<le> sum_list (map (\<lambda>t. length t + 1) ts)"
  by (induction ts rule: commas.induct) auto

lemma sum_list_sort_key: "sum_list (map f (sort_key g xs)) = sum_list (map f xs)" for f :: "'a \<Rightarrow> nat"
  by (metis mset_map mset_sort sum_mset_sum_list)

lemma dumps_bound:
  "length (dumps rt v) \<le> text_bound rt v"
  "sum_list (map (\<lambda>t. length t + 1) (dumps_list rt vs)) \<le> list_bound rt vs"
  "sum_list (map (\<lambda>kt. length (field_text kt) + 1) (dumps_fields rt kvs)) \<le> fields_bound rt kvs"
proof (induction rt v and rt vs and rt kvs rule: text_bound_list_bound_fields_bound.induct)
  case (1 rt s)
  then show ?case using length_json_string [of s] by simp
next
  case (2 rt vs)
  then show ?case using length_commas [of "dumps_list rt vs"] by simp
next
  case (3 rt kvs)
  have "length (commas (map field_text (sort_key fst (dumps_fields rt kvs)))) \<le>
      sum_list (map (\<lambda>kt. length (field_text kt) + 1) (dumps_fields rt kvs))"
    using length_commas [of "map field_text (sort_key fst (dumps_fields rt kvs))"]
      sum_list_sort_key [of "\<lambda>kt. length (field_text kt) + 1" fst "dumps_fields rt kvs"]
    by (simp add: comp_def)
  with 3 show ?case by simp
next
  case (8 rt k v kvs)
  then show ?case using length_json_string [of k] by (simp add: field_text_def)
qed simp_all

lemma small_payload:
  assumes "fields_bound rt payload \<le> 65534" and "walk (JObj payload) [] = Inr ()"
  shows "validate_payload rt payload = Inr ()"
  using assms dumps_bound(1) [of rt "JObj payload"]
  by (simp add: validate_payload_def canonical_json_def del: dumps.simps walk.simps)

section \<open>Instances\<close>

definition hex_runtime :: runtime where
  "hex_runtime = sample_runtime\<lparr>rt_sha256 := (\<lambda>t. replicate 64 (hex_char (length t mod 16)))\<rparr>"

lemma hex_char_cases: "n < 16 \<Longrightarrow> hex_char n \<in> set ''0123456789abcdef''"
  unfolding hex_char_def by (rule nth_mem) simp

lemma hex_runtime_hex: "\<forall>t. hex_text 64 (rt_sha256 hex_runtime t)"
  by (simp add: hex_runtime_def hex_text_def list_all_iff hex_char_cases del: list.set)

lemma hex_digest: "hex_text 64 (canonical_sha256 hex_runtime v)"
  using hex_runtime_hex by (simp add: canonical_sha256_def)

lemma length_hex_digest: "length (canonical_sha256 hex_runtime v) = 64"
  using hex_digest [of v] by (simp add: hex_text_def)

lemma emit_event_returns:
  assumes "catalog_get c (es_event_type a) (es_schema_version a) = Inr e" and "ec_owner e = es_producer a"
    and "ec_aggregate e = es_aggregate_type a" and "validate_payload hex_runtime (es_payload a) = Inr ()"
    and "i \<notin> tkeys e_event_id (outbox_events s)"
  shows "emit_event hex_runtime c i now a s = Inr (s\<lparr>outbox_events := outbox_events s @
     [outbox_row hex_runtime i now a (project_classification s (es_project_id a))]\<rparr>)"
proof -
  obtain v where "to_envelope hex_runtime (outbox_row hex_runtime i now a (project_classification s (es_project_id a))) = Inr v"
    using to_envelope_outbox_row hex_digest by blast
  with assms show ?thesis
    by (simp add: emit_event_def create_event_def insert_row_def tget_None_iff) (simp add: outbox_row_def tget_None_iff)
qed

definition sample_entry :: event_entry where
  "sample_entry = \<lparr>ec_type = ''operation.created'', ec_version = ''1.0.0'', ec_aggregate = ''operation'',
     ec_owner = ''workflow-service'', ec_classification = ''internal''\<rparr>"

definition sample_spec :: event_spec where
  "sample_spec = \<lparr>es_event_type = ''operation.created'', es_schema_version = ''1.0.0'', es_tenant_id = ''t'',
     es_project_id = None, es_aggregate_type = ''operation'', es_aggregate_id = ''o'',
     es_payload = [(''a'', JInt 1)], es_producer = ''workflow-service'', es_actor_id = None,
     es_workload_identity = None, es_traceparent = None, es_correlation_id = None, es_causation_id = None\<rparr>"

lemma sample_entry_loads: "load_event_catalog ''p'' [sample_entry] = Inr [sample_entry]"
  by (simp add: load_event_catalog_def)

lemma sample_payload_ok: "validate_payload hex_runtime [(''a'', JInt 1)] = Inr ()"
  by code_simp

lemma created_event_exact_witness:
  "create_event hex_runtime [sample_entry] ''e'' 5 sample_spec empty_db
     = Inr (outbox_row hex_runtime ''e'' 5 sample_spec ''internal'')"
proof -
  have "hex_text 64 (canonical_sha256 hex_runtime (JObj (es_payload sample_spec)))"
    using hex_runtime_hex by (simp add: canonical_sha256_def)
  then obtain v where v: "to_envelope hex_runtime (outbox_row hex_runtime ''e'' 5 sample_spec ''internal'') = Inr v"
    using to_envelope_outbox_row by blast
  moreover from v have "ev_payload_hash v = canonical_sha256 hex_runtime (JObj (ev_payload v))"
    by (rule to_envelope_hash)
  moreover have "project_classification empty_db (es_project_id sample_spec) = ''internal''"
    by (simp add: project_classification_def sample_spec_def)
  ultimately show ?thesis
    using created_event_exact [OF sample_entry_loads hex_runtime_hex, of "''e''" 5 sample_spec empty_db] sample_payload_ok
    by (simp add: sample_entry_def sample_spec_def)
qed

lemma retry_policy_bounded_witness:
  "\<exists>r. disposition sample_catalog ''BAD_MESH'' 2 5 = Inr r \<and> dr_backoff_seconds r = Some 2 \<and> \<not> dr_dead_letter r"
proof -
  obtain r where r: "disposition sample_catalog ''BAD_MESH'' 2 5 = Inr r" "dr_backoff_seconds r = Some 2"
    by (simp add: disposition_def sample_resolves sample_failure_def)
  from retry_policy_bounded [OF sample_catalog_loads r(1)] r show ?thesis by auto
qed

end
