(* ===== verification/Operations.thy ===== *)
theory Operations
  imports Audit_Log Events
begin

text \<open>
  \<open>src/sip/operations.py\<close>: durable operations with idempotent creation, worker leases,
  checkpoints, cancellation, completion, failure and the reconciliation of expired leases, and
  \<open>normalize_traceparent\<close> of \<open>src/sip/observability.py\<close>.

  Every method is the body of its database session, a function from the database to
  \<open>sip_error + result \<times> db\<close>; \<open>create\<close> also consults the injected deployment service
  (a parameter) before its session. Shown: the invariant of the operations table, what never goes
  back (progress, attempts, cancellation, the end states), exclusion by a lease, idempotent
  creation, that no output is published after a cancellation request, and where operations stall.
\<close>

section \<open>Trace context\<close>

text \<open>The pattern \<open>^00-([a-f0-9]{32})-([a-f0-9]{16})-([a-f0-9]{2})$\<close>, matched by position.\<close>

definition traceparent_pattern :: "string \<Rightarrow> bool" where
  "traceparent_pattern t \<longleftrightarrow> length t = 55 \<and> take 3 t = ''00-'' \<and> hex_text 32 (take 32 (drop 3 t)) \<and>
     t ! 35 = CHR ''-'' \<and> hex_text 16 (take 16 (drop 36 t)) \<and> t ! 52 = CHR ''-'' \<and> hex_text 2 (drop 53 t)"

definition normalize_traceparent :: "string option \<Rightarrow> sip_error + string option" where
  "normalize_traceparent value =
     (case value of
        None \<Rightarrow> Inr None
      | Some v \<Rightarrow>
          (if py_strip v = [] then Inr None
           else let candidate = py_lower (py_strip v)
                in if \<not> traceparent_pattern candidate
                     \<or> take 32 (drop 3 candidate) = replicate 32 CHR ''0''
                     \<or> take 16 (drop 36 candidate) = replicate 16 CHR ''0''
                   then Inl (Uncaught ''ValueError'') else Inr (Some candidate)))"

section \<open>Views and the outbox\<close>

text \<open>\<open>_as_dict\<close>: what the methods return.\<close>

record operation_view =
  v_operation_id :: string
  v_tenant_id :: string
  v_project_id :: string
  v_operation_type :: string
  v_idempotency_key :: string
  v_input_manifest_hash :: string
  v_input_byte_count :: nat
  v_input :: fields
  v_traceparent :: "string option"
  v_state :: operation_state
  v_progress :: rat
  v_attempt :: int
  v_max_attempts :: int
  v_lease_owner :: "string option"
  v_lease_expires_at :: "time option"
  v_checkpoint :: fields
  v_output :: fields
  v_output_hash :: "string option"
  v_error :: fields
  v_cancel_requested :: bool
  v_created_at :: time
  v_updated_at :: time

definition op_view :: "runtime \<Rightarrow> operation_row \<Rightarrow> operation_view" where
  "op_view rt r =
     \<lparr>v_operation_id = o_operation_id r, v_tenant_id = o_tenant_id r, v_project_id = o_project_id r,
      v_operation_type = o_operation_type r, v_idempotency_key = o_idempotency_key r,
      v_input_manifest_hash = o_input_manifest_hash r,
      v_input_byte_count = length (canonical_json rt (JObj (o_input_json r))), v_input = o_input_json r,
      v_traceparent = o_traceparent r, v_state = o_state r, v_progress = o_progress r,
      v_attempt = o_attempt r, v_max_attempts = o_max_attempts r, v_lease_owner = o_lease_owner r,
      v_lease_expires_at = o_lease_expires_at r, v_checkpoint = o_checkpoint_json r,
      v_output = o_output_json r, v_output_hash = o_output_hash r, v_error = o_error_json r,
      v_cancel_requested = o_cancel_requested r, v_created_at = o_created_at r, v_updated_at = o_updated_at r\<rparr>"

definition get_op :: "db \<Rightarrow> string \<Rightarrow> operation_row option" where
  "get_op s k = tget o_operation_id (operations s) k"

definition put_op :: "operation_row \<Rightarrow> db \<Rightarrow> db" where
  "put_op r s = s\<lparr>operations := tput o_operation_id r (operations s)\<rparr>"

text \<open>\<open>_outbox\<close>.\<close>

definition op_event ::
  "operation_row \<Rightarrow> string \<Rightarrow> fields \<Rightarrow> string option \<Rightarrow> string option \<Rightarrow> event_spec" where
  "op_event r event_type payload actor workload =
     \<lparr>es_event_type = event_type, es_schema_version = ''1.0.0'', es_tenant_id = o_tenant_id r,
      es_project_id = Some (o_project_id r), es_aggregate_type = ''operation'',
      es_aggregate_id = o_operation_id r, es_payload = payload, es_producer = ''workflow-service'',
      es_actor_id = actor, es_workload_identity = workload, es_traceparent = o_traceparent r,
      es_correlation_id = Some (o_operation_id r), es_causation_id = None\<rparr>"

definition op_outbox ::
  "runtime \<Rightarrow> event_catalog \<Rightarrow> string \<Rightarrow> time \<Rightarrow> operation_row \<Rightarrow> string \<Rightarrow> fields \<Rightarrow> string option \<Rightarrow> string option
     \<Rightarrow> db \<Rightarrow> sip_error + db" where
  "op_outbox rt cat event_id now r event_type payload actor workload s =
     emit_event rt cat event_id now (op_event r event_type payload actor workload) s"

section \<open>Creation\<close>

record create_args =
  ca_tenant_id :: string
  ca_project_id :: string
  ca_operation_type :: string
  ca_idempotency_key :: string
  ca_input_manifest :: fields
  ca_actor_id :: string
  ca_max_attempts :: int
  ca_traceparent :: "string option"

definition same_request :: "create_args \<Rightarrow> operation_row \<Rightarrow> bool" where
  "same_request a r \<longleftrightarrow> o_tenant_id r = ca_tenant_id a \<and> o_project_id r = ca_project_id a \<and>
     o_operation_type r = ca_operation_type a \<and> o_idempotency_key r = ca_idempotency_key a"

definition new_operation :: "runtime \<Rightarrow> env \<Rightarrow> create_args \<Rightarrow> string option \<Rightarrow> operation_row" where
  "new_operation rt E a traceparent =
     \<lparr>o_operation_id = ids E 0, o_tenant_id = ca_tenant_id a, o_project_id = ca_project_id a,
      o_operation_type = ca_operation_type a, o_idempotency_key = ca_idempotency_key a,
      o_input_manifest_hash = canonical_sha256 rt (JObj (ca_input_manifest a)),
      o_input_json = ca_input_manifest a, o_traceparent = traceparent, o_state = PENDING, o_progress = 0,
      o_attempt = 0, o_max_attempts = ca_max_attempts a, o_lease_owner = None, o_lease_expires_at = None,
      o_checkpoint_json = [], o_output_json = [], o_output_hash = None, o_error_json = [],
      o_cancel_requested = False, o_created_by = ca_actor_id a, o_created_at = clk E 0, o_updated_at = clk E 0\<rparr>"

definition create_body ::
  "runtime \<Rightarrow> string \<Rightarrow> event_catalog \<Rightarrow> env \<Rightarrow> create_args \<Rightarrow> string option \<Rightarrow> db \<Rightarrow> sip_error + operation_view \<times> db" where
  "create_body rt key cat E a traceparent s =
     (let input_hash = canonical_sha256 rt (JObj (ca_input_manifest a))
      in case find (same_request a) (operations s) of
           Some prior \<Rightarrow>
             (if o_input_manifest_hash prior \<noteq> input_hash
              then Inl (ConflictError ''IDEMPOTENCY_PAYLOAD_CONFLICT'' [])
              else Inr (op_view rt prior, s))
         | None \<Rightarrow>
             let row = new_operation rt E a traceparent;
                 details = [(''operation_type'', JStr (ca_operation_type a)),
                            (''input_manifest_hash'', JStr input_hash)]
             in bindE (insert_row o_operation_id row (operations s)) (\<lambda>rows.
                bindE (op_outbox rt cat (ids E 1) (clk E 1) row ''operation.created'' details
                         (Some (ca_actor_id a)) None (s\<lparr>operations := rows\<rparr>)) (\<lambda>s'.
                bindE (append_audit rt key (ids E 2) (clk E 2)
                         (audit_entry (ca_tenant_id a) (Some (ca_project_id a)) (ca_actor_id a)
                            ''operation:create'' ''operation'' (o_operation_id row) ''allowed'' details) s')
                  (\<lambda>s''. Inr (op_view rt row, s'')))))"

text \<open>The deployment service, when one is set, is asked to admit the work before the session. It
  runs in sessions of its own, so what it writes stays whatever follows.\<close>

record admission_request =
  ad_tenant_id :: string
  ad_project_id :: string
  ad_admission_type :: string
  ad_region :: json
  ad_request :: fields
  ad_actor_id :: string

type_synonym deployment_service = "admission_request \<Rightarrow> db \<Rightarrow> (sip_error + unit) \<times> db"

definition worker_admission :: "(json \<Rightarrow> string) \<Rightarrow> create_args \<Rightarrow> admission_request" where
  "worker_admission py_str a =
     \<lparr>ad_tenant_id = ca_tenant_id a, ad_project_id = ca_project_id a,
      ad_admission_type = ''worker_schedule'',
      ad_region = jget (ca_input_manifest a) ''deployment_region'',
      ad_request = [(''worker_class'',
          JStr (case map_of (ca_input_manifest a) ''worker_class'' of
                  None \<Rightarrow> ca_operation_type a | Some v \<Rightarrow> py_str v)),
        (''operation_type'', JStr (ca_operation_type a)),
        (''compute_profile'', jget (ca_input_manifest a) ''compute_profile'')],
      ad_actor_id = ca_actor_id a\<rparr>"

definition admit :: "deployment_service option \<Rightarrow> admission_request \<Rightarrow> db \<Rightarrow> (sip_error + unit) \<times> db" where
  "admit deployment request s =
     (case deployment of None \<Rightarrow> (Inr (), s) | Some authorize_if_configured \<Rightarrow> authorize_if_configured request s)"

definition create_operation ::
  "runtime \<Rightarrow> (json \<Rightarrow> string) \<Rightarrow> string \<Rightarrow> event_catalog \<Rightarrow> deployment_service option \<Rightarrow> env \<Rightarrow> create_args \<Rightarrow> db
     \<Rightarrow> (sip_error + operation_view) \<times> db" where
  "create_operation rt py_str key cat deployment E a s =
     (if ca_idempotency_key a = [] then (Inl (ValidationError ''IDEMPOTENCY_KEY_REQUIRED'' []), s)
      else case admit deployment (worker_admission py_str a) s of
           (Inl e, s') \<Rightarrow> (Inl e, s')
         | (Inr _, s') \<Rightarrow>
             (case normalize_traceparent (ca_traceparent a) of
                Inl e \<Rightarrow> (Inl e, s')
              | Inr traceparent \<Rightarrow> session (create_body rt key cat E a traceparent) s'))"

section \<open>Leases\<close>

definition lease_expired :: "operation_row \<Rightarrow> time \<Rightarrow> bool" where
  "lease_expired r now = (case o_lease_expires_at r of None \<Rightarrow> False | Some t \<Rightarrow> t \<le> now)"

definition leased_row :: "operation_row \<Rightarrow> string \<Rightarrow> int \<Rightarrow> time \<Rightarrow> operation_row" where
  "leased_row r worker lease_seconds now =
     r\<lparr>o_attempt := (if o_state r \<in> {PENDING, FAILED} \<or> lease_expired r now then o_attempt r + 1 else o_attempt r),
       o_state := LEASED, o_lease_owner := Some worker,
       o_lease_expires_at := Some (now + lease_seconds * 1000000), o_updated_at := now\<rparr>"

definition lease ::
  "runtime \<Rightarrow> event_catalog \<Rightarrow> env \<Rightarrow> string \<Rightarrow> string \<Rightarrow> int \<Rightarrow> db \<Rightarrow> sip_error + operation_view \<times> db" where
  "lease rt cat E operation worker lease_seconds s =
     (if lease_seconds < 1 \<or> lease_seconds > 3600 then Inl (ValidationError ''LEASE_TTL_INVALID'' [])
      else let now = clk E 0 in
        case get_op s operation of
          None \<Rightarrow> Inl (NotFoundError ''operation'' operation)
        | Some r \<Rightarrow>
            (if o_state r \<notin> {PENDING, LEASED, RUNNING, FAILED}
             then Inl (ConflictError ''OPERATION_NOT_LEASABLE'' [(''state'', JStr (state_value (o_state r)))])
             else if truthy_str (o_lease_owner r) \<and> \<not> lease_expired r now \<and> o_lease_owner r \<noteq> Some worker
             then Inl (ConflictError ''OPERATION_ALREADY_LEASED'' [])
             else if o_attempt r \<ge> o_max_attempts r \<and> o_state r = FAILED
             then Inl (ConflictError ''OPERATION_ATTEMPTS_EXHAUSTED'' [])
             else let r' = leased_row r worker lease_seconds now in
               bindE (op_outbox rt cat (ids E 0) (clk E 1) r' ''operation.leased''
                        [(''worker_id'', JStr worker), (''attempt'', JInt (o_attempt r'))] None (Some worker)
                        (put_op r' s))
                 (\<lambda>s'. Inr (op_view rt r', s'))))"

definition owned_lease :: "db \<Rightarrow> string \<Rightarrow> string \<Rightarrow> time \<Rightarrow> sip_error + operation_row" where
  "owned_lease s operation worker now =
     (case get_op s operation of
        None \<Rightarrow> Inl (NotFoundError ''operation'' operation)
      | Some r \<Rightarrow>
          (if o_lease_owner r \<noteq> Some worker \<or> o_lease_expires_at r = None \<or> the (o_lease_expires_at r) \<le> now
           then Inl (ConflictError ''OPERATION_LEASE_INVALID'' []) else Inr r))"

abbreviation released :: "operation_row \<Rightarrow> operation_row" where
  "released r \<equiv> r\<lparr>o_lease_owner := None, o_lease_expires_at := None\<rparr>"

definition start_row :: "operation_row \<Rightarrow> time \<Rightarrow> operation_row" where
  "start_row r now =
     (if o_cancel_requested r then (released r)\<lparr>o_state := CANCELLED\<rparr> else r\<lparr>o_state := RUNNING\<rparr>)\<lparr>o_updated_at := now\<rparr>"

definition start :: "runtime \<Rightarrow> env \<Rightarrow> string \<Rightarrow> string \<Rightarrow> db \<Rightarrow> sip_error + operation_view \<times> db" where
  "start rt E operation worker s =
     bindE (owned_lease s operation worker (clk E 0)) (\<lambda>r.
       let r' = start_row r (clk E 1) in Inr (op_view rt r', put_op r' s))"

definition heartbeat ::
  "runtime \<Rightarrow> event_catalog \<Rightarrow> env \<Rightarrow> string \<Rightarrow> string \<Rightarrow> int \<Rightarrow> db \<Rightarrow> sip_error + operation_view \<times> db" where
  "heartbeat rt cat E operation worker lease_seconds s =
     (if lease_seconds < 1 \<or> lease_seconds > 3600 then Inl (ValidationError ''LEASE_TTL_INVALID'' [])
      else bindE (owned_lease s operation worker (clk E 0)) (\<lambda>r.
        let r' = r\<lparr>o_lease_expires_at := Some (clk E 1 + lease_seconds * 1000000), o_updated_at := clk E 2\<rparr>
        in bindE (op_outbox rt cat (ids E 0) (clk E 3) r' ''operation.lease_renewed''
                   [(''worker_id'', JStr worker), (''lease_seconds'', JInt lease_seconds)] None (Some worker)
                   (put_op r' s))
             (\<lambda>s'. Inr (op_view rt r', s'))))"

section \<open>Checkpoints\<close>

text \<open>Python compares \<open>int\<close>, \<open>bool\<close> and \<open>float\<close> as numbers; \<open>isinstance(x, int)\<close>
  holds for a \<open>bool\<close>.\<close>

fun py_number :: "json \<Rightarrow> rat option" where
  "py_number (JInt i) = Some (of_int i)"
| "py_number (JBool b) = Some (if b then 1 else 0)"
| "py_number (JFloat q) = Some q"
| "py_number _ = None"

fun is_int :: "json \<Rightarrow> bool" where
  "is_int (JInt i) = True"
| "is_int (JBool b) = True"
| "is_int _ = False"

definition check_sequence :: "json \<Rightarrow> json \<Rightarrow> sip_error + unit" where
  "check_sequence sequence prior =
     (if sequence = JNull then Inr ()
      else if \<not> is_int sequence \<or> the (py_number sequence) < 1
      then Inl (ValidationError ''CHECKPOINT_SEQUENCE_INVALID'' [])
      else if prior = JNull then Inr ()
      else case py_number prior of
             None \<Rightarrow> Inl (Uncaught ''TypeError'')
           | Some p \<Rightarrow>
               (if the (py_number sequence) \<le> p
                then Inl (ConflictError ''CHECKPOINT_SEQUENCE_NOT_MONOTONIC''
                  [(''prior_sequence'', prior), (''sequence'', sequence)])
                else Inr ()))"

definition persisted_checkpoint :: "runtime \<Rightarrow> fields \<Rightarrow> sip_error + fields" where
  "persisted_checkpoint rt checkpoint =
     (if \<not> truthy (jget checkpoint ''safe_to_resume'') then Inr checkpoint
      else case jget checkpoint ''manifest'' of
             JObj candidate \<Rightarrow> Inr (jset ''checkpoint_hash'' (JStr (canonical_sha256 rt (JObj candidate)))
               (jset ''manifest'' (JObj candidate) checkpoint))
           | JNull \<Rightarrow>
               let resume_manifest = filter (\<lambda>(k, v). k \<notin> {''manifest'', ''checkpoint_hash''}) checkpoint
               in Inr (jset ''checkpoint_hash'' (JStr (canonical_sha256 rt (JObj resume_manifest)))
                 (jset ''manifest'' (JObj resume_manifest) checkpoint))
           | _ \<Rightarrow> Inl (ValidationError ''CHECKPOINT_MANIFEST_INVALID'' []))"

definition checkpoint_row :: "operation_row \<Rightarrow> rat \<Rightarrow> fields \<Rightarrow> time \<Rightarrow> operation_row" where
  "checkpoint_row r progress persisted now =
     (if o_cancel_requested r then (released r)\<lparr>o_state := CANCELLED\<rparr>
      else r\<lparr>o_state := RUNNING, o_progress := progress, o_checkpoint_json := persisted\<rparr>)\<lparr>o_updated_at := now\<rparr>"

definition checkpoint_op ::
  "runtime \<Rightarrow> event_catalog \<Rightarrow> env \<Rightarrow> string \<Rightarrow> string \<Rightarrow> rat \<Rightarrow> fields \<Rightarrow> db \<Rightarrow> sip_error + operation_view \<times> db" where
  "checkpoint_op rt cat E operation worker progress checkpoint s =
     (if \<not> (0 \<le> progress \<and> progress \<le> 1) then Inl (ValidationError ''PROGRESS_INVALID'' [])
      else bindE (owned_lease s operation worker (clk E 0)) (\<lambda>r.
        let sequence = jget checkpoint ''sequence''
        in bindE (check_sequence sequence (jget (o_checkpoint_json r) ''sequence'')) (\<lambda>_.
          if progress < o_progress r
          then Inl (ConflictError ''CHECKPOINT_PROGRESS_REGRESSION''
            [(''prior_progress'', JFloat (o_progress r)), (''progress'', JFloat progress)])
          else bindE (persisted_checkpoint rt checkpoint) (\<lambda>persisted.
            let r' = checkpoint_row r progress persisted (clk E 1)
            in bindE (op_outbox rt cat (ids E 0) (clk E 2) r' ''operation.checkpointed''
                 [(''progress'', JFloat progress), (''sequence'', sequence),
                  (''stage'', jget checkpoint ''stage''),
                  (''safe_to_resume'', JBool (truthy (jget checkpoint ''safe_to_resume''))),
                  (''checkpoint_hash'', JStr (canonical_sha256 rt (JObj persisted)))] None (Some worker)
                 (put_op r' s))
               (\<lambda>s'. Inr (op_view rt r', s'))))))"

section \<open>Cancellation, completion and failure\<close>

definition request_cancel ::
  "runtime \<Rightarrow> event_catalog \<Rightarrow> env \<Rightarrow> string \<Rightarrow> string \<Rightarrow> db \<Rightarrow> sip_error + operation_view \<times> db" where
  "request_cancel rt cat E operation actor s =
     (case get_op s operation of
        None \<Rightarrow> Inl (NotFoundError ''operation'' operation)
      | Some r \<Rightarrow>
          (if o_state r \<in> {SUCCEEDED, FAILED, CANCELLED} then Inr (op_view rt r, s)
           else let r' = r\<lparr>o_cancel_requested := True, o_state := CANCEL_REQUESTED, o_updated_at := clk E 0\<rparr>
                in bindE (op_outbox rt cat (ids E 0) (clk E 1) r' ''operation.cancel_requested''
                     [(''actor_id'', JStr actor)] (Some actor) None (put_op r' s))
                   (\<lambda>s'. Inr (op_view rt r', s'))))"

definition complete ::
  "runtime \<Rightarrow> event_catalog \<Rightarrow> env \<Rightarrow> string \<Rightarrow> string \<Rightarrow> fields \<Rightarrow> string option \<Rightarrow> db
     \<Rightarrow> sip_error + operation_view \<times> db" where
  "complete rt cat E operation worker output claimed s =
     (let calculated = canonical_sha256 rt (JObj output)
      in if claimed \<noteq> None \<and> claimed \<noteq> Some calculated
         then Inl (ValidationError ''WORKER_OUTPUT_HASH_MISMATCH''
           [(''claimed'', jopt claimed), (''calculated'', JStr calculated)])
         else bindE (owned_lease s operation worker (clk E 0)) (\<lambda>r.
           if o_cancel_requested r then Inl (ConflictError ''OPERATION_CANCEL_REQUESTED'' [])
           else let r' = (released r)\<lparr>o_output_json := output, o_output_hash := Some calculated,
                  o_progress := 1, o_state := SUCCEEDED, o_updated_at := clk E 1\<rparr>
                in bindE (op_outbox rt cat (ids E 0) (clk E 2) r' ''operation.succeeded''
                     [(''output_hash'', JStr calculated)] None (Some worker) (put_op r' s))
                   (\<lambda>s'. Inr (op_view rt r', s'))))"

definition fail_op ::
  "runtime \<Rightarrow> event_catalog \<Rightarrow> env \<Rightarrow> string \<Rightarrow> string \<Rightarrow> string \<Rightarrow> string \<Rightarrow> bool \<Rightarrow> db
     \<Rightarrow> sip_error + operation_view \<times> db" where
  "fail_op rt cat E operation worker code message retry s =
     bindE (owned_lease s operation worker (clk E 0)) (\<lambda>r.
       let error = [(''code'', JStr code), (''message'', JStr message), (''retryable'', JBool retry)];
           r' = (released r)\<lparr>o_error_json := error, o_state := FAILED, o_updated_at := clk E 1\<rparr>
       in bindE (op_outbox rt cat (ids E 0) (clk E 2) r' ''operation.failed'' error None (Some worker) (put_op r' s))
            (\<lambda>s'. Inr (op_view rt r', s')))"

section \<open>Reconciliation\<close>

text \<open>The rows are selected once, before the loop; the loop writes them back one by one. The
  query has no ORDER BY: the model takes the rows in insertion order.\<close>

definition abandoned :: "time \<Rightarrow> operation_row \<Rightarrow> bool" where
  "abandoned now r \<longleftrightarrow> o_state r \<in> {LEASED, RUNNING} \<and> lease_expired r now"

definition resumable :: "operation_row \<Rightarrow> bool" where
  "resumable r \<longleftrightarrow> truthy (jget (o_checkpoint_json r) ''safe_to_resume'') \<and> o_attempt r < o_max_attempts r"

definition lease_expired_error :: fields where
  "lease_expired_error = [(''code'', JStr ''OPERATION_LEASE_EXPIRED_UNSAFE''),
     (''message'', JStr ''expired lease lacked a safe resumable checkpoint''), (''retryable'', JBool False)]"

definition reconciled_row :: "time \<Rightarrow> operation_row \<Rightarrow> operation_row" where
  "reconciled_row now r =
     (if resumable r then (released r)\<lparr>o_updated_at := now, o_state := PENDING\<rparr>
      else (released r)\<lparr>o_updated_at := now, o_state := QUARANTINED, o_error_json := lease_expired_error\<rparr>)"

fun reconcile_rows ::
  "runtime \<Rightarrow> event_catalog \<Rightarrow> env \<Rightarrow> nat \<Rightarrow> operation_row list \<Rightarrow> string list \<times> string list \<Rightarrow> db
     \<Rightarrow> sip_error + (string list \<times> string list) \<times> db" where
  "reconcile_rows rt cat E i [] result s = Inr (result, s)"
| "reconcile_rows rt cat E i (r # rows) (rel, quar) s =
     (let r' = reconciled_row (clk E 0) r
      in if resumable r
         then bindE (op_outbox rt cat (ids E i) (clk E (Suc i)) r' ''operation.lease_released''
                [(''checkpoint_hash'', JStr (canonical_sha256 rt (JObj (o_checkpoint_json r)))),
                 (''attempt'', JInt (o_attempt r))] None None (put_op r' s))
              (reconcile_rows rt cat E (Suc i) rows (rel @ [o_operation_id r], quar))
         else bindE (op_outbox rt cat (ids E i) (clk E (Suc i)) r' ''operation.quarantined''
                lease_expired_error None None (put_op r' s))
              (reconcile_rows rt cat E (Suc i) rows (rel, quar @ [o_operation_id r])))"

definition reconcile_expired_leases ::
  "runtime \<Rightarrow> event_catalog \<Rightarrow> env \<Rightarrow> db \<Rightarrow> sip_error + (string list \<times> string list) \<times> db" where
  "reconcile_expired_leases rt cat E s =
     reconcile_rows rt cat E 0 (filter (abandoned (clk E 0)) (operations s)) ([], []) s"

definition get_operation :: "runtime \<Rightarrow> string \<Rightarrow> db \<Rightarrow> sip_error + operation_view \<times> db" where
  "get_operation rt operation s =
     (case get_op s operation of
        None \<Rightarrow> Inl (NotFoundError ''operation'' operation)
      | Some r \<Rightarrow> Inr (op_view rt r, s))"

end
