(* ===== verification/Operation_Lifecycle.thy ===== *)
theory Operation_Lifecycle
  imports Operations
begin

text \<open>
  The life of durable operations: the state machine \<open>op_change\<close> on one row with its invariant
  \<open>op_ok\<close>, the lemmas that every method of \<open>Operations\<close> implements it, sequences of calls
  (\<open>op_step\<close>) as a monotone component, and the properties of runs: consistency, order,
  exclusion by leases, idempotent creation, cancellation and reconciliation.
\<close>

section \<open>The store of operations\<close>

interpretation op_store: row_store get_op put_op o_operation_id
proof (unfold_locales, goal_cases)
  case (1 s k r)
  then show ?case by (auto simp: get_op_def dest: tget_SomeD)
next
  case (2 s r)
  then show ?case by (auto simp: get_op_def put_op_def tget_tput_same)
next
  case (3 k r s)
  then show ?case by (simp add: get_op_def put_op_def tget_tput_other)
qed

lemma operations_put_op [simp]: "operations (put_op r s) = tput o_operation_id r (operations s)"
  by (simp add: put_op_def)

lemma op_outbox_operations: "op_outbox rt cat i now r t p a w s = Inr s' \<Longrightarrow> operations s' = operations s"
  unfolding op_outbox_def by (drule outbox.emit_frame) auto

lemma append_audit_operations: "append_audit rt key i now c s = Inr s' \<Longrightarrow> operations s' = operations s"
  by (drule audit.append_frame) auto

section \<open>The life of one operation\<close>

text \<open>The changes a method can make to one row. \<open>op_change\<close> is the abstract state machine the
  methods implement.\<close>

inductive op_change :: "runtime \<Rightarrow> operation_row \<Rightarrow> operation_row \<Rightarrow> bool" for rt where
  leases: "o_state r \<in> {PENDING, LEASED, RUNNING, FAILED} \<Longrightarrow> op_change rt r (leased_row r w secs now)"
| starts: "o_lease_owner r = Some w \<Longrightarrow> op_change rt r (start_row r now)"
| renews: "o_lease_owner r = Some w \<Longrightarrow> op_change rt r (r\<lparr>o_lease_expires_at := Some t, o_updated_at := now\<rparr>)"
| checkpoints: "o_lease_owner r = Some w \<Longrightarrow> 0 \<le> p \<Longrightarrow> p \<le> 1 \<Longrightarrow> o_progress r \<le> p \<Longrightarrow>
    op_change rt r (checkpoint_row r p c now)"
| cancels: "o_state r \<notin> {SUCCEEDED, FAILED, CANCELLED} \<Longrightarrow>
    op_change rt r (r\<lparr>o_cancel_requested := True, o_state := CANCEL_REQUESTED, o_updated_at := now\<rparr>)"
| completes: "o_lease_owner r = Some w \<Longrightarrow> \<not> o_cancel_requested r \<Longrightarrow>
    op_change rt r ((released r)\<lparr>o_output_json := output, o_output_hash := Some (canonical_sha256 rt (JObj output)),
      o_progress := 1, o_state := SUCCEEDED, o_updated_at := now\<rparr>)"
| fails: "o_lease_owner r = Some w \<Longrightarrow>
    op_change rt r ((released r)\<lparr>o_error_json := err, o_state := FAILED, o_updated_at := now\<rparr>)"
| reconciles: "o_state r \<in> {LEASED, RUNNING} \<Longrightarrow> op_change rt r (reconciled_row now r)"

text \<open>The invariant of a row.\<close>

definition op_ok :: "runtime \<Rightarrow> operation_row \<Rightarrow> bool" where
  "op_ok rt r \<longleftrightarrow> 0 \<le> o_progress r \<and> o_progress r \<le> 1 \<and> 0 \<le> o_attempt r \<and>
     (o_lease_owner r = None \<longleftrightarrow> o_lease_expires_at r = None) \<and>
     (o_state r \<in> {LEASED, RUNNING} \<longrightarrow> o_lease_owner r \<noteq> None) \<and>
     (o_lease_owner r \<noteq> None \<longrightarrow> o_state r \<in> {LEASED, RUNNING, CANCEL_REQUESTED}) \<and>
     (o_state r = SUCCEEDED \<longrightarrow> o_progress r = 1 \<and> \<not> o_cancel_requested r \<and>
        o_output_hash r = Some (canonical_sha256 rt (JObj (o_output_json r)))) \<and>
     (o_state r \<noteq> SUCCEEDED \<longrightarrow> o_output_hash r = None \<and> o_output_json r = []) \<and>
     (o_state r \<in> {CANCEL_REQUESTED, CANCELLED} \<longrightarrow> o_cancel_requested r) \<and>
     o_input_manifest_hash r = canonical_sha256 rt (JObj (o_input_json r))"

lemmas op_rows = leased_row_def start_row_def checkpoint_row_def reconciled_row_def

lemma op_change_ok:
  assumes "op_change rt r r'" and "op_ok rt r"
  shows "op_ok rt r'"
  using assms by (cases rule: op_change.cases) (auto simp: op_ok_def op_rows)

text \<open>What no change takes back.\<close>

definition row_below :: "operation_row \<Rightarrow> operation_row \<Rightarrow> bool" where
  "row_below r r' \<longleftrightarrow>
     (o_operation_id r', o_tenant_id r', o_project_id r', o_operation_type r', o_idempotency_key r')
       = (o_operation_id r, o_tenant_id r, o_project_id r, o_operation_type r, o_idempotency_key r) \<and>
     (o_input_manifest_hash r', o_input_json r', o_traceparent r', o_max_attempts r', o_created_by r', o_created_at r')
       = (o_input_manifest_hash r, o_input_json r, o_traceparent r, o_max_attempts r, o_created_by r, o_created_at r) \<and>
     o_progress r \<le> o_progress r' \<and> o_attempt r \<le> o_attempt r' \<and>
     (o_cancel_requested r \<longrightarrow> o_cancel_requested r') \<and>
     (o_state r \<in> {SUCCEEDED, CANCELLED} \<longrightarrow> r' = r)"

lemma row_below_refl [simp]: "row_below r r"
  by (simp add: row_below_def)

lemma row_below_trans: "row_below a b \<Longrightarrow> row_below b c \<Longrightarrow> row_below a c"
  by (auto simp: row_below_def)

lemma op_change_not_ended:
  assumes "op_change rt r r'" and "op_ok rt r"
  shows "o_state r \<noteq> SUCCEEDED" and "o_state r \<noteq> CANCELLED"
  using assms by (cases rule: op_change.cases; auto simp: op_ok_def)+

lemma op_change_below:
  assumes "op_change rt r r'" and "op_ok rt r"
  shows "row_below r r'"
  using assms(1) op_change_not_ended [OF assms] assms(2)
  by (cases rule: op_change.cases) (simp_all add: op_ok_def row_below_def op_rows)

lemma op_change_id: "op_change rt r r' \<Longrightarrow> o_operation_id r' = o_operation_id r"
  by (cases rule: op_change.cases) (auto simp: op_rows)

text \<open>The edges between states.\<close>

fun op_edge :: "operation_state \<Rightarrow> operation_state \<Rightarrow> bool" where
  "op_edge PENDING b = (b \<in> {LEASED, CANCEL_REQUESTED})"
| "op_edge FAILED b = (b = LEASED)"
| "op_edge LEASED b = True"
| "op_edge RUNNING b = True"
| "op_edge CANCEL_REQUESTED b = (b \<in> {CANCELLED, FAILED, CANCEL_REQUESTED})"
| "op_edge QUARANTINED b = (b = CANCEL_REQUESTED)"
| "op_edge SUCCEEDED b = False"
| "op_edge CANCELLED b = False"

lemma op_change_edge:
  assumes "op_change rt r r'" and "op_ok rt r"
  shows "op_edge (o_state r) (o_state r')"
  using assms by (cases rule: op_change.cases; cases "o_state r") (auto simp: op_ok_def op_rows)

lemma op_change_props:
  assumes "(op_change rt)\<^sup>*\<^sup>* r r'" and "op_ok rt r"
  shows "op_ok rt r' \<and> row_below r r' \<and> op_edge\<^sup>*\<^sup>* (o_state r) (o_state r')"
  using assms
proof (induction rule: rtranclp_induct)
  case (step y z)
  then show ?case
    using op_change_ok op_change_below row_below_trans op_change_edge
    by (metis (no_types, lifting) rtranclp.rtrancl_into_rtrancl)
qed simp

section \<open>The methods implement the changes\<close>

lemma owned_lease_Inr [result_simps]:
  "owned_lease s k w now = Inr r \<longleftrightarrow>
     get_op s k = Some r \<and> o_lease_owner r = Some w \<and> (\<exists>t. o_lease_expires_at r = Some t \<and> now < t)"
  by (auto simp: owned_lease_def split: option.splits)

text \<open>A call on the operation \<open>k\<close> that returned: the row was there and was changed as the
  relation says, or left alone; no other row changed.\<close>

definition changed_one :: "runtime \<Rightarrow> string \<Rightarrow> db \<Rightarrow> db \<Rightarrow> bool" where
  "changed_one rt k s t \<longleftrightarrow>
     (\<exists>r r'. get_op s k = Some r \<and> o_operation_id r' = k \<and> op_change rt r r' \<and>
        operations t = tput o_operation_id r' (operations s)) \<or> operations t = operations s"

lemma changed_oneI:
  "get_op s k = Some r \<Longrightarrow> op_change rt r r' \<Longrightarrow> operations t = tput o_operation_id r' (operations s) \<Longrightarrow> changed_one rt k s t"
  unfolding changed_one_def using op_change_id op_store.get_key by metis

lemma lease_changes:
  assumes "lease rt cat E k w secs s = Inr (v, t)"
  shows "changed_one rt k s t"
proof -
  from assms obtain r where r: "get_op s k = Some r" "o_state r \<in> {PENDING, LEASED, RUNNING, FAILED}"
      "operations t = operations (put_op (leased_row r w secs (clk E 0)) s)"
    by (auto simp: lease_def Let_def result_simps split: option.splits dest: op_outbox_operations)
  then show ?thesis by (intro changed_oneI [OF r(1) leases]) auto
qed

lemma start_changes:
  assumes "start rt E k w s = Inr (v, t)"
  shows "changed_one rt k s t"
  using assms by (auto simp: start_def Let_def result_simps intro!: changed_oneI starts)

lemma heartbeat_changes:
  assumes "heartbeat rt cat E k w secs s = Inr (v, t)"
  shows "changed_one rt k s t"
  using assms by (auto simp: heartbeat_def Let_def result_simps dest!: op_outbox_operations intro!: changed_oneI renews)

lemma checkpoint_changes:
  assumes "checkpoint_op rt cat E k w p c s = Inr (v, t)"
  shows "changed_one rt k s t"
proof -
  from assms obtain r c' where r: "get_op s k = Some r" "o_lease_owner r = Some w" "0 \<le> p" "p \<le> 1" "o_progress r \<le> p"
      "operations t = operations (put_op (checkpoint_row r p c' (clk E 1)) s)"
    by (auto simp: checkpoint_op_def Let_def result_simps not_less dest!: op_outbox_operations)
  then show ?thesis by (intro changed_oneI [OF r(1) checkpoints]) auto
qed

lemma request_cancel_changes:
  assumes "request_cancel rt cat E k actor s = Inr (v, t)"
  shows "changed_one rt k s t"
proof (cases "operations t = operations s")
  case False
  with assms obtain r where r: "get_op s k = Some r" "o_state r \<notin> {SUCCEEDED, FAILED, CANCELLED}"
      "operations t = operations (put_op (r\<lparr>o_cancel_requested := True, o_state := CANCEL_REQUESTED, o_updated_at := clk E 0\<rparr>) s)"
    by (auto simp: request_cancel_def Let_def bindE_Inr_conv split: option.splits if_splits dest!: op_outbox_operations)
  then show ?thesis by (intro changed_oneI [OF r(1) cancels]) auto
qed (simp add: changed_one_def)

lemma complete_changes:
  assumes "complete rt cat E k w output claimed s = Inr (v, t)"
  shows "changed_one rt k s t"
proof -
  from assms obtain r where r: "get_op s k = Some r" "o_lease_owner r = Some w" "\<not> o_cancel_requested r"
      "operations t = operations (put_op ((released r)\<lparr>o_output_json := output,
         o_output_hash := Some (canonical_sha256 rt (JObj output)), o_progress := 1, o_state := SUCCEEDED, o_updated_at := clk E 1\<rparr>) s)"
    by (auto simp: complete_def Let_def result_simps dest!: op_outbox_operations)
  then show ?thesis by (intro changed_oneI [OF r(1) completes]) auto
qed

lemma fail_changes:
  assumes "fail_op rt cat E k w code message retry s = Inr (v, t)"
  shows "changed_one rt k s t"
proof -
  from assms obtain r err where r: "get_op s k = Some r" "o_lease_owner r = Some w"
      "operations t = operations (put_op ((released r)\<lparr>o_error_json := err, o_state := FAILED, o_updated_at := clk E 1\<rparr>) s)"
    by (auto simp: fail_op_def Let_def result_simps dest!: op_outbox_operations)
  then show ?thesis by (intro changed_oneI [OF r(1) fails]) auto
qed

text \<open>The loop of the reconciliation rewrites every selected row once.\<close>

lemma tput_map_distinct:
  assumes "distinct (map key rows)" and "r \<in> set rows" and "key r' = key r"
  shows "tput key r' rows = map (\<lambda>x. if x = r then r' else x) rows"
  using assms by (auto simp: tput_def distinct_map inj_on_def)

lemma reconcile_rows_result:
  assumes "reconcile_rows rt cat E i rows res s = Inr (res', t)"
    and "distinct (map o_operation_id (operations s))" and "distinct rows" and "set rows \<subseteq> set (operations s)"
    and "\<forall>r \<in> set rows. abandoned (clk E 0) r"
  shows "operations t = map (\<lambda>r. if r \<in> set rows then reconciled_row (clk E 0) r else r) (operations s) \<and>
     res' = (fst res @ map o_operation_id (filter resumable rows),
             snd res @ map o_operation_id (filter (\<lambda>r. \<not> resumable r) rows)) \<and>
     (\<exists>l. outbox_events t = outbox_events s @ l \<and> map e_aggregate_id l = map o_operation_id rows)"
  using assms
proof (induction rows arbitrary: i res s)
  case (Cons r rows)
  obtain rel quar where res: "res = (rel, quar)" by (cases res)
  let ?r = "reconciled_row (clk E 0) r"
  let ?res = "if resumable r then (rel @ [o_operation_id r], quar) else (rel, quar @ [o_operation_id r])"
  obtain u ty p where u: "op_outbox rt cat (ids E i) (clk E (Suc i)) ?r ty p None None (put_op ?r s) = Inr u"
      "reconcile_rows rt cat E (Suc i) rows ?res u = Inr (res', t)"
    using Cons.prems(1) by (cases "resumable r") (auto simp: res Let_def bindE_Inr_conv)
  have id: "o_operation_id ?r = o_operation_id r" by (simp add: reconciled_row_def)
  have ops: "operations u = map (\<lambda>x. if x = r then ?r else x) (operations s)"
    using op_outbox_operations [OF u(1)] Cons.prems(2,4) id by (simp add: tput_map_distinct)
  obtain e where out: "outbox_events u = outbox_events s @ [e]" "e_aggregate_id e = o_operation_id r"
    using outbox.emit_grows [OF u(1) [unfolded op_outbox_def]] id by (auto simp: op_event_def put_op_def)
  have fresh: "?r \<notin> set rows"
    using Cons.prems(5) by (auto simp: abandoned_def reconciled_row_def split: if_splits)
  have "map o_operation_id (operations u) = map o_operation_id (operations s)"
    by (simp add: ops id)
  moreover have "set rows \<subseteq> set (operations u)"
    using Cons.prems(3,4) by (auto simp: ops)
  ultimately have IH: "operations t = map (\<lambda>r. if r \<in> set rows then reconciled_row (clk E 0) r else r) (operations u)"
      "res' = (fst ?res @ map o_operation_id (filter resumable rows), snd ?res @ map o_operation_id (filter (\<lambda>r. \<not> resumable r) rows))"
      "\<exists>l. outbox_events t = outbox_events u @ l \<and> map e_aggregate_id l = map o_operation_id rows"
    using Cons.IH [OF u(2)] Cons.prems(2,3,5) by auto
  have "operations t = map (\<lambda>x. if x \<in> set (r # rows) then reconciled_row (clk E 0) x else x) (operations s)"
    using fresh by (simp add: IH(1) ops)
  moreover from IH(3) obtain l where "outbox_events t = outbox_events s @ (e # l)"
      "map e_aggregate_id (e # l) = map o_operation_id (r # rows)"
    using out by auto
  ultimately show ?case
    using IH(2) by (simp add: res)
qed auto

lemma reconcile_result:
  assumes "reconcile_expired_leases rt cat E s = Inr (res, t)"
    and "distinct (map o_operation_id (operations s))"
  shows "operations t = map (\<lambda>r. if abandoned (clk E 0) r then reconciled_row (clk E 0) r else r) (operations s) \<and>
     res = (map o_operation_id (filter resumable (filter (abandoned (clk E 0)) (operations s))),
             map o_operation_id (filter (\<lambda>r. \<not> resumable r) (filter (abandoned (clk E 0)) (operations s)))) \<and>
     (\<exists>l. outbox_events t = outbox_events s @ l \<and>
        map e_aggregate_id l = map o_operation_id (filter (abandoned (clk E 0)) (operations s)))"
proof -
  let ?rows = "filter (abandoned (clk E 0)) (operations s)"
  have "distinct ?rows" "set ?rows \<subseteq> set (operations s)" "\<forall>r \<in> set ?rows. abandoned (clk E 0) r"
    using assms(2) by (simp_all add: distinct_map)
  note result = reconcile_rows_result [OF assms(1) [unfolded reconcile_expired_leases_def] assms(2) this]
  have "map (\<lambda>r. if r \<in> set ?rows then reconciled_row (clk E 0) r else r) (operations s)
      = map (\<lambda>r. if abandoned (clk E 0) r then reconciled_row (clk E 0) r else r) (operations s)"
    by (rule map_cong) simp_all
  with result show ?thesis by (simp only: fst_conv snd_conv append_Nil)
qed

section \<open>The table\<close>

definition op_key :: "operation_row \<Rightarrow> string \<times> string \<times> string \<times> string" where
  "op_key r = (o_tenant_id r, o_project_id r, o_operation_type r, o_idempotency_key r)"

definition op_inv :: "runtime \<Rightarrow> db \<Rightarrow> bool" where
  "op_inv rt s \<longleftrightarrow> distinct (map o_operation_id (operations s)) \<and> distinct (map op_key (operations s)) \<and>
     (\<forall>r \<in> set (operations s). op_ok rt r)"

text \<open>Every row of the old table is found again, changed by the state machine.\<close>

definition op_reach :: "runtime \<Rightarrow> db \<Rightarrow> db \<Rightarrow> bool" where
  "op_reach rt s t \<longleftrightarrow> (\<forall>k r. get_op s k = Some r \<longrightarrow> (\<exists>r'. get_op t k = Some r' \<and> (op_change rt)\<^sup>*\<^sup>* r r'))"

lemma op_reach_refl: "op_reach rt s s"
  by (auto simp: op_reach_def)

lemma op_reach_trans: "op_reach rt s t \<Longrightarrow> op_reach rt t u \<Longrightarrow> op_reach rt s u"
  unfolding op_reach_def by (meson rtranclp_trans)

lemma op_inv_get: "op_inv rt s \<Longrightarrow> get_op s k = Some r \<Longrightarrow> op_ok rt r"
  by (auto simp: op_inv_def get_op_def dest: tget_SomeD)

lemma op_inv_put:
  assumes "op_inv rt s" and "get_op s k = Some r" and "op_change rt r r'"
    and t: "operations t = tput o_operation_id r' (operations s)"
  shows "op_inv rt t \<and> op_reach rt s t"
proof -
  have r: "r \<in> set (operations s)" "o_operation_id r = k"
    using assms(2) by (auto simp: get_op_def dest: tget_SomeD)
  have ok: "op_ok rt r'" and below: "row_below r r'"
    using assms(1,2,3) by (auto dest: op_inv_get intro: op_change_ok op_change_below)
  have ops: "operations t = map (\<lambda>x. if x = r then r' else x) (operations s)"
    using assms(1) r(1) op_change_id [OF assms(3)] unfolding t by (simp add: op_inv_def tput_map_distinct)
  have "map o_operation_id (operations t) = map o_operation_id (operations s)"
      "map op_key (operations t) = map op_key (operations s)"
    using below by (auto simp: ops row_below_def op_key_def)
  moreover have "\<forall>x \<in> set (operations t). op_ok rt x"
    using assms(1) ok by (auto simp: op_inv_def ops)
  ultimately have "op_inv rt t"
    using assms(1) by (simp add: op_inv_def)
  moreover have "op_reach rt s t"
    unfolding op_reach_def
  proof (intro allI impI)
    fix j x assume x: "get_op s j = Some x"
    show "\<exists>x'. get_op t j = Some x' \<and> (op_change rt)\<^sup>*\<^sup>* x x'"
      using x assms(2,3) r op_change_id [OF assms(3)]
      by (cases "j = k") (auto simp: get_op_def t tget_tput_same tget_tput_other)
  qed
  ultimately show ?thesis by blast
qed

lemma op_inv_changed_one:
  assumes "op_inv rt s" and "changed_one rt k s t"
  shows "op_inv rt t \<and> op_reach rt s t"
  using assms op_inv_put op_reach_refl [of rt s]
  by (auto simp: changed_one_def op_inv_def op_reach_def get_op_def)

lemma tget_map_same_key:
  "(\<And>r. key (f r) = key r) \<Longrightarrow> tget key (map f rows) k = map_option f (tget key rows k)"
  by (induction rows) (simp_all add: tget_Cons)

lemma op_inv_reconcile:
  assumes "op_inv rt s" and "reconcile_expired_leases rt cat E s = Inr (res, t)"
  shows "op_inv rt t \<and> op_reach rt s t"
proof -
  let ?f = "\<lambda>r. if abandoned (clk E 0) r then reconciled_row (clk E 0) r else r"
  have ops: "operations t = map ?f (operations s)"
    using reconcile_result [OF assms(2)] assms(1) by (simp add: op_inv_def)
  have change: "(op_change rt)\<^sup>*\<^sup>* r (?f r)" for r
    by (auto simp: abandoned_def intro: reconciles)
  have "map o_operation_id (operations t) = map o_operation_id (operations s)"
      "map op_key (operations t) = map op_key (operations s)"
    by (auto simp: ops reconciled_row_def op_key_def)
  moreover have "\<forall>r \<in> set (operations t). op_ok rt r"
  proof -
    have "op_ok rt (?f r)" if "r \<in> set (operations s)" for r
      using op_change_props [OF change] assms(1) that unfolding op_inv_def by blast
    then show ?thesis unfolding ops list.set_map by fast
  qed
  ultimately have "op_inv rt t" using assms(1) by (simp add: op_inv_def)
  moreover have "op_reach rt s t"
    unfolding op_reach_def get_op_def ops
    using change by (subst tget_map_same_key) (auto simp: reconciled_row_def)
  ultimately show ?thesis by blast
qed

lemma create_body_result:
  assumes "create_body rt key cat E a tp s = Inr (v, t)"
  shows "(\<exists>prior. find (same_request a) (operations s) = Some prior \<and>
            o_input_manifest_hash prior = canonical_sha256 rt (JObj (ca_input_manifest a)) \<and> v = op_view rt prior \<and> t = s) \<or>
         (find (same_request a) (operations s) = None \<and> v = op_view rt (new_operation rt E a tp) \<and>
            ids E 0 \<notin> tkeys o_operation_id (operations s) \<and> operations t = operations s @ [new_operation rt E a tp])"
proof (cases "find (same_request a) (operations s)")
  case None
  with assms show ?thesis
    by (auto simp: create_body_def Let_def result_simps new_operation_def
        dest!: op_outbox_operations append_audit_operations)
qed (use assms in \<open>auto simp: create_body_def result_simps\<close>)

lemma new_operation_ok: "op_ok rt (new_operation rt E a tp)"
  by (simp add: op_ok_def new_operation_def)

lemma op_inv_create_body:
  assumes "op_inv rt s" and "create_body rt key cat E a tp s = Inr (v, t)"
  shows "op_inv rt t \<and> op_reach rt s t"
  using create_body_result [OF assms(2)]
proof
  assume new: "find (same_request a) (operations s) = None \<and> v = op_view rt (new_operation rt E a tp) \<and>
    ids E 0 \<notin> tkeys o_operation_id (operations s) \<and> operations t = operations s @ [new_operation rt E a tp]"
  then have "op_key (new_operation rt E a tp) \<notin> op_key ` set (operations s)"
    by (auto simp: find_None_iff same_request_def op_key_def new_operation_def)
  with new assms(1) have "op_inv rt t"
    using new_operation_ok by (auto simp: op_inv_def tkeys_def new_operation_def)
  with new show ?thesis by (auto simp: op_reach_def get_op_def tget_append)
qed (use assms(1) in \<open>auto simp: op_reach_refl\<close>)

section \<open>Sequences of calls\<close>

datatype op_call =
    OpCreate env create_args
  | OpLease env string string int
  | OpStart env string string
  | OpHeartbeat env string string int
  | OpCheckpoint env string string rat fields
  | OpCancel env string string
  | OpComplete env string string fields "string option"
  | OpFail env string string string string bool
  | OpReconcile env

fun op_step :: "runtime \<Rightarrow> (json \<Rightarrow> string) \<Rightarrow> string \<Rightarrow> event_catalog \<Rightarrow> deployment_service option
    \<Rightarrow> db \<Rightarrow> op_call \<Rightarrow> sip_error + db" where
  "op_step rt py_str key cat dep s (OpCreate E a) = Inr (snd (create_operation rt py_str key cat dep E a s))"
| "op_step rt py_str key cat dep s (OpLease E k w secs) = bindE (lease rt cat E k w secs s) (\<lambda>(_, t). Inr t)"
| "op_step rt py_str key cat dep s (OpStart E k w) = bindE (start rt E k w s) (\<lambda>(_, t). Inr t)"
| "op_step rt py_str key cat dep s (OpHeartbeat E k w secs) = bindE (heartbeat rt cat E k w secs s) (\<lambda>(_, t). Inr t)"
| "op_step rt py_str key cat dep s (OpCheckpoint E k w p c) = bindE (checkpoint_op rt cat E k w p c s) (\<lambda>(_, t). Inr t)"
| "op_step rt py_str key cat dep s (OpCancel E k actor) = bindE (request_cancel rt cat E k actor s) (\<lambda>(_, t). Inr t)"
| "op_step rt py_str key cat dep s (OpComplete E k w output claimed) =
     bindE (complete rt cat E k w output claimed s) (\<lambda>(_, t). Inr t)"
| "op_step rt py_str key cat dep s (OpFail E k w code message retry) =
     bindE (fail_op rt cat E k w code message retry s) (\<lambda>(_, t). Inr t)"
| "op_step rt py_str key cat dep s (OpReconcile E) = bindE (reconcile_expired_leases rt cat E s) (\<lambda>(_, t). Inr t)"

text \<open>What the operations rely on in the deployment service: it does not write the operations table.\<close>

locale operation_platform =
  fixes deployment :: "deployment_service option"
  assumes deployment_frame: "deployment = Some service \<Longrightarrow> operations (snd (service a s)) = operations s"
begin

lemma admit_operations: "operations (snd (admit deployment a s)) = operations s"
  using deployment_frame by (simp add: admit_def split: option.splits)

lemma create_operation_db:
  assumes "snd (create_operation rt py_str key cat deployment E a s) = t"
  shows "operations t = operations s \<or> (\<exists>s' tp v. operations s' = operations s \<and> create_body rt key cat E a tp s' = Inr (v, t))"
proof (cases "ca_idempotency_key a = []")
  case False
  obtain x s' where ad: "admit deployment (worker_admission py_str a) s = (x, s')" by fastforce
  then have s': "operations s' = operations s" using admit_operations [of "worker_admission py_str a" s] by simp
  show ?thesis
  proof (cases x)
    case (Inr u)
    with assms False ad s' show ?thesis
      by (auto simp: create_operation_def session_def split: sum.splits)
  qed (use assms False ad s' in \<open>simp add: create_operation_def\<close>)
qed (use assms in \<open>simp add: create_operation_def\<close>)

lemma op_step_inv:
  assumes "op_inv rt s" and "op_step rt py_str key cat deployment s e = Inr t"
  shows "op_inv rt t \<and> op_reach rt s t"
proof (cases e)
  case (OpCreate E a)
  with assms(2) have t: "snd (create_operation rt py_str key cat deployment E a s) = t" by simp
  show ?thesis
    using create_operation_db [OF t]
  proof
    assume "operations t = operations s"
    with assms(1) show ?thesis by (simp add: op_inv_def op_reach_def get_op_def)
  next
    assume "\<exists>s' tp v. operations s' = operations s \<and> create_body rt key cat E a tp s' = Inr (v, t)"
    then obtain s' tp v where s': "operations s' = operations s" "create_body rt key cat E a tp s' = Inr (v, t)" by blast
    then have "op_inv rt s'" using assms(1) by (simp add: op_inv_def)
    from op_inv_create_body [OF this s'(2)] show ?thesis
      using s'(1) by (simp add: op_reach_def get_op_def)
  qed
qed (use assms in \<open>auto simp: result_simps dest!: lease_changes start_changes heartbeat_changes checkpoint_changes
    request_cancel_changes complete_changes fail_changes
    intro: op_inv_changed_one [THEN conjunct1] op_inv_changed_one [THEN conjunct2]
      op_inv_reconcile [THEN conjunct1] op_inv_reconcile [THEN conjunct2]\<close>)

end

sublocale operation_platform < calls: monotone_component "op_step rt py_str key cat deployment" "op_inv rt" "op_reach rt"
  for rt py_str key cat
  by unfold_locales (auto simp: op_reach_refl dest: op_step_inv intro: op_reach_trans)

text \<open>The platform without a deployment service, as \<open>OperationService.__init__\<close> leaves it.\<close>

interpretation local: operation_platform None
  by unfold_locales simp

context operation_platform
begin

lemma run_consistent: "op_inv rt s \<Longrightarrow> op_inv rt (run (op_step rt py_str key cat deployment) calls s)"
  by (rule calls.run_inv)

lemma run_row:
  assumes "op_inv rt s" and "get_op s k = Some r"
  shows "\<exists>r'. get_op (run (op_step rt py_str key cat deployment) calls s) k = Some r' \<and> (op_change rt)\<^sup>*\<^sup>* r r'"
  using calls.run_below [OF assms(1)] assms(2) by (auto simp: op_reach_def)

text \<open>A property of one row that every call keeps holds after every run.\<close>

lemma run_row_inv:
  assumes "op_inv rt s" and "get_op s k = Some r" and "P r" and "\<forall>e \<in> set calls. Q e"
    and step: "\<And>s e t r. op_inv rt s \<Longrightarrow> get_op s k = Some r \<Longrightarrow> P r \<Longrightarrow> Q e \<Longrightarrow>
      op_step rt py_str key cat deployment s e = Inr t \<Longrightarrow> \<exists>r'. get_op t k = Some r' \<and> P r'"
  shows "\<exists>r'. get_op (run (op_step rt py_str key cat deployment) calls s) k = Some r' \<and> P r'"
  using assms(1-4)
proof (induction calls arbitrary: s r)
  case (Cons e calls)
  show ?case
  proof (cases "op_step rt py_str key cat deployment s e")
    case (Inl err)
    with Cons show ?thesis by (auto simp: settle_def)
  next
    case (Inr t)
    with Cons.prems step obtain r' where "get_op t k = Some r'" "P r'" by (metis list.set_intros(1))
    moreover have "op_inv rt t" using op_step_inv Inr Cons.prems(1) by blast
    ultimately show ?thesis using Cons Inr by (auto simp: settle_def)
  qed
qed auto

end

section \<open>Properties\<close>

text \<open>
  C26. Whatever calls are made, in whatever order and whichever of them fail, the operations table
  stays consistent: one row per identifier and per idempotency key; progress within 0 and 1; a lease
  exactly on leased, running or cancelling work; an output, with its digest, exactly on succeeded
  work, which nobody had asked to cancel; and the stored digest of the input belongs to the input.
\<close>

theorem operations_stay_consistent:
  assumes "operation_platform deployment" and "op_inv rt s"
  shows "op_inv rt (run (op_step rt py_str key cat deployment) calls s)"
  using assms by (rule operation_platform.run_consistent)

text \<open>
  C14. The methods implement the state machine \<open>op_change\<close>: over any run an operation moves
  only along its changes, so only along the edges of the state graph; its identity, input and
  attempt bound never change, progress and the attempt count never decrease, a cancellation
  request is never withdrawn, and a succeeded or cancelled operation never changes again.
\<close>

theorem operations_follow_state_machine:
  assumes "operation_platform deployment" and "op_inv rt s" and "get_op s k = Some r"
  shows "\<exists>r'. get_op (run (op_step rt py_str key cat deployment) calls s) k = Some r' \<and>
     (op_change rt)\<^sup>*\<^sup>* r r' \<and> op_edge\<^sup>*\<^sup>* (o_state r) (o_state r') \<and> row_below r r'"
  using operation_platform.run_row [OF assms] op_change_props op_inv_get [OF assms(2,3)] by blast

text \<open>
  C1. No output after a cancellation request: once cancellation of an unfinished operation has been
  requested, no later sequence of calls makes it succeed or stores an output for it.
\<close>

theorem no_output_after_cancel:
  assumes "operation_platform deployment" and "op_inv rt s" and "get_op s k = Some r" and "o_cancel_requested r"
  shows "\<exists>r'. get_op (run (op_step rt py_str key cat deployment) calls s) k = Some r' \<and>
     o_state r' \<noteq> SUCCEEDED \<and> o_output_hash r' = None \<and> o_output_json r' = []"
proof -
  obtain r' where r': "get_op (run (op_step rt py_str key cat deployment) calls s) k = Some r'" "(op_change rt)\<^sup>*\<^sup>* r r'"
    using operation_platform.run_row [OF assms(1-3)] by blast
  with op_change_props [OF r'(2) op_inv_get [OF assms(2,3)]] assms(4)
  have "op_ok rt r'" "o_cancel_requested r'" by (auto simp: row_below_def)
  then have "o_state r' \<noteq> SUCCEEDED \<and> o_output_hash r' = None \<and> o_output_json r' = []"
    by (auto simp: op_ok_def)
  with r'(1) show ?thesis by blast
qed

lemma changed_one_other: "changed_one rt k s t \<Longrightarrow> j \<noteq> k \<Longrightarrow> get_op t j = get_op s j"
  by (auto simp: changed_one_def get_op_def tget_tput_other)

lemma reconcile_get:
  assumes "op_inv rt s" and "reconcile_expired_leases rt cat E s = Inr (res, t)"
  shows "get_op t k = map_option (\<lambda>r. if abandoned (clk E 0) r then reconciled_row (clk E 0) r else r) (get_op s k)"
  using reconcile_result [OF assms(2)] assms(1)
  by (simp add: op_inv_def get_op_def tget_map_same_key reconciled_row_def)

lemma create_get:
  assumes "operation_platform deployment" and "get_op s k = Some r"
  shows "get_op (snd (create_operation rt py_str key cat deployment E a s)) k = Some r"
proof -
  obtain t where t: "snd (create_operation rt py_str key cat deployment E a s) = t" by blast
  show ?thesis
    unfolding t using operation_platform.create_operation_db [OF assms(1) t] assms(2)
    by (auto simp: get_op_def tget_append dest!: create_body_result)
qed

text \<open>The operation a call is about, and the worker that must hold its lease at the given time.\<close>

fun call_target :: "op_call \<Rightarrow> string option" where
  "call_target (OpCreate E a) = None"
| "call_target (OpLease E k w secs) = Some k"
| "call_target (OpStart E k w) = Some k"
| "call_target (OpHeartbeat E k w secs) = Some k"
| "call_target (OpCheckpoint E k w p c) = Some k"
| "call_target (OpCancel E k actor) = Some k"
| "call_target (OpComplete E k w output claimed) = Some k"
| "call_target (OpFail E k w code message retry) = Some k"
| "call_target (OpReconcile E) = None"

fun call_owner :: "op_call \<Rightarrow> (string \<times> time) option" where
  "call_owner (OpStart E k w) = Some (w, clk E 0)"
| "call_owner (OpHeartbeat E k w secs) = Some (w, clk E 0)"
| "call_owner (OpCheckpoint E k w p c) = Some (w, clk E 0)"
| "call_owner (OpComplete E k w output claimed) = Some (w, clk E 0)"
| "call_owner (OpFail E k w code message retry) = Some (w, clk E 0)"
| "call_owner e = None"

lemma step_changes:
  assumes "op_step rt py_str key cat deployment s e = Inr t" and "call_target e = Some k"
  shows "changed_one rt k s t"
  using assms by (cases e) (auto simp: result_simps dest: lease_changes start_changes heartbeat_changes
      checkpoint_changes request_cancel_changes complete_changes fail_changes)

lemma step_owned:
  assumes "op_step rt py_str key cat deployment s e = Inr t" and "call_target e = Some k"
    and "call_owner e = Some (w, now)"
  shows "\<exists>r x. get_op s k = Some r \<and> o_lease_owner r = Some w \<and> o_lease_expires_at r = Some x \<and> now < x"
  using assms by (cases e)
    (auto simp: result_simps start_def heartbeat_def checkpoint_op_def complete_def fail_op_def Let_def)

text \<open>A row whose lease no calling worker holds, which cannot be leased and is not swept by the
  reconciliation, can only be changed by a cancellation request.\<close>

lemma step_leaves_row:
  assumes "operation_platform deployment" and "op_inv rt s" and r: "get_op s k = Some r"
    and step: "op_step rt py_str key cat deployment s e = Inr u"
    and owner: "\<And>w now. call_target e = Some k \<Longrightarrow> call_owner e = Some (w, now) \<Longrightarrow>
      o_lease_owner r \<noteq> Some w \<or> (\<forall>x. o_lease_expires_at r = Some x \<longrightarrow> x \<le> now)"
    and lease: "\<And>E w secs. e = OpLease E k w secs \<Longrightarrow> \<exists>err. lease rt cat E k w secs s = Inl err"
    and cancel: "\<And>E actor. e = OpCancel E k actor \<Longrightarrow> o_state r \<in> {SUCCEEDED, FAILED, CANCELLED}"
    and sweep: "\<And>E. e = OpReconcile E \<Longrightarrow> \<not> abandoned (clk E 0) r"
  shows "get_op u k = Some r"
proof (cases "call_target e = Some k")
  case True
  then have "call_owner e = None"
    using step_owned [OF step True] owner r by (cases "call_owner e") fastforce+
  with True obtain E w secs actor where "e = OpLease E k w secs \<or> e = OpCancel E k actor"
    by (cases e) auto
  then show ?thesis
  proof
    assume e: "e = OpLease E k w secs"
    with lease [OF e] step show ?thesis by auto
  next
    assume e: "e = OpCancel E k actor"
    with cancel [OF e] step r show ?thesis by (auto simp: request_cancel_def)
  qed
next
  case False
  show ?thesis
  proof (cases "call_target e")
    case None
    then obtain E a where "e = OpCreate E a \<or> e = OpReconcile E" by (cases e) auto
    then show ?thesis
    proof
      assume "e = OpCreate E a"
      with step have "u = snd (create_operation rt py_str key cat deployment E a s)" by simp
      then show ?thesis using create_get [OF assms(1) r] by simp
    next
      assume e: "e = OpReconcile E"
      with step obtain res where "reconcile_expired_leases rt cat E s = Inr (res, u)" by (auto simp: result_simps)
      from reconcile_get [OF assms(2) this, of k] r sweep [OF e] show ?thesis by simp
    qed
  next
    case (Some j)
    with False show ?thesis using changed_one_other [OF step_changes [OF step Some], of k] r by simp
  qed
qed

text \<open>Calls that do not come from the worker that holds the lease on \<open>k\<close>, made before the
  lease ends, other than a cancellation of \<open>k\<close>.\<close>

fun foreign_call :: "string \<Rightarrow> string \<Rightarrow> time \<Rightarrow> op_call \<Rightarrow> bool" where
  "foreign_call k w t (OpLease E k' w' secs) = ((k', w') \<noteq> (k, w) \<and> clk E 0 < t)"
| "foreign_call k w t (OpCancel E k' actor) = (k' \<noteq> k)"
| "foreign_call k w t (OpReconcile E) = (clk E 0 < t)"
| "foreign_call k w t e = (call_target e \<noteq> Some k \<or> (\<forall>now. call_owner e \<noteq> Some (w, now)))"

text \<open>
  C4. A lease excludes other workers: while it lasts, no sequence of calls by other workers, on
  this or any other operation, no creation and no reconciliation changes the leased operation.
\<close>

theorem lease_excludes_other_workers:
  assumes "operation_platform deployment" and "op_inv rt s" and "get_op s k = Some r"
    and "o_lease_owner r = Some w" and "w \<noteq> []" and "o_lease_expires_at r = Some t"
    and "\<forall>e \<in> set calls. foreign_call k w t e"
  shows "get_op (run (op_step rt py_str key cat deployment) calls s) k = Some r"
proof -
  have "\<exists>r'. get_op (run (op_step rt py_str key cat deployment) calls s) k = Some r' \<and> r' = r"
  proof (rule operation_platform.run_row_inv [OF assms(1-3) refl assms(7)])
    fix s e u r' assume st: "op_inv rt s" "get_op s k = Some r'" "r' = r" "foreign_call k w t e"
      "op_step rt py_str key cat deployment s e = Inr u"
    have "get_op u k = Some r"
    proof (rule step_leaves_row [OF assms(1) st(1) _ st(5)])
      show "\<exists>err. lease rt cat E k w' secs s = Inl err" if "e = OpLease E k w' secs" for E w' secs
        using that st assms(4-6) by (auto simp: lease_def lease_expired_def Let_def)
      show "\<not> abandoned (clk E 0) r" if "e = OpReconcile E" for E
        using that st assms(6) by (auto simp: abandoned_def lease_expired_def)
    qed (use st assms(4) in \<open>cases e; auto\<close>)+
    then show "\<exists>r'. get_op u k = Some r' \<and> r' = r" by blast
  qed
  then show ?thesis by blast
qed

text \<open>
  A failed operation that has used up its attempts is final: no later sequence of calls
  changes it.
\<close>

lemma exhausted_failure_is_final:
  assumes "operation_platform deployment" and "op_inv rt s" and "get_op s k = Some r"
    and "o_state r = FAILED" and "o_max_attempts r \<le> o_attempt r"
  shows "get_op (run (op_step rt py_str key cat deployment) calls s) k = Some r"
proof -
  have none: "o_lease_owner r = None" using op_inv_get [OF assms(2,3)] assms(4) by (auto simp: op_ok_def)
  have "\<exists>r'. get_op (run (op_step rt py_str key cat deployment) calls s) k = Some r' \<and> r' = r"
  proof (rule operation_platform.run_row_inv [OF assms(1-3) refl, where Q = "\<lambda>_. True"])
    fix s e u r' assume st: "op_inv rt s" "get_op s k = Some r'" "r' = r"
      "op_step rt py_str key cat deployment s e = Inr u"
    have "get_op u k = Some r"
    proof (rule step_leaves_row [OF assms(1) st(1) _ st(4)])
      show "\<exists>err. lease rt cat E k w secs s = Inl err" if "e = OpLease E k w secs" for E w secs
        using st assms(4,5) none by (auto simp: lease_def Let_def)
    qed (use st assms(4) none in \<open>auto simp: abandoned_def\<close>)
    then show "\<exists>r'. get_op u k = Some r' \<and> r' = r" by blast
  qed simp
  then show ?thesis by blast
qed

fun call_env :: "op_call \<Rightarrow> env" where
  "call_env (OpCreate E a) = E"
| "call_env (OpLease E k w secs) = E"
| "call_env (OpStart E k w) = E"
| "call_env (OpHeartbeat E k w secs) = E"
| "call_env (OpCheckpoint E k w p c) = E"
| "call_env (OpCancel E k actor) = E"
| "call_env (OpComplete E k w output claimed) = E"
| "call_env (OpFail E k w code message retry) = E"
| "call_env (OpReconcile E) = E"

text \<open>
  C40. Cancellation can stall: an operation whose cancellation was requested while no lease was in
  force (it was pending or quarantined, or its worker is gone) stays in the state cancel_requested
  for ever. It cannot be leased, no worker can acknowledge the cancellation, and the
  reconciliation does not look at it.
\<close>

theorem unleased_cancellation_stalls:
  assumes "operation_platform deployment" and "op_inv rt s" and "get_op s k = Some r"
    and "o_state r = CANCEL_REQUESTED"
    and "\<forall>e \<in> set calls. \<forall>x. o_lease_expires_at r = Some x \<longrightarrow> x \<le> clk (call_env e) 0"
  shows "\<exists>r'. get_op (run (op_step rt py_str key cat deployment) calls s) k = Some r' \<and> o_state r' = CANCEL_REQUESTED"
proof -
  let ?P = "\<lambda>r'. o_state r' = CANCEL_REQUESTED \<and> o_lease_expires_at r' = o_lease_expires_at r"
  have "\<exists>r'. get_op (run (op_step rt py_str key cat deployment) calls s) k = Some r' \<and> ?P r'"
  proof (rule operation_platform.run_row_inv [OF assms(1-3) _ assms(5)])
    show "?P r" using assms(4) by simp
    fix s e u r' assume st: "op_inv rt s" "get_op s k = Some r'" "?P r'"
      "\<forall>x. o_lease_expires_at r = Some x \<longrightarrow> x \<le> clk (call_env e) 0" "op_step rt py_str key cat deployment s e = Inr u"
    show "\<exists>r'. get_op u k = Some r' \<and> ?P r'"
    proof (cases "\<exists>E actor. e = OpCancel E k actor")
      case True
      then obtain E actor where e: "e = OpCancel E k actor" by blast
      have "o_operation_id r' = k" using st(2) op_store.get_key by blast
      with e st have "get_op u k = Some (r'\<lparr>o_cancel_requested := True, o_state := CANCEL_REQUESTED, o_updated_at := clk E 0\<rparr>)"
        by (auto simp: request_cancel_def Let_def bindE_Inr_conv get_op_def tget_tput_same dest!: op_outbox_operations)
      with st(3) show ?thesis by simp
    next
      case False
      have "get_op u k = Some r'"
      proof (rule step_leaves_row [OF assms(1) st(1,2,5)])
        show "\<exists>err. lease rt cat E k w secs s = Inl err" if "e = OpLease E k w secs" for E w secs
          using st(2,3) by (auto simp: lease_def Let_def)
        show "o_lease_owner r' \<noteq> Some w \<or> (\<forall>x. o_lease_expires_at r' = Some x \<longrightarrow> x \<le> now)"
          if "call_owner e = Some (w, now)" for w now
          using that st(3,4) by (cases e) auto
      qed (use st(3) False in \<open>auto simp: abandoned_def\<close>)
      with st(3) show ?thesis by blast
    qed
  qed
  then show ?thesis by blast
qed

text \<open>
  The attempt bound holds for failures only: taking over an expired lease succeeds and counts
  one more attempt even when the attempts are already used up.
\<close>

lemma expired_lease_exceeds_attempts:
  assumes "get_op s k = Some r" and "o_state r \<in> {LEASED, RUNNING}" and "lease_expired r (clk E 0)"
    and "o_max_attempts r \<le> o_attempt r" and "1 \<le> secs" and "secs \<le> 3600"
    and "op_outbox rt cat (ids E 0) (clk E 1) (leased_row r w secs (clk E 0)) ''operation.leased''
      [(''worker_id'', JStr w), (''attempt'', JInt (o_attempt r + 1))] None (Some w)
      (put_op (leased_row r w secs (clk E 0)) s) = Inr t"
  shows "\<exists>v r'. lease rt cat E k w secs s = Inr (v, t) \<and> get_op t k = Some r' \<and> o_state r' = LEASED \<and>
     o_lease_owner r' = Some w \<and> o_attempt r' = o_attempt r + 1 \<and> o_max_attempts r' < o_attempt r'"
proof -
  have a: "o_attempt (leased_row r w secs (clk E 0)) = o_attempt r + 1"
    using assms(3) by (simp add: leased_row_def)
  have id: "o_operation_id (leased_row r w secs (clk E 0)) = k"
    using op_store.get_key [OF assms(1)] by (simp add: leased_row_def)
  have get: "get_op t k = Some (leased_row r w secs (clk E 0))"
    using op_outbox_operations [OF assms(7)] assms(1) id by (simp add: get_op_def tget_tput_same)
  have "lease rt cat E k w secs s = Inr (op_view rt (leased_row r w secs (clk E 0)), t)"
    using assms a by (auto simp: lease_def Let_def)
  with get a assms(4) show ?thesis by (simp add: leased_row_def)
qed

text \<open>
  The reconciliation sweeps exactly the abandoned operations: every leased or running operation
  whose lease has ended is released to pending when its checkpoint is safe to resume and attempts
  are left, and quarantined otherwise; the other operations are untouched, the two result lists name
  the swept operations, one event is emitted for each, and no abandoned operation is left.
\<close>

lemma reconciliation_sweeps_abandoned:
  assumes "op_inv rt s" and "reconcile_expired_leases rt cat E s = Inr ((rel, quar), t)"
  shows "operations t = map (\<lambda>r. if \<not> abandoned (clk E 0) r then r
        else if resumable r then (released r)\<lparr>o_updated_at := clk E 0, o_state := PENDING\<rparr>
        else (released r)\<lparr>o_updated_at := clk E 0, o_state := QUARANTINED, o_error_json := lease_expired_error\<rparr>) (operations s) \<and>
     rel = [o_operation_id r. r \<leftarrow> operations s, abandoned (clk E 0) r \<and> resumable r] \<and>
     quar = [o_operation_id r. r \<leftarrow> operations s, abandoned (clk E 0) r \<and> \<not> resumable r] \<and>
     (\<exists>l. outbox_events t = outbox_events s @ l \<and>
        map e_aggregate_id l = [o_operation_id r. r \<leftarrow> operations s, abandoned (clk E 0) r]) \<and>
     filter (abandoned (clk E 0)) (operations t) = []"
proof -
  have comp: "[f x. x \<leftarrow> xs, P x] = map f (filter P xs)" for f :: "operation_row \<Rightarrow> string" and P xs
    by (induction xs) auto
  have "distinct (map o_operation_id (operations s))"
    using assms(1) by (simp add: op_inv_def)
  note result = reconcile_result [OF assms(2) this]
  have ops: "operations t = map (\<lambda>r. if \<not> abandoned (clk E 0) r then r
        else if resumable r then (released r)\<lparr>o_updated_at := clk E 0, o_state := PENDING\<rparr>
        else (released r)\<lparr>o_updated_at := clk E 0, o_state := QUARANTINED, o_error_json := lease_expired_error\<rparr>) (operations s)"
    using result by (simp add: reconciled_row_def if_distrib)
  then have "filter (abandoned (clk E 0)) (operations t) = []"
    by (auto simp: filter_empty_conv abandoned_def)
  with result ops show ?thesis
    by (simp add: comp conj_commute filter_filter)
qed

lemma find_SomeD: "find P xs = Some x \<Longrightarrow> x \<in> set xs \<and> P x"
  by (auto simp: find_Some_iff)

lemma find_unique_key:
  assumes "distinct (map key rows)" and "r \<in> set rows" and "P r" and "\<And>x. P x \<Longrightarrow> key x = key r"
  shows "find P rows = Some r"
proof -
  obtain x where x: "find P rows = Some x"
    using assms(2,3) by (metis find_None_iff option.exhaust)
  then have "x \<in> set rows" "key x = key r" using assms(4) by (auto dest: find_SomeD)
  then have "x = r" using assms(1,2) by (simp add: distinct_map inj_on_def)
  with x show ?thesis by simp
qed

lemma create_body_row:
  assumes "create_body rt key cat E a tp s = Inr (v, t)"
  shows "\<exists>r \<in> set (operations t). same_request a r \<and> v = op_view rt r \<and>
    o_input_manifest_hash r = canonical_sha256 rt (JObj (ca_input_manifest a))"
  using create_body_result [OF assms]
proof
  assume "find (same_request a) (operations s) = None \<and> v = op_view rt (new_operation rt E a tp) \<and>
    ids E 0 \<notin> tkeys o_operation_id (operations s) \<and> operations t = operations s @ [new_operation rt E a tp]"
  moreover have "same_request a (new_operation rt E a tp)"
      "o_input_manifest_hash (new_operation rt E a tp) = canonical_sha256 rt (JObj (ca_input_manifest a))"
    by (simp_all add: same_request_def new_operation_def)
  ultimately show ?thesis by auto
qed (use find_SomeD in fastforce)

text \<open>
  C27. Creation is idempotent: after a creation that returned, and any calls in between, a
  creation with the same tenant, project, type and idempotency key that is admitted writes no
  operation. With the same input it returns the operation created first; with an input of another
  digest it raises IDEMPOTENCY_PAYLOAD_CONFLICT.
\<close>

theorem create_is_idempotent:
  assumes "operation_platform deployment" and "op_inv rt s"
    and "create_operation rt py_str key cat deployment E a s = (Inr v, s1)"
    and "ca_tenant_id b = ca_tenant_id a" and "ca_project_id b = ca_project_id a"
    and "ca_operation_type b = ca_operation_type a" and "ca_idempotency_key b = ca_idempotency_key a"
    and "normalize_traceparent (ca_traceparent b) = Inr tp"
    and "admit deployment (worker_admission py_str b) (run (op_step rt py_str key cat deployment) calls s1) = (Inr (), s3)"
  shows "\<exists>v'. v_operation_id v' = v_operation_id v \<and>
     create_operation rt py_str key cat deployment E' b (run (op_step rt py_str key cat deployment) calls s1)
       = (if canonical_sha256 rt (JObj (ca_input_manifest b)) = canonical_sha256 rt (JObj (ca_input_manifest a))
          then Inr v' else Inl (ConflictError ''IDEMPOTENCY_PAYLOAD_CONFLICT'' []), s3)"
proof -
  let ?s2 = "run (op_step rt py_str key cat deployment) calls s1"
  have nonempty: "ca_idempotency_key a \<noteq> []" using assms(3) by (auto simp: create_operation_def)
  obtain s0 t0 where body: "create_body rt key cat E a t0 s0 = Inr (v, s1)"
    using assms(3) nonempty by (auto simp: create_operation_def session_def split: prod.splits sum.splits)
  obtain r where r: "r \<in> set (operations s1)" "same_request a r" "v = op_view rt r"
      "o_input_manifest_hash r = canonical_sha256 rt (JObj (ca_input_manifest a))"
    using create_body_row [OF body] by blast
  have inv1: "op_inv rt s1"
    using operation_platform.op_step_inv [OF assms(1,2), of py_str key cat "OpCreate E a" s1] assms(3) by simp
  have "get_op s1 (o_operation_id r) = Some r"
    using inv1 r(1) by (simp add: op_inv_def get_op_def tget_unique_row)
  then obtain r' where r': "get_op ?s2 (o_operation_id r) = Some r'" "(op_change rt)\<^sup>*\<^sup>* r r'"
    using operation_platform.run_row [OF assms(1) inv1] by blast
  have below: "row_below r r'"
    using op_change_props [OF r'(2)] op_inv_get [OF inv1 \<open>get_op s1 (o_operation_id r) = Some r\<close>] by blast
  have inv2: "op_inv rt ?s2" by (rule operation_platform.run_consistent [OF assms(1) inv1])
  have ops3: "operations s3 = operations ?s2"
    using operation_platform.admit_operations [OF assms(1), of "worker_admission py_str b" ?s2] assms(9) by simp
  have "find (same_request b) (operations s3) = Some r'"
    unfolding ops3
  proof (rule find_unique_key [where key = op_key])
    show "r' \<in> set (operations ?s2)" using r'(1) by (auto simp: get_op_def dest: tget_SomeD)
    show "same_request b r'" using r(2) below assms(4-7) by (simp add: same_request_def row_below_def)
    then show "op_key x = op_key r'" if "same_request b x" for x
      using that by (simp add: same_request_def op_key_def)
  qed (use inv2 in \<open>simp add: op_inv_def\<close>)
  then have "create_body rt key cat E' b tp s3
      = (if canonical_sha256 rt (JObj (ca_input_manifest b)) = canonical_sha256 rt (JObj (ca_input_manifest a))
         then Inr (op_view rt r', s3) else Inl (ConflictError ''IDEMPOTENCY_PAYLOAD_CONFLICT'' []))"
    using below r(4) by (auto simp: create_body_def row_below_def Let_def)
  then have "create_operation rt py_str key cat deployment E' b ?s2
      = (if canonical_sha256 rt (JObj (ca_input_manifest b)) = canonical_sha256 rt (JObj (ca_input_manifest a))
          then Inr (op_view rt r') else Inl (ConflictError ''IDEMPOTENCY_PAYLOAD_CONFLICT'' []), s3)"
    using nonempty assms(7,8,9) by (simp add: create_operation_def session_def)
  moreover have "v_operation_id (op_view rt r') = v_operation_id v"
    using below r(3) by (simp add: op_view_def row_below_def)
  ultimately show ?thesis by blast
qed

section \<open>Instances\<close>

text \<open>The entries of \<open>schemas/events/event-catalog.json\<close> for operations.\<close>

definition operation_catalog :: event_catalog where
  "operation_catalog = map (\<lambda>t. \<lparr>ec_type = ''operation.'' @ t, ec_version = ''1.0.0'', ec_aggregate = ''operation'',
     ec_owner = ''workflow-service'', ec_classification = ''internal''\<rparr>)
     [''cancel_requested'', ''checkpointed'', ''created'', ''failed'', ''lease_released'', ''lease_renewed'',
      ''leased'', ''quarantined'', ''succeeded'']"

definition at_time :: "time \<Rightarrow> env" where
  "at_time t = \<lparr>ids = (\<lambda>n. ''id'' @ nat_repr n), clk = (\<lambda>n. t)\<rparr>"

definition sample_op :: "operation_state \<Rightarrow> string option \<Rightarrow> time option \<Rightarrow> int \<Rightarrow> operation_row" where
  "sample_op st owner expires n =
     \<lparr>o_operation_id = ''o'', o_tenant_id = ''t'', o_project_id = ''p'', o_operation_type = ''mesh'',
      o_idempotency_key = ''k'', o_input_manifest_hash = canonical_sha256 hex_runtime (JObj []), o_input_json = [],
      o_traceparent = None, o_state = st, o_progress = 0, o_attempt = n, o_max_attempts = 3,
      o_lease_owner = owner, o_lease_expires_at = expires, o_checkpoint_json = [], o_output_json = [],
      o_output_hash = None, o_error_json = [], o_cancel_requested = (st = CANCEL_REQUESTED), o_created_by = ''u'',
      o_created_at = 0, o_updated_at = 0\<rparr>"

definition sample_ops :: "operation_row \<Rightarrow> db" where
  "sample_ops r = empty_db\<lparr>operations := [r]\<rparr>"

lemma sample_ops_get: "get_op (sample_ops (sample_op st ow ex n)) ''o'' = Some (sample_op st ow ex n)"
  by (simp add: sample_ops_def get_op_def tget_Cons sample_op_def)

lemma sample_ops_inv:
  "op_ok hex_runtime (sample_op st ow ex n) \<Longrightarrow> op_inv hex_runtime (sample_ops (sample_op st ow ex n))"
  by (simp add: sample_ops_def op_inv_def)

lemma sample_ok:
  "op_ok hex_runtime (sample_op LEASED (Some ''w'') (Some 100) 3)"
  "op_ok hex_runtime (sample_op FAILED None None 3)"
  "op_ok hex_runtime (sample_op CANCEL_REQUESTED None None 0)"
  by (simp_all add: op_ok_def sample_op_def)

lemma no_deployment: "operation_platform None"
  by unfold_locales simp

abbreviation sample_run :: "op_call list \<Rightarrow> db \<Rightarrow> db" where
  "sample_run \<equiv> run (op_step hex_runtime (\<lambda>_. []) ''key'' operation_catalog None)"

lemma operations_stay_consistent_witness:
  "op_inv hex_runtime (sample_run [OpLease (at_time 200) ''o'' ''v'' 60, OpStart (at_time 201) ''o'' ''v'']
     (sample_ops (sample_op LEASED (Some ''w'') (Some 100) 3)))"
  by (rule operations_stay_consistent [OF no_deployment sample_ops_inv [OF sample_ok(1)]])

lemma operations_follow_state_machine_witness:
  "\<exists>r'. get_op (sample_run [OpStart (at_time 50) ''o'' ''w''] (sample_ops (sample_op LEASED (Some ''w'') (Some 100) 3))) ''o'' = Some r'
     \<and> op_edge\<^sup>*\<^sup>* LEASED (o_state r') \<and> 3 \<le> o_attempt r'"
  using operations_follow_state_machine [OF no_deployment sample_ops_inv [OF sample_ok(1)] sample_ops_get,
      of "\<lambda>_. []" "''key''" operation_catalog "[OpStart (at_time 50) ''o'' ''w'']"]
  by (auto simp: row_below_def sample_op_def)

lemma no_output_after_cancel_witness:
  "\<exists>r'. get_op (sample_run [OpComplete (at_time 5) ''o'' ''w'' [] None] (sample_ops (sample_op CANCEL_REQUESTED None None 0))) ''o'' = Some r'
     \<and> o_state r' \<noteq> SUCCEEDED"
  using no_output_after_cancel [OF no_deployment sample_ops_inv [OF sample_ok(3)] sample_ops_get,
      of "\<lambda>_. []" "''key''" operation_catalog "[OpComplete (at_time 5) ''o'' ''w'' [] None]"]
  by (auto simp: sample_op_def)

lemma lease_excludes_other_workers_witness:
  "get_op (sample_run [OpLease (at_time 50) ''o'' ''v'' 60, OpReconcile (at_time 60)]
     (sample_ops (sample_op LEASED (Some ''w'') (Some 100) 3))) ''o'' = Some (sample_op LEASED (Some ''w'') (Some 100) 3)"
  by (rule lease_excludes_other_workers [OF no_deployment sample_ops_inv [OF sample_ok(1)] sample_ops_get, where w = "''w''" and t = 100])
    (simp_all add: sample_op_def at_time_def)

lemma exhausted_failure_is_final_witness:
  "get_op (sample_run [OpLease (at_time 50) ''o'' ''v'' 60] (sample_ops (sample_op FAILED None None 3))) ''o''
     = Some (sample_op FAILED None None 3)"
  by (rule exhausted_failure_is_final [OF no_deployment sample_ops_inv [OF sample_ok(2)] sample_ops_get])
    (simp_all add: sample_op_def)

lemma unleased_cancellation_stalls_witness:
  "\<exists>r'. get_op (sample_run [OpLease (at_time 50) ''o'' ''v'' 60, OpReconcile (at_time 5000)]
     (sample_ops (sample_op CANCEL_REQUESTED None None 0))) ''o'' = Some r' \<and> o_state r' = CANCEL_REQUESTED"
  by (rule unleased_cancellation_stalls [OF no_deployment sample_ops_inv [OF sample_ok(3)] sample_ops_get])
    (simp_all add: sample_op_def)

lemma operation_catalog_get:
  "\<exists>e. catalog_get operation_catalog ''operation.leased'' ''1.0.0'' = Inr e \<and> ec_owner e = ''workflow-service'' \<and> ec_aggregate e = ''operation''"
  "\<exists>e. catalog_get operation_catalog ''operation.created'' ''1.0.0'' = Inr e \<and> ec_owner e = ''workflow-service'' \<and> ec_aggregate e = ''operation''"
  "\<exists>e. catalog_get operation_catalog ''operation.quarantined'' ''1.0.0'' = Inr e \<and> ec_owner e = ''workflow-service'' \<and> ec_aggregate e = ''operation''"
  by (simp_all add: catalog_get_def operation_catalog_def entry_key_def)

lemma op_outbox_returns:
  assumes "\<exists>e. catalog_get operation_catalog ty ''1.0.0'' = Inr e \<and> ec_owner e = ''workflow-service'' \<and> ec_aggregate e = ''operation''"
    and "validate_payload hex_runtime p = Inr ()" and "outbox_events s = []"
  shows "\<exists>s'. op_outbox hex_runtime operation_catalog i now r ty p actor workload s = Inr s' \<and> audit_events s' = audit_events s"
proof -
  obtain e where "catalog_get operation_catalog ty ''1.0.0'' = Inr e" "ec_owner e = ''workflow-service''" "ec_aggregate e = ''operation''"
    using assms(1) by blast
  then have "emit_event hex_runtime operation_catalog i now (op_event r ty p actor workload) s = Inr (s\<lparr>outbox_events := outbox_events s @
     [outbox_row hex_runtime i now (op_event r ty p actor workload) (project_classification s (es_project_id (op_event r ty p actor workload)))]\<rparr>)"
    by (intro emit_event_returns [of _ _ e]) (simp_all add: op_event_def assms(2,3) tkeys_def)
  then show ?thesis by (simp add: op_outbox_def)
qed

lemma sample_outbox [simp]: "outbox_events (put_op r (sample_ops x)) = []" "outbox_events (empty_db\<lparr>operations := l\<rparr>) = []"
  by (simp_all add: put_op_def sample_ops_def empty_db_def)

lemma expired_lease_exceeds_attempts_witness:
  "\<exists>v t r'. lease hex_runtime operation_catalog (at_time 200) ''o'' ''v'' 60 (sample_ops (sample_op LEASED (Some ''w'') (Some 100) 3)) = Inr (v, t)
     \<and> get_op t ''o'' = Some r' \<and> o_attempt r' = 4 \<and> o_max_attempts r' < o_attempt r'"
proof -
  let ?r = "sample_op LEASED (Some ''w'') (Some 100) 3" and ?E = "at_time 200"
  have a: "o_attempt ?r = 3" by (simp add: sample_op_def)
  have p: "validate_payload hex_runtime [(''worker_id'', JStr ''v''), (''attempt'', JInt (3 + 1))] = Inr ()"
    by code_simp
  obtain t where t: "op_outbox hex_runtime operation_catalog (ids ?E 0) (clk ?E 1) (leased_row ?r ''v'' 60 (clk ?E 0)) ''operation.leased''
      [(''worker_id'', JStr ''v''), (''attempt'', JInt (o_attempt ?r + 1))] None (Some ''v'')
      (put_op (leased_row ?r ''v'' 60 (clk ?E 0)) (sample_ops ?r)) = Inr t"
    unfolding a using op_outbox_returns [OF operation_catalog_get(1) p sample_outbox(1)] by blast
  show ?thesis
    using expired_lease_exceeds_attempts [OF sample_ops_get _ _ _ _ _ t]
    by (auto simp: sample_op_def lease_expired_def at_time_def)
qed

lemma reconciliation_sweeps_abandoned_witness:
  "\<exists>t. reconcile_expired_leases hex_runtime operation_catalog (at_time 200) (sample_ops (sample_op LEASED (Some ''w'') (Some 100) 3))
       = Inr (([], [''o'']), t) \<and> filter (abandoned 200) (operations t) = []"
proof -
  let ?r = "sample_op LEASED (Some ''w'') (Some 100) 3"
  have p: "validate_payload hex_runtime lease_expired_error = Inr ()" by code_simp
  obtain t where t: "op_outbox hex_runtime operation_catalog (ids (at_time 200) 0) (clk (at_time 200) 1)
      (reconciled_row (clk (at_time 200) 0) ?r) ''operation.quarantined''
      lease_expired_error None None (put_op (reconciled_row (clk (at_time 200) 0) ?r) (sample_ops ?r)) = Inr t"
    using op_outbox_returns [OF operation_catalog_get(3) p sample_outbox(1)] by blast
  have "\<not> resumable ?r" "abandoned (clk (at_time 200) 0) ?r"
    by (simp_all add: resumable_def sample_op_def jget_def abandoned_def lease_expired_def at_time_def)
  with t have "reconcile_expired_leases hex_runtime operation_catalog (at_time 200) (sample_ops ?r) = Inr (([], [''o'']), t)"
    by (simp add: reconcile_expired_leases_def sample_ops_def) (simp add: sample_op_def)
  moreover from reconciliation_sweeps_abandoned [OF sample_ops_inv [OF sample_ok(1)] this]
  have "filter (abandoned (clk (at_time 200) 0)) (operations t) = []" by blast
  moreover have "clk (at_time 200) 0 = 200" by (simp add: at_time_def)
  ultimately show ?thesis by metis
qed

definition sample_create :: create_args where
  "sample_create = \<lparr>ca_tenant_id = ''t'', ca_project_id = ''p'', ca_operation_type = ''mesh'', ca_idempotency_key = ''k'',
     ca_input_manifest = [], ca_actor_id = ''u'', ca_max_attempts = 3, ca_traceparent = None\<rparr>"

lemma create_is_idempotent_witness:
  "\<exists>v s1 v'. create_operation hex_runtime (\<lambda>_. []) ''key'' operation_catalog None (at_time 5) sample_create empty_db = (Inr v, s1)
     \<and> create_operation hex_runtime (\<lambda>_. []) ''key'' operation_catalog None (at_time 9) sample_create s1 = (Inr v', s1)
     \<and> v_operation_id v' = v_operation_id v"
proof -
  let ?d = "[(''operation_type'', JStr ''mesh''), (''input_manifest_hash'', JStr (canonical_sha256 hex_runtime (JObj [])))]"
  let ?row = "new_operation hex_runtime (at_time 5) sample_create None"
  have p: "validate_payload hex_runtime ?d = Inr ()" by code_simp
  have none: "audit_events (empty_db\<lparr>operations := [?row]\<rparr>) = []" by (simp add: empty_db_def)
  obtain s' where s': "op_outbox hex_runtime operation_catalog (ids (at_time 5) 1) (clk (at_time 5) 1) ?row ''operation.created'' ?d
      (Some ''u'') None (empty_db\<lparr>operations := [?row]\<rparr>) = Inr s'" "audit_events s' = []"
    using op_outbox_returns [OF operation_catalog_get(2) p sample_outbox(2)] none by metis
  then have "\<exists>v s1. create_operation hex_runtime (\<lambda>_. []) ''key'' operation_catalog None (at_time 5) sample_create empty_db = (Inr v, s1)"
    by (simp add: create_operation_def sample_create_def admit_def normalize_traceparent_def session_def create_body_def
        empty_db_def insert_row_def append_audit_def audit_append_def Let_def)
  then obtain v s1 where v: "create_operation hex_runtime (\<lambda>_. []) ''key'' operation_catalog None (at_time 5) sample_create empty_db = (Inr v, s1)"
    by blast
  have inv: "op_inv hex_runtime empty_db" by (simp add: op_inv_def empty_db_def)
  show ?thesis
    using create_is_idempotent [OF no_deployment inv v, of sample_create None "[]" s1 "at_time 9"] v
    by (auto simp: sample_create_def normalize_traceparent_def admit_def)
qed

end
