(* ===== verification/Security.thy ===== *)
theory Security
  imports Sip_Errors Base64
begin

text \<open>
  \<open>src/sip/security.py\<close>: the envelope cipher and the signed tokens.

  AES-256-GCM (the \<open>cryptography\<close> package) is the parameter \<open>aead\<close>, random bytes come from a
  function of the call site, and \<open>json.loads\<close> is the argument \<open>loads\<close>; what is needed of them
  are hypotheses of the theorems. Shown: an encrypted object decrypts to its plaintext; wrapping the
  data key under a new master key does not change what an object decrypts to; the decoder accepts
  exactly the tokens that the key signs, in one encoding each, for this issuer, up to their expiry.
\<close>

section \<open>The envelope cipher\<close>

record aead =
  aead_seal :: "string \<Rightarrow> string \<Rightarrow> string \<Rightarrow> string \<Rightarrow> string"
  aead_open :: "string \<Rightarrow> string \<Rightarrow> string \<Rightarrow> string \<Rightarrow> string option"

text \<open>What the package documents: opening what was sealed under the same key, nonce and
  associated data gives the plaintext.\<close>

definition aead_ok :: "aead \<Rightarrow> bool" where
  "aead_ok A \<longleftrightarrow> (\<forall>k n p a. aead_open A k n (aead_seal A k n p a) a = Some p)"

record cipher =
  master_key :: string
  key_id :: string

definition new_cipher :: "string \<Rightarrow> string \<Rightarrow> sip_error + cipher" where
  "new_cipher key kid = (if length key \<noteq> 32 then Inl (Uncaught ''ValueError'') else Inr \<lparr>master_key = key, key_id = kid\<rparr>)"

definition encrypt :: "runtime \<Rightarrow> aead \<Rightarrow> cipher \<Rightarrow> (nat \<Rightarrow> string) \<Rightarrow> string \<Rightarrow> string \<Rightarrow> string \<times> fields" where
  "encrypt rt A c rnd plaintext aad =
     (let data_key = rnd 0; content_nonce = rnd 1; ciphertext = aead_seal A data_key content_nonce plaintext aad;
          wrap_nonce = rnd 2; wrapped_key = aead_seal A (master_key c) wrap_nonce data_key aad
      in (ciphertext, [(''algorithm'', JStr ''AES-256-GCM''), (''key_id'', JStr (key_id c)),
           (''content_nonce_b64'', JStr (b64encode content_nonce)), (''wrap_nonce_b64'', JStr (b64encode wrap_nonce)),
           (''wrapped_key_b64'', JStr (b64encode wrapped_key)), (''aad_sha256'', JStr (rt_sha256 rt aad))]))"

text \<open>\<open>base64.b64decode(metadata[name])\<close> with its exceptions.\<close>

definition b64_field :: "fields \<Rightarrow> string \<Rightarrow> sip_error + string" where
  "b64_field metadata name =
     (case map_of metadata name of
        None \<Rightarrow> Inl (Uncaught ''KeyError'')
      | Some (JStr t) \<Rightarrow> (case b64decode t of None \<Rightarrow> Inl (Uncaught ''Error'') | Some b \<Rightarrow> Inr b)
      | Some _ \<Rightarrow> Inl (Uncaught ''TypeError''))"

definition unseal :: "aead \<Rightarrow> string \<Rightarrow> string \<Rightarrow> string \<Rightarrow> string \<Rightarrow> sip_error + string" where
  "unseal A k n ciphertext aad =
     (case aead_open A k n ciphertext aad of None \<Rightarrow> Inl (Uncaught ''InvalidTag'') | Some p \<Rightarrow> Inr p)"

definition unwrap :: "aead \<Rightarrow> cipher \<Rightarrow> fields \<Rightarrow> string \<Rightarrow> sip_error + string" where
  "unwrap A c metadata aad =
     bindE (b64_field metadata ''wrap_nonce_b64'') (\<lambda>nonce.
     bindE (b64_field metadata ''wrapped_key_b64'') (\<lambda>wrapped.
       unseal A (master_key c) nonce wrapped aad))"

definition decrypt :: "runtime \<Rightarrow> aead \<Rightarrow> cipher \<Rightarrow> string \<Rightarrow> fields \<Rightarrow> string \<Rightarrow> sip_error + string" where
  "decrypt rt A c ciphertext metadata aad =
     (if jget metadata ''algorithm'' \<noteq> JStr ''AES-256-GCM''
      then Inl (ValidationError ''ENCRYPTION_ALGORITHM_UNSUPPORTED'' [])
      else if jget metadata ''aad_sha256'' \<noteq> JStr (rt_sha256 rt aad)
      then Inl (ValidationError ''ENCRYPTION_AAD_MISMATCH'' [])
      else bindE (unwrap A c metadata aad) (\<lambda>data_key.
           bindE (b64_field metadata ''content_nonce_b64'') (\<lambda>nonce.
             unseal A data_key nonce ciphertext aad)))"

definition rewrap :: "aead \<Rightarrow> cipher \<Rightarrow> cipher \<Rightarrow> string \<Rightarrow> fields \<Rightarrow> string \<Rightarrow> sip_error + fields" where
  "rewrap A c c' wrap_nonce metadata aad =
     bindE (unwrap A c metadata aad) (\<lambda>data_key.
       Inr (jset ''wrapped_key_b64'' (JStr (b64encode (aead_seal A (master_key c') wrap_nonce data_key aad)))
           (jset ''wrap_nonce_b64'' (JStr (b64encode wrap_nonce))
           (jset ''key_id'' (JStr (key_id c')) metadata))))"

section \<open>URL-safe base64 without padding\<close>

definition to_urlsafe :: "char \<Rightarrow> char" where
  "to_urlsafe c = (if c = CHR ''+'' then CHR ''-'' else if c = CHR ''/'' then CHR ''_'' else c)"

definition from_urlsafe :: "char \<Rightarrow> char" where
  "from_urlsafe c = (if c = CHR ''-'' then CHR ''+'' else if c = CHR ''_'' then CHR ''/'' else c)"

definition rstrip_pad :: "string \<Rightarrow> string" where
  "rstrip_pad s = rev (dropWhile (\<lambda>c. c = CHR ''='') (rev s))"

definition url_encode :: "string \<Rightarrow> string" where
  "url_encode b = rstrip_pad (map to_urlsafe (b64encode b))"

definition ascii_text :: "string \<Rightarrow> bool" where
  "ascii_text t = list_all (\<lambda>c. (of_char c :: nat) < 128) t"

text \<open>\<open>urlsafe_b64decode(text + "=" * (-len(text) % 4))\<close>; a text that is not ASCII is a
  \<open>ValueError\<close>, as is an incomplete group.\<close>

definition url_decode :: "string \<Rightarrow> string option" where
  "url_decode t =
     (if ascii_text t
      then b64decode (map from_urlsafe (t @ replicate (nat ((- int (length t)) mod 4)) CHR ''='')) else None)"

section \<open>Signed tokens\<close>

record token_codec =
  tc_key :: string
  tc_issuer :: string

definition new_token_codec :: "string \<Rightarrow> string \<Rightarrow> sip_error + token_codec" where
  "new_token_codec key issuer =
     (if length key < 32 then Inl (Uncaught ''ValueError'') else Inr \<lparr>tc_key = key, tc_issuer = issuer\<rparr>)"

definition token_body :: "token_codec \<Rightarrow> int \<Rightarrow> fields \<Rightarrow> int \<Rightarrow> fields" where
  "token_body T now claims ttl =
     jset ''exp'' (JInt (now + ttl)) (jset ''iat'' (JInt now) (jset ''iss'' (JStr (tc_issuer T)) claims))"

definition token_text :: "runtime \<Rightarrow> token_codec \<Rightarrow> string \<Rightarrow> string" where
  "token_text rt T data =
     (let payload = url_encode data in payload @ ''.'' @ url_encode (rt_hmac rt (tc_key T) payload))"

definition token_encode :: "runtime \<Rightarrow> token_codec \<Rightarrow> int \<Rightarrow> fields \<Rightarrow> int \<Rightarrow> string" where
  "token_encode rt T now claims ttl = token_text rt T (canonical_json rt (JObj (token_body T now claims ttl)))"

text \<open>\<open>token.split(".", 1)\<close> unpacked into two names.\<close>

definition split_token :: "string \<Rightarrow> (string \<times> string) option" where
  "split_token t = (let p = takeWhile (\<lambda>c. c \<noteq> CHR ''.'') t
     in if p = t then None else Some (p, drop (Suc (length p)) t))"

text \<open>\<open>int(value)\<close> for a claim; a text is decimal digits with an optional sign,
  single underscores allowed between digits.\<close>

definition digit_value :: "char \<Rightarrow> nat option" where
  "digit_value c = index_of c ''0123456789''"

fun digits_value :: "int \<Rightarrow> bool \<Rightarrow> string \<Rightarrow> int option" where
  "digits_value acc after_digit [] = (if after_digit then Some acc else None)"
| "digits_value acc after_digit (c # cs) =
     (if c = CHR ''_'' then (if after_digit then digits_value acc False cs else None)
      else case digit_value c of None \<Rightarrow> None | Some d \<Rightarrow> digits_value (10 * acc + int d) True cs)"

definition int_text :: "string \<Rightarrow> int option" where
  "int_text t = (case py_strip t of
       [] \<Rightarrow> None
     | c # cs \<Rightarrow> (if c = CHR ''-'' then map_option uminus (digits_value 0 False cs)
         else if c = CHR ''+'' then digits_value 0 False cs else digits_value 0 False (c # cs)))"

fun claim_int :: "json \<Rightarrow> sip_error + int" where
  "claim_int (JInt i) = Inr i"
| "claim_int (JBool b) = Inr (if b then 1 else 0)"
| "claim_int (JFloat q) = Inr (if q < 0 then - \<lfloor>- q\<rfloor> else \<lfloor>q\<rfloor>)"
| "claim_int (JStr t) = (case int_text t of None \<Rightarrow> Inl (Uncaught ''ValueError'') | Some i \<Rightarrow> Inr i)"
| "claim_int _ = Inl (Uncaught ''TypeError'')"

definition malformed :: sip_error where
  "malformed = AuthenticationError ''TOKEN_MALFORMED'' []"

definition noncanonical :: sip_error where
  "noncanonical = AuthenticationError ''TOKEN_ENCODING_NONCANONICAL'' []"

text \<open>The part of \<open>decode\<close> inside its \<open>try\<close>: any other exception becomes TOKEN_MALFORMED.\<close>

definition token_payload :: "runtime \<Rightarrow> (string \<Rightarrow> json option) \<Rightarrow> token_codec \<Rightarrow> string \<Rightarrow> sip_error + json" where
  "token_payload rt loads T token =
     (case split_token token of
        None \<Rightarrow> Inl malformed
      | Some (payload_text, signature_text) \<Rightarrow>
          (case url_decode signature_text of
             None \<Rightarrow> Inl malformed
           | Some signature \<Rightarrow>
               (if signature_text \<noteq> url_encode signature then Inl noncanonical
                else if signature \<noteq> rt_hmac rt (tc_key T) payload_text
                then Inl (AuthenticationError ''TOKEN_SIGNATURE_INVALID'' [])
                else case url_decode payload_text of
                       None \<Rightarrow> Inl malformed
                     | Some data \<Rightarrow>
                         (if payload_text \<noteq> url_encode data then Inl noncanonical
                          else case loads data of None \<Rightarrow> Inl malformed | Some claims \<Rightarrow> Inr claims))))"

definition token_decode :: "runtime \<Rightarrow> (string \<Rightarrow> json option) \<Rightarrow> token_codec \<Rightarrow> int \<Rightarrow> string \<Rightarrow> sip_error + fields" where
  "token_decode rt loads T now token =
     bindE (token_payload rt loads T token) (\<lambda>v.
       case v of
         JObj claims \<Rightarrow>
           (if jget claims ''iss'' \<noteq> JStr (tc_issuer T) then Inl (AuthenticationError ''TOKEN_ISSUER_INVALID'' [])
            else bindE (claim_int (case map_of claims ''exp'' of None \<Rightarrow> JInt 0 | Some e \<Rightarrow> e)) (\<lambda>expiry.
              if expiry < now then Inl (AuthenticationError ''TOKEN_EXPIRED'' []) else Inr claims))
       | _ \<Rightarrow> Inl (Uncaught ''AttributeError''))"

section \<open>Properties of the envelope\<close>

declare jget_jset [simp]

lemma b64_field_jset:
  "b64_field (jset k v m) k' = (if k' = k then b64_field [(k, v)] k else b64_field m k')"
  by (simp add: b64_field_def map_of_jset)

lemma b64_field_encoded [simp]: "b64_field ((k, JStr (b64encode b)) # m) k = Inr b"
  by (simp add: b64_field_def b64_round_trip)

lemma b64_field_skip: "k' \<noteq> k \<Longrightarrow> b64_field ((k', v) # m) k = b64_field m k"
  by (simp add: b64_field_def)

lemma rewrap_decrypt:
  assumes "aead_ok A" and "rewrap A c c' n m aad = Inr m'"
  shows "decrypt rt A c' ct m' aad = decrypt rt A c ct m aad"
proof -
  obtain dk where dk: "unwrap A c m aad = Inr dk"
      "m' = jset ''wrapped_key_b64'' (JStr (b64encode (aead_seal A (master_key c') n dk aad)))
           (jset ''wrap_nonce_b64'' (JStr (b64encode n)) (jset ''key_id'' (JStr (key_id c')) m))"
    using assms(2) by (auto simp: rewrap_def bindE_Inr_conv)
  have "unwrap A c' m' aad = Inr dk"
    using assms(1) by (simp add: unwrap_def dk(2) b64_field_jset unseal_def aead_ok_def)
  with dk show ?thesis
    by (simp add: decrypt_def b64_field_jset)
qed

text \<open>
  An encrypted object decrypts to its plaintext under its associated data, and still does after
  its data key has been wrapped under another master key, by the other cipher; the ciphertext is
  the same one. Rewrapping an encrypted object always succeeds.
\<close>

lemma envelope_survives_rotation:
  assumes "aead_ok A" and "encrypt rt A c rnd plaintext aad = (ct, m)"
  shows "decrypt rt A c ct m aad = Inr plaintext \<and>
     (\<exists>m'. rewrap A c c' n m aad = Inr m' \<and> decrypt rt A c' ct m' aad = Inr plaintext \<and> jget m' ''key_id'' = JStr (key_id c'))"
proof -
  have unwrap: "unwrap A c m aad = Inr (rnd 0)"
    using assms by (auto simp: encrypt_def Let_def unwrap_def b64_field_skip unseal_def aead_ok_def)
  then have plain: "decrypt rt A c ct m aad = Inr plaintext"
    using assms by (auto simp: encrypt_def Let_def decrypt_def b64_field_skip unseal_def aead_ok_def jget_def)
  obtain m' where m': "rewrap A c c' n m aad = Inr m'" "jget m' ''key_id'' = JStr (key_id c')"
    using unwrap by (auto simp: rewrap_def)
  with plain rewrap_decrypt [OF assms(1) m'(1)] show ?thesis by auto
qed

section \<open>Properties of the encoding\<close>

lemma b64_char_alphabet: "d < 64 \<Longrightarrow> b64_char d \<in> set b64_alphabet"
  by (simp add: b64_char_def)

lemma set_b64encode: "set (b64encode s) \<subseteq> insert (CHR ''='') (set b64_alphabet)"
  and length_b64encode: "length (b64encode s) mod 4 = 0"
proof (induction s rule: b64encode.induct)
  case (2 a)
  case 1 show ?case
    using byte_parts [of a] regroup_bound [of "of_char a mod 4" 4 0 16] by (simp add: Let_def b64_char_alphabet)
  case 2 show ?case by (simp add: Let_def)
next
  case (3 a b)
  case 1 show ?case
    using byte_parts [of a] byte_parts [of b] regroup_bound [of "of_char a mod 4" 4 "of_char b div 16" 16]
      regroup_bound [of "of_char b mod 16" 16 0 4] by (simp add: Let_def b64_char_alphabet)
  case 2 show ?case by (simp add: Let_def)
next
  case (4 a b c r)
  case 1 show ?case
    using 4 byte_parts [of a] byte_parts [of b] byte_parts [of c]
      regroup_bound [of "of_char a mod 4" 4 "of_char b div 16" 16]
      regroup_bound [of "of_char b mod 16" 16 "of_char c div 64" 4] by (simp add: Let_def b64_char_alphabet)
  case 2 show ?case using 4 by (simp add: Let_def)
qed simp_all

lemma pad_not_b64_char [simp]: "d < 64 \<Longrightarrow> CHR ''='' \<noteq> b64_char d"
  using b64_char_not_pad by metis

text \<open>An encoding is a body without padding characters followed by at most two of them.\<close>

lemma b64encode_body:
  "\<exists>body n. b64encode s = body @ replicate n CHR ''='' \<and> CHR ''='' \<notin> set body \<and> n < 3"
proof (induction s rule: b64encode.induct)
  case (2 a)
  have two: "replicate 2 c = [c, c]" for c :: char by (simp add: numeral_2_eq_2)
  have "CHR ''='' \<notin> set [b64_char (of_char a div 4), b64_char (of_char a mod 4 * 16)]"
    using byte_parts [of a] regroup_bound [of "of_char a mod 4" 4 0 16] by simp
  then show ?case
    by (intro exI [of _ "[b64_char (of_char a div 4), b64_char (of_char a mod 4 * 16)]"] exI [of _ 2])
      (simp only: two b64encode.simps Let_def, simp)
next
  case (3 a b)
  have "CHR ''='' \<notin> set [b64_char (of_char a div 4), b64_char (of_char a mod 4 * 16 + of_char b div 16), b64_char (of_char b mod 16 * 4)]"
    using byte_parts [of a] byte_parts [of b] regroup_bound [of "of_char a mod 4" 4 "of_char b div 16" 16]
      regroup_bound [of "of_char b mod 16" 16 0 4] by simp
  then show ?case
    by (intro exI [of _ "[b64_char (of_char a div 4), b64_char (of_char a mod 4 * 16 + of_char b div 16),
      b64_char (of_char b mod 16 * 4)]"] exI [of _ 1]) (simp only: b64encode.simps Let_def, simp)
next
  case (4 a b c r)
  then obtain body n where IH: "b64encode r = body @ replicate n CHR ''=''" "CHR ''='' \<notin> set body" "n < 3" by blast
  let ?h = "[b64_char (of_char a div 4), b64_char (of_char a mod 4 * 16 + of_char b div 16),
      b64_char (of_char b mod 16 * 4 + of_char c div 64), b64_char (of_char c mod 64)]"
  have "b64encode (a # b # c # r) = (?h @ body) @ replicate n CHR ''=''"
    using IH(1) by (simp add: Let_def)
  moreover have "CHR ''='' \<notin> set (?h @ body)"
    using IH(2) byte_parts [of a] byte_parts [of b] byte_parts [of c]
      regroup_bound [of "of_char a mod 4" 4 "of_char b div 16" 16]
      regroup_bound [of "of_char b mod 16" 16 "of_char c div 64" 4]
    by simp
  ultimately show ?case using IH(3) by blast
qed auto

lemma urlsafe_table:
  "list_all (\<lambda>c. from_urlsafe (to_urlsafe c) = c \<and> to_urlsafe c \<noteq> CHR ''.'' \<and> (of_char (to_urlsafe c) :: nat) < 128
     \<and> to_urlsafe c \<noteq> CHR ''='') b64_alphabet"
  by code_simp

lemma urlsafe_char:
  assumes "c \<in> set b64_alphabet"
  shows "from_urlsafe (to_urlsafe c) = c" and "to_urlsafe c \<noteq> CHR ''.''"
    and "(of_char (to_urlsafe c) :: nat) < 128" and "to_urlsafe c \<noteq> CHR ''=''"
  using urlsafe_table assms by (auto simp: list_all_iff)

lemma rstrip_pad_body: "CHR ''='' \<notin> set body \<Longrightarrow> rstrip_pad (body @ replicate n CHR ''='') = body"
proof -
  assume a: "CHR ''='' \<notin> set body"
  have "dropWhile (\<lambda>c. c = CHR ''='') (rev body) = rev body"
    using a by (cases body rule: rev_cases) auto
  then show ?thesis by (simp add: rstrip_pad_def dropWhile_append)
qed

lemma url_encode_text:
  obtains body n where "url_encode s = map to_urlsafe body" "b64encode s = body @ replicate n CHR ''=''"
    "set body \<subseteq> set b64_alphabet" "n < 3"
proof -
  obtain body n where b: "b64encode s = body @ replicate n CHR ''=''" "CHR ''='' \<notin> set body" "n < 3"
    using b64encode_body by blast
  have sub: "set body \<subseteq> set b64_alphabet"
    using set_b64encode [of s] b by auto
  then have "CHR ''='' \<notin> set (map to_urlsafe body)"
    by (auto dest!: subsetD urlsafe_char(4))
  moreover have "to_urlsafe CHR ''='' = CHR ''=''" by (simp add: to_urlsafe_def)
  ultimately have "url_encode s = map to_urlsafe body"
    by (simp add: url_encode_def b(1) rstrip_pad_body)
  with b sub show ?thesis by (intro that)
qed

lemma url_encode_chars: "c \<in> set (url_encode s) \<Longrightarrow> c \<noteq> CHR ''.'' \<and> (of_char c :: nat) < 128"
proof -
  assume c: "c \<in> set (url_encode s)"
  obtain body n where "url_encode s = map to_urlsafe body" "set body \<subseteq> set b64_alphabet"
    by (rule url_encode_text)
  with c obtain d where "d \<in> set b64_alphabet" "c = to_urlsafe d" by auto
  then show ?thesis using urlsafe_char(2,3) by simp
qed

lemma url_round_trip: "url_decode (url_encode s) = Some s"
proof -
  obtain body n where b: "url_encode s = map to_urlsafe body" "b64encode s = body @ replicate n CHR ''=''"
      "set body \<subseteq> set b64_alphabet" "n < 3"
    by (rule url_encode_text)
  have "(length body + n) mod 4 = 0"
    using length_b64encode [of s] b(2) by simp
  then have "(int (length body) + int n) mod 4 = 0"
    by presburger
  then have "(- int (length body)) mod 4 = int n"
    using b(4) by presburger
  then have "nat ((- int (length body)) mod 4) = n" by simp
  moreover have "map from_urlsafe (map to_urlsafe body) = body"
    using b(3) by (auto intro!: map_idI urlsafe_char(1))
  moreover have "ascii_text (map to_urlsafe body)"
    using url_encode_chars [of _ s] unfolding b(1) by (simp add: ascii_text_def list_all_iff)
  ultimately show ?thesis
    using b64_round_trip [of s] by (simp add: url_decode_def b(1) b(2) from_urlsafe_def del: map_map)
qed

section \<open>Properties of tokens\<close>

lemma split_token_Some:
  "split_token t = Some (p, q) \<longleftrightarrow> t = p @ ''.'' @ q \<and> CHR ''.'' \<notin> set p"
proof
  assume a: "split_token t = Some (p, q)"
  let ?p = "takeWhile (\<lambda>c. c \<noteq> CHR ''.'') t" and ?d = "dropWhile (\<lambda>c. c \<noteq> CHR ''.'') t"
  have t: "t = ?p @ ?d" by simp
  have p: "p = ?p" "?p \<noteq> t" "q = drop (Suc (length ?p)) t"
    using a by (auto simp: split_token_def Let_def split: if_splits)
  then have "?d \<noteq> []" by (metis append_Nil2 t)
  then have d: "?d = CHR ''.'' # tl ?d" using hd_dropWhile [of "\<lambda>c. c \<noteq> CHR ''.''" t] by (metis list.collapse)
  have "q = tl ?d"
    unfolding p(3) by (simp add: dropWhile_eq_drop drop_Suc tl_drop)
  with t d p(1) have "t = p @ ''.'' @ q" by simp
  moreover have "CHR ''.'' \<notin> set p" unfolding p(1) by (auto dest: set_takeWhileD)
  ultimately show "t = p @ ''.'' @ q \<and> CHR ''.'' \<notin> set p" by blast
next
  assume a: "t = p @ ''.'' @ q \<and> CHR ''.'' \<notin> set p"
  then have "takeWhile (\<lambda>c. c \<noteq> CHR ''.'') t = p"
    by (auto intro!: takeWhile_append1 simp: takeWhile_append)
  with a show "split_token t = Some (p, q)" by (simp add: split_token_def)
qed

lemma token_payload_exact:
  "token_payload rt loads T token = Inr v \<longleftrightarrow> (\<exists>data. token = token_text rt T data \<and> loads data = Some v)"
proof
  assume "token_payload rt loads T token = Inr v"
  then obtain p q data where "split_token token = Some (p, q)" "q = url_encode (rt_hmac rt (tc_key T) p)"
      "p = url_encode data" "loads data = Some v"
    by (auto simp: token_payload_def result_simps split: option.splits prod.splits)
  then show "\<exists>data. token = token_text rt T data \<and> loads data = Some v"
    unfolding split_token_Some token_text_def Let_def by blast
next
  assume "\<exists>data. token = token_text rt T data \<and> loads data = Some v"
  then obtain data where d: "token = token_text rt T data" "loads data = Some v" by blast
  then have "split_token token = Some (url_encode data, url_encode (rt_hmac rt (tc_key T) (url_encode data)))"
    using url_encode_chars [of _ data] by (auto simp: split_token_Some token_text_def Let_def)
  with d show "token_payload rt loads T token = Inr v"
    by (simp add: token_payload_def url_round_trip)
qed

text \<open>
  C37. The decoder accepts a token exactly when it is the signed text of some payload, in the one
  canonical encoding, the payload parses to an object with this issuer, and its expiry is a number
  not before the current second. In particular an accepted token cannot be altered or re-encoded and
  still be accepted with the same payload.
\<close>

theorem token_decode_exact:
  "token_decode rt loads T now token = Inr claims \<longleftrightarrow>
     (\<exists>data expiry. token = token_text rt T data \<and> loads data = Some (JObj claims) \<and>
        jget claims ''iss'' = JStr (tc_issuer T) \<and>
        claim_int (case map_of claims ''exp'' of None \<Rightarrow> JInt 0 | Some e \<Rightarrow> e) = Inr expiry \<and> now \<le> expiry)"
proof -
  have "(case v of JObj c \<Rightarrow> f c | _ \<Rightarrow> Inl e) = Inr claims \<longleftrightarrow> (\<exists>c. v = JObj c \<and> f c = Inr claims)"
    for v and f :: "fields \<Rightarrow> sip_error + fields" and e
    by (cases v) auto
  then show ?thesis
    by (auto simp: token_decode_def bindE_Inr_conv token_payload_exact not_less split: if_splits)
qed

lemma map_of_sorted_fields:
  "distinct (map fst kvs) \<Longrightarrow> map_of (sort_key fst kvs) = map_of (kvs :: fields)"
  by (rule map_of_inject_set [THEN iffD2]) (simp_all add: distinct_map inj_on_def)

lemma map_of_jnorm_fields: "map_of (jnorm_fields kvs) k = map_option jnorm (map_of kvs k)"
  by (induction kvs rule: jnorm_jnorm_list_jnorm_fields.induct(3) [of "\<lambda>_. True" "\<lambda>_. True"]) auto

lemma distinct_jset: "distinct (map fst kvs) \<Longrightarrow> distinct (map fst (jset k v kvs))"
proof -
  have "map fst (map (\<lambda>(k', v'). if k' = k then (k', v) else (k', v')) kvs) = map fst kvs"
    by (induction kvs) auto
  then show "distinct (map fst kvs) \<Longrightarrow> distinct (map fst (jset k v kvs))"
    unfolding jset_def by (auto simp del: map_map)
qed

lemma token_decode_encode:
  assumes "distinct (map fst claims)"
    and "loads (canonical_json rt (JObj (token_body T now claims ttl))) = Some (jnorm (JObj (token_body T now claims ttl)))"
  shows "\<exists>c. (\<forall>k. map_of c k = map_option jnorm (map_of (token_body T now claims ttl) k)) \<and>
     jget c ''iss'' = JStr (tc_issuer T) \<and> jget c ''exp'' = JInt (now + ttl) \<and>
     token_decode rt loads T t (token_encode rt T now claims ttl)
       = (if t \<le> now + ttl then Inr c else Inl (AuthenticationError ''TOKEN_EXPIRED'' []))"
proof -
  let ?b = "token_body T now claims ttl"
  let ?c = "sort_key fst (jnorm_fields ?b)"
  have "distinct (map fst ?b)"
    using assms(1) by (simp add: token_body_def distinct_jset)
  then have c: "map_of ?c k = map_option jnorm (map_of ?b k)" for k
    by (simp add: map_of_sorted_fields map_fst_jnorm_fields map_of_jnorm_fields)
  then have iss: "map_of ?c ''iss'' = Some (JStr (tc_issuer T))" and exp: "map_of ?c ''exp'' = Some (JInt (now + ttl))"
    by (simp_all add: token_body_def map_of_jset)
  have "token_payload rt loads T (token_encode rt T now claims ttl) = Inr (JObj ?c)"
    using assms(2) by (auto simp: token_payload_exact token_encode_def)
  then have "token_decode rt loads T t (token_encode rt T now claims ttl)
      = (if t \<le> now + ttl then Inr ?c else Inl (AuthenticationError ''TOKEN_EXPIRED'' []))"
    using iss exp by (simp add: token_decode_def jget_def)
  moreover have "jget ?c ''iss'' = JStr (tc_issuer T)" "jget ?c ''exp'' = JInt (now + ttl)"
    using iss exp by (simp_all only: jget_def option.case)
  ultimately show ?thesis using c by blast
qed

text \<open>
  A token that was issued is accepted with its claims up to its expiry and refused as expired
  afterwards, whatever its claims; the issuer and expiry fields are those of the codec even when the
  claims try to set them.
\<close>

lemma token_round_trip:
  assumes "distinct (map fst claims)"
    and "loads (canonical_json rt (JObj (token_body T now claims ttl))) = Some (jnorm (JObj (token_body T now claims ttl)))"
  shows "\<exists>c. (\<forall>k. map_of c k = map_option jnorm (map_of (token_body T now claims ttl) k)) \<and>
     jget c ''iss'' = JStr (tc_issuer T) \<and> jget c ''exp'' = JInt (now + ttl) \<and>
     token_decode rt loads T t (token_encode rt T now claims ttl)
       = (if t \<le> now + ttl then Inr c else Inl (AuthenticationError ''TOKEN_EXPIRED'' []))"
  using assms by (rule token_decode_encode)

section \<open>Instances\<close>

definition plain_aead :: aead where
  "plain_aead = \<lparr>aead_seal = (\<lambda>k n p a. k @ n @ a @ p), aead_open = (\<lambda>k n c a.
     if take (length (k @ n @ a)) c = k @ n @ a then Some (drop (length (k @ n @ a)) c) else None)\<rparr>"

lemma plain_aead_ok: "aead_ok plain_aead"
  by (simp add: aead_ok_def plain_aead_def)

definition sample_cipher :: "string \<Rightarrow> cipher" where
  "sample_cipher k = \<lparr>master_key = k, key_id = k\<rparr>"

lemma envelope_survives_rotation_witness:
  "\<exists>m'. rewrap plain_aead (sample_cipher ''a'') (sample_cipher ''b'') ''n''
        (snd (encrypt sample_runtime plain_aead (sample_cipher ''a'') (\<lambda>i. nat_repr i) ''data'' ''x'')) ''x'' = Inr m' \<and>
     decrypt sample_runtime plain_aead (sample_cipher ''b'')
        (fst (encrypt sample_runtime plain_aead (sample_cipher ''a'') (\<lambda>i. nat_repr i) ''data'' ''x'')) m' ''x'' = Inr ''data''"
  using envelope_survives_rotation [OF plain_aead_ok, of sample_runtime "sample_cipher ''a''" "\<lambda>i. nat_repr i" "''data''" "''x''"
      "fst (encrypt sample_runtime plain_aead (sample_cipher ''a'') (\<lambda>i. nat_repr i) ''data'' ''x'')"
      "snd (encrypt sample_runtime plain_aead (sample_cipher ''a'') (\<lambda>i. nat_repr i) ''data'' ''x'')" "sample_cipher ''b''" "''n''"]
  by auto

definition sample_codec :: token_codec where
  "sample_codec = \<lparr>tc_key = replicate 32 CHR ''k'', tc_issuer = ''sip-local''\<rparr>"

lemma token_round_trip_witness:
  "\<exists>c. token_decode sample_runtime (\<lambda>_. Some (jnorm (JObj (token_body sample_codec 100 [(''sub'', JStr ''u'')] 60)))) sample_codec 120
        (token_encode sample_runtime sample_codec 100 [(''sub'', JStr ''u'')] 60) = Inr c \<and> jget c ''exp'' = JInt 160"
  using token_round_trip [of "[(''sub'', JStr ''u'')]" "\<lambda>_. Some (jnorm (JObj (token_body sample_codec 100 [(''sub'', JStr ''u'')] 60)))"
      sample_runtime sample_codec 100 60 120]
  by auto

end
