(* ===== verification/Assets.thy ===== *)
theory Assets
  imports Operations Security "HOL-Library.AList"
begin

text \<open>
  \<open>src/sip/assets.py\<close>: the local content-addressed store and the asset service (ingest, lookup,
  reads, signed read tokens, tombstones, multipart uploads). The S3 store is not modelled.

  The store is two directories of files, keyed by digest: the encrypted objects and their metadata.
  The write of the two files is one step (no crash between them). The service's state is the
  database, the store and the part files of open uploads. Calls outside a database session return
  the state they leave whether they raise or not.
\<close>

section \<open>The content-addressed store\<close>

record object_store =
  so_enc :: "(string \<times> string) list"
  so_meta :: "(string \<times> fields) list"
  so_cipher :: cipher

definition validate_digest :: "string \<Rightarrow> sip_error + unit" where
  "validate_digest digest = (if \<not> hex_text 64 digest then Inl (ValidationError ''HASH_INVALID'' []) else Inr ())"

definition storage_key :: "string \<Rightarrow> sip_error + string" where
  "storage_key digest = bindE (validate_digest digest) (\<lambda>_.
     Inr (take 2 digest @ ''/'' @ take 2 (drop 2 digest) @ ''/'' @ digest @ ''.enc''))"

definition read_metadata :: "string \<Rightarrow> object_store \<Rightarrow> sip_error + fields" where
  "read_metadata digest st = bindE (validate_digest digest) (\<lambda>_.
     case map_of (so_meta st) digest of None \<Rightarrow> Inl (NotFoundError ''content_object'' digest) | Some m \<Rightarrow> Inr m)"

definition read_bytes :: "runtime \<Rightarrow> aead \<Rightarrow> string \<Rightarrow> object_store \<Rightarrow> sip_error + string" where
  "read_bytes rt A digest st = bindE (validate_digest digest) (\<lambda>_.
     case map_of (so_enc st) digest of
       None \<Rightarrow> Inl (NotFoundError ''content_object'' digest)
     | Some ciphertext \<Rightarrow>
         bindE (read_metadata digest st) (\<lambda>metadata.
         bindE (decrypt rt A (so_cipher st) ciphertext metadata digest) (\<lambda>plaintext.
           if sha256_bytes rt plaintext \<noteq> digest then Inl (ValidationError ''OBJECT_INTEGRITY_FAILED'' [])
           else Inr plaintext)))"

definition write_bytes ::
  "runtime \<Rightarrow> aead \<Rightarrow> (nat \<Rightarrow> string) \<Rightarrow> string \<Rightarrow> string \<Rightarrow> object_store \<Rightarrow> sip_error + fields \<times> object_store" where
  "write_bytes rt A rnd digest data st =
     (if sha256_bytes rt data \<noteq> digest then Inl (ValidationError ''CONTENT_HASH_MISMATCH'' [])
      else bindE (validate_digest digest) (\<lambda>_.
        case (map_of (so_enc st) digest, map_of (so_meta st) digest) of
          (Some _, Some metadata) \<Rightarrow>
            bindE (read_bytes rt A digest st) (\<lambda>existing.
              if existing \<noteq> data then Inl (ConflictError ''CAS_COLLISION'' []) else Inr (metadata, st))
        | _ \<Rightarrow>
            (case encrypt rt A (so_cipher st) rnd data digest of (ciphertext, metadata) \<Rightarrow>
               Inr (metadata, st\<lparr>so_enc := AList.update digest ciphertext (so_enc st),
                 so_meta := AList.update digest metadata (so_meta st)\<rparr>))))"

definition delete_object :: "string \<Rightarrow> object_store \<Rightarrow> sip_error + object_store" where
  "delete_object digest st = bindE (validate_digest digest) (\<lambda>_.
     Inr (st\<lparr>so_enc := AList.delete digest (so_enc st), so_meta := AList.delete digest (so_meta st)\<rparr>))"

text \<open>Rotation rewrites the metadata files one by one, in the order of the paths, and then takes the
  new cipher; the ciphertexts are not touched. An exception leaves the files rewritten so far.\<close>

record rotation_report =
  ro_old_key_id :: string
  ro_new_key_id :: string
  ro_object_count :: nat
  ro_ciphertext_unchanged :: bool

fun rewrap_all ::
  "aead \<Rightarrow> cipher \<Rightarrow> (nat \<Rightarrow> string) \<Rightarrow> nat \<Rightarrow> string list \<Rightarrow> object_store \<Rightarrow> (sip_error + nat) \<times> object_store" where
  "rewrap_all A c' rnd n [] st = (Inr n, st)"
| "rewrap_all A c' rnd n (digest # rest) st =
     (case map_of (so_meta st) digest of
        None \<Rightarrow> (Inl (Uncaught ''FileNotFoundError''), st)
      | Some metadata \<Rightarrow>
          (case rewrap A (so_cipher st) c' (rnd n) metadata digest of
             Inl e \<Rightarrow> (Inl e, st)
           | Inr replacement \<Rightarrow>
               rewrap_all A c' rnd (Suc n) rest (st\<lparr>so_meta := AList.update digest replacement (so_meta st)\<rparr>)))"

definition rotate_envelope_key ::
  "runtime \<Rightarrow> aead \<Rightarrow> cipher \<Rightarrow> (nat \<Rightarrow> string) \<Rightarrow> object_store \<Rightarrow> (sip_error + rotation_report) \<times> object_store" where
  "rotate_envelope_key rt A c' rnd st =
     (let digests = sort (remdups (map fst (so_enc st)));
          before = map (\<lambda>d. (d, sha256_bytes rt (the (map_of (so_enc st) d)))) digests
      in case rewrap_all A c' rnd 0 digests st of
           (Inl e, st') \<Rightarrow> (Inl e, st')
         | (Inr n, st') \<Rightarrow>
             (Inr \<lparr>ro_old_key_id = key_id (so_cipher st), ro_new_key_id = key_id c', ro_object_count = n,
                   ro_ciphertext_unchanged = list_all (\<lambda>(d, prior). sha256_bytes rt (the (map_of (so_enc st') d)) = prior) before\<rparr>,
              st'\<lparr>so_cipher := c'\<rparr>))"

section \<open>The asset service\<close>

record asset_ctx =
  ac_rt :: runtime
  ac_signing_key :: string
  ac_aead :: aead
  ac_codec :: token_codec

record asset_state =
  as_db :: db
  as_store :: object_store
  as_files :: "(string \<times> string) list"
  as_dirs :: "string list"

record asset_reference =
  af_asset_id :: string
  af_sha256 :: string
  af_byte_count :: int
  af_media_type :: string
  af_original_name :: string
  af_classification :: string
  af_source_class :: string
  af_authority_class :: string

definition get_ref :: "db \<Rightarrow> string \<Rightarrow> asset_ref_row option" where
  "get_ref s k = tget r_asset_id (asset_refs s) k"

definition get_object :: "db \<Rightarrow> string \<Rightarrow> asset_row option" where
  "get_object s k = tget a_sha256 (assets s) k"

definition put_ref :: "asset_ref_row \<Rightarrow> db \<Rightarrow> db" where
  "put_ref r s = s\<lparr>asset_refs := tput r_asset_id r (asset_refs s)\<rparr>"

definition reference_of :: "asset_ref_row \<Rightarrow> asset_row \<Rightarrow> asset_reference" where
  "reference_of r obj =
     \<lparr>af_asset_id = r_asset_id r, af_sha256 = r_sha256 r, af_byte_count = a_byte_count obj,
      af_media_type = a_media_type obj, af_original_name = r_original_name r,
      af_classification = r_classification r, af_source_class = r_source_class r,
      af_authority_class = r_authority_class r\<rparr>"

text \<open>The keyword arguments of \<open>ingest_bytes\<close>; enumerations by their values.\<close>

record ingest_args =
  ig_tenant_id :: string
  ig_project_id :: string
  ig_data :: string
  ig_media_type :: string
  ig_original_name :: string
  ig_classification :: string
  ig_retention_class :: string
  ig_source_class :: string
  ig_authority_class :: string
  ig_provenance :: fields
  ig_actor_id :: string
  ig_asset_id :: "string option"
  ig_deployment_region :: json
  ig_asset_class :: string

definition upload_admission :: "ingest_args \<Rightarrow> admission_request" where
  "upload_admission a =
     \<lparr>ad_tenant_id = ig_tenant_id a, ad_project_id = ig_project_id a, ad_admission_type = ''asset_upload'',
      ad_region = ig_deployment_region a,
      ad_request = [(''asset_class'', JStr (ig_asset_class a)), (''byte_count'', JInt (int (length (ig_data a)))),
        (''media_type'', JStr (ig_media_type a))],
      ad_actor_id = ig_actor_id a\<rparr>"

definition ingest_ref :: "env \<Rightarrow> ingest_args \<Rightarrow> string \<Rightarrow> string \<Rightarrow> asset_ref_row" where
  "ingest_ref E a asset_id digest =
     \<lparr>r_asset_id = asset_id, r_tenant_id = ig_tenant_id a, r_project_id = ig_project_id a, r_sha256 = digest,
      r_original_name = ig_original_name a, r_classification = ig_classification a,
      r_retention_class = ig_retention_class a, r_source_class = ig_source_class a,
      r_authority_class = ig_authority_class a, r_provenance_json = ig_provenance a, r_legal_hold = False,
      r_created_by = ig_actor_id a, r_created_at = clk E 1, r_tombstoned_at = None\<rparr>"

text \<open>The database session of \<open>ingest_bytes\<close>.\<close>

definition ingest_session ::
  "asset_ctx \<Rightarrow> env \<Rightarrow> ingest_args \<Rightarrow> string \<Rightarrow> string \<Rightarrow> fields \<Rightarrow> db \<Rightarrow> sip_error + asset_reference \<times> db" where
  "ingest_session X E a asset_id digest metadata s =
     (case get_project s (ig_project_id a) of
        None \<Rightarrow> Inl (NotFoundError ''project'' (ig_project_id a))
      | Some project \<Rightarrow>
          (if pr_tenant_id project \<noteq> ig_tenant_id a then Inl (NotFoundError ''project'' (ig_project_id a))
           else case get_ref s asset_id of
             Some existing \<Rightarrow>
               (if r_tenant_id existing \<noteq> ig_tenant_id a \<or> r_project_id existing \<noteq> ig_project_id a
                   \<or> r_sha256 existing \<noteq> digest \<or> r_tombstoned_at existing \<noteq> None
                then Inl (ConflictError ''ASSET_IDEMPOTENCY_CONFLICT'' [(''asset_id'', JStr asset_id)])
                else case get_object s digest of
                       None \<Rightarrow> Inl (ValidationError ''OBJECT_REFERENCE_BROKEN'' [])
                     | Some obj \<Rightarrow> Inr (reference_of existing obj, s))
           | None \<Rightarrow>
               bindE (case get_object s digest of
                   None \<Rightarrow>
                     bindE (storage_key digest) (\<lambda>path.
                       Inr (s\<lparr>assets := assets s @ [\<lparr>a_sha256 = digest, a_byte_count = int (length (ig_data a)),
                         a_media_type = ig_media_type a, a_storage_key = path, a_encryption_metadata = metadata,
                         a_created_at = clk E 0\<rparr>]\<rparr>))
                 | Some obj \<Rightarrow>
                     (if a_byte_count obj \<noteq> int (length (ig_data a))
                      then Inl (ConflictError ''CAS_METADATA_CONFLICT'' []) else Inr s)) (\<lambda>s1.
               bindE (insert_row r_asset_id (ingest_ref E a asset_id digest) (asset_refs s1)) (\<lambda>rows.
               bindE (append_audit (ac_rt X) (ac_signing_key X) (ids E 1) (clk E 2)
                   (audit_entry (ig_tenant_id a) (Some (ig_project_id a)) (ig_actor_id a) ''asset:ingest'' ''asset'' asset_id
                      ''allowed'' [(''sha256'', JStr digest), (''bytes'', JInt (int (length (ig_data a)))),
                        (''classification'', JStr (ig_classification a))]) (s1\<lparr>asset_refs := rows\<rparr>)) (\<lambda>s2.
                 Inr (\<lparr>af_asset_id = asset_id, af_sha256 = digest, af_byte_count = int (length (ig_data a)),
                       af_media_type = ig_media_type a, af_original_name = ig_original_name a,
                       af_classification = ig_classification a, af_source_class = ig_source_class a,
                       af_authority_class = ig_authority_class a\<rparr>, s2))))))"

definition ingest_bytes ::
  "asset_ctx \<Rightarrow> deployment_service option \<Rightarrow> env \<Rightarrow> (nat \<Rightarrow> string) \<Rightarrow> ingest_args \<Rightarrow> asset_state
     \<Rightarrow> (sip_error + asset_reference) \<times> asset_state" where
  "ingest_bytes X dep E rnd a S =
     (case admit dep (upload_admission a) (as_db S) of
        (Inl e, s0) \<Rightarrow> (Inl e, S\<lparr>as_db := s0\<rparr>)
      | (Inr _, s0) \<Rightarrow>
          let S0 = S\<lparr>as_db := s0\<rparr>; digest = sha256_bytes (ac_rt X) (ig_data a)
          in case write_bytes (ac_rt X) (ac_aead X) rnd digest (ig_data a) (as_store S0) of
               Inl e \<Rightarrow> (Inl e, S0)
             | Inr (metadata, st) \<Rightarrow>
                 let S1 = S0\<lparr>as_store := st\<rparr>
                 in case read_bytes (ac_rt X) (ac_aead X) digest st of
                      Inl e \<Rightarrow> (Inl e, S1)
                    | Inr persisted \<Rightarrow>
                        (if sha256_bytes (ac_rt X) persisted \<noteq> digest \<or> persisted \<noteq> ig_data a
                         then (Inl (ValidationError ''OBJECT_POST_WRITE_VERIFICATION_FAILED''
                           [(''expected_sha256'', JStr digest), (''actual_sha256'', JStr (sha256_bytes (ac_rt X) persisted))]), S1)
                         else case session (ingest_session X E a (str_or (ig_asset_id a) (ids E 0)) digest metadata) s0 of
                           (result, s1) \<Rightarrow> (result, S1\<lparr>as_db := s1\<rparr>)))"

definition get_asset :: "string \<Rightarrow> string \<Rightarrow> string \<Rightarrow> db \<Rightarrow> sip_error + asset_reference" where
  "get_asset tenant project asset_id s =
     (case get_ref s asset_id of
        None \<Rightarrow> Inl (NotFoundError ''asset'' asset_id)
      | Some r \<Rightarrow>
          (if r_tenant_id r \<noteq> tenant \<or> r_project_id r \<noteq> project \<or> r_tombstoned_at r \<noteq> None
           then Inl (NotFoundError ''asset'' asset_id)
           else case get_object s (r_sha256 r) of
                  None \<Rightarrow> Inl (ValidationError ''OBJECT_REFERENCE_BROKEN'' [])
                | Some obj \<Rightarrow> Inr (reference_of r obj)))"

definition read_asset ::
  "asset_ctx \<Rightarrow> env \<Rightarrow> string \<Rightarrow> string \<Rightarrow> string \<Rightarrow> string \<Rightarrow> asset_state \<Rightarrow> (sip_error + string) \<times> asset_state" where
  "read_asset X E tenant project asset_id actor S =
     (case bindE (get_asset tenant project asset_id (as_db S)) (\<lambda>ref.
             bindE (read_bytes (ac_rt X) (ac_aead X) (af_sha256 ref) (as_store S)) (\<lambda>payload.
             bindE (append_audit (ac_rt X) (ac_signing_key X) (ids E 0) (clk E 0)
               (audit_entry tenant (Some project) actor ''asset:read'' ''asset'' asset_id ''allowed''
                  [(''sha256'', JStr (af_sha256 ref))]) (as_db S)) (\<lambda>s. Inr (payload, s)))) of
        Inl e \<Rightarrow> (Inl e, S)
      | Inr (payload, s) \<Rightarrow> (Inr payload, S\<lparr>as_db := s\<rparr>))"

definition read_claims :: "string \<Rightarrow> string \<Rightarrow> string \<Rightarrow> string \<Rightarrow> fields" where
  "read_claims tenant project asset_id subject =
     [(''sub'', JStr subject), (''tenant_id'', JStr tenant), (''project_id'', JStr project),
      (''asset_id'', JStr asset_id), (''action'', JStr ''asset:read'')]"

definition issue_read_token ::
  "asset_ctx \<Rightarrow> env \<Rightarrow> int \<Rightarrow> string \<Rightarrow> string \<Rightarrow> string \<Rightarrow> string \<Rightarrow> int \<Rightarrow> asset_state \<Rightarrow> (sip_error + string) \<times> asset_state" where
  "issue_read_token X E now tenant project asset_id subject ttl S =
     (if ttl \<le> 0 \<or> ttl > 3600 then (Inl (ValidationError ''SIGNED_URL_TTL_INVALID'' []), S)
      else case bindE (get_asset tenant project asset_id (as_db S)) (\<lambda>asset.
             bindE (append_audit (ac_rt X) (ac_signing_key X) (ids E 0) (clk E 0)
               (audit_entry tenant (Some project) subject ''asset:read_token_issue'' ''asset'' asset_id ''allowed''
                  [(''action'', JStr ''asset:read''), (''ttl_seconds'', JInt ttl),
                   (''classification'', JStr (af_classification asset))]) (as_db S)) Inr) of
        Inl e \<Rightarrow> (Inl e, S)
      | Inr s \<Rightarrow> (Inr (token_encode (ac_rt X) (ac_codec X) now
          (read_claims tenant project asset_id subject) ttl), S\<lparr>as_db := s\<rparr>))"

text \<open>\<open>claims[name]\<close>; the tokens the service issues carry texts, any other type is outside the
  model and taken as an uncaught error.\<close>

definition claim_text :: "fields \<Rightarrow> string \<Rightarrow> sip_error + string" where
  "claim_text claims name = (case map_of claims name of
     None \<Rightarrow> Inl (Uncaught ''KeyError'') | Some (JStr t) \<Rightarrow> Inr t | Some _ \<Rightarrow> Inl (Uncaught ''TypeError''))"

definition read_with_token ::
  "asset_ctx \<Rightarrow> (string \<Rightarrow> json option) \<Rightarrow> env \<Rightarrow> int \<Rightarrow> string \<Rightarrow> asset_state \<Rightarrow> (sip_error + string) \<times> asset_state" where
  "read_with_token X loads E now token S =
     (case bindE (token_decode (ac_rt X) loads (ac_codec X) now token) (\<lambda>claims.
             if jget claims ''action'' \<noteq> JStr ''asset:read'' then Inl (ValidationError ''TOKEN_ACTION_INVALID'' [])
             else bindE (claim_text claims ''tenant_id'') (\<lambda>tenant.
                  bindE (claim_text claims ''project_id'') (\<lambda>project.
                  bindE (claim_text claims ''asset_id'') (\<lambda>asset_id.
                  bindE (claim_text claims ''sub'') (\<lambda>sub. Inr (tenant, project, asset_id, sub)))))) of
        Inl e \<Rightarrow> (Inl e, S)
      | Inr (tenant, project, asset_id, sub) \<Rightarrow> read_asset X E tenant project asset_id sub S)"

section \<open>Tombstones\<close>

record tombstone_report =
  tb_asset_id :: string
  tb_sha256 :: string
  tb_other_active_references :: nat
  tb_physical_object_will_be_removed :: bool
  tb_dry_run :: bool

definition other_active_refs :: "db \<Rightarrow> string \<Rightarrow> string \<Rightarrow> nat" where
  "other_active_refs s digest asset_id = length (filter (\<lambda>r. r_sha256 r = digest \<and> r_asset_id r \<noteq> asset_id
     \<and> r_tombstoned_at r = None) (asset_refs s))"

definition tombstone_fields :: "tombstone_report \<Rightarrow> fields" where
  "tombstone_fields t = [(''asset_id'', JStr (tb_asset_id t)), (''sha256'', JStr (tb_sha256 t)),
     (''other_active_references'', JInt (int (tb_other_active_references t))),
     (''physical_object_will_be_removed'', JBool (tb_physical_object_will_be_removed t)), (''dry_run'', JBool (tb_dry_run t))]"

definition tombstone_session ::
  "asset_ctx \<Rightarrow> env \<Rightarrow> string \<Rightarrow> string \<Rightarrow> string \<Rightarrow> string \<Rightarrow> bool \<Rightarrow> db \<Rightarrow> sip_error + tombstone_report \<times> db" where
  "tombstone_session X E tenant project asset_id actor dry_run s =
     (case get_ref s asset_id of
        None \<Rightarrow> Inl (NotFoundError ''asset'' asset_id)
      | Some r \<Rightarrow>
          (if r_tenant_id r \<noteq> tenant \<or> r_project_id r \<noteq> project then Inl (NotFoundError ''asset'' asset_id)
           else if r_legal_hold r then Inl (ConflictError ''LEGAL_HOLD_ACTIVE'' [])
           else let others = other_active_refs s (r_sha256 r) asset_id;
                    report = \<lparr>tb_asset_id = asset_id, tb_sha256 = r_sha256 r, tb_other_active_references = others,
                      tb_physical_object_will_be_removed = (others = 0), tb_dry_run = dry_run\<rparr>
                in if dry_run then Inr (report, s)
                   else let r' = (if r_tombstoned_at r = None then r\<lparr>r_tombstoned_at := Some (clk E 0)\<rparr> else r)
                        in bindE (append_audit (ac_rt X) (ac_signing_key X) (ids E 0) (clk E 1)
                             (audit_entry tenant (Some project) actor ''asset:tombstone'' ''asset'' asset_id ''allowed''
                                (tombstone_fields report)) (put_ref r' s))
                           (\<lambda>s'. Inr (report, s'))))"

definition tombstone ::
  "asset_ctx \<Rightarrow> env \<Rightarrow> string \<Rightarrow> string \<Rightarrow> string \<Rightarrow> string \<Rightarrow> bool \<Rightarrow> asset_state
     \<Rightarrow> (sip_error + tombstone_report) \<times> asset_state" where
  "tombstone X E tenant project asset_id actor dry_run S =
     (case session (tombstone_session X E tenant project asset_id actor dry_run) (as_db S) of
        (Inl e, s) \<Rightarrow> (Inl e, S\<lparr>as_db := s\<rparr>)
      | (Inr report, s) \<Rightarrow>
          (if tb_dry_run report then (Inr report, S\<lparr>as_db := s\<rparr>)
           else if tb_physical_object_will_be_removed report
           then (case delete_object (tb_sha256 report) (as_store S) of
                   Inl e \<Rightarrow> (Inl e, S\<lparr>as_db := s\<rparr>)
                 | Inr st \<Rightarrow> (Inr report, S\<lparr>as_db := s, as_store := st\<rparr>))
           else (Inr report, S\<lparr>as_db := s\<rparr>)))"

end
