(* ===== verification/Asset_Lifecycle.thy ===== *)
theory Asset_Lifecycle
  imports Assets Operation_Lifecycle
begin

text \<open>
  The correctness of the asset service of \<open>src/sip/assets.py\<close>: the content-addressed store keeps
  what was written, a key rotation keeps every object, live assets stay readable over any sequence
  of calls, an ingest reads back, a tombstone removes exactly what it should, and a read token
  stands for one read. The interface \<open>asset_platform\<close> is what the service needs of the
  injected deployment service.
\<close>

section \<open>The store\<close>

definition store_ok :: "runtime \<Rightarrow> aead \<Rightarrow> object_store \<Rightarrow> bool" where
  "store_ok rt A st \<longleftrightarrow> (\<forall>d ct. map_of (so_enc st) d = Some ct \<longrightarrow> hex_text 64 d \<and>
     (\<exists>m p. map_of (so_meta st) d = Some m \<and> decrypt rt A (so_cipher st) ct m d = Inr p \<and> sha256_bytes rt p = d))"

definition stored :: "object_store \<Rightarrow> string \<Rightarrow> bool" where
  "stored st d \<longleftrightarrow> map_of (so_enc st) d \<noteq> None"

lemma store_ok_read:
  assumes "store_ok rt A st" and "stored st d"
  shows "\<exists>p. read_bytes rt A d st = Inr p \<and> sha256_bytes rt p = d"
  using assms by (fastforce simp: store_ok_def stored_def read_bytes_def read_metadata_def validate_digest_def)

lemma read_bytes_cong:
  assumes "map_of (so_enc st') d = map_of (so_enc st) d" and "map_of (so_meta st') d = map_of (so_meta st) d"
    and "so_cipher st' = so_cipher st"
  shows "read_bytes rt A d st' = read_bytes rt A d st"
proof -
  have "read_metadata d st' = read_metadata d st"
    unfolding read_metadata_def assms(2) ..
  then show ?thesis by (simp only: read_bytes_def assms(1,3))
qed

lemma encrypt_decrypt:
  assumes "aead_ok A" and "encrypt rt A c rnd p aad = (ct, m)"
  shows "decrypt rt A c ct m aad = Inr p"
  using assms by (auto simp: encrypt_def Let_def decrypt_def unwrap_def b64_field_skip unseal_def aead_ok_def jget_def)

lemma write_bytes_ok:
  assumes "aead_ok A" and "store_ok rt A st" and "write_bytes rt A rnd d data st = Inr (m, st')"
  shows "store_ok rt A st' \<and> read_bytes rt A d st' = Inr data \<and> stored st' d \<and>
     (\<forall>e. e \<noteq> d \<longrightarrow> read_bytes rt A e st' = read_bytes rt A e st \<and> stored st' e = stored st e) \<and> so_cipher st' = so_cipher st"
proof -
  have h: "sha256_bytes rt data = d" "hex_text 64 d"
    using assms(3) by (auto simp: write_bytes_def result_simps validate_digest_def)
  show ?thesis
  proof (cases "stored st d")
    case True
    then obtain ct m0 where m0: "map_of (so_enc st) d = Some ct" "map_of (so_meta st) d = Some m0"
      using assms(2) by (fastforce simp: stored_def store_ok_def)
    with assms(3) have "st' = st" "read_bytes rt A d st = Inr data"
      by (auto simp: write_bytes_def result_simps)
    with True assms(2) show ?thesis by simp
  next
    case False
    obtain ct m' where enc: "encrypt rt A (so_cipher st) rnd data d = (ct, m')" by fastforce
    with False assms(3) have st': "st' = st\<lparr>so_enc := AList.update d ct (so_enc st), so_meta := AList.update d m' (so_meta st)\<rparr>"
      by (auto simp: write_bytes_def result_simps stored_def)
    have "decrypt rt A (so_cipher st) ct m' d = Inr data" by (rule encrypt_decrypt [OF assms(1) enc])
    with h have "read_bytes rt A d st' = Inr data"
      by (simp add: st' update_conv' read_bytes_def read_metadata_def validate_digest_def)
    moreover have "read_bytes rt A e st' = read_bytes rt A e st" if "e \<noteq> d" for e
      by (rule read_bytes_cong) (use that in \<open>simp_all add: st' update_conv'\<close>)
    moreover have "store_ok rt A st'"
      using h assms(2) \<open>decrypt rt A (so_cipher st) ct m' d = Inr data\<close> by (auto simp: st' store_ok_def update_conv')
    ultimately show ?thesis by (simp add: st' stored_def update_conv')
  qed
qed

lemma write_bytes_stored:
  assumes "store_ok rt A st" and "write_bytes rt A rnd d data st = Inr (m, st')" and "stored st d"
  shows "st' = st"
proof -
  obtain ct m0 where "map_of (so_enc st) d = Some ct" "map_of (so_meta st) d = Some m0"
    using assms(1,3) by (fastforce simp: stored_def store_ok_def)
  with assms(2) show ?thesis by (auto simp: write_bytes_def result_simps)
qed

lemma delete_object_ok:
  assumes "store_ok rt A st" and "delete_object d st = Inr st'"
  shows "store_ok rt A st' \<and> so_cipher st' = so_cipher st \<and> (\<forall>e. stored st' e = (e \<noteq> d \<and> stored st e)) \<and>
    (\<forall>e. e \<noteq> d \<longrightarrow> read_bytes rt A e st' = read_bytes rt A e st)"
proof -
  have st': "st' = st\<lparr>so_enc := AList.delete d (so_enc st), so_meta := AList.delete d (so_meta st)\<rparr>"
    using assms(2) by (auto simp: delete_object_def result_simps)
  have "read_bytes rt A e st' = read_bytes rt A e st" if "e \<noteq> d" for e
    by (rule read_bytes_cong) (use that in \<open>simp_all add: st' delete_conv'\<close>)
  then show ?thesis
    using assms(1) by (auto simp: st' store_ok_def stored_def delete_conv')
qed

section \<open>Rotation\<close>

lemma decrypt_unwraps: "decrypt rt A c ct m aad = Inr p \<Longrightarrow> \<exists>dk. unwrap A c m aad = Inr dk"
  by (auto simp: decrypt_def result_simps)

lemma rewrap_all_result:
  assumes "distinct ds" and "\<forall>d \<in> set ds. \<exists>m dk. map_of (so_meta st) d = Some m \<and> unwrap A (so_cipher st) m d = Inr dk"
  shows "\<exists>st'. rewrap_all A c' rnd n ds st = (Inr (n + length ds), st') \<and> so_enc st' = so_enc st \<and> so_cipher st' = so_cipher st \<and>
     (\<forall>d. d \<notin> set ds \<longrightarrow> map_of (so_meta st') d = map_of (so_meta st) d) \<and>
     (\<forall>d \<in> set ds. \<exists>nonce m m'. map_of (so_meta st) d = Some m \<and> map_of (so_meta st') d = Some m' \<and>
        rewrap A (so_cipher st) c' nonce m d = Inr m')"
  using assms
proof (induction ds arbitrary: n st)
  case (Cons d ds)
  obtain m dk where m: "map_of (so_meta st) d = Some m" "unwrap A (so_cipher st) m d = Inr dk"
    using Cons.prems(2) by auto
  then obtain m' where m': "rewrap A (so_cipher st) c' (rnd n) m d = Inr m'"
    by (auto simp: rewrap_def)
  let ?st = "st\<lparr>so_meta := AList.update d m' (so_meta st)\<rparr>"
  have other: "map_of (so_meta ?st) e = map_of (so_meta st) e" if "e \<noteq> d" for e
    using that by (simp add: update_conv')
  have "\<forall>e \<in> set ds. \<exists>m dk. map_of (so_meta ?st) e = Some m \<and> unwrap A (so_cipher ?st) m e = Inr dk"
  proof
    fix e assume e: "e \<in> set ds"
    then have "e \<noteq> d" using Cons.prems(1) by auto
    then show "\<exists>m dk. map_of (so_meta ?st) e = Some m \<and> unwrap A (so_cipher ?st) m e = Inr dk"
      using Cons.prems(2) e other by simp
  qed
  then obtain st' where st': "rewrap_all A c' rnd (Suc n) ds ?st = (Inr (Suc n + length ds), st')"
      "so_enc st' = so_enc ?st" "so_cipher st' = so_cipher ?st"
      "\<forall>e. e \<notin> set ds \<longrightarrow> map_of (so_meta st') e = map_of (so_meta ?st) e"
      "\<forall>e \<in> set ds. \<exists>nonce m m'. map_of (so_meta ?st) e = Some m \<and> map_of (so_meta st') e = Some m' \<and>
        rewrap A (so_cipher ?st) c' nonce m e = Inr m'"
    using Cons.IH [of ?st "Suc n"] Cons.prems(1) by auto
  have "map_of (so_meta st') d = Some m'"
    using st'(4) Cons.prems(1) by (simp add: update_conv')
  moreover have "\<forall>e \<in> set ds. \<exists>nonce m m'. map_of (so_meta st) e = Some m \<and> map_of (so_meta st') e = Some m' \<and>
        rewrap A (so_cipher st) c' nonce m e = Inr m'"
  proof
    fix e assume e: "e \<in> set ds"
    then have "e \<noteq> d" using Cons.prems(1) by auto
    then show "\<exists>nonce m m'. map_of (so_meta st) e = Some m \<and> map_of (so_meta st') e = Some m' \<and>
        rewrap A (so_cipher st) c' nonce m e = Inr m'"
      using bspec [OF st'(5) e] other [OF \<open>e \<noteq> d\<close>] by simp
  qed
  moreover have "rewrap_all A c' rnd n (d # ds) st = (Inr (n + length (d # ds)), st')"
    using m m' st'(1) by simp
  ultimately show ?case
    using m m' st'(2,3,4) other by (intro exI [of _ st']) auto
qed auto

lemma rotation_sound:
  assumes "aead_ok A" and "store_ok rt A st"
  shows "\<exists>report st'. rotate_envelope_key rt A c' rnd st = (Inr report, st') \<and> so_cipher st' = c' \<and> so_enc st' = so_enc st \<and>
     store_ok rt A st' \<and> (\<forall>d. read_bytes rt A d st' = read_bytes rt A d st) \<and>
     ro_object_count report = card (fst ` set (so_enc st)) \<and> ro_ciphertext_unchanged report"
proof -
  let ?ds = "sort (remdups (map fst (so_enc st)))"
  have ds: "distinct ?ds" "set ?ds = fst ` set (so_enc st)" by simp_all
  have "\<forall>d \<in> set ?ds. \<exists>m dk. map_of (so_meta st) d = Some m \<and> unwrap A (so_cipher st) m d = Inr dk"
  proof
    fix d assume "d \<in> set ?ds"
    then obtain ct where "map_of (so_enc st) d = Some ct"
      using ds(2) by (metis map_of_eq_None_iff option.exhaust)
    with assms(2) show "\<exists>m dk. map_of (so_meta st) d = Some m \<and> unwrap A (so_cipher st) m d = Inr dk"
      unfolding store_ok_def using decrypt_unwraps by metis
  qed
  from rewrap_all_result [OF ds(1) this, of c' rnd 0] obtain st' where st':
      "rewrap_all A c' rnd 0 ?ds st = (Inr (length ?ds), st')" "so_enc st' = so_enc st" "so_cipher st' = so_cipher st"
      "\<forall>d. d \<notin> set ?ds \<longrightarrow> map_of (so_meta st') d = map_of (so_meta st) d"
      "\<forall>d \<in> set ?ds. \<exists>nonce m m'. map_of (so_meta st) d = Some m \<and> map_of (so_meta st') d = Some m' \<and>
        rewrap A (so_cipher st) c' nonce m d = Inr m'" by auto
  let ?new = "st'\<lparr>so_cipher := c'\<rparr>"
  have same: "\<exists>m m'. map_of (so_meta st) d = Some m \<and> map_of (so_meta ?new) d = Some m' \<and>
      decrypt rt A c' ct m' d = decrypt rt A (so_cipher st) ct m d" if "map_of (so_enc st) d = Some ct0" for d ct ct0
  proof -
    have "d \<in> set ?ds" using that ds(2) by (metis map_of_SomeD fst_conv image_eqI)
    with st'(5) obtain nonce m m' where "map_of (so_meta st) d = Some m" "map_of (so_meta st') d = Some m'"
        "rewrap A (so_cipher st) c' nonce m d = Inr m'" by blast
    with rewrap_decrypt [OF assms(1) this(3)] show ?thesis by simp
  qed
  have read: "read_bytes rt A d ?new = read_bytes rt A d st" for d
  proof (cases "map_of (so_enc st) d")
    case (Some ct)
    from same [OF this, of ct] Some st'(2) show ?thesis
      by (cases "validate_digest d") (auto simp: read_bytes_def read_metadata_def)
  qed (simp add: read_bytes_def st'(2))
  have "store_ok rt A ?new"
    unfolding store_ok_def
  proof (intro allI impI)
    fix d ct assume "map_of (so_enc ?new) d = Some ct"
    then have ct: "map_of (so_enc st) d = Some ct" by (simp add: st'(2))
    then obtain m p where "map_of (so_meta st) d = Some m" "decrypt rt A (so_cipher st) ct m d = Inr p" "sha256_bytes rt p = d" "hex_text 64 d"
      using assms(2) unfolding store_ok_def by blast
    with same [OF ct, of ct] show "hex_text 64 d \<and> (\<exists>m p. map_of (so_meta ?new) d = Some m \<and>
        decrypt rt A (so_cipher ?new) ct m d = Inr p \<and> sha256_bytes rt p = d)" by auto
  qed
  moreover have "length ?ds = card (fst ` set (so_enc st))"
    using distinct_card [OF ds(1)] ds(2) by simp
  ultimately show ?thesis
    using st'(1,2) read by (simp add: rotate_envelope_key_def Let_def list_all_iff)
qed

text \<open>
  Rotating the envelope key of a sound store succeeds: every object then reads exactly as before
  under the new cipher, no ciphertext changes, all objects are counted and the store stays sound.
\<close>

lemma key_rotation_keeps_objects:
  assumes "aead_ok A" and "store_ok rt A st"
  shows "\<exists>report st'. rotate_envelope_key rt A c' rnd st = (Inr report, st') \<and> so_cipher st' = c' \<and> so_enc st' = so_enc st \<and>
     store_ok rt A st' \<and> (\<forall>d. read_bytes rt A d st' = read_bytes rt A d st) \<and>
     ro_object_count report = card (fst ` set (so_enc st)) \<and> ro_ciphertext_unchanged report"
  by (rule rotation_sound [OF assms])

interpretation ref_store: row_store get_ref put_ref r_asset_id
  by unfold_locales (auto simp: get_ref_def put_ref_def tget_tput_same tget_tput_other dest: tget_SomeD)

definition live :: "asset_ref_row \<Rightarrow> bool" where
  "live r \<longleftrightarrow> r_tombstoned_at r = None"

definition backed :: "asset_ctx \<Rightarrow> asset_state \<Rightarrow> asset_ref_row \<Rightarrow> bool" where
  "backed X S r \<longleftrightarrow> (\<exists>obj p. get_object (as_db S) (r_sha256 r) = Some obj \<and> stored (as_store S) (r_sha256 r) \<and>
     read_bytes (ac_rt X) (ac_aead X) (r_sha256 r) (as_store S) = Inr p \<and> a_byte_count obj = int (length p))"

definition assets_wf :: "asset_ctx \<Rightarrow> asset_state \<Rightarrow> bool" where
  "assets_wf X S \<longleftrightarrow> store_ok (ac_rt X) (ac_aead X) (as_store S) \<and> distinct (map r_asset_id (asset_refs (as_db S))) \<and>
     (\<forall>r \<in> set (asset_refs (as_db S)). live r \<longrightarrow> backed X S r)"

text \<open>What a call leaves of the assets outside \<open>K\<close>.\<close>

definition asset_keeps :: "asset_ctx \<Rightarrow> string set \<Rightarrow> asset_state \<Rightarrow> asset_state \<Rightarrow> bool" where
  "asset_keeps X K S T \<longleftrightarrow> assets_wf X T \<and>
     (\<forall>k r. k \<notin> K \<longrightarrow> get_ref (as_db S) k = Some r \<longrightarrow> live r \<longrightarrow> get_ref (as_db T) k = Some r \<and>
        get_object (as_db T) (r_sha256 r) = get_object (as_db S) (r_sha256 r) \<and>
        read_bytes (ac_rt X) (ac_aead X) (r_sha256 r) (as_store T) = read_bytes (ac_rt X) (ac_aead X) (r_sha256 r) (as_store S))"

lemma asset_keeps_trans: "asset_keeps X K S T \<Longrightarrow> asset_keeps X K T U \<Longrightarrow> asset_keeps X K S U"
  unfolding asset_keeps_def by (metis (no_types, lifting))

text \<open>A change of the store that keeps every object some live reference uses.\<close>

lemma asset_keeps_store:
  assumes "assets_wf X S" and "store_ok (ac_rt X) (ac_aead X) st"
    and "\<And>r. r \<in> set (asset_refs (as_db S)) \<Longrightarrow> live r \<Longrightarrow> stored (as_store S) (r_sha256 r) \<Longrightarrow> stored st (r_sha256 r) \<and>
      read_bytes (ac_rt X) (ac_aead X) (r_sha256 r) st = read_bytes (ac_rt X) (ac_aead X) (r_sha256 r) (as_store S)"
  shows "asset_keeps X K S (S\<lparr>as_store := st\<rparr>)"
proof -
  have b: "backed X S r" if "r \<in> set (asset_refs (as_db S))" "live r" for r
    using that assms(1) by (auto simp: assets_wf_def)
  then have s: "stored (as_store S) (r_sha256 r)" if "r \<in> set (asset_refs (as_db S))" "live r" for r
    using that by (auto simp: backed_def)
  have "assets_wf X (S\<lparr>as_store := st\<rparr>)"
    using assms(1,2) assms(3) [OF _ _ s] b by (simp add: assets_wf_def backed_def) blast
  then show ?thesis
    using assms(3) [OF _ _ s] unfolding asset_keeps_def get_ref_def by (auto dest: tget_SomeD)
qed

text \<open>A change of the database that leaves the references and only adds objects.\<close>

lemma asset_keeps_db:
  assumes "assets_wf X S" and "asset_refs s = asset_refs (as_db S)"
    and "\<And>d obj. get_object (as_db S) d = Some obj \<Longrightarrow> get_object s d = Some obj"
  shows "asset_keeps X K S (S\<lparr>as_db := s\<rparr>)"
proof -
  have b: "get_object s (r_sha256 r) = get_object (as_db S) (r_sha256 r)" if "r \<in> set (asset_refs (as_db S))" "live r" for r
    using that assms(1,3) by (force simp: assets_wf_def backed_def)
  then have "assets_wf X (S\<lparr>as_db := s\<rparr>)"
    using assms(1,2) by (auto simp: assets_wf_def backed_def)
  with b assms(2) show ?thesis
    unfolding asset_keeps_def get_ref_def by (auto dest: tget_SomeD)
qed

lemma append_audit_assets:
  "append_audit rt key i now c s = Inr t \<Longrightarrow> asset_refs t = asset_refs s \<and> assets t = assets s"
  by (auto simp: append_audit_Inr)


datatype asset_call =
    Ingest env "nat \<Rightarrow> string" ingest_args
  | ReadAsset env string string string string
  | IssueToken env int string string string string int
  | ReadToken "string \<Rightarrow> json option" env int string
  | Tombstone env string string string string bool
  | RotateKey cipher "nat \<Rightarrow> string"

fun asset_step :: "asset_ctx \<Rightarrow> deployment_service option \<Rightarrow> asset_state \<Rightarrow> asset_call \<Rightarrow> sip_error + asset_state" where
  "asset_step X dep S (Ingest E rnd a) = Inr (snd (ingest_bytes X dep E rnd a S))"
| "asset_step X dep S (ReadAsset E t p k actor) = Inr (snd (read_asset X E t p k actor S))"
| "asset_step X dep S (IssueToken E now t p k sub ttl) = Inr (snd (issue_read_token X E now t p k sub ttl S))"
| "asset_step X dep S (ReadToken loads E now token) = Inr (snd (read_with_token X loads E now token S))"
| "asset_step X dep S (Tombstone E t p k actor dry) = Inr (snd (tombstone X E t p k actor dry S))"
| "asset_step X dep S (RotateKey c rnd) =
     Inr (S\<lparr>as_store := snd (rotate_envelope_key (ac_rt X) (ac_aead X) c rnd (as_store S))\<rparr>)"

fun removes :: "asset_call \<Rightarrow> string set" where
  "removes (Tombstone E t p k actor dry) = (if dry then {} else {k})"
| "removes _ = {}"

lemma asset_keeps_refl: "assets_wf X S \<Longrightarrow> asset_keeps X K S S"
  by (simp add: asset_keeps_def)

lemma asset_keeps_audit:
  "assets_wf X S \<Longrightarrow> append_audit rt key i now c (as_db S) = Inr s \<Longrightarrow> asset_keeps X K S (S\<lparr>as_db := s\<rparr>)"
  by (rule asset_keeps_db) (auto dest!: append_audit_assets simp: get_object_def)

lemma read_asset_keeps: "assets_wf X S \<Longrightarrow> asset_keeps X K S (snd (read_asset X E t p k actor S))"
  by (auto simp: read_asset_def asset_keeps_refl bindE_Inr_conv split: sum.splits intro: asset_keeps_audit)

lemma issue_read_token_keeps: "assets_wf X S \<Longrightarrow> asset_keeps X K S (snd (issue_read_token X E now t p k sub ttl S))"
  by (auto simp: issue_read_token_def asset_keeps_refl bindE_Inr_conv split: sum.splits intro: asset_keeps_audit)

lemma read_with_token_keeps: "assets_wf X S \<Longrightarrow> asset_keeps X K S (snd (read_with_token X loads E now token S))"
  by (auto simp: read_with_token_def asset_keeps_refl split: sum.splits intro: read_asset_keeps)

lemma write_keeps:
  assumes "aead_ok (ac_aead X)" and "assets_wf X S"
    and "write_bytes (ac_rt X) (ac_aead X) rnd d data (as_store S) = Inr (m, st)"
  shows "asset_keeps X K S (S\<lparr>as_store := st\<rparr>)"
proof (rule asset_keeps_store [OF assms(2)])
  have ok: "store_ok (ac_rt X) (ac_aead X) (as_store S)"
    using assms(2) by (simp add: assets_wf_def)
  note w = write_bytes_ok [OF assms(1) ok assms(3)]
  then show "store_ok (ac_rt X) (ac_aead X) st" by simp
  fix r assume "stored (as_store S) (r_sha256 r)"
  moreover from this have "r_sha256 r = d \<Longrightarrow> st = as_store S"
    using write_bytes_stored [OF ok assms(3)] by simp
  ultimately show "stored st (r_sha256 r) \<and>
      read_bytes (ac_rt X) (ac_aead X) (r_sha256 r) st = read_bytes (ac_rt X) (ac_aead X) (r_sha256 r) (as_store S)"
    using w by (cases "r_sha256 r = d") auto
qed

text \<open>The session of an ingest: it adds at most the object's row and one live reference to bytes that are stored.\<close>

lemma ingest_session_db:
  assumes "ingest_session X E a k d m s = Inr (v, t)"
  shows "t = s \<or> (k \<notin> tkeys r_asset_id (asset_refs s) \<and> asset_refs t = asset_refs s @ [ingest_ref E a k d] \<and>
     (\<forall>e obj. get_object s e = Some obj \<longrightarrow> get_object t e = Some obj) \<and>
     (\<exists>obj. get_object t d = Some obj \<and> a_byte_count obj = int (length (ig_data a))))"
  using assms
  by (auto simp: ingest_session_def result_simps get_object_def tget_append tget_Cons ingest_ref_def
      split: option.splits if_splits dest!: append_audit_assets)

lemma ingest_session_keeps:
  assumes "assets_wf X S" and "ingest_session X E a k d m (as_db S) = Inr (v, t)"
    and "stored (as_store S) d" and "read_bytes (ac_rt X) (ac_aead X) d (as_store S) = Inr (ig_data a)"
  shows "asset_keeps X K S (S\<lparr>as_db := t\<rparr>)"
  using ingest_session_db [OF assms(2)]
proof
  assume new: "k \<notin> tkeys r_asset_id (asset_refs (as_db S)) \<and> asset_refs t = asset_refs (as_db S) @ [ingest_ref E a k d] \<and>
     (\<forall>e obj. get_object (as_db S) e = Some obj \<longrightarrow> get_object t e = Some obj) \<and>
     (\<exists>obj. get_object t d = Some obj \<and> a_byte_count obj = int (length (ig_data a)))"
  have old: "get_object t (r_sha256 r) = get_object (as_db S) (r_sha256 r)" "backed X S r"
    if "r \<in> set (asset_refs (as_db S))" "live r" for r
    using that new assms(1) by (force simp: assets_wf_def backed_def)+
  have "backed X (S\<lparr>as_db := t\<rparr>) (ingest_ref E a k d)"
    using new assms(3,4) by (auto simp: backed_def ingest_ref_def)
  moreover have "backed X (S\<lparr>as_db := t\<rparr>) r" if "r \<in> set (asset_refs (as_db S))" "live r" for r
    using old [OF that] by (simp add: backed_def)
  moreover have "distinct (map r_asset_id (asset_refs t))"
    using new assms(1) by (auto simp: assets_wf_def tkeys_def ingest_ref_def)
  ultimately have "assets_wf X (S\<lparr>as_db := t\<rparr>)"
    using assms(1) new by (simp add: assets_wf_def)
  moreover have "get_ref t j = Some r" if "get_ref (as_db S) j = Some r" for j r
    using that new by (simp add: get_ref_def tget_append)
  ultimately show ?thesis
    using old(1) unfolding asset_keeps_def by (auto simp: get_ref_def dest: tget_SomeD)
qed (use assms(1) in \<open>simp add: asset_keeps_refl\<close>)


lemma tombstone_session_db:
  assumes "tombstone_session X E t p k actor dry s = Inr (rep, s')"
  shows "\<exists>r. get_ref s k = Some r \<and> r_tenant_id r = t \<and> r_project_id r = p \<and> \<not> r_legal_hold r \<and>
     rep = \<lparr>tb_asset_id = k, tb_sha256 = r_sha256 r, tb_other_active_references = other_active_refs s (r_sha256 r) k,
       tb_physical_object_will_be_removed = (other_active_refs s (r_sha256 r) k = 0), tb_dry_run = dry\<rparr> \<and>
     (if dry then s' = s else assets s' = assets s \<and> (\<exists>r'. \<not> live r' \<and> r_asset_id r' = k \<and> r_sha256 r' = r_sha256 r \<and>
        asset_refs s' = tput r_asset_id r' (asset_refs s)))"
proof -
  obtain r where r: "get_ref s k = Some r" "r_tenant_id r = t" "r_project_id r = p" "\<not> r_legal_hold r"
    using assms by (auto simp: tombstone_session_def result_simps split: option.splits)
  then have "r_asset_id r = k" by (simp add: ref_store.get_key)
  with r assms show ?thesis
    by (auto simp: tombstone_session_def result_simps Let_def live_def put_ref_def split: if_splits dest!: append_audit_assets
        intro: exI [of _ r] exI [of _ "r\<lparr>r_tombstoned_at := Some (clk E 0)\<rparr>"])
qed

lemma tombstone_keeps:
  assumes "assets_wf X S"
  shows "asset_keeps X (removes (Tombstone E t p k actor dry)) S (snd (tombstone X E t p k actor dry S))"
proof (cases "tombstone_session X E t p k actor dry (as_db S)")
  case (Inr y)
  then obtain rep s' where y: "tombstone_session X E t p k actor dry (as_db S) = Inr (rep, s')" by (cases y) auto
  from tombstone_session_db [OF y] obtain r where r: "get_ref (as_db S) k = Some r"
      "rep = \<lparr>tb_asset_id = k, tb_sha256 = r_sha256 r, tb_other_active_references = other_active_refs (as_db S) (r_sha256 r) k,
       tb_physical_object_will_be_removed = (other_active_refs (as_db S) (r_sha256 r) k = 0), tb_dry_run = dry\<rparr>"
      and s': "if dry then s' = as_db S else assets s' = assets (as_db S) \<and> (\<exists>r'. \<not> live r' \<and> r_asset_id r' = k \<and> r_sha256 r' = r_sha256 r \<and>
        asset_refs s' = tput r_asset_id r' (asset_refs (as_db S)))" by blast
  show ?thesis
  proof (cases dry)
    case True
    with y r s' assms show ?thesis by (simp add: tombstone_def asset_keeps_refl)
  next
    case False
    with s' obtain r' where r': "\<not> live r'" "r_asset_id r' = k" "r_sha256 r' = r_sha256 r"
        "asset_refs s' = tput r_asset_id r' (asset_refs (as_db S))" "assets s' = assets (as_db S)" by auto
    let ?T = "S\<lparr>as_db := s'\<rparr>"
    have rows: "x \<in> set (asset_refs (as_db S)) \<and> r_asset_id x \<noteq> k" if "x \<in> set (asset_refs s')" "live x" for x
      using that r' by (auto dest: set_tput_unique)
    have "backed X ?T x" if "x \<in> set (asset_refs s')" "live x" for x
      using rows [OF that] that assms r'(5) by (auto simp: assets_wf_def backed_def get_object_def)
    then have wf: "assets_wf X ?T"
      using assms r'(4) by (simp add: assets_wf_def)
    have 1: "asset_keeps X {k} S ?T"
      using wf r' unfolding asset_keeps_def by (simp add: get_object_def get_ref_def tget_tput_other)
    show ?thesis
    proof (cases "delete_object (r_sha256 r) (as_store S)")
      case (Inr st)
      have ok: "store_ok (ac_rt X) (ac_aead X) (as_store S)" using assms by (simp add: assets_wf_def)
      have "asset_keeps X {k} ?T (?T\<lparr>as_store := st\<rparr>)" if none: "other_active_refs (as_db S) (r_sha256 r) k = 0"
      proof (rule asset_keeps_store [OF wf])
        show "store_ok (ac_rt X) (ac_aead X) st" using delete_object_ok [OF ok Inr] by simp
        fix x assume x: "x \<in> set (asset_refs (as_db ?T))" "live x" "stored (as_store ?T) (r_sha256 x)"
        then have "r_sha256 x \<noteq> r_sha256 r"
          using none rows [of x] by (auto simp: other_active_refs_def live_def filter_empty_conv)
        with x(3) show "stored st (r_sha256 x) \<and>
            read_bytes (ac_rt X) (ac_aead X) (r_sha256 x) st = read_bytes (ac_rt X) (ac_aead X) (r_sha256 x) (as_store ?T)"
          using delete_object_ok [OF ok Inr] by simp
      qed
      then show ?thesis
        using False y r(2) Inr 1 by (auto simp: tombstone_def intro: asset_keeps_trans)
    qed (use False y r(2) 1 in \<open>auto simp: tombstone_def\<close>)
  qed
qed (use assms in \<open>simp add: tombstone_def asset_keeps_refl\<close>)

lemma rotate_keeps:
  assumes "aead_ok (ac_aead X)" and "assets_wf X S"
  shows "asset_keeps X K S (S\<lparr>as_store := snd (rotate_envelope_key (ac_rt X) (ac_aead X) c rnd (as_store S))\<rparr>)"
proof -
  have ok: "store_ok (ac_rt X) (ac_aead X) (as_store S)" using assms(2) by (simp add: assets_wf_def)
  from rotation_sound [OF assms(1) ok, of c rnd] obtain rep st where
    st: "rotate_envelope_key (ac_rt X) (ac_aead X) c rnd (as_store S) = (Inr rep, st)" "so_enc st = so_enc (as_store S)"
      "store_ok (ac_rt X) (ac_aead X) st" "\<forall>d. read_bytes (ac_rt X) (ac_aead X) d st = read_bytes (ac_rt X) (ac_aead X) d (as_store S)"
    by blast
  show ?thesis
    unfolding st(1) snd_conv using st(2-4) by (intro asset_keeps_store [OF assms(2)]) (simp_all add: stored_def)
qed

lemma asset_state_commute: "S\<lparr>as_store := st, as_db := s\<rparr> = S\<lparr>as_db := s, as_store := st\<rparr>"
  by simp

section \<open>Runs\<close>

text \<open>What the asset service relies on in the deployment service: it does not write the asset tables.\<close>

locale asset_platform =
  fixes deployment :: "deployment_service option"
  assumes deployment_frame: "deployment = Some service \<Longrightarrow>
      asset_refs (snd (service a s)) = asset_refs s \<and> assets (snd (service a s)) = assets s"
begin

lemma admit_frame: "asset_refs (snd (admit deployment a s)) = asset_refs s \<and> assets (snd (admit deployment a s)) = assets s"
  using deployment_frame by (simp add: admit_def split: option.splits)

lemma ingest_keeps:
  assumes "aead_ok (ac_aead X)" and "assets_wf X S"
  shows "asset_keeps X K S (snd (ingest_bytes X deployment E rnd a S))"
proof -
  obtain x s0 where ad: "admit deployment (upload_admission a) (as_db S) = (x, s0)" by fastforce
  let ?S0 = "S\<lparr>as_db := s0\<rparr>" and ?d = "sha256_bytes (ac_rt X) (ig_data a)"
  have 0: "asset_keeps X K S ?S0"
    using admit_frame [of "upload_admission a" "as_db S"] ad by (intro asset_keeps_db [OF assms(2)]) (auto simp: get_object_def)
  then have wf0: "assets_wf X ?S0" by (simp add: asset_keeps_def)
  show ?thesis
  proof (cases "write_bytes (ac_rt X) (ac_aead X) rnd ?d (ig_data a) (as_store ?S0)")
    case (Inr y)
    then obtain m st where w: "write_bytes (ac_rt X) (ac_aead X) rnd ?d (ig_data a) (as_store ?S0) = Inr (m, st)" by (cases y) auto
    let ?S1 = "?S0\<lparr>as_store := st\<rparr>"
    have 1: "asset_keeps X K ?S0 ?S1" by (rule write_keeps [OF assms(1) wf0 w])
    then have wf1: "assets_wf X ?S1" by (simp add: asset_keeps_def)
    have "store_ok (ac_rt X) (ac_aead X) (as_store ?S0)" using wf0 by (simp add: assets_wf_def)
    from write_bytes_ok [OF assms(1) this w] have st: "stored st ?d" "read_bytes (ac_rt X) (ac_aead X) ?d st = Inr (ig_data a)" by auto
    have "asset_keeps X K ?S1 (?S1\<lparr>as_db := t\<rparr>)" if "ingest_session X E a k ?d m s0 = Inr (v, t)" for k v t
      by (rule ingest_session_keeps [OF wf1, where E = E and k = k and m = m and v = v]) (use that st in simp_all)
    then have "asset_keeps X K ?S1 (snd (ingest_bytes X deployment E rnd a S))" if "x = Inr u" for u
      using ad w st that wf1 by (auto simp: ingest_bytes_def session_def asset_keeps_refl asset_state_commute split: sum.split)
    then show ?thesis
      using 0 asset_keeps_trans [OF 0 1] ad by (cases x) (auto simp: ingest_bytes_def intro: asset_keeps_trans)
  qed (use 0 ad in \<open>cases x; simp add: ingest_bytes_def\<close>)
qed

lemma asset_step_keeps:
  "aead_ok (ac_aead X) \<Longrightarrow> assets_wf X S \<Longrightarrow> asset_step X deployment S e = Inr T \<Longrightarrow> asset_keeps X (removes e) S T"
  by (cases e) (auto simp: ingest_keeps read_asset_keeps issue_read_token_keeps read_with_token_keeps rotate_keeps
      simp del: removes.simps intro: tombstone_keeps)

lemma asset_run_keeps:
  assumes "aead_ok (ac_aead X)" and "assets_wf X S" and "\<forall>e \<in> set calls. removes e \<subseteq> K"
  shows "asset_keeps X K S (run (asset_step X deployment) calls S)"
  using assms(2,3)
proof (induction calls arbitrary: S)
  case (Cons e calls)
  obtain T where T: "asset_step X deployment S e = Inr T" by (cases e) auto
  then have k: "asset_keeps X K S T"
    using asset_step_keeps [OF assms(1) Cons.prems(1) T] Cons.prems(2) unfolding asset_keeps_def by fastforce
  then have "asset_keeps X K T (run (asset_step X deployment) calls T)"
    using Cons by (simp add: asset_keeps_def)
  with k T show ?case by (auto simp: settle_def intro: asset_keeps_trans)
qed (simp add: asset_keeps_refl)

end

interpretation local_assets: asset_platform None
  by unfold_locales simp

text \<open>
  C6. An asset that can be looked up stays so, with the same bytes, whatever else the service does:
  ingests (of the same content too), reads, tokens, tombstones of other assets that share its
  content, dry runs and rotations of the envelope key. Its size and digest describe those bytes.
\<close>

theorem live_assets_stay_readable:
  assumes "asset_platform dep" and "aead_ok (ac_aead X)" and "assets_wf X S"
    and "get_asset t p k (as_db S) = Inr ref" and "\<forall>e \<in> set calls. k \<notin> removes e"
  shows "get_asset t p k (as_db (run (asset_step X dep) calls S)) = Inr ref \<and>
    (\<exists>data. read_bytes (ac_rt X) (ac_aead X) (af_sha256 ref) (as_store S) = Inr data \<and>
      read_bytes (ac_rt X) (ac_aead X) (af_sha256 ref) (as_store (run (asset_step X dep) calls S)) = Inr data \<and>
      af_byte_count ref = int (length data) \<and> af_sha256 ref = sha256_bytes (ac_rt X) data)"
proof -
  obtain r obj where r: "get_ref (as_db S) k = Some r" "live r" "get_object (as_db S) (r_sha256 r) = Some obj" "ref = reference_of r obj"
      and own: "r_tenant_id r = t" "r_project_id r = p"
    using assms(4) by (auto simp: get_asset_def result_simps live_def split: option.splits)
  have ok: "store_ok (ac_rt X) (ac_aead X) (as_store S)" using assms(3) by (simp add: assets_wf_def)
  have "backed X S r" using r(1,2) assms(3) by (auto simp: assets_wf_def get_ref_def dest: tget_SomeD)
  with r(3) obtain data where d: "stored (as_store S) (r_sha256 r)" "a_byte_count obj = int (length data)"
      "read_bytes (ac_rt X) (ac_aead X) (r_sha256 r) (as_store S) = Inr data" by (auto simp: backed_def)
  with store_ok_read [OF ok d(1)] have "sha256_bytes (ac_rt X) data = r_sha256 r" by simp
  moreover have "asset_keeps X (- {k}) S (run (asset_step X dep) calls S)"
    using assms(5) by (intro asset_platform.asset_run_keeps [OF assms(1-3)]) blast
  then have "get_ref (as_db (run (asset_step X dep) calls S)) k = Some r \<and>
        get_object (as_db (run (asset_step X dep) calls S)) (r_sha256 r) = get_object (as_db S) (r_sha256 r) \<and>
        read_bytes (ac_rt X) (ac_aead X) (r_sha256 r) (as_store (run (asset_step X dep) calls S))
          = read_bytes (ac_rt X) (ac_aead X) (r_sha256 r) (as_store S)"
    using r(1,2) unfolding asset_keeps_def by simp
  ultimately show ?thesis
    using own r d by (simp add: get_asset_def live_def reference_of_def)
qed

lemma ingest_result:
  assumes "asset_platform dep" and "aead_ok (ac_aead X)" and "assets_wf X S"
    and "ingest_bytes X dep E rnd a S = (Inr ref, S')"
  shows "assets_wf X S' \<and> af_asset_id ref = str_or (ig_asset_id a) (ids E 0) \<and>
    af_sha256 ref = sha256_bytes (ac_rt X) (ig_data a) \<and> af_byte_count ref = int (length (ig_data a)) \<and>
    read_bytes (ac_rt X) (ac_aead X) (af_sha256 ref) (as_store S') = Inr (ig_data a) \<and>
    (\<exists>obj. get_object (as_db S') (af_sha256 ref) = Some obj \<and>
      get_asset (ig_tenant_id a) (ig_project_id a) (af_asset_id ref) (as_db S') = Inr (ref\<lparr>af_media_type := a_media_type obj\<rparr>))"
proof -
  let ?k = "str_or (ig_asset_id a) (ids E 0)" and ?d = "sha256_bytes (ac_rt X) (ig_data a)"
  have wf: "assets_wf X S'"
    using asset_platform.ingest_keeps [OF assms(1-3), where E = E and rnd = rnd and a = a and K = "{}"] assms(4)
    by (simp add: asset_keeps_def)
  obtain m st s0 t where st: "read_bytes (ac_rt X) (ac_aead X) ?d st = Inr (ig_data a)"
      and t: "ingest_session X E a ?k ?d m s0 = Inr (ref, t)" and S': "S' = S\<lparr>as_db := t, as_store := st\<rparr>"
    using assms(4) by (auto simp: ingest_bytes_def Let_def session_def split: prod.splits sum.splits if_splits)
  show ?thesis
  proof (cases "get_ref s0 ?k")
    case None
    with t show ?thesis
      using wf st S' by (auto simp: ingest_session_def result_simps get_object_def get_asset_def get_ref_def tget_append tget_Cons
          ingest_ref_def reference_of_def split: option.splits dest!: append_audit_assets)
  next
    case (Some r)
    then have r: "r_tenant_id r = ig_tenant_id a" "r_project_id r = ig_project_id a" "r_sha256 r = ?d" "r_tombstoned_at r = None"
        "t = s0" and "\<exists>obj. get_object s0 ?d = Some obj \<and> ref = reference_of r obj"
      using t by (auto simp: ingest_session_def result_simps split: option.splits if_splits)
    then obtain obj where obj: "get_object s0 ?d = Some obj" "ref = reference_of r obj" by blast
    have "r_asset_id r = ?k" using Some by (rule ref_store.get_key)
    moreover have "backed X S' r"
      using wf Some r(4,5) S' by (auto simp: assets_wf_def get_ref_def live_def dest: tget_SomeD)
    ultimately show ?thesis
      using wf st S' Some r obj by (auto simp: get_asset_def reference_of_def backed_def)
  qed
qed

text \<open>
  C30. What was ingested is what is read back: after a successful ingest the returned reference has
  the digest and size of the data, its content reads as exactly the data, and looking the asset up
  gives that reference, with the media type recorded for the content when it was first stored.
\<close>

theorem ingest_read_round_trip:
  assumes "asset_platform dep" and "aead_ok (ac_aead X)" and "assets_wf X S"
    and "ingest_bytes X dep E rnd a S = (Inr ref, S')"
  shows "assets_wf X S' \<and> af_asset_id ref = str_or (ig_asset_id a) (ids E 0) \<and>
    af_sha256 ref = sha256_bytes (ac_rt X) (ig_data a) \<and> af_byte_count ref = int (length (ig_data a)) \<and>
    read_bytes (ac_rt X) (ac_aead X) (af_sha256 ref) (as_store S') = Inr (ig_data a) \<and>
    (\<exists>obj. get_object (as_db S') (af_sha256 ref) = Some obj \<and>
      get_asset (ig_tenant_id a) (ig_project_id a) (af_asset_id ref) (as_db S') = Inr (ref\<lparr>af_media_type := a_media_type obj\<rparr>))"
  by (rule ingest_result [OF assms])

text \<open>
  A tombstone needs the asset in the caller's tenant and project and no legal hold. Its report is
  the one a dry run gives, and a dry run changes nothing. Afterwards nobody can look the asset up,
  and its content is gone exactly if no other live asset of any tenant shares it; all other content
  stays.
\<close>

lemma tombstone_removes_exactly:
  assumes "assets_wf X S" and "tombstone X E t p k actor dry S = (Inr rep, S')"
  shows "tombstone X E t p k actor True S = (Inr (rep\<lparr>tb_dry_run := True\<rparr>), S) \<and> (dry \<longrightarrow> S' = S) \<and>
    (\<exists>r. get_ref (as_db S) k = Some r \<and> r_tenant_id r = t \<and> r_project_id r = p \<and> \<not> r_legal_hold r \<and> tb_sha256 rep = r_sha256 r) \<and>
    (\<not> dry \<longrightarrow> (\<forall>t' p'. get_asset t' p' k (as_db S') = Inl (NotFoundError ''asset'' k))) \<and>
    (\<forall>d. stored (as_store S') d \<longleftrightarrow> stored (as_store S) d \<and>
      (dry \<or> d \<noteq> tb_sha256 rep \<or> (\<exists>r \<in> set (asset_refs (as_db S)). r_sha256 r = d \<and> r_asset_id r \<noteq> k \<and> live r)))"
proof -
  obtain s' where y: "tombstone_session X E t p k actor dry (as_db S) = Inr (rep, s')"
    using assms(2) by (auto simp: tombstone_def session_def split: sum.splits prod.splits if_splits)
  from tombstone_session_db [OF y] obtain r where r: "get_ref (as_db S) k = Some r" "r_tenant_id r = t" "r_project_id r = p" "\<not> r_legal_hold r"
      "rep = \<lparr>tb_asset_id = k, tb_sha256 = r_sha256 r, tb_other_active_references = other_active_refs (as_db S) (r_sha256 r) k,
       tb_physical_object_will_be_removed = (other_active_refs (as_db S) (r_sha256 r) k = 0), tb_dry_run = dry\<rparr>"
      and s': "if dry then s' = as_db S else assets s' = assets (as_db S) \<and> (\<exists>r'. \<not> live r' \<and> r_asset_id r' = k \<and> r_sha256 r' = r_sha256 r \<and>
        asset_refs s' = tput r_asset_id r' (asset_refs (as_db S)))" by blast
  have ok: "store_ok (ac_rt X) (ac_aead X) (as_store S)" using assms(1) by (simp add: assets_wf_def)
  have others: "other_active_refs (as_db S) (r_sha256 r) k = 0 \<longleftrightarrow>
      \<not> (\<exists>x \<in> set (asset_refs (as_db S)). r_sha256 x = r_sha256 r \<and> r_asset_id x \<noteq> k \<and> live x)"
    by (auto simp: other_active_refs_def live_def filter_empty_conv)
  have "tombstone X E t p k actor True S = (Inr (rep\<lparr>tb_dry_run := True\<rparr>), S)"
    using r by (simp add: tombstone_def tombstone_session_def Let_def session_def)
  moreover have "S' = S" if dry using that assms(2) y r(5) s' by (simp add: tombstone_def)
  moreover have "get_asset t' p' k (as_db S') = Inl (NotFoundError ''asset'' k) \<and>
      (\<forall>d. stored (as_store S') d \<longleftrightarrow> stored (as_store S) d \<and> (d \<noteq> r_sha256 r \<or> other_active_refs (as_db S) (r_sha256 r) k \<noteq> 0))"
    if nd: "\<not> dry" for t' p'
  proof -
    from s' nd obtain r' where r': "\<not> live r'" "r_asset_id r' = k" "asset_refs s' = tput r_asset_id r' (asset_refs (as_db S))" by auto
    then have "get_ref s' k = Some r'" using r(1) by (auto simp: get_ref_def intro: tget_tput_same)
    then have "get_asset t' p' k s' = Inl (NotFoundError ''asset'' k)"
      using r'(1) by (auto simp: get_asset_def live_def)
    moreover have "as_db S' = s'"
      using assms(2) y r(5) nd by (auto simp: tombstone_def split: if_splits sum.splits)
    moreover have "if other_active_refs (as_db S) (r_sha256 r) k = 0 then delete_object (r_sha256 r) (as_store S) = Inr (as_store S')
        else as_store S' = as_store S"
      using assms(2) y r(5) nd by (auto simp: tombstone_def split: if_splits sum.splits)
    ultimately show ?thesis
      using delete_object_ok [OF ok] by (auto split: if_splits)
  qed
  ultimately show ?thesis
    using r(1-5) others by (cases dry) auto
qed

text \<open>
  A read token stands for the right it was issued for and nothing else: presented at any later
  state it does exactly what a read of that asset by that subject does, audit entry included, until
  it expires; then it is refused and nothing changes.
\<close>

lemma issued_token_reads_asset:
  assumes "issue_read_token X E now t p k sub ttl S = (Inr token, S1)"
    and "loads (canonical_json (ac_rt X) (JObj (token_body (ac_codec X) now (read_claims t p k sub) ttl)))
       = Some (jnorm (JObj (token_body (ac_codec X) now (read_claims t p k sub) ttl)))"
  shows "read_with_token X loads E' time token S2
    = (if time \<le> now + ttl then read_asset X E' t p k sub S2 else (Inl (AuthenticationError ''TOKEN_EXPIRED'' []), S2))"
proof -
  let ?claims = "read_claims t p k sub"
  have token: "token = token_encode (ac_rt X) (ac_codec X) now ?claims ttl"
    using assms(1) by (auto simp: issue_read_token_def split: if_splits sum.splits)
  from token_decode_encode [of ?claims loads "ac_rt X" "ac_codec X" now ttl time, OF _ assms(2)] obtain c where
    c: "\<forall>k. map_of c k = map_option jnorm (map_of (token_body (ac_codec X) now ?claims ttl) k)"
    and dec: "token_decode (ac_rt X) loads (ac_codec X) time token
       = (if time \<le> now + ttl then Inr c else Inl (AuthenticationError ''TOKEN_EXPIRED'' []))"
    unfolding token by (auto simp: read_claims_def)
  have "map_of c ''sub'' = Some (JStr sub)" "map_of c ''tenant_id'' = Some (JStr t)" "map_of c ''project_id'' = Some (JStr p)"
      "map_of c ''asset_id'' = Some (JStr k)" "map_of c ''action'' = Some (JStr ''asset:read'')"
    by (simp_all add: c token_body_def map_of_jset read_claims_def)
  then show ?thesis
    by (simp add: read_with_token_def dec claim_text_def jget_def)
qed


section \<open>Instances\<close>

definition sample_ctx :: asset_ctx where
  "sample_ctx = \<lparr>ac_rt = hex_runtime, ac_signing_key = ''key'', ac_aead = plain_aead, ac_codec = sample_codec\<rparr>"

definition sample_assets :: asset_state where
  "sample_assets = \<lparr>as_db = empty_db\<lparr>projects := [\<lparr>pr_project_id = ''p'', pr_tenant_id = ''t'', pr_name = ''n'',
       pr_vertical = ''v'', pr_classification = ''internal'', pr_status = ''active'', pr_created_at = 1\<rparr>]\<rparr>,
     as_store = \<lparr>so_enc = [], so_meta = [], so_cipher = sample_cipher ''a''\<rparr>, as_files = [], as_dirs = []\<rparr>"

definition sample_ingest :: ingest_args where
  "sample_ingest = \<lparr>ig_tenant_id = ''t'', ig_project_id = ''p'', ig_data = ''abc'', ig_media_type = ''text/plain'',
     ig_original_name = ''f'', ig_classification = ''internal'', ig_retention_class = ''standard'',
     ig_source_class = ''observed'', ig_authority_class = ''raw'', ig_provenance = [], ig_actor_id = ''u'',
     ig_asset_id = Some ''x'', ig_deployment_region = JNull, ig_asset_class = ''raw''\<rparr>"

definition sample_digest :: string where
  "sample_digest = replicate 64 CHR ''3''"

definition sample_object :: object_store where
  "sample_object = (case write_bytes hex_runtime plain_aead nat_repr sample_digest ''abc'' (as_store sample_assets) of Inr (m, st) \<Rightarrow> st)"

definition sample_stored :: asset_state where
  "sample_stored = sample_assets\<lparr>as_db := (as_db sample_assets)\<lparr>
       assets := [\<lparr>a_sha256 = sample_digest, a_byte_count = 3, a_media_type = ''text/plain'', a_storage_key = ''33/33/x.enc'',
         a_encryption_metadata = [], a_created_at = 5\<rparr>],
       asset_refs := [ingest_ref (at_time 5) sample_ingest ''x'' sample_digest]\<rparr>,
     as_store := sample_object\<rparr>"

definition sample_reference :: asset_reference where
  "sample_reference = \<lparr>af_asset_id = ''x'', af_sha256 = sample_digest, af_byte_count = 3, af_media_type = ''text/plain'',
     af_original_name = ''f'', af_classification = ''internal'', af_source_class = ''observed'', af_authority_class = ''raw''\<rparr>"

lemma sample_aead: "aead_ok (ac_aead sample_ctx)"
  by (simp add: sample_ctx_def plain_aead_ok)

lemma sample_assets_wf: "assets_wf sample_ctx sample_assets"
  by (simp add: assets_wf_def sample_assets_def store_ok_def empty_db_def)

lemma sample_sha: "sha256_bytes hex_runtime ''abc'' = sample_digest"
  by (simp add: sha256_bytes_def hex_runtime_def sample_digest_def hex_char_def)

lemma sample_digest_hex: "hex_text 64 sample_digest"
  using hex_runtime_hex sample_sha unfolding sha256_bytes_def by metis

lemma write_fresh:
  "\<not> stored st d \<Longrightarrow> sha256_bytes rt data = d \<Longrightarrow> hex_text 64 d \<Longrightarrow> \<exists>m st'. write_bytes rt A rnd d data st = Inr (m, st')"
  by (auto simp: write_bytes_def validate_digest_def stored_def split: prod.split)

lemma sample_object_ok:
  "store_ok hex_runtime plain_aead sample_object \<and> stored sample_object sample_digest \<and>
   read_bytes hex_runtime plain_aead sample_digest sample_object = Inr ''abc''"
proof -
  have "\<not> stored (as_store sample_assets) sample_digest" "store_ok hex_runtime plain_aead (as_store sample_assets)"
    by (simp_all add: stored_def sample_assets_def store_ok_def)
  moreover from write_fresh [OF this(1) sample_sha sample_digest_hex, of plain_aead nat_repr] obtain m st' where
    "write_bytes hex_runtime plain_aead nat_repr sample_digest ''abc'' (as_store sample_assets) = Inr (m, st')" by blast
  ultimately show ?thesis
    using write_bytes_ok [OF plain_aead_ok] by (simp add: sample_object_def)
qed

lemma sample_stored_wf: "assets_wf sample_ctx sample_stored"
  using sample_object_ok
  by (simp add: assets_wf_def sample_stored_def sample_ctx_def backed_def get_object_def tget_Cons ingest_ref_def)

lemma sample_asset: "get_asset ''t'' ''p'' ''x'' (as_db sample_stored) = Inr sample_reference"
  by (simp add: get_asset_def get_ref_def sample_stored_def tget_Cons ingest_ref_def get_object_def reference_of_def
      sample_reference_def sample_ingest_def)

lemma no_asset_deployment: "asset_platform None"
  by unfold_locales simp

lemma key_rotation_keeps_objects_witness:
  "\<exists>report st'. rotate_envelope_key hex_runtime plain_aead (sample_cipher ''b'') nat_repr sample_object = (Inr report, st') \<and>
     read_bytes hex_runtime plain_aead sample_digest st' = Inr ''abc''"
  using key_rotation_keeps_objects [OF plain_aead_ok, of hex_runtime sample_object "sample_cipher ''b''" nat_repr] sample_object_ok
  by auto

lemma live_assets_stay_readable_witness:
  "get_asset ''t'' ''p'' ''x'' (as_db (run (asset_step sample_ctx None)
     [RotateKey (sample_cipher ''b'') nat_repr, Tombstone (at_time 9) ''t'' ''p'' ''y'' ''u'' False, Ingest (at_time 10) nat_repr sample_ingest]
     sample_stored)) = Inr sample_reference"
  by (rule live_assets_stay_readable [OF no_asset_deployment sample_aead sample_stored_wf sample_asset, THEN conjunct1]) simp

lemma sample_ingest_returns:
  "\<exists>S'. ingest_bytes sample_ctx None (at_time 5) nat_repr sample_ingest sample_assets = (Inr sample_reference, S')"
proof -
  have "\<not> stored (as_store sample_assets) sample_digest" "store_ok hex_runtime plain_aead (as_store sample_assets)"
    by (simp_all add: stored_def sample_assets_def store_ok_def)
  moreover from write_fresh [OF this(1) sample_sha sample_digest_hex, of plain_aead nat_repr] obtain m st' where
    w: "write_bytes hex_runtime plain_aead nat_repr sample_digest ''abc'' (as_store sample_assets) = Inr (m, st')" by blast
  ultimately have r: "read_bytes hex_runtime plain_aead sample_digest st' = Inr ''abc''"
    using write_bytes_ok [OF plain_aead_ok] by blast
  have "\<exists>t. ingest_session sample_ctx (at_time 5) sample_ingest ''x'' sample_digest m (as_db sample_assets) = Inr (sample_reference, t)"
    using sample_digest_hex
    by (simp add: ingest_session_def append_audit_first sample_assets_def sample_ingest_def empty_db_def get_project_def get_ref_def
        get_object_def tget_Cons storage_key_def validate_digest_def insert_row_def sample_reference_def ingest_ref_def)
  then obtain t where t: "ingest_session sample_ctx (at_time 5) sample_ingest ''x'' sample_digest m (as_db sample_assets) = Inr (sample_reference, t)" ..
  with w r show ?thesis
    by (simp add: ingest_bytes_def admit_def sample_ctx_def sample_ingest_def sample_sha str_or_def)
qed

lemma ingest_read_round_trip_witness:
  "\<exists>S'. ingest_bytes sample_ctx None (at_time 5) nat_repr sample_ingest sample_assets = (Inr sample_reference, S') \<and>
     read_bytes hex_runtime plain_aead sample_digest (as_store S') = Inr ''abc''"
proof -
  obtain S' where S': "ingest_bytes sample_ctx None (at_time 5) nat_repr sample_ingest sample_assets = (Inr sample_reference, S')"
    using sample_ingest_returns by blast
  with ingest_read_round_trip [OF no_asset_deployment sample_aead sample_assets_wf S'] show ?thesis
    by (simp add: sample_ctx_def sample_reference_def sample_ingest_def)
qed

lemma tombstone_removes_exactly_witness:
  "\<exists>rep S'. tombstone sample_ctx (at_time 9) ''t'' ''p'' ''x'' ''u'' False sample_stored = (Inr rep, S') \<and>
     get_asset ''t'' ''p'' ''x'' (as_db S') = Inl (NotFoundError ''asset'' ''x'') \<and> \<not> stored (as_store S') sample_digest"
proof -
  obtain rep s' where y: "tombstone_session sample_ctx (at_time 9) ''t'' ''p'' ''x'' ''u'' False (as_db sample_stored) = Inr (rep, s')"
    and d: "tb_sha256 rep = sample_digest"
    by (simp add: tombstone_session_def append_audit_first sample_stored_def sample_assets_def empty_db_def get_ref_def tget_Cons
        ingest_ref_def sample_ingest_def put_ref_def Let_def)
  then obtain S' where S': "tombstone sample_ctx (at_time 9) ''t'' ''p'' ''x'' ''u'' False sample_stored = (Inr rep, S')"
    using sample_digest_hex
    by (cases "tb_dry_run rep"; cases "tb_physical_object_will_be_removed rep"; simp add: tombstone_def delete_object_def validate_digest_def)
  from tombstone_removes_exactly [OF sample_stored_wf S'] S' d show ?thesis
    by (auto simp: sample_stored_def ingest_ref_def)
qed

lemma issued_token_reads_asset_witness:
  "\<exists>token S1. issue_read_token sample_ctx (at_time 9) 100 ''t'' ''p'' ''x'' ''u'' 60 sample_stored = (Inr token, S1) \<and>
     read_with_token sample_ctx (\<lambda>_. Some (jnorm (JObj (token_body sample_codec 100 (read_claims ''t'' ''p'' ''x'' ''u'') 60)))) (at_time 9) 161 token S1
       = (Inl (AuthenticationError ''TOKEN_EXPIRED'' []), S1)"
proof -
  obtain token S1 where S1: "issue_read_token sample_ctx (at_time 9) 100 ''t'' ''p'' ''x'' ''u'' 60 sample_stored = (Inr token, S1)"
    using sample_asset by (simp add: issue_read_token_def append_audit_first sample_stored_def sample_assets_def empty_db_def)
  from issued_token_reads_asset [OF S1, of "\<lambda>_. Some (jnorm (JObj (token_body sample_codec 100 (read_claims ''t'' ''p'' ''x'' ''u'') 60)))" "at_time 9" 161 S1]
  show ?thesis using S1 by (auto simp: sample_ctx_def)
qed

end
