(* ===== verification/Multipart.thy ===== *)
theory Multipart
  imports Asset_Lifecycle
begin

text \<open>
  The multipart uploads of \<open>src/sip/assets.py\<close>: \<open>begin_multipart\<close>, \<open>multipart_status\<close>,
  \<open>put_part\<close> and \<open>complete_multipart\<close>.

  The part files are \<open>as_files\<close>, keyed by their path below \<open>multipart_root\<close>, and the
  directories of open uploads are \<open>as_dirs\<close>. The write of a part to a temporary file and its
  rename is one step, and a file reads back what was written to it. Shown: every part of an open
  upload stays on disk as it was verified, so an upload can always be resumed; an upload that
  completes ingests exactly the declared bytes, once; and the status of a completed upload fails.
\<close>

section \<open>Operations\<close>

definition get_upload :: "db \<Rightarrow> string \<Rightarrow> multipart_upload_row option" where
  "get_upload s k = tget mu_upload_id (multipart_uploads s) k"

definition part_path :: "string \<Rightarrow> int \<Rightarrow> string" where
  "part_path upload_id part_number =
     (let n = nat_repr (nat part_number) in upload_id @ ''/'' @ replicate (8 - length n) CHR ''0'' @ n @ ''.part'')"

record begin_args =
  bm_tenant_id :: string
  bm_project_id :: string
  bm_expected_sha256 :: string
  bm_expected_bytes :: int
  bm_media_type :: string
  bm_metadata :: fields
  bm_actor_id :: string
  bm_deployment_region :: json
  bm_asset_class :: string

definition multipart_admission :: "begin_args \<Rightarrow> admission_request" where
  "multipart_admission a =
     \<lparr>ad_tenant_id = bm_tenant_id a, ad_project_id = bm_project_id a, ad_admission_type = ''asset_upload'',
      ad_region = bm_deployment_region a,
      ad_request = [(''asset_class'', JStr (bm_asset_class a)), (''byte_count'', JInt (bm_expected_bytes a)),
        (''media_type'', JStr (bm_media_type a)), (''multipart'', JBool True)],
      ad_actor_id = bm_actor_id a\<rparr>"

definition new_upload :: "env \<Rightarrow> begin_args \<Rightarrow> multipart_upload_row" where
  "new_upload E a =
     \<lparr>mu_upload_id = ids E 0, mu_tenant_id = bm_tenant_id a, mu_project_id = bm_project_id a,
      mu_expected_sha256 = bm_expected_sha256 a, mu_expected_bytes = bm_expected_bytes a,
      mu_media_type = bm_media_type a,
      mu_metadata_json = jset ''asset_class'' (JStr (bm_asset_class a))
        (jset ''deployment_region'' (bm_deployment_region a) (bm_metadata a)),
      mu_state = ''open'', mu_created_by = bm_actor_id a, mu_created_at = clk E 0, mu_completed_at = None\<rparr>"

definition begin_session :: "env \<Rightarrow> begin_args \<Rightarrow> db \<Rightarrow> sip_error + unit \<times> db" where
  "begin_session E a s =
     (case get_project s (bm_project_id a) of
        None \<Rightarrow> Inl (NotFoundError ''project'' (bm_project_id a))
      | Some project \<Rightarrow>
          (if pr_tenant_id project \<noteq> bm_tenant_id a then Inl (NotFoundError ''project'' (bm_project_id a))
           else bindE (insert_row mu_upload_id (new_upload E a) (multipart_uploads s))
                  (\<lambda>rows. Inr ((), s\<lparr>multipart_uploads := rows\<rparr>))))"

definition begin_multipart ::
  "deployment_service option \<Rightarrow> env \<Rightarrow> begin_args \<Rightarrow> asset_state \<Rightarrow> (sip_error + string) \<times> asset_state" where
  "begin_multipart dep E a S =
     (if bm_expected_bytes a < 0 then (Inl (ValidationError ''UPLOAD_SIZE_INVALID'' []), S)
      else if \<not> hex_text 64 (bm_expected_sha256 a) then (Inl (ValidationError ''UPLOAD_HASH_INVALID'' []), S)
      else case admit dep (multipart_admission a) (as_db S) of
        (Inl e, s0) \<Rightarrow> (Inl e, S\<lparr>as_db := s0\<rparr>)
      | (Inr _, s0) \<Rightarrow>
          (case session (begin_session E a) s0 of
             (Inl e, s1) \<Rightarrow> (Inl e, S\<lparr>as_db := s1\<rparr>)
           | (Inr _, s1) \<Rightarrow>
               (if ids E 0 \<in> set (as_dirs S) then (Inl (Uncaught ''FileExistsError''), S\<lparr>as_db := s1\<rparr>)
                else (Inr (ids E 0), S\<lparr>as_db := s1, as_dirs := ids E 0 # as_dirs S\<rparr>))))"

text \<open>The lookup every call starts with.\<close>

definition scoped_upload :: "db \<Rightarrow> string \<Rightarrow> string \<Rightarrow> string option \<Rightarrow> sip_error + multipart_upload_row" where
  "scoped_upload s upload_id tenant project =
     (case get_upload s upload_id of
        None \<Rightarrow> Inl (NotFoundError ''multipart_upload'' upload_id)
      | Some upload \<Rightarrow>
          (if mu_tenant_id upload \<noteq> tenant \<or> (project \<noteq> None \<and> Some (mu_project_id upload) \<noteq> project)
           then Inl (NotFoundError ''multipart_upload'' upload_id) else Inr upload))"

definition upload_chunks :: "db \<Rightarrow> string \<Rightarrow> multipart_chunk_row list" where
  "upload_chunks s upload_id = sort_key mc_part_number (filter (\<lambda>c. mc_upload_id c = upload_id) (multipart_chunks s))"

record part_report =
  pt_part_number :: int
  pt_sha256 :: string
  pt_bytes :: int

definition verify_chunk ::
  "runtime \<Rightarrow> (string \<times> string) list \<Rightarrow> multipart_chunk_row \<Rightarrow> sip_error + part_report" where
  "verify_chunk rt files c =
     (case map_of files (mc_path c) of
        None \<Rightarrow> Inl (ConflictError ''UPLOAD_PART_BYTES_MISSING'' [(''part_number'', JInt (mc_part_number c))])
      | Some content \<Rightarrow>
          (if sha256_bytes rt content \<noteq> mc_sha256 c \<or> int (length content) \<noteq> mc_byte_count c
           then Inl (ValidationError ''UPLOAD_PART_INTEGRITY_FAILED'' [(''part_number'', JInt (mc_part_number c))])
           else Inr \<lparr>pt_part_number = mc_part_number c, pt_sha256 = mc_sha256 c, pt_bytes = mc_byte_count c\<rparr>))"

fun verify_chunks ::
  "runtime \<Rightarrow> (string \<times> string) list \<Rightarrow> multipart_chunk_row list \<Rightarrow> sip_error + part_report list" where
  "verify_chunks rt files [] = Inr []"
| "verify_chunks rt files (c # cs) =
     bindE (verify_chunk rt files c) (\<lambda>p. bindE (verify_chunks rt files cs) (\<lambda>ps. Inr (p # ps)))"

record upload_status =
  us_upload :: multipart_upload_row
  us_verified_parts :: "part_report list"
  us_verified_bytes :: int
  us_next_part_number :: int

definition multipart_status ::
  "asset_ctx \<Rightarrow> string \<Rightarrow> string \<Rightarrow> string option \<Rightarrow> asset_state \<Rightarrow> sip_error + upload_status" where
  "multipart_status X upload_id tenant project S =
     bindE (scoped_upload (as_db S) upload_id tenant project) (\<lambda>upload.
     bindE (verify_chunks (ac_rt X) (as_files S) (upload_chunks (as_db S) upload_id)) (\<lambda>parts.
       Inr \<lparr>us_upload = upload, us_verified_parts = parts, us_verified_bytes = sum_list (map pt_bytes parts),
            us_next_part_number = (if parts = [] then 1 else pt_part_number (last parts) + 1)\<rparr>))"

record put_report =
  pp_part_number :: int
  pp_sha256 :: string
  pp_bytes :: int
  pp_already_verified :: bool

definition new_chunk :: "env \<Rightarrow> string \<Rightarrow> int \<Rightarrow> string \<Rightarrow> string \<Rightarrow> multipart_chunk_row" where
  "new_chunk E upload_id part_number digest data =
     \<lparr>mc_chunk_id = ids E 0, mc_upload_id = upload_id, mc_part_number = part_number, mc_sha256 = digest,
      mc_byte_count = int (length data), mc_path = part_path upload_id part_number, mc_created_at = clk E 0\<rparr>"

text \<open>\<open>put_part\<close>: the session is open while the file is written; when the insert fails the rows
  are rolled back and the file stays.\<close>

definition put_part ::
  "asset_ctx \<Rightarrow> env \<Rightarrow> string \<Rightarrow> int \<Rightarrow> string \<Rightarrow> string \<Rightarrow> string \<Rightarrow> string option \<Rightarrow> asset_state
     \<Rightarrow> (sip_error + put_report) \<times> asset_state" where
  "put_part X E upload_id part_number data expected_sha256 tenant project S =
     (let digest = sha256_bytes (ac_rt X) data; path = part_path upload_id part_number;
          report = (\<lambda>seen. \<lparr>pp_part_number = part_number, pp_sha256 = digest, pp_bytes = int (length data), pp_already_verified = seen\<rparr>);
          on_disk = map_option (sha256_bytes (ac_rt X)) (map_of (as_files S) path)
      in if part_number < 1 then (Inl (ValidationError ''UPLOAD_PART_INVALID'' []), S)
         else if digest \<noteq> expected_sha256 then (Inl (ValidationError ''UPLOAD_PART_HASH_MISMATCH'' []), S)
         else if upload_id \<notin> set (as_dirs S) then (Inl (NotFoundError ''multipart_upload'' upload_id), S)
         else case scoped_upload (as_db S) upload_id tenant project of
           Inl e \<Rightarrow> (Inl e, S)
         | Inr upload \<Rightarrow>
             (if mu_state upload \<noteq> ''open'' then (Inl (ConflictError ''UPLOAD_NOT_OPEN'' []), S)
              else case find (\<lambda>c. mc_upload_id c = upload_id \<and> mc_part_number c = part_number) (multipart_chunks (as_db S)) of
                Some prior \<Rightarrow>
                  (if mc_sha256 prior \<noteq> digest \<or> mc_byte_count prior \<noteq> int (length data)
                   then (Inl (ConflictError ''UPLOAD_PART_CONFLICT'' []), S)
                   else if on_disk \<noteq> Some digest then (Inl (ValidationError ''UPLOAD_PART_INTEGRITY_FAILED'' []), S)
                   else (Inr (report True), S))
              | None \<Rightarrow>
                  (if on_disk \<noteq> None \<and> on_disk \<noteq> Some digest then (Inl (ConflictError ''UPLOAD_PART_CONFLICT'' []), S)
                   else let S1 = S\<lparr>as_files := AList.update path data (as_files S)\<rparr>
                        in case insert_row mc_chunk_id (new_chunk E upload_id part_number digest data) (multipart_chunks (as_db S)) of
                             Inl e \<Rightarrow> (Inl e, S1)
                           | Inr rows \<Rightarrow> (Inr (report False), S1\<lparr>as_db := (as_db S)\<lparr>multipart_chunks := rows\<rparr>\<rparr>))))"

record complete_args =
  cm_original_name :: string
  cm_classification :: string
  cm_retention_class :: string
  cm_source_class :: string
  cm_authority_class :: string
  cm_provenance :: fields
  cm_actor_id :: string

text \<open>The first session of \<open>complete_multipart\<close> and the reading of the parts.\<close>

definition complete_check ::
  "string \<Rightarrow> string \<Rightarrow> string option \<Rightarrow> db \<Rightarrow> sip_error + multipart_upload_row \<times> multipart_chunk_row list" where
  "complete_check upload_id tenant project s =
     bindE (scoped_upload s upload_id tenant project) (\<lambda>upload.
       if mu_state upload \<noteq> ''open'' then Inl (ConflictError ''UPLOAD_NOT_OPEN'' [])
       else let chunks = upload_chunks s upload_id
            in if chunks = [] then Inl (ValidationError ''UPLOAD_EMPTY'' [])
               else if map mc_part_number chunks \<noteq> [1..int (length chunks)] then Inl (ValidationError ''UPLOAD_PART_GAP'' [])
               else Inr (upload, chunks))"

fun join_parts :: "(string \<times> string) list \<Rightarrow> multipart_chunk_row list \<Rightarrow> sip_error + string" where
  "join_parts files [] = Inr []"
| "join_parts files (c # cs) =
     (case map_of files (mc_path c) of
        None \<Rightarrow> Inl (Uncaught ''FileNotFoundError'')
      | Some content \<Rightarrow> bindE (join_parts files cs) (\<lambda>rest. Inr (content @ rest)))"

definition upload_ingest ::
  "(json \<Rightarrow> string) \<Rightarrow> complete_args \<Rightarrow> multipart_upload_row \<Rightarrow> string \<Rightarrow> ingest_args" where
  "upload_ingest py_str a upload data =
     \<lparr>ig_tenant_id = mu_tenant_id upload, ig_project_id = mu_project_id upload, ig_data = data,
      ig_media_type = mu_media_type upload, ig_original_name = cm_original_name a,
      ig_classification = cm_classification a, ig_retention_class = cm_retention_class a,
      ig_source_class = cm_source_class a, ig_authority_class = cm_authority_class a,
      ig_provenance = cm_provenance a, ig_actor_id = cm_actor_id a, ig_asset_id = None,
      ig_deployment_region = jget (mu_metadata_json upload) ''deployment_region'',
      ig_asset_class = (case map_of (mu_metadata_json upload) ''asset_class'' of
        None \<Rightarrow> ''generic_asset'' | Some v \<Rightarrow> py_str v)\<rparr>"

definition close_upload :: "time \<Rightarrow> string \<Rightarrow> db \<Rightarrow> sip_error + unit \<times> db" where
  "close_upload now upload_id s =
     (case get_upload s upload_id of
        None \<Rightarrow> Inl (Uncaught ''AssertionError'')
      | Some upload \<Rightarrow> Inr ((), s\<lparr>multipart_uploads := tput mu_upload_id
          (upload\<lparr>mu_state := ''completed'', mu_completed_at := Some now\<rparr>) (multipart_uploads s)\<rparr>))"

definition remove_tree :: "string \<Rightarrow> asset_state \<Rightarrow> asset_state" where
  "remove_tree upload_id S = S\<lparr>as_files := filter (\<lambda>(path, _). \<not> prefix (upload_id @ ''/'') path) (as_files S),
     as_dirs := removeAll upload_id (as_dirs S)\<rparr>"

definition complete_multipart ::
  "asset_ctx \<Rightarrow> (json \<Rightarrow> string) \<Rightarrow> deployment_service option \<Rightarrow> env \<Rightarrow> (nat \<Rightarrow> string) \<Rightarrow> complete_args
     \<Rightarrow> string \<Rightarrow> string \<Rightarrow> string option \<Rightarrow> asset_state \<Rightarrow> (sip_error + asset_reference) \<times> asset_state" where
  "complete_multipart X py_str dep E rnd a upload_id tenant project S =
     (case bindE (complete_check upload_id tenant project (as_db S)) (\<lambda>(upload, chunks).
             bindE (join_parts (as_files S) chunks) (\<lambda>data. Inr (upload, data))) of
        Inl e \<Rightarrow> (Inl e, S)
      | Inr (upload, data) \<Rightarrow>
          (if int (length data) \<noteq> mu_expected_bytes upload \<or> sha256_bytes (ac_rt X) data \<noteq> mu_expected_sha256 upload
           then (Inl (ValidationError ''UPLOAD_FINAL_INTEGRITY_FAILED'' []), S)
           else case ingest_bytes X dep E rnd (upload_ingest py_str a upload data) S of
             (Inl e, S1) \<Rightarrow> (Inl e, S1)
           | (Inr result, S1) \<Rightarrow>
               (case session (close_upload (clk E 3) upload_id) (as_db S1) of
                  (Inl e, s2) \<Rightarrow> (Inl e, S1\<lparr>as_db := s2\<rparr>)
                | (Inr _, s2) \<Rightarrow> (Inr result, remove_tree upload_id (S1\<lparr>as_db := s2\<rparr>)))))"

section \<open>Part paths\<close>

lemma digits_drop_zeros:
  "n > 0 \<Longrightarrow> dropWhile (\<lambda>c. c = CHR ''0'') (replicate k CHR ''0'' @ nat_repr n @ r) = nat_repr n @ r"
proof -
  assume "n > 0"
  then have "hd (nat_repr n) \<noteq> CHR ''0''"
  proof (induction n rule: nat_repr.induct)
    case (1 n)
    show ?case
    proof (cases "n < 10")
      case True
      have "digit_char n \<noteq> digit_char 0"
        using digit_char_inj [of n 0] True \<open>n > 0\<close> by auto
      with True show ?thesis by (simp add: nat_repr.simps [of n] digit_char_def)
    next
      case False
      with 1 show ?thesis by (simp add: nat_repr.simps [of n])
    qed
  qed
  then show ?thesis
    by (induction k) (simp_all add: neq_Nil_conv [THEN iffD1, OF nat_repr_nonempty] dropWhile_eq_self_conv)
qed

lemma after_last_slash:
  assumes "u @ CHR ''/'' # x = v @ CHR ''/'' # y" and "CHR ''/'' \<notin> set x" and "CHR ''/'' \<notin> set y"
  shows "u = v \<and> x = y"
proof -
  have *: "dropWhile (\<lambda>c. c \<noteq> CHR ''/'') (rev (w @ CHR ''/'' # z)) = CHR ''/'' # rev w"
    if "CHR ''/'' \<notin> set z" for w z
    using that by (subst rev_append) (auto simp: dropWhile_append3)
  have "u = v" using * [OF assms(2), of u] * [OF assms(3), of v] assms(1) by simp
  with assms(1) show ?thesis by simp
qed

lemma part_path_inj:
  assumes "part_path u m = part_path v n" and "1 \<le> m" and "1 \<le> n"
  shows "u = v \<and> m = n"
proof -
  let ?p = "\<lambda>n. replicate (8 - length (nat_repr (nat n))) CHR ''0'' @ nat_repr (nat n) @ ''.part''"
  have "CHR ''/'' \<notin> digits" by (simp add: digits_def)
  then have "CHR ''/'' \<notin> set (?p n)" for n
    using nat_repr_digits [of "nat n"] by auto
  with assms(1) have eq: "u = v" "?p m = ?p n"
    using after_last_slash [of u "?p m" v "?p n"] by (simp_all add: part_path_def Let_def)
  from arg_cong [OF this(2), of "dropWhile (\<lambda>c. c = CHR ''0'')"] have "nat_repr (nat m) @ ''.part'' = nat_repr (nat n) @ ''.part''"
    using assms(2,3) by (subst (asm) (1 2) digits_drop_zeros) auto
  then have "m = n" using assms(2,3) by (auto dest!: nat_repr_inj)
  with eq show ?thesis by simp
qed

lemma part_path_prefix:
  assumes "CHR ''/'' \<notin> set u" and "CHR ''/'' \<notin> set v"
  shows "prefix (u @ ''/'') (part_path v n) \<longleftrightarrow> u = v"
proof
  assume "prefix (u @ ''/'') (part_path v n)"
  then obtain z where "u @ CHR ''/'' # z = v @ CHR ''/'' # drop (Suc (length v)) (part_path v n)"
    by (auto simp: prefix_def part_path_def Let_def)
  moreover have "takeWhile (\<lambda>c. c \<noteq> CHR ''/'') (w @ CHR ''/'' # y) = w" if "CHR ''/'' \<notin> set w" for w y
    using that by (induction w) auto
  ultimately show "u = v" using assms by metis
qed (simp add: part_path_def Let_def prefix_def)


section \<open>The invariant of uploads\<close>

interpretation upload_store: row_store get_upload "\<lambda>r s. s\<lparr>multipart_uploads := tput mu_upload_id r (multipart_uploads s)\<rparr>" mu_upload_id
  by unfold_locales (auto simp: get_upload_def tget_tput_same tget_tput_other dest: tget_SomeD)

definition chunk_stored :: "asset_ctx \<Rightarrow> asset_state \<Rightarrow> multipart_chunk_row \<Rightarrow> bool" where
  "chunk_stored X S c \<longleftrightarrow> (\<exists>content. map_of (as_files S) (mc_path c) = Some content \<and>
     sha256_bytes (ac_rt X) content = mc_sha256 c \<and> int (length content) = mc_byte_count c)"

definition chunk_key :: "multipart_chunk_row \<Rightarrow> string \<times> int" where
  "chunk_key c = (mc_upload_id c, mc_part_number c)"

definition chunk_ok :: "asset_ctx \<Rightarrow> asset_state \<Rightarrow> multipart_chunk_row \<Rightarrow> bool" where
  "chunk_ok X S c \<longleftrightarrow> 1 \<le> mc_part_number c \<and> mc_path c = part_path (mc_upload_id c) (mc_part_number c) \<and>
     (\<exists>u. get_upload (as_db S) (mc_upload_id c) = Some u \<and> (mu_state u = ''open'' \<longrightarrow> chunk_stored X S c))"

definition uploads_wf :: "asset_ctx \<Rightarrow> asset_state \<Rightarrow> bool" where
  "uploads_wf X S \<longleftrightarrow> distinct (map chunk_key (multipart_chunks (as_db S))) \<and>
     (\<forall>u \<in> set (multipart_uploads (as_db S)). CHR ''/'' \<notin> set (mu_upload_id u)) \<and>
     (\<forall>c \<in> set (multipart_chunks (as_db S)). chunk_ok X S c)"

text \<open>No call goes back: uploads only close, chunk rows stay, and while an upload is open its part
  files are not touched.\<close>

definition uploads_below :: "asset_state \<Rightarrow> asset_state \<Rightarrow> bool" where
  "uploads_below S T \<longleftrightarrow>
     (\<forall>k u. get_upload (as_db S) k = Some u \<longrightarrow> (\<exists>u'. get_upload (as_db T) k = Some u' \<and>
        (u' = u \<or> mu_state u' = ''completed''))) \<and>
     set (multipart_chunks (as_db S)) \<subseteq> set (multipart_chunks (as_db T)) \<and>
     (\<forall>c \<in> set (multipart_chunks (as_db S)). \<forall>u. get_upload (as_db T) (mc_upload_id c) = Some u \<longrightarrow> mu_state u = ''open'' \<longrightarrow>
        map_of (as_files T) (mc_path c) = map_of (as_files S) (mc_path c))"

lemma uploads_below_refl: "uploads_below S S"
  by (auto simp: uploads_below_def)

lemma uploads_below_open:
  assumes "uploads_below S T" and "get_upload (as_db S) k = Some u" and "get_upload (as_db T) k = Some u'" and "mu_state u' = ''open''"
  shows "u' = u"
  using assms by (fastforce simp: uploads_below_def)

lemma uploads_below_trans:
  assumes "uploads_wf X S" and "uploads_below S T" and "uploads_below T U"
  shows "uploads_below S U"
  unfolding uploads_below_def
proof (intro conjI allI impI ballI)
  fix k u assume "get_upload (as_db S) k = Some u"
  then obtain u1 where u1: "get_upload (as_db T) k = Some u1" "u1 = u \<or> mu_state u1 = ''completed''"
    using assms(2) unfolding uploads_below_def by blast
  with assms(3) obtain u2 where "get_upload (as_db U) k = Some u2" "u2 = u1 \<or> mu_state u2 = ''completed''"
    unfolding uploads_below_def by blast
  with u1 show "\<exists>u'. get_upload (as_db U) k = Some u' \<and> (u' = u \<or> mu_state u' = ''completed'')" by auto
next
  show "set (multipart_chunks (as_db S)) \<subseteq> set (multipart_chunks (as_db U))"
    using assms(2,3) unfolding uploads_below_def by blast
next
  fix c u assume c: "c \<in> set (multipart_chunks (as_db S))" and u: "get_upload (as_db U) (mc_upload_id c) = Some u" "mu_state u = ''open''"
  obtain u0 where "get_upload (as_db S) (mc_upload_id c) = Some u0"
    using assms(1) c by (auto simp: uploads_wf_def chunk_ok_def)
  then obtain u1 where u1: "get_upload (as_db T) (mc_upload_id c) = Some u1"
    using assms(2) unfolding uploads_below_def by blast
  then have "u1 = u" using uploads_below_open [OF assms(3) u1 u] by simp
  moreover have "c \<in> set (multipart_chunks (as_db T))" using c assms(2) unfolding uploads_below_def by blast
  ultimately show "map_of (as_files U) (mc_path c) = map_of (as_files S) (mc_path c)"
    using c u u1 assms(2,3) unfolding uploads_below_def by simp
qed

text \<open>Calls that leave the upload tables and the part files.\<close>

lemma uploads_same:
  assumes "uploads_wf X S" and "multipart_uploads (as_db T) = multipart_uploads (as_db S)"
    and "multipart_chunks (as_db T) = multipart_chunks (as_db S)" and "as_files T = as_files S"
  shows "uploads_wf X T \<and> uploads_below S T"
proof -
  have "chunk_ok X T c = chunk_ok X S c" for c
    using assms by (simp add: chunk_ok_def chunk_stored_def get_upload_def)
  then show ?thesis
    using assms by (simp add: uploads_wf_def uploads_below_def get_upload_def)
qed

lemma append_audit_uploads:
  "append_audit rt key i now c s = Inr t \<Longrightarrow> multipart_uploads t = multipart_uploads s \<and> multipart_chunks t = multipart_chunks s"
  by (auto simp: append_audit_Inr)

lemma uploads_begin:
  assumes "uploads_wf X S" and "begin_session E a (as_db S) = Inr (u, s)" and "CHR ''/'' \<notin> set (ids E 0)"
    and "as_db T = s" and "as_files T = as_files S"
  shows "uploads_wf X T \<and> uploads_below S T"
proof -
  have s: "s = (as_db S)\<lparr>multipart_uploads := multipart_uploads (as_db S) @ [new_upload E a]\<rparr>"
    using assms(2) by (auto simp: begin_session_def result_simps split: option.splits)
  then have "get_upload (as_db T) k = Some v" if "get_upload (as_db S) k = Some v" for k v
    using that assms(4) by (simp add: get_upload_def tget_append)
  then show ?thesis
    using assms s by (fastforce simp: uploads_wf_def uploads_below_def chunk_ok_def chunk_stored_def new_upload_def)
qed

lemma scoped_upload_Inr [result_simps]:
  "scoped_upload s k t p = Inr u \<longleftrightarrow> get_upload s k = Some u \<and> mu_tenant_id u = t \<and> (p = None \<or> p = Some (mu_project_id u))"
  by (auto simp: scoped_upload_def split: option.splits)

lemma put_part_result:
  assumes "put_part X E u n data sha t p S = (v, T)"
  shows "T = S \<or> (1 \<le> n \<and> (u, n) \<notin> chunk_key ` set (multipart_chunks (as_db S)) \<and>
     as_files T = AList.update (part_path u n) data (as_files S) \<and>
     (as_db T = as_db S \<or> (\<exists>up. get_upload (as_db S) u = Some up) \<and>
      as_db T = (as_db S)\<lparr>multipart_chunks := multipart_chunks (as_db S) @ [new_chunk E u n (sha256_bytes (ac_rt X) data) data]\<rparr>))"
proof (cases "scoped_upload (as_db S) u t p")
  case (Inr up)
  then have up: "\<exists>up. get_upload (as_db S) u = Some up" by (simp add: scoped_upload_Inr)
  show ?thesis
  proof (cases "find (\<lambda>c. mc_upload_id c = u \<and> mc_part_number c = n) (multipart_chunks (as_db S))")
    case None
    then have "(u, n) \<notin> chunk_key ` set (multipart_chunks (as_db S))"
      by (auto simp: find_None_iff chunk_key_def)
    with up None Inr assms show ?thesis
      by (simp add: put_part_def Let_def insert_row_def split: if_splits) auto
  qed (use Inr assms in \<open>simp add: put_part_def Let_def split: if_splits\<close>)
qed (use assms in \<open>simp add: put_part_def Let_def split: if_splits\<close>)

lemma uploads_put:
  assumes "uploads_wf X S" and "put_part X E u n data sha t p S = (v, T)"
  shows "uploads_wf X T \<and> uploads_below S T"
proof (cases "T = S")
  case False
  let ?path = "part_path u n" and ?d = "sha256_bytes (ac_rt X) data"
  have n: "1 \<le> n" and fresh: "(u, n) \<notin> chunk_key ` set (multipart_chunks (as_db S))"
    and files: "as_files T = AList.update ?path data (as_files S)"
    and db: "as_db T = as_db S \<or> (\<exists>up. get_upload (as_db S) u = Some up) \<and>
      as_db T = (as_db S)\<lparr>multipart_chunks := multipart_chunks (as_db S) @ [new_chunk E u n ?d data]\<rparr>"
    using put_part_result [OF assms(2)] False by simp_all
  have other: "map_of (as_files T) (mc_path c) = map_of (as_files S) (mc_path c)"
    if "c \<in> set (multipart_chunks (as_db S))" for c
  proof -
    have "mc_path c \<noteq> ?path"
    proof
      assume eq: "mc_path c = ?path"
      from that assms(1) have "1 \<le> mc_part_number c" "mc_path c = part_path (mc_upload_id c) (mc_part_number c)"
        by (auto simp: uploads_wf_def chunk_ok_def)
      with eq n have "chunk_key c = (u, n)" using part_path_inj [of "mc_upload_id c" "mc_part_number c" u n] by (simp add: chunk_key_def)
      with fresh that show False by force
    qed
    then show ?thesis by (simp add: files update_conv')
  qed
  have up: "get_upload (as_db T) k = get_upload (as_db S) k" for k
    using db by (auto simp: get_upload_def)
  have old: "chunk_ok X T c" if "c \<in> set (multipart_chunks (as_db S))" for c
    using that other [OF that] assms(1) by (auto simp: uploads_wf_def chunk_ok_def chunk_stored_def up)
  have "uploads_wf X T"
    using db
  proof
    assume "as_db T = as_db S"
    with old assms(1) show ?thesis by (simp add: uploads_wf_def)
  next
    assume new: "(\<exists>up. get_upload (as_db S) u = Some up) \<and>
      as_db T = (as_db S)\<lparr>multipart_chunks := multipart_chunks (as_db S) @ [new_chunk E u n ?d data]\<rparr>"
    then have "chunk_ok X T (new_chunk E u n ?d data)"
      using n up by (auto simp: chunk_ok_def chunk_stored_def new_chunk_def files update_conv' get_upload_def)
    moreover have "chunk_key (new_chunk E u n ?d data) \<notin> chunk_key ` set (multipart_chunks (as_db S))"
      using fresh by (simp add: chunk_key_def new_chunk_def)
    ultimately show ?thesis using new old assms(1) by (simp add: uploads_wf_def)
  qed
  moreover have "uploads_below S T"
    using db other up unfolding uploads_below_def by auto
  ultimately show ?thesis ..
qed (use assms uploads_below_refl in simp)

lemma map_of_filter_key: "map_of (filter (\<lambda>(k, _). P k) xs) k = (if P k then map_of xs k else None)"
  by (induction xs) auto

lemma uploads_close:
  assumes "uploads_wf X S" and "close_upload now u (as_db S) = Inr (v, s)" and "T = remove_tree u (S\<lparr>as_db := s\<rparr>)"
  shows "uploads_wf X T \<and> uploads_below S T"
proof -
  obtain up where up: "get_upload (as_db S) u = Some up" and s: "s = (as_db S)\<lparr>multipart_uploads :=
      tput mu_upload_id (up\<lparr>mu_state := ''completed'', mu_completed_at := Some now\<rparr>) (multipart_uploads (as_db S))\<rparr>"
    using assms(2) by (auto simp: close_upload_def split: option.splits)
  let ?up = "up\<lparr>mu_state := ''completed'', mu_completed_at := Some now\<rparr>"
  have id: "mu_upload_id up = u" using up by (rule upload_store.get_key)
  have get: "get_upload s k = (if k = u then Some ?up else get_upload (as_db S) k)" for k
    using upload_store.get_put [of "as_db S" ?up k] up id by (simp add: s)
  have names: "CHR ''/'' \<notin> set k" if "get_upload (as_db S) k = Some r" for k r
    using that assms(1) by (auto simp: uploads_wf_def get_upload_def dest: tget_SomeD)
  have kept: "map_of (as_files T) (mc_path c) = map_of (as_files S) (mc_path c)"
    if "c \<in> set (multipart_chunks (as_db S))" "mc_upload_id c \<noteq> u" for c
  proof -
    from that(1) assms(1) obtain r where "get_upload (as_db S) (mc_upload_id c) = Some r"
        and path: "mc_path c = part_path (mc_upload_id c) (mc_part_number c)"
      by (auto simp: uploads_wf_def chunk_ok_def)
    with names up that(2) have "\<not> prefix (u @ ''/'') (mc_path c)"
      by (metis part_path_prefix)
    then show ?thesis by (simp add: assms(3) remove_tree_def map_of_filter_key)
  qed
  have db: "as_db T = s" by (simp add: assms(3) remove_tree_def)
  have "chunk_ok X T c" if c: "c \<in> set (multipart_chunks (as_db S))" for c
  proof -
    have "chunk_ok X S c" using c assms(1) by (simp add: uploads_wf_def)
    then show ?thesis
      using kept [OF c] get [of "mc_upload_id c"] db by (cases "mc_upload_id c = u") (auto simp: chunk_ok_def chunk_stored_def)
  qed
  moreover have "CHR ''/'' \<notin> set (mu_upload_id r)" if "r \<in> set (multipart_uploads s)" for r
    using that set_tput_subset [of mu_upload_id ?up "multipart_uploads (as_db S)"] names [OF up] id assms(1)
    by (auto simp: s uploads_wf_def)
  ultimately have "uploads_wf X T"
    using assms(1) by (simp add: uploads_wf_def db s)
  moreover have "uploads_below S T"
    unfolding uploads_below_def
  proof (intro conjI allI impI ballI)
    fix k r assume "get_upload (as_db S) k = Some r"
    then show "\<exists>u'. get_upload (as_db T) k = Some u' \<and> (u' = r \<or> mu_state u' = ''completed'')"
      by (simp add: db get)
  next
    fix c r assume "c \<in> set (multipart_chunks (as_db S))" "get_upload (as_db T) (mc_upload_id c) = Some r" "mu_state r = ''open''"
    then show "map_of (as_files T) (mc_path c) = map_of (as_files S) (mc_path c)"
      by (cases "mc_upload_id c = u") (auto simp: db get kept)
  qed (simp add: db s)
  ultimately show ?thesis ..
qed

section \<open>Runs\<close>

datatype upload_call =
    BeginUpload env begin_args
  | PutPart env string int string string string "string option"
  | CompleteUpload env "nat \<Rightarrow> string" complete_args string string "string option"
  | AssetCall asset_call

fun upload_step ::
  "asset_ctx \<Rightarrow> (json \<Rightarrow> string) \<Rightarrow> deployment_service option \<Rightarrow> asset_state \<Rightarrow> upload_call \<Rightarrow> sip_error + asset_state" where
  "upload_step X py_str dep S (BeginUpload E a) = Inr (snd (begin_multipart dep E a S))"
| "upload_step X py_str dep S (PutPart E u n data sha t p) = Inr (snd (put_part X E u n data sha t p S))"
| "upload_step X py_str dep S (CompleteUpload E rnd a u t p) = Inr (snd (complete_multipart X py_str dep E rnd a u t p S))"
| "upload_step X py_str dep S (AssetCall c) = asset_step X dep S c"

text \<open>\<open>new_uuid()\<close> gives names without a slash.\<close>

fun uuid_call :: "upload_call \<Rightarrow> bool" where
  "uuid_call (BeginUpload E a) = (CHR ''/'' \<notin> set (ids E 0))"
| "uuid_call _ = True"

lemma close_upload_returns: "get_upload s u = Some r \<Longrightarrow> \<exists>t. close_upload now u s = Inr ((), t)"
  by (simp add: close_upload_def)

lemma complete_multipart_cases:
  assumes "complete_multipart X py_str dep E rnd a u t p S = (v, T)"
  obtains e where "v = Inl e" "T = S"
  | up data e where "ingest_bytes X dep E rnd (upload_ingest py_str a up data) S = (Inl e, T)" "v = Inl e"
  | up chunks data ref S1 s where "complete_check u t p (as_db S) = Inr (up, chunks)" "join_parts (as_files S) chunks = Inr data"
      "int (length data) = mu_expected_bytes up" "sha256_bytes (ac_rt X) data = mu_expected_sha256 up"
      "ingest_bytes X dep E rnd (upload_ingest py_str a up data) S = (Inr ref, S1)"
      "session (close_upload (clk E 3) u) (as_db S1) = (Inr (), s)" "v = Inr ref" "T = remove_tree u (S1\<lparr>as_db := s\<rparr>)"
  | up data ref S1 e s where "ingest_bytes X dep E rnd (upload_ingest py_str a up data) S = (Inr ref, S1)"
      "session (close_upload (clk E 3) u) (as_db S1) = (Inl e, s)" "v = Inl e" "T = S1\<lparr>as_db := s\<rparr>"
proof (cases "bindE (complete_check u t p (as_db S)) (\<lambda>(upload, chunks). bindE (join_parts (as_files S) chunks) (\<lambda>data. Inr (upload, data)))")
  case (Inl e)
  then show ?thesis using assms that(1) by (auto simp: complete_multipart_def)
next
  case (Inr r)
  then obtain up chunks data where r: "complete_check u t p (as_db S) = Inr (up, chunks)" "join_parts (as_files S) chunks = Inr data" "r = (up, data)"
    by (auto simp: bindE_Inr_conv)
  obtain w S1 where w: "ingest_bytes X dep E rnd (upload_ingest py_str a up data) S = (w, S1)" by fastforce
  obtain z s where z: "session (close_upload (clk E 3) u) (as_db S1) = (z, s)" by fastforce
  show ?thesis
  proof (cases "int (length data) \<noteq> mu_expected_bytes up \<or> sha256_bytes (ac_rt X) data \<noteq> mu_expected_sha256 up")
    case True
    then show ?thesis using assms r that(1) by (auto simp: complete_multipart_def)
  next
    case ok: False
    show ?thesis
    proof (cases w)
      case (Inl e)
      then show ?thesis using assms r w ok that(2) by (auto simp: complete_multipart_def)
    next
      case ref: (Inr ref)
      show ?thesis
      proof (cases z)
        case (Inl e)
        then show ?thesis using assms r w z ok ref that(4) by (auto simp: complete_multipart_def)
      next
        case (Inr x)
        then show ?thesis using assms r w z ok ref that(3) by (auto simp: complete_multipart_def)
      qed
    qed
  qed
qed

definition same_uploads :: "asset_state \<Rightarrow> asset_state \<Rightarrow> bool" where
  "same_uploads S T \<longleftrightarrow> multipart_uploads (as_db T) = multipart_uploads (as_db S) \<and>
     multipart_chunks (as_db T) = multipart_chunks (as_db S) \<and> as_files T = as_files S"

locale upload_platform = asset_platform +
  assumes deployment_uploads: "deployment = Some service \<Longrightarrow>
    multipart_uploads (snd (service a s)) = multipart_uploads s \<and> multipart_chunks (snd (service a s)) = multipart_chunks s"
begin

lemma admit_uploads:
  "multipart_uploads (snd (admit deployment a s)) = multipart_uploads s \<and> multipart_chunks (snd (admit deployment a s)) = multipart_chunks s"
  using deployment_uploads by (simp add: admit_def split: option.splits)

lemma ingest_session_uploads:
  "ingest_session X E a k d m s = Inr (v, t) \<Longrightarrow> multipart_uploads t = multipart_uploads s \<and> multipart_chunks t = multipart_chunks s"
  by (auto simp: ingest_session_def result_simps split: option.splits if_splits dest!: append_audit_uploads)

lemma ingest_uploads: "same_uploads S (snd (ingest_bytes X deployment E rnd a S))"
proof -
  obtain x s0 where ad: "admit deployment (upload_admission a) (as_db S) = (x, s0)" by fastforce
  then have s0: "multipart_uploads s0 = multipart_uploads (as_db S) \<and> multipart_chunks s0 = multipart_chunks (as_db S)"
    using admit_uploads [of "upload_admission a" "as_db S"] by simp
  then show ?thesis
    using ad ingest_session_uploads
    by (cases x) (auto simp: ingest_bytes_def Let_def session_def same_uploads_def split: sum.split prod.split if_splits)
qed

lemma audited_uploads:
  "append_audit rt key i now c (as_db S) = Inr s \<Longrightarrow> same_uploads S (S\<lparr>as_db := s\<rparr>)"
  by (auto simp: same_uploads_def dest: append_audit_uploads)

lemma read_uploads: "same_uploads S (snd (read_asset X E t p k actor S))"
  by (auto simp: read_asset_def bindE_Inr_conv same_uploads_def split: sum.splits dest!: append_audit_uploads)

lemma tombstone_session_uploads:
  "tombstone_session X E t p k actor dry s = Inr (rep, s') \<Longrightarrow>
     multipart_uploads s' = multipart_uploads s \<and> multipart_chunks s' = multipart_chunks s"
  by (auto simp: tombstone_session_def result_simps Let_def put_ref_def split: option.splits if_splits dest!: append_audit_uploads)

lemma asset_step_uploads: "asset_step X deployment S e = Inr T \<Longrightarrow> same_uploads S T"
proof (cases e)
  case (Tombstone E t p k actor dry)
  assume "asset_step X deployment S e = Inr T"
  with Tombstone have T: "T = snd (tombstone X E t p k actor dry S)" by simp
  show ?thesis
  proof (cases "tombstone_session X E t p k actor dry (as_db S)")
    case (Inr y)
    then obtain rep s' where "tombstone_session X E t p k actor dry (as_db S) = Inr (rep, s')" by (cases y) auto
    with T tombstone_session_uploads [OF this] show ?thesis
      by (cases "delete_object (tb_sha256 rep) (as_store S)") (simp_all add: tombstone_def same_uploads_def)
  qed (use T in \<open>simp add: tombstone_def same_uploads_def\<close>)
next
  case (IssueToken E now t p k sub ttl)
  assume "asset_step X deployment S e = Inr T"
  with IssueToken show ?thesis
    by (auto simp: issue_read_token_def bindE_Inr_conv same_uploads_def split: sum.splits dest!: append_audit_uploads)
next
  case (ReadToken loads E now token)
  assume "asset_step X deployment S e = Inr T"
  with ReadToken read_uploads show ?thesis
    by (auto simp: read_with_token_def same_uploads_def split: sum.splits)
next
  case (RotateKey c rnd)
  assume "asset_step X deployment S e = Inr T"
  with RotateKey show ?thesis by (auto simp: same_uploads_def)
qed (auto simp: ingest_uploads read_uploads)

lemma same_uploads_keep: "uploads_wf X S \<Longrightarrow> same_uploads S T \<Longrightarrow> uploads_wf X T \<and> uploads_below S T"
  using uploads_same by (simp add: same_uploads_def)

lemma complete_uploads:
  assumes "uploads_wf X S" and "complete_multipart X py_str deployment E rnd a u t p S = (v, T)"
  shows "uploads_wf X T \<and> uploads_below S T"
proof (rule complete_multipart_cases [OF assms(2)])
  fix up data e assume "ingest_bytes X deployment E rnd (upload_ingest py_str a up data) S = (Inl e, T)"
  then show ?thesis
    using ingest_uploads [of S X E rnd "upload_ingest py_str a up data"] same_uploads_keep [OF assms(1)] by simp
next
  fix up data ref S1 s e assume 1: "ingest_bytes X deployment E rnd (upload_ingest py_str a up data) S = (Inr ref, S1)"
    "session (close_upload (clk E 3) u) (as_db S1) = (Inl e, s)" "T = S1\<lparr>as_db := s\<rparr>"
  then have "same_uploads S T"
    using ingest_uploads [of S X E rnd "upload_ingest py_str a up data"] session_rollback [of "close_upload (clk E 3) u" "as_db S1"]
    by (simp add: same_uploads_def)
  then show ?thesis by (rule same_uploads_keep [OF assms(1)])
next
  fix up data ref S1 s assume 1: "ingest_bytes X deployment E rnd (upload_ingest py_str a up data) S = (Inr ref, S1)"
    "session (close_upload (clk E 3) u) (as_db S1) = (Inr (), s)" "T = remove_tree u (S1\<lparr>as_db := s\<rparr>)"
  then have S1: "uploads_wf X S1 \<and> uploads_below S S1"
    using ingest_uploads [of S X E rnd "upload_ingest py_str a up data"] same_uploads_keep [OF assms(1)] by simp
  from 1(2) have "close_upload (clk E 3) u (as_db S1) = Inr ((), s)" by (auto simp: session_def split: sum.splits)
  with uploads_close [of X S1] S1 1(3) show ?thesis using uploads_below_trans [OF assms(1)] by blast
qed (use assms(1) uploads_below_refl in auto)

lemma begin_uploads:
  assumes "uploads_wf X S" and "CHR ''/'' \<notin> set (ids E 0)"
  shows "uploads_wf X (snd (begin_multipart deployment E a S)) \<and> uploads_below S (snd (begin_multipart deployment E a S))"
proof (cases "bm_expected_bytes a < 0 \<or> \<not> hex_text 64 (bm_expected_sha256 a)")
  case True
  then show ?thesis using assms(1) uploads_below_refl by (auto simp: begin_multipart_def)
next
  case False
  obtain x s0 where ad: "admit deployment (multipart_admission a) (as_db S) = (x, s0)" by fastforce
  let ?S0 = "S\<lparr>as_db := s0\<rparr>"
  have "same_uploads S ?S0"
    using admit_uploads [of "multipart_admission a" "as_db S"] ad by (simp add: same_uploads_def)
  then have 0: "uploads_wf X ?S0 \<and> uploads_below S ?S0" by (rule same_uploads_keep [OF assms(1)])
  show ?thesis
  proof (cases "\<exists>e. x = Inl e \<or> begin_session E a s0 = Inl e")
    case True
    then show ?thesis using False 0 ad by (cases x) (auto simp: begin_multipart_def)
  next
    case nerr: False
    then obtain y s1 where b: "begin_session E a s0 = Inr (y, s1)" "x = Inr ()"
      by (cases x; cases "begin_session E a s0") auto
    then have b0: "begin_session E a (as_db ?S0) = Inr (y, s1)" by simp
    from b ad False have T: "as_db (snd (begin_multipart deployment E a S)) = s1"
        "as_files (snd (begin_multipart deployment E a S)) = as_files ?S0"
      by (simp_all add: begin_multipart_def)
    from uploads_begin [OF _ b0 assms(2) T] 0 show ?thesis
      using uploads_below_trans [OF assms(1)] by blast
  qed
qed

lemma upload_step_keeps:
  "uploads_wf X S \<Longrightarrow> uuid_call e \<Longrightarrow> upload_step X py_str deployment S e = Inr T \<Longrightarrow> uploads_wf X T \<and> uploads_below S T"
proof (cases e)
  case (PutPart E u n data sha t p)
  assume *: "uploads_wf X S" "upload_step X py_str deployment S e = Inr T"
  obtain v T' where "put_part X E u n data sha t p S = (v, T')" by fastforce
  with * PutPart uploads_put show ?thesis by auto
next
  case (CompleteUpload E rnd a u t p)
  assume *: "uploads_wf X S" "upload_step X py_str deployment S e = Inr T"
  obtain v T' where "complete_multipart X py_str deployment E rnd a u t p S = (v, T')" by fastforce
  with * CompleteUpload complete_uploads show ?thesis by auto
next
  case (AssetCall c)
  assume "uploads_wf X S" "upload_step X py_str deployment S e = Inr T"
  with AssetCall show ?thesis using same_uploads_keep asset_step_uploads by auto
qed (use begin_uploads in auto)

lemma upload_run:
  assumes "uploads_wf X S" and "\<forall>e \<in> set calls. uuid_call e"
  shows "uploads_wf X (run (upload_step X py_str deployment) calls S) \<and> uploads_below S (run (upload_step X py_str deployment) calls S)"
  using assms
proof (induction calls arbitrary: S)
  case (Cons e calls)
  show ?case
  proof (cases "upload_step X py_str deployment S e")
    case (Inr T)
    with Cons have "uploads_wf X T \<and> uploads_below S T" using upload_step_keeps [of X S e py_str T] by simp
    with Cons Inr uploads_below_trans [of X S T] show ?thesis by (simp add: settle_def)
  qed (use Cons in \<open>simp add: settle_def\<close>)
qed (simp add: uploads_below_refl)

end

interpretation local_uploads: upload_platform None
  by unfold_locales simp

section \<open>Properties\<close>

lemma set_upload_chunks: "c \<in> set (upload_chunks s u) \<longleftrightarrow> c \<in> set (multipart_chunks s) \<and> mc_upload_id c = u"
  by (auto simp: upload_chunks_def)

lemma verify_chunks_stored:
  "\<forall>c \<in> set cs. chunk_stored X S c \<Longrightarrow> verify_chunks (ac_rt X) (as_files S) cs
     = Inr (map (\<lambda>c. \<lparr>pt_part_number = mc_part_number c, pt_sha256 = mc_sha256 c, pt_bytes = mc_byte_count c\<rparr>) cs)"
  by (induction cs) (auto simp: chunk_stored_def verify_chunk_def)

lemma put_part_accepted:
  assumes "put_part X E u n data sha t p S = (Inr rep, S1)"
  shows "\<exists>c \<in> set (multipart_chunks (as_db S1)). chunk_key c = (u, n) \<and> mc_sha256 c = sha256_bytes (ac_rt X) data \<and>
     mc_byte_count c = int (length data) \<and> (\<not> pp_already_verified rep \<longrightarrow> map_of (as_files S1) (part_path u n) = Some data)"
proof (cases "scoped_upload (as_db S) u t p")
  case (Inr up)
  show ?thesis
  proof (cases "find (\<lambda>c. mc_upload_id c = u \<and> mc_part_number c = n) (multipart_chunks (as_db S))")
    case None
    with Inr assms show ?thesis
      by (auto simp: put_part_def Let_def insert_row_def update_conv' new_chunk_def chunk_key_def split: if_splits)
  next
    case (Some c)
    then have "c \<in> set (multipart_chunks (as_db S))" "chunk_key c = (u, n)"
      by (auto simp: chunk_key_def dest!: find_SomeD)
    with Some Inr assms show ?thesis
      by (auto simp: put_part_def Let_def intro!: bexI [of _ c] split: if_splits)
  qed
qed (use assms in \<open>simp add: put_part_def Let_def split: if_splits\<close>)

text \<open>
  A part that was accepted is never lost: whatever calls follow, as long as the upload is open its
  status can be read (every recorded part is found on disk with its size and hash) and lists the
  part, and a part accepted for the first time is still the bytes that were sent. So an interrupted
  upload can always be resumed.
\<close>

lemma accepted_parts_persist:
  assumes "upload_platform dep" and "uploads_wf X S" and "put_part X E u n data sha t p S = (Inr rep, S1)"
    and "\<forall>e \<in> set calls. uuid_call e"
    and "get_upload (as_db (run (upload_step X py_str dep) calls S1)) u = Some up" and "mu_state up = ''open''"
  shows "\<exists>st. multipart_status X u (mu_tenant_id up) None (run (upload_step X py_str dep) calls S1) = Inr st \<and>
    \<lparr>pt_part_number = n, pt_sha256 = sha256_bytes (ac_rt X) data, pt_bytes = int (length data)\<rparr> \<in> set (us_verified_parts st) \<and>
    (\<not> pp_already_verified rep \<longrightarrow> map_of (as_files (run (upload_step X py_str dep) calls S1)) (part_path u n) = Some data)"
proof -
  let ?S' = "run (upload_step X py_str dep) calls S1"
  have S1: "uploads_wf X S1" using uploads_put [OF assms(2,3)] by simp
  then have wf: "uploads_wf X ?S'" and below: "uploads_below S1 ?S'"
    using upload_platform.upload_run [OF assms(1) _ assms(4)] by blast+
  obtain c where c: "c \<in> set (multipart_chunks (as_db S1))" "chunk_key c = (u, n)" "mc_sha256 c = sha256_bytes (ac_rt X) data"
      "mc_byte_count c = int (length data)" "\<not> pp_already_verified rep \<longrightarrow> map_of (as_files S1) (part_path u n) = Some data"
    using put_part_accepted [OF assms(3)] by blast
  have path: "mc_path c = part_path u n"
    using S1 c(1,2) by (auto simp: uploads_wf_def chunk_ok_def chunk_key_def)
  have kept: "c \<in> set (multipart_chunks (as_db ?S'))" "map_of (as_files ?S') (mc_path c) = map_of (as_files S1) (mc_path c)"
    using below c(1,2) assms(5,6) unfolding uploads_below_def by (auto simp: chunk_key_def)
  have "\<forall>c \<in> set (upload_chunks (as_db ?S') u). chunk_stored X ?S' c"
  proof
    fix d assume "d \<in> set (upload_chunks (as_db ?S') u)"
    then have "mc_upload_id d = u" "chunk_ok X ?S' d" using wf by (simp_all add: set_upload_chunks uploads_wf_def)
    with assms(5,6) show "chunk_stored X ?S' d" by (simp add: chunk_ok_def)
  qed
  from verify_chunks_stored [OF this] kept c path assms(5) show ?thesis
    by (force simp: multipart_status_def scoped_upload_def set_upload_chunks chunk_key_def)
qed

lemma join_parts_concat:
  "join_parts files cs = Inr data \<longleftrightarrow> (\<forall>c \<in> set cs. map_of files (mc_path c) \<noteq> None) \<and> data = concat (map (\<lambda>c. the (map_of files (mc_path c))) cs)"
  by (induction cs arbitrary: data) (auto simp: bindE_Inr_conv split: option.splits)

lemma complete_check_Inr [result_simps]:
  "complete_check u t p s = Inr (up, chunks) \<longleftrightarrow> scoped_upload s u t p = Inr up \<and> mu_state up = ''open'' \<and>
     chunks = upload_chunks s u \<and> chunks \<noteq> [] \<and> map mc_part_number chunks = [1..int (length chunks)]"
  by (auto simp: complete_check_def Let_def bindE_Inr_conv)

lemma close_upload_get:
  assumes "session (close_upload now u) s = (Inr (), t)"
  shows "\<exists>up. get_upload s u = Some up \<and>
     get_upload t u = Some (up\<lparr>mu_state := ''completed'', mu_completed_at := Some now\<rparr>) \<and> multipart_chunks t = multipart_chunks s"
proof -
  obtain up where up: "get_upload s u = Some up" and t: "t = s\<lparr>multipart_uploads :=
      tput mu_upload_id (up\<lparr>mu_state := ''completed'', mu_completed_at := Some now\<rparr>) (multipart_uploads s)\<rparr>"
    using assms by (auto simp: session_def close_upload_def split: option.splits)
  have "mu_upload_id up = u" using up by (rule upload_store.get_key)
  with up upload_store.get_put_same [of s "up\<lparr>mu_state := ''completed'', mu_completed_at := Some now\<rparr>"] show ?thesis by (simp add: t)
qed

text \<open>
  C31. An upload that completes stored exactly what was declared: the parts are numbered one to some
  \<open>k\<close> without a gap, the asset reads as the concatenation of the part files in that order, and that
  text has the declared size and hash. The upload is then closed, and completing it again is refused
  without any change.
\<close>

theorem completed_upload_exact:
  assumes "upload_platform dep" and "aead_ok (ac_aead X)" and "assets_wf X S" and "uploads_wf X S"
    and "complete_multipart X py_str dep E rnd a u t p S = (Inr ref, S')"
  shows "\<exists>up k data. get_upload (as_db S) u = Some up \<and> 1 \<le> k \<and> map mc_part_number (upload_chunks (as_db S) u) = [1..k] \<and>
    data = concat (map (\<lambda>n. the (map_of (as_files S) (part_path u n))) [1..k]) \<and>
    int (length data) = mu_expected_bytes up \<and> sha256_bytes (ac_rt X) data = mu_expected_sha256 up \<and>
    af_sha256 ref = mu_expected_sha256 up \<and> af_byte_count ref = mu_expected_bytes up \<and>
    read_bytes (ac_rt X) (ac_aead X) (af_sha256 ref) (as_store S') = Inr data \<and>
    complete_multipart X py_str dep E' rnd' a' u t p S' = (Inl (ConflictError ''UPLOAD_NOT_OPEN'' []), S')"
proof (rule complete_multipart_cases [OF assms(5)])
  fix up chunks data ref' S1 s
  assume chk: "complete_check u t p (as_db S) = Inr (up, chunks)" and data: "join_parts (as_files S) chunks = Inr data"
    and decl: "int (length data) = mu_expected_bytes up" "sha256_bytes (ac_rt X) data = mu_expected_sha256 up"
    and ing: "ingest_bytes X dep E rnd (upload_ingest py_str a up data) S = (Inr ref', S1)"
    and cl: "session (close_upload (clk E 3) u) (as_db S1) = (Inr (), s)" and "Inr ref = (Inr ref' :: sip_error + asset_reference)"
    and S': "S' = remove_tree u (S1\<lparr>as_db := s\<rparr>)"
  then have ref: "ref' = ref" by simp
  have ap: "asset_platform dep" using assms(1) by (simp add: upload_platform_def)
  have r: "af_sha256 ref = sha256_bytes (ac_rt X) data" "af_byte_count ref = int (length data)"
      "read_bytes (ac_rt X) (ac_aead X) (af_sha256 ref) (as_store S1) = Inr data"
    using ingest_result [OF ap assms(2,3) ing] by (auto simp: ref upload_ingest_def)
  have nums: "map mc_part_number chunks = [1..int (length chunks)]"
    using complete_check_Inr [THEN iffD1, OF chk] by blast
  have "map mc_path chunks = map (part_path u) (map mc_part_number chunks)"
    using assms(4) chk by (auto simp: complete_check_Inr set_upload_chunks uploads_wf_def chunk_ok_def)
  from arg_cong [OF this [unfolded nums], of "map (\<lambda>x. the (map_of (as_files S) x))"]
  have parts: "map (\<lambda>c. the (map_of (as_files S) (mc_path c))) chunks
      = map (\<lambda>n. the (map_of (as_files S) (part_path u n))) [1..int (length chunks)]"
    by (simp add: comp_def)
  have "same_uploads S S1" using upload_platform.ingest_uploads [OF assms(1), of S X E rnd "upload_ingest py_str a up data"] ing by simp
  then have "get_upload (as_db S1) u = get_upload (as_db S) u" by (simp add: same_uploads_def get_upload_def)
  then have "get_upload s u = Some (up\<lparr>mu_state := ''completed'', mu_completed_at := Some (clk E 3)\<rparr>)"
    using close_upload_get [OF cl] chk by (auto simp: result_simps)
  moreover have "mu_tenant_id up = t" "p = None \<or> p = Some (mu_project_id up)"
    using chk by (auto simp: complete_check_Inr scoped_upload_Inr)
  ultimately have again: "complete_check u t p (as_db S') = Inl (ConflictError ''UPLOAD_NOT_OPEN'' [])"
    by (auto simp: S' remove_tree_def complete_check_def scoped_upload_def)
  have "chunks \<noteq> []" using complete_check_Inr [THEN iffD1, OF chk] by blast
  then have "1 \<le> int (length chunks)" by (cases chunks) auto
  moreover have "as_store S' = as_store S1" by (simp add: S' remove_tree_def)
  moreover have "data = concat (map (\<lambda>n. the (map_of (as_files S) (part_path u n))) [1..int (length chunks)])"
    using data parts by (simp only: join_parts_concat)
  moreover have "get_upload (as_db S) u = Some up" "upload_chunks (as_db S) u = chunks"
    using chk by (auto simp: complete_check_Inr scoped_upload_Inr)
  ultimately show ?thesis
    using r decl again nums by (intro exI [of _ up] exI [of _ "int (length chunks)"] exI [of _ data])
      (simp add: complete_multipart_def)
qed simp_all

text \<open>
  Once an upload has completed, its status can no longer be read: the part files are gone and the
  part rows are not, so every status call in its scope raises \<open>UPLOAD_PART_BYTES_MISSING\<close>
  instead of reporting the state \<open>completed\<close>.
\<close>

lemma completed_upload_status_fails:
  assumes "upload_platform dep" and "uploads_wf X S" and "complete_multipart X py_str dep E rnd a u t p S = (Inr ref, S')"
  shows "multipart_status X u t p S' = Inl (ConflictError ''UPLOAD_PART_BYTES_MISSING'' [(''part_number'', JInt 1)])"
proof (rule complete_multipart_cases [OF assms(3)])
  fix up chunks data ref' S1 s
  assume chk: "complete_check u t p (as_db S) = Inr (up, chunks)"
    and ing: "ingest_bytes X dep E rnd (upload_ingest py_str a up data) S = (Inr ref', S1)"
    and cl: "session (close_upload (clk E 3) u) (as_db S1) = (Inr (), s)" and S': "S' = remove_tree u (S1\<lparr>as_db := s\<rparr>)"
  have same: "same_uploads S S1" using upload_platform.ingest_uploads [OF assms(1), of S X E rnd "upload_ingest py_str a up data"] ing by simp
  then have "get_upload (as_db S1) u = get_upload (as_db S) u" by (simp add: same_uploads_def get_upload_def)
  then obtain up' where up': "get_upload (as_db S') u = Some up'" "mu_tenant_id up' = mu_tenant_id up" "mu_project_id up' = mu_project_id up"
      and ch: "upload_chunks (as_db S') u = chunks"
    using close_upload_get [OF cl] chk same by (auto simp: S' remove_tree_def result_simps same_uploads_def upload_chunks_def)
  obtain c cs where c: "chunks = c # cs" "mc_part_number c = 1"
    using chk by (cases chunks) (auto simp: complete_check_Inr upto_rec1)
  have "c \<in> set (multipart_chunks (as_db S))" "mc_upload_id c = u"
    using c(1) set_upload_chunks [of c "as_db S" u] complete_check_Inr [THEN iffD1, OF chk] by simp_all
  then have "prefix (u @ ''/'') (mc_path c)"
    using assms(2) by (auto simp: uploads_wf_def chunk_ok_def part_path_def Let_def prefix_def)
  then have "map_of (as_files S') (mc_path c) = None"
    by (simp add: S' remove_tree_def map_of_filter_key)
  moreover have "scoped_upload (as_db S') u t p = Inr up'" using up' chk by (auto simp: result_simps)
  ultimately show ?thesis
    by (simp add: multipart_status_def ch c verify_chunk_def)
qed simp_all

section \<open>Instances\<close>

definition sample_upload :: asset_state where
  "sample_upload = sample_assets\<lparr>as_db := (as_db sample_assets)\<lparr>multipart_uploads := [\<lparr>mu_upload_id = ''up'', mu_tenant_id = ''t'',
       mu_project_id = ''p'', mu_expected_sha256 = sample_digest, mu_expected_bytes = 3, mu_media_type = ''text/plain'',
       mu_metadata_json = [], mu_state = ''open'', mu_created_by = ''u'', mu_created_at = 1, mu_completed_at = None\<rparr>]\<rparr>,
     as_dirs := [''up'']\<rparr>"

definition sample_part :: asset_state where
  "sample_part = snd (put_part sample_ctx (at_time 2) ''up'' 1 ''abc'' sample_digest ''t'' None sample_upload)"

definition sample_complete :: complete_args where
  "sample_complete = \<lparr>cm_original_name = ''f'', cm_classification = ''internal'', cm_retention_class = ''standard'',
     cm_source_class = ''observed'', cm_authority_class = ''raw'', cm_provenance = [], cm_actor_id = ''u''\<rparr>"

lemma sample_upload_wf: "uploads_wf sample_ctx sample_upload"
  by (simp add: uploads_wf_def sample_upload_def sample_assets_def empty_db_def)

lemma sample_put: "put_part sample_ctx (at_time 2) ''up'' 1 ''abc'' sample_digest ''t'' None sample_upload
    = (Inr \<lparr>pp_part_number = 1, pp_sha256 = sample_digest, pp_bytes = 3, pp_already_verified = False\<rparr>, sample_part)"
  by (simp add: sample_part_def put_part_def Let_def sample_sha sample_ctx_def sample_upload_def sample_assets_def empty_db_def
      scoped_upload_def get_upload_def tget_Cons insert_row_def)

lemma sample_part_fields:
  "get_upload (as_db sample_part) ''up'' = get_upload (as_db sample_upload) ''up'' \<and> as_store sample_part = as_store sample_assets \<and>
   as_files sample_part = [(part_path ''up'' 1, ''abc'')] \<and> get_project (as_db sample_part) = get_project (as_db sample_assets) \<and>
   multipart_chunks (as_db sample_part) = [new_chunk (at_time 2) ''up'' 1 sample_digest ''abc''] \<and> asset_refs (as_db sample_part) = [] \<and>
   assets (as_db sample_part) = [] \<and> audit_events (as_db sample_part) = []"
  by (simp add: sample_part_def put_part_def Let_def sample_sha sample_ctx_def sample_upload_def sample_assets_def empty_db_def
      scoped_upload_def get_upload_def tget_Cons insert_row_def get_project_def fun_eq_iff)

lemma sample_part_wf: "uploads_wf sample_ctx sample_part" "assets_wf sample_ctx sample_part"
  using uploads_put [OF sample_upload_wf sample_put] sample_part_fields
  by (simp_all add: assets_wf_def sample_assets_def store_ok_def)

lemma no_upload_deployment: "upload_platform None"
  by unfold_locales simp

lemma accepted_parts_persist_witness:
  "\<exists>st. multipart_status sample_ctx ''up'' ''t'' None (run (upload_step sample_ctx (\<lambda>_. []) None) [] sample_part) = Inr st \<and>
    \<lparr>pt_part_number = 1, pt_sha256 = sample_digest, pt_bytes = 3\<rparr> \<in> set (us_verified_parts st)"
  using accepted_parts_persist [OF no_upload_deployment sample_upload_wf sample_put, of "[]" "\<lambda>_. []"] sample_part_fields
  by (auto simp: sample_upload_def get_upload_def tget_Cons sample_sha sample_ctx_def)

lemma fresh_ingest_returns:
  assumes "aead_ok (ac_aead X)" and "store_ok (ac_rt X) (ac_aead X) (as_store S)"
    and d: "d = sha256_bytes (ac_rt X) (ig_data a)" "hex_text 64 d" "\<not> stored (as_store S) d"
    and p: "get_project (as_db S) (ig_project_id a) = Some pr" "pr_tenant_id pr = ig_tenant_id a"
    and "asset_refs (as_db S) = []" "assets (as_db S) = []" "audit_events (as_db S) = []"
  shows "\<exists>ref S'. ingest_bytes X None E rnd a S = (Inr ref, S')"
proof -
  obtain m st where w: "write_bytes (ac_rt X) (ac_aead X) rnd d (ig_data a) (as_store S) = Inr (m, st)"
    using write_fresh [OF d(3) d(1) [symmetric] d(2)] by blast
  then have r: "read_bytes (ac_rt X) (ac_aead X) d st = Inr (ig_data a)"
    using write_bytes_ok [OF assms(1,2)] by blast
  have "\<exists>ref t. ingest_session X E a k d m (as_db S) = Inr (ref, t)" for k
    using assms by (simp add: ingest_session_def append_audit_first get_ref_def get_object_def storage_key_def validate_digest_def insert_row_def)
  then obtain ref t where "ingest_session X E a (str_or (ig_asset_id a) (ids E 0)) d m (as_db S) = Inr (ref, t)" by blast
  with w r d(1) show ?thesis by (simp add: ingest_bytes_def admit_def)
qed

lemma sample_complete_returns:
  "\<exists>ref S'. complete_multipart sample_ctx (\<lambda>_. []) None (at_time 9) nat_repr sample_complete ''up'' ''t'' None sample_part = (Inr ref, S')"
proof -
  let ?row = "the (get_upload (as_db sample_part) ''up'')"
  have row: "get_upload (as_db sample_part) ''up'' = Some ?row" "mu_tenant_id ?row = ''t''" "mu_state ?row = ''open''" "mu_project_id ?row = ''p''"
      "mu_expected_bytes ?row = 3" "mu_expected_sha256 ?row = sample_digest"
    using sample_part_fields by (simp_all add: sample_upload_def get_upload_def tget_Cons)
  have chk: "complete_check ''up'' ''t'' None (as_db sample_part) = Inr (?row, [new_chunk (at_time 2) ''up'' 1 sample_digest ''abc''])"
    using row sample_part_fields by (simp add: complete_check_Inr scoped_upload_Inr upload_chunks_def new_chunk_def)
  have "\<exists>ref S'. ingest_bytes sample_ctx None (at_time 9) nat_repr (upload_ingest (\<lambda>_. []) sample_complete ?row ''abc'') sample_part = (Inr ref, S')"
    using sample_part_fields row sample_digest_hex sample_part_wf(2) sample_sha plain_aead_ok
    by (intro fresh_ingest_returns [where d = sample_digest and pr = "hd (projects (as_db sample_assets))"])
      (simp_all add: upload_ingest_def sample_ctx_def sample_assets_def stored_def get_project_def tget_Cons assets_wf_def)
  then obtain ref S1 where ing: "ingest_bytes sample_ctx None (at_time 9) nat_repr (upload_ingest (\<lambda>_. []) sample_complete ?row ''abc'') sample_part = (Inr ref, S1)"
    by blast
  have "get_upload (as_db S1) ''up'' = Some ?row"
    using local_uploads.ingest_uploads [of sample_part sample_ctx "at_time 9" nat_repr "upload_ingest (\<lambda>_. []) sample_complete ?row ''abc''"] ing row(1)
    by (simp add: same_uploads_def get_upload_def)
  with close_upload_returns obtain t where "close_upload (clk (at_time 9) 3) ''up'' (as_db S1) = Inr ((), t)" by blast
  moreover have "join_parts (as_files sample_part) [new_chunk (at_time 2) ''up'' 1 sample_digest ''abc''] = Inr ''abc''"
    using sample_part_fields by (simp add: new_chunk_def)
  ultimately show ?thesis
    using chk ing row sample_sha by (simp add: complete_multipart_def sample_ctx_def)
qed

lemma completed_upload_exact_witness:
  "\<exists>ref S'. complete_multipart sample_ctx (\<lambda>_. []) None (at_time 9) nat_repr sample_complete ''up'' ''t'' None sample_part = (Inr ref, S') \<and>
     read_bytes hex_runtime plain_aead sample_digest (as_store S') = Inr ''abc''"
proof -
  obtain ref S' where c: "complete_multipart sample_ctx (\<lambda>_. []) None (at_time 9) nat_repr sample_complete ''up'' ''t'' None sample_part = (Inr ref, S')"
    using sample_complete_returns by blast
  have digest: "mu_expected_sha256 up = sample_digest" if "get_upload (as_db sample_part) ''up'' = Some up" for up
    using that sample_part_fields by (auto simp: sample_upload_def get_upload_def tget_Cons)
  from completed_upload_exact [OF no_upload_deployment sample_aead sample_part_wf(2,1) c, of "at_time 9" nat_repr sample_complete]
  obtain k where k: "map mc_part_number (upload_chunks (as_db sample_part) ''up'') = [1..k]" and read: "read_bytes hex_runtime plain_aead sample_digest (as_store S')
      = Inr (concat (map (\<lambda>n. the (map_of (as_files sample_part) (part_path ''up'' n))) [1..k]))"
    using digest by (auto simp: sample_ctx_def)
  have "[1..k] = [1]" unfolding k [symmetric] using sample_part_fields by (simp add: upload_chunks_def new_chunk_def)
  with read sample_part_fields have "read_bytes hex_runtime plain_aead sample_digest (as_store S') = Inr ''abc''" by simp
  with c show ?thesis by blast
qed

lemma completed_upload_status_fails_witness:
  "\<exists>ref S'. complete_multipart sample_ctx (\<lambda>_. []) None (at_time 9) nat_repr sample_complete ''up'' ''t'' None sample_part = (Inr ref, S') \<and>
     multipart_status sample_ctx ''up'' ''t'' None S' = Inl (ConflictError ''UPLOAD_PART_BYTES_MISSING'' [(''part_number'', JInt 1)])"
proof -
  obtain ref S' where c: "complete_multipart sample_ctx (\<lambda>_. []) None (at_time 9) nat_repr sample_complete ''up'' ''t'' None sample_part = (Inr ref, S')"
    using sample_complete_returns by blast
  from completed_upload_status_fails [OF no_upload_deployment sample_part_wf(1) c] c show ?thesis by blast
qed

end
