(* ===== verification/Lifecycle.thy ===== *)
theory Lifecycle
  imports Asset_Lifecycle "HOL-Library.Product_Lexorder"
begin

text \<open>
  \<open>LifecycleService\<close> and \<open>AdmissionController\<close> of \<open>src/sip/lifecycle.py\<close>: retention rules,
  legal holds, the planning, request, approval and execution of deletions, quotas and the usage
  ledger.

  Parameters: \<open>reflect\<close> is what SQLAlchemy's \<open>Base.metadata.tables\<close> shows of the database
  (every mapped table, not only those of this model), \<open>py_str\<close> is \<open>str\<close> on column values,
  and \<open>sql_engine\<close> is what the quotas need of the database engine.
\<close>

section \<open>Retention rules\<close>

record rule_args =
  ra_tenant_id :: string
  ra_project_id :: "string option"
  ra_retention_class :: string
  ra_policy_source :: string
  ra_minimum_days :: int
  ra_maximum_days :: "int option"
  ra_backup_expiry_days :: int
  ra_deletion_mode :: string
  ra_actor_id :: string

definition same_rule_scope :: "string \<Rightarrow> string option \<Rightarrow> string \<Rightarrow> retention_rule_row \<Rightarrow> bool" where
  "same_rule_scope tenant project cls r \<longleftrightarrow>
     rr_tenant_id r = tenant \<and> rr_project_id r = project \<and> rr_retention_class r = cls"

definition prior_version :: "string \<Rightarrow> string option \<Rightarrow> string \<Rightarrow> retention_rule_row list \<Rightarrow> int" where
  "prior_version tenant project cls rows =
     (let versions = map rr_version (filter (same_rule_scope tenant project cls) rows)
      in if versions = [] then 0 else Max (set versions))"

definition new_rule :: "env \<Rightarrow> rule_args \<Rightarrow> int \<Rightarrow> retention_rule_row" where
  "new_rule E a version =
     \<lparr>rr_retention_rule_id = ids E 0, rr_tenant_id = ra_tenant_id a, rr_project_id = ra_project_id a,
      rr_retention_class = ra_retention_class a, rr_policy_source = ra_policy_source a,
      rr_minimum_days = ra_minimum_days a, rr_maximum_days = ra_maximum_days a,
      rr_backup_expiry_days = ra_backup_expiry_days a, rr_deletion_mode = ra_deletion_mode a,
      rr_active = True, rr_version = version, rr_created_by = ra_actor_id a, rr_created_at = clk E 0\<rparr>"

definition set_retention_rule :: "runtime \<Rightarrow> string \<Rightarrow> env \<Rightarrow> rule_args \<Rightarrow> db \<Rightarrow> sip_error + string \<times> db" where
  "set_retention_rule rt key E a s =
     (if ra_minimum_days a < 0 \<or> ra_backup_expiry_days a < 0
         \<or> (case ra_maximum_days a of None \<Rightarrow> False | Some m \<Rightarrow> m < ra_minimum_days a)
      then Inl (ValidationError ''RETENTION_RANGE_INVALID'' [])
      else if ra_deletion_mode a \<notin> {''tombstone_then_erase'', ''tombstone_only'', ''manual_review''}
      then Inl (ValidationError ''RETENTION_MODE_INVALID'' [])
      else if get_tenant s (ra_tenant_id a) = None then Inl (NotFoundError ''tenant'' (ra_tenant_id a))
      else if truthy_str (ra_project_id a)
        \<and> (case get_project s (the (ra_project_id a)) of None \<Rightarrow> True | Some p \<Rightarrow> pr_tenant_id p \<noteq> ra_tenant_id a)
      then Inl (NotFoundError ''project'' (the (ra_project_id a)))
      else let scope = same_rule_scope (ra_tenant_id a) (ra_project_id a) (ra_retention_class a);
               version = prior_version (ra_tenant_id a) (ra_project_id a) (ra_retention_class a) (retention_rules s) + 1;
               row = new_rule E a version;
               rules = map (\<lambda>r. if scope r \<and> rr_active r then r\<lparr>rr_active := False\<rparr> else r) (retention_rules s)
           in bindE (insert_row rr_retention_rule_id row rules) (\<lambda>rows.
              bindE (append_audit rt key (ids E 1) (clk E 1)
                (audit_entry (ra_tenant_id a) (ra_project_id a) (ra_actor_id a) ''retention:rule_create'' ''retention_rule''
                   (rr_retention_rule_id row) ''allowed''
                   [(''retention_class'', JStr (ra_retention_class a)), (''version'', JInt version),
                    (''policy_source'', JStr (ra_policy_source a))]) (s\<lparr>retention_rules := rows\<rparr>)) (\<lambda>s'.
              Inr (rr_retention_rule_id row, s'))))"

text \<open>\<open>_retention_rule\<close>: the active rule of the project, else of the tenant; the highest version.\<close>

definition newest_rule :: "(retention_rule_row \<Rightarrow> bool) \<Rightarrow> retention_rule_row list \<Rightarrow> retention_rule_row option" where
  "newest_rule scope rows =
     (case sort_key (\<lambda>r. - rr_version r) (filter (\<lambda>r. scope r \<and> rr_active r) rows) of [] \<Rightarrow> None | r # _ \<Rightarrow> Some r)"

definition retention_rule :: "db \<Rightarrow> string \<Rightarrow> string \<Rightarrow> string \<Rightarrow> retention_rule_row option" where
  "retention_rule s tenant project cls =
     (case newest_rule (same_rule_scope tenant (Some project) cls) (retention_rules s) of
        Some r \<Rightarrow> Some r
      | None \<Rightarrow> newest_rule (same_rule_scope tenant None cls) (retention_rules s))"

section \<open>Legal holds\<close>

record hold_args =
  ha_tenant_id :: string
  ha_project_id :: string
  ha_resource_type :: string
  ha_resource_id :: string
  ha_reason :: string
  ha_authority_reference :: string
  ha_actor_id :: string

definition get_hold :: "db \<Rightarrow> string \<Rightarrow> legal_hold_row option" where
  "get_hold s k = tget h_hold_id (legal_holds s) k"

definition active_hold :: "string \<Rightarrow> string \<Rightarrow> string \<Rightarrow> string \<Rightarrow> legal_hold_row \<Rightarrow> bool" where
  "active_hold tenant project resource_type resource_id h \<longleftrightarrow> h_tenant_id h = tenant \<and> h_project_id h = project \<and>
     h_resource_type h = resource_type \<and> h_resource_id h = resource_id \<and> h_state h = ''active''"

definition new_hold :: "env \<Rightarrow> hold_args \<Rightarrow> legal_hold_row" where
  "new_hold E a =
     \<lparr>h_hold_id = ids E 0, h_tenant_id = ha_tenant_id a, h_project_id = ha_project_id a,
      h_resource_type = ha_resource_type a, h_resource_id = ha_resource_id a, h_reason = ha_reason a,
      h_authority_reference = ha_authority_reference a, h_state = ''active'', h_placed_by = ha_actor_id a,
      h_placed_at = clk E 0, h_released_by = None, h_released_at = None\<rparr>"

definition place_hold :: "runtime \<Rightarrow> string \<Rightarrow> env \<Rightarrow> hold_args \<Rightarrow> db \<Rightarrow> sip_error + string \<times> db" where
  "place_hold rt key E a s =
     (case find (active_hold (ha_tenant_id a) (ha_project_id a) (ha_resource_type a) (ha_resource_id a)) (legal_holds s) of
        Some existing \<Rightarrow> Inr (h_hold_id existing, s)
      | None \<Rightarrow>
          bindE (if ha_resource_type a = ''asset''
                 then (case get_ref s (ha_resource_id a) of
                         None \<Rightarrow> Inl (NotFoundError ''asset'' (ha_resource_id a))
                       | Some ref \<Rightarrow>
                           (if r_tenant_id ref \<noteq> ha_tenant_id a \<or> r_project_id ref \<noteq> ha_project_id a
                            then Inl (NotFoundError ''asset'' (ha_resource_id a))
                            else Inr (put_ref (ref\<lparr>r_legal_hold := True\<rparr>) s)))
                 else Inr s) (\<lambda>s1.
          bindE (insert_row h_hold_id (new_hold E a) (legal_holds s1)) (\<lambda>rows.
          bindE (append_audit rt key (ids E 1) (clk E 1)
            (audit_entry (ha_tenant_id a) (Some (ha_project_id a)) (ha_actor_id a) ''legal_hold:place'' (ha_resource_type a)
               (ha_resource_id a) ''allowed''
               [(''hold_id'', JStr (ids E 0)), (''authority_reference'', JStr (ha_authority_reference a)),
                (''reason'', JStr (ha_reason a))]) (s1\<lparr>legal_holds := rows\<rparr>)) (\<lambda>s2.
          Inr (ids E 0, s2)))))"

definition released_hold :: "legal_hold_row \<Rightarrow> string \<Rightarrow> time \<Rightarrow> legal_hold_row" where
  "released_hold h actor now = h\<lparr>h_state := ''released'', h_released_by := Some actor, h_released_at := Some now\<rparr>"

definition release_hold ::
  "runtime \<Rightarrow> string \<Rightarrow> env \<Rightarrow> string \<Rightarrow> string \<Rightarrow> string \<Rightarrow> string \<Rightarrow> db \<Rightarrow> sip_error + unit \<times> db" where
  "release_hold rt key E tenant project hold_id actor s =
     (case get_hold s hold_id of
        None \<Rightarrow> Inl (NotFoundError ''legal_hold'' hold_id)
      | Some hold \<Rightarrow>
          (if h_tenant_id hold \<noteq> tenant \<or> h_project_id hold \<noteq> project then Inl (NotFoundError ''legal_hold'' hold_id)
           else if h_state hold \<noteq> ''active'' then Inr ((), s)
           else let s1 = s\<lparr>legal_holds := tput h_hold_id (released_hold hold actor (clk E 0)) (legal_holds s)\<rparr>;
                    others = length (filter (\<lambda>h. active_hold tenant project ''asset'' (h_resource_id hold) h \<and> h_hold_id h \<noteq> hold_id)
                      (legal_holds s1));
                    s2 = (if h_resource_type hold = ''asset''
                          then (case get_ref s1 (h_resource_id hold) of
                                  Some ref \<Rightarrow> if others = 0 then put_ref (ref\<lparr>r_legal_hold := False\<rparr>) s1 else s1
                                | None \<Rightarrow> s1)
                          else s1)
                in bindE (append_audit rt key (ids E 0) (clk E 1)
                     (audit_entry tenant (Some project) actor ''legal_hold:release'' (h_resource_type hold) (h_resource_id hold)
                        ''allowed'' [(''hold_id'', JStr hold_id)]) s2) (\<lambda>s3. Inr ((), s3))))"

section \<open>Dependencies of an asset\<close>

fun contains_reference :: "(json \<Rightarrow> string) \<Rightarrow> string \<Rightarrow> json \<Rightarrow> bool"
and contains_reference_list :: "(json \<Rightarrow> string) \<Rightarrow> string \<Rightarrow> json list \<Rightarrow> bool"
and contains_reference_fields :: "(json \<Rightarrow> string) \<Rightarrow> string \<Rightarrow> fields \<Rightarrow> bool" where
  "contains_reference py_str target (JObj kvs) = contains_reference_fields py_str target kvs"
| "contains_reference py_str target (JArr vs) = contains_reference_list py_str target vs"
| "contains_reference py_str target v = (py_str v = target)"
| "contains_reference_list py_str target [] = False"
| "contains_reference_list py_str target (v # vs) = (contains_reference py_str target v \<or> contains_reference_list py_str target vs)"
| "contains_reference_fields py_str target [] = False"
| "contains_reference_fields py_str target ((k, v) # kvs) = (contains_reference py_str target v \<or> contains_reference_fields py_str target kvs)"

definition dependency_disposition :: "string \<Rightarrow> string" where
  "dependency_disposition table =
     (if table \<in> {''representations'', ''representation_bindings'', ''scene_commits''} then ''withdraw_or_supersede_derivative''
      else if table = ''search_documents'' then ''purge_index''
      else if table = ''notifications'' then ''redact_notification_payload''
      else if table \<in> {''construction_records'', ''memory_records'', ''collaboration_comments'', ''collaboration_tasks''}
      then ''review_shared_rights_and_redact_or_tombstone''
      else ''review_dependency'')"

record reflected_table =
  tv_name :: string
  tv_columns :: "string list"
  tv_primary_key :: "string list"
  tv_rows :: "fields list"

record dependency =
  dy_table :: string
  dy_record_id :: string
  dy_disposition :: string
  dy_status :: "string option"

definition excluded_tables :: "string list" where
  "excluded_tables = [''assets'', ''asset_refs'', ''audit_events'', ''deletion_requests'', ''deletion_evidence'',
     ''backup_runs'', ''legal_holds'', ''retention_rules'', ''key_rotations'', ''usage_ledger'', ''quota_policies'']"

definition record_id :: "(json \<Rightarrow> string) \<Rightarrow> reflected_table \<Rightarrow> fields \<Rightarrow> string" where
  "record_id py_str tbl row =
     (case find (\<lambda>c. jget row c \<noteq> JNull) (tv_primary_key tbl) of None \<Rightarrow> ''unknown'' | Some c \<Rightarrow> py_str (jget row c))"

definition table_dependencies ::
  "(json \<Rightarrow> string) \<Rightarrow> string \<Rightarrow> string \<Rightarrow> string \<Rightarrow> string \<Rightarrow> reflected_table \<Rightarrow> dependency list" where
  "table_dependencies py_str tenant project asset_id digest tbl =
     (if tv_name tbl \<in> set excluded_tables \<or> ''tenant_id'' \<notin> set (tv_columns tbl) then []
      else map (\<lambda>row. \<lparr>dy_table = tv_name tbl, dy_record_id = record_id py_str tbl row,
                       dy_disposition = dependency_disposition (tv_name tbl), dy_status = None\<rparr>)
        (filter (\<lambda>row. contains_reference py_str asset_id (JObj row) \<or> contains_reference py_str digest (JObj row))
          (filter (\<lambda>row. jget row ''tenant_id'' = JStr tenant \<and>
             (''project_id'' \<in> set (tv_columns tbl) \<longrightarrow> jget row ''project_id'' = JStr project)) (tv_rows tbl))))"

definition export_dependencies :: "db \<Rightarrow> string \<Rightarrow> string \<Rightarrow> dependency list" where
  "export_dependencies s tenant project =
     map (\<lambda>x. \<lparr>dy_table = ''exports'', dy_record_id = x_export_id x,
              dy_disposition = ''must_be_invalidated_or_reissued'', dy_status = Some (x_status x)\<rparr>)
       (filter (\<lambda>x. x_tenant_id x = tenant \<and> x_project_id x = project) (exports s))"

definition dependencies ::
  "(json \<Rightarrow> string) \<Rightarrow> (db \<Rightarrow> reflected_table list) \<Rightarrow> db \<Rightarrow> string \<Rightarrow> string \<Rightarrow> string \<Rightarrow> string \<Rightarrow> dependency list" where
  "dependencies py_str reflect s tenant project asset_id digest =
     sort_key (\<lambda>d. (dy_table d, dy_record_id d))
       (concat (map (table_dependencies py_str tenant project asset_id digest) (reflect s)) @ export_dependencies s tenant project)"

definition dependency_fields :: "dependency \<Rightarrow> fields" where
  "dependency_fields d = [(''table'', JStr (dy_table d)), (''record_id'', JStr (dy_record_id d)),
     (''disposition'', JStr (dy_disposition d))] @ (case dy_status d of None \<Rightarrow> [] | Some x \<Rightarrow> [(''status'', JStr x)])"

section \<open>Deletions\<close>

record deletion_plan =
  dp_sha256 :: string
  dp_dependencies :: "dependency list"
  dp_retention_class :: string
  dp_blockers :: "string list"
  dp_snapshot :: fields
  dp_snapshot_hash :: string
  dp_other_active :: nat

definition matching_holds :: "db \<Rightarrow> string \<Rightarrow> string \<Rightarrow> string \<Rightarrow> legal_hold_row list" where
  "matching_holds s tenant project asset_id =
     filter (\<lambda>h. active_hold tenant project ''asset'' asset_id h \<or> active_hold tenant project ''project'' project h) (legal_holds s)"

definition hold_fields :: "legal_hold_row \<Rightarrow> fields" where
  "hold_fields h = [(''hold_id'', JStr (h_hold_id h)), (''resource_type'', JStr (h_resource_type h)),
     (''resource_id'', JStr (h_resource_id h)), (''authority_reference'', JStr (h_authority_reference h))]"

text \<open>\<open>max(0, (now - created).days)\<close>; \<open>timedelta.days\<close> rounds down.\<close>

definition age_days :: "time \<Rightarrow> time \<Rightarrow> int" where
  "age_days now created = max 0 ((now - created) div 86400000000)"

definition deletion_blockers :: "db \<Rightarrow> time \<Rightarrow> string \<Rightarrow> string \<Rightarrow> asset_ref_row \<Rightarrow> string list" where
  "deletion_blockers s now tenant project ref =
     (if r_legal_hold ref \<or> matching_holds s tenant project (r_asset_id ref) \<noteq> [] then [''legal_hold_active''] else []) @
     (case retention_rule s tenant project (r_retention_class ref) of
        None \<Rightarrow> []
      | Some rule \<Rightarrow> if age_days now (r_created_at ref) \<ge> rr_minimum_days rule then [] else [''minimum_retention_not_met'']) @
     (if r_tombstoned_at ref \<noteq> None then [''already_tombstoned''] else [])"

definition deletion_snapshot ::
  "(json \<Rightarrow> string) \<Rightarrow> (db \<Rightarrow> reflected_table list) \<Rightarrow> db \<Rightarrow> time \<Rightarrow> string \<Rightarrow> string \<Rightarrow> asset_ref_row \<Rightarrow> fields" where
  "deletion_snapshot py_str reflect s now tenant project ref =
     (let asset_id = r_asset_id ref; rule = retention_rule s tenant project (r_retention_class ref);
          age = age_days now (r_created_at ref)
      in [(''asset_id'', JStr asset_id), (''sha256'', JStr (r_sha256 ref)),
          (''dependencies'', JArr (map (\<lambda>d. JObj (dependency_fields d)) (dependencies py_str reflect s tenant project asset_id (r_sha256 ref)))),
          (''other_active_references'', JInt (int (other_active_refs s (r_sha256 ref) asset_id))),
          (''legal_holds'', JArr (map (\<lambda>h. JObj (hold_fields h)) (matching_holds s tenant project asset_id))),
          (''retention_rule_id'', (case rule of None \<Rightarrow> JNull | Some r \<Rightarrow> JStr (rr_retention_rule_id r))),
          (''retention_rule_version'', (case rule of None \<Rightarrow> JNull | Some r \<Rightarrow> JInt (rr_version r))),
          (''retention_class'', JStr (r_retention_class ref)), (''age_days'', JInt age),
          (''minimum_retention_met'', JBool (case rule of None \<Rightarrow> True | Some r \<Rightarrow> age \<ge> rr_minimum_days r)),
          (''blockers'', JArr (map JStr (deletion_blockers s now tenant project ref)))])"

definition plan_asset_deletion ::
  "runtime \<Rightarrow> (json \<Rightarrow> string) \<Rightarrow> (db \<Rightarrow> reflected_table list) \<Rightarrow> time \<Rightarrow> string \<Rightarrow> string \<Rightarrow> string \<Rightarrow> db \<Rightarrow> sip_error + deletion_plan" where
  "plan_asset_deletion rt py_str reflect now tenant project asset_id s =
     (case get_ref s asset_id of
        None \<Rightarrow> Inl (NotFoundError ''asset'' asset_id)
      | Some ref \<Rightarrow>
          (if r_tenant_id ref \<noteq> tenant \<or> r_project_id ref \<noteq> project then Inl (NotFoundError ''asset'' asset_id)
           else case get_object s (r_sha256 ref) of
             None \<Rightarrow> Inl (ValidationError ''OBJECT_REFERENCE_BROKEN'' [])
           | Some obj \<Rightarrow>
               let snapshot = deletion_snapshot py_str reflect s now tenant project ref
               in Inr \<lparr>dp_sha256 = r_sha256 ref,
                    dp_dependencies = dependencies py_str reflect s tenant project asset_id (r_sha256 ref),
                    dp_retention_class = r_retention_class ref,
                    dp_blockers = deletion_blockers s now tenant project ref,
                    dp_snapshot = snapshot, dp_snapshot_hash = canonical_sha256 rt (JObj snapshot),
                    dp_other_active = other_active_refs s (r_sha256 ref) asset_id\<rparr>))"

text \<open>The report as it is stored with the request; \<open>eligible\<close> is \<open>not blockers\<close>.\<close>

definition required_controls :: "string list" where
  "required_controls = [''dry_run'', ''verified_backup_reference'', ''independent_approval'', ''unchanged_dependency_snapshot'',
     ''audit_and_erasure_evidence'', ''index_cache_export_dependency_review'']"

definition plan_fields :: "deletion_plan \<Rightarrow> fields" where
  "plan_fields p = [(''schema_version'', JStr ''1.0.0'')] @ dp_snapshot p @
     [(''dependency_snapshot_hash'', JStr (dp_snapshot_hash p)), (''eligible'', JBool (dp_blockers p = [])),
      (''physical_object_will_be_removed'', JBool (dp_other_active p = 0)),
      (''required_controls'', JArr (map JStr required_controls))]"

definition get_deletion :: "db \<Rightarrow> string \<Rightarrow> deletion_request_row option" where
  "get_deletion s k = tget d_deletion_id (deletion_requests s) k"

definition put_deletion :: "deletion_request_row \<Rightarrow> db \<Rightarrow> db" where
  "put_deletion d s = s\<lparr>deletion_requests := tput d_deletion_id d (deletion_requests s)\<rparr>"

definition get_backup :: "db \<Rightarrow> string \<Rightarrow> backup_run_row option" where
  "get_backup s k = tget b_backup_id (backup_runs s) k"

definition new_deletion :: "env \<Rightarrow> string \<Rightarrow> string \<Rightarrow> string \<Rightarrow> string \<Rightarrow> string \<Rightarrow> deletion_plan \<Rightarrow> deletion_request_row" where
  "new_deletion E tenant project asset_id backup_id actor plan =
     \<lparr>d_deletion_id = ids E 0, d_tenant_id = tenant, d_project_id = project, d_resource_type = ''asset'',
      d_resource_id = asset_id, d_dry_run_report = plan_fields plan, d_backup_reference = backup_id,
      d_state = ''awaiting_approval'', d_requested_by = actor, d_approved_by = None, d_executed_by = None,
      d_requested_at = clk E 1, d_approved_at = None, d_executed_at = None\<rparr>"

definition request_asset_deletion ::
  "runtime \<Rightarrow> string \<Rightarrow> (json \<Rightarrow> string) \<Rightarrow> (db \<Rightarrow> reflected_table list) \<Rightarrow> env \<Rightarrow> string \<Rightarrow> string \<Rightarrow> string \<Rightarrow> string \<Rightarrow> string
     \<Rightarrow> db \<Rightarrow> sip_error + string \<times> db" where
  "request_asset_deletion rt key py_str reflect E tenant project asset_id backup_id actor s =
     bindE (plan_asset_deletion rt py_str reflect (clk E 0) tenant project asset_id s) (\<lambda>plan.
       if dp_blockers plan \<noteq> []
       then Inl (ConflictError ''DELETION_INELIGIBLE'' [(''blockers'', JArr (map JStr (dp_blockers plan)))])
       else if (case get_backup s backup_id of None \<Rightarrow> True
                | Some b \<Rightarrow> b_state b \<noteq> ''verified'' \<or> b_restore_rehearsed_at b = None)
       then Inl (ConflictError ''VERIFIED_BACKUP_REQUIRED'' [])
       else bindE (insert_row d_deletion_id (new_deletion E tenant project asset_id backup_id actor plan) (deletion_requests s)) (\<lambda>rows.
            bindE (append_audit rt key (ids E 1) (clk E 2)
              (audit_entry tenant (Some project) actor ''deletion:request'' ''asset'' asset_id ''allowed''
                 [(''deletion_id'', JStr (ids E 0)), (''backup_id'', JStr backup_id),
                  (''snapshot_hash'', JStr (dp_snapshot_hash plan))]) (s\<lparr>deletion_requests := rows\<rparr>)) (\<lambda>s'.
            Inr (ids E 0, s'))))"

definition approved_deletion :: "deletion_request_row \<Rightarrow> string \<Rightarrow> deletion_request_row" where
  "approved_deletion d actor = d\<lparr>d_approved_by := Some actor, d_state := ''approved''\<rparr>"

definition approve_deletion ::
  "runtime \<Rightarrow> string \<Rightarrow> env \<Rightarrow> string \<Rightarrow> string \<Rightarrow> string \<Rightarrow> string \<Rightarrow> db \<Rightarrow> sip_error + unit \<times> db" where
  "approve_deletion rt key E tenant project deletion_id actor s =
     (case get_deletion s deletion_id of
        None \<Rightarrow> Inl (NotFoundError ''deletion_request'' deletion_id)
      | Some row \<Rightarrow>
          (if d_tenant_id row \<noteq> tenant \<or> d_project_id row \<noteq> project then Inl (NotFoundError ''deletion_request'' deletion_id)
           else if d_requested_by row = actor then Inl (ConflictError ''INDEPENDENT_APPROVER_REQUIRED'' [])
           else if d_state row \<noteq> ''awaiting_approval'' then Inl (ConflictError ''DELETION_STATE_INVALID'' [])
           else bindE (append_audit rt key (ids E 0) (clk E 0)
             (audit_entry tenant (Some project) actor ''deletion:approve'' (d_resource_type row) (d_resource_id row) ''allowed''
                [(''deletion_id'', JStr deletion_id), (''requested_by'', JStr (d_requested_by row))])
             (put_deletion (approved_deletion row actor) s)) (\<lambda>s'. Inr ((), s'))))"

text \<open>\<open>execute_deletion\<close>: a session that reads the request, the plan and the tombstone in sessions of
  their own, and the session that records the evidence.\<close>

definition execution_check ::
  "(json \<Rightarrow> string) \<Rightarrow> string \<Rightarrow> string \<Rightarrow> string \<Rightarrow> db \<Rightarrow> sip_error + deletion_request_row \<times> string \<times> string list" where
  "execution_check py_str tenant project deletion_id s =
     (case get_deletion s deletion_id of
        None \<Rightarrow> Inl (NotFoundError ''deletion_request'' deletion_id)
      | Some row \<Rightarrow>
          (if d_tenant_id row \<noteq> tenant \<or> d_project_id row \<noteq> project then Inl (NotFoundError ''deletion_request'' deletion_id)
           else if d_state row \<noteq> ''approved'' \<or> \<not> truthy_str (d_approved_by row)
           then Inl (ConflictError ''DELETION_NOT_APPROVED'' [])
           else case map_of (d_dry_run_report row) ''dependency_snapshot_hash'' of
             None \<Rightarrow> Inl (Uncaught ''KeyError'')
           | Some expected \<Rightarrow>
               (case get_ref s (d_resource_id row) of
                  None \<Rightarrow> Inl (NotFoundError ''asset'' (d_resource_id row))
                | Some ref \<Rightarrow>
                    Inr (row, py_str expected,
                      case get_object s (r_sha256 ref) of
                        None \<Rightarrow> []
                      | Some obj \<Rightarrow> if truthy (jget (a_encryption_metadata obj) ''key_id'')
                                    then [py_str (jget (a_encryption_metadata obj) ''key_id'')] else []))))"

definition residual_locations :: "string \<Rightarrow> time \<Rightarrow> dependency list \<Rightarrow> fields list" where
  "residual_locations backup_id deadline deps =
     [(''location_type'', JStr ''verified_backup''), (''reference'', JStr backup_id), (''access_state'', JStr ''restricted''),
      (''expiry_deadline'', JStr (isoformat deadline))]
     # map (\<lambda>d. (''location_type'', JStr ''dependency'') # dependency_fields d) deps"

record execution_report =
  ex_impact :: tombstone_report
  ex_deletion_id :: string
  ex_evidence_id :: string
  ex_evidence_hash :: string
  ex_backup_expiry_deadline :: time

definition evidence_body ::
  "deletion_request_row \<Rightarrow> string \<Rightarrow> string \<Rightarrow> tombstone_report \<Rightarrow> string list \<Rightarrow> fields list \<Rightarrow> time \<Rightarrow> fields" where
  "evidence_body row actor digest impact key_ids residuals deadline =
     [(''deletion_id'', JStr (d_deletion_id row)), (''asset_id'', JStr (d_resource_id row)), (''sha256'', JStr digest),
      (''impact'', JObj (tombstone_fields impact)), (''approved_by'', jopt (d_approved_by row)), (''executed_by'', JStr actor),
      (''key_ids'', JArr (map JStr key_ids)), (''residual_locations'', JArr (map JObj residuals)),
      (''backup_expiry_deadline'', JStr (isoformat deadline))]"

definition record_execution ::
  "runtime \<Rightarrow> string \<Rightarrow> env \<Rightarrow> string \<Rightarrow> string \<Rightarrow> deletion_request_row \<Rightarrow> string list \<Rightarrow> deletion_plan \<Rightarrow> tombstone_report \<Rightarrow> string
     \<Rightarrow> db \<Rightarrow> sip_error + execution_report \<times> db" where
  "record_execution rt key E tenant project row key_ids plan impact actor s =
     (case get_deletion s (d_deletion_id row) of
        None \<Rightarrow> Inl (Uncaught ''AssertionError'')
      | Some current \<Rightarrow>
          let rule = retention_rule s tenant project (dp_retention_class plan);
              deadline = clk E 0 + (case rule of None \<Rightarrow> 30 | Some r \<Rightarrow> rr_backup_expiry_days r) * 86400000000;
              residuals = residual_locations (d_backup_reference row) deadline (dp_dependencies plan);
              evidence_hash = canonical_sha256 rt (JObj (evidence_body row actor (dp_sha256 plan) impact key_ids residuals deadline));
              evidence = \<lparr>de_evidence_id = ids E 0, de_deletion_id = d_deletion_id row, de_tenant_id = tenant, de_project_id = project,
                de_resource_type = ''asset'', de_resource_id = d_resource_id row,
                de_action = (if tb_physical_object_will_be_removed impact then ''tombstone_and_object_erasure''
                             else ''tombstone_shared_object_retained''),
                de_affected_references = map dependency_fields (dp_dependencies plan), de_key_ids = key_ids,
                de_residual_locations = residuals, de_backup_expiry_deadline = Some deadline,
                de_evidence_hash = evidence_hash, de_created_at = clk E 1\<rparr>
          in bindE (insert_row de_evidence_id evidence (deletion_evidence s)) (\<lambda>rows.
             bindE (append_audit rt key (ids E 1) (clk E 3)
               (audit_entry tenant (Some project) actor ''deletion:execute'' ''asset'' (d_resource_id row) ''allowed''
                  ([(''deletion_id'', JStr (d_deletion_id row)), (''evidence_id'', JStr (ids E 0)),
                    (''evidence_hash'', JStr evidence_hash)] @ tombstone_fields impact))
               (put_deletion (current\<lparr>d_state := ''executed'', d_executed_at := Some (clk E 2)\<rparr>) (s\<lparr>deletion_evidence := rows\<rparr>))) (\<lambda>s'.
             Inr (\<lparr>ex_impact = impact, ex_deletion_id = d_deletion_id row, ex_evidence_id = ids E 0,
                   ex_evidence_hash = evidence_hash, ex_backup_expiry_deadline = deadline\<rparr>, s'))))"

definition execute_deletion ::
  "asset_ctx \<Rightarrow> (json \<Rightarrow> string) \<Rightarrow> (db \<Rightarrow> reflected_table list) \<Rightarrow> env \<Rightarrow> string \<Rightarrow> string \<Rightarrow> string \<Rightarrow> string
     \<Rightarrow> asset_state \<Rightarrow> (sip_error + execution_report) \<times> asset_state" where
  "execute_deletion X py_str reflect E tenant project deletion_id actor S =
     (case bindE (execution_check py_str tenant project deletion_id (as_db S)) (\<lambda>(row, expected, key_ids).
             bindE (plan_asset_deletion (ac_rt X) py_str reflect (clk E 0) tenant project (d_resource_id row) (as_db S)) (\<lambda>current.
               if dp_snapshot_hash current \<noteq> expected
               then Inl (ConflictError ''DELETION_DEPENDENCIES_CHANGED''
                 [(''expected'', JStr expected), (''actual'', JStr (dp_snapshot_hash current))])
               else if dp_blockers current \<noteq> []
               then Inl (ConflictError ''DELETION_INELIGIBLE'' [(''blockers'', JArr (map JStr (dp_blockers current)))])
               else Inr (row, key_ids, current))) of
        Inl e \<Rightarrow> (Inl e, S)
      | Inr (row, key_ids, current) \<Rightarrow>
          (case tombstone X (shift_env 1 E) tenant project (d_resource_id row) actor False S of
             (Inl e, S1) \<Rightarrow> (Inl e, S1)
           | (Inr impact, S1) \<Rightarrow>
               (case session (record_execution (ac_rt X) (ac_signing_key X) (shift_env 3 E) tenant project row key_ids current impact actor)
                       (as_db S1) of
                  (result, s2) \<Rightarrow> (result, S1\<lparr>as_db := s2\<rparr>))))"

section \<open>Quotas and usage\<close>

text \<open>
  Quantities and limits are floats. What the database does with them is a parameter, the record
  \<open>sql_engine\<close>: whether it sorts a missing project first, whether a float column can hold NaN
  (PostgreSQL; SQLite binds NaN as NULL, which these columns refuse), and \<open>SUM\<close> over the floats of
  the selected rows, which may fail.
\<close>

record sql_engine =
  sq_nulls_first :: bool
  sq_stores_nan :: bool
  sq_sum :: "py_float list \<Rightarrow> py_float option"

definition storable :: "sql_engine \<Rightarrow> py_float list \<Rightarrow> bool" where
  "storable G xs = (NaN \<in> set xs \<longrightarrow> sq_stores_nan G)"

record quota_args =
  qa_tenant_id :: string
  qa_project_id :: "string option"
  qa_resource_type :: string
  qa_unit :: string
  qa_period_seconds :: int
  qa_soft_limit :: py_float
  qa_hard_limit :: py_float
  qa_actor_id :: string

definition set_quota :: "sql_engine \<Rightarrow> env \<Rightarrow> quota_args \<Rightarrow> db \<Rightarrow> sip_error + string \<times> db" where
  "set_quota G E a s =
     (if qa_period_seconds a \<le> 0 \<or> float_lt (qa_soft_limit a) (Finite 0) \<or> float_le (qa_hard_limit a) (Finite 0)
         \<or> float_lt (qa_hard_limit a) (qa_soft_limit a)
      then Inl (ValidationError ''QUOTA_INVALID'' [])
      else if \<not> storable G [qa_soft_limit a, qa_hard_limit a] then Inl (Uncaught ''IntegrityError'')
      else case find (\<lambda>q. q_tenant_id q = qa_tenant_id a \<and> q_project_id q = qa_project_id a
                 \<and> q_resource_type q = qa_resource_type a) (quota_policies s) of
        Some existing \<Rightarrow>
          Inr (q_quota_id existing, s\<lparr>quota_policies := tput q_quota_id
            (existing\<lparr>q_unit := qa_unit a, q_period_seconds := qa_period_seconds a, q_soft_limit := qa_soft_limit a,
                      q_hard_limit := qa_hard_limit a, q_active := True, q_created_by := qa_actor_id a\<rparr>) (quota_policies s)\<rparr>)
      | None \<Rightarrow>
          bindE (insert_row q_quota_id
            \<lparr>q_quota_id = ids E 0, q_tenant_id = qa_tenant_id a, q_project_id = qa_project_id a, q_resource_type = qa_resource_type a,
             q_unit = qa_unit a, q_period_seconds = qa_period_seconds a, q_soft_limit = qa_soft_limit a, q_hard_limit = qa_hard_limit a,
             q_active = True, q_created_by = qa_actor_id a, q_created_at = clk E 0\<rparr> (quota_policies s))
            (\<lambda>rows. Inr (ids E 0, s\<lparr>quota_policies := rows\<rparr>)))"

record usage_args =
  ua_tenant_id :: string
  ua_project_id :: string
  ua_operation_id :: "string option"
  ua_resource_type :: string
  ua_quantity :: py_float
  ua_unit :: string
  ua_unit_cost :: py_float
  ua_currency :: string
  ua_price_source_version :: string
  ua_estimated :: bool
  ua_actor_id :: string
  ua_metadata :: fields

definition active_quota :: "sql_engine \<Rightarrow> db \<Rightarrow> string \<Rightarrow> string \<Rightarrow> string \<Rightarrow> quota_policy_row option" where
  "active_quota G s tenant project resource_type =
     (case sort_key (\<lambda>q. if (q_project_id q = None) = sq_nulls_first G then 0 else 1 :: nat)
         (filter (\<lambda>q. q_tenant_id q = tenant \<and> q_resource_type q = resource_type \<and> q_active q
            \<and> (q_project_id q = Some project \<or> q_project_id q = None)) (quota_policies s)) of
        [] \<Rightarrow> None | q # _ \<Rightarrow> Some q)"

definition usage_since :: "sql_engine \<Rightarrow> db \<Rightarrow> string \<Rightarrow> string \<Rightarrow> string \<Rightarrow> time \<Rightarrow> sip_error + py_float" where
  "usage_since G s tenant project resource_type since =
     (case map u_quantity (filter (\<lambda>u. u_tenant_id u = tenant \<and> u_project_id u = project
         \<and> u_resource_type u = resource_type \<and> u_occurred_at u \<ge> since) (usage_ledger s)) of
        [] \<Rightarrow> Inr (Finite 0)
      | q # qs \<Rightarrow> (case sq_sum G (q # qs) of None \<Rightarrow> Inl (Uncaught ''DataError'') | Some amount \<Rightarrow> Inr amount))"

definition usage_row :: "env \<Rightarrow> usage_args \<Rightarrow> usage_ledger_row" where
  "usage_row E a =
     \<lparr>u_usage_id = ids E 0, u_tenant_id = ua_tenant_id a, u_project_id = ua_project_id a, u_operation_id = ua_operation_id a,
      u_resource_type = ua_resource_type a, u_quantity = ua_quantity a, u_unit = ua_unit a, u_unit_cost = ua_unit_cost a,
      u_currency = py_upper (ua_currency a), u_price_source_version = ua_price_source_version a, u_estimated = ua_estimated a,
      u_metadata_json = ua_metadata a, u_occurred_at = clk E 0\<rparr>"

record admission_report =
  ap_usage_id :: string
  ap_current :: py_float
  ap_projected :: py_float
  ap_soft_limit_exceeded :: bool
  ap_hard_limit :: "py_float option"
  ap_attributed_cost :: py_float
  ap_currency :: string
  ap_price_source_version :: string

text \<open>The denial of a call. Its audit entry goes through \<open>canonical_json\<close>, which raises a
  \<open>ValueError\<close> for a float that is not finite; otherwise it is appended in the session that the
  exception then rolls back.\<close>

definition deny_usage ::
  "runtime \<Rightarrow> string \<Rightarrow> env \<Rightarrow> usage_args \<Rightarrow> py_float \<Rightarrow> py_float \<Rightarrow> db \<Rightarrow> sip_error" where
  "deny_usage rt key E a current hard_limit s =
     (let details = [(''current'', JFloat (rat_of current)), (''requested'', JFloat (rat_of (ua_quantity a))),
        (''hard_limit'', JFloat (rat_of hard_limit))]
      in if \<not> (is_finite current \<and> is_finite (ua_quantity a) \<and> is_finite hard_limit) then Uncaught ''ValueError''
         else case append_audit rt key (ids E 1) (clk E 1)
             (audit_entry (ua_tenant_id a) (Some (ua_project_id a)) (ua_actor_id a) ''quota:admit'' (ua_resource_type a)
                (str_or (ua_operation_id a) ''unbound'') ''denied'' details) s of
           Inl e \<Rightarrow> e
         | Inr _ \<Rightarrow> ConflictError ''QUOTA_HARD_LIMIT'' details)"

text \<open>The usage the window has so far, after the tests against the quota; no quota, no tests.\<close>

definition check_quota :: "runtime \<Rightarrow> string \<Rightarrow> sql_engine \<Rightarrow> env \<Rightarrow> usage_args \<Rightarrow> quota_policy_row option \<Rightarrow> db \<Rightarrow> sip_error + py_float" where
  "check_quota rt key G E a quota s =
     (case quota of None \<Rightarrow> Inr (Finite 0)
      | Some q \<Rightarrow>
          bindE (usage_since G s (ua_tenant_id a) (ua_project_id a) (ua_resource_type a) (clk E 0 - q_period_seconds q * 1000000))
            (\<lambda>current.
              if ua_unit a \<noteq> q_unit q then Inl (ValidationError ''QUOTA_UNIT_MISMATCH'' [])
              else if float_lt (q_hard_limit q) (float_add current (ua_quantity a))
              then Inl (deny_usage rt key E a current (q_hard_limit q) s)
              else Inr current))"

definition admit_body :: "runtime \<Rightarrow> string \<Rightarrow> sql_engine \<Rightarrow> env \<Rightarrow> usage_args \<Rightarrow> db \<Rightarrow> sip_error + admission_report \<times> db" where
  "admit_body rt key G E a s =
     (let quota = active_quota G s (ua_tenant_id a) (ua_project_id a) (ua_resource_type a)
      in bindE (check_quota rt key G E a quota s) (\<lambda>current.
         if \<not> storable G [ua_quantity a, ua_unit_cost a] then Inl (Uncaught ''IntegrityError'')
         else bindE (insert_row u_usage_id (usage_row E a) (usage_ledger s)) (\<lambda>rows.
           let projected = float_add current (ua_quantity a)
           in Inr (\<lparr>ap_usage_id = ids E 0, ap_current = current, ap_projected = projected,
                 ap_soft_limit_exceeded = (case quota of None \<Rightarrow> False | Some q \<Rightarrow> float_lt (q_soft_limit q) projected),
                 ap_hard_limit = map_option q_hard_limit quota, ap_attributed_cost = float_mul (ua_quantity a) (ua_unit_cost a),
                 ap_currency = py_upper (ua_currency a), ap_price_source_version = ua_price_source_version a\<rparr>, s\<lparr>usage_ledger := rows\<rparr>))))"

definition admit_and_record ::
  "runtime \<Rightarrow> string \<Rightarrow> sql_engine \<Rightarrow> env \<Rightarrow> usage_args \<Rightarrow> db \<Rightarrow> (sip_error + admission_report) \<times> db" where
  "admit_and_record rt key G E a s =
     (if float_lt (ua_quantity a) (Finite 0) \<or> float_lt (ua_unit_cost a) (Finite 0) \<or> length (ua_currency a) \<noteq> 3
      then (Inl (ValidationError ''USAGE_RECORD_INVALID'' []), s)
      else session (admit_body rt key G E a) s)"

end
