(* ===== verification/Deletion_Workflow.thy ===== *)
theory Deletion_Workflow
  imports Lifecycle
begin

text \<open>
  The correctness of \<open>src/sip/lifecycle.py\<close>: the deletion workflow as a state machine over all
  calls of the lifecycle and asset services (approval by a second person, one execution, one piece of
  evidence), legal holds protect what they name, an execution happens only against the recorded
  impact, a rule that is set is in force, and admission keeps the quota. The interface
  \<open>governed_platform\<close> extends \<open>asset_platform\<close> by what the workflow needs of the deployment
  service.
\<close>

section \<open>Calls\<close>

datatype lifecycle_call =
    SetRule env rule_args
  | PlaceHold env hold_args
  | ReleaseHold env string string string string
  | RequestDeletion env string string string string string
  | ApproveDeletion env string string string string
  | ExecuteDeletion env string string string string
  | AssetOp asset_call

definition in_session :: "(db \<Rightarrow> sip_error + 'a \<times> db) \<Rightarrow> asset_state \<Rightarrow> sip_error + asset_state" where
  "in_session body S = bindE (body (as_db S)) (\<lambda>(_, s). Inr (S\<lparr>as_db := s\<rparr>))"

fun lifecycle_step ::
  "asset_ctx \<Rightarrow> (json \<Rightarrow> string) \<Rightarrow> (db \<Rightarrow> reflected_table list) \<Rightarrow> deployment_service option \<Rightarrow> asset_state \<Rightarrow> lifecycle_call
     \<Rightarrow> sip_error + asset_state" where
  "lifecycle_step X py_str reflect dep S (SetRule E a) = in_session (set_retention_rule (ac_rt X) (ac_signing_key X) E a) S"
| "lifecycle_step X py_str reflect dep S (PlaceHold E a) = in_session (place_hold (ac_rt X) (ac_signing_key X) E a) S"
| "lifecycle_step X py_str reflect dep S (ReleaseHold E t p h actor) = in_session (release_hold (ac_rt X) (ac_signing_key X) E t p h actor) S"
| "lifecycle_step X py_str reflect dep S (RequestDeletion E t p k b actor) =
     in_session (request_asset_deletion (ac_rt X) (ac_signing_key X) py_str reflect E t p k b actor) S"
| "lifecycle_step X py_str reflect dep S (ApproveDeletion E t p d actor) = in_session (approve_deletion (ac_rt X) (ac_signing_key X) E t p d actor) S"
| "lifecycle_step X py_str reflect dep S (ExecuteDeletion E t p d actor) = Inr (snd (execute_deletion X py_str reflect E t p d actor S))"
| "lifecycle_step X py_str reflect dep S (AssetOp c) = asset_step X dep S c"

lemma in_session_Inr: "in_session body S = Inr T \<longleftrightarrow> (\<exists>v s. body (as_db S) = Inr (v, s) \<and> T = S\<lparr>as_db := s\<rparr>)"
  by (auto simp: in_session_def bindE_Inr_conv)

interpretation hold_store: row_store get_hold "\<lambda>h s. s\<lparr>legal_holds := tput h_hold_id h (legal_holds s)\<rparr>" h_hold_id
  by unfold_locales (auto simp: get_hold_def tget_tput_same tget_tput_other dest: tget_SomeD)

interpretation deletion_store: row_store get_deletion put_deletion d_deletion_id
  by unfold_locales (auto simp: get_deletion_def put_deletion_def tget_tput_same tget_tput_other dest: tget_SomeD)

section \<open>What no call undoes\<close>

text \<open>References keep their scope and content, and a tombstone stays. What is under hold
  is not tombstoned, and outside \<open>K\<close> it stays under hold.\<close>

definition refs_below :: "string set \<Rightarrow> db \<Rightarrow> db \<Rightarrow> bool" where
  "refs_below K s t \<longleftrightarrow> (\<forall>k r. get_ref s k = Some r \<longrightarrow> (\<exists>r'. get_ref t k = Some r' \<and> r_tenant_id r' = r_tenant_id r \<and>
     r_project_id r' = r_project_id r \<and> r_sha256 r' = r_sha256 r \<and> (\<not> live r \<longrightarrow> \<not> live r') \<and>
     (r_legal_hold r \<longrightarrow> live r' = live r \<and> (k \<notin> K \<longrightarrow> r_legal_hold r'))))"

lemma refs_below_same: "asset_refs t = asset_refs s \<Longrightarrow> refs_below K s t"
  by (simp add: refs_below_def get_ref_def)

lemma refs_below_put:
  assumes "get_ref s k = Some r" and "r_asset_id r' = k" and "r_tenant_id r' = r_tenant_id r" and "r_project_id r' = r_project_id r"
    and "r_sha256 r' = r_sha256 r" and "\<not> live r \<longrightarrow> \<not> live r'" and "r_legal_hold r \<longrightarrow> live r' = live r \<and> (k \<notin> K \<longrightarrow> r_legal_hold r')"
    and "asset_refs t = tput r_asset_id r' (asset_refs s)"
  shows "refs_below K s t"
proof -
  have "get_ref t j = (if j = k then Some r' else get_ref s j)" for j
    using assms(1,2,8) by (auto simp: get_ref_def tget_tput_same tget_tput_other)
  with assms show ?thesis by (simp add: refs_below_def)
qed

lemma refs_below_append: "asset_refs t = asset_refs s @ l \<Longrightarrow> refs_below K s t"
  by (simp add: refs_below_def get_ref_def tget_append)

text \<open>The tables of the deletion workflow and the holds, as the asset calls leave them.\<close>

definition same_governance :: "db \<Rightarrow> db \<Rightarrow> bool" where
  "same_governance s t \<longleftrightarrow> deletion_requests t = deletion_requests s \<and> deletion_evidence t = deletion_evidence s \<and>
     legal_holds t = legal_holds s \<and> retention_rules t = retention_rules s \<and> backup_runs t = backup_runs s"

lemma append_audit_governance:
  "append_audit rt key i now c s = Inr t \<Longrightarrow> same_governance s t \<and> asset_refs t = asset_refs s \<and> assets t = assets s"
  by (auto simp: append_audit_Inr same_governance_def)

lemma tombstone_session_governance:
  "tombstone_session X E t p k actor dry s = Inr (rep, s') \<Longrightarrow> same_governance s s'"
  by (auto simp: tombstone_session_def result_simps Let_def put_ref_def same_governance_def split: option.splits if_splits
      dest!: append_audit_governance)

lemma tombstone_session_row:
  assumes "tombstone_session X E t p k actor dry s = Inr (rep, s')"
  shows "\<exists>r. get_ref s k = Some r \<and> \<not> r_legal_hold r \<and> (asset_refs s' = asset_refs s \<or>
     (\<exists>x. asset_refs s' = tput r_asset_id (r\<lparr>r_tombstoned_at := Some x\<rparr>) (asset_refs s)))"
proof -
  obtain r where r: "get_ref s k = Some r" "\<not> r_legal_hold r"
    using tombstone_session_db [OF assms] by blast
  have same: "r\<lparr>r_tombstoned_at := Some x\<rparr> = r" if "r_tombstoned_at r = Some x" for x
    using that by (cases r) simp
  show ?thesis
  proof (cases "dry \<or> r_tombstoned_at r = None")
    case True
    with r assms show ?thesis
      by (auto simp: tombstone_session_def result_simps Let_def put_ref_def split: if_splits dest!: append_audit_governance)
  next
    case False
    with r assms have "asset_refs s' = tput r_asset_id r (asset_refs s)"
      by (auto simp: tombstone_session_def result_simps Let_def put_ref_def split: if_splits dest!: append_audit_governance)
    with False r same show ?thesis by (metis option.exhaust)
  qed
qed

lemma tombstone_effect:
  "same_governance (as_db S) (as_db (snd (tombstone X E t p k actor dry S))) \<and>
   refs_below K (as_db S) (as_db (snd (tombstone X E t p k actor dry S)))"
proof (cases "tombstone_session X E t p k actor dry (as_db S)")
  case (Inr y)
  then obtain rep s' where y: "tombstone_session X E t p k actor dry (as_db S) = Inr (rep, s')" by (cases y) auto
  have db: "as_db (snd (tombstone X E t p k actor dry S)) = s'"
    using y by (cases "delete_object (tb_sha256 rep) (as_store S)") (simp_all add: tombstone_def)
  from tombstone_session_row [OF y] obtain r where r: "get_ref (as_db S) k = Some r" "\<not> r_legal_hold r" and
      s': "asset_refs s' = asset_refs (as_db S) \<or> (\<exists>x. asset_refs s' = tput r_asset_id (r\<lparr>r_tombstoned_at := Some x\<rparr>) (asset_refs (as_db S)))"
    by blast
  have "refs_below K (as_db S) s'"
    using s'
  proof
    assume "\<exists>x. asset_refs s' = tput r_asset_id (r\<lparr>r_tombstoned_at := Some x\<rparr>) (asset_refs (as_db S))"
    then obtain x where "asset_refs s' = tput r_asset_id (r\<lparr>r_tombstoned_at := Some x\<rparr>) (asset_refs (as_db S))" ..
    then show ?thesis
      by (rule refs_below_put [OF r(1), rotated 6]) (use r in \<open>simp_all add: live_def ref_store.get_key\<close>)
  qed (rule refs_below_same)
  with tombstone_session_governance [OF y] show ?thesis by (simp add: db)
qed (simp add: tombstone_def same_governance_def refs_below_same)


lemma ingest_session_governance:
  "ingest_session X E a k d m s = Inr (v, t) \<Longrightarrow> same_governance s t"
  by (auto simp: ingest_session_def result_simps same_governance_def split: option.splits if_splits dest!: append_audit_governance)

lemma same_governance_refl [simp]: "same_governance s s"
  by (simp add: same_governance_def)

text \<open>What the lifecycle relies on in the deployment service.\<close>

locale governed_platform = asset_platform +
  assumes deployment_governance: "deployment = Some service \<Longrightarrow> same_governance s (snd (service a s))"
begin

lemma admit_governance: "same_governance s (snd (admit deployment a s))"
  using deployment_governance by (simp add: admit_def split: option.splits)

lemma ingest_effect:
  "same_governance (as_db S) (as_db (snd (ingest_bytes X deployment E rnd a S))) \<and>
   refs_below K (as_db S) (as_db (snd (ingest_bytes X deployment E rnd a S)))"
proof -
  obtain x s0 where ad: "admit deployment (upload_admission a) (as_db S) = (x, s0)" by fastforce
  then have s0: "same_governance (as_db S) s0" "asset_refs s0 = asset_refs (as_db S)"
    using admit_governance [of "as_db S" "upload_admission a"] admit_frame [of "upload_admission a" "as_db S"] by simp_all
  have *: "same_governance (as_db S) t \<and> refs_below K (as_db S) t" if "ingest_session X E a k d m s0 = Inr (v, t)" for k d m v t
    using ingest_session_governance [OF that] ingest_session_db [OF that] s0
    by (auto simp: same_governance_def intro: refs_below_same refs_below_append)
  show ?thesis
    using ad s0 * by (cases x) (auto simp: ingest_bytes_def Let_def session_def refs_below_same split: sum.split prod.split)
qed

lemma asset_step_effect:
  assumes "asset_step X deployment S e = Inr T"
  shows "same_governance (as_db S) (as_db T) \<and> refs_below K (as_db S) (as_db T)"
proof -
  have audit: "same_governance s t \<and> refs_below K s t" if "append_audit rt key i now c s = Inr t" for rt key i now c s t
    using append_audit_governance [OF that] by (simp add: refs_below_same)
  have read: "same_governance (as_db S) (as_db (snd (read_asset X E t p k actor S))) \<and>
      refs_below K (as_db S) (as_db (snd (read_asset X E t p k actor S)))" for E t p k actor
    by (auto simp: read_asset_def bindE_Inr_conv refs_below_same split: sum.splits dest!: audit)
  show ?thesis
  proof (cases e)
    case (IssueToken E now t p k sub ttl)
    with assms show ?thesis
      by (auto simp: issue_read_token_def bindE_Inr_conv refs_below_same split: sum.splits dest!: audit)
  next
    case (ReadToken loads E now token)
    with assms read show ?thesis
      by (auto simp: read_with_token_def refs_below_same split: sum.splits)
  next
    case (Tombstone E t p k actor dry)
    with assms tombstone_effect show ?thesis by auto
  qed (use assms ingest_effect read in \<open>auto simp: refs_below_same\<close>)
qed

end

interpretation local_governed: governed_platform None
  by unfold_locales simp

section \<open>Holds\<close>

definition held :: "db \<Rightarrow> legal_hold_row \<Rightarrow> bool" where
  "held s h \<longleftrightarrow> (\<exists>r. get_ref s (h_resource_id h) = Some r \<and> r_legal_hold r \<and> r_tenant_id r = h_tenant_id h \<and> r_project_id r = h_project_id h)"

definition asset_hold :: "legal_hold_row \<Rightarrow> bool" where
  "asset_hold h \<longleftrightarrow> h_state h = ''active'' \<and> h_resource_type h = ''asset''"

definition holds_wf :: "db \<Rightarrow> bool" where
  "holds_wf s \<longleftrightarrow> distinct (map h_hold_id (legal_holds s)) \<and> (\<forall>h \<in> set (legal_holds s). asset_hold h \<longrightarrow> held s h)"

lemma held_below:
  assumes "refs_below K s t" and "held s h" and "h_resource_id h \<notin> K"
  shows "held t h"
  using assms unfolding refs_below_def held_def by fastforce

lemma holds_wf_below:
  assumes "holds_wf s" and "refs_below {} s t" and "legal_holds t = legal_holds s"
  shows "holds_wf t"
  using assms held_below [of "{}" s t] by (auto simp: holds_wf_def)

lemma place_hold_effect:
  assumes "place_hold rt key E a s = Inr (v, t)"
  shows "t = s \<or> (ids E 0 \<notin> tkeys h_hold_id (legal_holds s) \<and> legal_holds t = legal_holds s @ [new_hold E a] \<and> refs_below {} s t \<and>
     (ha_resource_type a = ''asset'' \<longrightarrow> held t (new_hold E a)) \<and>
     deletion_requests t = deletion_requests s \<and> deletion_evidence t = deletion_evidence s)"
proof (cases "find (active_hold (ha_tenant_id a) (ha_project_id a) (ha_resource_type a) (ha_resource_id a)) (legal_holds s)")
  case None
  show ?thesis
  proof (cases "ha_resource_type a = ''asset''")
    case True
    with None assms obtain ref where ref: "get_ref s (ha_resource_id a) = Some ref" "r_tenant_id ref = ha_tenant_id a" "r_project_id ref = ha_project_id a"
      by (auto simp: place_hold_def result_simps split: option.splits)
    then have id: "r_asset_id ref = ha_resource_id a" by (simp add: ref_store.get_key)
    let ?ref = "ref\<lparr>r_legal_hold := True\<rparr>"
    from None True ref assms have t: "asset_refs t = tput r_asset_id ?ref (asset_refs s)" "legal_holds t = legal_holds s @ [new_hold E a]"
        "ids E 0 \<notin> tkeys h_hold_id (legal_holds s)" "deletion_requests t = deletion_requests s" "deletion_evidence t = deletion_evidence s"
      by (auto simp: place_hold_def result_simps put_ref_def new_hold_def same_governance_def dest!: append_audit_governance)
    have "get_ref t (ha_resource_id a) = Some ?ref"
      using ref(1) id t(1) by (auto simp: get_ref_def intro: tget_tput_same)
    moreover have "refs_below {} s t"
      by (rule refs_below_put [OF ref(1) _ _ _ _ _ _ t(1)]) (use id in \<open>simp_all add: live_def\<close>)
    ultimately show ?thesis
      using t ref by (simp add: held_def new_hold_def)
  next
    case False
    with None assms show ?thesis
      by (auto simp: place_hold_def result_simps new_hold_def same_governance_def refs_below_same dest!: append_audit_governance)
  qed
qed (use assms in \<open>simp add: place_hold_def\<close>)

definition other_hold :: "db \<Rightarrow> legal_hold_row \<Rightarrow> bool" where
  "other_hold s h \<longleftrightarrow> (\<exists>h' \<in> set (legal_holds s). asset_hold h' \<and> h_hold_id h' \<noteq> h_hold_id h \<and> h_tenant_id h' = h_tenant_id h \<and>
     h_project_id h' = h_project_id h \<and> h_resource_id h' = h_resource_id h)"

definition unheld_by :: "db \<Rightarrow> legal_hold_row \<Rightarrow> string set" where
  "unheld_by s h = (if asset_hold h \<and> \<not> other_hold s h then {h_resource_id h} else {})"

lemma release_hold_effect:
  assumes "release_hold rt key E tn p k actor s = Inr (v, t)"
  shows "t = s \<or> (\<exists>h. get_hold s k = Some h \<and> h_state h = ''active'' \<and>
     legal_holds t = tput h_hold_id (released_hold h actor (clk E 0)) (legal_holds s) \<and> refs_below (unheld_by s h) s t \<and>
     deletion_requests t = deletion_requests s \<and> deletion_evidence t = deletion_evidence s)"
proof -
  obtain h where h: "get_hold s k = Some h" "h_tenant_id h = tn" "h_project_id h = p"
    using assms(1) by (auto simp: release_hold_def result_simps split: option.splits)
  then have hid: "h_hold_id h = k" by (simp add: hold_store.get_key)
  let ?rows = "tput h_hold_id (released_hold h actor (clk E 0)) (legal_holds s)"
  let ?other = "\<lambda>h'. active_hold tn p ''asset'' (h_resource_id h) h' \<and> h_hold_id h' \<noteq> k"
  have others: "filter ?other ?rows = [] \<longleftrightarrow> \<not> other_hold s h"
    using hid h(2,3) by (auto simp: tput_def filter_empty_conv released_hold_def active_hold_def asset_hold_def other_hold_def)
  show ?thesis
  proof (cases "h_state h = ''active''")
    case active: True
    show ?thesis
    proof (cases "h_resource_type h = ''asset'' \<and> get_ref s (h_resource_id h) \<noteq> None \<and> filter ?other ?rows = []")
      case True
      then obtain ref where ref: "get_ref s (h_resource_id h) = Some ref" by blast
      then have id: "r_asset_id ref = h_resource_id h" by (simp add: ref_store.get_key)
      from True active ref h assms(1) have t: "asset_refs t = tput r_asset_id (ref\<lparr>r_legal_hold := False\<rparr>) (asset_refs s)"
          "legal_holds t = ?rows" "deletion_requests t = deletion_requests s" "deletion_evidence t = deletion_evidence s"
        by (auto simp: release_hold_def result_simps Let_def put_ref_def get_ref_def same_governance_def dest!: append_audit_governance)
      have "unheld_by s h = {h_resource_id h}" using True active others by (simp add: unheld_by_def asset_hold_def)
      then have "refs_below (unheld_by s h) s t"
        by (intro refs_below_put [OF ref _ _ _ _ _ _ t(1)]) (use id in \<open>simp_all add: live_def\<close>)
      with active h t show ?thesis by simp
    next
      case False
      from False active h assms(1) have "asset_refs t = asset_refs s"
          "legal_holds t = ?rows" "deletion_requests t = deletion_requests s" "deletion_evidence t = deletion_evidence s"
        by (auto simp: release_hold_def result_simps Let_def get_ref_def same_governance_def filter_empty_conv
            split: option.splits if_splits dest!: append_audit_governance)
      with active h show ?thesis by (simp add: refs_below_same)
    qed
  qed (use h assms(1) in \<open>simp add: release_hold_def\<close>)
qed

text \<open>An asset another active hold protects stays under hold.\<close>

lemma still_protected:
  assumes "holds_wf s" and "get_hold s k = Some h" and "x \<in> set (legal_holds s)" and "asset_hold x" and "h_hold_id x \<noteq> k"
  shows "h_resource_id x \<notin> unheld_by s h"
proof
  assume u: "h_resource_id x \<in> unheld_by s h"
  then have h: "asset_hold h" "h_resource_id x = h_resource_id h" "\<not> other_hold s h" by (auto simp: unheld_by_def split: if_splits)
  have "h \<in> set (legal_holds s)" and id: "h_hold_id h = k" using assms(2) by (auto simp: get_hold_def dest: tget_SomeD)
  with assms(1,3,4) h(1) have "held s x" "held s h" by (auto simp: holds_wf_def)
  then have "h_tenant_id x = h_tenant_id h \<and> h_project_id x = h_project_id h" using h(2) by (auto simp: held_def)
  with h assms(3-5) id show False by (auto simp: other_hold_def)
qed

lemma holds_wf_place:
  assumes "holds_wf s" and "place_hold rt key E a s = Inr (v, t)"
  shows "holds_wf t"
  using place_hold_effect [OF assms(2)]
proof
  assume new: "ids E 0 \<notin> tkeys h_hold_id (legal_holds s) \<and> legal_holds t = legal_holds s @ [new_hold E a] \<and> refs_below {} s t \<and>
     (ha_resource_type a = ''asset'' \<longrightarrow> held t (new_hold E a)) \<and>
     deletion_requests t = deletion_requests s \<and> deletion_evidence t = deletion_evidence s"
  then have "held t h" if "h \<in> set (legal_holds s)" "asset_hold h" for h
    using that assms(1) held_below [of "{}" s t h] by (simp add: holds_wf_def)
  with new assms(1) show ?thesis
    by (auto simp: holds_wf_def tkeys_def new_hold_def asset_hold_def)
qed (use assms in simp)

lemma holds_wf_release:
  assumes "holds_wf s" and "release_hold rt key E tn p k actor s = Inr (v, t)"
  shows "holds_wf t"
  using release_hold_effect [OF assms(2)]
proof
  assume "\<exists>h. get_hold s k = Some h \<and> h_state h = ''active'' \<and>
     legal_holds t = tput h_hold_id (released_hold h actor (clk E 0)) (legal_holds s) \<and> refs_below (unheld_by s h) s t \<and>
     deletion_requests t = deletion_requests s \<and> deletion_evidence t = deletion_evidence s"
  then obtain h where h: "get_hold s k = Some h"
    "legal_holds t = tput h_hold_id (released_hold h actor (clk E 0)) (legal_holds s)" "refs_below (unheld_by s h) s t" by blast
  then have hid: "h_hold_id (released_hold h actor (clk E 0)) = k" by (simp add: released_hold_def hold_store.get_key)
  have "held t x" if "x \<in> set (legal_holds t)" "asset_hold x" for x
  proof -
    have x: "x \<in> set (legal_holds s)" "h_hold_id x \<noteq> k"
      using set_tput_unique [of x h_hold_id "released_hold h actor (clk E 0)" "legal_holds s"] that h(2) hid
      by (auto simp: asset_hold_def released_hold_def)
    then have "held s x" using assms(1) that(2) by (simp add: holds_wf_def)
    then show ?thesis
      using held_below [OF h(3)] still_protected [OF assms(1) h(1) x(1) that(2) x(2)] by simp
  qed
  moreover have "distinct (map h_hold_id (legal_holds t))" using assms(1) h(2) by (simp add: holds_wf_def)
  ultimately show ?thesis by (simp add: holds_wf_def)
qed (use assms in simp)

section \<open>Deletion requests\<close>

definition deletion_ok :: "db \<Rightarrow> deletion_request_row \<Rightarrow> bool" where
  "deletion_ok s d \<longleftrightarrow> (if d_state d = ''awaiting_approval'' then d_approved_by d = None
     else d_state d \<in> {''approved'', ''executed''} \<and> (\<exists>a. d_approved_by d = Some a \<and> a \<noteq> d_requested_by d)) \<and>
     (d_state d = ''executed'' \<longrightarrow> (\<exists>r. get_ref s (d_resource_id d) = Some r \<and> \<not> live r))"

definition deletions_wf :: "db \<Rightarrow> bool" where
  "deletions_wf s \<longleftrightarrow> (\<forall>d \<in> set (deletion_requests s). deletion_ok s d) \<and>
     distinct (map de_deletion_id (deletion_evidence s)) \<and>
     (\<forall>e \<in> set (deletion_evidence s). \<exists>d. get_deletion s (de_deletion_id e) = Some d \<and> d_state d = ''executed'')"

lemma deletion_ok_below:
  assumes "deletion_ok s d" and "refs_below K s t"
  shows "deletion_ok t d"
proof -
  have "\<exists>r'. get_ref t k = Some r' \<and> \<not> live r'" if "get_ref s k = Some r" "\<not> live r" for k r
    using assms(2) that unfolding refs_below_def by blast
  with assms(1) show ?thesis unfolding deletion_ok_def by blast
qed

lemma deletions_wf_below:
  assumes "deletions_wf s" and "refs_below K s t" and "deletion_requests t = deletion_requests s" and "deletion_evidence t = deletion_evidence s"
  shows "deletions_wf t"
  using assms deletion_ok_below [OF _ assms(2)] by (auto simp: deletions_wf_def get_deletion_def)

lemma deletions_wf_put:
  assumes "deletions_wf s" and "get_deletion s k = Some d" and "d_deletion_id d' = k" and "deletion_ok t d'" and "refs_below K s t"
    and "deletion_requests t = tput d_deletion_id d' (deletion_requests s)"
    and "distinct (map de_deletion_id (deletion_evidence t))"
    and "\<forall>e \<in> set (deletion_evidence t). e \<in> set (deletion_evidence s) \<or> de_deletion_id e = k"
    and "k \<in> de_deletion_id ` set (deletion_evidence t) \<longrightarrow> d_state d' = ''executed''"
  shows "deletions_wf t"
  unfolding deletions_wf_def
proof (intro conjI ballI)
  fix x assume "x \<in> set (deletion_requests t)"
  then have "x = d' \<or> x \<in> set (deletion_requests s)"
    using set_tput_subset [of d_deletion_id d' "deletion_requests s"] assms(6) by auto
  then show "deletion_ok t x"
    using assms(1,4) deletion_ok_below [OF _ assms(5)] by (auto simp: deletions_wf_def)
next
  fix e assume e: "e \<in> set (deletion_evidence t)"
  have get: "get_deletion t j = (if j = k then Some d' else get_deletion s j)" for j
    using assms(2,3,6) by (auto simp: get_deletion_def tget_tput_same tget_tput_other)
  show "\<exists>d. get_deletion t (de_deletion_id e) = Some d \<and> d_state d = ''executed''"
  proof (cases "de_deletion_id e = k")
    case True
    with e assms(9) show ?thesis by (auto simp: get)
  next
    case False
    with e assms(1,8) show ?thesis by (auto simp: deletions_wf_def get)
  qed
qed (fact assms(7))

lemma request_effect:
  assumes "request_asset_deletion rt key py_str reflect E tn p k b actor s = Inr (v, t)"
  shows "asset_refs t = asset_refs s \<and> legal_holds t = legal_holds s \<and> deletion_evidence t = deletion_evidence s \<and>
     (\<exists>plan. deletion_requests t = deletion_requests s @ [new_deletion E tn p k b actor plan])"
  using assms
  by (auto simp: request_asset_deletion_def result_simps same_governance_def split: option.splits dest!: append_audit_governance)

lemma deletions_wf_request:
  assumes "deletions_wf s" and "request_asset_deletion rt key py_str reflect E tn p k b actor s = Inr (v, t)"
  shows "deletions_wf t"
proof -
  from request_effect [OF assms(2)] obtain plan where t: "asset_refs t = asset_refs s" "deletion_evidence t = deletion_evidence s"
      "deletion_requests t = deletion_requests s @ [new_deletion E tn p k b actor plan]" by blast
  have "refs_below {} s t" using t(1) by (rule refs_below_same)
  moreover have "deletion_ok t (new_deletion E tn p k b actor plan)" by (simp add: deletion_ok_def new_deletion_def)
  moreover have "get_deletion t j = Some d" if "get_deletion s j = Some d" for j d
    using that t(3) by (simp add: get_deletion_def tget_append)
  ultimately show ?thesis
    using assms(1) t(2,3) deletion_ok_below by (fastforce simp: deletions_wf_def)
qed

lemma approve_effect:
  assumes "approve_deletion rt key E tn p k actor s = Inr (v, t)"
  shows "\<exists>d. get_deletion s k = Some d \<and> d_state d = ''awaiting_approval'' \<and> d_requested_by d \<noteq> actor \<and>
     deletion_requests t = tput d_deletion_id (approved_deletion d actor) (deletion_requests s) \<and>
     asset_refs t = asset_refs s \<and> legal_holds t = legal_holds s \<and> deletion_evidence t = deletion_evidence s"
  using assms
  by (auto simp: approve_deletion_def result_simps same_governance_def put_deletion_def split: option.splits dest!: append_audit_governance)

lemma deletions_wf_approve:
  assumes "deletions_wf s" and "approve_deletion rt key E tn p k actor s = Inr (v, t)"
  shows "deletions_wf t"
proof -
  from approve_effect [OF assms(2)] obtain d where d: "get_deletion s k = Some d" "d_state d = ''awaiting_approval''" "d_requested_by d \<noteq> actor"
     "deletion_requests t = tput d_deletion_id (approved_deletion d actor) (deletion_requests s)"
     "asset_refs t = asset_refs s" "deletion_evidence t = deletion_evidence s" by blast
  have id: "d_deletion_id d = k" using d(1) by (rule deletion_store.get_key)
  have none: "k \<notin> de_deletion_id ` set (deletion_evidence s)"
    using assms(1) d(1,2) by (fastforce simp: deletions_wf_def)
  show ?thesis
  proof (rule deletions_wf_put [OF assms(1) d(1) _ _ _ d(4)])
    show "refs_below {} s t" using d(5) by (rule refs_below_same)
    show "deletion_ok t (approved_deletion d actor)"
      using d(3) by (auto simp: deletion_ok_def approved_deletion_def)
  qed (use id d(6) none assms(1) in \<open>auto simp: approved_deletion_def deletions_wf_def\<close>)
qed

text \<open>The ways \<open>execute_deletion\<close> ends.\<close>

lemma execute_deletion_cases:
  assumes "execute_deletion X py_str reflect E tn p k actor S = (v, T)"
  obtains e where "v = Inl e" "T = S"
  | e and row :: deletion_request_row where "v = Inl e" "T = snd (tombstone X (shift_env 1 E) tn p (d_resource_id row) actor False S)"
  | row key_ids plan impact S1 rep s where "execution_check py_str tn p k (as_db S) = Inr (row, dp_snapshot_hash plan, key_ids)"
      "plan_asset_deletion (ac_rt X) py_str reflect (clk E 0) tn p (d_resource_id row) (as_db S) = Inr plan" "dp_blockers plan = []"
      "tombstone X (shift_env 1 E) tn p (d_resource_id row) actor False S = (Inr impact, S1)"
      "record_execution (ac_rt X) (ac_signing_key X) (shift_env 3 E) tn p row key_ids plan impact actor (as_db S1) = Inr (rep, s)"
      "v = Inr rep" "T = S1\<lparr>as_db := s\<rparr>"
proof -
  let ?chk = "bindE (execution_check py_str tn p k (as_db S)) (\<lambda>(row, expected, key_ids).
             bindE (plan_asset_deletion (ac_rt X) py_str reflect (clk E 0) tn p (d_resource_id row) (as_db S)) (\<lambda>current.
               if dp_snapshot_hash current \<noteq> expected
               then Inl (ConflictError ''DELETION_DEPENDENCIES_CHANGED''
                 [(''expected'', JStr expected), (''actual'', JStr (dp_snapshot_hash current))])
               else if dp_blockers current \<noteq> []
               then Inl (ConflictError ''DELETION_INELIGIBLE'' [(''blockers'', JArr (map JStr (dp_blockers current)))])
               else Inr (row, key_ids, current)))"
  show thesis
  proof (cases ?chk)
    case (Inl e)
    with assms that(1) show ?thesis by (auto simp: execute_deletion_def)
  next
    case (Inr y)
    then obtain row key_ids plan where y: "y = (row, key_ids, plan)" by (cases y) auto
    with Inr have c: "execution_check py_str tn p k (as_db S) = Inr (row, dp_snapshot_hash plan, key_ids)"
      "plan_asset_deletion (ac_rt X) py_str reflect (clk E 0) tn p (d_resource_id row) (as_db S) = Inr plan" "dp_blockers plan = []"
      by (auto simp: result_simps)
    obtain w S1 where w: "tombstone X (shift_env 1 E) tn p (d_resource_id row) actor False S = (w, S1)" by fastforce
    show ?thesis
    proof (cases w)
      case (Inl e)
      with assms \<open>?chk = Inr y\<close> y w have "v = Inl e" "T = S1" by (simp_all add: execute_deletion_def)
      with w that(2) [of e row] show ?thesis by simp
    next
      case (Inr impact)
      show ?thesis
      proof (cases "record_execution (ac_rt X) (ac_signing_key X) (shift_env 3 E) tn p row key_ids plan impact actor (as_db S1)")
        case (Inl e)
        have "v = Inl e" "T = S1"
          using assms \<open>?chk = Inr y\<close> y w \<open>w = Inr impact\<close> Inl by (simp_all add: execute_deletion_def)
        with w that(2) [of e row] show ?thesis by simp
      next
        case rec: (Inr z)
        obtain rep s where z: "z = (rep, s)" by (cases z)
        have "v = Inr rep" "T = S1\<lparr>as_db := s\<rparr>"
          using assms \<open>?chk = Inr y\<close> y w \<open>w = Inr impact\<close> rec z by (simp_all add: execute_deletion_def)
        with c w \<open>w = Inr impact\<close> rec z that(3) show ?thesis by simp
      qed
    qed
  qed
qed

lemma execution_check_Inr [result_simps]:
  "execution_check py_str tn p k s = Inr (row, expected, key_ids) \<Longrightarrow> get_deletion s k = Some row \<and> d_tenant_id row = tn \<and>
     d_project_id row = p \<and> d_state row = ''approved'' \<and> truthy_str (d_approved_by row)"
  by (auto simp: execution_check_def split: option.splits if_splits)

lemma record_execution_effect:
  assumes "record_execution rt key E tn p row key_ids plan impact actor s = Inr (rep, t)"
  shows "\<exists>d ev. get_deletion s (d_deletion_id row) = Some d \<and> asset_refs t = asset_refs s \<and> legal_holds t = legal_holds s \<and>
     deletion_requests t = tput d_deletion_id (d\<lparr>d_state := ''executed'', d_executed_at := Some (clk E 2)\<rparr>) (deletion_requests s) \<and>
     deletion_evidence t = deletion_evidence s @ [ev] \<and> de_deletion_id ev = d_deletion_id row \<and> de_resource_id ev = d_resource_id row \<and>
     de_evidence_hash ev = ex_evidence_hash rep"
  using assms
  by (auto simp: record_execution_def Let_def result_simps same_governance_def put_deletion_def split: option.splits dest!: append_audit_governance)

lemma tombstone_hides:
  assumes "tombstone X E tn p k actor False S = (Inr impact, S1)"
  shows "\<exists>r. get_ref (as_db S1) k = Some r \<and> \<not> live r"
proof -
  obtain s' where y: "tombstone_session X E tn p k actor False (as_db S) = Inr (impact, s')"
    using assms by (auto simp: tombstone_def session_def split: sum.splits prod.splits if_splits)
  then have "as_db S1 = s'"
    using assms by (auto simp: tombstone_def split: if_splits sum.splits)
  from tombstone_session_db [OF y] obtain r r' where "get_ref (as_db S) k = Some r" "\<not> live r'" "r_asset_id r' = k"
      "asset_refs s' = tput r_asset_id r' (asset_refs (as_db S))" by auto
  with \<open>as_db S1 = s'\<close> show ?thesis by (auto simp: get_ref_def intro: tget_tput_same)
qed

lemma execute_wf:
  assumes "deletions_wf (as_db S)" and "holds_wf (as_db S)" and "execute_deletion X py_str reflect E tn p k actor S = (v, T)"
  shows "deletions_wf (as_db T) \<and> holds_wf (as_db T) \<and> legal_holds (as_db T) = legal_holds (as_db S) \<and> refs_below {} (as_db S) (as_db T)"
proof (rule execute_deletion_cases [OF assms(3)])
  fix e and row :: deletion_request_row
  assume "T = snd (tombstone X (shift_env 1 E) tn p (d_resource_id row) actor False S)"
  with tombstone_effect [of S X "shift_env 1 E" tn p "d_resource_id row" actor False "{}"]
  have "same_governance (as_db S) (as_db T)" "refs_below {} (as_db S) (as_db T)" by simp_all
  with assms(1,2) show ?thesis
    using deletions_wf_below holds_wf_below by (simp add: same_governance_def)
next
  fix row key_ids plan impact S1 rep s
  assume chk: "execution_check py_str tn p k (as_db S) = Inr (row, dp_snapshot_hash plan, key_ids)"
    and tomb: "tombstone X (shift_env 1 E) tn p (d_resource_id row) actor False S = (Inr impact, S1)"
    and rec: "record_execution (ac_rt X) (ac_signing_key X) (shift_env 3 E) tn p row key_ids plan impact actor (as_db S1) = Inr (rep, s)"
    and T: "T = S1\<lparr>as_db := s\<rparr>"
  have gov: "same_governance (as_db S) (as_db S1)" "refs_below {} (as_db S) (as_db S1)"
    using tombstone_effect [of S X "shift_env 1 E" tn p "d_resource_id row" actor False "{}"] tomb by simp_all
  have row: "get_deletion (as_db S) k = Some row" "d_state row = ''approved''"
    using execution_check_Inr [OF chk] by simp_all
  then have id: "d_deletion_id row = k" by (simp add: deletion_store.get_key)
  from record_execution_effect [OF rec] obtain d ev where r: "get_deletion (as_db S1) k = Some d" "asset_refs s = asset_refs (as_db S1)"
      "legal_holds s = legal_holds (as_db S1)"
      "deletion_requests s = tput d_deletion_id (d\<lparr>d_state := ''executed'', d_executed_at := Some (clk (shift_env 3 E) 2)\<rparr>) (deletion_requests (as_db S1))"
      "deletion_evidence s = deletion_evidence (as_db S1) @ [ev]" "de_deletion_id ev = k"
    unfolding id by blast
  have d: "d = row" using r(1) row(1) gov(1) by (simp add: same_governance_def get_deletion_def)
  have below: "refs_below {} (as_db S) s" using gov(2) r(2) by (simp add: refs_below_def get_ref_def)
  have none: "k \<notin> de_deletion_id ` set (deletion_evidence (as_db S))"
    using assms(1) row by (fastforce simp: deletions_wf_def)
  have "deletion_ok (as_db S) row" using assms(1) row(1) by (auto simp: deletions_wf_def get_deletion_def dest: tget_SomeD)
  moreover have "\<exists>r. get_ref s (d_resource_id row) = Some r \<and> \<not> live r"
    using tombstone_hides [OF tomb] r(2) by (simp add: get_ref_def)
  ultimately have ok: "deletion_ok s (row\<lparr>d_state := ''executed'', d_executed_at := Some (clk (shift_env 3 E) 2)\<rparr>)"
    using row(2) by (simp add: deletion_ok_def)
  have "deletions_wf s"
  proof (rule deletions_wf_put [OF assms(1) row(1) _ ok below])
    show "deletion_requests s = tput d_deletion_id (row\<lparr>d_state := ''executed'', d_executed_at := Some (clk (shift_env 3 E) 2)\<rparr>) (deletion_requests (as_db S))"
      using r(4) gov(1) d by (simp add: same_governance_def)
    show "distinct (map de_deletion_id (deletion_evidence s))"
      using r(5,6) none gov(1) assms(1) by (simp add: same_governance_def deletions_wf_def)
  qed (use r(5,6) id gov(1) in \<open>auto simp: same_governance_def\<close>)
  moreover have "legal_holds s = legal_holds (as_db S)" using r(3) gov(1) by (simp add: same_governance_def)
  moreover from this have "holds_wf s" by (rule holds_wf_below [OF assms(2) below])
  ultimately show ?thesis using below by (simp add: T)
qed (use assms(1,2) refs_below_same in auto)

section \<open>Runs\<close>

definition lifecycle_wf :: "asset_state \<Rightarrow> bool" where
  "lifecycle_wf S \<longleftrightarrow> deletions_wf (as_db S) \<and> holds_wf (as_db S)"

lemma set_rule_effect:
  "set_retention_rule rt key E a s = Inr (v, t) \<Longrightarrow> asset_refs t = asset_refs s \<and> legal_holds t = legal_holds s \<and>
     deletion_requests t = deletion_requests s \<and> deletion_evidence t = deletion_evidence s"
  by (auto simp: set_retention_rule_def result_simps Let_def same_governance_def dest!: append_audit_governance)

text \<open>The call does not release the hold.\<close>

fun keeps_hold :: "string \<Rightarrow> lifecycle_call \<Rightarrow> bool" where
  "keeps_hold h (ReleaseHold E t p k actor) = (k \<noteq> h)"
| "keeps_hold h _ = True"

context governed_platform
begin

lemma lifecycle_step_wf:
  assumes "lifecycle_wf S" and "lifecycle_step X py_str reflect deployment S e = Inr T"
  shows "lifecycle_wf T"
proof (cases e)
  case (SetRule E a)
  with assms(2) obtain v s where s: "set_retention_rule (ac_rt X) (ac_signing_key X) E a (as_db S) = Inr (v, s)" "T = S\<lparr>as_db := s\<rparr>"
    by (auto simp: in_session_Inr)
  from set_rule_effect [OF s(1)] have "refs_below {} (as_db S) s" by (simp add: refs_below_same)
  with assms(1) set_rule_effect [OF s(1)] s(2) show ?thesis
    by (auto simp: lifecycle_wf_def intro: deletions_wf_below holds_wf_below)
next
  case (PlaceHold E a)
  with assms(2) obtain v s where s: "place_hold (ac_rt X) (ac_signing_key X) E a (as_db S) = Inr (v, s)" "T = S\<lparr>as_db := s\<rparr>"
    by (auto simp: in_session_Inr)
  with assms(1) place_hold_effect [OF s(1)] holds_wf_place [OF _ s(1)] show ?thesis
    by (auto simp: lifecycle_wf_def intro: deletions_wf_below)
next
  case (ReleaseHold E t p h actor)
  with assms(2) obtain v s where s: "release_hold (ac_rt X) (ac_signing_key X) E t p h actor (as_db S) = Inr (v, s)" "T = S\<lparr>as_db := s\<rparr>"
    by (auto simp: in_session_Inr)
  with assms(1) release_hold_effect [OF s(1)] holds_wf_release [OF _ s(1)] show ?thesis
    by (auto simp: lifecycle_wf_def intro: deletions_wf_below)
next
  case (RequestDeletion E t p k b actor)
  with assms(2) obtain v s where s: "request_asset_deletion (ac_rt X) (ac_signing_key X) py_str reflect E t p k b actor (as_db S) = Inr (v, s)"
      "T = S\<lparr>as_db := s\<rparr>" by (auto simp: in_session_Inr)
  with assms(1) request_effect [OF s(1)] deletions_wf_request [OF _ s(1)] show ?thesis
    by (auto simp: lifecycle_wf_def intro: holds_wf_below refs_below_same)
next
  case (ApproveDeletion E t p k actor)
  with assms(2) obtain v s where s: "approve_deletion (ac_rt X) (ac_signing_key X) E t p k actor (as_db S) = Inr (v, s)" "T = S\<lparr>as_db := s\<rparr>"
    by (auto simp: in_session_Inr)
  with assms(1) approve_effect [OF s(1)] deletions_wf_approve [OF _ s(1)] show ?thesis
    by (auto simp: lifecycle_wf_def intro: holds_wf_below refs_below_same)
next
  case (ExecuteDeletion E t p k actor)
  obtain v T' where "execute_deletion X py_str reflect E t p k actor S = (v, T')" by fastforce
  with ExecuteDeletion assms execute_wf [OF _ _ this] show ?thesis by (simp add: lifecycle_wf_def)
next
  case (AssetOp c)
  with assms asset_step_effect [of X S c T "{}"] show ?thesis
    by (auto simp: lifecycle_wf_def same_governance_def intro: deletions_wf_below holds_wf_below)
qed

lemma lifecycle_step_hold:
  assumes "lifecycle_wf S" and "lifecycle_step X py_str reflect deployment S e = Inr T" and "keeps_hold k e"
    and "get_hold (as_db S) k = Some h" and "asset_hold h" and "get_ref (as_db S) (h_resource_id h) = Some r"
  shows "get_hold (as_db T) k = Some h \<and> (\<exists>r'. get_ref (as_db T) (h_resource_id h) = Some r' \<and> live r' = live r)"
proof -
  have mem: "h \<in> set (legal_holds (as_db S))" using assms(4) by (auto simp: get_hold_def dest: tget_SomeD)
  then have "r_legal_hold r" using assms(1,5,6) by (fastforce simp: lifecycle_wf_def holds_wf_def held_def)
  then have live: "\<exists>r'. get_ref t (h_resource_id h) = Some r' \<and> live r' = live r" if "refs_below K (as_db S) t" for K t
    using that assms(6) unfolding refs_below_def by blast
  have same: ?thesis if "legal_holds (as_db T) = legal_holds (as_db S)" "refs_below K (as_db S) (as_db T)" for K
    using that assms(4) live by (simp add: get_hold_def)
  show ?thesis
  proof (cases e)
    case (SetRule E a)
    with assms(2) show ?thesis by (intro same [of "{}"]) (auto simp: in_session_Inr dest!: set_rule_effect intro: refs_below_same)
  next
    case (PlaceHold E a)
    with assms(2) obtain v s where s: "place_hold (ac_rt X) (ac_signing_key X) E a (as_db S) = Inr (v, s)" "T = S\<lparr>as_db := s\<rparr>"
      by (auto simp: in_session_Inr)
    with assms(4,6) place_hold_effect [OF s(1)] live show ?thesis by (auto simp: get_hold_def tget_append)
  next
    case (ReleaseHold E t p j actor)
    with assms(2) obtain v s where s: "release_hold (ac_rt X) (ac_signing_key X) E t p j actor (as_db S) = Inr (v, s)" "T = S\<lparr>as_db := s\<rparr>"
      by (auto simp: in_session_Inr)
    have "j \<noteq> k" using assms(3) ReleaseHold by simp
    moreover have "h_hold_id (released_hold g actor (clk E 0)) = j" if "get_hold (as_db S) j = Some g" for g
      using that by (simp add: released_hold_def hold_store.get_key)
    ultimately show ?thesis
      using assms(4,6) release_hold_effect [OF s(1)] live s(2) by (auto simp: get_hold_def tget_tput_other)
  next
    case (RequestDeletion E t p k b actor)
    with assms(2) show ?thesis by (intro same [of "{}"]) (auto simp: in_session_Inr dest!: request_effect intro: refs_below_same)
  next
    case (ApproveDeletion E t p k actor)
    with assms(2) show ?thesis by (intro same [of "{}"]) (auto simp: in_session_Inr dest!: approve_effect intro: refs_below_same)
  next
    case (ExecuteDeletion E t p d actor)
    obtain v T' where "execute_deletion X py_str reflect E t p d actor S = (v, T')" by fastforce
    with ExecuteDeletion assms(1,2) execute_wf [OF _ _ this] show ?thesis by (intro same) (auto simp: lifecycle_wf_def)
  next
    case (AssetOp c)
    with assms(2) asset_step_effect [of X S c T "{}"] show ?thesis by (intro same) (auto simp: same_governance_def)
  qed
qed

end

sublocale governed_platform < lifecycle: invariant_component "lifecycle_step X py_str reflect deployment" lifecycle_wf
  for X py_str reflect
  by unfold_locales (rule lifecycle_step_wf)

context governed_platform
begin

lemma run_wf: "lifecycle_wf S \<Longrightarrow> lifecycle_wf (run (lifecycle_step X py_str reflect deployment) calls S)"
  by (rule lifecycle.run_inv)

lemma run_hold:
  assumes "lifecycle_wf S" and "\<forall>e \<in> set calls. keeps_hold k e" and "get_hold (as_db S) k = Some h" and "asset_hold h"
    and "get_ref (as_db S) (h_resource_id h) = Some r"
  shows "get_hold (as_db (run (lifecycle_step X py_str reflect deployment) calls S)) k = Some h \<and>
    (\<exists>r'. get_ref (as_db (run (lifecycle_step X py_str reflect deployment) calls S)) (h_resource_id h) = Some r' \<and> live r' = live r)"
  using assms(1-3,5)
proof (induction calls arbitrary: S r)
  case (Cons e calls)
  show ?case
  proof (cases "lifecycle_step X py_str reflect deployment S e")
    case (Inr T)
    have "lifecycle_wf T" using lifecycle_step_wf [OF Cons.prems(1) Inr] .
    moreover obtain r' where "get_hold (as_db T) k = Some h" "get_ref (as_db T) (h_resource_id h) = Some r'" "live r' = live r"
      using lifecycle_step_hold [OF Cons.prems(1) Inr _ Cons.prems(3) assms(4) Cons.prems(4)] Cons.prems(2) by auto
    ultimately show ?thesis using Cons.IH [of T r'] Cons.prems(2) Inr by (simp add: settle_def)
  qed (use Cons in \<open>simp add: settle_def\<close>)
qed simp

end

section \<open>Properties\<close>

text \<open>
  C3. Whatever the order of rule changes, holds, requests, approvals, executions and asset calls, and
  whichever of them fail: a deletion that is approved or executed was approved by someone other than
  its requester; the asset of an executed deletion can no longer be looked up by anyone; and there
  is at most one piece of erasure evidence per deletion, only for executed ones.
\<close>

theorem deletions_need_second_person:
  assumes "governed_platform dep" and "lifecycle_wf S" and "S' = run (lifecycle_step X py_str reflect dep) calls S"
  shows "(\<forall>d \<in> set (deletion_requests (as_db S')). d_state d \<in> {''approved'', ''executed''} \<longrightarrow>
       (\<exists>a. d_approved_by d = Some a \<and> a \<noteq> d_requested_by d)) \<and>
    (\<forall>d \<in> set (deletion_requests (as_db S')). d_state d = ''executed'' \<longrightarrow>
       (\<forall>t p. get_asset t p (d_resource_id d) (as_db S') = Inl (NotFoundError ''asset'' (d_resource_id d)))) \<and>
    distinct (map de_deletion_id (deletion_evidence (as_db S'))) \<and>
    (\<forall>e \<in> set (deletion_evidence (as_db S')). \<exists>d. get_deletion (as_db S') (de_deletion_id e) = Some d \<and> d_state d = ''executed'')"
proof -
  have "lifecycle_wf S'" using governed_platform.run_wf [OF assms(1,2)] assms(3) by simp
  then have wf: "deletions_wf (as_db S')" by (simp add: lifecycle_wf_def)
  then have ok: "deletion_ok (as_db S') d" if "d \<in> set (deletion_requests (as_db S'))" for d
    using that by (simp add: deletions_wf_def)
  have "get_asset t p (d_resource_id d) (as_db S') = Inl (NotFoundError ''asset'' (d_resource_id d))"
    if "d \<in> set (deletion_requests (as_db S'))" "d_state d = ''executed''" for d t p
    using ok [OF that(1)] that(2) by (auto simp: deletion_ok_def get_asset_def live_def)
  moreover have "\<exists>a. d_approved_by d = Some a \<and> a \<noteq> d_requested_by d"
    if "d \<in> set (deletion_requests (as_db S'))" "d_state d \<in> {''approved'', ''executed''}" for d
    using ok [OF that(1)] that(2) by (auto simp: deletion_ok_def split: if_splits)
  ultimately show ?thesis using wf by (simp add: deletions_wf_def)
qed

text \<open>
  C16. A legal hold on an asset protects it: as long as the hold itself is not released it stays
  active, and no sequence of calls, approved deletions and releases of other holds included,
  tombstones the asset.
\<close>

theorem hold_protects_asset:
  assumes "governed_platform dep" and "lifecycle_wf S" and "get_hold (as_db S) k = Some h" and "asset_hold h"
    and "\<forall>e \<in> set calls. keeps_hold k e" and "get_ref (as_db S) (h_resource_id h) = Some r"
  shows "get_hold (as_db (run (lifecycle_step X py_str reflect dep) calls S)) k = Some h \<and>
    (\<exists>r'. get_ref (as_db (run (lifecycle_step X py_str reflect dep) calls S)) (h_resource_id h) = Some r' \<and>
      r_legal_hold r' \<and> (r_tombstoned_at r' = None \<longleftrightarrow> r_tombstoned_at r = None))"
proof -
  let ?S' = "run (lifecycle_step X py_str reflect dep) calls S"
  have "lifecycle_wf ?S'" by (rule governed_platform.run_wf [OF assms(1,2)])
  moreover obtain r' where r': "get_hold (as_db ?S') k = Some h" "get_ref (as_db ?S') (h_resource_id h) = Some r'" "live r' = live r"
    using governed_platform.run_hold [OF assms(1,2,5,3,4,6)] by blast
  moreover have "h \<in> set (legal_holds (as_db ?S'))" using r'(1) by (auto simp: get_hold_def dest: tget_SomeD)
  ultimately have "held (as_db ?S') h" using assms(4) by (simp add: lifecycle_wf_def holds_wf_def)
  with r' show ?thesis by (auto simp: held_def live_def)
qed

lemma plan_Inr:
  "plan_asset_deletion rt py_str reflect now t p k s = Inr plan \<Longrightarrow> \<exists>r. get_ref s k = Some r \<and> r_tenant_id r = t \<and> r_project_id r = p \<and>
     dp_sha256 plan = r_sha256 r \<and> dp_blockers plan = deletion_blockers s now t p r \<and>
     dp_snapshot plan = deletion_snapshot py_str reflect s now t p r \<and> dp_snapshot_hash plan = canonical_sha256 rt (JObj (dp_snapshot plan))"
  by (auto simp: plan_asset_deletion_def Let_def split: option.splits if_splits)

text \<open>
  C32. A deletion that is executed was approved by a second person, its recorded impact is the
  impact at the time of execution, no hold on the asset or its project is active and the minimum
  retention of the rule in force has passed; then the asset is gone, the request is marked executed
  and exactly one piece of evidence with the returned hash was added.
\<close>

theorem executed_deletion_exact:
  assumes "deletions_wf (as_db S)" and "execute_deletion X py_str reflect E t p k actor S = (Inr rep, S')"
  shows "\<exists>row r. get_deletion (as_db S) k = Some row \<and> (\<exists>a. d_approved_by row = Some a \<and> a \<noteq> d_requested_by row) \<and>
    get_ref (as_db S) (d_resource_id row) = Some r \<and> r_tenant_id r = t \<and> r_project_id r = p \<and>
    py_str (the (map_of (d_dry_run_report row) ''dependency_snapshot_hash''))
      = canonical_sha256 (ac_rt X) (JObj (deletion_snapshot py_str reflect (as_db S) (clk E 0) t p r)) \<and>
    matching_holds (as_db S) t p (d_resource_id row) = [] \<and> \<not> r_legal_hold r \<and>
    (\<forall>rule. retention_rule (as_db S) t p (r_retention_class r) = Some rule \<longrightarrow> rr_minimum_days rule \<le> age_days (clk E 0) (r_created_at r)) \<and>
    get_asset t p (d_resource_id row) (as_db S') = Inl (NotFoundError ''asset'' (d_resource_id row)) \<and>
    (\<exists>row'. get_deletion (as_db S') k = Some row' \<and> d_state row' = ''executed'') \<and>
    (\<exists>ev. deletion_evidence (as_db S') = deletion_evidence (as_db S) @ [ev] \<and> de_evidence_hash ev = ex_evidence_hash rep \<and> de_deletion_id ev = k)"
proof (rule execute_deletion_cases [OF assms(2)])
  fix row key_ids plan impact S1 rep' s
  assume chk: "execution_check py_str t p k (as_db S) = Inr (row, dp_snapshot_hash plan, key_ids)"
    and plan: "plan_asset_deletion (ac_rt X) py_str reflect (clk E 0) t p (d_resource_id row) (as_db S) = Inr plan" "dp_blockers plan = []"
    and tomb: "tombstone X (shift_env 1 E) t p (d_resource_id row) actor False S = (Inr impact, S1)"
    and rec: "record_execution (ac_rt X) (ac_signing_key X) (shift_env 3 E) t p row key_ids plan impact actor (as_db S1) = Inr (rep', s)"
    and res: "Inr rep = (Inr rep' :: sip_error + execution_report)" and S': "S' = S1\<lparr>as_db := s\<rparr>"
  have row: "get_deletion (as_db S) k = Some row" "d_state row = ''approved''" using execution_check_Inr [OF chk] by simp_all
  then have id: "d_deletion_id row = k" by (simp add: deletion_store.get_key)
  have hash: "py_str (the (map_of (d_dry_run_report row) ''dependency_snapshot_hash'')) = dp_snapshot_hash plan"
    using chk by (auto simp: execution_check_def split: option.splits if_splits)
  have appr: "\<exists>a. d_approved_by row = Some a \<and> a \<noteq> d_requested_by row"
    using assms(1) row by (fastforce simp: deletions_wf_def deletion_ok_def get_deletion_def dest: tget_SomeD)
  obtain r where r: "get_ref (as_db S) (d_resource_id row) = Some r" "r_tenant_id r = t" "r_project_id r = p"
      "deletion_blockers (as_db S) (clk E 0) t p r = []"
      "dp_snapshot_hash plan = canonical_sha256 (ac_rt X) (JObj (deletion_snapshot py_str reflect (as_db S) (clk E 0) t p r))"
    using plan_Inr [OF plan(1)] plan(2) by metis
  have rid: "r_asset_id r = d_resource_id row" using r(1) by (rule ref_store.get_key)
  have free: "matching_holds (as_db S) t p (d_resource_id row) = []" "\<not> r_legal_hold r"
      "\<forall>rule. retention_rule (as_db S) t p (r_retention_class r) = Some rule \<longrightarrow> rr_minimum_days rule \<le> age_days (clk E 0) (r_created_at r)"
    using r(4) rid by (auto simp: deletion_blockers_def split: if_splits option.splits)
  have gov: "same_governance (as_db S) (as_db S1)"
    using tombstone_effect [of S X "shift_env 1 E" t p "d_resource_id row" actor False "{}"] tomb by simp
  from record_execution_effect [OF rec] obtain d ev where d: "get_deletion (as_db S1) k = Some d" "asset_refs s = asset_refs (as_db S1)"
      "deletion_requests s = tput d_deletion_id (d\<lparr>d_state := ''executed'', d_executed_at := Some (clk (shift_env 3 E) 2)\<rparr>) (deletion_requests (as_db S1))"
      "deletion_evidence s = deletion_evidence (as_db S1) @ [ev]" "de_deletion_id ev = k" "de_evidence_hash ev = ex_evidence_hash rep'"
    unfolding id by blast
  have "d_deletion_id d = k" using d(1) by (rule deletion_store.get_key)
  then have "get_deletion s k = Some (d\<lparr>d_state := ''executed'', d_executed_at := Some (clk (shift_env 3 E) 2)\<rparr>)"
    using d(1,3) by (auto simp: get_deletion_def intro: tget_tput_same)
  moreover have "get_asset t p (d_resource_id row) s = Inl (NotFoundError ''asset'' (d_resource_id row))"
    using tombstone_hides [OF tomb] d(2) by (auto simp: get_asset_def get_ref_def live_def)
  ultimately show ?thesis
    using row(1) appr r(1-3,5) hash free d(4-6) gov res S' by (simp add: same_governance_def)
qed simp_all

text \<open>
  An approved deletion is only good for the day its plan was made: the age of the asset in days is
  part of the snapshot, so an execution at which the asset has another age is refused as
  \<open>DELETION_DEPENDENCIES_CHANGED\<close> and changes nothing, although nothing but time has changed
  (unless the two snapshot texts collide under SHA-256).
\<close>

lemma approval_lapses_with_age:
  assumes "float_repr_ok (ac_rt X)" and "\<forall>x. py_str (JStr x) = x"
    and "get_deletion (as_db S) k = Some row" and "d_tenant_id row = t" and "d_project_id row = p" and "d_state row = ''approved''"
    and "truthy_str (d_approved_by row)" and "plan_asset_deletion (ac_rt X) py_str reflect then' t p (d_resource_id row) s0 = Inr plan"
    and "d_dry_run_report row = plan_fields plan"
    and "get_ref s0 (d_resource_id row) = Some r" and "get_ref (as_db S) (d_resource_id row) = Some r"
    and "get_object (as_db S) (r_sha256 r) \<noteq> None"
    and "age_days (clk E 0) (r_created_at r) \<noteq> age_days then' (r_created_at r)"
    and "inj_on (rt_sha256 (ac_rt X)) ((\<lambda>v. canonical_json (ac_rt X) (JObj v)) `
      {dp_snapshot plan, deletion_snapshot py_str reflect (as_db S) (clk E 0) t p r})"
  shows "\<exists>details. execute_deletion X py_str reflect E t p k actor S = (Inl (ConflictError ''DELETION_DEPENDENCIES_CHANGED'' details), S)"
proof -
  have r: "r_tenant_id r = t" "r_project_id r = p" and old: "dp_snapshot plan = deletion_snapshot py_str reflect s0 then' t p r"
      "dp_snapshot_hash plan = canonical_sha256 (ac_rt X) (JObj (dp_snapshot plan))"
    using plan_Inr [OF assms(8)] assms(10) by auto
  let ?new = "deletion_snapshot py_str reflect (as_db S) (clk E 0) t p r"
  obtain plan' where plan': "plan_asset_deletion (ac_rt X) py_str reflect (clk E 0) t p (d_resource_id row) (as_db S) = Inr plan'"
      "dp_snapshot_hash plan' = canonical_sha256 (ac_rt X) (JObj ?new)"
    using r assms(11,12) by (auto simp: plan_asset_deletion_def Let_def)
  have keys: "distinct (map fst ?new)" and age: "map_of (jnorm_fields ?new) ''age_days'' = Some (JInt (age_days (clk E 0) (r_created_at r)))"
    by (simp_all add: deletion_snapshot_def Let_def)
  have "canonical_sha256 (ac_rt X) (JObj ?new) \<noteq> dp_snapshot_hash plan"
  proof
    assume "canonical_sha256 (ac_rt X) (JObj ?new) = dp_snapshot_hash plan"
    then have "rt_sha256 (ac_rt X) (canonical_json (ac_rt X) (JObj (dp_snapshot plan))) = rt_sha256 (ac_rt X) (canonical_json (ac_rt X) (JObj ?new))"
      by (simp add: old(2) canonical_sha256_def)
    then have "canonical_json (ac_rt X) (JObj (dp_snapshot plan)) = canonical_json (ac_rt X) (JObj ?new)"
      by (rule inj_onD [OF assms(14)]) simp_all
    from canonical_text_inj [OF assms(1) this]
    have "map_of (jnorm_fields ?new) ''age_days'' = Some (jnorm (JInt (age_days then' (r_created_at r))))"
      by (rule jnorm_object_field [OF _ _ keys]) (simp add: old(1) deletion_snapshot_def Let_def)
    with age assms(13) show False by simp
  qed
  moreover have "map_of (plan_fields plan) ''dependency_snapshot_hash'' = Some (JStr (dp_snapshot_hash plan))"
    by (simp add: plan_fields_def old(1) deletion_snapshot_def Let_def)
  then obtain key_ids where "execution_check py_str t p k (as_db S) = Inr (row, dp_snapshot_hash plan, key_ids)"
    using assms(2-7,9,11) by (auto simp: execution_check_def)
  ultimately show ?thesis
    using plan' by (simp add: execute_deletion_def)
qed

lemma prior_version_bound:
  "r \<in> set rows \<Longrightarrow> same_rule_scope t p c r \<Longrightarrow> rr_version r \<le> prior_version t p c rows"
  by (auto simp: prior_version_def Let_def filter_empty_conv)

text \<open>
  A rule that is set is the rule in force: it is the only active rule of its scope, its version is
  above every version the scope had, and the lookup for its project returns it.
\<close>

lemma set_rule_is_in_force:
  assumes "set_retention_rule rt key E a s = Inr (k, t)"
  shows "\<exists>r. rr_retention_rule_id r = k \<and> rr_minimum_days r = ra_minimum_days a \<and> 0 \<le> rr_minimum_days r \<and>
    filter (\<lambda>x. same_rule_scope (ra_tenant_id a) (ra_project_id a) (ra_retention_class a) x \<and> rr_active x) (retention_rules t) = [r] \<and>
    (\<forall>x \<in> set (retention_rules s). same_rule_scope (ra_tenant_id a) (ra_project_id a) (ra_retention_class a) x \<longrightarrow> rr_version x < rr_version r) \<and>
    (\<forall>p. ra_project_id a = Some p \<longrightarrow> retention_rule t (ra_tenant_id a) p (ra_retention_class a) = Some r)"
proof -
  let ?sc = "same_rule_scope (ra_tenant_id a) (ra_project_id a) (ra_retention_class a)"
  let ?r = "new_rule E a (prior_version (ra_tenant_id a) (ra_project_id a) (ra_retention_class a) (retention_rules s) + 1)"
  have t: "retention_rules t = map (\<lambda>r. if ?sc r \<and> rr_active r then r\<lparr>rr_active := False\<rparr> else r) (retention_rules s) @ [?r]"
    and k: "k = rr_retention_rule_id ?r" and "\<not> ra_minimum_days a < 0"
    using assms by (auto simp: set_retention_rule_def Let_def result_simps same_governance_def dest!: append_audit_governance)
  have "filter (\<lambda>x. ?sc x \<and> rr_active x) (map (\<lambda>r. if ?sc r \<and> rr_active r then r\<lparr>rr_active := False\<rparr> else r) rows) = []" for rows
    by (auto simp: filter_empty_conv same_rule_scope_def split: if_splits)
  then have active: "filter (\<lambda>x. ?sc x \<and> rr_active x) (retention_rules t) = [?r]"
    by (simp add: t new_rule_def same_rule_scope_def)
  then have "retention_rule t (ra_tenant_id a) p (ra_retention_class a) = Some ?r" if "ra_project_id a = Some p" for p
    using that by (simp add: retention_rule_def newest_rule_def)
  moreover have "rr_version x < rr_version ?r" if "x \<in> set (retention_rules s)" "?sc x" for x
    using prior_version_bound [OF that] by (simp add: new_rule_def)
  ultimately show ?thesis
    using active k \<open>\<not> ra_minimum_days a < 0\<close> by (intro exI [of _ ?r]) (simp add: new_rule_def)
qed







section \<open>Instances\<close>

definition held_state :: asset_state where
  "held_state = sample_stored\<lparr>as_db := (as_db sample_stored)\<lparr>
     asset_refs := [(ingest_ref (at_time 5) sample_ingest ''x'' sample_digest)\<lparr>r_legal_hold := True\<rparr>],
     legal_holds := [\<lparr>h_hold_id = ''h'', h_tenant_id = ''t'', h_project_id = ''p'', h_resource_type = ''asset'', h_resource_id = ''x'',
       h_reason = ''r'', h_authority_reference = ''a'', h_state = ''active'', h_placed_by = ''u'', h_placed_at = 6,
       h_released_by = None, h_released_at = None\<rparr>]\<rparr>\<rparr>"

lemma sample_stored_tables:
  "deletion_requests (as_db sample_stored) = []" "deletion_evidence (as_db sample_stored) = []" "legal_holds (as_db sample_stored) = []"
  by (simp_all add: sample_stored_def sample_assets_def empty_db_def)

lemma held_state_wf: "lifecycle_wf held_state"
  by (simp add: lifecycle_wf_def deletions_wf_def holds_wf_def held_state_def sample_stored_tables held_def get_ref_def tget_Cons
      ingest_ref_def sample_ingest_def)

lemma no_governed_deployment: "governed_platform None"
  by unfold_locales simp

lemma deletions_need_second_person_witness:
  "distinct (map de_deletion_id (deletion_evidence (as_db (run (lifecycle_step sample_ctx (\<lambda>_. []) (\<lambda>_. []) None)
     [ApproveDeletion (at_time 9) ''t'' ''p'' ''d'' ''u'', ExecuteDeletion (at_time 9) ''t'' ''p'' ''d'' ''u''] held_state))))"
  using deletions_need_second_person [OF no_governed_deployment held_state_wf refl, of sample_ctx "\<lambda>_. []" "\<lambda>_. []"] by blast

lemma hold_protects_asset_witness:
  "\<exists>h. get_hold (as_db (run (lifecycle_step sample_ctx (\<lambda>_. []) (\<lambda>_. []) None)
     [AssetOp (Tombstone (at_time 9) ''t'' ''p'' ''x'' ''u'' False), ReleaseHold (at_time 9) ''t'' ''p'' ''g'' ''u''] held_state)) ''h'' = Some h"
proof -
  obtain h where h: "get_hold (as_db held_state) ''h'' = Some h" "asset_hold h" "h_resource_id h = ''x''"
    by (simp add: get_hold_def held_state_def tget_Cons asset_hold_def)
  moreover obtain r where "get_ref (as_db held_state) ''x'' = Some r"
    by (simp add: get_ref_def held_state_def tget_Cons ingest_ref_def)
  ultimately show ?thesis
    using hold_protects_asset [OF no_governed_deployment held_state_wf h(1,2),
      of "[AssetOp (Tombstone (at_time 9) ''t'' ''p'' ''x'' ''u'' False), ReleaseHold (at_time 9) ''t'' ''p'' ''g'' ''u'']"] by auto
qed

text \<open>Two assets share a content; the deletion of one was approved at the time its plan was made.\<close>

definition plain_ctx :: asset_ctx where
  "plain_ctx = sample_ctx\<lparr>ac_rt := plain_runtime\<rparr>"

definition text_of :: "json \<Rightarrow> string" where
  "text_of v = (case v of JStr t \<Rightarrow> t | _ \<Rightarrow> ''?'')"

definition shared_db :: db where
  "shared_db = empty_db\<lparr>assets := [\<lparr>a_sha256 = ''abc'', a_byte_count = 3, a_media_type = ''text/plain'', a_storage_key = ''k'',
       a_encryption_metadata = [], a_created_at = 5\<rparr>],
     asset_refs := [ingest_ref (at_time 5) sample_ingest ''x'' ''abc'', ingest_ref (at_time 5) sample_ingest ''y'' ''abc'']\<rparr>"

definition shared_ref :: asset_ref_row where
  "shared_ref = ingest_ref (at_time 5) sample_ingest ''x'' ''abc''"

definition shared_plan :: deletion_plan where
  "shared_plan = (let s = deletion_snapshot text_of (\<lambda>_. []) shared_db 9 ''t'' ''p'' shared_ref in
     \<lparr>dp_sha256 = ''abc'', dp_dependencies = [], dp_retention_class = ''standard'', dp_blockers = [], dp_snapshot = s,
      dp_snapshot_hash = canonical_sha256 plain_runtime (JObj s), dp_other_active = 1\<rparr>)"

definition shared_request :: deletion_request_row where
  "shared_request = approved_deletion (new_deletion (at_time 9) ''t'' ''p'' ''x'' ''b'' ''u'' shared_plan) ''v''"

definition shared_state :: asset_state where
  "shared_state = \<lparr>as_db = shared_db\<lparr>deletion_requests := [shared_request]\<rparr>, as_store = as_store sample_assets, as_files = [], as_dirs = []\<rparr>"

lemma shared_tables:
  "get_ref shared_db ''x'' = Some shared_ref" "get_object shared_db ''abc'' \<noteq> None" "legal_holds shared_db = []" "retention_rules shared_db = []"
  "exports shared_db = []" "audit_events shared_db = []" "deletion_evidence shared_db = []" "other_active_refs shared_db ''abc'' ''x'' = 1"
  "r_sha256 shared_ref = ''abc''" "r_tenant_id shared_ref = ''t''" "r_project_id shared_ref = ''p''" "r_asset_id shared_ref = ''x''"
  "r_retention_class shared_ref = ''standard''" "\<not> r_legal_hold shared_ref" "r_tombstoned_at shared_ref = None" "r_created_at shared_ref = 5"
  by (simp_all add: shared_db_def empty_db_def get_ref_def get_object_def tget_Cons shared_ref_def ingest_ref_def sample_ingest_def
      at_time_def other_active_refs_def)

lemma shared_plan_made: "plan_asset_deletion plain_runtime text_of (\<lambda>_. []) 9 ''t'' ''p'' ''x'' shared_db = Inr shared_plan"
proof -
  obtain obj where "get_object shared_db ''abc'' = Some obj" using shared_tables(2) by auto
  then show ?thesis
    by (simp add: plan_asset_deletion_def shared_plan_def Let_def shared_tables dependencies_def export_dependencies_def deletion_blockers_def
      matching_holds_def retention_rule_def newest_rule_def)
qed

lemma deletions_only:
  "get_ref (s\<lparr>deletion_requests := l\<rparr>) = get_ref s" "get_object (s\<lparr>deletion_requests := l\<rparr>) = get_object s"
  "retention_rule (s\<lparr>deletion_requests := l\<rparr>) = retention_rule s" "matching_holds (s\<lparr>deletion_requests := l\<rparr>) = matching_holds s"
  "other_active_refs (s\<lparr>deletion_requests := l\<rparr>) = other_active_refs s"
  "export_dependencies (s\<lparr>deletion_requests := l\<rparr>) = export_dependencies s"
  by (simp_all add: fun_eq_iff get_ref_def get_object_def retention_rule_def matching_holds_def other_active_refs_def export_dependencies_def
      split: option.split)

lemma shared_plan_again:
  "plan_asset_deletion plain_runtime text_of (\<lambda>_. []) now ''t'' ''p'' ''x'' (as_db shared_state)
     = plan_asset_deletion plain_runtime text_of (\<lambda>_. []) now ''t'' ''p'' ''x'' shared_db"
proof -
  obtain obj where "get_object shared_db ''abc'' = Some obj" using shared_tables(2) by auto
  then show ?thesis
    by (simp add: plan_asset_deletion_def deletions_only shared_state_def deletion_snapshot_def deletion_blockers_def dependencies_def shared_tables Let_def)
qed

lemma shared_request_fields:
  "get_deletion (as_db shared_state) (ids (at_time 9) 0) = Some shared_request" "d_tenant_id shared_request = ''t''" "d_project_id shared_request = ''p''"
  "d_state shared_request = ''approved''" "d_approved_by shared_request = Some ''v''" "d_requested_by shared_request = ''u''"
  "d_resource_id shared_request = ''x''" "d_dry_run_report shared_request = plan_fields shared_plan" "d_deletion_id shared_request = ids (at_time 9) 0"
  by (simp_all add: shared_state_def get_deletion_def tget_Cons shared_request_def approved_deletion_def new_deletion_def)

lemma approval_lapses_with_age_witness:
  "\<exists>details. execute_deletion plain_ctx text_of (\<lambda>_. []) (at_time 86400000006) ''t'' ''p'' (ids (at_time 9) 0) ''w'' shared_state
     = (Inl (ConflictError ''DELETION_DEPENDENCIES_CHANGED'' details), shared_state)"
  by (rule approval_lapses_with_age [where ?then' = 9 and ?s0.0 = shared_db and plan = shared_plan and row = shared_request and r = shared_ref])
    (use shared_tables shared_request_fields shared_plan_made plain_float_repr_ok in
      \<open>simp_all add: plain_ctx_def text_of_def shared_state_def deletions_only age_days_def at_time_def inj_on_def plain_runtime_def\<close>)


lemma append_audit_second:
  assumes "audit_events s = [audit_event plain_runtime key i now c h]" and "j \<noteq> i"
  shows "\<exists>t. append_audit plain_runtime key j now' c' s = Inr t"
  using assms plain_event_hash_id [of key j now' c' _ key i now c h]
  by (fastforce simp: append_audit_def audit_append_def Let_def insert_row_def tget_Cons)

lemma bindE_returns: "\<exists>t. m = Inr t \<Longrightarrow> \<exists>r t. bindE m (\<lambda>s. Inr (x, s)) = Inr (r, t)"
  by auto

lemma at_time_simps: "clk (at_time t) n = t" "ids (at_time t) n = ''id'' @ nat_repr n"
  by (simp_all add: at_time_def)

lemma plain_ctx_simps: "ac_rt plain_ctx = plain_runtime" "ac_signing_key plain_ctx = ''key''"
  by (simp_all add: plain_ctx_def sample_ctx_def)

lemma shared_check:
  "execution_check text_of ''t'' ''p'' (ids (at_time 9) 0) (as_db shared_state) = Inr (shared_request, dp_snapshot_hash shared_plan, [])"
proof -
  have "map_of (plan_fields shared_plan) ''dependency_snapshot_hash'' = Some (JStr (dp_snapshot_hash shared_plan))"
    by (simp add: plan_fields_def shared_plan_def deletion_snapshot_def Let_def)
  moreover have "get_ref (as_db shared_state) ''x'' = Some shared_ref"
    by (simp add: shared_state_def deletions_only shared_tables)
  moreover obtain obj where "get_object (as_db shared_state) ''abc'' = Some obj" "a_encryption_metadata obj = []"
    by (simp add: shared_state_def deletions_only shared_db_def get_object_def tget_Cons)
  ultimately show ?thesis
    using shared_request_fields shared_tables(9) by (simp add: execution_check_def text_of_def jget_def)
qed

lemma shared_tombstone:
  "\<exists>impact S1 c. tombstone plain_ctx (shift_env 1 (at_time 9)) ''t'' ''p'' ''x'' ''w'' False shared_state = (Inr impact, S1) \<and>
     get_deletion (as_db S1) (ids (at_time 9) 0) = Some shared_request \<and> deletion_evidence (as_db S1) = [] \<and>
     audit_events (as_db S1) = [audit_event plain_runtime ''key'' (ids (at_time 9) 1) 9 c genesis_hash]"
proof -
  let ?s = "as_db shared_state"
  have "get_ref ?s ''x'' = Some shared_ref" "other_active_refs ?s ''abc'' ''x'' = 1" "audit_events ?s = []" "deletion_evidence ?s = []"
      "get_deletion ?s (ids (at_time 9) 0) = Some shared_request"
    using shared_tables shared_request_fields(1) by (simp_all add: shared_state_def deletions_only)
  then show ?thesis
    using shared_tables
    by (simp add: tombstone_def tombstone_session_def session_def Let_def append_audit_first put_ref_def plain_ctx_simps shift_env_def
        get_deletion_def at_time_simps) blast
qed

lemma executed_deletion_exact_witness:
  "\<exists>rep S'. execute_deletion plain_ctx text_of (\<lambda>_. []) (at_time 9) ''t'' ''p'' (ids (at_time 9) 0) ''w'' shared_state = (Inr rep, S') \<and>
     get_asset ''t'' ''p'' ''x'' (as_db S') = Inl (NotFoundError ''asset'' ''x'')"
proof -
  have wf: "deletions_wf (as_db shared_state)"
    using shared_request_fields shared_tables(7) by (simp add: deletions_wf_def shared_state_def deletion_ok_def)
  have plan: "plan_asset_deletion plain_runtime text_of (\<lambda>_. []) 9 ''t'' ''p'' ''x'' (as_db shared_state) = Inr shared_plan"
    unfolding shared_plan_again by (rule shared_plan_made)
  obtain impact S1 c where tomb: "tombstone plain_ctx (shift_env 1 (at_time 9)) ''t'' ''p'' ''x'' ''w'' False shared_state = (Inr impact, S1)"
    and S1: "get_deletion (as_db S1) (ids (at_time 9) 0) = Some shared_request" "deletion_evidence (as_db S1) = []"
      "audit_events (as_db S1) = [audit_event plain_runtime ''key'' (ids (at_time 9) 1) 9 c genesis_hash]"
    using shared_tombstone by blast
  have "ids (at_time 9) 4 \<noteq> ids (at_time 9) 1" by (auto simp: at_time_simps dest: nat_repr_inj)
  then have audit: "\<exists>t. append_audit plain_runtime ''key'' (ids (at_time 9) 4) 9 c' s = Inr t" if "audit_events s = audit_events (as_db S1)" for s c'
    using append_audit_second [of s "''key''" "ids (at_time 9) 1" 9 c genesis_hash] that S1(3) by simp
  have insert_first: "insert_row de_evidence_id x [] = Inr [x]" for x by (simp add: insert_row_def)
  have shifted: "ids (shift_env 3 (at_time 9)) 1 = ids (at_time 9) 4" "clk (shift_env 3 (at_time 9)) n = 9" for n
    by (simp_all add: shift_env_def at_time_simps(1))
  have "\<exists>rep s. record_execution plain_runtime ''key'' (shift_env 3 (at_time 9)) ''t'' ''p'' shared_request [] shared_plan impact ''w'' (as_db S1) = Inr (rep, s)"
    unfolding record_execution_def Let_def shared_request_fields(9) S1(1,2) option.case insert_first bindE_simps(2) shifted
    by (rule bindE_returns, rule audit) (simp add: put_deletion_def)
  then obtain rep s where rec: "record_execution plain_runtime ''key'' (shift_env 3 (at_time 9)) ''t'' ''p'' shared_request [] shared_plan impact ''w'' (as_db S1) = Inr (rep, s)"
    by blast
  have "dp_blockers shared_plan = []" by (simp add: shared_plan_def Let_def)
  then obtain S' where ex: "execute_deletion plain_ctx text_of (\<lambda>_. []) (at_time 9) ''t'' ''p'' (ids (at_time 9) 0) ''w'' shared_state = (Inr rep, S')"
    using shared_check plan tomb rec shared_request_fields(7)
    by (simp add: execute_deletion_def plain_ctx_simps at_time_simps(1))
  from executed_deletion_exact [OF wf ex] ex shared_request_fields(1,7) show ?thesis by auto
qed

lemma set_rule_is_in_force_witness:
  "\<exists>k t. set_retention_rule plain_runtime ''key'' (at_time 9) \<lparr>ra_tenant_id = ''t'', ra_project_id = Some ''p'', ra_retention_class = ''c'',
      ra_policy_source = ''law'', ra_minimum_days = 3, ra_maximum_days = None, ra_backup_expiry_days = 30, ra_deletion_mode = ''manual_review'',
      ra_actor_id = ''u''\<rparr> ((as_db sample_assets)\<lparr>tenants := [\<lparr>t_tenant_id = ''t'', t_name = ''n'', t_status = ''active'', t_created_at = 1\<rparr>]\<rparr>)
     = Inr (k, t) \<and> (\<exists>r. retention_rule t ''t'' ''p'' ''c'' = Some r)"
proof -
  let ?a = "\<lparr>ra_tenant_id = ''t'', ra_project_id = Some ''p'', ra_retention_class = ''c'',
      ra_policy_source = ''law'', ra_minimum_days = 3, ra_maximum_days = None, ra_backup_expiry_days = 30, ra_deletion_mode = ''manual_review'',
      ra_actor_id = ''u''\<rparr>"
  let ?s = "(as_db sample_assets)\<lparr>tenants := [\<lparr>t_tenant_id = ''t'', t_name = ''n'', t_status = ''active'', t_created_at = 1\<rparr>]\<rparr>"
  obtain k t where t: "set_retention_rule plain_runtime ''key'' (at_time 9) ?a ?s = Inr (k, t)"
    by (simp add: set_retention_rule_def sample_assets_def empty_db_def get_tenant_def get_project_def tget_Cons Let_def insert_row_def append_audit_first)
  from set_rule_is_in_force [OF t] t show ?thesis by auto
qed






end
