(* ===== verification/Restricted_Data.thy ===== *)
theory Restricted_Data
  imports Sip_Errors
begin

text \<open>
  \<open>src/sip/restricted_data.py\<close>: which JSON keys may hold raw authentication or biometric
  material, the check that refuses such values before they are stored, and the scrub that removes
  them from rows written before the check existed.

  The lemmas describe both functions by paths into the value. A path is clean when none of its keys
  names a secret or an opaque reference. The check accepts exactly the values in which every secret
  key under a clean path is empty and every reference key there holds an opaque reference. The
  scrub keeps everything under clean paths, removes every secret key and every malformed
  reference, and its result always passes the check.
\<close>

section \<open>Keys and references\<close>

definition forbidden_exact_keys :: "string list" where
  "forbidden_exact_keys = [''password'', ''passwd'', ''passcode'', ''pin'', ''pin_code'', ''access_code'',
     ''controller_password'', ''programming_password'', ''control_password'', ''credential_secret'',
     ''client_secret'', ''api_secret'', ''api_token'', ''access_token'', ''refresh_token'',
     ''bearer_token'', ''private_key'', ''privatekey'', ''security_key'', ''biometric_template'',
     ''biometric_value'', ''face_embedding'', ''voice_embedding'']"

definition forbidden_key_parts :: "string list" where
  "forbidden_key_parts = [''password'', ''passcode'', ''private_key'', ''privatekey'',
     ''biometric_template'', ''credential_secret'', ''access_token'', ''refresh_token'',
     ''client_secret'']"

definition reference_suffixes :: "string list" where
  "reference_suffixes = [''_vault_ref'', ''_asset_ref'', ''_secret_ref'', ''_credential_ref'',
     ''_key_ref'', ''_biometric_ref'']"

text \<open>The classes \<open>[A-Za-z0-9]\<close> and \<open>[A-Za-z0-9._:/@+-]\<close> of the pattern, and the pattern itself:
  a scheme, one character of the first class and 2 to 509 of the second.\<close>

definition alnum :: "char \<Rightarrow> bool" where
  "alnum c \<longleftrightarrow> (let n = of_char c :: nat in (65 \<le> n \<and> n \<le> 90) \<or> (97 \<le> n \<and> n \<le> 122) \<or> (48 \<le> n \<and> n \<le> 57))"

definition reference_char :: "char \<Rightarrow> bool" where
  "reference_char c \<longleftrightarrow> alnum c \<or> c \<in> set ''._:/@+-''"

definition reference_body :: "string \<Rightarrow> bool" where
  "reference_body s = (case s of [] \<Rightarrow> False
     | c # cs \<Rightarrow> alnum c \<and> 2 \<le> length cs \<and> length cs \<le> 509 \<and> list_all reference_char cs)"

definition reference_pattern :: "string \<Rightarrow> bool" where
  "reference_pattern s \<longleftrightarrow> list_ex (\<lambda>p. prefix p s \<and> reference_body (drop (length p) s))
     [''vault://'', ''sip-asset://'']"

definition is_opaque_restricted_reference_key :: "string \<Rightarrow> bool" where
  "is_opaque_restricted_reference_key key = (let normalized = py_lower (py_strip key) in
     list_ex (\<lambda>s. suffix s normalized) reference_suffixes)"

definition is_forbidden_secret_key :: "string \<Rightarrow> bool" where
  "is_forbidden_secret_key key = (let normalized = py_lower (py_strip key) in
     if is_opaque_restricted_reference_key normalized then False
     else normalized \<in> set forbidden_exact_keys \<or> contains_any forbidden_key_parts normalized)"

text \<open>\<open>isinstance(child, str)\<close> with a full match of the stripped text.\<close>

definition opaque_reference :: "json \<Rightarrow> bool" where
  "opaque_reference child = (case child of JStr s \<Rightarrow> reference_pattern (py_strip s) | _ \<Rightarrow> False)"

text \<open>\<open>child in (None, "", [], {})\<close>.\<close>

definition blank :: "json \<Rightarrow> bool" where
  "blank child \<longleftrightarrow> child \<in> {JNull, JStr [], JArr [], JObj []}"

definition key_path :: "string \<Rightarrow> string \<Rightarrow> string" where
  "key_path current key = current @ ''.'' @ key"

definition index_path :: "string \<Rightarrow> nat \<Rightarrow> string" where
  "index_path current i = current @ ''['' @ nat_repr i @ '']''"

section \<open>The check\<close>

text \<open>The nested function \<open>walk\<close>: the findings and the invalid references, in the order in which
  they are appended.\<close>

fun find_walk :: "json \<Rightarrow> string \<Rightarrow> string list \<times> string list"
  and find_fields :: "fields \<Rightarrow> string \<Rightarrow> string list \<times> string list"
  and find_items :: "json list \<Rightarrow> nat \<Rightarrow> string \<Rightarrow> string list \<times> string list" where
  "find_walk (JObj kvs) current = find_fields kvs current"
| "find_walk (JArr vs) current = find_items vs 0 current"
| "find_walk item current = ([], [])"
| "find_fields [] current = ([], [])"
| "find_fields ((key, child) # kvs) current =
     (let child_path = key_path current key;
          (findings, invalid) =
            (if is_opaque_restricted_reference_key key
             then ([], if opaque_reference child then [] else [child_path])
             else if is_forbidden_secret_key key \<and> \<not> blank child then ([child_path], [])
             else find_walk child child_path);
          (findings', invalid') = find_fields kvs current
      in (findings @ findings', invalid @ invalid'))"
| "find_items [] i current = ([], [])"
| "find_items (v # vs) i current =
     (let (findings, invalid) = find_walk v (index_path current i);
          (findings', invalid') = find_items vs (Suc i) current
      in (findings @ findings', invalid @ invalid'))"

definition validate_no_raw_restricted_values :: "json \<Rightarrow> string \<Rightarrow> string \<Rightarrow> sip_error + unit" where
  "validate_no_raw_restricted_values v code_prefix path =
     (let (findings, invalid_refs) = find_walk v path in
      if findings \<noteq> [] then Inl (ValidationError (code_prefix @ ''_RAW_SECRET_PROHIBITED'')
        [(''paths'', JArr (map JStr (sorted_set findings)))])
      else if invalid_refs \<noteq> [] then Inl (ValidationError (code_prefix @ ''_RESTRICTED_REFERENCE_INVALID'')
        [(''paths'', JArr (map JStr (sorted_set invalid_refs)))])
      else Inr ())"

section \<open>The scrub\<close>

fun strip_walk :: "json \<Rightarrow> string \<Rightarrow> json \<times> string list"
  and strip_fields :: "fields \<Rightarrow> string \<Rightarrow> fields \<times> string list"
  and strip_items :: "json list \<Rightarrow> nat \<Rightarrow> string \<Rightarrow> json list \<times> string list" where
  "strip_walk (JObj kvs) current = (let (output, removed) = strip_fields kvs current in (JObj output, removed))"
| "strip_walk (JArr vs) current = (let (output, removed) = strip_items vs 0 current in (JArr output, removed))"
| "strip_walk item current = (item, [])"
| "strip_fields [] current = ([], [])"
| "strip_fields ((key, child) # kvs) current =
     (let child_path = key_path current key;
          (kept, removed) =
            (if is_forbidden_secret_key key then ([], [child_path])
             else if is_opaque_restricted_reference_key key
             then (case child of
                     JStr s \<Rightarrow> if reference_pattern (py_strip s) then ([(key, JStr (py_strip s))], [])
                                else ([], [child_path])
                   | _ \<Rightarrow> ([], [child_path]))
             else (let (v, removed) = strip_walk child child_path in ([(key, v)], removed)));
          (output, removed') = strip_fields kvs current
      in (kept @ output, removed @ removed'))"
| "strip_items [] i current = ([], [])"
| "strip_items (v # vs) i current =
     (let (v', removed) = strip_walk v (index_path current i);
          (output, removed') = strip_items vs (Suc i) current
      in (v' # output, removed @ removed'))"

definition strip_raw_restricted_values :: "json \<Rightarrow> string \<Rightarrow> json \<times> string list" where
  "strip_raw_restricted_values v path = (let (output, removed) = strip_walk v path in (output, sorted_set removed))"

section \<open>Paths into a value\<close>

datatype path_step = Key string | Item nat

fun json_at :: "json \<Rightarrow> path_step list \<Rightarrow> json option" where
  "json_at v [] = Some v"
| "json_at (JObj kvs) (Key k # p) = (case map_of kvs k of None \<Rightarrow> None | Some v \<Rightarrow> json_at v p)"
| "json_at (JArr vs) (Item i # p) = (if i < length vs then json_at (vs ! i) p else None)"
| "json_at v p = None"

definition plain_key :: "string \<Rightarrow> bool" where
  "plain_key k \<longleftrightarrow> \<not> is_forbidden_secret_key k \<and> \<not> is_opaque_restricted_reference_key k"

definition clean_path :: "path_step list \<Rightarrow> bool" where
  "clean_path p \<longleftrightarrow> list_all (\<lambda>s. case s of Key k \<Rightarrow> plain_key k | Item i \<Rightarrow> True) p"

lemma clean_path_simps [simp]:
  "clean_path []" "clean_path (Key k # p) \<longleftrightarrow> plain_key k \<and> clean_path p"
  "clean_path (Item i # p) \<longleftrightarrow> clean_path p"
  by (simp_all add: clean_path_def)

lemma ascii_space_lower [simp]: "ascii_space (lower_char c) = ascii_space c"
  by (auto simp: ascii_space_def lower_char_def Let_def)

lemma py_strip_lower: "py_strip (py_lower s) = py_lower (py_strip s)"
proof -
  have "dropWhile ascii_space (map lower_char xs) = map lower_char (dropWhile ascii_space xs)" for xs
    by (simp add: dropWhile_map comp_def)
  then show ?thesis
    by (simp add: py_strip_def py_lower_def rev_map)
qed

lemma reference_key_normal [simp]:
  "is_opaque_restricted_reference_key (py_lower (py_strip k)) \<longleftrightarrow> is_opaque_restricted_reference_key k"
  by (simp add: is_opaque_restricted_reference_key_def py_strip_lower)

text \<open>A key is a secret key, a reference key or plain.\<close>

lemma forbidden_not_reference:
  "is_forbidden_secret_key k \<Longrightarrow> \<not> is_opaque_restricted_reference_key k"
  by (auto simp: is_forbidden_secret_key_def Let_def split: if_splits)

section \<open>The scrub and the check without paths\<close>

text \<open>What the scrub returns and when the check finds nothing, as functions of the value alone.\<close>

definition scrub_field :: "string \<Rightarrow> json \<Rightarrow> json \<Rightarrow> json option" where
  "scrub_field k child child' =
     (if is_forbidden_secret_key k then None
      else if is_opaque_restricted_reference_key k
      then (case child of JStr s \<Rightarrow> if reference_pattern (py_strip s) then Some (JStr (py_strip s)) else None
              | _ \<Rightarrow> None)
      else Some child')"

fun scrub :: "json \<Rightarrow> json" and scrub_fields :: "fields \<Rightarrow> fields" and scrub_items :: "json list \<Rightarrow> json list" where
  "scrub (JObj kvs) = JObj (scrub_fields kvs)"
| "scrub (JArr vs) = JArr (scrub_items vs)"
| "scrub v = v"
| "scrub_fields [] = []"
| "scrub_fields ((k, v) # kvs) =
     (case scrub_field k v (scrub v) of None \<Rightarrow> [] | Some v' \<Rightarrow> [(k, v')]) @ scrub_fields kvs"
| "scrub_items [] = []"
| "scrub_items (v # vs) = scrub v # scrub_items vs"

fun accepted :: "json \<Rightarrow> bool" and accepted_fields :: "fields \<Rightarrow> bool" and accepted_items :: "json list \<Rightarrow> bool" where
  "accepted (JObj kvs) = accepted_fields kvs"
| "accepted (JArr vs) = accepted_items vs"
| "accepted v = True"
| "accepted_fields [] = True"
| "accepted_fields ((k, v) # kvs) =
     ((if is_opaque_restricted_reference_key k then opaque_reference v
       else if is_forbidden_secret_key k then blank v else accepted v) \<and> accepted_fields kvs)"
| "accepted_items [] = True"
| "accepted_items (v # vs) = (accepted v \<and> accepted_items vs)"

lemma strip_walk_scrub:
  "fst (strip_walk v c) = scrub v"
  "fst (strip_fields kvs c) = scrub_fields kvs"
  "fst (strip_items vs i c) = scrub_items vs"
  by (induction v and kvs and vs arbitrary: c and c and i c rule: scrub_scrub_fields_scrub_items.induct)
    (simp_all add: Let_def split_beta scrub_field_def split: json.splits)

lemma scrubbed_eq: "fst (strip_raw_restricted_values v path) = scrub v"
  by (simp add: strip_raw_restricted_values_def split_beta strip_walk_scrub)

lemma blank_finds_nothing: "blank v \<Longrightarrow> find_walk v c = ([], [])"
  by (auto simp: blank_def)

lemma find_walk_accepted:
  "find_walk v c = ([], []) \<longleftrightarrow> accepted v"
  "find_fields kvs c = ([], []) \<longleftrightarrow> accepted_fields kvs"
  "find_items vs i c = ([], []) \<longleftrightarrow> accepted_items vs"
proof (induction v and kvs and vs arbitrary: c and c and i c rule: accepted_accepted_fields_accepted_items.induct)
  case (5 k v kvs)
  then show ?case
    using forbidden_not_reference [of k] blank_finds_nothing [of v]
    by (cases "find_walk v (key_path c k)"; cases "find_fields kvs c") (auto simp: Let_def)
next
  case (7 v vs)
  then show ?case
    by (cases "find_walk v (index_path c i)"; cases "find_items vs (Suc i) c") (auto simp: Let_def)
qed simp_all

lemma validate_accepted: "validate_no_raw_restricted_values v code_prefix path = Inr () \<longleftrightarrow> accepted v"
  unfolding find_walk_accepted(1) [of v path, symmetric]
  by (cases "find_walk v path") (simp add: validate_no_raw_restricted_values_def)

lemma scrub_accepted:
  "accepted (scrub v)"
  "accepted_fields (scrub_fields kvs)"
  "accepted_items (scrub_items vs)"
proof (induction v and kvs and vs rule: scrub_scrub_fields_scrub_items.induct)
  case (5 k v kvs)
  then show ?case
    using forbidden_not_reference [of k]
    by (auto simp: scrub_field_def opaque_reference_def split: json.splits)
qed simp_all

lemma scrub_idem:
  "scrub (scrub v) = scrub v"
  "scrub_fields (scrub_fields kvs) = scrub_fields kvs"
  "scrub_items (scrub_items vs) = scrub_items vs"
proof (induction v and kvs and vs rule: scrub_scrub_fields_scrub_items.induct)
  case (5 k v kvs)
  then show ?case
    by (auto simp: scrub_field_def split: json.splits)
qed simp_all

section \<open>Paths\<close>

lemma map_of_scrub_plain:
  "plain_key k \<Longrightarrow> map_of (scrub_fields kvs) k = map_option scrub (map_of kvs k)"
  by (induction kvs rule: list.induct)
    (auto simp: scrub_field_def plain_key_def split: option.splits)

lemma map_of_scrub_secret:
  "is_forbidden_secret_key k \<Longrightarrow> map_of (scrub_fields kvs) k = None"
  by (induction kvs rule: list.induct) (auto simp: scrub_field_def split: option.splits)

lemma scrub_fields_keys: "k \<notin> set (map fst kvs) \<Longrightarrow> k \<notin> set (map fst (scrub_fields kvs))"
  by (induction kvs rule: list.induct) (auto split: option.splits)

lemma map_of_scrub_reference:
  assumes "is_opaque_restricted_reference_key k" and "distinct (map fst kvs)"
  shows "map_of (scrub_fields kvs) k =
     (case map_of kvs k of None \<Rightarrow> None | Some v \<Rightarrow> scrub_field k v v)"
  using assms
proof (induction kvs)
  case (Cons kv kvs)
  obtain k' v where "kv = (k', v)" by fastforce
  moreover have "map_of (scrub_fields kvs) k = None" if "k \<notin> set (map fst kvs)"
    using scrub_fields_keys [OF that] by (simp add: map_of_eq_None_iff)
  moreover have "scrub_field k v v = scrub_field k v (scrub v)"
    using Cons.prems(1) by (simp add: scrub_field_def)
  ultimately show ?case
    using Cons by (cases "k' = k"; cases "scrub_field k' v (scrub v)") simp_all
qed simp

lemma scrub_items_map: "scrub_items vs = map scrub vs"
  by (induction vs) simp_all

lemma accepted_items_all: "accepted_items vs \<longleftrightarrow> (\<forall>v\<in>set vs. accepted v)"
  by (induction vs) simp_all

definition field_ok :: "string \<Rightarrow> json \<Rightarrow> bool" where
  "field_ok k child \<longleftrightarrow> (is_opaque_restricted_reference_key k \<longrightarrow> opaque_reference child) \<and>
     (is_forbidden_secret_key k \<longrightarrow> blank child)"

lemma accepted_fields_all:
  "accepted_fields kvs \<longleftrightarrow>
     (\<forall>(k, v)\<in>set kvs. field_ok k v \<and> (plain_key k \<longrightarrow> accepted v))"
  using forbidden_not_reference
  by (induction kvs rule: list.induct) (auto simp: field_ok_def plain_key_def)

text \<open>The check accepts a value exactly when the fields below clean paths are as they should be.\<close>

lemma json_wf_subvalues:
  "json_wf (JArr vs) \<longleftrightarrow> (\<forall>v\<in>set vs. json_wf v)"
  "json_wf (JObj kvs) \<longleftrightarrow> distinct (map fst kvs) \<and> (\<forall>(k, v)\<in>set kvs. json_wf v)"
proof -
  have "json_wf_list vs \<longleftrightarrow> (\<forall>v\<in>set vs. json_wf v)" for vs by (induction vs) simp_all
  moreover have "json_wf_fields kvs \<longleftrightarrow> (\<forall>(k, v)\<in>set kvs. json_wf v)" for kvs
    by (induction kvs rule: list.induct) auto
  ultimately show "json_wf (JArr vs) \<longleftrightarrow> (\<forall>v\<in>set vs. json_wf v)"
    "json_wf (JObj kvs) \<longleftrightarrow> distinct (map fst kvs) \<and> (\<forall>(k, v)\<in>set kvs. json_wf v)" by simp_all
qed

definition fields_ok :: "json \<Rightarrow> bool" where
  "fields_ok v \<longleftrightarrow> (\<forall>p k child. clean_path p \<and> json_at v (p @ [Key k]) = Some child \<longrightarrow> field_ok k child)"

lemma fields_ok_arr: "fields_ok (JArr vs) \<longleftrightarrow> (\<forall>v\<in>set vs. fields_ok v)"
proof
  assume L: "fields_ok (JArr vs)"
  show "\<forall>v\<in>set vs. fields_ok v"
    unfolding fields_ok_def
  proof (intro ballI allI impI, elim conjE)
    fix v p k child
    assume "v \<in> set vs" and "clean_path p" and "json_at v (p @ [Key k]) = Some child"
    then obtain i where "i < length vs" and "json_at (JArr vs) ((Item i # p) @ [Key k]) = Some child"
      by (auto simp: in_set_conv_nth)
    with L \<open>clean_path p\<close> show "field_ok k child"
      unfolding fields_ok_def by (metis clean_path_simps(3))
  qed
next
  assume R: "\<forall>v\<in>set vs. fields_ok v"
  have "field_ok k child" if "clean_path p" "json_at (JArr vs) (p @ [Key k]) = Some child" for p k child
  proof (cases p)
    case (Cons s q)
    with that obtain i where "i < length vs" and "clean_path q" and "json_at (vs ! i) (q @ [Key k]) = Some child"
      by (cases s) (auto split: if_splits)
    with R nth_mem [of i vs] show ?thesis unfolding fields_ok_def by blast
  qed (use that in simp)
  then show "fields_ok (JArr vs)" unfolding fields_ok_def by blast
qed

lemma fields_ok_obj:
  assumes "distinct (map fst kvs)"
  shows "fields_ok (JObj kvs) \<longleftrightarrow> (\<forall>(k, v)\<in>set kvs. field_ok k v \<and> (plain_key k \<longrightarrow> fields_ok v))"
proof
  assume L: "fields_ok (JObj kvs)"
  have "field_ok k v \<and> (plain_key k \<longrightarrow> fields_ok v)" if "(k, v) \<in> set kvs" for k v
  proof -
    have kv: "map_of kvs k = Some v" using that assms by simp
    then have "json_at (JObj kvs) ([] @ [Key k]) = Some v" by simp
    then have "field_ok k v" using L unfolding fields_ok_def by (metis clean_path_simps(1))
    moreover have "fields_ok v" if "plain_key k"
      unfolding fields_ok_def
    proof (intro allI impI, elim conjE)
      fix p k' child
      assume "clean_path p" and "json_at v (p @ [Key k']) = Some child"
      with kv have "json_at (JObj kvs) ((Key k # p) @ [Key k']) = Some child" by simp
      moreover have "clean_path (Key k # p)" using that \<open>clean_path p\<close> by simp
      ultimately show "field_ok k' child" using L unfolding fields_ok_def by metis
    qed
    ultimately show ?thesis by blast
  qed
  then show "\<forall>(k, v)\<in>set kvs. field_ok k v \<and> (plain_key k \<longrightarrow> fields_ok v)" by blast
next
  assume R: "\<forall>(k, v)\<in>set kvs. field_ok k v \<and> (plain_key k \<longrightarrow> fields_ok v)"
  have "field_ok k child" if "clean_path p" "json_at (JObj kvs) (p @ [Key k]) = Some child" for p k child
  proof (cases p)
    case Nil
    with that show ?thesis
      using R map_of_SomeD [of kvs k child] by (auto split: option.splits)
  next
    case (Cons s q)
    with that(2) obtain k' v where s: "s = Key k'" and v: "map_of kvs k' = Some v"
      and q: "json_at v (q @ [Key k]) = Some child"
      by (cases s) (auto split: option.splits)
    from R map_of_SomeD [OF v] have "plain_key k' \<longrightarrow> fields_ok v" by blast
    with q s Cons that(1) show ?thesis unfolding fields_ok_def by auto
  qed
  then show "fields_ok (JObj kvs)" unfolding fields_ok_def by blast
qed

lemma accepted_fields_ok: "json_wf v \<Longrightarrow> accepted v \<longleftrightarrow> fields_ok v"
proof (induction v rule: json.induct)
  case (JArr vs)
  from JArr.prems have "json_wf v" if "v \<in> set vs" for v
    using that json_wf_subvalues(1) [of vs] by blast
  with JArr.IH show ?case by (simp add: fields_ok_arr accepted_items_all)
next
  case (JObj kvs)
  from JObj.prems have wf: "distinct (map fst kvs)" "\<forall>(k, v)\<in>set kvs. json_wf v"
    using json_wf_subvalues(2) [of kvs] by blast+
  have "accepted v \<longleftrightarrow> fields_ok v" if "(k, v) \<in> set kvs" for k v
    using JObj.IH [of "(k, v)" v] that wf(2) by auto
  then show ?case
    by (auto simp: fields_ok_obj [OF wf(1)] accepted_fields_all)
qed (auto simp: fields_ok_def elim: json_at.elims)

lemma json_at_scrub_clean:
  "clean_path p \<Longrightarrow> json_at (scrub v) p = map_option scrub (json_at v p)"
  by (induction v p rule: json_at.induct)
    (auto simp: map_of_scrub_plain scrub_items_map split: option.splits)

lemma map_of_scrub_image: "map_of (scrub_fields kvs) k = Some w \<Longrightarrow> \<exists>v. w = scrub v"
proof (induction kvs)
  case (Cons kv kvs)
  obtain k' v where kv: "kv = (k', v)" by fastforce
  have "\<exists>v. u = scrub v" if "scrub_field k' v (scrub v) = Some u" for u
    using that by (auto simp: scrub_field_def split: if_splits json.splits intro: exI [of _ "JStr _"])
  with Cons kv show ?case
    by (cases "scrub_field k' v (scrub v)") (auto split: if_splits)
qed simp

lemma json_at_scrub_image: "json_at (scrub v) p = Some w \<Longrightarrow> \<exists>u. w = scrub u"
proof (induction p arbitrary: v)
  case (Cons s p)
  show ?case
  proof (cases "(v, s)" rule: prod.exhaust)
    case (Pair v' s')
    then show ?thesis
      using Cons map_of_scrub_image by (cases v; cases s) (force simp: scrub_items_map split: option.splits if_splits)+
  qed
qed auto

lemma json_at_append: "json_at v (p @ q) = Option.bind (json_at v p) (\<lambda>w. json_at w q)"
  by (induction v p rule: json_at.induct) (auto split: option.splits)

lemma no_secret_in_scrub:
  assumes "is_forbidden_secret_key k"
  shows "json_at (scrub v) (p @ Key k # q) = None"
proof (cases "json_at (scrub v) p")
  case (Some w)
  then obtain u where "w = scrub u" using json_at_scrub_image by blast
  then have "json_at w (Key k # q) = None"
    by (cases u) (simp_all add: map_of_scrub_secret [OF assms])
  with Some show ?thesis by (simp add: json_at_append)
qed (simp add: json_at_append)

lemma scrub_removes_nothing_more:
  "snd (strip_walk (scrub v) c) = []"
  "snd (strip_fields (scrub_fields kvs) c) = []"
  "snd (strip_items (scrub_items vs) i c) = []"
proof (induction v and kvs and vs arbitrary: c and c and i c rule: scrub_scrub_fields_scrub_items.induct)
  case (5 k v kvs)
  then show ?case
    by (auto simp: scrub_field_def Let_def split_beta split: json.splits)
qed (simp_all add: split_beta)

section \<open>Properties\<close>

text \<open>
  C34. The check accepts a value exactly when, below every path whose keys are neither secret nor
  reference keys, each reference key holds an opaque reference and each secret key holds nothing.
\<close>

theorem restricted_check_exact:
  assumes "json_wf v"
  shows "validate_no_raw_restricted_values v code_prefix path = Inr () \<longleftrightarrow>
    (\<forall>p k child. clean_path p \<and> json_at v (p @ [Key k]) = Some child \<longrightarrow>
       (is_opaque_restricted_reference_key k \<longrightarrow> opaque_reference child) \<and>
       (is_forbidden_secret_key k \<longrightarrow> blank child))"
  unfolding validate_accepted accepted_fields_ok [OF assms] fields_ok_def field_ok_def ..

text \<open>
  C33. Whatever a stored row holds, the scrubbed value passes the check, has no secret key at any
  depth, is what the scrub itself leaves unchanged, and agrees with the row wherever a path has
  neither secret nor reference keys.
\<close>

theorem scrub_is_safe_and_exact:
  assumes "strip_raw_restricted_values v path = (out, removed)"
  shows "validate_no_raw_restricted_values out code_prefix path' = Inr () \<and>
    (\<forall>p k q. is_forbidden_secret_key k \<longrightarrow> json_at out (p @ Key k # q) = None) \<and>
    strip_raw_restricted_values out path' = (out, []) \<and>
    (\<forall>p. clean_path p \<longrightarrow>
       json_at out p = map_option (\<lambda>w. fst (strip_raw_restricted_values w path)) (json_at v p))"
proof -
  have s: "out = scrub v" using assms scrubbed_eq [of v path] by simp
  have "strip_raw_restricted_values out path' = (out, [])"
    by (simp add: s strip_raw_restricted_values_def split_beta strip_walk_scrub scrub_idem
        scrub_removes_nothing_more sorted_set_def)
  then show ?thesis
    by (simp add: s validate_accepted scrub_accepted no_secret_in_scrub scrubbed_eq json_at_scrub_clean)
qed

definition sample_row :: json where
  "sample_row = JObj [(''panel'', JObj [(''Panel_Password'', JStr ''1234''), (''zone'', JInt 4)]),
     (''code_vault_ref'', JStr '' vault://site/7 ''), (''key_ref'', JInt 1)]"

lemma restricted_check_exact_witness:
  "json_wf sample_row \<and>
   validate_no_raw_restricted_values sample_row ''CONSTRUCTION'' ''$'' \<noteq> Inr ()"
proof -
  have wf: "json_wf sample_row" by code_simp
  have "\<not> (clean_path [Key ''panel''] \<and>
      json_at sample_row ([Key ''panel''] @ [Key ''Panel_Password'']) = Some (JStr ''1234'') \<longrightarrow>
      (is_opaque_restricted_reference_key ''Panel_Password'' \<longrightarrow> opaque_reference (JStr ''1234'')) \<and>
      (is_forbidden_secret_key ''Panel_Password'' \<longrightarrow> blank (JStr ''1234'')))"
    by code_simp
  with wf show ?thesis
    using restricted_check_exact [OF wf, of "''CONSTRUCTION''" "''$''"] by blast
qed

lemma scrub_is_safe_and_exact_witness:
  "\<exists>out removed. strip_raw_restricted_values sample_row ''$'' = (out, removed) \<and>
     json_at out [Key ''panel'', Key ''Panel_Password''] = None \<and>
     json_at out [Key ''panel'', Key ''zone''] = Some (JInt 4)"
proof -
  obtain out removed where s: "strip_raw_restricted_values sample_row ''$'' = (out, removed)" by fastforce
  have f: "is_forbidden_secret_key ''Panel_Password''" by code_simp
  have c: "clean_path [Key ''panel'', Key ''zone'']" by code_simp
  have z: "json_at sample_row [Key ''panel'', Key ''zone''] = Some (JInt 4)" by code_simp
  have "fst (strip_raw_restricted_values (JInt 4) ''$'') = JInt 4" by code_simp
  moreover have "json_at out ([Key ''panel''] @ Key ''Panel_Password'' # []) = None"
    using scrub_is_safe_and_exact [OF s] f by blast
  moreover have "json_at out [Key ''panel'', Key ''zone''] =
      map_option (\<lambda>w. fst (strip_raw_restricted_values w ''$'')) (json_at sample_row [Key ''panel'', Key ''zone''])"
    using scrub_is_safe_and_exact [OF s] c by blast
  ultimately show ?thesis using s z by (intro exI [of _ out] exI [of _ removed]) simp
qed

end
