(* ===== verification/Collaboration.thy ===== *)
theory Collaboration
  imports Policy
begin

text \<open>
  \<open>src/sip/collaboration.py\<close>: comments, tasks with their states, notifications with the redaction
  of sensitive details, and the handlers of \<open>src/sip/api.py\<close> that call them.

  The first group of lemmas concerns single calls: what each adds and when it raises. The second
  concerns any sequence of calls: rows are never removed, a comment never changes, a task moves
  along the permitted transitions only, and a notification that was redacted stays redacted.
\<close>

section \<open>Comments\<close>

record comment_args =
  ca_tenant_id :: string
  ca_project_id :: string
  ca_body :: string
  ca_author_id :: string
  ca_scene_commit_id :: "string option"
  ca_entity_id :: "string option"
  ca_anchor :: "fields option"
  ca_supersedes_comment_id :: "string option"

definition get_comment :: "db \<Rightarrow> string \<Rightarrow> comment_row option" where
  "get_comment s k = tget c_comment_id (collaboration_comments s) k"

definition body_hash :: "runtime \<Rightarrow> comment_args \<Rightarrow> string" where
  "body_hash rt a = canonical_sha256 rt (JObj [(''body'', JStr (ca_body a)), (''author_id'', JStr (ca_author_id a)),
     (''supersedes'', jopt (ca_supersedes_comment_id a))])"

definition new_comment :: "runtime \<Rightarrow> env \<Rightarrow> comment_args \<Rightarrow> comment_row" where
  "new_comment rt E a = \<lparr>c_comment_id = ids E 0, c_tenant_id = ca_tenant_id a, c_project_id = ca_project_id a,
     c_scene_commit_id = ca_scene_commit_id a, c_entity_id = ca_entity_id a, c_anchor_json = ca_anchor a,
     c_body = ca_body a, c_body_hash = body_hash rt a, c_author_id = ca_author_id a,
     c_supersedes_comment_id = ca_supersedes_comment_id a, c_created_at = clk E 0\<rparr>"

text \<open>The guard \<open>any([scene_commit_id, entity_id, anchor])\<close>: empty texts and objects are falsy.\<close>

definition comment_scoped :: "comment_args \<Rightarrow> bool" where
  "comment_scoped a \<longleftrightarrow> truthy_str (ca_scene_commit_id a) \<or> truthy_str (ca_entity_id a) \<or>
     (case ca_anchor a of None \<Rightarrow> False | Some d \<Rightarrow> d \<noteq> [])"

definition comment :: "runtime \<Rightarrow> env \<Rightarrow> comment_args \<Rightarrow> db \<Rightarrow> sip_error + string \<times> db" where
  "comment rt E a s =
     (if py_strip (ca_body a) = [] then Inl (ValidationError ''COMMENT_EMPTY'' [])
      else if \<not> comment_scoped a then Inl (ValidationError ''COMMENT_SCOPE_REQUIRED'' [])
      else bindE (case ca_supersedes_comment_id a of
                    None \<Rightarrow> Inr ()
                  | Some k \<Rightarrow> if k = [] then Inr ()
                      else (case get_comment s k of
                              None \<Rightarrow> Inl (NotFoundError ''comment'' k)
                            | Some prior \<Rightarrow>
                                if c_tenant_id prior \<noteq> ca_tenant_id a \<or> c_project_id prior \<noteq> ca_project_id a
                                then Inl (NotFoundError ''comment'' k) else Inr ())) (\<lambda>_.
      bindE (insert_row c_comment_id (new_comment rt E a) (collaboration_comments s)) (\<lambda>rows.
      Inr (ids E 0, s\<lparr>collaboration_comments := rows\<rparr>))))"

section \<open>Tasks\<close>

record task_args =
  ta_tenant_id :: string
  ta_project_id :: string
  ta_title :: string
  ta_description :: string
  ta_created_by :: string
  ta_entity_id :: "string option"
  ta_assignee_id :: "string option"
  ta_priority :: string
  ta_due_at :: "time option"

definition new_task :: "env \<Rightarrow> task_args \<Rightarrow> task_row" where
  "new_task E a = \<lparr>k_task_id = ids E 0, k_tenant_id = ta_tenant_id a, k_project_id = ta_project_id a,
     k_entity_id = ta_entity_id a, k_state = ''open'', k_priority = ta_priority a, k_title = ta_title a,
     k_description = ta_description a, k_assignee_id = ta_assignee_id a, k_due_at = ta_due_at a,
     k_created_by = ta_created_by a, k_created_at = clk E 0\<rparr>"

definition create_task :: "env \<Rightarrow> task_args \<Rightarrow> db \<Rightarrow> sip_error + string \<times> db" where
  "create_task E a s =
     (if ta_priority a \<notin> set [''low'', ''normal'', ''high'', ''urgent''] then Inl (ValidationError ''TASK_PRIORITY'' [])
      else bindE (insert_row k_task_id (new_task E a) (collaboration_tasks s)) (\<lambda>rows.
      Inr (ids E 0, s\<lparr>collaboration_tasks := rows\<rparr>)))"

text \<open>The table \<open>allowed\<close>; \<open>allowed.get(state, set())\<close> gives nothing for another state.\<close>

definition task_moves :: "string \<Rightarrow> string list" where
  "task_moves state =
     (if state = ''open'' then [''in_progress'', ''cancelled'']
      else if state = ''in_progress'' then [''blocked'', ''done'', ''cancelled'']
      else if state = ''blocked'' then [''in_progress'', ''cancelled'']
      else [])"

definition get_task :: "db \<Rightarrow> string \<Rightarrow> task_row option" where
  "get_task s k = tget k_task_id (collaboration_tasks s) k"

definition transition_task :: "string \<Rightarrow> string \<Rightarrow> string \<Rightarrow> db \<Rightarrow> sip_error + json \<times> db" where
  "transition_task task_id new_state actor s =
     (case get_task s task_id of
        None \<Rightarrow> Inl (NotFoundError ''task'' task_id)
      | Some row \<Rightarrow>
          if new_state \<notin> set (task_moves (k_state row))
          then Inl (ConflictError ''TASK_TRANSITION_INVALID'' [(''from'', JStr (k_state row)), (''to'', JStr new_state)])
          else Inr (JObj [(''task_id'', JStr task_id), (''from'', JStr (k_state row)), (''to'', JStr new_state),
                 (''actor_id'', JStr actor)],
               s\<lparr>collaboration_tasks := tput k_task_id (row\<lparr>k_state := new_state\<rparr>) (collaboration_tasks s)\<rparr>))"

section \<open>Notifications\<close>

record notification_args =
  na_tenant_id :: string
  na_project_id :: string
  na_recipient_id :: string
  na_channel :: string
  na_template_id :: string
  na_payload :: fields
  na_sensitive :: bool

definition redacted_payload :: "fields \<Rightarrow> fields" where
  "redacted_payload payload =
     [(''message'', JStr ''A restricted SIP item requires your attention. Sign in to review it.''),
      (''resource_id'', jget payload ''resource_id''), (''contains_sensitive_details'', JBool False)]"

definition external_payload :: "notification_args \<Rightarrow> fields" where
  "external_payload a = (if na_sensitive a \<and> na_channel a \<noteq> ''in_app'' then redacted_payload (na_payload a)
     else na_payload a)"

definition new_notification :: "env \<Rightarrow> notification_args \<Rightarrow> notification_row" where
  "new_notification E a = \<lparr>n_notification_id = ids E 0, n_tenant_id = na_tenant_id a, n_project_id = na_project_id a,
     n_recipient_id = na_recipient_id a, n_channel = na_channel a, n_template_id = na_template_id a,
     n_payload_json = external_payload a, n_sensitive = na_sensitive a, n_state = ''queued'', n_created_at = clk E 0\<rparr>"

definition queue :: "env \<Rightarrow> notification_args \<Rightarrow> db \<Rightarrow> sip_error + string \<times> db" where
  "queue E a s =
     (if na_channel a \<notin> set [''in_app'', ''email'', ''sms'', ''push''] then Inl (ValidationError ''NOTIFICATION_CHANNEL'' [])
      else bindE (insert_row n_notification_id (new_notification E a) (notifications s)) (\<lambda>rows.
      Inr (ids E 0, s\<lparr>notifications := rows\<rparr>)))"

definition get_notification :: "db \<Rightarrow> string \<Rightarrow> notification_row option" where
  "get_notification s k = tget n_notification_id (notifications s) k"

definition deliverable :: "string \<Rightarrow> bool \<Rightarrow> bool \<Rightarrow> db \<Rightarrow> sip_error + json \<times> db" where
  "deliverable notification_id quiet_hours urgent s =
     (case get_notification s notification_id of
        None \<Rightarrow> Inl (NotFoundError ''notification'' notification_id)
      | Some row \<Rightarrow>
          if quiet_hours \<and> \<not> urgent
          then Inr (JObj [(''deliver'', JBool False), (''state'', JStr ''deferred_quiet_hours'')],
                 s\<lparr>notifications := tput n_notification_id (row\<lparr>n_state := ''deferred_quiet_hours''\<rparr>) (notifications s)\<rparr>)
          else Inr (JObj [(''deliver'', JBool True), (''state'', JStr ''ready''), (''channel'', JStr (n_channel row)),
                     (''payload'', JObj (n_payload_json row))],
                 s\<lparr>notifications := tput n_notification_id (row\<lparr>n_state := ''ready''\<rparr>) (notifications s)\<rparr>))"

section \<open>Handlers\<close>

text \<open>\<open>_require\<close> of the API with its default classification, and the handlers of the collaboration
  and notification routers: the policy decision first, in its own session, then the service call.
  \<open>E\<close> is the environment of the decision and \<open>F\<close> that of the service.\<close>

definition api_request :: "string \<Rightarrow> string \<Rightarrow> string option \<Rightarrow> access_request" where
  "api_request action tenant project = \<lparr>rq_action = action, rq_tenant_id = tenant, rq_project_id = project,
     rq_purpose = None, rq_classification = classification_value INTERNAL, rq_required_audience = None,
     rq_spatial_region_id = None, rq_audit_denial = True\<rparr>"

definition guarded ::
  "runtime \<Rightarrow> string \<Rightarrow> env \<Rightarrow> principal \<Rightarrow> access_request \<Rightarrow> (db \<Rightarrow> sip_error + 'a \<times> db) \<Rightarrow> db
     \<Rightarrow> (sip_error + 'a) \<times> db" where
  "guarded rt key E p rq body s =
     (case require rt key E p rq s of (Inl e, s') \<Rightarrow> (Inl e, s') | (Inr _, s') \<Rightarrow> session body s')"

text \<open>The response \<open>{name: identifier}\<close>.\<close>

definition id_response :: "string \<Rightarrow> (db \<Rightarrow> sip_error + string \<times> db) \<Rightarrow> db \<Rightarrow> sip_error + json \<times> db" where
  "id_response name body s = bindE (body s) (\<lambda>(k, s'). Inr (JObj [(name, JStr k)], s'))"

definition api_create_comment ::
  "runtime \<Rightarrow> string \<Rightarrow> env \<Rightarrow> env \<Rightarrow> principal \<Rightarrow> string \<Rightarrow> comment_args \<Rightarrow> db \<Rightarrow> (sip_error + json) \<times> db" where
  "api_create_comment rt key E F p project a s =
     guarded rt key E p (api_request ''scene:read'' (p_tenant_id p) (Some project))
       (id_response ''comment_id'' (comment rt F
          (a\<lparr>ca_tenant_id := p_tenant_id p, ca_project_id := project, ca_author_id := subject_id p\<rparr>))) s"

definition api_create_task ::
  "runtime \<Rightarrow> string \<Rightarrow> env \<Rightarrow> env \<Rightarrow> principal \<Rightarrow> string \<Rightarrow> task_args \<Rightarrow> db \<Rightarrow> (sip_error + json) \<times> db" where
  "api_create_task rt key E F p project a s =
     guarded rt key E p (api_request ''scene:read'' (p_tenant_id p) (Some project))
       (id_response ''task_id'' (create_task F
          (a\<lparr>ta_tenant_id := p_tenant_id p, ta_project_id := project, ta_created_by := subject_id p\<rparr>))) s"

definition api_transition_task ::
  "runtime \<Rightarrow> string \<Rightarrow> env \<Rightarrow> principal \<Rightarrow> string \<Rightarrow> string \<Rightarrow> db \<Rightarrow> (sip_error + json) \<times> db" where
  "api_transition_task rt key E p task_id new_state s =
     guarded rt key E p (api_request ''scene:read'' (p_tenant_id p) None)
       (transition_task task_id new_state (subject_id p)) s"

definition api_queue_notification ::
  "runtime \<Rightarrow> string \<Rightarrow> env \<Rightarrow> env \<Rightarrow> principal \<Rightarrow> string \<Rightarrow> notification_args \<Rightarrow> db \<Rightarrow> (sip_error + json) \<times> db" where
  "api_queue_notification rt key E F p project a s =
     guarded rt key E p (api_request ''project:*'' (p_tenant_id p) (Some project))
       (id_response ''notification_id'' (queue F
          (a\<lparr>na_tenant_id := p_tenant_id p, na_project_id := project\<rparr>))) s"

section \<open>Any sequence of calls\<close>

datatype collaboration_call =
    AddComment env comment_args
  | AddTask env task_args
  | MoveTask string string string
  | Queue env notification_args
  | Deliver string bool bool

fun collaboration_step :: "runtime \<Rightarrow> db \<Rightarrow> collaboration_call \<Rightarrow> sip_error + db" where
  "collaboration_step rt s (AddComment E a) = bindE (comment rt E a s) (\<lambda>(_, t). Inr t)"
| "collaboration_step rt s (AddTask E a) = bindE (create_task E a s) (\<lambda>(_, t). Inr t)"
| "collaboration_step rt s (MoveTask task_id new_state actor) = bindE (transition_task task_id new_state actor s) (\<lambda>(_, t). Inr t)"
| "collaboration_step rt s (Queue E a) = bindE (queue E a s) (\<lambda>(_, t). Inr t)"
| "collaboration_step rt s (Deliver k quiet urgent) = bindE (deliverable k quiet urgent s) (\<lambda>(_, t). Inr t)"

text \<open>The permitted moves as a relation, and the task states.\<close>

definition task_states :: "string list" where
  "task_states = [''open'', ''in_progress'', ''blocked'', ''done'', ''cancelled'']"

definition moves_to :: "string \<Rightarrow> string \<Rightarrow> bool" where
  "moves_to a b \<longleftrightarrow> b \<in> set (task_moves a)"

lemma task_moves_states: "b \<in> set (task_moves a) \<Longrightarrow> a \<in> set task_states \<and> b \<in> set task_states"
  by (auto simp: task_moves_def task_states_def split: if_splits)

lemma final_states_stay:
  assumes "moves_to\<^sup>*\<^sup>* a b" and "a \<in> {''done'', ''cancelled''}"
  shows "b = a"
  using assms by (induction rule: rtranclp_induct) (auto simp: moves_to_def task_moves_def)

text \<open>A supersession names an earlier comment of the same project.\<close>

fun supersedes_earlier :: "comment_row list \<Rightarrow> bool" where
  "supersedes_earlier [] \<longleftrightarrow> True"
| "supersedes_earlier (c # cs) \<longleftrightarrow> supersedes_earlier cs \<and>
     (case c_supersedes_comment_id c of None \<Rightarrow> True
      | Some k \<Rightarrow> k = [] \<or> (\<exists>b\<in>set cs. c_comment_id b = k \<and> c_tenant_id b = c_tenant_id c \<and> c_project_id b = c_project_id c))"

definition collaboration_wf :: "db \<Rightarrow> bool" where
  "collaboration_wf s \<longleftrightarrow>
     distinct (map c_comment_id (collaboration_comments s)) \<and>
     distinct (map k_task_id (collaboration_tasks s)) \<and>
     distinct (map n_notification_id (notifications s)) \<and>
     supersedes_earlier (rev (collaboration_comments s)) \<and>
     (\<forall>r\<in>set (collaboration_tasks s). k_state r \<in> set task_states \<and>
        k_priority r \<in> set [''low'', ''normal'', ''high'', ''urgent'']) \<and>
     (\<forall>r\<in>set (notifications s). n_channel r \<in> set [''in_app'', ''email'', ''sms'', ''push''] \<and>
        (n_sensitive r \<and> n_channel r \<noteq> ''in_app'' \<longrightarrow> (\<exists>payload. n_payload_json r = redacted_payload payload)))"

text \<open>How a later state relates to an earlier one.\<close>

definition task_below :: "task_row \<Rightarrow> task_row \<Rightarrow> bool" where
  "task_below a b \<longleftrightarrow> b\<lparr>k_state := k_state a\<rparr> = a \<and> moves_to\<^sup>*\<^sup>* (k_state a) (k_state b)"

definition notification_below :: "notification_row \<Rightarrow> notification_row \<Rightarrow> bool" where
  "notification_below a b \<longleftrightarrow> b\<lparr>n_state := n_state a\<rparr> = a"

definition kept :: "('k \<Rightarrow> 'r option) \<Rightarrow> ('k \<Rightarrow> 'r option) \<Rightarrow> ('r \<Rightarrow> 'r \<Rightarrow> bool) \<Rightarrow> bool" where
  "kept f g R \<longleftrightarrow> (\<forall>k r. f k = Some r \<longrightarrow> (\<exists>r'. g k = Some r' \<and> R r r'))"

definition collaboration_below :: "db \<Rightarrow> db \<Rightarrow> bool" where
  "collaboration_below s t \<longleftrightarrow> prefix (collaboration_comments s) (collaboration_comments t) \<and>
     kept (get_task s) (get_task t) task_below \<and> kept (get_notification s) (get_notification t) notification_below"

lemma kept_refl: "(\<And>r. R r r) \<Longrightarrow> kept f f R"
  by (auto simp: kept_def)

lemma kept_trans: "kept f g R \<Longrightarrow> kept g h R \<Longrightarrow> (\<And>a b c. R a b \<Longrightarrow> R b c \<Longrightarrow> R a c) \<Longrightarrow> kept f h R"
  unfolding kept_def by meson

lemma task_below_refl: "task_below r r"
  by (simp add: task_below_def)

lemma task_below_trans:
  assumes "task_below a b" and "task_below b c"
  shows "task_below a c"
proof -
  have "c\<lparr>k_state := k_state a\<rparr> = (c\<lparr>k_state := k_state b\<rparr>)\<lparr>k_state := k_state a\<rparr>" by simp
  with assms show ?thesis by (auto simp: task_below_def)
qed

lemma notification_below_refl: "notification_below r r"
  by (simp add: notification_below_def)

lemma notification_below_trans:
  assumes "notification_below a b" and "notification_below b c"
  shows "notification_below a c"
proof -
  have "c\<lparr>n_state := n_state a\<rparr> = (c\<lparr>n_state := n_state b\<rparr>)\<lparr>n_state := n_state a\<rparr>" by simp
  with assms show ?thesis by (auto simp: notification_below_def)
qed

lemma collaboration_below_refl: "collaboration_below s s"
  by (simp add: collaboration_below_def kept_refl task_below_refl notification_below_refl)

lemma collaboration_below_trans:
  assumes "collaboration_below s t" and "collaboration_below t u"
  shows "collaboration_below s u"
  using assms unfolding collaboration_below_def
  by (meson kept_trans notification_below_trans prefix_order.trans task_below_trans)

lemma kept_insert: "tget key rows (key r) = None \<Longrightarrow> (\<And>x. R x x) \<Longrightarrow> kept (tget key rows) (tget key (rows @ [r])) R"
  by (auto simp: kept_def tget_append)

lemma kept_tput:
  assumes "tget key rows (key r) = Some old" and "R old r" and "\<And>x. R x x"
  shows "kept (tget key rows) (tget key (tput key r rows)) R"
  unfolding kept_def
proof (intro allI impI)
  fix k x
  assume x: "tget key rows k = Some x"
  show "\<exists>r'. tget key (tput key r rows) k = Some r' \<and> R x r'"
  proof (cases "k = key r")
    case True
    with x assms show ?thesis by (simp add: tget_tput_same)
  next
    case False
    with x assms(3) show ?thesis by (simp add: tget_tput_other)
  qed
qed

section \<open>What each call does\<close>

lemma comment_returns:
  assumes "comment rt E a s = Inr (k, t)"
  shows "k = ids E 0 \<and> t = s\<lparr>collaboration_comments := collaboration_comments s @ [new_comment rt E a]\<rparr> \<and>
    ids E 0 \<notin> tkeys c_comment_id (collaboration_comments s) \<and> comment_scoped a \<and>
    (\<forall>b. ca_supersedes_comment_id a = Some b \<and> b \<noteq> [] \<longrightarrow>
       (\<exists>prior. get_comment s b = Some prior \<and> c_tenant_id prior = ca_tenant_id a \<and> c_project_id prior = ca_project_id a))"
  using assms
  by (auto simp: comment_def result_simps new_comment_def split: if_splits option.splits)

lemma create_task_returns:
  "create_task E a s = Inr (k, t) \<longleftrightarrow> ta_priority a \<in> set [''low'', ''normal'', ''high'', ''urgent''] \<and>
     ids E 0 \<notin> tkeys k_task_id (collaboration_tasks s) \<and> k = ids E 0 \<and>
     t = s\<lparr>collaboration_tasks := collaboration_tasks s @ [new_task E a]\<rparr>"
  by (auto simp: create_task_def result_simps new_task_def)

lemma transition_task_returns:
  "transition_task task_id new_state actor s = Inr (x, t) \<longleftrightarrow> (\<exists>row. get_task s task_id = Some row \<and>
     new_state \<in> set (task_moves (k_state row)) \<and>
     x = JObj [(''task_id'', JStr task_id), (''from'', JStr (k_state row)), (''to'', JStr new_state), (''actor_id'', JStr actor)] \<and>
     t = s\<lparr>collaboration_tasks := tput k_task_id (row\<lparr>k_state := new_state\<rparr>) (collaboration_tasks s)\<rparr>)"
  by (auto simp: transition_task_def split: option.splits)

lemma queue_returns:
  "queue E a s = Inr (k, t) \<longleftrightarrow> na_channel a \<in> set [''in_app'', ''email'', ''sms'', ''push''] \<and>
     ids E 0 \<notin> tkeys n_notification_id (notifications s) \<and> k = ids E 0 \<and>
     t = s\<lparr>notifications := notifications s @ [new_notification E a]\<rparr>"
  by (auto simp: queue_def result_simps new_notification_def)

lemma deliverable_returns:
  assumes "deliverable k quiet urgent s = Inr (x, t)"
  obtains row state where "get_notification s k = Some row"
    and "t = s\<lparr>notifications := tput n_notification_id (row\<lparr>n_state := state\<rparr>) (notifications s)\<rparr>"
    and "x = (if quiet \<and> \<not> urgent then JObj [(''deliver'', JBool False), (''state'', JStr ''deferred_quiet_hours'')]
      else JObj [(''deliver'', JBool True), (''state'', JStr ''ready''), (''channel'', JStr (n_channel row)),
        (''payload'', JObj (n_payload_json row))])"
  using assms by (auto simp: deliverable_def split: option.splits if_splits)

section \<open>The invariant and the progress of one call\<close>

lemma comment_keeps:
  assumes wf: "collaboration_wf s" and ok: "comment rt E a s = Inr (k, t)"
  shows "collaboration_wf t \<and> collaboration_below s t"
proof -
  note r = comment_returns [OF ok]
  have "distinct (map c_comment_id (collaboration_comments s @ [new_comment rt E a]))"
    using wf r by (auto simp: collaboration_wf_def new_comment_def tkeys_def)
  moreover have "supersedes_earlier (rev (collaboration_comments s @ [new_comment rt E a]))"
    using wf r
    by (auto simp: collaboration_wf_def new_comment_def get_comment_def dest!: tget_SomeD split: option.split)
  ultimately have "collaboration_wf t" using wf r by (simp add: collaboration_wf_def)
  moreover have "collaboration_below s t"
    using r by (simp add: collaboration_below_def get_task_def [abs_def] get_notification_def [abs_def]
        kept_refl task_below_refl notification_below_refl)
  ultimately show ?thesis by blast
qed

lemma create_task_keeps:
  assumes wf: "collaboration_wf s" and ok: "create_task E a s = Inr (k, t)"
  shows "collaboration_wf t \<and> collaboration_below s t"
proof -
  have r: "ta_priority a \<in> set [''low'', ''normal'', ''high'', ''urgent'']"
      "ids E 0 \<notin> tkeys k_task_id (collaboration_tasks s)"
      "t = s\<lparr>collaboration_tasks := collaboration_tasks s @ [new_task E a]\<rparr>"
    using ok unfolding create_task_returns by blast+
  have n: "k_task_id (new_task E a) = ids E 0" by (simp add: new_task_def)
  have "kept (get_task s) (get_task t) task_below"
    using r(2) kept_insert [of k_task_id "collaboration_tasks s" "new_task E a" task_below, OF _ task_below_refl]
    by (simp add: r(3) n get_task_def [abs_def] tget_None_iff)
  then have "collaboration_below s t"
    by (simp add: r(3) collaboration_below_def get_notification_def [abs_def] kept_refl notification_below_refl)
  moreover have "collaboration_wf t"
    using wf r(1,2) by (auto simp: r(3) collaboration_wf_def new_task_def tkeys_def task_states_def)
  ultimately show ?thesis by blast
qed

lemma transition_task_keeps:
  assumes wf: "collaboration_wf s" and ok: "transition_task task_id new_state actor s = Inr (x, t)"
  shows "collaboration_wf t \<and> collaboration_below s t"
proof -
  from ok obtain row where row: "get_task s task_id = Some row"
    and m: "new_state \<in> set (task_moves (k_state row))"
    and t: "t = s\<lparr>collaboration_tasks := tput k_task_id (row\<lparr>k_state := new_state\<rparr>) (collaboration_tasks s)\<rparr>"
    unfolding transition_task_returns by blast
  have in_s: "row \<in> set (collaboration_tasks s)" and k: "k_task_id row = task_id"
    using row by (auto simp: get_task_def dest: tget_SomeD)
  have "task_below row (row\<lparr>k_state := new_state\<rparr>)"
    using m by (simp add: task_below_def moves_to_def r_into_rtranclp)
  then have "kept (get_task s) (get_task t) task_below"
    using kept_tput [of k_task_id "collaboration_tasks s" "row\<lparr>k_state := new_state\<rparr>" row task_below] row k
    by (simp add: t get_task_def [abs_def] task_below_refl)
  then have "collaboration_below s t"
    by (simp add: t collaboration_below_def get_notification_def [abs_def] kept_refl notification_below_refl)
  moreover have "k_state r \<in> set task_states \<and> k_priority r \<in> set [''low'', ''normal'', ''high'', ''urgent'']"
    if "r \<in> set (collaboration_tasks t)" for r
  proof -
    from that set_tput_subset [of k_task_id "row\<lparr>k_state := new_state\<rparr>" "collaboration_tasks s"]
    have "r = row\<lparr>k_state := new_state\<rparr> \<or> r \<in> set (collaboration_tasks s)" by (auto simp: t)
    with wf in_s task_moves_states [OF m] show ?thesis unfolding collaboration_wf_def by auto
  qed
  then have "collaboration_wf t" using wf by (simp add: t collaboration_wf_def)
  ultimately show ?thesis by blast
qed

lemma queue_keeps:
  assumes wf: "collaboration_wf s" and ok: "queue E a s = Inr (k, t)"
  shows "collaboration_wf t \<and> collaboration_below s t"
proof -
  have r: "na_channel a \<in> set [''in_app'', ''email'', ''sms'', ''push'']"
      "ids E 0 \<notin> tkeys n_notification_id (notifications s)"
      "t = s\<lparr>notifications := notifications s @ [new_notification E a]\<rparr>"
    using ok unfolding queue_returns by blast+
  have n: "n_notification_id (new_notification E a) = ids E 0" by (simp add: new_notification_def)
  have "kept (get_notification s) (get_notification t) notification_below"
    using r(2) kept_insert [of n_notification_id "notifications s" "new_notification E a" notification_below,
        OF _ notification_below_refl]
    by (simp add: r(3) n get_notification_def [abs_def] tget_None_iff)
  then have "collaboration_below s t"
    by (simp add: r(3) collaboration_below_def get_task_def [abs_def] kept_refl task_below_refl)
  moreover have "collaboration_wf t"
    using wf r(1,2) by (auto simp: r(3) collaboration_wf_def new_notification_def external_payload_def tkeys_def)
  ultimately show ?thesis by blast
qed

lemma deliverable_keeps:
  assumes wf: "collaboration_wf s" and ok: "deliverable k quiet urgent s = Inr (x, t)"
  shows "collaboration_wf t \<and> collaboration_below s t"
proof -
  from ok obtain row state where row: "get_notification s k = Some row"
    and t: "t = s\<lparr>notifications := tput n_notification_id (row\<lparr>n_state := state\<rparr>) (notifications s)\<rparr>"
    by (rule deliverable_returns)
  have in_s: "row \<in> set (notifications s)" and k: "n_notification_id row = k"
    using row by (auto simp: get_notification_def dest: tget_SomeD)
  have "notification_below row (row\<lparr>n_state := state\<rparr>)" by (simp add: notification_below_def)
  then have "kept (get_notification s) (get_notification t) notification_below"
    using kept_tput [of n_notification_id "notifications s" "row\<lparr>n_state := state\<rparr>" row notification_below] row k
    by (simp add: t get_notification_def [abs_def] notification_below_refl)
  then have "collaboration_below s t"
    by (simp add: t collaboration_below_def get_task_def [abs_def] kept_refl task_below_refl)
  moreover have "n_channel r \<in> set [''in_app'', ''email'', ''sms'', ''push''] \<and>
      (n_sensitive r \<and> n_channel r \<noteq> ''in_app'' \<longrightarrow> (\<exists>payload. n_payload_json r = redacted_payload payload))"
    if "r \<in> set (notifications t)" for r
  proof -
    from that set_tput_subset [of n_notification_id "row\<lparr>n_state := state\<rparr>" "notifications s"]
    have "r = row\<lparr>n_state := state\<rparr> \<or> r \<in> set (notifications s)" by (auto simp: t)
    with wf in_s show ?thesis unfolding collaboration_wf_def by auto
  qed
  then have "collaboration_wf t" using wf by (simp add: t collaboration_wf_def)
  ultimately show ?thesis by blast
qed

lemma collaboration_step_keeps:
  "collaboration_wf s \<Longrightarrow> collaboration_step rt s e = Inr t \<Longrightarrow> collaboration_wf t \<and> collaboration_below s t"
  by (cases e) (auto simp: result_simps dest: comment_keeps create_task_keeps transition_task_keeps queue_keeps
      deliverable_keeps)

interpretation collaboration: monotone_component "collaboration_step rt" collaboration_wf collaboration_below
  for rt
  by unfold_locales (auto dest: collaboration_step_keeps intro: collaboration_below_refl collaboration_below_trans)

lemma collaboration_wf_empty: "collaboration_wf empty_db"
  by (simp add: collaboration_wf_def empty_db_def)

section \<open>Properties\<close>

text \<open>
  Over any calls, a comment is never changed or removed, and a task keeps every field but its
  state, which moves along the permitted transitions; a task that is done or cancelled stays as it is.
\<close>

lemma task_history_follows_transitions:
  assumes "collaboration_wf s"
  shows "prefix (collaboration_comments s) (collaboration_comments (run (collaboration_step rt) es s)) \<and>
    (\<forall>k row. get_task s k = Some row \<longrightarrow>
      (\<exists>row'. get_task (run (collaboration_step rt) es s) k = Some row' \<and>
         row'\<lparr>k_state := k_state row\<rparr> = row \<and> moves_to\<^sup>*\<^sup>* (k_state row) (k_state row') \<and>
         (k_state row \<in> {''done'', ''cancelled''} \<longrightarrow> row' = row)))"
proof -
  have b: "collaboration_below s (run (collaboration_step rt) es s)"
    by (rule collaboration.run_below [OF assms])
  have "row' = row" if "task_below row row'" "k_state row \<in> {''done'', ''cancelled''}" for row row'
    using that final_states_stay [of "k_state row" "k_state row'"] by (auto simp: task_below_def)
  with b show ?thesis
    unfolding collaboration_below_def kept_def task_below_def by blast
qed

text \<open>
  Over any calls from an empty database, a delivered notification that is marked sensitive
  and leaves the application carries the fixed message and the resource identifier only.
\<close>

lemma sensitive_notification_is_redacted:
  assumes s: "s = run (collaboration_step rt) es empty_db"
    and d: "deliverable k quiet urgent s = Inr (JObj reply, t)"
    and r: "get_notification s k = Some row" "n_sensitive row" "n_channel row \<noteq> ''in_app''"
  shows "jget reply ''payload'' \<in> {JNull} \<union> range (\<lambda>resource. JObj
     [(''message'', JStr ''A restricted SIP item requires your attention. Sign in to review it.''),
      (''resource_id'', resource), (''contains_sensitive_details'', JBool False)])"
proof -
  have "collaboration_wf s"
    unfolding s by (rule collaboration.run_inv [OF collaboration_wf_empty])
  moreover have "row \<in> set (notifications s)"
    using r(1) by (auto simp: get_notification_def dest: tget_SomeD)
  ultimately obtain payload where "n_payload_json row = redacted_payload payload"
    using r unfolding collaboration_wf_def by blast
  with d r(1) show ?thesis
    by (auto simp: redacted_payload_def jget_def elim!: deliverable_returns split: if_splits)
qed

text \<open>
  The handler that moves a task asks for a grant in the caller's own tenant and then looks the
  task up by its identifier alone: whoever may read scenes of one tenant moves the tasks of every
  tenant.
\<close>

lemma task_move_crosses_tenants:
  assumes p: "allowed (authorize_decision p (api_request ''scene:read'' (p_tenant_id p) None))"
    and row: "get_task s task_id = Some row" "k_tenant_id row \<noteq> p_tenant_id p"
    and m: "new_state \<in> set (task_moves (k_state row))"
  shows "\<exists>reply. api_transition_task rt key E p task_id new_state s =
      (Inr reply, s\<lparr>collaboration_tasks := tput k_task_id (row\<lparr>k_state := new_state\<rparr>) (collaboration_tasks s)\<rparr>)"
  using p m by (simp add: api_transition_task_def guarded_def require_def authorize_def Let_def
      transition_task_def row(1) session_def)

section \<open>Instances\<close>

definition sample_task :: task_args where
  "sample_task = \<lparr>ta_tenant_id = ''other'', ta_project_id = ''p'', ta_title = ''Seal the door'', ta_description = [],
     ta_created_by = ''v'', ta_entity_id = None, ta_assignee_id = None, ta_priority = ''high'', ta_due_at = None\<rparr>"

definition sample_notice :: notification_args where
  "sample_notice = \<lparr>na_tenant_id = ''t'', na_project_id = ''p'', na_recipient_id = ''u'', na_channel = ''email'',
     na_template_id = ''n'', na_payload = [(''resource_id'', JStr ''a1''), (''detail'', JStr ''door code'')],
     na_sensitive = True\<rparr>"

lemma sample_calls:
  "get_task (run (collaboration_step plain_runtime)
      [AddTask sample_env sample_task, MoveTask ''id0'' ''in_progress'' ''u'', MoveTask ''id0'' ''done'' ''u''] empty_db) ''id0''
     = Some ((new_task sample_env sample_task)\<lparr>k_state := ''done''\<rparr>)"
  "get_task (run (collaboration_step plain_runtime) [AddTask sample_env sample_task] empty_db) ''id0''
     = Some (new_task sample_env sample_task)"
  "get_notification (run (collaboration_step plain_runtime) [Queue sample_env sample_notice] empty_db) ''id0''
     = Some (new_notification sample_env sample_notice)"
  by code_simp+

lemma task_history_follows_transitions_witness:
  "get_task (run (collaboration_step plain_runtime) [MoveTask ''id0'' ''open'' ''u'', MoveTask ''id0'' ''cancelled'' ''v'']
      (run (collaboration_step plain_runtime)
      [AddTask sample_env sample_task, MoveTask ''id0'' ''in_progress'' ''u'', MoveTask ''id0'' ''done'' ''u''] empty_db)) ''id0''
     = Some ((new_task sample_env sample_task)\<lparr>k_state := ''done''\<rparr>)"
proof -
  let ?s = "run (collaboration_step plain_runtime)
      [AddTask sample_env sample_task, MoveTask ''id0'' ''in_progress'' ''u'', MoveTask ''id0'' ''done'' ''u''] empty_db"
  have "collaboration_wf ?s" by (rule collaboration.run_inv [OF collaboration_wf_empty])
  moreover have "k_state ((new_task sample_env sample_task)\<lparr>k_state := ''done''\<rparr>) \<in> {''done'', ''cancelled''}" by simp
  ultimately show ?thesis
    using task_history_follows_transitions [of ?s plain_runtime "[MoveTask ''id0'' ''open'' ''u'', MoveTask ''id0'' ''cancelled'' ''v'']"]
      sample_calls(1) by blast
qed

lemma sensitive_notification_is_redacted_witness:
  "\<exists>reply t. deliverable ''id0'' False False
      (run (collaboration_step plain_runtime) [Queue sample_env sample_notice] empty_db) = Inr (JObj reply, t) \<and>
     jget reply ''payload'' \<in> {JNull} \<union> range (\<lambda>resource. JObj
     [(''message'', JStr ''A restricted SIP item requires your attention. Sign in to review it.''),
      (''resource_id'', resource), (''contains_sensitive_details'', JBool False)])"
proof -
  let ?s = "run (collaboration_step plain_runtime) [Queue sample_env sample_notice] empty_db"
  obtain reply t where d: "deliverable ''id0'' False False ?s = Inr (JObj reply, t)"
    using sample_calls(3) by (simp add: deliverable_def)
  have "n_sensitive (new_notification sample_env sample_notice)"
    and "n_channel (new_notification sample_env sample_notice) \<noteq> ''in_app''" by code_simp+
  from sensitive_notification_is_redacted [OF refl d sample_calls(3) this] d show ?thesis by blast
qed

lemma task_move_crosses_tenants_witness:
  "\<exists>reply. api_transition_task plain_runtime ''k'' sample_env sample_principal ''id0'' ''cancelled''
      (run (collaboration_step plain_runtime) [AddTask sample_env sample_task] empty_db)
     = (Inr reply, (run (collaboration_step plain_runtime) [AddTask sample_env sample_task] empty_db)\<lparr>collaboration_tasks :=
         tput k_task_id ((new_task sample_env sample_task)\<lparr>k_state := ''cancelled''\<rparr>)
           (collaboration_tasks (run (collaboration_step plain_runtime) [AddTask sample_env sample_task] empty_db))\<rparr>)"
proof (rule task_move_crosses_tenants [OF _ sample_calls(2)])
  show "allowed (authorize_decision sample_principal (api_request ''scene:read'' (p_tenant_id sample_principal) None))"
    by code_simp
  show "k_tenant_id (new_task sample_env sample_task) \<noteq> p_tenant_id sample_principal" by code_simp
  show "''cancelled'' \<in> set (task_moves (k_state (new_task sample_env sample_task)))" by code_simp
qed

end
