(* ===== verification/Scenes.thy ===== *)
theory Scenes
  imports Events Collaboration
begin

text \<open>
  The version control of \<open>src/sip/scene.py\<close>: scenes, entities, commits with optimistic
  concurrency on the branch head and with workflow-event idempotency, branches, differences and
  rollbacks, and the handlers of \<open>src/sip/api.py\<close> that call them. The theory
  \<open>Scene_History\<close> holds the properties.

  The unique constraints of the tables \<open>scene_commits\<close> and \<open>scene_branches\<close> are part of the
  insertion of their rows. The \<open>str()\<close> of a JSON value that is not a text is the parameter
  \<open>py_str\<close>.
\<close>

definition json_str :: "(json \<Rightarrow> string) \<Rightarrow> json \<Rightarrow> string" where
  "json_str py_str v = (case v of JStr t \<Rightarrow> t | _ \<Rightarrow> py_str v)"

section \<open>Insertion under the unique constraints\<close>

text \<open>\<open>uq_scene_commit_workflow_event\<close>: two rows conflict when tenant, project and a workflow
  event that is not NULL agree.\<close>

definition same_workflow_event :: "scene_commit_row \<Rightarrow> scene_commit_row \<Rightarrow> bool" where
  "same_workflow_event a b \<longleftrightarrow> sc_workflow_event_id a \<noteq> None \<and> sc_workflow_event_id a = sc_workflow_event_id b \<and>
     sc_tenant_id a = sc_tenant_id b \<and> sc_project_id a = sc_project_id b"

definition insert_commit :: "scene_commit_row \<Rightarrow> db \<Rightarrow> sip_error + db" where
  "insert_commit r s =
     (if list_ex (same_workflow_event r) (scene_commits s) then Inl (Uncaught ''IntegrityError'')
      else bindE (insert_row sc_commit_id r (scene_commits s)) (\<lambda>rows. Inr (s\<lparr>scene_commits := rows\<rparr>)))"

definition branch_named :: "string \<Rightarrow> string \<Rightarrow> string \<Rightarrow> string \<Rightarrow> scene_branch_row \<Rightarrow> bool" where
  "branch_named tenant project scene name b \<longleftrightarrow> sb_tenant_id b = tenant \<and> sb_project_id b = project \<and>
     sb_scene_id b = scene \<and> sb_name b = name"

definition insert_branch :: "scene_branch_row \<Rightarrow> db \<Rightarrow> sip_error + db" where
  "insert_branch r s =
     (if list_ex (branch_named (sb_tenant_id r) (sb_project_id r) (sb_scene_id r) (sb_name r)) (scene_branches s)
      then Inl (Uncaught ''IntegrityError'')
      else bindE (insert_row sb_branch_id r (scene_branches s)) (\<lambda>rows. Inr (s\<lparr>scene_branches := rows\<rparr>)))"

definition get_commit :: "db \<Rightarrow> string \<Rightarrow> scene_commit_row option" where
  "get_commit s k = tget sc_commit_id (scene_commits s) k"

definition get_entity :: "db \<Rightarrow> string \<Rightarrow> scene_entity_row option" where
  "get_entity s k = tget se_entity_id (scene_entities s) k"

definition get_frame :: "db \<Rightarrow> string \<Rightarrow> coordinate_frame_row option" where
  "get_frame s k = tget cf_frame_id (coordinate_frames s) k"

definition get_evidence :: "db \<Rightarrow> string \<Rightarrow> evidence_record_row option" where
  "get_evidence s k = tget er_evidence_id (evidence_records s) k"

definition find_branch :: "string \<Rightarrow> string \<Rightarrow> string \<Rightarrow> string \<Rightarrow> db \<Rightarrow> scene_branch_row option" where
  "find_branch tenant project scene name s = find (branch_named tenant project scene name) (scene_branches s)"

text \<open>\<open>branch_row.head_commit_id = commit_id\<close>.\<close>

definition set_head :: "scene_branch_row \<Rightarrow> string \<Rightarrow> db \<Rightarrow> db" where
  "set_head b commit_id s =
     s\<lparr>scene_branches := tput sb_branch_id (b\<lparr>sb_head_commit_id := commit_id\<rparr>) (scene_branches s)\<rparr>"

section \<open>Scenes\<close>

definition initial_snapshot :: "string \<Rightarrow> string \<Rightarrow> fields" where
  "initial_snapshot scene_id name = [(''scene_id'', JStr scene_id), (''name'', JStr name), (''entities'', JArr []),
     (''representations'', JArr []), (''schema_version'', JStr ''1.0.0'')]"

definition initial_commit ::
  "runtime \<Rightarrow> env \<Rightarrow> string \<Rightarrow> string \<Rightarrow> string \<Rightarrow> string \<Rightarrow> scene_commit_row" where
  "initial_commit rt E tenant project name actor =
     (let initial = initial_snapshot (ids E 0) name; snapshot_hash = canonical_sha256 rt (JObj initial) in
      \<lparr>sc_commit_id = ids E 1, sc_tenant_id = tenant, sc_project_id = project, sc_scene_id = ids E 0,
       sc_branch = ''main'', sc_parent_ids_json = [], sc_message = ''Initialize scene'',
       sc_semantic_snapshot_json = initial, sc_snapshot_hash = snapshot_hash, sc_root_manifest_hash = snapshot_hash,
       sc_field_visit_id = None, sc_workflow_event_id = None, sc_change_evidence_ids_json = [],
       sc_policy_checks_json = [(''initialization'', JStr ''passed'')], sc_signatures_json = [],
       sc_review_state = ''system_initialized'', sc_valid_from = None, sc_valid_to = None, sc_recorded_at = clk E 0,
       sc_created_by = actor, sc_created_at = clk E 1, sc_supersedes_commit_id = None\<rparr>)"

definition main_branch :: "env \<Rightarrow> string \<Rightarrow> string \<Rightarrow> scene_branch_row" where
  "main_branch E tenant project = \<lparr>sb_branch_id = ids E 2, sb_tenant_id = tenant, sb_project_id = project,
     sb_scene_id = ids E 0, sb_name = ''main'', sb_head_commit_id = ids E 1, sb_protected = True\<rparr>"

definition scene_event ::
  "string \<Rightarrow> string \<Rightarrow> string \<Rightarrow> fields \<Rightarrow> string \<Rightarrow> string option \<Rightarrow> event_spec" where
  "scene_event tenant project commit_id payload actor causation =
     \<lparr>es_event_type = ''scene.committed'', es_schema_version = ''1.0.0'', es_tenant_id = tenant,
      es_project_id = Some project, es_aggregate_type = ''scene_commit'', es_aggregate_id = commit_id,
      es_payload = payload, es_producer = ''scene-service'', es_actor_id = Some actor, es_workload_identity = None,
      es_traceparent = None, es_correlation_id = None, es_causation_id = causation\<rparr>"

definition create_scene ::
  "runtime \<Rightarrow> string \<Rightarrow> event_catalog \<Rightarrow> env \<Rightarrow> string \<Rightarrow> string \<Rightarrow> string \<Rightarrow> string \<Rightarrow> db \<Rightarrow> sip_error + json \<times> db" where
  "create_scene rt key c E tenant project name actor s =
     (case get_project s project of
        None \<Rightarrow> Inl (NotFoundError ''project'' project)
      | Some pr \<Rightarrow>
          if pr_tenant_id pr \<noteq> tenant \<or> pr_status pr \<noteq> ''active'' then Inl (NotFoundError ''project'' project)
          else let row = initial_commit rt E tenant project name actor in
            bindE (insert_commit row s) (\<lambda>s1.
            bindE (insert_branch (main_branch E tenant project) s1) (\<lambda>s2.
            bindE (emit_event rt c (ids E 3) (clk E 2)
              (scene_event tenant project (ids E 1)
                 [(''scene_id'', JStr (ids E 0)), (''branch'', JStr ''main''),
                  (''snapshot_hash'', JStr (sc_snapshot_hash row)), (''parent_count'', JInt 0)] actor None) s2) (\<lambda>s3.
            bindE (append_audit rt key (ids E 4) (clk E 3)
              (audit_entry tenant (Some project) actor ''scene:create'' ''scene'' (ids E 0) ''allowed''
                 [(''commit_id'', JStr (ids E 1))]) s3) (\<lambda>s4.
            Inr (JObj [(''scene_id'', JStr (ids E 0)), (''commit_id'', JStr (ids E 1)), (''branch'', JStr ''main'')], s4))))))"

section \<open>Entities\<close>

record entity_args =
  ea_tenant_id :: string
  ea_project_id :: string
  ea_scene_id :: string
  ea_entity_type :: string
  ea_name :: string
  ea_attributes :: fields
  ea_source_class :: source_class
  ea_authority_class :: authority_class
  ea_confidence :: rat
  ea_provenance :: fields
  ea_policy :: fields
  ea_stable_support :: fields
  ea_actor_id :: string
  ea_entity_id :: "string option"

definition unstable_identifiers :: "string list" where
  "unstable_identifiers = [''triangle_id'', ''gaussian_id'', ''voxel_id'', ''tile_id'', ''lod_element_id'']"

text \<open>The coordinate frame, when one is named, is a current one of the project.\<close>

definition check_frame :: "string \<Rightarrow> string \<Rightarrow> string \<Rightarrow> db \<Rightarrow> sip_error + unit" where
  "check_frame tenant project frame_id s =
     (case get_frame s frame_id of
        None \<Rightarrow> Inl (NotFoundError ''coordinate_frame'' frame_id)
      | Some fr \<Rightarrow>
          if cf_tenant_id fr \<noteq> tenant \<or> cf_project_id fr \<noteq> project \<or> cf_deprecated_at fr \<noteq> None
          then Inl (NotFoundError ''coordinate_frame'' frame_id) else Inr ())"

definition new_entity :: "string \<Rightarrow> time \<Rightarrow> entity_args \<Rightarrow> scene_entity_row" where
  "new_entity identifier now a = \<lparr>se_entity_id = identifier, se_tenant_id = ea_tenant_id a,
     se_project_id = ea_project_id a, se_scene_id = ea_scene_id a, se_entity_type = ea_entity_type a, se_name = ea_name a,
     se_attributes_json = ea_attributes a, se_source_class = source_class_value (ea_source_class a),
     se_authority_class = authority_class_value (ea_authority_class a), se_confidence = ea_confidence a,
     se_provenance_json = ea_provenance a, se_policy_json = ea_policy a, se_stable_support_json = ea_stable_support a,
     se_created_at = now, se_superseded_at = None\<rparr>"

definition scene_exists :: "string \<Rightarrow> string \<Rightarrow> string \<Rightarrow> db \<Rightarrow> bool" where
  "scene_exists tenant project scene s =
     list_ex (\<lambda>r. sc_tenant_id r = tenant \<and> sc_project_id r = project \<and> sc_scene_id r = scene) (scene_commits s)"

definition create_entity ::
  "runtime \<Rightarrow> string \<Rightarrow> (json \<Rightarrow> string) \<Rightarrow> env \<Rightarrow> entity_args \<Rightarrow> db \<Rightarrow> sip_error + string \<times> db" where
  "create_entity rt key py_str E a s =
     (let identifier = str_or (ea_entity_id a) (ids E 0); frame_id = jget (ea_stable_support a) ''frame_id'' in
      if \<not> (0 \<le> ea_confidence a \<and> ea_confidence a \<le> 1) then Inl (ValidationError ''CONFIDENCE_INVALID'' [])
      else if list_ex (\<lambda>k. k \<in> fst ` set (ea_stable_support a)) unstable_identifiers
      then Inl (ValidationError ''UNSTABLE_SUPPORT_IDENTIFIER'' [])
      else if \<not> scene_exists (ea_tenant_id a) (ea_project_id a) (ea_scene_id a) s
      then Inl (NotFoundError ''scene'' (ea_scene_id a))
      else bindE (if truthy frame_id then check_frame (ea_tenant_id a) (ea_project_id a) (json_str py_str frame_id) s else Inr ()) (\<lambda>_.
        if get_entity s identifier \<noteq> None then Inl (ConflictError ''ENTITY_EXISTS'' [])
        else bindE (insert_row se_entity_id (new_entity identifier (clk E 0) a) (scene_entities s)) (\<lambda>rows.
        bindE (append_audit rt key (ids E 1) (clk E 1)
          (audit_entry (ea_tenant_id a) (Some (ea_project_id a)) (ea_actor_id a) ''scene_entity:create'' ''scene_entity''
             identifier ''allowed'' [(''scene_id'', JStr (ea_scene_id a)), (''entity_type'', JStr (ea_entity_type a)),
               (''source_class'', JStr (source_class_value (ea_source_class a)))]) (s\<lparr>scene_entities := rows\<rparr>)) (\<lambda>s1.
        Inr (identifier, s1)))))"

section \<open>Commits\<close>

record commit_args =
  co_tenant_id :: string
  co_project_id :: string
  co_scene_id :: string
  co_branch :: string
  co_expected_head :: string
  co_message :: string
  co_actor_id :: string
  co_field_visit_id :: "string option"
  co_workflow_event_id :: "string option"
  co_change_evidence_ids :: "string list"
  co_policy_checks :: fields
  co_signatures :: "fields list"
  co_review_state :: string
  co_valid_from :: "time option"
  co_valid_to :: "time option"

record commit_result =
  cm_commit_id :: string
  cm_snapshot_hash :: string
  cm_root_manifest_hash :: string
  cm_parent_ids :: "string list"
  cm_branch :: string
  cm_field_visit_id :: "string option"
  cm_workflow_event_id :: "string option"
  cm_change_evidence_ids :: "string list"
  cm_review_state :: string
  cm_valid_from :: "time option"
  cm_valid_to :: "time option"
  cm_recorded_at :: time
  cm_idempotent_replay :: bool

definition commit_result_of :: "scene_commit_row \<Rightarrow> bool \<Rightarrow> commit_result" where
  "commit_result_of r replay = \<lparr>cm_commit_id = sc_commit_id r, cm_snapshot_hash = sc_snapshot_hash r,
     cm_root_manifest_hash = sc_root_manifest_hash r, cm_parent_ids = sc_parent_ids_json r, cm_branch = sc_branch r,
     cm_field_visit_id = sc_field_visit_id r, cm_workflow_event_id = sc_workflow_event_id r,
     cm_change_evidence_ids = sc_change_evidence_ids_json r, cm_review_state = sc_review_state r,
     cm_valid_from = sc_valid_from r, cm_valid_to = sc_valid_to r, cm_recorded_at = sc_recorded_at r,
     cm_idempotent_replay = replay\<rparr>"

definition live_entities :: "string \<Rightarrow> string \<Rightarrow> string \<Rightarrow> db \<Rightarrow> scene_entity_row list" where
  "live_entities tenant project scene s = filter (\<lambda>r. se_tenant_id r = tenant \<and> se_project_id r = project \<and>
     se_scene_id r = scene \<and> se_superseded_at r = None) (scene_entities s)"

definition live_bindings :: "string \<Rightarrow> string \<Rightarrow> string \<Rightarrow> db \<Rightarrow> representation_binding_row list" where
  "live_bindings tenant project scene s = filter (\<lambda>r. bi_tenant_id r = tenant \<and> bi_project_id r = project \<and>
     bi_scene_id r = scene \<and> bi_superseded_at r = None) (representation_bindings s)"

definition entity_fields :: "scene_entity_row \<Rightarrow> json" where
  "entity_fields r = JObj [(''entity_id'', JStr (se_entity_id r)), (''entity_type'', JStr (se_entity_type r)),
     (''name'', JStr (se_name r)), (''attributes'', JObj (se_attributes_json r)),
     (''source_class'', JStr (se_source_class r)), (''authority_class'', JStr (se_authority_class r)),
     (''confidence'', JFloat (se_confidence r)), (''provenance'', JObj (se_provenance_json r)),
     (''policy'', JObj (se_policy_json r)), (''stable_support'', JObj (se_stable_support_json r))]"

definition binding_fields :: "representation_binding_row \<Rightarrow> json" where
  "binding_fields r = JObj [(''binding_id'', JStr (bi_binding_id r)), (''representation_id'', JStr (bi_representation_id r)),
     (''role'', JStr (bi_role r)), (''coordinate_frame_id'', JStr (bi_coordinate_frame_id r)),
     (''transform'', JArr (map (\<lambda>row. JArr (map JFloat row)) (bi_transform_json r))),
     (''authority_class'', JStr (bi_authority_class r)), (''authority_ceiling'', JStr (bi_authority_ceiling r)),
     (''intended_uses'', JArr (map JStr (bi_intended_uses_json r))), (''audience_policy'', JObj (bi_audience_policy_json r))]"

definition scene_snapshot :: "string \<Rightarrow> string \<Rightarrow> string \<Rightarrow> db \<Rightarrow> fields" where
  "scene_snapshot tenant project scene s = [(''schema_version'', JStr ''1.0.0''), (''scene_id'', JStr scene),
     (''entities'', JArr (map entity_fields (sort_key se_entity_id (live_entities tenant project scene s)))),
     (''representations'', JArr (map binding_fields (sort_key bi_binding_id (live_bindings tenant project scene s))))]"

text \<open>\<open>sorted(set(change_evidence_ids or []))\<close>; each must be evidence of the project.\<close>

definition check_evidence :: "string \<Rightarrow> string \<Rightarrow> db \<Rightarrow> string \<Rightarrow> sip_error + unit" where
  "check_evidence tenant project s evidence_id =
     (case get_evidence s evidence_id of
        None \<Rightarrow> Inl (NotFoundError ''evidence'' evidence_id)
      | Some r \<Rightarrow> if er_tenant_id r \<noteq> tenant \<or> er_project_id r \<noteq> project
                  then Inl (NotFoundError ''evidence'' evidence_id) else Inr ())"

definition bound_commit :: "commit_args \<Rightarrow> db \<Rightarrow> scene_commit_row option" where
  "bound_commit a s =
     (if truthy_str (co_workflow_event_id a)
      then find (\<lambda>r. sc_tenant_id r = co_tenant_id a \<and> sc_project_id r = co_project_id a \<and>
             sc_workflow_event_id r = co_workflow_event_id a) (scene_commits s)
      else None)"

definition new_commit :: "runtime \<Rightarrow> env \<Rightarrow> commit_args \<Rightarrow> db \<Rightarrow> scene_commit_row" where
  "new_commit rt E a s =
     (let snapshot = scene_snapshot (co_tenant_id a) (co_project_id a) (co_scene_id a) s;
          snapshot_hash = canonical_sha256 rt (JObj snapshot) in
      \<lparr>sc_commit_id = ids E 0, sc_tenant_id = co_tenant_id a, sc_project_id = co_project_id a,
       sc_scene_id = co_scene_id a, sc_branch = co_branch a, sc_parent_ids_json = [co_expected_head a],
       sc_message = co_message a, sc_semantic_snapshot_json = snapshot, sc_snapshot_hash = snapshot_hash,
       sc_root_manifest_hash = snapshot_hash, sc_field_visit_id = co_field_visit_id a,
       sc_workflow_event_id = co_workflow_event_id a,
       sc_change_evidence_ids_json = sorted_set (co_change_evidence_ids a),
       sc_policy_checks_json = co_policy_checks a, sc_signatures_json = co_signatures a,
       sc_review_state = co_review_state a, sc_valid_from = co_valid_from a, sc_valid_to = co_valid_to a,
       sc_recorded_at = clk E 0, sc_created_by = co_actor_id a, sc_created_at = clk E 1,
       sc_supersedes_commit_id = None\<rparr>)"

definition commit_event :: "commit_args \<Rightarrow> scene_commit_row \<Rightarrow> event_spec" where
  "commit_event a row = scene_event (co_tenant_id a) (co_project_id a) (sc_commit_id row)
     [(''scene_id'', JStr (co_scene_id a)), (''branch'', JStr (co_branch a)),
      (''snapshot_hash'', JStr (sc_snapshot_hash row)), (''parent_count'', JInt 1),
      (''review_state'', JStr (co_review_state a)),
      (''change_evidence_count'', JInt (int (length (sorted_set (co_change_evidence_ids a)))))]
     (co_actor_id a) (co_workflow_event_id a)"

definition commit_in_session ::
  "runtime \<Rightarrow> string \<Rightarrow> event_catalog \<Rightarrow> env \<Rightarrow> commit_args \<Rightarrow> db \<Rightarrow> sip_error + commit_result \<times> db" where
  "commit_in_session rt key c E a s =
     (if (case (co_valid_from a, co_valid_to a) of (Some f, Some t) \<Rightarrow> t \<le> f | _ \<Rightarrow> False)
      then Inl (ValidationError ''SCENE_VALID_TIME_INVALID'' [])
      else case bound_commit a s of
        Some existing \<Rightarrow>
          if sc_scene_id existing \<noteq> co_scene_id a \<or> sc_branch existing \<noteq> co_branch a
             \<or> sc_review_state existing \<noteq> co_review_state a
          then Inl (ConflictError ''SCENE_WORKFLOW_EVENT_REBOUND'' [])
          else Inr (commit_result_of existing True, s)
      | None \<Rightarrow>
          bindE (foldE (\<lambda>k _. check_evidence (co_tenant_id a) (co_project_id a) s k)
                   (sorted_set (co_change_evidence_ids a)) ()) (\<lambda>_.
          case find_branch (co_tenant_id a) (co_project_id a) (co_scene_id a) (co_branch a) s of
            None \<Rightarrow> Inl (NotFoundError ''scene_branch'' (co_branch a))
          | Some b \<Rightarrow>
              if sb_head_commit_id b \<noteq> co_expected_head a
              then Inl (ConflictError ''SCENE_HEAD_CHANGED''
                     [(''expected'', JStr (co_expected_head a)), (''actual'', JStr (sb_head_commit_id b))])
              else let row = new_commit rt E a s in
                bindE (insert_commit row s) (\<lambda>s1.
                bindE (emit_event rt c (ids E 1) (clk E 2) (commit_event a row) (set_head b (ids E 0) s1)) (\<lambda>s2.
                bindE (append_audit rt key (ids E 2) (clk E 3)
                  (audit_entry (co_tenant_id a) (Some (co_project_id a)) (co_actor_id a) ''scene:commit'' ''scene_commit''
                     (ids E 0) ''allowed'' [(''scene_id'', JStr (co_scene_id a)), (''branch'', JStr (co_branch a)),
                       (''parent'', JStr (co_expected_head a)), (''snapshot_hash'', JStr (sc_snapshot_hash row))]) s2) (\<lambda>s3.
                Inr (commit_result_of row False, s3))))))"

text \<open>\<open>commit\<close> is the same in a session of its own.\<close>

definition commit ::
  "runtime \<Rightarrow> string \<Rightarrow> event_catalog \<Rightarrow> env \<Rightarrow> commit_args \<Rightarrow> db \<Rightarrow> (sip_error + commit_result) \<times> db" where
  "commit rt key c E a s = session (commit_in_session rt key c E a) s"

section \<open>Branches\<close>

definition new_branch :: "env \<Rightarrow> string \<Rightarrow> string \<Rightarrow> string \<Rightarrow> string \<Rightarrow> string \<Rightarrow> bool \<Rightarrow> scene_branch_row" where
  "new_branch E tenant project scene name from_commit protected = \<lparr>sb_branch_id = ids E 0, sb_tenant_id = tenant,
     sb_project_id = project, sb_scene_id = scene, sb_name = name, sb_head_commit_id = from_commit, sb_protected = protected\<rparr>"

definition create_branch ::
  "env \<Rightarrow> string \<Rightarrow> string \<Rightarrow> string \<Rightarrow> string \<Rightarrow> string \<Rightarrow> bool \<Rightarrow> db \<Rightarrow> sip_error + string \<times> db" where
  "create_branch E tenant project scene name from_commit protected s =
     (case get_commit s from_commit of
        None \<Rightarrow> Inl (NotFoundError ''scene_commit'' from_commit)
      | Some r \<Rightarrow>
          if sc_tenant_id r \<noteq> tenant \<or> sc_project_id r \<noteq> project \<or> sc_scene_id r \<noteq> scene
          then Inl (NotFoundError ''scene_commit'' from_commit)
          else if find_branch tenant project scene name s \<noteq> None then Inl (ConflictError ''BRANCH_EXISTS'' [])
          else bindE (insert_branch (new_branch E tenant project scene name from_commit protected) s) (\<lambda>s1.
            Inr (ids E 0, s1)))"

section \<open>Rollback\<close>

definition rollback_commit ::
  "env \<Rightarrow> string \<Rightarrow> string \<Rightarrow> string \<Rightarrow> string \<Rightarrow> string \<Rightarrow> scene_commit_row \<Rightarrow> string \<Rightarrow> scene_commit_row" where
  "rollback_commit E tenant project scene branch previous target actor =
     \<lparr>sc_commit_id = ids E 0, sc_tenant_id = tenant, sc_project_id = project, sc_scene_id = scene, sc_branch = branch,
      sc_parent_ids_json = [previous], sc_message = ''Rollback semantic state to '' @ sc_commit_id target,
      sc_semantic_snapshot_json = sc_semantic_snapshot_json target, sc_snapshot_hash = sc_snapshot_hash target,
      sc_root_manifest_hash = (if sc_root_manifest_hash target = [] then sc_snapshot_hash target else sc_root_manifest_hash target),
      sc_field_visit_id = sc_field_visit_id target, sc_workflow_event_id = sc_workflow_event_id target,
      sc_change_evidence_ids_json = sc_change_evidence_ids_json target,
      sc_policy_checks_json = jset ''rollback'' (JStr ''passed'') (sc_policy_checks_json target),
      sc_signatures_json = [], sc_review_state = ''rollback'', sc_valid_from = sc_valid_from target,
      sc_valid_to = sc_valid_to target, sc_recorded_at = clk E 0, sc_created_by = actor, sc_created_at = clk E 1,
      sc_supersedes_commit_id = Some previous\<rparr>"

definition rollback_branch ::
  "env \<Rightarrow> string \<Rightarrow> string \<Rightarrow> string \<Rightarrow> string \<Rightarrow> string \<Rightarrow> string \<Rightarrow> db \<Rightarrow> sip_error + json \<times> db" where
  "rollback_branch E tenant project scene branch target_id actor s =
     (case (get_commit s target_id, find_branch tenant project scene branch s) of
        (Some target, Some b) \<Rightarrow>
          if sc_scene_id target \<noteq> scene then Inl (NotFoundError ''scene_commit'' target_id)
          else let previous = sb_head_commit_id b in
            bindE (insert_commit (rollback_commit E tenant project scene branch previous target actor) s) (\<lambda>s1.
            Inr (JObj [(''commit_id'', JStr (ids E 0)), (''restored_from'', JStr target_id), (''superseded'', JStr previous),
                   (''snapshot_hash'', JStr (sc_snapshot_hash target))], set_head b (ids E 0) s1))
      | _ \<Rightarrow> Inl (NotFoundError ''scene_commit'' target_id))"

section \<open>Differences\<close>

text \<open>Python's \<open>==\<close> on JSON values: numbers by value (booleans are 0 and 1), objects whatever the
  order of their items.\<close>

fun number_of :: "json \<Rightarrow> rat option" where
  "number_of (JBool b) = Some (if b then 1 else 0)"
| "number_of (JInt i) = Some (of_int i)"
| "number_of (JFloat q) = Some q"
| "number_of v = None"

fun py_eq :: "json \<Rightarrow> json \<Rightarrow> bool" and py_eq_list :: "json list \<Rightarrow> json list \<Rightarrow> bool"
  and py_eq_fields :: "fields \<Rightarrow> fields \<Rightarrow> bool" where
  "py_eq (JArr vs) w = (case w of JArr ws \<Rightarrow> py_eq_list vs ws | _ \<Rightarrow> False)"
| "py_eq (JObj kvs) w = (case w of JObj kws \<Rightarrow> length kvs = length kws \<and> py_eq_fields kvs kws | _ \<Rightarrow> False)"
| "py_eq (JStr t) w = (w = JStr t)"
| "py_eq JNull w = (w = JNull)"
| "py_eq (JBool b) w = (number_of w = Some (if b then 1 else 0))"
| "py_eq (JInt i) w = (number_of w = Some (of_int i))"
| "py_eq (JFloat q) w = (number_of w = Some q)"
| "py_eq_list [] ws = (ws = [])"
| "py_eq_list (v # vs) ws = (case ws of [] \<Rightarrow> False | w # ws' \<Rightarrow> py_eq v w \<and> py_eq_list vs ws')"
| "py_eq_fields [] kws = True"
| "py_eq_fields ((k, v) # kvs) kws =
     ((case map_of kws k of None \<Rightarrow> False | Some w \<Rightarrow> py_eq v w) \<and> py_eq_fields kvs kws)"

text \<open>The dict \<open>{item["entity_id"]: item for item in snapshot.get("entities", [])}\<close>. A later item
  replaces an earlier one with the same key.\<close>

definition entity_key :: "json \<Rightarrow> sip_error + string" where
  "entity_key item = (case item of
     JObj kvs \<Rightarrow> (case map_of kvs ''entity_id'' of
         Some (JStr k) \<Rightarrow> Inr k | Some _ \<Rightarrow> Inl (Uncaught ''TypeError'') | None \<Rightarrow> Inl (Uncaught ''KeyError''))
   | _ \<Rightarrow> Inl (Uncaught ''TypeError''))"

definition entity_index :: "fields \<Rightarrow> sip_error + fields" where
  "entity_index snapshot =
     (case map_of snapshot ''entities'' of
        None \<Rightarrow> Inr []
      | Some (JArr items) \<Rightarrow> foldE (\<lambda>item d. bindE (entity_key item) (\<lambda>k. Inr (jset k item d))) items []
      | Some _ \<Rightarrow> Inl (Uncaught ''TypeError''))"

definition diff_report :: "string \<Rightarrow> string \<Rightarrow> fields \<Rightarrow> fields \<Rightarrow> bool \<Rightarrow> json" where
  "diff_report left_id right_id ls rs representation_changed =
     (let names = (\<lambda>p. JArr (map JStr (sorted_set (filter p (map fst ls @ map fst rs))))) in
      JObj [(''left'', JStr left_id), (''right'', JStr right_id),
        (''entities'', JObj
          [(''added'', names (\<lambda>k. k \<in> fst ` set rs \<and> k \<notin> fst ` set ls)),
           (''removed'', names (\<lambda>k. k \<in> fst ` set ls \<and> k \<notin> fst ` set rs)),
           (''modified'', names (\<lambda>k. k \<in> fst ` set ls \<and> k \<in> fst ` set rs \<and> \<not> py_eq (jget ls k) (jget rs k)))]),
        (''representation_changed'', JBool representation_changed)])"

definition scene_diff :: "string \<Rightarrow> string \<Rightarrow> db \<Rightarrow> sip_error + json \<times> db" where
  "scene_diff left_id right_id s =
     (case (get_commit s left_id, get_commit s right_id) of
        (Some l, Some r) \<Rightarrow>
          if sc_tenant_id l \<noteq> sc_tenant_id r \<or> sc_project_id l \<noteq> sc_project_id r \<or> sc_scene_id l \<noteq> sc_scene_id r
          then Inl (ValidationError ''SCENE_DIFF_SCOPE_MISMATCH'' [])
          else bindE (entity_index (sc_semantic_snapshot_json l)) (\<lambda>ls.
            bindE (entity_index (sc_semantic_snapshot_json r)) (\<lambda>rs.
            Inr (diff_report left_id right_id ls rs
              (\<not> py_eq (jget (sc_semantic_snapshot_json l) ''representations'')
                       (jget (sc_semantic_snapshot_json r) ''representations'')), s)))
      | _ \<Rightarrow> Inl (ValidationError ''SCENE_DIFF_SCOPE_MISMATCH'' []))"

section \<open>Handlers\<close>

definition api_diff_scene ::
  "runtime \<Rightarrow> string \<Rightarrow> env \<Rightarrow> principal \<Rightarrow> string \<Rightarrow> string \<Rightarrow> db \<Rightarrow> (sip_error + json) \<times> db" where
  "api_diff_scene rt key E p left_id right_id s =
     guarded rt key E p (api_request ''scene:read'' (p_tenant_id p) None) (scene_diff left_id right_id) s"

definition api_create_entity ::
  "runtime \<Rightarrow> string \<Rightarrow> (json \<Rightarrow> string) \<Rightarrow> env \<Rightarrow> env \<Rightarrow> principal \<Rightarrow> string \<Rightarrow> string \<Rightarrow> entity_args \<Rightarrow> db
     \<Rightarrow> (sip_error + json) \<times> db" where
  "api_create_entity rt key py_str E F p project scene a s =
     guarded rt key E p (api_request ''scene:commit'' (p_tenant_id p) (Some project))
       (id_response ''entity_id'' (create_entity rt key py_str F (a\<lparr>ea_tenant_id := p_tenant_id p, ea_project_id := project,
          ea_scene_id := scene, ea_actor_id := subject_id p\<rparr>))) s"

definition api_commit_scene ::
  "runtime \<Rightarrow> string \<Rightarrow> event_catalog \<Rightarrow> env \<Rightarrow> env \<Rightarrow> principal \<Rightarrow> string \<Rightarrow> string \<Rightarrow> commit_args \<Rightarrow> db
     \<Rightarrow> (sip_error + commit_result) \<times> db" where
  "api_commit_scene rt key c E F p project scene a s =
     guarded rt key E p (api_request ''scene:commit'' (p_tenant_id p) (Some project))
       (commit_in_session rt key c F (a\<lparr>co_tenant_id := p_tenant_id p, co_project_id := project,
          co_scene_id := scene, co_actor_id := subject_id p\<rparr>)) s"

definition api_create_branch ::
  "runtime \<Rightarrow> string \<Rightarrow> env \<Rightarrow> env \<Rightarrow> principal \<Rightarrow> string \<Rightarrow> string \<Rightarrow> string \<Rightarrow> string \<Rightarrow> bool \<Rightarrow> db
     \<Rightarrow> (sip_error + json) \<times> db" where
  "api_create_branch rt key E F p project scene name from_commit protected s =
     guarded rt key E p (api_request ''scene:commit'' (p_tenant_id p) (Some project))
       (id_response ''branch_id'' (create_branch F (p_tenant_id p) project scene name from_commit protected)) s"

definition api_rollback ::
  "runtime \<Rightarrow> string \<Rightarrow> env \<Rightarrow> env \<Rightarrow> principal \<Rightarrow> string \<Rightarrow> string \<Rightarrow> string \<Rightarrow> string \<Rightarrow> db
     \<Rightarrow> (sip_error + json) \<times> db" where
  "api_rollback rt key E F p project scene branch target_id s =
     guarded rt key E p (api_request ''scene:commit'' (p_tenant_id p) (Some project))
       (rollback_branch F (p_tenant_id p) project scene branch target_id (subject_id p)) s"

end
