(* ===== verification/Measurements.thy ===== *)
theory Measurements
  imports Scenes
begin

text \<open>
  Measurements of \<open>src/sip/scene.py\<close>: \<open>create_measurement\<close>, \<open>get_measurement\<close> and the resolution of
  proxy hits, the \<open>MeasurementContract\<close> of \<open>src/sip/contracts.py\<close> and the handlers of
  \<open>src/sip/api.py\<close>. The theory \<open>Measurement_Evidence\<close> holds the properties.

  Arguments of type \<open>float\<close> that the sources test with \<open>math.isfinite\<close> are the \<open>py_float\<close> of theory
  \<open>Floats\<close>, with the infinities and NaN; everywhere else in this theory a float is a rational. The built-in \<open>str\<close>, \<open>float\<close> on a text
  and \<open>dict\<close> on a list, the binding of an identifier that is not a text by the database driver, and
  pydantic's \<open>model_dump\<close> are parameters, the record \<open>builtins\<close>.
\<close>

section \<open>Contracts and conversions\<close>

record measurement_contract =
  mt_measurement_id :: string
  mt_scene_id :: string
  mt_entity_id :: "string option"
  mt_measurement_type :: string
  mt_geometry :: fields
  mt_value :: rat
  mt_unit :: string
  mt_uncertainty :: rat
  mt_source_method :: string
  mt_measured_at :: time
  mt_coordinate_frame_id :: string
  mt_source_commit_id :: string
  mt_permitted_uses :: "string list"
  mt_source_asset_ids :: "string list"
  mt_calibration :: fields
  mt_creator_id :: string
  mt_verifier_id :: "string option"
  mt_verification_date :: "time option"
  mt_verification_status :: string
  mt_authority_class :: authority_class
  mt_originating_representation_id :: "string option"
  mt_interaction_hit :: "fields option"
  mt_resolved_metric_evidence :: "fields option"
  mt_supersedes_measurement_id :: "string option"

record builtins =
  bt_str :: "json \<Rightarrow> string"
  bt_float_of_text :: "string \<Rightarrow> py_float option"
  bt_dict_of_list :: "json list \<Rightarrow> fields option"
  bt_bind_key :: "json \<Rightarrow> sip_error + string"
  bt_model_dump :: "measurement_contract \<Rightarrow> json"

text \<open>\<open>float(value)\<close>: a text that is not a number is a \<open>ValueError\<close>, other values a \<open>TypeError\<close>.\<close>

definition to_float :: "builtins \<Rightarrow> json \<Rightarrow> sip_error + py_float" where
  "to_float B v = (case v of
     JStr t \<Rightarrow> (case bt_float_of_text B t of Some x \<Rightarrow> Inr x | None \<Rightarrow> Inl (Uncaught ''ValueError''))
   | _ \<Rightarrow> (case number_of v of Some q \<Rightarrow> Inr (Finite q) | None \<Rightarrow> Inl (Uncaught ''TypeError'')))"

text \<open>\<open>for x in value\<close>: a text gives its characters and a dict its keys.\<close>

definition iterate :: "json \<Rightarrow> sip_error + json list" where
  "iterate v = (case v of
     JArr vs \<Rightarrow> Inr vs
   | JStr t \<Rightarrow> Inr (map (\<lambda>c. JStr [c]) t)
   | JObj kvs \<Rightarrow> Inr (map (\<lambda>(k, _). JStr k) kvs)
   | _ \<Rightarrow> Inl (Uncaught ''TypeError''))"

fun mapE :: "('a \<Rightarrow> 'e + 'b) \<Rightarrow> 'a list \<Rightarrow> 'e + 'b list" where
  "mapE f [] = Inr []"
| "mapE f (x # xs) = bindE (f x) (\<lambda>y. bindE (mapE f xs) (\<lambda>ys. Inr (y # ys)))"

text \<open>\<open>[float(x) for x in value]\<close> and \<open>dict(value or {})\<close>.\<close>

definition floats :: "builtins \<Rightarrow> json \<Rightarrow> sip_error + py_float list" where
  "floats B v = bindE (iterate v) (mapE (to_float B))"

definition to_dict :: "builtins \<Rightarrow> json \<Rightarrow> sip_error + fields" where
  "to_dict B v =
     (if \<not> truthy v then Inr []
      else case v of
        JObj kvs \<Rightarrow> Inr kvs
      | JArr vs \<Rightarrow> (case bt_dict_of_list B vs of Some kvs \<Rightarrow> Inr kvs | None \<Rightarrow> Inl (Uncaught ''ValueError''))
      | JStr _ \<Rightarrow> Inl (Uncaught ''ValueError'')
      | _ \<Rightarrow> Inl (Uncaught ''TypeError''))"

section \<open>The contract\<close>

abbreviation value_error :: "sip_error + 'a" where
  "value_error \<equiv> Inl (Uncaught ''ValueError'')"

definition contract_fields_ok :: "measurement_contract \<Rightarrow> bool" where
  "contract_fields_ok c \<longleftrightarrow> mt_measurement_type c \<noteq> [] \<and> mt_geometry c \<noteq> [] \<and> 0 \<le> mt_uncertainty c \<and>
     mt_source_method c \<noteq> [] \<and> mt_permitted_uses c \<noteq> [] \<and> mt_source_asset_ids c \<noteq> [] \<and> mt_calibration c \<noteq> [] \<and>
     mt_verification_status c \<in> set [''observed'', ''measured'', ''verified'', ''disputed'', ''superseded'']"

definition validate_hit :: "builtins \<Rightarrow> fields \<Rightarrow> sip_error + unit" where
  "validate_hit B hit =
     (if \<not> {''representation_id'', ''world_point''} \<subseteq> fst ` set hit then value_error
      else case jget hit ''world_point'' of
        JArr point \<Rightarrow>
          if length point \<noteq> 3 then value_error
          else foldE (\<lambda>v _. bindE (to_float B v) (\<lambda>x. if is_finite x then Inr () else value_error)) point ()
      | _ \<Rightarrow> value_error)"

definition validate_evidence :: "builtins \<Rightarrow> fields \<Rightarrow> sip_error + unit" where
  "validate_evidence B ev =
     (if \<not> {''metric_representation_id'', ''metric_source_asset_ids'', ''estimated_residual_m'', ''acceptance_threshold_m''}
           \<subseteq> fst ` set ev then value_error
      else bindE (to_float B (jget ev ''estimated_residual_m'')) (\<lambda>residual.
        bindE (to_float B (jget ev ''acceptance_threshold_m'')) (\<lambda>threshold.
        if \<not> is_finite residual \<or> rat_of residual < 0 then value_error
        else if \<not> is_finite threshold \<or> rat_of threshold < 0 then value_error
        else if rat_of residual > rat_of threshold then value_error
        else case jget ev ''metric_source_asset_ids'' of
          JArr names \<Rightarrow> if names = [] then value_error else Inr ()
        | _ \<Rightarrow> value_error)))"

definition validate_measurement :: "builtins \<Rightarrow> measurement_contract \<Rightarrow> sip_error + measurement_contract" where
  "validate_measurement B c =
     (if \<not> contract_fields_ok c then value_error
      else bindE (case mt_interaction_hit c of None \<Rightarrow> Inr () | Some hit \<Rightarrow> validate_hit B hit) (\<lambda>_.
        bindE (case mt_resolved_metric_evidence c of None \<Rightarrow> Inr () | Some ev \<Rightarrow> validate_evidence B ev) (\<lambda>_.
        if mt_interaction_hit c \<noteq> None \<and> mt_originating_representation_id c = None then value_error
        else if mt_verification_status c = ''verified'' \<and>
          (\<not> truthy_str (mt_verifier_id c) \<or> mt_verification_date c = None \<or>
           mt_authority_class c \<noteq> Authority_FIELD_VERIFIED \<or> mt_uncertainty c \<le> 0) then value_error
        else Inr c)))"

section \<open>Proxy hits\<close>

record proxy_hit =
  ph_representation_id :: string
  ph_world_point :: "py_float list"
  ph_normal :: "py_float list option"
  ph_support_hint :: fields

record metric_evidence =
  mv_metric_representation_id :: string
  mv_source_asset_ids :: "string list"
  mv_residual :: rat
  mv_threshold :: rat
  mv_coordinate_frame_id :: string

datatype proxy_resolution =
    Unresolved string string fields "rat option"
  | Reprojected string fields metric_evidence bool

fun measurement_allowed :: "proxy_resolution \<Rightarrow> bool" where
  "measurement_allowed (Unresolved reason proxy hit residual) = False"
| "measurement_allowed (Reprojected proxy hit ev resolved) = resolved"

definition exceeds_tolerance :: string where
  "exceeds_tolerance = ''metric_reprojection_residual_exceeds_tolerance''"

fun resolution_reason :: "proxy_resolution \<Rightarrow> string option" where
  "resolution_reason (Unresolved reason proxy hit residual) = Some reason"
| "resolution_reason (Reprojected proxy hit ev resolved) = (if resolved then None else Some exceeds_tolerance)"

fun resolution_residual :: "proxy_resolution \<Rightarrow> rat option" where
  "resolution_residual (Unresolved reason proxy hit residual) = residual"
| "resolution_residual (Reprojected proxy hit ev resolved) = Some (mv_residual ev)"

abbreviation jnum :: "rat option \<Rightarrow> json" where
  "jnum v \<equiv> (case v of None \<Rightarrow> JNull | Some q \<Rightarrow> JFloat q)"

definition evidence_fields :: "metric_evidence \<Rightarrow> fields" where
  "evidence_fields ev = [(''metric_representation_id'', JStr (mv_metric_representation_id ev)),
     (''metric_source_asset_ids'', JArr (map JStr (mv_source_asset_ids ev))),
     (''estimated_residual_m'', JFloat (mv_residual ev)), (''acceptance_threshold_m'', JFloat (mv_threshold ev)),
     (''coordinate_frame_id'', JStr (mv_coordinate_frame_id ev)),
     (''resolution_method'', JStr ''support_map_metric_reprojection'')]"

text \<open>The dict that \<open>resolve_proxy_hit\<close> returns.\<close>

fun resolution_dict :: "proxy_resolution \<Rightarrow> json" where
  "resolution_dict (Unresolved reason proxy hit residual) =
     JObj ([(''resolved'', JBool False), (''reason'', JStr reason), (''proxy_representation_id'', JStr proxy),
        (''interaction_hit'', JObj hit)] @
       (case residual of None \<Rightarrow> [] | Some q \<Rightarrow> [(''estimated_residual_m'', JFloat q)]) @
       [(''authoritative_measurement_allowed'', JBool False)])"
| "resolution_dict (Reprojected proxy hit ev resolved) =
     JObj [(''resolved'', JBool resolved), (''reason'', if resolved then JNull else JStr exceeds_tolerance),
       (''proxy_representation_id'', JStr proxy), (''metric_representation_id'', JStr (mv_metric_representation_id ev)),
       (''world_point'', jget hit ''world_point''), (''estimated_residual_m'', JFloat (mv_residual ev)),
       (''acceptance_threshold_m'', JFloat (mv_threshold ev)),
       (''metric_source_asset_ids'', JArr (map JStr (mv_source_asset_ids ev))), (''interaction_hit'', JObj hit),
       (''resolved_metric_evidence'', JObj (evidence_fields ev)), (''authoritative_measurement_allowed'', JBool resolved)]"

definition get_representation :: "db \<Rightarrow> string \<Rightarrow> representation_row option" where
  "get_representation s k = tget re_representation_id (representations s) k"

definition three_finite :: "py_float list \<Rightarrow> bool" where
  "three_finite xs \<longleftrightarrow> length xs = 3 \<and> list_all is_finite xs"

definition coordinates :: "py_float list \<Rightarrow> json" where
  "coordinates xs = JArr (map (\<lambda>x. JFloat (rat_of x)) xs)"

definition interaction_record :: "proxy_hit \<Rightarrow> representation_row \<Rightarrow> fields" where
  "interaction_record hit proxy = [(''representation_id'', JStr (ph_representation_id hit)),
     (''representation_kind'', JStr (re_kind proxy)), (''world_point'', coordinates (ph_world_point hit)),
     (''normal'', case ph_normal hit of None \<Rightarrow> JNull | Some n \<Rightarrow> coordinates n),
     (''support_hint'', JObj (ph_support_hint hit))]"

definition metric_eligible :: "string \<Rightarrow> string \<Rightarrow> representation_row \<Rightarrow> representation_row \<Rightarrow> bool" where
  "metric_eligible tenant project proxy metric \<longleftrightarrow> re_tenant_id metric = tenant \<and> re_project_id metric = project \<and>
     re_scene_id metric = re_scene_id proxy \<and> re_kind metric = ''metric'' \<and> re_state metric = ''published'' \<and>
     re_deprecated_at metric = None \<and> re_coordinate_frame_id metric = re_coordinate_frame_id proxy \<and>
     ''measurement'' \<in> set (re_intended_uses_json metric) \<and>
     re_authority_class metric \<in> {authority_class_value Authority_METRIC, authority_class_value Authority_FIELD_VERIFIED}"

text \<open>The metric representation that the support map of the proxy names.\<close>

definition supporting_metric :: "builtins \<Rightarrow> representation_row \<Rightarrow> db \<Rightarrow> sip_error + representation_row option" where
  "supporting_metric B proxy s =
     (let metric_id = jget (re_support_map_json proxy) ''metric_representation_id'' in
      if \<not> truthy metric_id then Inr None
      else bindE (case metric_id of JStr k \<Rightarrow> Inr k | _ \<Rightarrow> bt_bind_key B metric_id) (\<lambda>k. Inr (get_representation s k)))"

text \<open>\<open>float(support_map.get("max_reprojection_error_m", math.inf))\<close>, infinite when it fails.\<close>

definition support_residual :: "builtins \<Rightarrow> representation_row \<Rightarrow> py_float" where
  "support_residual B proxy =
     (case map_of (re_support_map_json proxy) ''max_reprojection_error_m'' of
        None \<Rightarrow> Infinite False
      | Some v \<Rightarrow> (case to_float B v of Inl _ \<Rightarrow> Infinite False | Inr x \<Rightarrow> x))"

definition live_assets :: "string \<Rightarrow> string \<Rightarrow> string set \<Rightarrow> db \<Rightarrow> asset_ref_row list" where
  "live_assets tenant project names s = filter (\<lambda>r. r_asset_id r \<in> names \<and> r_tenant_id r = tenant \<and>
     r_project_id r = project \<and> r_tombstoned_at r = None) (asset_refs s)"

definition candidate_assets :: "representation_row \<Rightarrow> sip_error + string list" where
  "candidate_assets metric =
     bindE (case map_of (re_provenance_json metric) ''source_ids'' of None \<Rightarrow> Inr [] | Some v \<Rightarrow> iterate v) (\<lambda>vs.
     Inr (re_asset_id metric # concat (map (\<lambda>v. case v of JStr k \<Rightarrow> [k] | _ \<Rightarrow> []) vs)))"

definition reproject ::
  "builtins \<Rightarrow> string \<Rightarrow> string \<Rightarrow> proxy_hit \<Rightarrow> rat \<Rightarrow> representation_row \<Rightarrow> representation_row \<Rightarrow> db
     \<Rightarrow> sip_error + proxy_resolution" where
  "reproject B tenant project hit tolerance proxy metric s =
     (let hit_record = interaction_record hit proxy; proxy_id = ph_representation_id hit in
      case support_residual B proxy of
        Finite residual \<Rightarrow>
          if residual < 0 then Inr (Unresolved ''metric_reprojection_residual_invalid'' proxy_id hit_record None)
          else bindE (candidate_assets metric) (\<lambda>candidates.
            let sources = sorted_set (map r_asset_id (live_assets tenant project (set candidates) s)) in
            if re_asset_id metric \<notin> set sources
            then Inr (Unresolved ''metric_source_evidence_unavailable'' proxy_id hit_record (Some residual))
            else Inr (Reprojected proxy_id hit_record
              \<lparr>mv_metric_representation_id = re_representation_id metric, mv_source_asset_ids = sources,
               mv_residual = residual, mv_threshold = tolerance, mv_coordinate_frame_id = re_coordinate_frame_id metric\<rparr>
              (residual \<le> tolerance)))
      | _ \<Rightarrow> Inr (Unresolved ''metric_reprojection_residual_invalid'' proxy_id hit_record None))"

definition resolve_in_session ::
  "builtins \<Rightarrow> string \<Rightarrow> string \<Rightarrow> proxy_hit \<Rightarrow> py_float \<Rightarrow> db \<Rightarrow> sip_error + proxy_resolution" where
  "resolve_in_session B tenant project hit tolerance s =
     (if \<not> is_finite tolerance \<or> rat_of tolerance \<le> 0 then Inl (ValidationError ''PROXY_HIT_TOLERANCE_INVALID'' [])
      else if \<not> three_finite (ph_world_point hit) then Inl (ValidationError ''PROXY_HIT_POINT_INVALID'' [])
      else if (case ph_normal hit of None \<Rightarrow> False | Some n \<Rightarrow> \<not> three_finite n)
      then Inl (ValidationError ''PROXY_HIT_NORMAL_INVALID'' [])
      else case get_representation s (ph_representation_id hit) of
        None \<Rightarrow> Inl (NotFoundError ''representation'' (ph_representation_id hit))
      | Some proxy \<Rightarrow>
          if re_tenant_id proxy \<noteq> tenant \<or> re_project_id proxy \<noteq> project
          then Inl (NotFoundError ''representation'' (ph_representation_id hit))
          else if re_kind proxy \<noteq> ''interaction'' then Inl (ValidationError ''PROXY_HIT_KIND_INVALID'' [])
          else if re_state proxy \<noteq> ''published'' \<or> re_deprecated_at proxy \<noteq> None
          then Inr (Unresolved ''interaction_representation_not_published'' (ph_representation_id hit)
                 (interaction_record hit proxy) None)
          else bindE (supporting_metric B proxy s) (\<lambda>support.
            case support of
              None \<Rightarrow> Inr (Unresolved ''eligible_metric_support_unavailable'' (ph_representation_id hit)
                        (interaction_record hit proxy) None)
            | Some metric \<Rightarrow>
                if \<not> metric_eligible tenant project proxy metric
                then Inr (Unresolved ''eligible_metric_support_unavailable'' (ph_representation_id hit)
                       (interaction_record hit proxy) None)
                else reproject B tenant project hit (rat_of tolerance) proxy metric s))"

definition resolve_proxy_hit ::
  "builtins \<Rightarrow> string \<Rightarrow> string \<Rightarrow> proxy_hit \<Rightarrow> py_float \<Rightarrow> db \<Rightarrow> (sip_error + json) \<times> db" where
  "resolve_proxy_hit B tenant project hit tolerance s =
     session (\<lambda>t. bindE (resolve_in_session B tenant project hit tolerance t) (\<lambda>r. Inr (resolution_dict r, t))) s"

section \<open>Recording\<close>

record measurement_args =
  ms_tenant_id :: string
  ms_project_id :: string
  ms_scene_id :: string
  ms_entity_id :: "string option"
  ms_value :: rat
  ms_unit :: string
  ms_uncertainty :: py_float
  ms_source_asset_ids :: "string list"
  ms_calibration :: fields
  ms_verifier_id :: "string option"
  ms_verified :: bool
  ms_actor_id :: string
  ms_originating_representation_id :: "string option"
  ms_interaction_hit :: "fields option"
  ms_measurement_type :: string
  ms_geometry :: "fields option"
  ms_source_method :: string
  ms_measured_at :: "time option"
  ms_coordinate_frame_id :: string
  ms_source_commit_id :: "string option"
  ms_permitted_uses :: "string list option"
  ms_state :: string
  ms_supersedes_measurement_id :: "string option"
  ms_proxy_tolerance_m :: py_float

definition forbidden_uses :: "string list" where
  "forbidden_uses = [''survey'', ''fabrication'', ''contract_authoritative'', ''code_compliance_certification'']"

definition effective_uses :: "string list option \<Rightarrow> string list" where
  "effective_uses uses = sorted_set (case uses of None \<Rightarrow> [''reference''] | Some us \<Rightarrow> if us = [] then [''reference''] else us)"

text \<open>The checks before the session.\<close>

definition check_measurement_args :: "measurement_args \<Rightarrow> sip_error + unit" where
  "check_measurement_args a =
     (if \<not> is_finite (ms_uncertainty a) \<or> rat_of (ms_uncertainty a) < 0 \<or> ms_source_asset_ids a = []
      then Inl (ValidationError ''MEASUREMENT_EVIDENCE_REQUIRED'' [])
      else if (case ms_geometry a of None \<Rightarrow> True | Some g \<Rightarrow> g = [])
      then Inl (ValidationError ''MEASUREMENT_GEOMETRY_REQUIRED'' [])
      else if effective_uses (ms_permitted_uses a) = []
      then Inl (ValidationError ''MEASUREMENT_PERMITTED_USE_REQUIRED'' [])
      else let prohibited = filter (\<lambda>u. u \<in> set forbidden_uses) (effective_uses (ms_permitted_uses a)) in
        if prohibited \<noteq> []
        then Inl (ValidationError ''MEASUREMENT_PERMITTED_USE_INVALID'' [(''forbidden_uses'', JArr (map JStr prohibited))])
        else Inr ())"

text \<open>The commit the measurement refers to: the given one or the head of the main branch.\<close>

definition source_commit :: "measurement_args \<Rightarrow> db \<Rightarrow> sip_error + string" where
  "source_commit a s =
     (case find_branch (ms_tenant_id a) (ms_project_id a) (ms_scene_id a) ''main'' s of
        None \<Rightarrow> Inl (NotFoundError ''scene'' (ms_scene_id a))
      | Some b \<Rightarrow>
          let k = str_or (ms_source_commit_id a) (sb_head_commit_id b) in
          (case get_commit s k of
             None \<Rightarrow> Inl (NotFoundError ''scene_commit'' k)
           | Some r \<Rightarrow>
               if sc_tenant_id r \<noteq> ms_tenant_id a \<or> sc_project_id r \<noteq> ms_project_id a \<or> sc_scene_id r \<noteq> ms_scene_id a
               then Inl (NotFoundError ''scene_commit'' k) else Inr k))"

text \<open>The entity is a current one of the scene or of the project's construction records.\<close>

definition check_entity :: "measurement_args \<Rightarrow> db \<Rightarrow> sip_error + unit" where
  "check_entity a s =
     (case ms_entity_id a of
        None \<Rightarrow> Inr ()
      | Some k \<Rightarrow>
          if k = [] then Inr ()
          else if (case get_entity s k of None \<Rightarrow> False
             | Some e \<Rightarrow> se_tenant_id e = ms_tenant_id a \<and> se_project_id e = ms_project_id a \<and>
                 se_scene_id e = ms_scene_id a \<and> se_superseded_at e = None) \<or>
             list_ex (\<lambda>r. cr_tenant_id r = ms_tenant_id a \<and> cr_project_id r = ms_project_id a \<and>
               cr_entity_id r = Some k \<and> cr_superseded_at r = None) (construction_records s)
          then Inr () else Inl (NotFoundError ''semantic_entity'' k))"

definition parse_hit :: "builtins \<Rightarrow> string \<Rightarrow> fields \<Rightarrow> sip_error + proxy_hit" where
  "parse_hit B representation_id hit =
     (case map_of hit ''world_point'' of
        None \<Rightarrow> Inl (Uncaught ''KeyError'')
      | Some point \<Rightarrow>
          bindE (floats B point) (\<lambda>world_point.
          bindE (if jget hit ''normal'' = JNull then Inr None else bindE (floats B (jget hit ''normal'')) (\<lambda>n. Inr (Some n))) (\<lambda>normal.
          bindE (to_dict B (jget hit ''support_hint'')) (\<lambda>hint.
          Inr \<lparr>ph_representation_id = representation_id, ph_world_point = world_point, ph_normal = normal,
               ph_support_hint = hint\<rparr>))))"

text \<open>A hit on an interaction representation is resolved again against metric evidence.\<close>

definition resolve_origin ::
  "builtins \<Rightarrow> measurement_args \<Rightarrow> string \<Rightarrow> db \<Rightarrow> sip_error + (fields option \<times> fields option)" where
  "resolve_origin B a origin s =
     (if ms_verified a then Inl (ValidationError ''PROXY_MEASUREMENT_CANNOT_BE_VERIFIED'' [])
      else case ms_interaction_hit a of
        None \<Rightarrow> Inl (ValidationError ''PROXY_HIT_METRIC_RESOLUTION_REQUIRED'' [])
      | Some hit \<Rightarrow>
          if hit = [] then Inl (ValidationError ''PROXY_HIT_METRIC_RESOLUTION_REQUIRED'' [])
          else if json_str (bt_str B) (jget hit ''representation_id'') \<noteq> origin
          then Inl (ValidationError ''PROXY_HIT_REPRESENTATION_MISMATCH'' [])
          else case parse_hit B origin hit of
            Inl _ \<Rightarrow> Inl (ValidationError ''PROXY_HIT_INVALID'' [])
          | Inr h \<Rightarrow>
              bindE (resolve_in_session B (ms_tenant_id a) (ms_project_id a) h (ms_proxy_tolerance_m a) s) (\<lambda>resolution.
              case resolution of
                Reprojected proxy hit_record ev True \<Rightarrow>
                  if \<not> set (mv_source_asset_ids ev) \<subseteq> set (ms_source_asset_ids a)
                  then Inl (ValidationError ''MEASUREMENT_METRIC_EVIDENCE_MISSING''
                         [(''required_asset_ids'', JArr (map JStr (mv_source_asset_ids ev)))])
                  else Inr (Some hit_record, Some (evidence_fields ev))
              | _ \<Rightarrow> Inl (ValidationError ''PROXY_HIT_METRIC_RESOLUTION_REQUIRED''
                       [(''reason'', jopt (resolution_reason resolution)),
                        (''estimated_residual_m'', jnum (resolution_residual resolution))])))"

definition check_origin :: "builtins \<Rightarrow> measurement_args \<Rightarrow> db \<Rightarrow> sip_error + (fields option \<times> fields option)" where
  "check_origin B a s =
     (if \<not> truthy_str (ms_originating_representation_id a)
      then if ms_interaction_hit a \<noteq> None then Inl (ValidationError ''INTERACTION_HIT_ORIGIN_REQUIRED'' []) else Inr (None, None)
      else let origin = str_or (ms_originating_representation_id a) [];
               not_authoritative = (\<lambda>r. ValidationError ''NON_AUTHORITATIVE_MEASUREMENT_SOURCE''
                  [(''representation_id'', JStr origin), (''kind'', JStr (re_kind r))]) in
        case get_representation s origin of
          None \<Rightarrow> Inl (NotFoundError ''representation'' origin)
        | Some r \<Rightarrow>
            if re_tenant_id r \<noteq> ms_tenant_id a \<or> re_project_id r \<noteq> ms_project_id a \<or> re_scene_id r \<noteq> ms_scene_id a
            then Inl (NotFoundError ''representation'' origin)
            else if re_kind r = ''interaction'' then resolve_origin B a origin s
            else if ms_interaction_hit a \<noteq> None then Inl (ValidationError ''INTERACTION_HIT_ORIGIN_INVALID'' [])
            else if re_kind r = ''visual'' then Inl (not_authoritative r)
            else if re_kind r \<noteq> ''metric'' then Inl (not_authoritative r)
            else if re_state r \<noteq> ''published'' \<or> re_deprecated_at r \<noteq> None \<or>
              ''measurement'' \<notin> set (re_intended_uses_json r)
            then Inl (ValidationError ''METRIC_REPRESENTATION_NOT_APPROVED'' [(''representation_id'', JStr origin)])
            else if re_coordinate_frame_id r \<noteq> ms_coordinate_frame_id a
            then Inl (ValidationError ''MEASUREMENT_FRAME_MISMATCH'' [])
            else Inr (None, None))"

definition check_sources :: "measurement_args \<Rightarrow> db \<Rightarrow> sip_error + unit" where
  "check_sources a s =
     (if length (live_assets (ms_tenant_id a) (ms_project_id a) (set (ms_source_asset_ids a)) s)
           \<noteq> card (set (ms_source_asset_ids a))
      then Inl (ValidationError ''MEASUREMENT_EVIDENCE_OUT_OF_SCOPE'' []) else Inr ())"

definition get_measurement_row :: "db \<Rightarrow> string \<Rightarrow> measurement_row option" where
  "get_measurement_row s k = tget me_measurement_id (measurements s) k"

text \<open>The measurement that is replaced gets the state \<open>superseded\<close>.\<close>

definition supersede :: "measurement_args \<Rightarrow> db \<Rightarrow> sip_error + db" where
  "supersede a s =
     (if \<not> truthy_str (ms_supersedes_measurement_id a) then Inr s
      else let k = str_or (ms_supersedes_measurement_id a) [] in
        case get_measurement_row s k of
          None \<Rightarrow> Inl (NotFoundError ''measurement'' k)
        | Some r \<Rightarrow>
            if me_tenant_id r \<noteq> ms_tenant_id a \<or> me_project_id r \<noteq> ms_project_id a \<or> me_scene_id r \<noteq> ms_scene_id a
            then Inl (NotFoundError ''measurement'' k)
            else if me_state r = ''superseded'' then Inl (ConflictError ''MEASUREMENT_ALREADY_SUPERSEDED'' [])
            else Inr (s\<lparr>measurements := tput me_measurement_id (r\<lparr>me_state := ''superseded''\<rparr>) (measurements s)\<rparr>))"

definition check_verification :: "measurement_args \<Rightarrow> sip_error + unit" where
  "check_verification a =
     (if ms_verified a \<and> (\<not> truthy_str (ms_verifier_id a) \<or> ms_calibration a = [] \<or> rat_of (ms_uncertainty a) = 0)
      then Inl (ValidationError ''VERIFIED_MEASUREMENT_METADATA_REQUIRED'' [])
      else if ms_verified a \<and> ms_verifier_id a = Some (ms_actor_id a)
      then Inl (ValidationError ''INDEPENDENT_VERIFIER_REQUIRED'' [])
      else Inr ())"

definition new_contract :: "env \<Rightarrow> measurement_args \<Rightarrow> string \<Rightarrow> fields option \<Rightarrow> fields option \<Rightarrow> measurement_contract" where
  "new_contract E a commit_id hit ev =
     \<lparr>mt_measurement_id = ids E 0, mt_scene_id = ms_scene_id a, mt_entity_id = ms_entity_id a,
      mt_measurement_type = ms_measurement_type a, mt_geometry = (case ms_geometry a of None \<Rightarrow> [] | Some g \<Rightarrow> g),
      mt_value = ms_value a, mt_unit = ms_unit a, mt_uncertainty = rat_of (ms_uncertainty a),
      mt_source_method = ms_source_method a, mt_measured_at = (case ms_measured_at a of None \<Rightarrow> clk E 0 | Some m \<Rightarrow> m),
      mt_coordinate_frame_id = ms_coordinate_frame_id a, mt_source_commit_id = commit_id,
      mt_permitted_uses = effective_uses (ms_permitted_uses a), mt_source_asset_ids = ms_source_asset_ids a,
      mt_calibration = ms_calibration a, mt_creator_id = ms_actor_id a, mt_verifier_id = ms_verifier_id a,
      mt_verification_date = (if ms_verified a then Some (clk E 1) else None),
      mt_verification_status = (if ms_verified a then ''verified'' else ms_state a),
      mt_authority_class = (if ms_verified a then Authority_FIELD_VERIFIED else Authority_METRIC),
      mt_originating_representation_id = ms_originating_representation_id a, mt_interaction_hit = hit,
      mt_resolved_metric_evidence = ev, mt_supersedes_measurement_id = ms_supersedes_measurement_id a\<rparr>"

text \<open>The row holds the fields of the contract, the tenant, the project and its creation time.\<close>

definition new_measurement :: "env \<Rightarrow> measurement_args \<Rightarrow> measurement_contract \<Rightarrow> measurement_row" where
  "new_measurement E a c =
     \<lparr>me_measurement_id = mt_measurement_id c, me_tenant_id = ms_tenant_id a, me_project_id = ms_project_id a,
      me_scene_id = mt_scene_id c, me_entity_id = mt_entity_id c, me_measurement_type = mt_measurement_type c,
      me_geometry_json = mt_geometry c, me_source_method = mt_source_method c, me_measured_at = Some (mt_measured_at c),
      me_coordinate_frame_id = Some (mt_coordinate_frame_id c), me_source_commit_id = Some (mt_source_commit_id c),
      me_permitted_uses_json = mt_permitted_uses c, me_state = mt_verification_status c,
      me_supersedes_measurement_id = mt_supersedes_measurement_id c,
      me_originating_representation_id = mt_originating_representation_id c, me_interaction_hit_json = mt_interaction_hit c,
      me_resolved_metric_evidence_json = mt_resolved_metric_evidence c, me_value = mt_value c, me_unit = mt_unit c,
      me_uncertainty = mt_uncertainty c, me_source_asset_ids_json = mt_source_asset_ids c,
      me_calibration_json = mt_calibration c, me_verifier_id = mt_verifier_id c, me_verified_at = mt_verification_date c,
      me_authority_class = authority_class_value (mt_authority_class c), me_created_by = mt_creator_id c,
      me_created_at = clk E 2\<rparr>"

definition measurement_payload :: "runtime \<Rightarrow> builtins \<Rightarrow> measurement_contract \<Rightarrow> fields" where
  "measurement_payload rt B c = [(''measurement_id'', JStr (mt_measurement_id c)), (''scene_id'', JStr (mt_scene_id c)),
     (''entity_id'', jopt (mt_entity_id c)), (''verification_status'', JStr (mt_verification_status c)),
     (''authority_class'', JStr (authority_class_value (mt_authority_class c))),
     (''source_commit_id'', JStr (mt_source_commit_id c)),
     (''interaction_resolved_to_metric'', JBool (mt_resolved_metric_evidence c \<noteq> None)),
     (''contract_hash'', JStr (canonical_sha256 rt (bt_model_dump B c)))]"

definition measurement_event :: "measurement_args \<Rightarrow> string \<Rightarrow> fields \<Rightarrow> event_spec" where
  "measurement_event a measurement_id payload =
     \<lparr>es_event_type = ''measurement.recorded'', es_schema_version = ''1.0.0'', es_tenant_id = ms_tenant_id a,
      es_project_id = Some (ms_project_id a), es_aggregate_type = ''measurement'', es_aggregate_id = measurement_id,
      es_payload = payload, es_producer = ''scene-service'', es_actor_id = Some (ms_actor_id a), es_workload_identity = None,
      es_traceparent = None, es_correlation_id = None, es_causation_id = None\<rparr>"

definition record_measurement ::
  "runtime \<Rightarrow> string \<Rightarrow> event_catalog \<Rightarrow> builtins \<Rightarrow> env \<Rightarrow> measurement_args \<Rightarrow> measurement_contract \<Rightarrow> db
     \<Rightarrow> sip_error + string \<times> db" where
  "record_measurement rt key cat B E a c s =
     (let payload = measurement_payload rt B c in
      bindE (insert_row me_measurement_id (new_measurement E a c) (measurements s)) (\<lambda>rows.
      bindE (emit_event rt cat (ids E 1) (clk E 3) (measurement_event a (mt_measurement_id c) payload)
               (s\<lparr>measurements := rows\<rparr>)) (\<lambda>s1.
      bindE (append_audit rt key (ids E 2) (clk E 4)
        (audit_entry (ms_tenant_id a) (Some (ms_project_id a)) (ms_actor_id a) ''measurement:record'' ''measurement''
           (mt_measurement_id c) ''allowed'' payload) s1) (\<lambda>s2.
      Inr (mt_measurement_id c, s2)))))"

definition create_measurement ::
  "runtime \<Rightarrow> string \<Rightarrow> event_catalog \<Rightarrow> builtins \<Rightarrow> env \<Rightarrow> measurement_args \<Rightarrow> db \<Rightarrow> sip_error + string \<times> db" where
  "create_measurement rt key cat B E a s =
     bindE (check_measurement_args a) (\<lambda>_.
     bindE (source_commit a s) (\<lambda>commit_id.
     bindE (check_entity a s) (\<lambda>_.
     bindE (check_frame (ms_tenant_id a) (ms_project_id a) (ms_coordinate_frame_id a) s) (\<lambda>_.
     bindE (check_origin B a s) (\<lambda>(hit, ev).
     bindE (check_sources a s) (\<lambda>_.
     bindE (supersede a s) (\<lambda>s1.
     bindE (check_verification a) (\<lambda>_.
     bindE (validate_measurement B (new_contract E a commit_id hit ev)) (\<lambda>c.
     record_measurement rt key cat B E a c s1)))))))))"

section \<open>Reading\<close>

definition authority_classes :: "authority_class list" where
  "authority_classes = [Authority_NONE, Authority_EVIDENCE, Authority_METRIC, Authority_DESIGN, Authority_VISUAL,
     Authority_DERIVED_NON_AUTHORITATIVE, Authority_FIELD_VERIFIED, Authority_HISTORICAL_ASSERTION]"

text \<open>\<open>AuthorityClass(value)\<close>.\<close>

definition authority_class_of :: "string \<Rightarrow> sip_error + authority_class" where
  "authority_class_of v = (case find (\<lambda>x. authority_class_value x = v) authority_classes of
     None \<Rightarrow> value_error | Some x \<Rightarrow> Inr x)"

definition row_contract :: "measurement_row \<Rightarrow> string \<Rightarrow> authority_class \<Rightarrow> measurement_contract" where
  "row_contract r commit_id authority =
     \<lparr>mt_measurement_id = me_measurement_id r, mt_scene_id = me_scene_id r, mt_entity_id = me_entity_id r,
      mt_measurement_type = me_measurement_type r, mt_geometry = me_geometry_json r, mt_value = me_value r,
      mt_unit = me_unit r, mt_uncertainty = me_uncertainty r, mt_source_method = me_source_method r,
      mt_measured_at = (case me_measured_at r of None \<Rightarrow> me_created_at r | Some m \<Rightarrow> m),
      mt_coordinate_frame_id = str_or (me_coordinate_frame_id r) ''unknown'', mt_source_commit_id = commit_id,
      mt_permitted_uses = (if me_permitted_uses_json r = [] then [''reference''] else me_permitted_uses_json r),
      mt_source_asset_ids = me_source_asset_ids_json r, mt_calibration = me_calibration_json r,
      mt_creator_id = me_created_by r, mt_verifier_id = me_verifier_id r, mt_verification_date = me_verified_at r,
      mt_verification_status = me_state r, mt_authority_class = authority,
      mt_originating_representation_id = me_originating_representation_id r,
      mt_interaction_hit = me_interaction_hit_json r, mt_resolved_metric_evidence = me_resolved_metric_evidence_json r,
      mt_supersedes_measurement_id = me_supersedes_measurement_id r\<rparr>"

definition get_measurement ::
  "builtins \<Rightarrow> string \<Rightarrow> string \<Rightarrow> string \<Rightarrow> string \<Rightarrow> db \<Rightarrow> sip_error + measurement_contract \<times> db" where
  "get_measurement B tenant project scene measurement_id s =
     (case get_measurement_row s measurement_id of
        None \<Rightarrow> Inl (NotFoundError ''measurement'' measurement_id)
      | Some r \<Rightarrow>
          if me_tenant_id r \<noteq> tenant \<or> me_project_id r \<noteq> project \<or> me_scene_id r \<noteq> scene
          then Inl (NotFoundError ''measurement'' measurement_id)
          else let commit_id = str_or (me_source_commit_id r)
                 (case find_branch tenant project scene ''main'' s of None \<Rightarrow> ''unknown'' | Some b \<Rightarrow> sb_head_commit_id b) in
            bindE (authority_class_of (me_authority_class r)) (\<lambda>authority.
            bindE (validate_measurement B (row_contract r commit_id authority)) (\<lambda>c. Inr (c, s))))"

section \<open>Handlers\<close>

text \<open>The request model \<open>MeasurementCreate\<close>; a refused body never reaches the handler.\<close>

definition measurement_request_ok :: "measurement_args \<Rightarrow> bool" where
  "measurement_request_ok a \<longleftrightarrow>
     (case ms_uncertainty a of Finite q \<Rightarrow> 0 \<le> q | Infinite negative \<Rightarrow> \<not> negative | NaN \<Rightarrow> False) \<and>
     ms_source_asset_ids a \<noteq> [] \<and> ms_calibration a \<noteq> [] \<and>
     (case ms_geometry a of None \<Rightarrow> False | Some g \<Rightarrow> g \<noteq> []) \<and>
     (case ms_permitted_uses a of None \<Rightarrow> False | Some us \<Rightarrow> us \<noteq> []) \<and>
     ms_state a \<in> set [''observed'', ''measured'', ''disputed''] \<and>
     (case ms_proxy_tolerance_m a of Finite q \<Rightarrow> 0 < q \<and> q \<le> 5 | _ \<Rightarrow> False)"

definition api_create_measurement ::
  "runtime \<Rightarrow> string \<Rightarrow> event_catalog \<Rightarrow> builtins \<Rightarrow> env \<Rightarrow> env \<Rightarrow> principal \<Rightarrow> string \<Rightarrow> string \<Rightarrow> measurement_args \<Rightarrow> db
     \<Rightarrow> (sip_error + measurement_contract) \<times> db" where
  "api_create_measurement rt key cat B E F p project scene a s =
     (if \<not> measurement_request_ok a then (Inl (Uncaught ''RequestValidationError''), s)
      else case guarded rt key E p
          (api_request (if ms_verified a then ''scene:review'' else ''scene:commit'') (p_tenant_id p) (Some project))
          (create_measurement rt key cat B F (a\<lparr>ms_tenant_id := p_tenant_id p, ms_project_id := project,
             ms_scene_id := scene, ms_actor_id := subject_id p\<rparr>)) s of
        (Inl e, s') \<Rightarrow> (Inl e, s')
      | (Inr measurement_id, s') \<Rightarrow> session (get_measurement B (p_tenant_id p) project scene measurement_id) s')"

definition api_get_measurement ::
  "runtime \<Rightarrow> string \<Rightarrow> builtins \<Rightarrow> env \<Rightarrow> principal \<Rightarrow> string \<Rightarrow> string \<Rightarrow> string \<Rightarrow> db
     \<Rightarrow> (sip_error + measurement_contract) \<times> db" where
  "api_get_measurement rt key B E p project scene measurement_id s =
     guarded rt key E p (api_request ''scene:read'' (p_tenant_id p) (Some project))
       (get_measurement B (p_tenant_id p) project scene measurement_id) s"

text \<open>\<open>ProxyResolve\<close> admits three coordinates and a tolerance in (0, 5].\<close>

definition api_resolve_proxy_hit ::
  "runtime \<Rightarrow> string \<Rightarrow> builtins \<Rightarrow> env \<Rightarrow> principal \<Rightarrow> string \<Rightarrow> string \<Rightarrow> py_float list \<Rightarrow> string option \<Rightarrow> py_float \<Rightarrow> db
     \<Rightarrow> (sip_error + json) \<times> db" where
  "api_resolve_proxy_hit rt key B E p project representation_id point entity tolerance s =
     (if length point \<noteq> 3 \<or> \<not> (case tolerance of Finite q \<Rightarrow> 0 < q \<and> q \<le> 5 | _ \<Rightarrow> False)
      then (Inl (Uncaught ''RequestValidationError''), s)
      else case require rt key E p (api_request ''scene:read'' (p_tenant_id p) (Some project)) s of
        (Inl e, s') \<Rightarrow> (Inl e, s')
      | (Inr _, s') \<Rightarrow> resolve_proxy_hit B (p_tenant_id p) project
          \<lparr>ph_representation_id = representation_id, ph_world_point = point, ph_normal = None,
           ph_support_hint = (if truthy_str entity then [(''semantic_entity_id'', jopt entity)] else [])\<rparr> tolerance s')"

end
