(* ===== verification/Representations.thy ===== *)
theory Representations
  imports Measurements
begin

text \<open>
  \<open>RepresentationService\<close> of \<open>src/sip/representations.py\<close>: candidates with the policy they inherit
  from their sources, worker receipts, quality reviews, the invalidation of dependants, the selection
  for a view and the replacement of proxies. The theory \<open>Publication\<close> holds the publisher and the
  properties.

  The built-ins of Python are the record \<open>builtins\<close> of \<open>Measurements\<close>. Lists of identifiers inside
  JSON values are lists of texts where the sources sort them: a list of numbers only, which Python
  would sort as well, is a \<open>TypeError\<close> here, as it is for any mixed list.
\<close>

section \<open>JSON access\<close>

text \<open>\<open>d.get(key, default)\<close> on a dict, and on a JSON value, which may not be a dict.\<close>

definition jget_or :: "fields \<Rightarrow> string \<Rightarrow> json \<Rightarrow> json" where
  "jget_or kvs k d = (case map_of kvs k of None \<Rightarrow> d | Some v \<Rightarrow> v)"

definition attr_get :: "json \<Rightarrow> string \<Rightarrow> json \<Rightarrow> sip_error + json" where
  "attr_get v k d = (case v of JObj kvs \<Rightarrow> Inr (jget_or kvs k d) | _ \<Rightarrow> Inl (Uncaught ''AttributeError''))"

text \<open>\<open>{**d, k: v, ...}\<close>.\<close>

definition jupdate :: "fields \<Rightarrow> fields \<Rightarrow> fields" where
  "jupdate kvs updates = fold (\<lambda>(k, v). jset k v) updates kvs"

text \<open>\<open>dict(value)\<close>.\<close>

definition py_dict :: "builtins \<Rightarrow> json \<Rightarrow> sip_error + fields" where
  "py_dict B v = (case v of
     JObj kvs \<Rightarrow> Inr kvs
   | JArr vs \<Rightarrow> (case bt_dict_of_list B vs of Some kvs \<Rightarrow> Inr kvs | None \<Rightarrow> Inl (Uncaught ''ValueError''))
   | JStr t \<Rightarrow> if t = [] then Inr [] else Inl (Uncaught ''ValueError'')
   | _ \<Rightarrow> Inl (Uncaught ''TypeError''))"

text \<open>The members of \<open>sorted(set(value))\<close>, \<open>{str(x) for x in value}\<close> and \<open>set(value)\<close>.\<close>

definition texts :: "json \<Rightarrow> sip_error + string list" where
  "texts v = bindE (iterate v) (mapE (\<lambda>x. case x of JStr t \<Rightarrow> Inr t | _ \<Rightarrow> Inl (Uncaught ''TypeError'')))"

definition strs :: "builtins \<Rightarrow> json \<Rightarrow> sip_error + string list" where
  "strs B v = bindE (iterate v) (\<lambda>vs. Inr (map (json_str (bt_str B)) vs))"

fun hashable :: "json \<Rightarrow> bool" where
  "hashable (JArr vs) = False"
| "hashable (JObj kvs) = False"
| "hashable v = True"

definition members :: "json \<Rightarrow> sip_error + json list" where
  "members v = bindE (iterate v) (\<lambda>vs. if list_all hashable vs then Inr vs else Inl (Uncaught ''TypeError''))"

abbreviation jarr :: "string list \<Rightarrow> json" where
  "jarr ts \<equiv> JArr (map JStr ts)"

section \<open>Policy inheritance\<close>

definition classification_rank :: "string \<Rightarrow> nat" where
  "classification_rank c = (case map_of [(''public'', 0), (''internal'', 1), (''confidential'', 2), (''restricted'', 3),
     (''critical_infrastructure'', 4), (''biometric'', 5), (''minor'', 5)] c of None \<Rightarrow> 99 | Some n \<Rightarrow> n)"

text \<open>\<open>max(values, key=rank)\<close>: the first of the largest.\<close>

fun max_by :: "('a \<Rightarrow> nat) \<Rightarrow> 'a \<Rightarrow> 'a list \<Rightarrow> 'a" where
  "max_by f best [] = best"
| "max_by f best (x # xs) = (if f best < f x then max_by f x xs else max_by f best xs)"

definition asset_sources :: "string \<Rightarrow> string \<Rightarrow> string list \<Rightarrow> db \<Rightarrow> asset_ref_row list" where
  "asset_sources tenant project names s = filter (\<lambda>r. r_tenant_id r = tenant \<and> r_project_id r = project \<and>
     r_asset_id r \<in> set (if names = [] then [''__none__''] else names)) (asset_refs s)"

definition representation_sources :: "string \<Rightarrow> string \<Rightarrow> string list \<Rightarrow> db \<Rightarrow> representation_row list" where
  "representation_sources tenant project names s = filter (\<lambda>r. re_tenant_id r = tenant \<and> re_project_id r = project \<and>
     re_representation_id r \<in> set (if names = [] then [''__none__''] else names)) (representations s)"

text \<open>The policies of the sources.\<close>

definition asset_policy :: "asset_ref_row \<Rightarrow> fields list" where
  "asset_policy r = (case jget_or (r_provenance_json r) ''policy'' (JObj []) of JObj kvs \<Rightarrow> [kvs] | _ \<Rightarrow> [])"

definition source_policies :: "asset_ref_row list \<Rightarrow> representation_row list \<Rightarrow> fields list" where
  "source_policies as rs = concat (map asset_policy as) @ map re_privacy_inheritance_json rs"

definition policy_classification :: "builtins \<Rightarrow> fields \<Rightarrow> string list" where
  "policy_classification B policy =
     (let c = jget policy ''classification'' in if truthy c then [json_str (bt_str B) c] else [])"

definition source_classifications :: "builtins \<Rightarrow> asset_ref_row list \<Rightarrow> representation_row list \<Rightarrow> fields \<Rightarrow> string list" where
  "source_classifications B as rs requested = map r_classification as @
     concat (map (\<lambda>r. policy_classification B (re_privacy_inheritance_json r)) rs) @ policy_classification B requested"

definition effective_classification :: "string list \<Rightarrow> string" where
  "effective_classification cs = (case cs of [] \<Rightarrow> ''internal'' | c # cs \<Rightarrow> max_by classification_rank c cs)"

text \<open>\<open>{str(item) for policy in policies for item in policy.get(key, [])}\<close>.\<close>

definition gather :: "builtins \<Rightarrow> string \<Rightarrow> fields list \<Rightarrow> sip_error + string list" where
  "gather B key policies = bindE (mapE (\<lambda>p. strs B (jget_or p key (JArr []))) policies) (\<lambda>xss. Inr (concat xss))"

definition source_legal_hold :: "asset_ref_row list \<Rightarrow> representation_row list \<Rightarrow> fields \<Rightarrow> bool" where
  "source_legal_hold as rs requested \<longleftrightarrow> list_ex r_legal_hold as \<or>
     list_ex (\<lambda>r. truthy (jget (re_privacy_inheritance_json r) ''legal_hold'')) rs \<or> truthy (jget requested ''legal_hold'')"

definition audience_sets :: "builtins \<Rightarrow> fields list \<Rightarrow> sip_error + string list list" where
  "audience_sets B policies = mapE (\<lambda>p. strs B (jget p ''allowed_audiences''))
     (filter (\<lambda>p. truthy (jget p ''allowed_audiences'')) policies)"

definition common_members :: "string list list \<Rightarrow> string list" where
  "common_members xss = (case xss of [] \<Rightarrow> [] | xs # yss \<Rightarrow> sorted_set (filter (\<lambda>x. list_all (\<lambda>ys. x \<in> set ys) yss) xs))"

text \<open>\<open>output_asset.legal_hold = True\<close> when a source is on hold.\<close>

definition put_asset_ref :: "asset_ref_row \<Rightarrow> db \<Rightarrow> db" where
  "put_asset_ref r s = s\<lparr>asset_refs := tput r_asset_id r (asset_refs s)\<rparr>"

definition inherit_hold :: "bool \<Rightarrow> asset_ref_row \<Rightarrow> db \<Rightarrow> db" where
  "inherit_hold hold r s = (if hold then put_asset_ref (r\<lparr>r_legal_hold := True\<rparr>) s else s)"

definition check_output_asset ::
  "string \<Rightarrow> string \<Rightarrow> string \<Rightarrow> string \<Rightarrow> bool \<Rightarrow> db \<Rightarrow> sip_error + string list \<times> db" where
  "check_output_asset tenant project output_id classification hold s =
     (case tget r_asset_id (asset_refs s) output_id of
        None \<Rightarrow> Inr ([''output_asset_reference_unresolved''], s)
      | Some r \<Rightarrow>
          if r_tenant_id r \<noteq> tenant \<or> r_project_id r \<noteq> project then Inr ([''output_asset_reference_unresolved''], s)
          else if classification_rank (r_classification r) < classification_rank classification
          then Inl (ValidationError ''DERIVATIVE_CLASSIFICATION_DOWNGRADE''
                 [(''output_asset_id'', JStr output_id), (''output_classification'', JStr (r_classification r)),
                  (''required_classification'', JStr classification)])
          else Inr ([], inherit_hold hold r s))"

definition seal_inheritance :: "runtime \<Rightarrow> fields \<Rightarrow> fields" where
  "seal_inheritance rt effective = jset ''inheritance_hash''
     (JStr (canonical_sha256 rt (JObj (filter (\<lambda>(k, _). k \<noteq> ''inheritance_hash'') effective)))) effective"

definition effective_privacy_inheritance ::
  "runtime \<Rightarrow> builtins \<Rightarrow> string \<Rightarrow> string \<Rightarrow> string \<Rightarrow> fields \<Rightarrow> fields \<Rightarrow> db \<Rightarrow> sip_error + fields \<times> db" where
  "effective_privacy_inheritance rt B tenant project output_id provenance requested s =
     bindE (texts (jget_or provenance ''source_ids'' (JArr []))) (\<lambda>named.
     bindE (texts (jget_or requested ''source_ids'' (JArr []))) (\<lambda>asked.
     let source_ids = sorted_set (named @ asked);
         as = asset_sources tenant project source_ids s;
         rs = representation_sources tenant project source_ids s;
         matched = map r_asset_id as @ map re_representation_id rs;
         policies = source_policies as rs @ [requested];
         hold = source_legal_hold as rs requested;
         classification = effective_classification (source_classifications B as rs requested) in
     bindE (gather B ''retention_classes'' (map re_privacy_inheritance_json rs @ [requested])) (\<lambda>retention.
     bindE (audience_sets B policies) (\<lambda>audiences.
     let allowed = common_members audiences in
     if audiences \<noteq> [] \<and> allowed = [] then Inl (ValidationError ''DERIVATIVE_AUDIENCE_POLICY_EMPTY'' [])
     else
     bindE (gather B ''consent_grant_ids'' policies) (\<lambda>consents.
     bindE (gather B ''export_dependencies'' policies) (\<lambda>exports.
     bindE (gather B ''deletion_dependencies'' policies) (\<lambda>deletions.
     bindE (gather B ''legal_hold_ids'' policies) (\<lambda>holds.
     bindE (check_output_asset tenant project output_id classification hold s) (\<lambda>(blockers, s1).
     let unresolved = sorted_set (filter (\<lambda>k. k \<notin> set matched) source_ids);
         blockers1 = blockers @ (if unresolved \<noteq> [] then [''source_policy_unresolved''] else []);
         effective = jupdate requested
           ([(''source_ids'', jarr source_ids), (''resolved_source_ids'', jarr (sorted_set matched)),
             (''unresolved_source_policy_ids'', jarr unresolved), (''classification'', JStr classification),
             (''retention_classes'', jarr (sorted_set (map r_retention_class as @ retention))),
             (''legal_hold'', JBool hold), (''policy_blockers'', jarr (sorted_set blockers1)),
             (''consent_grant_ids'', jarr (sorted_set consents)), (''export_dependencies'', jarr (sorted_set exports)),
             (''deletion_dependencies'', jarr (sorted_set deletions)), (''legal_hold_ids'', jarr (sorted_set holds))]
            @ (if allowed \<noteq> [] then [(''allowed_audiences'', jarr allowed)] else []))
     in Inr (seal_inheritance rt effective, s1))))))))))"

section \<open>Candidates\<close>

datatype representation_kind = Kind_METRIC | Kind_VISUAL | Kind_INTERACTION | Kind_DESIGN | Kind_EVIDENCE

fun representation_kind_value :: "representation_kind \<Rightarrow> string" where
  "representation_kind_value Kind_METRIC = ''metric''"
| "representation_kind_value Kind_VISUAL = ''visual''"
| "representation_kind_value Kind_INTERACTION = ''interaction''"
| "representation_kind_value Kind_DESIGN = ''design''"
| "representation_kind_value Kind_EVIDENCE = ''evidence''"

text \<open>The arguments; an optional dict or list that is \<open>None\<close> is empty, as \<open>x or {}\<close> makes it.\<close>

record candidate_args =
  cd_tenant_id :: string
  cd_project_id :: string
  cd_scene_id :: string
  cd_asset_id :: string
  cd_kind :: representation_kind
  cd_provider_id :: string
  cd_coordinate_frame_id :: string
  cd_source_class :: source_class
  cd_authority_class :: authority_class
  cd_lossy :: bool
  cd_intended_uses :: "string list"
  cd_prohibited_uses :: "string list"
  cd_quality :: fields
  cd_provenance :: fields
  cd_support_map :: fields
  cd_actor_id :: string
  cd_operation_id :: "string option"
  cd_representation_id :: "string option"
  cd_format_metadata :: fields
  cd_derivation_policy :: fields
  cd_limitations :: "string list"
  cd_information_losses :: "string list"
  cd_privacy_inheritance :: fields
  cd_dependencies :: "string list"
  cd_fallback_representation_id :: "string option"
  cd_metadata :: fields

definition effective_losses :: "candidate_args \<Rightarrow> string list" where
  "effective_losses a = (if cd_lossy a \<and> cd_information_losses a = [] then [''provider_declared_lossy_conversion'']
     else sorted_set (cd_information_losses a))"

definition check_candidate :: "builtins \<Rightarrow> string \<Rightarrow> candidate_args \<Rightarrow> sip_error + unit" where
  "check_candidate B representation_id a =
     (if cd_kind a = Kind_INTERACTION \<and> cd_authority_class a \<noteq> Authority_DERIVED_NON_AUTHORITATIVE
      then Inl (ValidationError ''INTERACTION_AUTHORITY_INVALID'' [])
      else if cd_kind a = Kind_VISUAL \<and> cd_authority_class a \<in> {Authority_METRIC, Authority_FIELD_VERIFIED}
      then Inl (ValidationError ''VISUAL_AUTHORITY_INVALID'' [])
      else if cd_kind a = Kind_METRIC \<and> cd_source_class a = Source_GENERATED \<and> cd_authority_class a = Authority_FIELD_VERIFIED
      then Inl (ValidationError ''GENERATED_VERIFICATION_INVALID'' [])
      else if sublist ''splat'' (py_lower (json_str (bt_str B) (jget_or (cd_format_metadata a) ''format'' (JStr [])))) \<and>
        \<not> truthy (jget (cd_metadata a) ''truth_label'')
      then Inl (ValidationError ''SPLAT_TRUTH_LABEL_REQUIRED'' [])
      else if cd_fallback_representation_id a = Some representation_id
      then Inl (ValidationError ''REPRESENTATION_FALLBACK_CYCLE'' [])
      else if py_strip (cd_scene_id a) = [] then Inl (ValidationError ''REPRESENTATION_SCENE_ID_INVALID'' [])
      else if py_strip (cd_asset_id a) = [] then Inl (ValidationError ''REPRESENTATION_ASSET_ID_INVALID'' [])
      else if py_strip (cd_coordinate_frame_id a) = [] then Inl (ValidationError ''REPRESENTATION_FRAME_ID_INVALID'' [])
      else Inr ())"

definition check_candidate_asset :: "candidate_args \<Rightarrow> db \<Rightarrow> sip_error + unit" where
  "check_candidate_asset a s =
     (case tget r_asset_id (asset_refs s) (cd_asset_id a) of
        None \<Rightarrow> Inl (NotFoundError ''asset'' (cd_asset_id a))
      | Some r \<Rightarrow>
          if r_tenant_id r \<noteq> cd_tenant_id a \<or> r_project_id r \<noteq> cd_project_id a \<or> r_tombstoned_at r \<noteq> None
          then Inl (NotFoundError ''asset'' (cd_asset_id a)) else Inr ())"

definition get_provider :: "db \<Rightarrow> string \<Rightarrow> provider_manifest_row option" where
  "get_provider s k = tget pm_provider_id (provider_manifests s) k"

definition expired_at :: "time option \<Rightarrow> time \<Rightarrow> bool" where
  "expired_at expires now = (case expires of None \<Rightarrow> False | Some t \<Rightarrow> t \<le> now)"

definition check_provider :: "candidate_args \<Rightarrow> time \<Rightarrow> db \<Rightarrow> sip_error + unit" where
  "check_provider a now s =
     (case get_provider s (cd_provider_id a) of
        None \<Rightarrow> Inl (NotFoundError ''provider_manifest'' (cd_provider_id a))
      | Some p \<Rightarrow>
          if pm_approval_state p \<noteq> ''approved''
          then Inl (AuthorizationError ''REPRESENTATION_PROVIDER_NOT_APPROVED''
                 [(''provider_id'', JStr (cd_provider_id a)), (''approval_state'', JStr (pm_approval_state p))])
          else if expired_at (pm_expires_at p) now
          then Inl (AuthorizationError ''REPRESENTATION_PROVIDER_APPROVAL_EXPIRED'' [(''provider_id'', JStr (cd_provider_id a))])
          else Inr ())"

definition check_fallback :: "candidate_args \<Rightarrow> db \<Rightarrow> sip_error + unit" where
  "check_fallback a s =
     (if \<not> truthy_str (cd_fallback_representation_id a) then Inr ()
      else let k = str_or (cd_fallback_representation_id a) [] in
        case get_representation s k of
          None \<Rightarrow> Inl (NotFoundError ''fallback_representation'' k)
        | Some r \<Rightarrow>
            if re_tenant_id r \<noteq> cd_tenant_id a \<or> re_project_id r \<noteq> cd_project_id a \<or> re_scene_id r \<noteq> cd_scene_id a
            then Inl (NotFoundError ''fallback_representation'' k) else Inr ())"

definition representation_of_operation :: "string \<Rightarrow> string \<Rightarrow> string \<Rightarrow> db \<Rightarrow> representation_row option" where
  "representation_of_operation tenant project operation_id s = find (\<lambda>r. re_tenant_id r = tenant \<and> re_project_id r = project \<and>
     re_operation_id r = Some operation_id) (representations s)"

definition authority_ceiling_of :: "candidate_args \<Rightarrow> string" where
  "authority_ceiling_of a = authority_class_value
     (if cd_kind a = Kind_INTERACTION then Authority_DERIVED_NON_AUTHORITATIVE else cd_authority_class a)"

text \<open>A repeated call of the same operation must describe the same candidate.\<close>

definition same_candidate :: "runtime \<Rightarrow> candidate_args \<Rightarrow> fields \<Rightarrow> representation_row \<Rightarrow> bool" where
  "same_candidate rt a privacy r \<longleftrightarrow> (let same = (\<lambda>x y. canonical_sha256 rt (JObj x) = canonical_sha256 rt (JObj y)) in
     re_scene_id r = cd_scene_id a \<and> re_asset_id r = cd_asset_id a \<and> re_kind r = representation_kind_value (cd_kind a) \<and>
     re_coordinate_frame_id r = cd_coordinate_frame_id a \<and> re_provider_id r = cd_provider_id a \<and>
     re_source_class r = source_class_value (cd_source_class a) \<and>
     re_authority_class r = authority_class_value (cd_authority_class a) \<and> re_lossy r = cd_lossy a \<and>
     re_intended_uses_json r = cd_intended_uses a \<and> re_prohibited_uses_json r = cd_prohibited_uses a \<and>
     same (re_provenance_json r) (cd_provenance a) \<and> same (re_format_json r) (cd_format_metadata a) \<and>
     same (re_derivation_policy_json r) (cd_derivation_policy a) \<and> re_limitations_json r = sorted_set (cd_limitations a) \<and>
     re_information_loss_json r = effective_losses a \<and> same (re_privacy_inheritance_json r) privacy \<and>
     re_dependencies_json r = sorted_set (cd_dependencies a) \<and>
     re_fallback_representation_id r = cd_fallback_representation_id a)"

definition candidate_manifest :: "runtime \<Rightarrow> candidate_args \<Rightarrow> string \<Rightarrow> fields \<Rightarrow> fields" where
  "candidate_manifest rt a representation_id privacy = [(''representation_id'', JStr representation_id),
     (''tenant_id'', JStr (cd_tenant_id a)), (''project_id'', JStr (cd_project_id a)), (''scene_id'', JStr (cd_scene_id a)),
     (''asset_id'', JStr (cd_asset_id a)), (''operation_id'', jopt (cd_operation_id a)),
     (''kind'', JStr (representation_kind_value (cd_kind a))), (''provider_id'', JStr (cd_provider_id a)),
     (''coordinate_frame_id'', JStr (cd_coordinate_frame_id a)), (''source_class'', JStr (source_class_value (cd_source_class a))),
     (''authority_class'', JStr (authority_class_value (cd_authority_class a))),
     (''authority_ceiling'', JStr (authority_ceiling_of a)), (''lossy'', JBool (cd_lossy a)),
     (''intended_uses'', jarr (cd_intended_uses a)), (''prohibited_uses'', jarr (cd_prohibited_uses a)),
     (''format'', JObj (cd_format_metadata a)), (''derivation_policy'', JObj (cd_derivation_policy a)),
     (''limitations'', jarr (sorted_set (cd_limitations a))), (''information_losses'', jarr (effective_losses a)),
     (''privacy_inheritance'', JObj privacy), (''dependencies'', jarr (sorted_set (cd_dependencies a))),
     (''fallback_representation_id'', jopt (cd_fallback_representation_id a)), (''metadata'', JObj (cd_metadata a)),
     (''provenance_hash'', JStr (canonical_sha256 rt (JObj (cd_provenance a)))),
     (''support_map_hash'', JStr (canonical_sha256 rt (JObj (cd_support_map a))))]"

definition new_candidate :: "runtime \<Rightarrow> time \<Rightarrow> candidate_args \<Rightarrow> string \<Rightarrow> fields \<Rightarrow> representation_row" where
  "new_candidate rt now a representation_id privacy =
     \<lparr>re_representation_id = representation_id, re_tenant_id = cd_tenant_id a, re_project_id = cd_project_id a,
      re_scene_id = cd_scene_id a, re_asset_id = cd_asset_id a, re_operation_id = cd_operation_id a,
      re_kind = representation_kind_value (cd_kind a), re_provider_id = cd_provider_id a,
      re_coordinate_frame_id = cd_coordinate_frame_id a, re_source_class = source_class_value (cd_source_class a),
      re_authority_class = authority_class_value (cd_authority_class a), re_authority_ceiling = authority_ceiling_of a,
      re_disposable = (cd_kind a = Kind_INTERACTION), re_lossy = cd_lossy a, re_intended_uses_json = cd_intended_uses a,
      re_prohibited_uses_json = cd_prohibited_uses a, re_quality_json = cd_quality a, re_provenance_json = cd_provenance a,
      re_support_map_json = cd_support_map a, re_format_json = cd_format_metadata a,
      re_derivation_policy_json = cd_derivation_policy a, re_limitations_json = sorted_set (cd_limitations a),
      re_information_loss_json = effective_losses a, re_privacy_inheritance_json = privacy,
      re_dependencies_json = sorted_set (cd_dependencies a),
      re_fallback_representation_id = cd_fallback_representation_id a,
      re_manifest_hash = Some (canonical_sha256 rt (JObj (candidate_manifest rt a representation_id privacy))),
      re_metadata_json = cd_metadata a, re_deprecated_at = None, re_state = ''quarantined'', re_created_at = now\<rparr>"

text \<open>\<open>uq_representation_operation\<close>: one representation per operation of a project.\<close>

definition insert_representation :: "representation_row \<Rightarrow> db \<Rightarrow> sip_error + db" where
  "insert_representation r s =
     (if re_operation_id r \<noteq> None \<and> list_ex (\<lambda>x. re_tenant_id x = re_tenant_id r \<and> re_project_id x = re_project_id r \<and>
           re_operation_id x = re_operation_id r) (representations s)
      then Inl (Uncaught ''IntegrityError'')
      else bindE (insert_row re_representation_id r (representations s)) (\<lambda>rows. Inr (s\<lparr>representations := rows\<rparr>)))"

definition representation_event ::
  "string \<Rightarrow> string \<Rightarrow> string \<Rightarrow> string \<Rightarrow> fields \<Rightarrow> string \<Rightarrow> string option \<Rightarrow> string option \<Rightarrow> event_spec" where
  "representation_event event_type tenant project k payload actor correlation causation =
     \<lparr>es_event_type = event_type, es_schema_version = ''1.0.0'', es_tenant_id = tenant, es_project_id = Some project,
      es_aggregate_type = ''representation'', es_aggregate_id = k, es_payload = payload, es_producer = ''representation-api'',
      es_actor_id = Some actor, es_workload_identity = None, es_traceparent = None, es_correlation_id = correlation,
      es_causation_id = causation\<rparr>"

definition add_candidate ::
  "runtime \<Rightarrow> string \<Rightarrow> event_catalog \<Rightarrow> env \<Rightarrow> candidate_args \<Rightarrow> string \<Rightarrow> fields \<Rightarrow> db \<Rightarrow> sip_error + string \<times> db" where
  "add_candidate rt key cat E a representation_id privacy s =
     (let row = new_candidate rt (clk E 1) a representation_id privacy; kind = JStr (representation_kind_value (cd_kind a)) in
      bindE (insert_representation row s) (\<lambda>s1.
      bindE (emit_event rt cat (ids E 1) (clk E 2)
        (representation_event ''representation.candidate_created'' (cd_tenant_id a) (cd_project_id a) representation_id
           [(''candidate_id'', JStr representation_id), (''representation_id'', JStr representation_id),
            (''operation_id'', jopt (cd_operation_id a)), (''asset_id'', JStr (cd_asset_id a)), (''kind'', kind),
            (''provider_id'', JStr (cd_provider_id a)), (''state'', JStr ''quarantined''),
            (''manifest_hash'', jopt (re_manifest_hash row)), (''authority_ceiling'', JStr (authority_ceiling_of a))]
           (cd_actor_id a) (Some (str_or (cd_operation_id a) representation_id)) (cd_operation_id a)) s1) (\<lambda>s2.
      bindE (append_audit rt key (ids E 2) (clk E 3)
        (audit_entry (cd_tenant_id a) (Some (cd_project_id a)) (cd_actor_id a) ''representation:candidate_create''
           ''representation'' representation_id ''allowed'' [(''kind'', kind), (''provider_id'', JStr (cd_provider_id a)),
             (''state'', JStr ''quarantined'')]) s2) (\<lambda>s3.
      Inr (representation_id, s3)))))"

definition create_candidate ::
  "runtime \<Rightarrow> string \<Rightarrow> event_catalog \<Rightarrow> builtins \<Rightarrow> env \<Rightarrow> candidate_args \<Rightarrow> db \<Rightarrow> sip_error + string \<times> db" where
  "create_candidate rt key cat B E a s =
     (let representation_id = str_or (cd_representation_id a) (ids E 0) in
      bindE (check_candidate B representation_id a) (\<lambda>_.
      bindE (check_candidate_asset a s) (\<lambda>_.
      bindE (check_frame (cd_tenant_id a) (cd_project_id a) (cd_coordinate_frame_id a) s) (\<lambda>_.
      if \<not> scene_exists (cd_tenant_id a) (cd_project_id a) (cd_scene_id a) s then Inl (NotFoundError ''scene'' (cd_scene_id a))
      else
      bindE (check_provider a (clk E 0) s) (\<lambda>_.
      bindE (effective_privacy_inheritance rt B (cd_tenant_id a) (cd_project_id a) (cd_asset_id a) (cd_provenance a)
               (cd_privacy_inheritance a) s) (\<lambda>(privacy, s1).
      bindE (check_fallback a s1) (\<lambda>_.
      if representation_id \<in> set (cd_dependencies a) then Inl (ValidationError ''REPRESENTATION_DEPENDENCY_CYCLE'' [])
      else case (if truthy_str (cd_operation_id a)
                 then representation_of_operation (cd_tenant_id a) (cd_project_id a) (str_or (cd_operation_id a) []) s1 else None) of
        Some existing \<Rightarrow>
          if \<not> same_candidate rt a privacy existing then Inl (ConflictError ''REPRESENTATION_OPERATION_CONFLICT'' [])
          else if re_representation_id existing \<noteq> representation_id
          then Inl (ConflictError ''REPRESENTATION_IDEMPOTENCY_CONFLICT'' [])
          else Inr (re_representation_id existing, s1)
      | None \<Rightarrow>
          if get_representation s1 representation_id \<noteq> None
          then Inl (ConflictError ''REPRESENTATION_ID_CONFLICT'' [(''representation_id'', JStr representation_id)])
          else add_candidate rt key cat E a representation_id privacy s1)))))))"

section \<open>Worker receipts and reviews\<close>

definition put_representation :: "representation_row \<Rightarrow> db \<Rightarrow> db" where
  "put_representation r s = s\<lparr>representations := tput re_representation_id r (representations s)\<rparr>"

definition receipt_provenance :: "string \<Rightarrow> string \<Rightarrow> json list \<Rightarrow> fields \<Rightarrow> fields" where
  "receipt_provenance receipt_hash core_hash receipts provenance =
     (let evidence = JObj [(''worker_receipt_hash'', JStr receipt_hash), (''candidate_core_hash'', JStr core_hash)] in
      jupdate provenance [(''worker_receipt_hash'', JStr receipt_hash), (''candidate_core_hash'', JStr core_hash),
        (''worker_receipts'', JArr (if list_ex (\<lambda>x. py_eq x evidence) receipts then receipts else receipts @ [evidence]))])"

definition attach_worker_receipt ::
  "runtime \<Rightarrow> string \<Rightarrow> env \<Rightarrow> string \<Rightarrow> string \<Rightarrow> string \<Rightarrow> string \<Rightarrow> string \<Rightarrow> string \<Rightarrow> db
     \<Rightarrow> sip_error + string \<times> db" where
  "attach_worker_receipt rt key E tenant project operation_id receipt_hash core_hash actor s =
     (case representation_of_operation tenant project operation_id s of
        None \<Rightarrow> Inl (NotFoundError ''representation_candidate_for_operation'' operation_id)
      | Some r \<Rightarrow>
          if re_state r \<noteq> ''quarantined''
          then Inl (ConflictError ''REPRESENTATION_RECEIPT_STATE_CONFLICT'' [(''state'', JStr (re_state r))])
          else let core = jget (re_provenance_json r) ''candidate_core_hash'';
                   stored = jget (re_provenance_json r) ''worker_receipts'' in
            if truthy core \<and> core \<noteq> JStr core_hash then Inl (ConflictError ''REPRESENTATION_RECEIPT_CONFLICT'' [])
            else bindE (if truthy stored then iterate stored else Inr []) (\<lambda>receipts.
              bindE (append_audit rt key (ids E 0) (clk E 0)
                (audit_entry tenant (Some project) actor ''representation:worker_receipt_attach'' ''representation''
                   (re_representation_id r) ''allowed'' [(''operation_id'', JStr operation_id),
                     (''worker_receipt_hash'', JStr receipt_hash), (''candidate_core_hash'', JStr core_hash)])
                (put_representation (r\<lparr>re_provenance_json := receipt_provenance receipt_hash core_hash receipts (re_provenance_json r)\<rparr>) s)) (\<lambda>s1.
              Inr (re_representation_id r, s1))))"

definition candidate_for_operation :: "string \<Rightarrow> string \<Rightarrow> string \<Rightarrow> db \<Rightarrow> sip_error + representation_row option \<times> db" where
  "candidate_for_operation tenant project operation_id s = Inr (representation_of_operation tenant project operation_id s, s)"

record review_args =
  rv_representation_id :: string
  rv_reviewer_id :: string
  rv_approved_uses :: "string list"
  rv_metrics :: fields
  rv_passed :: bool

definition newly_approved :: "review_args \<Rightarrow> string list" where
  "newly_approved a = (if rv_passed a then rv_approved_uses a else [])"

definition validation_record :: "runtime \<Rightarrow> time \<Rightarrow> review_args \<Rightarrow> fields" where
  "validation_record rt now a = [(''reviewer_id'', JStr (rv_reviewer_id a)), (''passed'', JBool (rv_passed a)),
     (''approved_uses'', jarr (sorted_set (newly_approved a))), (''metrics'', JObj (rv_metrics a)),
     (''metrics_hash'', JStr (canonical_sha256 rt (JObj (rv_metrics a)))), (''reviewed_at'', JStr (isoformat now)),
     (''independent_from_worker'', JBool True)]"

text \<open>\<open>any(item.get("validation_hash") == validation_hash for item in validations)\<close>.\<close>

fun has_validation :: "string \<Rightarrow> json list \<Rightarrow> sip_error + bool" where
  "has_validation h [] = Inr False"
| "has_validation h (item # items) = bindE (attr_get item ''validation_hash'' JNull) (\<lambda>v.
     if v = JStr h then Inr True else has_validation h items)"

definition merge_review :: "runtime \<Rightarrow> builtins \<Rightarrow> time \<Rightarrow> review_args \<Rightarrow> fields \<Rightarrow> sip_error + string list \<times> fields" where
  "merge_review rt B now a quality =
     bindE (py_dict B (jget_or quality ''review'' (JObj []))) (\<lambda>prior.
     bindE (strs B (jget_or prior ''approved_uses'' (JArr []))) (\<lambda>approved.
     bindE (iterate (jget_or prior ''validations'' (JArr []))) (\<lambda>validations.
     let new = validation_record rt now a; h = canonical_sha256 rt (JObj new);
         merged = sorted_set (approved @ newly_approved a) in
     bindE (has_validation h validations) (\<lambda>known.
     Inr (merged, jset ''review'' (JObj [(''reviewer_id'', JStr (rv_reviewer_id a)), (''approved_uses'', jarr merged),
       (''metrics'', JObj (rv_metrics a)), (''reviewed_at'', JStr (isoformat now)), (''independent_from_worker'', JBool True),
       (''validations'', JArr (if known then validations else validations @ [JObj (jset ''validation_hash'' (JStr h) new)]))])
       quality)))))"

definition is_worker :: "string \<Rightarrow> bool" where
  "is_worker identity = prefix ''sip-worker:'' identity"

definition review_quality ::
  "runtime \<Rightarrow> string \<Rightarrow> builtins \<Rightarrow> env \<Rightarrow> review_args \<Rightarrow> db \<Rightarrow> sip_error + (string \<times> string list) \<times> db" where
  "review_quality rt key B E a s =
     (case get_representation s (rv_representation_id a) of
        None \<Rightarrow> Inl (NotFoundError ''representation'' (rv_representation_id a))
      | Some r \<Rightarrow>
          if is_worker (rv_reviewer_id a) then Inl (AuthorizationError ''WORKER_REVIEWER_NOT_INDEPENDENT'' [])
          else if re_state r \<notin> set [''quarantined'', ''quality_failed'', ''approved'']
          then Inl (ConflictError ''REPRESENTATION_REVIEW_STATE'' [])
          else if truthy_str (re_operation_id r) \<and> \<not> (truthy (jget (re_provenance_json r) ''worker_receipt_hash'') \<and>
            truthy (jget (re_provenance_json r) ''candidate_core_hash''))
          then Inl (ConflictError ''REPRESENTATION_WORKER_EVIDENCE_MISSING'' [])
          else let unrequested = sorted_set (filter (\<lambda>u. u \<notin> set (re_intended_uses_json r)) (rv_approved_uses a)) in
            if unrequested \<noteq> [] then Inl (ValidationError ''REPRESENTATION_USE_NOT_REQUESTED'' [(''uses'', jarr unrequested)])
            else if rv_passed a \<and> (rv_approved_uses a = [] \<or> rv_metrics a = [])
            then Inl (ValidationError ''REPRESENTATION_REVIEW_EVIDENCE_INCOMPLETE'' [])
            else bindE (merge_review rt B (clk E 0) a (re_quality_json r)) (\<lambda>(merged, quality).
              let state = (if merged \<noteq> [] then ''approved'' else ''quality_failed'');
                  approved = sorted_set (newly_approved a) in
              bindE (append_audit rt key (ids E 0) (clk E 1)
                (audit_entry (re_tenant_id r) (Some (re_project_id r)) (rv_reviewer_id a) ''representation:quality_review''
                   ''representation'' (re_representation_id r) ''allowed'' [(''passed'', JBool (rv_passed a)),
                     (''approved_uses'', jarr approved), (''metrics_hash'', JStr (canonical_sha256 rt (JObj (rv_metrics a))))])
                (put_representation (r\<lparr>re_quality_json := quality, re_state := state\<rparr>) s)) (\<lambda>s1.
              Inr ((state, approved), s1))))"

section \<open>Invalidation\<close>

record regeneration_plan =
  rp_representation_id :: string
  rp_operation_type :: "string option"
  rp_idempotency_key :: string
  rp_input_manifest :: fields
  rp_input_manifest_hash :: string
  rp_blocked_reasons :: "string list"

definition policy_revocation :: "string \<Rightarrow> bool" where
  "policy_revocation reason = contains_any [''consent'', ''revok'', ''delet'', ''legal hold'', ''privacy''] (py_lower reason)"

definition references :: "representation_row \<Rightarrow> sip_error + json list" where
  "references r =
     bindE (members (jget_or (re_provenance_json r) ''source_ids'' (JArr []))) (\<lambda>a.
     bindE (members (jget_or (re_privacy_inheritance_json r) ''source_ids'' (JArr []))) (\<lambda>b.
     bindE (members (jget_or (re_privacy_inheritance_json r) ''consent_grant_ids'' (JArr []))) (\<lambda>c.
     bindE (members (jget_or (re_privacy_inheritance_json r) ''deletion_dependencies'' (JArr []))) (\<lambda>d.
     Inr (map JStr (re_dependencies_json r) @ a @ b @ c @ d)))))"

definition rebuild_input :: "string \<Rightarrow> string \<Rightarrow> representation_row \<Rightarrow> string list \<Rightarrow> fields" where
  "rebuild_input changed reason r sources = [(''schema'', JStr ''sip.representation-regeneration/v1''),
     (''invalidated_representation_id'', JStr (re_representation_id r)), (''scene_id'', JStr (re_scene_id r)),
     (''provider_id'', JStr (re_provider_id r)), (''kind'', JStr (re_kind r)),
     (''coordinate_frame_id'', JStr (re_coordinate_frame_id r)), (''changed_resource_id'', JStr changed),
     (''reason'', JStr reason), (''source_ids'', jarr (sorted_set sources)),
     (''dependencies'', jarr (sorted_set (re_dependencies_json r))), (''derivation_policy'', JObj (re_derivation_policy_json r)),
     (''prior_manifest_hash'', jopt (re_manifest_hash r))]"

definition regeneration_plan_of ::
  "runtime \<Rightarrow> builtins \<Rightarrow> string \<Rightarrow> string \<Rightarrow> representation_row \<Rightarrow> sip_error + regeneration_plan" where
  "regeneration_plan_of rt B changed reason r =
     bindE (texts (jget_or (re_provenance_json r) ''source_ids'' (JArr []))) (\<lambda>sources.
     bindE (strs B (jget_or (re_privacy_inheritance_json r) ''policy_blockers'' (JArr []))) (\<lambda>blockers.
     let input = rebuild_input changed reason r sources; h = canonical_sha256 rt (JObj input);
         operation_type = py_strip (json_str (bt_str B) (jget_or (re_derivation_policy_json r) ''operation_type'' (JStr []))) in
     Inr \<lparr>rp_representation_id = re_representation_id r,
          rp_operation_type = (if operation_type = [] then None else Some operation_type),
          rp_idempotency_key = ''regenerate:'' @ re_representation_id r @ '':'' @ take 16 h,
          rp_input_manifest = input, rp_input_manifest_hash = h,
          rp_blocked_reasons = sorted_set ((if operation_type = [] then [''missing_operation_type''] else []) @
            (if policy_revocation reason then [''policy_reauthorization_required''] else []) @ blockers)\<rparr>))"

definition plan_json :: "regeneration_plan \<Rightarrow> json" where
  "plan_json p = JObj [(''representation_id'', JStr (rp_representation_id p)), (''operation_type'', jopt (rp_operation_type p)),
     (''idempotency_key'', JStr (rp_idempotency_key p)), (''input_manifest'', JObj (rp_input_manifest p)),
     (''input_manifest_hash'', JStr (rp_input_manifest_hash p)), (''blocked_reasons'', jarr (rp_blocked_reasons p)),
     (''queued'', JBool False), (''operation_id'', JNull)]"

definition binds :: "representation_row \<Rightarrow> representation_binding_row \<Rightarrow> bool" where
  "binds r b \<longleftrightarrow> bi_tenant_id b = re_tenant_id r \<and> bi_project_id b = re_project_id r \<and>
     bi_representation_id b = re_representation_id r \<and> bi_superseded_at b = None"

definition supersede_bindings :: "(representation_binding_row \<Rightarrow> bool) \<Rightarrow> time \<Rightarrow> db \<Rightarrow> db" where
  "supersede_bindings P now s = s\<lparr>representation_bindings :=
     map (\<lambda>b. if P b then b\<lparr>bi_superseded_at := Some now\<rparr> else b) (representation_bindings s)\<rparr>"

definition invalidated :: "string \<Rightarrow> string \<Rightarrow> time \<Rightarrow> regeneration_plan \<Rightarrow> representation_row \<Rightarrow> representation_row" where
  "invalidated changed reason now plan r = r\<lparr>re_state := ''invalidated'', re_deprecated_at := Some now,
     re_metadata_json := jupdate (re_metadata_json r)
       [(''invalidation'', JObj [(''resource_id'', JStr changed), (''reason'', JStr reason), (''at'', JStr (isoformat now))]),
        (''regeneration_plan'', plan_json plan)]\<rparr>"

record invalidation_report =
  ir_invalidated :: "string list"
  ir_superseded_bindings :: "string list"
  ir_plans :: "regeneration_plan list"

text \<open>One dependent representation; \<open>n\<close> counts the ones before it.\<close>

definition invalidate_one ::
  "runtime \<Rightarrow> string \<Rightarrow> event_catalog \<Rightarrow> builtins \<Rightarrow> env \<Rightarrow> string \<Rightarrow> string \<Rightarrow> string \<Rightarrow> string \<Rightarrow> string
     \<Rightarrow> representation_row \<Rightarrow> invalidation_report \<times> db \<Rightarrow> sip_error + invalidation_report \<times> db" where
  "invalidate_one rt key cat B E tenant project changed reason actor r acc =
     (case acc of (rep, s) \<Rightarrow>
      bindE (references r) (\<lambda>refs.
      if JStr changed \<notin> set refs then Inr (rep, s)
      else bindE (regeneration_plan_of rt B changed reason r) (\<lambda>plan.
        let n = length (ir_plans rep); now = clk E 0; bound = filter (binds r) (representation_bindings s);
            payload = [(''representation_id'', JStr (re_representation_id r)), (''changed_resource_id'', JStr changed),
              (''reason'', JStr reason), (''superseded_binding_count'', JInt (int (length bound))),
              (''regeneration_plan_hash'', JStr (rp_input_manifest_hash plan)),
              (''regeneration_blocked_reasons'', jarr (rp_blocked_reasons plan))] in
        bindE (emit_event rt cat (ids E (2 * n)) (clk E (2 * n + 1))
          (representation_event ''representation.dependency_invalidated'' tenant project (re_representation_id r) payload actor
             None (Some changed))
          (supersede_bindings (binds r) now (put_representation (invalidated changed reason now plan r) s))) (\<lambda>s1.
        bindE (append_audit rt key (ids E (2 * n + 1)) (clk E (2 * n + 2))
          (audit_entry tenant (Some project) actor ''representation:dependency_invalidate'' ''representation''
             (re_representation_id r) ''allowed'' payload) s1) (\<lambda>s2.
        Inr (\<lparr>ir_invalidated = ir_invalidated rep @ [re_representation_id r],
              ir_superseded_bindings = ir_superseded_bindings rep @ map bi_binding_id bound,
              ir_plans = ir_plans rep @ [plan]\<rparr>, s2))))))"

definition invalidation_session ::
  "runtime \<Rightarrow> string \<Rightarrow> event_catalog \<Rightarrow> builtins \<Rightarrow> env \<Rightarrow> string \<Rightarrow> string \<Rightarrow> string \<Rightarrow> string \<Rightarrow> string \<Rightarrow> db
     \<Rightarrow> sip_error + invalidation_report \<times> db" where
  "invalidation_session rt key cat B E tenant project changed reason actor s =
     foldE (invalidate_one rt key cat B E tenant project changed reason actor)
       (filter (\<lambda>r. re_tenant_id r = tenant \<and> re_project_id r = project \<and> re_deprecated_at r = None) (representations s))
       (\<lparr>ir_invalidated = [], ir_superseded_bindings = [], ir_plans = []\<rparr>, s)"

text \<open>After the session a plan without blockers is to be queued through \<open>self.operations\<close>, an
  attribute that \<open>RepresentationService\<close> does not have.\<close>

definition invalidate_dependencies ::
  "runtime \<Rightarrow> string \<Rightarrow> event_catalog \<Rightarrow> builtins \<Rightarrow> env \<Rightarrow> string \<Rightarrow> string \<Rightarrow> string \<Rightarrow> string \<Rightarrow> string \<Rightarrow> bool \<Rightarrow> db
     \<Rightarrow> (sip_error + invalidation_report) \<times> db" where
  "invalidate_dependencies rt key cat B E tenant project changed reason actor requeue s =
     (if reason = [] then (Inl (ValidationError ''REPRESENTATION_INVALIDATION_REASON_REQUIRED'' []), s)
      else case session (invalidation_session rt key cat B E tenant project changed reason actor) s of
        (Inl e, s') \<Rightarrow> (Inl e, s')
      | (Inr report, s') \<Rightarrow>
          if requeue \<and> list_ex (\<lambda>p. rp_blocked_reasons p = []) (ir_plans report)
          then (Inl (Uncaught ''AttributeError''), s')
          else (Inr report, s'))"

section \<open>Selection for a view\<close>

record view_args =
  vw_tenant_id :: string
  vw_project_id :: string
  vw_scene_id :: string
  vw_intended_use :: string
  vw_audience :: string
  vw_role :: "string option"
  vw_client_profile :: fields

record selected_layer =
  sl_binding_id :: string
  sl_representation_id :: string
  sl_kind :: string
  sl_role :: string
  sl_coordinate_frame_id :: string
  sl_transform :: "rat list list"
  sl_authority_class :: string
  sl_authority_ceiling :: string
  sl_intended_uses :: "string list"
  sl_used_fallback :: bool

definition available :: "representation_row option \<Rightarrow> bool" where
  "available r = (case r of None \<Rightarrow> False | Some x \<Rightarrow> re_state x = ''published'' \<and> re_deprecated_at x = None)"

definition layer_of :: "representation_binding_row \<Rightarrow> representation_row \<Rightarrow> bool \<Rightarrow> selected_layer" where
  "layer_of b r used_fallback = \<lparr>sl_binding_id = bi_binding_id b, sl_representation_id = re_representation_id r,
     sl_kind = re_kind r, sl_role = bi_role b, sl_coordinate_frame_id = bi_coordinate_frame_id b,
     sl_transform = bi_transform_json b, sl_authority_class = bi_authority_class b,
     sl_authority_ceiling = bi_authority_ceiling b, sl_intended_uses = bi_intended_uses_json b,
     sl_used_fallback = used_fallback\<rparr>"

text \<open>The decision on one binding: skipped (another role), a reason to reject it, or a layer.\<close>

datatype view_decision = Skipped | Rejected string | Selected selected_layer

definition fallback_of :: "representation_row \<Rightarrow> db \<Rightarrow> representation_row option" where
  "fallback_of r s = (if truthy_str (re_fallback_representation_id r)
     then get_representation s (str_or (re_fallback_representation_id r) []) else None)"

definition client_decision :: "json list \<Rightarrow> json list \<Rightarrow> representation_binding_row \<Rightarrow> representation_row \<Rightarrow> db \<Rightarrow> view_decision" where
  "client_decision capabilities required b r s =
     (if list_all (\<lambda>x. list_ex (py_eq x) capabilities) required then Selected (layer_of b r False)
      else case fallback_of r s of
        Some f \<Rightarrow> if available (Some f) then Selected (layer_of b f True) else Rejected ''client_incompatible_no_fallback''
      | None \<Rightarrow> Rejected ''client_incompatible_no_fallback'')"

definition view_decision_of :: "view_args \<Rightarrow> json list \<Rightarrow> db \<Rightarrow> representation_binding_row \<Rightarrow> sip_error + view_decision" where
  "view_decision_of a capabilities s b =
     (if truthy_str (vw_role a) \<and> vw_role a \<noteq> Some (bi_role b) then Inr Skipped
      else if vw_intended_use a \<notin> set (bi_intended_uses_json b) then Inr (Rejected ''intended_use_not_bound'')
      else bindE (members (jget_or (bi_audience_policy_json b) ''allowed_audiences'' (JArr [JStr (vw_audience a)]))) (\<lambda>allowed.
        if JStr (vw_audience a) \<notin> set allowed then Inr (Rejected ''audience_denied'')
        else case get_representation s (bi_representation_id b) of
          None \<Rightarrow> Inr (Rejected ''representation_unavailable'')
        | Some r \<Rightarrow>
            if \<not> available (Some r) then Inr (Rejected ''representation_unavailable'')
            else bindE (members (jget_or (bi_client_profile_json b) ''required_capabilities'' (JArr []))) (\<lambda>required.
              Inr (client_decision capabilities required b r s))))"

definition view_bindings :: "view_args \<Rightarrow> db \<Rightarrow> representation_binding_row list" where
  "view_bindings a s = sort_key (\<lambda>b. - bi_published_at b) (filter (\<lambda>b. bi_tenant_id b = vw_tenant_id a \<and>
     bi_project_id b = vw_project_id a \<and> bi_scene_id b = vw_scene_id a \<and> bi_superseded_at b = None) (representation_bindings s))"

record view_result =
  vr_selected :: "selected_layer list"
  vr_by_kind :: "(string \<times> selected_layer list) list"
  vr_rejected :: "(string \<times> string) list"

definition group_by_kind :: "selected_layer list \<Rightarrow> (string \<times> selected_layer list) list" where
  "group_by_kind ls = map (\<lambda>k. (k, filter (\<lambda>l. sl_kind l = k) ls)) (rev (remdups (rev (map sl_kind ls))))"

definition select_for_view :: "view_args \<Rightarrow> db \<Rightarrow> sip_error + view_result \<times> db" where
  "select_for_view a s =
     bindE (members (jget_or (vw_client_profile a) ''capabilities'' (JArr []))) (\<lambda>capabilities.
     bindE (mapE (\<lambda>b. bindE (view_decision_of a capabilities s b) (\<lambda>d. Inr (b, d))) (view_bindings a s)) (\<lambda>decisions.
     let selected = concat (map (\<lambda>(_, d). case d of Selected l \<Rightarrow> [l] | _ \<Rightarrow> []) decisions) in
     Inr (\<lparr>vr_selected = selected, vr_by_kind = group_by_kind selected,
          vr_rejected = concat (map (\<lambda>(b, d). case d of Rejected reason \<Rightarrow> [(bi_binding_id b, reason)] | _ \<Rightarrow> []) decisions)\<rparr>, s)))"

section \<open>Replacement of proxies\<close>

definition anchor_supported :: "json list \<Rightarrow> json \<Rightarrow> sip_error + bool" where
  "anchor_supported supported anchor = bindE (attr_get anchor ''semantic_support_id'' JNull) (\<lambda>k.
     if hashable k then Inr (list_ex (py_eq k) supported) else Inl (Uncaught ''TypeError''))"

definition replace_proxy :: "string \<Rightarrow> string \<Rightarrow> db \<Rightarrow> sip_error + (json list \<times> json list) \<times> db" where
  "replace_proxy old_id new_id s =
     (case (get_representation s old_id, get_representation s new_id) of
        (Some old, Some new) \<Rightarrow>
          if re_kind old \<noteq> ''interaction'' \<or> re_kind new \<noteq> ''interaction'' then Inl (ValidationError ''PROXY_REPLACEMENT_INVALID'' [])
          else if re_scene_id old \<noteq> re_scene_id new \<or> re_coordinate_frame_id old \<noteq> re_coordinate_frame_id new
          then Inl (ValidationError ''PROXY_REPLACEMENT_FRAME_MISMATCH'' [])
          else bindE (members (jget_or (re_support_map_json new) ''semantic_support_ids'' (JArr []))) (\<lambda>supported.
            bindE (iterate (jget_or (re_support_map_json old) ''anchors'' (JArr []))) (\<lambda>anchors.
            bindE (mapE (\<lambda>x. bindE (anchor_supported supported x) (\<lambda>y. Inr (x, y))) anchors) (\<lambda>marked.
            let reprojected = map fst (filter snd marked); unresolved = map fst (filter (\<lambda>(_, y). \<not> y) marked);
                s1 = put_representation (new\<lparr>re_support_map_json := jupdate (re_support_map_json new)
                       [(''anchors'', JArr reprojected), (''replaces'', JStr old_id)]\<rparr>) s in
            Inr ((reprojected, unresolved),
              case get_representation s1 old_id of
                None \<Rightarrow> s1 | Some old' \<Rightarrow> put_representation (old'\<lparr>re_state := ''superseded''\<rparr>) s1))))
      | _ \<Rightarrow> Inl (ValidationError ''PROXY_REPLACEMENT_INVALID'' []))"

section \<open>Handlers\<close>

definition api_create_representation ::
  "runtime \<Rightarrow> string \<Rightarrow> event_catalog \<Rightarrow> builtins \<Rightarrow> env \<Rightarrow> env \<Rightarrow> principal \<Rightarrow> string \<Rightarrow> candidate_args \<Rightarrow> db
     \<Rightarrow> (sip_error + json) \<times> db" where
  "api_create_representation rt key cat B E F p project a s =
     guarded rt key E p (api_request ''representation:*'' (p_tenant_id p) (Some project))
       (\<lambda>t. bindE (create_candidate rt key cat B F (a\<lparr>cd_tenant_id := p_tenant_id p, cd_project_id := project,
              cd_actor_id := subject_id p\<rparr>) t) (\<lambda>(k, u).
            Inr (JObj [(''representation_id'', JStr k), (''state'', JStr ''quarantined'')], u))) s"

definition api_review_representation ::
  "runtime \<Rightarrow> string \<Rightarrow> builtins \<Rightarrow> env \<Rightarrow> env \<Rightarrow> principal \<Rightarrow> review_args \<Rightarrow> db \<Rightarrow> (sip_error + string \<times> string list) \<times> db" where
  "api_review_representation rt key B E F p a s =
     guarded rt key E p (api_request ''scene:review'' (p_tenant_id p) None)
       (review_quality rt key B F (a\<lparr>rv_reviewer_id := subject_id p\<rparr>)) s"

definition api_replace_proxy ::
  "runtime \<Rightarrow> string \<Rightarrow> env \<Rightarrow> principal \<Rightarrow> string \<Rightarrow> string \<Rightarrow> db \<Rightarrow> (sip_error + json list \<times> json list) \<times> db" where
  "api_replace_proxy rt key E p old_id new_id s =
     guarded rt key E p (api_request ''representation:*'' (p_tenant_id p) None) (replace_proxy old_id new_id) s"

definition api_invalidate_dependencies ::
  "runtime \<Rightarrow> string \<Rightarrow> event_catalog \<Rightarrow> builtins \<Rightarrow> env \<Rightarrow> env \<Rightarrow> principal \<Rightarrow> string \<Rightarrow> string \<Rightarrow> string \<Rightarrow> bool \<Rightarrow> db
     \<Rightarrow> (sip_error + invalidation_report) \<times> db" where
  "api_invalidate_dependencies rt key cat B E F p project changed reason requeue s =
     (case require rt key E p (api_request ''representation:*'' (p_tenant_id p) (Some project)) s of
        (Inl e, s') \<Rightarrow> (Inl e, s')
      | (Inr _, s') \<Rightarrow> invalidate_dependencies rt key cat B F (p_tenant_id p) project changed reason (subject_id p) requeue s')"

definition api_select_representations ::
  "runtime \<Rightarrow> string \<Rightarrow> env \<Rightarrow> principal \<Rightarrow> string \<Rightarrow> view_args \<Rightarrow> db \<Rightarrow> (sip_error + view_result) \<times> db" where
  "api_select_representations rt key E p project a s =
     guarded rt key E p (api_request ''scene:read'' (p_tenant_id p) (Some project))
       (select_for_view (a\<lparr>vw_tenant_id := p_tenant_id p, vw_project_id := project\<rparr>)) s"

end
