(* ===== verification/Deployment.thy ===== *)
theory Deployment
  imports Representations Restricted_Data Operations
begin

text \<open>
  \<open>DeploymentService\<close> of \<open>src/sip/deployment.py\<close>: deployment profiles, residency and transfer policies,
  the assignment of a profile to a project, the admission of uploads, scheduled work and transfers,
  and autoscaling, with the handlers of \<open>src/sip/api.py\<close>. The theory \<open>Residency\<close> holds the properties.

  The canonical contracts that a profile records are read from files and are a parameter;
  \<open>to_int\<close> is the built-in \<open>int\<close>, the other built-ins are \<open>builtins\<close>.
\<close>

section \<open>Formats\<close>

definition ascii_lower :: "char \<Rightarrow> bool" where
  "ascii_lower c \<longleftrightarrow> (let n = of_char c :: nat in 97 \<le> n \<and> n \<le> 122)"

definition ascii_digit :: "char \<Rightarrow> bool" where
  "ascii_digit c \<longleftrightarrow> (let n = of_char c :: nat in 48 \<le> n \<and> n \<le> 57)"

text \<open>The patterns \<open>_VERSION\<close>, \<open>_SAFE_ID\<close>, \<open>_REGION\<close>, \<open>_IMAGE\<close> and \<open>_SECRET_REF\<close>.\<close>

definition safe_word :: "string \<Rightarrow> nat \<Rightarrow> string \<Rightarrow> bool" where
  "safe_word extra limit t = (case t of [] \<Rightarrow> False
     | c # cs \<Rightarrow> alnum c \<and> length cs \<le> limit \<and> list_all (\<lambda>x. alnum x \<or> x \<in> set extra) cs)"

definition version_text :: "string \<Rightarrow> bool" where
  "version_text t = safe_word ''_.:+-'' 127 t"

definition safe_id :: "string \<Rightarrow> bool" where
  "safe_id t = safe_word ''_.:@/-'' 255 t"

definition zone_tail :: "string \<Rightarrow> bool" where
  "zone_tail t = (case t of [] \<Rightarrow> False
     | c # cs \<Rightarrow> c = CHR ''-'' \<and> takeWhile ascii_lower cs \<noteq> [] \<and>
        (case dropWhile ascii_lower cs of [d, n] \<Rightarrow> d = CHR ''-'' \<and> ascii_digit n | _ \<Rightarrow> False))"

definition region_text :: "string \<Rightarrow> bool" where
  "region_text t \<longleftrightarrow>
     (length t \<ge> 2 \<and> list_all ascii_lower (take 2 t) \<and>
        (zone_tail (drop 2 t) \<or> prefix ''-gov'' (drop 2 t) \<and> zone_tail (drop 6 t))) \<or>
     (case t of [] \<Rightarrow> False | c # cs \<Rightarrow> ascii_lower c \<and> 1 \<le> length cs \<and> length cs \<le> 31 \<and>
        list_all (\<lambda>x. ascii_lower x \<or> ascii_digit x \<or> x = CHR ''-'') cs)"

definition image_text :: "string \<Rightarrow> bool" where
  "image_text t = (let name = takeWhile (\<lambda>c. c \<noteq> CHR '':'') t; rest = dropWhile (\<lambda>c. c \<noteq> CHR '':'') t;
       tag = takeWhile (\<lambda>c. c \<noteq> CHR ''@'') (drop 1 rest); digest = dropWhile (\<lambda>c. c \<noteq> CHR ''@'') (drop 1 rest) in
     (case name of [] \<Rightarrow> False | c # cs \<Rightarrow> (ascii_lower c \<or> ascii_digit c) \<and>
        list_all (\<lambda>x. ascii_lower x \<or> ascii_digit x \<or> x \<in> set ''./_-'') cs) \<and>
     rest \<noteq> [] \<and> tag \<noteq> [] \<and> list_all (\<lambda>x. alnum x \<or> x \<in> set ''_.-'') tag \<and>
     prefix ''@sha256:'' digest \<and> hex_text 64 (drop 8 digest))"

definition secret_reference :: "string \<Rightarrow> bool" where
  "secret_reference t \<longleftrightarrow> list_ex (\<lambda>scheme. prefix scheme t \<and> (let body = drop (length scheme) t in
       1 \<le> length body \<and> length body \<le> 240 \<and> list_all (\<lambda>x. alnum x \<or> x \<in> set ''_./:@-'') body))
     [''secret://'', ''vault://'', ''aws-sm://'', ''k8s-secret://'']"

definition validate_identifier :: "string \<Rightarrow> string \<Rightarrow> sip_error + unit" where
  "validate_identifier t code = (if safe_id (py_strip t) then Inr () else Inl (ValidationError code []))"

definition validate_version :: "string \<Rightarrow> sip_error + unit" where
  "validate_version t = (if version_text t then Inr () else Inl (ValidationError ''DEPLOYMENT_VERSION_INVALID'' []))"

definition validate_regions :: "string list \<Rightarrow> sip_error + string list" where
  "validate_regions values = (let result = sorted_set values in
     if result = [] \<or> \<not> list_all region_text result then Inl (ValidationError ''DEPLOYMENT_REGION_INVALID'' [])
     else Inr result)"

definition modes :: "string list" where
  "modes = [''local_only'', ''edge'', ''hybrid'', ''single_tenant_cloud'', ''multi_tenant_cloud'', ''aws_reference'']"

definition admission_types :: "string list" where
  "admission_types = [''asset_upload'', ''worker_schedule'', ''asset_transfer'', ''autoscale'', ''gpu_queue'', ''production_promotion'']"

definition transfer_stages :: "string list" where
  "transfer_stages = [''raw'', ''normalized'', ''redacted_derivative'', ''approved_derivative'', ''published_derivative'']"

text \<open>\<open>TRANSFER_STAGE_ORDER[stage]\<close> for a stage of the list.\<close>

definition stage_rank :: "string \<Rightarrow> nat" where
  "stage_rank stage = length (takeWhile (\<lambda>x. x \<noteq> stage) transfer_stages)"

definition sensitive_asset_classes :: "string list" where
  "sensitive_asset_classes = [''raw_capture'', ''private_media'', ''biometric'', ''critical_infrastructure'', ''restricted_construction'',
     ''liveforever_private'']"

section \<open>Common steps\<close>

definition require_project :: "string \<Rightarrow> string \<Rightarrow> db \<Rightarrow> sip_error + project_row" where
  "require_project tenant project s = (case get_project s project of
     None \<Rightarrow> Inl (NotFoundError ''project'' project)
   | Some r \<Rightarrow> if pr_tenant_id r \<noteq> tenant then Inl (NotFoundError ''project'' project) else Inr r)"

definition require_tenant :: "string \<Rightarrow> db \<Rightarrow> sip_error + tenant_row" where
  "require_tenant tenant s = (case get_tenant s tenant of None \<Rightarrow> Inl (NotFoundError ''tenant'' tenant) | Some r \<Rightarrow> Inr r)"

definition get_deployment_profile :: "db \<Rightarrow> string \<Rightarrow> deployment_profile_row option" where
  "get_deployment_profile s k = tget dq_deployment_profile_id (deployment_profiles s) k"

definition get_residency :: "db \<Rightarrow> string \<Rightarrow> residency_policy_row option" where
  "get_residency s k = tget rz_residency_policy_id (residency_policies s) k"

definition get_transfer :: "db \<Rightarrow> string \<Rightarrow> transfer_policy_row option" where
  "get_transfer s k = tget ht_transfer_policy_id (hybrid_transfer_policies s) k"

definition deployment_event ::
  "string \<Rightarrow> string \<Rightarrow> string option \<Rightarrow> string \<Rightarrow> string \<Rightarrow> string \<Rightarrow> fields \<Rightarrow> event_spec" where
  "deployment_event event_type tenant project aggregate k actor payload =
     \<lparr>es_event_type = event_type, es_schema_version = ''1.0.0'', es_tenant_id = tenant, es_project_id = project,
      es_aggregate_type = aggregate, es_aggregate_id = k, es_payload = payload, es_producer = ''deployment-control'',
      es_actor_id = Some actor, es_workload_identity = None, es_traceparent = None, es_correlation_id = None,
      es_causation_id = None\<rparr>"

text \<open>The event and the audit record that end a registration.\<close>

definition announce ::
  "runtime \<Rightarrow> string \<Rightarrow> event_catalog \<Rightarrow> env \<Rightarrow> event_spec \<Rightarrow> audit_call \<Rightarrow> db \<Rightarrow> sip_error + db" where
  "announce rt key cat E e u s =
     bindE (emit_event rt cat (ids E 1) (clk E 2) e s) (append_audit rt key (ids E 2) (clk E 3) u)"

section \<open>Profiles\<close>

record profile_args =
  pf_name :: string
  pf_revision :: string
  pf_mode :: string
  pf_features :: fields
  pf_service_images :: "(string \<times> string) list"
  pf_infrastructure_versions :: "(string \<times> string) list"
  pf_secret_references :: "(string \<times> string) list"
  pf_network_policy :: fields
  pf_resource_limits :: fields
  pf_supported_regions :: "string list"
  pf_degraded_modes :: fields
  pf_provider_replacements :: fields
  pf_production_approved :: bool
  pf_actor_id :: string
  pf_supersedes_profile_id :: "string option"

definition feature_incomplete :: "string \<Rightarrow> sip_error" where
  "feature_incomplete name = ValidationError ''DEPLOYMENT_FEATURE_DECLARATION_INCOMPLETE'' [(''feature'', JStr name)]"

definition validate_feature :: "builtins \<Rightarrow> string \<times> json \<Rightarrow> sip_error + unit" where
  "validate_feature B f = (case f of (name, value) \<Rightarrow>
     bindE (validate_identifier name ''DEPLOYMENT_FEATURE_NAME_INVALID'') (\<lambda>_.
     case value of
       JObj kvs \<Rightarrow>
         if \<not> set [''enabled'', ''requires_cloud_connectivity'', ''when_unavailable'', ''administrator_notice''] \<subseteq> set (map fst kvs)
         then Inl (feature_incomplete name)
         else if py_strip (json_str (bt_str B) (jget kvs ''when_unavailable'')) = [] \<or>
           py_strip (json_str (bt_str B) (jget kvs ''administrator_notice'')) = []
         then Inl (feature_incomplete name)
         else Inr ()
     | _ \<Rightarrow> Inl (feature_incomplete name)))"

definition validate_features :: "builtins \<Rightarrow> fields \<Rightarrow> sip_error + unit" where
  "validate_features B features = (if features = [] then Inl (ValidationError ''DEPLOYMENT_FEATURES_REQUIRED'' [])
     else foldE (\<lambda>f _. validate_feature B f) features ())"

definition not_positive :: "py_float \<Rightarrow> bool" where
  "not_positive x = (case x of Finite q \<Rightarrow> q \<le> 0 | Infinite negative \<Rightarrow> negative | NaN \<Rightarrow> False)"

text \<open>Whether some workload has no positive limits, in the order of evaluation.\<close>

fun unlimited_workload :: "builtins \<Rightarrow> (json \<Rightarrow> sip_error + int) \<Rightarrow> json list \<Rightarrow> sip_error + bool" where
  "unlimited_workload B to_int [] = Inr False"
| "unlimited_workload B to_int (v # vs) = (case v of
     JObj kvs \<Rightarrow>
       bindE (to_float B (jget_or kvs ''cpu'' (JInt 0))) (\<lambda>cpu.
       if not_positive cpu then Inr True
       else bindE (to_int (jget_or kvs ''memory_mb'' (JInt 0))) (\<lambda>memory.
         if memory \<le> 0 then Inr True else unlimited_workload B to_int vs))
   | _ \<Rightarrow> Inr True)"

definition validate_pins ::
  "builtins \<Rightarrow> (json \<Rightarrow> sip_error + int) \<Rightarrow> (string \<times> string) list \<Rightarrow> (string \<times> string) list \<Rightarrow> (string \<times> string) list
     \<Rightarrow> fields \<Rightarrow> fields \<Rightarrow> sip_error + unit" where
  "validate_pins B to_int images versions secrets network resources =
     (if images = [] \<or> \<not> list_all (\<lambda>(_, v). image_text v) images then Inl (ValidationError ''DEPLOYMENT_IMAGE_UNPINNED'' [])
      else if versions = [] \<or> \<not> list_all (\<lambda>(_, v). version_text v) versions
      then Inl (ValidationError ''DEPLOYMENT_INFRASTRUCTURE_VERSION_UNPINNED'' [])
      else if secrets = [] \<or> \<not> list_all (\<lambda>(_, v). secret_reference v) secrets
      then Inl (ValidationError ''DEPLOYMENT_SECRET_REFERENCE_INVALID'' [])
      else if jget network ''default_deny_ingress'' \<noteq> JBool True \<or> jget network ''default_deny_egress'' \<noteq> JBool True \<or>
        \<not> truthy (jget network ''allowed_egress'')
      then Inl (ValidationError ''DEPLOYMENT_NETWORK_POLICY_INVALID'' [])
      else bindE (if resources = [] then Inr True else unlimited_workload B to_int (map snd resources)) (\<lambda>bad.
        if bad then Inl (ValidationError ''DEPLOYMENT_RESOURCE_LIMITS_INVALID'' []) else Inr ()))"

definition jtexts :: "(string \<times> string) list \<Rightarrow> json" where
  "jtexts kvs = JObj (map (\<lambda>(k, v). (k, JStr v)) (sort_key fst kvs))"

definition profile_body :: "profile_args \<Rightarrow> fields \<Rightarrow> string list \<Rightarrow> fields" where
  "profile_body a contracts regions = [(''schema_version'', JStr ''1.1.0''), (''name'', JStr (pf_name a)),
     (''revision'', JStr (pf_revision a)), (''mode'', JStr (pf_mode a)), (''canonical_contracts'', JObj contracts),
     (''features'', JObj (pf_features a)), (''service_images'', jtexts (pf_service_images a)),
     (''infrastructure_versions'', jtexts (pf_infrastructure_versions a)),
     (''secret_references'', jtexts (pf_secret_references a)), (''network_policy'', JObj (pf_network_policy a)),
     (''resource_limits'', JObj (pf_resource_limits a)), (''supported_regions'', jarr regions),
     (''degraded_modes'', JObj (pf_degraded_modes a)), (''provider_replacements'', JObj (pf_provider_replacements a)),
     (''production_approved'', JBool False), (''supersedes_profile_id'', jopt (pf_supersedes_profile_id a))]"

definition new_profile :: "runtime \<Rightarrow> env \<Rightarrow> profile_args \<Rightarrow> fields \<Rightarrow> string list \<Rightarrow> deployment_profile_row" where
  "new_profile rt E a contracts regions =
     \<lparr>dq_deployment_profile_id = ids E 0, dq_name = pf_name a, dq_revision = pf_revision a, dq_mode = pf_mode a,
      dq_canonical_contracts_json = contracts, dq_canonical_contracts_hash = canonical_sha256 rt (JObj contracts),
      dq_features_json = pf_features a, dq_service_images_json = sort_key fst (pf_service_images a),
      dq_infrastructure_versions_json = sort_key fst (pf_infrastructure_versions a),
      dq_secret_references_json = sort_key fst (pf_secret_references a), dq_network_policy_json = pf_network_policy a,
      dq_resource_limits_json = pf_resource_limits a, dq_supported_regions_json = regions,
      dq_degraded_modes_json = pf_degraded_modes a, dq_provider_replacements_json = pf_provider_replacements a,
      dq_production_approved = False, dq_state = ''active'',
      dq_profile_hash = canonical_sha256 rt (JObj (profile_body a contracts regions)),
      dq_supersedes_profile_id = pf_supersedes_profile_id a, dq_created_by = pf_actor_id a, dq_created_at = clk E 1\<rparr>"

text \<open>The unique constraints: the digest, and name and revision.\<close>

definition insert_profile :: "deployment_profile_row \<Rightarrow> db \<Rightarrow> sip_error + db" where
  "insert_profile r s =
     (if list_ex (\<lambda>x. dq_profile_hash x = dq_profile_hash r \<or> dq_name x = dq_name r \<and> dq_revision x = dq_revision r) (deployment_profiles s)
      then Inl (Uncaught ''IntegrityError'')
      else bindE (insert_row dq_deployment_profile_id r (deployment_profiles s)) (\<lambda>rows. Inr (s\<lparr>deployment_profiles := rows\<rparr>)))"

definition check_profile ::
  "builtins \<Rightarrow> (json \<Rightarrow> sip_error + int) \<Rightarrow> profile_args \<Rightarrow> sip_error + string list" where
  "check_profile B to_int a =
     bindE (validate_identifier (pf_name a) ''DEPLOYMENT_PROFILE_NAME_INVALID'') (\<lambda>_.
     bindE (validate_version (pf_revision a)) (\<lambda>_.
     if pf_mode a \<notin> set modes then Inl (ValidationError ''DEPLOYMENT_MODE_INVALID'' [(''mode'', JStr (pf_mode a))])
     else bindE (validate_features B (pf_features a)) (\<lambda>_.
     bindE (validate_pins B to_int (pf_service_images a) (pf_infrastructure_versions a) (pf_secret_references a)
              (pf_network_policy a) (pf_resource_limits a)) (\<lambda>_.
     bindE (validate_regions (pf_supported_regions a)) (\<lambda>regions.
     if pf_degraded_modes a = [] then Inl (ValidationError ''DEPLOYMENT_DEGRADED_MODES_REQUIRED'' [])
     else if pf_provider_replacements a = [] then Inl (ValidationError ''DEPLOYMENT_REPLACEMENT_PATHS_REQUIRED'' [])
     else if pf_production_approved a
     then Inl (AuthorizationError ''DEPLOYMENT_PRODUCTION_APPROVAL_EXTERNAL''
            [(''required'', JStr ''independent deployed infrastructure evidence'')])
     else Inr regions)))))"

definition register_profile ::
  "runtime \<Rightarrow> string \<Rightarrow> event_catalog \<Rightarrow> builtins \<Rightarrow> (json \<Rightarrow> sip_error + int) \<Rightarrow> (sip_error + fields) \<Rightarrow> env \<Rightarrow> profile_args \<Rightarrow> db
     \<Rightarrow> sip_error + (deployment_profile_row \<times> bool) \<times> db" where
  "register_profile rt key cat B to_int contracts_of E a s =
     bindE (check_profile B to_int a) (\<lambda>regions.
     bindE contracts_of (\<lambda>contracts.
     let row = new_profile rt E a contracts regions in
     case find (\<lambda>x. dq_profile_hash x = dq_profile_hash row) (deployment_profiles s) of
       Some existing \<Rightarrow> Inr ((existing, True), s)
     | None \<Rightarrow>
         if truthy_str (pf_supersedes_profile_id a) \<and> get_deployment_profile s (str_or (pf_supersedes_profile_id a) []) = None
         then Inl (NotFoundError ''deployment_profile'' (str_or (pf_supersedes_profile_id a) []))
         else bindE (insert_profile row s) (\<lambda>s1.
           bindE (announce rt key cat E
             (deployment_event ''deployment.profile.registered'' ''platform'' None ''deployment_profile'' (ids E 0) (pf_actor_id a)
                [(''profile_hash'', JStr (dq_profile_hash row)), (''mode'', JStr (pf_mode a)), (''revision'', JStr (pf_revision a))])
             (audit_entry ''platform'' None (pf_actor_id a) ''deployment.profile.register'' ''deployment_profile'' (ids E 0) ''allowed''
                [(''profile_hash'', JStr (dq_profile_hash row)), (''mode'', JStr (pf_mode a))]) s1) (\<lambda>s2.
           Inr ((row, False), s2)))))"

definition get_profile :: "string \<Rightarrow> db \<Rightarrow> sip_error + deployment_profile_row \<times> db" where
  "get_profile k s = (case get_deployment_profile s k of
     None \<Rightarrow> Inl (NotFoundError ''deployment_profile'' k) | Some r \<Rightarrow> Inr (r, s))"

record feature_view =
  fv_enabled :: bool
  fv_requires_cloud_connectivity :: bool
  fv_when_unavailable :: json
  fv_administrator_notice :: json
  fv_mode :: string

definition feature_availability :: "string \<Rightarrow> string \<Rightarrow> db \<Rightarrow> sip_error + feature_view \<times> db" where
  "feature_availability k feature s = bindE (get_profile k s) (\<lambda>(r, _).
     case jget (dq_features_json r) feature of
       JObj kvs \<Rightarrow> Inr (\<lparr>fv_enabled = truthy (jget kvs ''enabled''),
           fv_requires_cloud_connectivity = truthy (jget kvs ''requires_cloud_connectivity''),
           fv_when_unavailable = jget kvs ''when_unavailable'', fv_administrator_notice = jget kvs ''administrator_notice'',
           fv_mode = dq_mode r\<rparr>, s)
     | _ \<Rightarrow> Inl (NotFoundError ''deployment_feature'' feature))"

section \<open>Assignment to a project\<close>

record assign_args =
  ag_tenant_id :: string
  ag_project_id :: string
  ag_deployment_profile_id :: string
  ag_residency_policy_id :: "string option"
  ag_transfer_policy_id :: "string option"
  ag_revision :: string
  ag_feature_overrides :: fields
  ag_cloud_dependencies_acknowledged :: bool
  ag_actor_id :: string

definition in_force :: "string \<Rightarrow> string \<Rightarrow> project_deployment_row \<Rightarrow> bool" where
  "in_force tenant project b \<longleftrightarrow> dn_tenant_id b = tenant \<and> dn_project_id b = project \<and> dn_state b = ''active''"

definition active_binding :: "string \<Rightarrow> string \<Rightarrow> db \<Rightarrow> project_deployment_row option" where
  "active_binding tenant project s = find (in_force tenant project) (project_deployment_bindings s)"

definition check_residency_scope :: "assign_args \<Rightarrow> db \<Rightarrow> sip_error + unit" where
  "check_residency_scope a s =
     (if \<not> truthy_str (ag_residency_policy_id a) then Inr ()
      else case get_residency s (str_or (ag_residency_policy_id a) []) of
        None \<Rightarrow> Inl (AuthorizationError ''DEPLOYMENT_RESIDENCY_SCOPE_MISMATCH'' [])
      | Some p \<Rightarrow>
          if rz_tenant_id p \<noteq> ag_tenant_id a \<or> rz_project_id p \<noteq> ag_project_id a \<or> rz_state p \<noteq> ''active''
          then Inl (AuthorizationError ''DEPLOYMENT_RESIDENCY_SCOPE_MISMATCH'' []) else Inr ())"

definition check_transfer_scope :: "assign_args \<Rightarrow> db \<Rightarrow> sip_error + unit" where
  "check_transfer_scope a s =
     (if \<not> truthy_str (ag_transfer_policy_id a) then Inr ()
      else case get_transfer s (str_or (ag_transfer_policy_id a) []) of
        None \<Rightarrow> Inl (AuthorizationError ''DEPLOYMENT_TRANSFER_SCOPE_MISMATCH'' [])
      | Some p \<Rightarrow>
          if ht_tenant_id p \<noteq> ag_tenant_id a \<or> ht_project_id p \<noteq> ag_project_id a \<or> ht_state p \<noteq> ''active''
          then Inl (AuthorizationError ''DEPLOYMENT_TRANSFER_SCOPE_MISMATCH'' []) else Inr ())"

definition cloud_required :: "deployment_profile_row \<Rightarrow> bool" where
  "cloud_required p = list_ex (\<lambda>(_, v). case v of
     JObj kvs \<Rightarrow> jget kvs ''enabled'' = JBool True \<and> jget kvs ''requires_cloud_connectivity'' = JBool True
   | _ \<Rightarrow> False) (dq_features_json p)"

definition same_assignment :: "assign_args \<Rightarrow> project_deployment_row \<Rightarrow> bool" where
  "same_assignment a b \<longleftrightarrow> dn_deployment_profile_id b = ag_deployment_profile_id a \<and>
     dn_residency_policy_id b = ag_residency_policy_id a \<and> dn_transfer_policy_id b = ag_transfer_policy_id a \<and>
     dn_revision b = ag_revision a \<and> py_eq (JObj (dn_feature_overrides_json b)) (JObj (ag_feature_overrides a)) \<and>
     dn_cloud_dependencies_acknowledged b = ag_cloud_dependencies_acknowledged a"

definition assignment_body :: "assign_args \<Rightarrow> fields" where
  "assignment_body a = [(''tenant_id'', JStr (ag_tenant_id a)), (''project_id'', JStr (ag_project_id a)),
     (''deployment_profile_id'', JStr (ag_deployment_profile_id a)),
     (''residency_policy_id'', jopt (ag_residency_policy_id a)), (''transfer_policy_id'', jopt (ag_transfer_policy_id a)),
     (''revision'', JStr (ag_revision a)), (''feature_overrides'', JObj (ag_feature_overrides a)),
     (''cloud_dependencies_acknowledged'', JBool (ag_cloud_dependencies_acknowledged a))]"

definition new_assignment :: "runtime \<Rightarrow> env \<Rightarrow> assign_args \<Rightarrow> project_deployment_row" where
  "new_assignment rt E a =
     \<lparr>dn_binding_id = ids E 0, dn_tenant_id = ag_tenant_id a, dn_project_id = ag_project_id a,
      dn_deployment_profile_id = ag_deployment_profile_id a, dn_residency_policy_id = ag_residency_policy_id a,
      dn_transfer_policy_id = ag_transfer_policy_id a, dn_revision = ag_revision a,
      dn_feature_overrides_json = ag_feature_overrides a,
      dn_cloud_dependencies_acknowledged = ag_cloud_dependencies_acknowledged a, dn_state = ''active'',
      dn_binding_hash = canonical_sha256 rt (JObj (assignment_body a)), dn_created_by = ag_actor_id a,
      dn_created_at = clk E 1, dn_superseded_at = None\<rparr>"

definition supersede_assignment :: "project_deployment_row option \<Rightarrow> time \<Rightarrow> db \<Rightarrow> db" where
  "supersede_assignment current now s = (case current of None \<Rightarrow> s
     | Some b \<Rightarrow> s\<lparr>project_deployment_bindings := tput dn_binding_id (b\<lparr>dn_state := ''superseded'', dn_superseded_at := Some now\<rparr>)
         (project_deployment_bindings s)\<rparr>)"

definition insert_assignment :: "project_deployment_row \<Rightarrow> db \<Rightarrow> sip_error + db" where
  "insert_assignment r s =
     (if list_ex (\<lambda>x. dn_binding_hash x = dn_binding_hash r \<or>
           dn_tenant_id x = dn_tenant_id r \<and> dn_project_id x = dn_project_id r \<and> dn_revision x = dn_revision r) (project_deployment_bindings s)
      then Inl (Uncaught ''IntegrityError'')
      else bindE (insert_row dn_binding_id r (project_deployment_bindings s)) (\<lambda>rows. Inr (s\<lparr>project_deployment_bindings := rows\<rparr>)))"

definition check_assignment :: "assign_args \<Rightarrow> db \<Rightarrow> sip_error + unit" where
  "check_assignment a s =
     bindE (validate_version (ag_revision a)) (\<lambda>_.
     bindE (require_project (ag_tenant_id a) (ag_project_id a) s) (\<lambda>_.
     case get_deployment_profile s (ag_deployment_profile_id a) of
       None \<Rightarrow> Inl (NotFoundError ''deployment_profile'' (ag_deployment_profile_id a))
     | Some p \<Rightarrow>
         if dq_state p \<noteq> ''active'' then Inl (NotFoundError ''deployment_profile'' (ag_deployment_profile_id a))
         else bindE (check_residency_scope a s) (\<lambda>_.
           bindE (check_transfer_scope a s) (\<lambda>_.
           if cloud_required p \<and> \<not> ag_cloud_dependencies_acknowledged a
           then Inl (AuthorizationError ''DEPLOYMENT_CLOUD_DEPENDENCY_ACK_REQUIRED'' [])
           else Inr ()))))"

definition assign_project_profile ::
  "runtime \<Rightarrow> string \<Rightarrow> event_catalog \<Rightarrow> env \<Rightarrow> assign_args \<Rightarrow> db \<Rightarrow> sip_error + (project_deployment_row \<times> bool) \<times> db" where
  "assign_project_profile rt key cat E a s =
     bindE (check_assignment a s) (\<lambda>_.
     let current = active_binding (ag_tenant_id a) (ag_project_id a) s; row = new_assignment rt E a in
     case (case current of None \<Rightarrow> None | Some b \<Rightarrow> if same_assignment a b then Some b else None) of
       Some b \<Rightarrow> Inr ((b, True), s)
     | None \<Rightarrow>
         bindE (insert_assignment row (supersede_assignment current (clk E 0) s)) (\<lambda>s1.
         bindE (announce rt key cat E
           (deployment_event ''deployment.project.assigned'' (ag_tenant_id a) (Some (ag_project_id a)) ''project_deployment''
              (ids E 0) (ag_actor_id a) [(''profile_id'', JStr (ag_deployment_profile_id a)), (''binding_hash'', JStr (dn_binding_hash row))])
           (audit_entry (ag_tenant_id a) (Some (ag_project_id a)) (ag_actor_id a) ''deployment.project.assign'' ''project_deployment''
              (ids E 0) ''allowed'' [(''profile_id'', JStr (ag_deployment_profile_id a))]) s1) (\<lambda>s2.
         Inr ((row, False), s2))))"


section \<open>Residency and transfer policies\<close>

record residency_args =
  rg_tenant_id :: string
  rg_project_id :: string
  rg_revision :: string
  rg_home_region :: string
  rg_allowed_regions :: "string list"
  rg_allowed_modes :: "string list"
  rg_asset_rules :: fields
  rg_worker_rules :: fields
  rg_provider_rules :: fields
  rg_default_action :: string
  rg_actor_id :: string

definition residency_body :: "residency_args \<Rightarrow> string list \<Rightarrow> fields" where
  "residency_body a regions = [(''tenant_id'', JStr (rg_tenant_id a)), (''project_id'', JStr (rg_project_id a)),
     (''revision'', JStr (rg_revision a)), (''home_region'', JStr (rg_home_region a)), (''allowed_regions'', jarr regions),
     (''allowed_modes'', jarr (sorted_set (rg_allowed_modes a))), (''asset_rules'', JObj (rg_asset_rules a)),
     (''worker_rules'', JObj (rg_worker_rules a)), (''provider_rules'', JObj (rg_provider_rules a)),
     (''default_action'', JStr (rg_default_action a))]"

definition new_residency :: "runtime \<Rightarrow> env \<Rightarrow> residency_args \<Rightarrow> string list \<Rightarrow> residency_policy_row" where
  "new_residency rt E a regions =
     \<lparr>rz_residency_policy_id = ids E 0, rz_tenant_id = rg_tenant_id a, rz_project_id = rg_project_id a,
      rz_revision = rg_revision a, rz_home_region = rg_home_region a, rz_allowed_regions_json = regions,
      rz_allowed_modes_json = sorted_set (rg_allowed_modes a), rz_asset_rules_json = rg_asset_rules a,
      rz_worker_rules_json = rg_worker_rules a, rz_provider_rules_json = rg_provider_rules a, rz_default_action = ''deny'',
      rz_policy_hash = canonical_sha256 rt (JObj (residency_body a regions)), rz_state = ''active'',
      rz_created_by = rg_actor_id a, rz_created_at = clk E 1\<rparr>"

definition insert_residency :: "residency_policy_row \<Rightarrow> db \<Rightarrow> sip_error + db" where
  "insert_residency r s =
     (if list_ex (\<lambda>x. rz_policy_hash x = rz_policy_hash r \<or>
           rz_tenant_id x = rz_tenant_id r \<and> rz_project_id x = rz_project_id r \<and> rz_revision x = rz_revision r) (residency_policies s)
      then Inl (Uncaught ''IntegrityError'')
      else bindE (insert_row rz_residency_policy_id r (residency_policies s)) (\<lambda>rows. Inr (s\<lparr>residency_policies := rows\<rparr>)))"

text \<open>The checks; the result is the sorted list of allowed regions.\<close>

definition check_residency :: "residency_args \<Rightarrow> sip_error + string list" where
  "check_residency a =
     bindE (validate_version (rg_revision a)) (\<lambda>_.
     bindE (validate_regions (rg_allowed_regions a)) (\<lambda>regions.
     bindE (validate_regions [rg_home_region a]) (\<lambda>_.
     if rg_home_region a \<notin> set regions then Inl (ValidationError ''RESIDENCY_HOME_REGION_DENIED'' [])
     else if rg_allowed_modes a = [] \<or> \<not> set (rg_allowed_modes a) \<subseteq> set modes then Inl (ValidationError ''RESIDENCY_MODES_INVALID'' [])
     else if rg_default_action a \<noteq> ''deny'' then Inl (ValidationError ''RESIDENCY_DEFAULT_MUST_DENY'' [])
     else if rg_asset_rules a = [] \<or> rg_worker_rules a = [] \<or> rg_provider_rules a = []
     then Inl (ValidationError ''RESIDENCY_RULES_REQUIRED'' [])
     else Inr regions)))"

definition register_residency_policy ::
  "runtime \<Rightarrow> string \<Rightarrow> event_catalog \<Rightarrow> env \<Rightarrow> residency_args \<Rightarrow> db \<Rightarrow> sip_error + (residency_policy_row \<times> bool) \<times> db" where
  "register_residency_policy rt key cat E a s =
     bindE (check_residency a) (\<lambda>regions.
     bindE (require_project (rg_tenant_id a) (rg_project_id a) s) (\<lambda>_.
     let row = new_residency rt E a regions in
     case find (\<lambda>x. rz_policy_hash x = rz_policy_hash row) (residency_policies s) of
       Some existing \<Rightarrow> Inr ((existing, True), s)
     | None \<Rightarrow>
         bindE (insert_residency row s) (\<lambda>s1.
         bindE (announce rt key cat E
           (deployment_event ''deployment.residency.registered'' (rg_tenant_id a) (Some (rg_project_id a)) ''residency_policy'' (ids E 0)
              (rg_actor_id a) [(''policy_hash'', JStr (rz_policy_hash row)), (''regions'', jarr regions),
                (''modes'', jarr (rz_allowed_modes_json row))])
           (audit_entry (rg_tenant_id a) (Some (rg_project_id a)) (rg_actor_id a) ''deployment.residency.register'' ''residency_policy''
              (ids E 0) ''allowed'' [(''policy_hash'', JStr (rz_policy_hash row))]) s1) (\<lambda>s2.
         Inr ((row, False), s2)))))"

record transfer_args =
  tf_tenant_id :: string
  tf_project_id :: string
  tf_revision :: string
  tf_source_profile_id :: string
  tf_destination_profile_id :: string
  tf_rules :: "fields list"
  tf_purpose :: string
  tf_actor_id :: string

definition normalize_rule :: "builtins \<Rightarrow> string \<Rightarrow> fields \<Rightarrow> sip_error + transfer_rule" where
  "normalize_rule B purpose rule =
     (let asset_class = json_str (bt_str B) (jget_or rule ''asset_class'' (JStr []));
          minimum_stage = json_str (bt_str B) (jget_or rule ''minimum_stage'' (JStr [])) in
      if asset_class = [] \<or> minimum_stage \<notin> set transfer_stages then Inl (ValidationError ''TRANSFER_RULE_INVALID'' [])
      else bindE (bindE (strs B (jget_or rule ''allowed_regions'' (JArr []))) validate_regions) (\<lambda>destinations.
        if asset_class \<in> set sensitive_asset_classes \<and> stage_rank minimum_stage < stage_rank ''redacted_derivative''
        then Inl (ValidationError ''TRANSFER_SENSITIVE_STAGE_TOO_EARLY'' [])
        else bindE (texts (jget_or rule ''allowed_purposes'' (JArr [JStr purpose]))) (\<lambda>purposes.
          Inr \<lparr>hr_asset_class = asset_class, hr_minimum_stage = minimum_stage, hr_allowed_regions = destinations,
               hr_allowed_purposes = sorted_set purposes,
               hr_requires_approval = truthy (jget_or rule ''requires_approval'' (JBool True))\<rparr>)))"

definition rule_json :: "transfer_rule \<Rightarrow> json" where
  "rule_json r = JObj [(''asset_class'', JStr (hr_asset_class r)), (''minimum_stage'', JStr (hr_minimum_stage r)),
     (''allowed_regions'', jarr (hr_allowed_regions r)), (''allowed_purposes'', jarr (hr_allowed_purposes r)),
     (''requires_approval'', JBool (hr_requires_approval r))]"

definition transfer_body :: "transfer_args \<Rightarrow> transfer_rule list \<Rightarrow> fields" where
  "transfer_body a rules = [(''tenant_id'', JStr (tf_tenant_id a)), (''project_id'', JStr (tf_project_id a)),
     (''revision'', JStr (tf_revision a)), (''source_profile_id'', JStr (tf_source_profile_id a)),
     (''destination_profile_id'', JStr (tf_destination_profile_id a)), (''rules'', JArr (map rule_json rules)),
     (''purpose'', JStr (tf_purpose a))]"

definition new_transfer :: "runtime \<Rightarrow> env \<Rightarrow> transfer_args \<Rightarrow> transfer_rule list \<Rightarrow> transfer_policy_row" where
  "new_transfer rt E a rules =
     \<lparr>ht_transfer_policy_id = ids E 0, ht_tenant_id = tf_tenant_id a, ht_project_id = tf_project_id a,
      ht_revision = tf_revision a, ht_source_profile_id = tf_source_profile_id a,
      ht_destination_profile_id = tf_destination_profile_id a, ht_rules_json = rules, ht_purpose = tf_purpose a,
      ht_policy_hash = canonical_sha256 rt (JObj (transfer_body a rules)), ht_state = ''active'',
      ht_created_by = tf_actor_id a, ht_created_at = clk E 1\<rparr>"

definition insert_transfer :: "transfer_policy_row \<Rightarrow> db \<Rightarrow> sip_error + db" where
  "insert_transfer r s =
     (if list_ex (\<lambda>x. ht_policy_hash x = ht_policy_hash r \<or>
           ht_tenant_id x = ht_tenant_id r \<and> ht_project_id x = ht_project_id r \<and> ht_revision x = ht_revision r) (hybrid_transfer_policies s)
      then Inl (Uncaught ''IntegrityError'')
      else bindE (insert_row ht_transfer_policy_id r (hybrid_transfer_policies s)) (\<lambda>rows. Inr (s\<lparr>hybrid_transfer_policies := rows\<rparr>)))"

definition check_transfer :: "builtins \<Rightarrow> transfer_args \<Rightarrow> sip_error + transfer_rule list" where
  "check_transfer B a =
     bindE (validate_version (tf_revision a)) (\<lambda>_.
     bindE (validate_identifier (tf_purpose a) ''TRANSFER_PURPOSE_INVALID'') (\<lambda>_.
     if tf_rules a = [] then Inl (ValidationError ''TRANSFER_RULES_REQUIRED'' [])
     else bindE (mapE (normalize_rule B (tf_purpose a)) (tf_rules a)) (\<lambda>rules. Inr (sort_key hr_asset_class rules))))"

definition register_transfer_policy ::
  "runtime \<Rightarrow> string \<Rightarrow> event_catalog \<Rightarrow> builtins \<Rightarrow> env \<Rightarrow> transfer_args \<Rightarrow> db \<Rightarrow> sip_error + (transfer_policy_row \<times> bool) \<times> db" where
  "register_transfer_policy rt key cat B E a s =
     bindE (check_transfer B a) (\<lambda>rules.
     bindE (require_project (tf_tenant_id a) (tf_project_id a) s) (\<lambda>_.
     if get_deployment_profile s (tf_source_profile_id a) = None then Inl (NotFoundError ''deployment_profile'' (tf_source_profile_id a))
     else if get_deployment_profile s (tf_destination_profile_id a) = None
     then Inl (NotFoundError ''deployment_profile'' (tf_destination_profile_id a))
     else let row = new_transfer rt E a rules in
     case find (\<lambda>x. ht_policy_hash x = ht_policy_hash row) (hybrid_transfer_policies s) of
       Some existing \<Rightarrow> Inr ((existing, True), s)
     | None \<Rightarrow>
         bindE (insert_transfer row s) (\<lambda>s1.
         bindE (announce rt key cat E
           (deployment_event ''deployment.transfer.registered'' (tf_tenant_id a) (Some (tf_project_id a)) ''transfer_policy'' (ids E 0)
              (tf_actor_id a) [(''policy_hash'', JStr (ht_policy_hash row)), (''rule_count'', JInt (int (length rules)))])
           (audit_entry (tf_tenant_id a) (Some (tf_project_id a)) (tf_actor_id a) ''deployment.transfer.register'' ''transfer_policy''
              (ids E 0) ''allowed'' [(''policy_hash'', JStr (ht_policy_hash row))]) s1) (\<lambda>s2.
         Inr ((row, False), s2)))))"

section \<open>Admission\<close>

text \<open>\<open>x in value\<close>: membership in a list, a substring of a text, a key of a dict.\<close>

fun py_in :: "json \<Rightarrow> json \<Rightarrow> sip_error + bool" where
  "py_in x (JArr vs) = Inr (list_ex (py_eq x) vs)"
| "py_in x (JStr t) = (case x of JStr u \<Rightarrow> Inr (sublist u t) | _ \<Rightarrow> Inl (Uncaught ''TypeError''))"
| "py_in x (JObj kvs) = (if hashable x then Inr (list_ex (\<lambda>(k, _). x = JStr k) kvs) else Inl (Uncaught ''TypeError''))"
| "py_in x v = Inl (Uncaught ''TypeError'')"

definition listed :: "json \<Rightarrow> string list \<Rightarrow> bool" where
  "listed v ts \<longleftrightarrow> list_ex (\<lambda>t. v = JStr t) ts"

type_synonym verdict = "string \<times> string \<times> string list"

definition deny :: "string \<Rightarrow> sip_error + verdict option" where
  "deny reason = Inr (Some (''deny'', reason, []))"

text \<open>The rule for the class of an upload or of scheduled work; \<open>None\<close> when it admits the request.\<close>

definition class_key :: "builtins \<Rightarrow> fields \<Rightarrow> string" where
  "class_key B request = (let c = jget request ''asset_class''; w = jget request ''worker_class'' in
     if truthy c then json_str (bt_str B) c else if truthy w then json_str (bt_str B) w else [])"

definition class_decision ::
  "builtins \<Rightarrow> string \<Rightarrow> json \<Rightarrow> fields \<Rightarrow> string \<Rightarrow> residency_policy_row \<Rightarrow> sip_error + verdict option" where
  "class_decision B admission_type region request mode policy =
     (if admission_type \<notin> set [''asset_upload'', ''worker_schedule''] then Inr None
      else case jget (if admission_type = ''asset_upload'' then rz_asset_rules_json policy else rz_worker_rules_json policy)
                  (class_key B request) of
        JObj rule \<Rightarrow>
          bindE (if truthy region then py_in region (jget_or rule ''allowed_regions'' (JArr [])) else Inr True) (\<lambda>region_ok.
          if \<not> region_ok then deny ''DEPLOYMENT_RESIDENCY_REGION_DENIED''
          else bindE (py_in (JStr mode) (jget_or rule ''allowed_modes'' (JArr []))) (\<lambda>mode_ok.
            if mode_ok then Inr None else deny ''DEPLOYMENT_RESIDENCY_MODE_DENIED''))
      | _ \<Rightarrow> deny ''DEPLOYMENT_RESIDENCY_RULE_MISSING'')"

definition get_active_transfer :: "project_deployment_row \<Rightarrow> db \<Rightarrow> transfer_policy_row option" where
  "get_active_transfer b s = (if truthy_str (dn_transfer_policy_id b)
     then case get_transfer s (str_or (dn_transfer_policy_id b) []) of
            Some p \<Rightarrow> if ht_state p = ''active'' then Some p else None | None \<Rightarrow> None
     else None)"

definition transfer_decision ::
  "builtins \<Rightarrow> string \<Rightarrow> json \<Rightarrow> fields \<Rightarrow> project_deployment_row \<Rightarrow> db \<Rightarrow> sip_error + verdict option" where
  "transfer_decision B admission_type region request b s =
     (if admission_type \<noteq> ''asset_transfer'' then Inr None
      else case get_active_transfer b s of
        None \<Rightarrow> deny ''DEPLOYMENT_TRANSFER_POLICY_REQUIRED''
      | Some p \<Rightarrow>
          let asset_class = json_str (bt_str B) (jget_or request ''asset_class'' (JStr []));
              stage = json_str (bt_str B) (jget_or request ''processing_stage'' (JStr []));
              purpose = json_str (bt_str B) (jget_or request ''purpose'' (JStr [])) in
          (case find (\<lambda>r. hr_asset_class r = asset_class) (ht_rules_json p) of
             None \<Rightarrow> deny ''DEPLOYMENT_TRANSFER_ASSET_CLASS_DENIED''
           | Some rule \<Rightarrow>
               if stage \<notin> set transfer_stages \<or> stage_rank stage < stage_rank (hr_minimum_stage rule)
               then deny ''DEPLOYMENT_TRANSFER_STAGE_DENIED''
               else if \<not> listed region (hr_allowed_regions rule) \<or> purpose \<notin> set (hr_allowed_purposes rule)
               then deny ''DEPLOYMENT_TRANSFER_SCOPE_DENIED''
               else if hr_requires_approval rule \<and> jget request ''approval_receipt_valid'' \<noteq> JBool True
               then Inr (Some (''deny'', ''DEPLOYMENT_TRANSFER_APPROVAL_REQUIRED'', [''approved_transfer_receipt'']))
               else Inr None))"

definition get_active_residency :: "project_deployment_row \<Rightarrow> db \<Rightarrow> residency_policy_row option" where
  "get_active_residency b s = (if truthy_str (dn_residency_policy_id b)
     then case get_residency s (str_or (dn_residency_policy_id b) []) of
            Some p \<Rightarrow> if rz_state p = ''active'' then Some p else None | None \<Rightarrow> None
     else None)"

definition scope_decision ::
  "builtins \<Rightarrow> string \<Rightarrow> json \<Rightarrow> fields \<Rightarrow> project_deployment_row \<Rightarrow> db \<Rightarrow> sip_error + verdict option" where
  "scope_decision B admission_type region request b s =
     (case get_deployment_profile s (dn_deployment_profile_id b) of
        None \<Rightarrow> deny ''DEPLOYMENT_PROFILE_INACTIVE''
      | Some profile \<Rightarrow>
          if dq_state profile \<noteq> ''active'' then deny ''DEPLOYMENT_PROFILE_INACTIVE''
          else if truthy region \<and> \<not> listed region (dq_supported_regions_json profile) then deny ''DEPLOYMENT_REGION_DENIED''
          else (case get_active_residency b s of
              None \<Rightarrow> deny ''DEPLOYMENT_RESIDENCY_POLICY_REQUIRED''
            | Some policy \<Rightarrow>
                if dq_mode profile \<notin> set (rz_allowed_modes_json policy) \<or>
                  truthy region \<and> \<not> listed region (rz_allowed_regions_json policy)
                then deny ''DEPLOYMENT_RESIDENCY_DENIED''
                else bindE (class_decision B admission_type region request (dq_mode profile) policy) (\<lambda>d.
                  case d of Some x \<Rightarrow> Inr (Some x) | None \<Rightarrow> transfer_decision B admission_type region request b s)))"

definition evaluate_admission ::
  "builtins \<Rightarrow> string \<Rightarrow> string option \<Rightarrow> string \<Rightarrow> string option \<Rightarrow> json \<Rightarrow> fields \<Rightarrow> db \<Rightarrow> sip_error + verdict" where
  "evaluate_admission B tenant project admission_type profile_id region request s =
     (case project of
        None \<Rightarrow> Inr (''deny'', ''DEPLOYMENT_PROJECT_SCOPE_REQUIRED'', [])
      | Some k \<Rightarrow>
          bindE (require_project tenant k s) (\<lambda>_.
          case active_binding tenant k s of
            None \<Rightarrow> Inr (''deny'', ''DEPLOYMENT_PROFILE_NOT_ASSIGNED'', [])
          | Some b \<Rightarrow>
              if truthy_str profile_id \<and> Some (dn_deployment_profile_id b) \<noteq> profile_id
              then Inr (''deny'', ''DEPLOYMENT_PROFILE_SCOPE_MISMATCH'', [])
              else bindE (scope_decision B admission_type region request b s) (\<lambda>d.
                Inr (case d of None \<Rightarrow> (''allow'', ''ALLOW'', []) | Some x \<Rightarrow> x))))"

record admission_call =
  da_tenant_id :: string
  da_project_id :: "string option"
  da_admission_type :: string
  da_deployment_profile_id :: "string option"
  da_region :: json
  da_request :: fields
  da_actor_id :: string

definition admission_body :: "admission_call \<Rightarrow> verdict \<Rightarrow> fields" where
  "admission_body c d = (case d of (verdict, reason, required) \<Rightarrow>
     [(''tenant_id'', JStr (da_tenant_id c)), (''project_id'', jopt (da_project_id c)),
      (''admission_type'', JStr (da_admission_type c)), (''deployment_profile_id'', jopt (da_deployment_profile_id c)),
      (''region'', da_region c), (''request'', JObj (da_request c)), (''decision'', JStr verdict),
      (''reason_code'', JStr reason), (''obligations'', jarr required)])"

definition new_admission :: "runtime \<Rightarrow> env \<Rightarrow> admission_call \<Rightarrow> verdict \<Rightarrow> deployment_admission_row" where
  "new_admission rt E c d = (case d of (verdict, reason, required) \<Rightarrow>
     \<lparr>dm_admission_id = ids E 0, dm_tenant_id = da_tenant_id c, dm_project_id = da_project_id c,
      dm_admission_type = da_admission_type c, dm_deployment_profile_id = da_deployment_profile_id c, dm_region = da_region c,
      dm_request_json = da_request c, dm_decision = verdict, dm_reason_code = reason, dm_obligations_json = required,
      dm_evidence_hash = canonical_sha256 rt (JObj (admission_body c d)), dm_decided_by = da_actor_id c,
      dm_decided_at = clk E 1\<rparr>)"

definition admission_event :: "env \<Rightarrow> admission_call \<Rightarrow> deployment_admission_row \<Rightarrow> event_spec" where
  "admission_event E c row =
     deployment_event ''deployment.admission.decided'' (da_tenant_id c) (da_project_id c) ''deployment_admission'' (ids E 0)
       (da_actor_id c) [(''decision'', JStr (dm_decision row)), (''reason_code'', JStr (dm_reason_code row)),
         (''admission_type'', JStr (da_admission_type c))]"

definition admission_audit :: "env \<Rightarrow> admission_call \<Rightarrow> deployment_admission_row \<Rightarrow> audit_call" where
  "admission_audit E c row =
     audit_entry (da_tenant_id c) (da_project_id c) (da_actor_id c) (''deployment.admission.'' @ da_admission_type c)
       ''deployment_admission'' (ids E 0) (if dm_decision row = ''allow'' then ''allowed'' else ''denied'')
       [(''reason_code'', JStr (dm_reason_code row)), (''evidence_hash'', JStr (dm_evidence_hash row))]"

definition record_session ::
  "runtime \<Rightarrow> string \<Rightarrow> event_catalog \<Rightarrow> env \<Rightarrow> admission_call \<Rightarrow> verdict \<Rightarrow> db \<Rightarrow> sip_error + deployment_admission_row \<times> db" where
  "record_session rt key cat E c d s =
     (let row = new_admission rt E c d in
      case find (\<lambda>x. dm_evidence_hash x = dm_evidence_hash row) (deployment_admissions s) of
        Some existing \<Rightarrow> Inr (existing, s)
      | None \<Rightarrow>
          bindE (insert_row dm_admission_id row (deployment_admissions s)) (\<lambda>rows.
          bindE (announce rt key cat E
            (admission_event E c row) (admission_audit E c row) (s\<lparr>deployment_admissions := rows\<rparr>)) (\<lambda>s1.
          Inr (row, s1))))"

text \<open>Every caller raises on a denial, after the record was committed.\<close>

definition record_admission ::
  "runtime \<Rightarrow> string \<Rightarrow> event_catalog \<Rightarrow> env \<Rightarrow> admission_call \<Rightarrow> verdict \<Rightarrow> db
     \<Rightarrow> (sip_error + deployment_admission_row) \<times> db" where
  "record_admission rt key cat E c d s =
     (case session (record_session rt key cat E c d) s of
        (Inl e, t) \<Rightarrow> (Inl e, t)
      | (Inr row, t) \<Rightarrow>
          if fst d \<noteq> ''allow''
          then (Inl (AuthorizationError (fst (snd d)) [(''admission_id'', JStr (dm_admission_id row)),
                  (''obligations'', jarr (snd (snd d)))]), t)
          else (Inr row, t))"

definition authorize_admission ::
  "runtime \<Rightarrow> string \<Rightarrow> event_catalog \<Rightarrow> builtins \<Rightarrow> env \<Rightarrow> admission_call \<Rightarrow> db \<Rightarrow> (sip_error + deployment_admission_row) \<times> db" where
  "authorize_admission rt key cat B E c s =
     (if da_admission_type c \<notin> set admission_types then (Inl (ValidationError ''DEPLOYMENT_ADMISSION_TYPE_INVALID'' []), s)
      else if list_ex (\<lambda>(k, _). prefix ''precomputed_'' k) (da_request c)
      then (Inl (ValidationError ''DEPLOYMENT_ADMISSION_PRECOMPUTED_PROHIBITED'' []), s)
      else case evaluate_admission B (da_tenant_id c) (da_project_id c) (da_admission_type c) (da_deployment_profile_id c) (da_region c)
                  (da_request c) s of
        Inl e \<Rightarrow> (Inl e, s)
      | Inr d \<Rightarrow> record_admission rt key cat E c d s)"

definition call_of :: "admission_request \<Rightarrow> project_deployment_row \<Rightarrow> admission_call" where
  "call_of q b = \<lparr>da_tenant_id = ad_tenant_id q, da_project_id = Some (ad_project_id q), da_admission_type = ad_admission_type q,
     da_deployment_profile_id = Some (dn_deployment_profile_id b), da_region = ad_region q, da_request = ad_request q,
     da_actor_id = ad_actor_id q\<rparr>"

definition authorize_if_configured ::
  "runtime \<Rightarrow> string \<Rightarrow> event_catalog \<Rightarrow> builtins \<Rightarrow> env \<Rightarrow> admission_request \<Rightarrow> db
     \<Rightarrow> (sip_error + deployment_admission_row option) \<times> db" where
  "authorize_if_configured rt key cat B E q s =
     (case active_binding (ad_tenant_id q) (ad_project_id q) s of
        None \<Rightarrow> (Inr None, s)
      | Some b \<Rightarrow>
          (case (if \<not> truthy (ad_region q)
                 then record_admission rt key cat E (call_of q b) (''deny'', ''DEPLOYMENT_REGION_REQUIRED'', [''deployment_region'']) s
                 else authorize_admission rt key cat B E (call_of q b) s) of
             (Inl e, t) \<Rightarrow> (Inl e, t) | (Inr row, t) \<Rightarrow> (Inr (Some row), t)))"

text \<open>The service as operations and assets call it. \<open>F\<close> gives the identifiers and the time of a call
  made in a state, so that two calls may differ in them.\<close>

definition deployment_service_of ::
  "runtime \<Rightarrow> string \<Rightarrow> event_catalog \<Rightarrow> builtins \<Rightarrow> (db \<Rightarrow> env) \<Rightarrow> deployment_service" where
  "deployment_service_of rt key cat B F q s =
     (case authorize_if_configured rt key cat B (F s) q s of (Inl e, t) \<Rightarrow> (Inl e, t) | (Inr _, t) \<Rightarrow> (Inr (), t))"


section \<open>Autoscaling\<close>

record autoscaling_args =
  xa_tenant_id :: string
  xa_project_id :: "string option"
  xa_queue_class :: string
  xa_revision :: string
  xa_min_replicas :: int
  xa_max_replicas :: int
  xa_tenant_concurrency_limit :: int
  xa_profile_quotas :: "(string \<times> int) list"
  xa_global_budget_limit :: rat
  xa_currency :: string
  xa_dead_letter :: fields
  xa_restricted_egress :: bool
  xa_actor_id :: string

definition check_autoscaling :: "(json \<Rightarrow> sip_error + int) \<Rightarrow> autoscaling_args \<Rightarrow> sip_error + unit" where
  "check_autoscaling to_int a =
     bindE (validate_version (xa_revision a)) (\<lambda>_.
     bindE (validate_identifier (xa_queue_class a) ''AUTOSCALING_QUEUE_CLASS_INVALID'') (\<lambda>_.
     if xa_min_replicas a < 0 \<or> xa_max_replicas a < 1 \<or> xa_max_replicas a < xa_min_replicas a \<or> xa_tenant_concurrency_limit a < 1
     then Inl (ValidationError ''AUTOSCALING_LIMITS_INVALID'' [])
     else if xa_global_budget_limit a \<le> 0 \<or> length (xa_currency a) \<noteq> 3 then Inl (ValidationError ''AUTOSCALING_BUDGET_INVALID'' [])
     else if xa_profile_quotas a = [] \<or> list_ex (\<lambda>(_, n). n < 0) (xa_profile_quotas a)
     then Inl (ValidationError ''AUTOSCALING_PROFILE_QUOTAS_INVALID'' [])
     else bindE (if \<not> truthy (jget (xa_dead_letter a) ''enabled'') \<or> \<not> truthy (jget (xa_dead_letter a) ''queue'') then Inr True
                 else bindE (to_int (jget_or (xa_dead_letter a) ''max_attempts'' (JInt 0))) (\<lambda>n. Inr (n < 1))) (\<lambda>missing.
       if missing then Inl (ValidationError ''AUTOSCALING_DEAD_LETTER_REQUIRED'' [])
       else if \<not> xa_restricted_egress a then Inl (ValidationError ''AUTOSCALING_EGRESS_MUST_BE_RESTRICTED'' [])
       else Inr ())))"

definition autoscaling_body :: "autoscaling_args \<Rightarrow> fields" where
  "autoscaling_body a = [(''tenant_id'', JStr (xa_tenant_id a)), (''project_id'', jopt (xa_project_id a)),
     (''queue_class'', JStr (xa_queue_class a)), (''revision'', JStr (xa_revision a)),
     (''min_replicas'', JInt (xa_min_replicas a)), (''max_replicas'', JInt (xa_max_replicas a)),
     (''tenant_concurrency_limit'', JInt (xa_tenant_concurrency_limit a)),
     (''profile_quotas'', JObj (map (\<lambda>(k, n). (k, JInt n)) (sort_key fst (xa_profile_quotas a)))),
     (''global_budget_limit'', JFloat (xa_global_budget_limit a)), (''currency'', JStr (py_upper (xa_currency a))),
     (''dead_letter'', JObj (xa_dead_letter a)), (''restricted_egress'', JBool True)]"

definition new_autoscaling :: "runtime \<Rightarrow> env \<Rightarrow> autoscaling_args \<Rightarrow> autoscaling_policy_row" where
  "new_autoscaling rt E a =
     \<lparr>ax_autoscaling_policy_id = ids E 0, ax_tenant_id = xa_tenant_id a, ax_project_id = xa_project_id a,
      ax_queue_class = xa_queue_class a, ax_revision = xa_revision a, ax_min_replicas = xa_min_replicas a,
      ax_max_replicas = xa_max_replicas a, ax_tenant_concurrency_limit = xa_tenant_concurrency_limit a,
      ax_profile_quotas_json = sort_key fst (xa_profile_quotas a), ax_global_budget_limit = xa_global_budget_limit a,
      ax_currency = py_upper (xa_currency a), ax_dead_letter_json = xa_dead_letter a, ax_restricted_egress = True,
      ax_policy_hash = canonical_sha256 rt (JObj (autoscaling_body a)), ax_state = ''active'', ax_created_by = xa_actor_id a,
      ax_created_at = clk E 1\<rparr>"

text \<open>The unique constraints; two rows without a project do not conflict in the second one.\<close>

definition insert_autoscaling :: "autoscaling_policy_row \<Rightarrow> db \<Rightarrow> sip_error + db" where
  "insert_autoscaling r s =
     (if list_ex (\<lambda>x. ax_policy_hash x = ax_policy_hash r \<or>
           ax_project_id r \<noteq> None \<and> ax_tenant_id x = ax_tenant_id r \<and> ax_project_id x = ax_project_id r \<and>
           ax_queue_class x = ax_queue_class r \<and> ax_revision x = ax_revision r) (autoscaling_policies s)
      then Inl (Uncaught ''IntegrityError'')
      else bindE (insert_row ax_autoscaling_policy_id r (autoscaling_policies s)) (\<lambda>rows. Inr (s\<lparr>autoscaling_policies := rows\<rparr>)))"

definition register_autoscaling_policy ::
  "runtime \<Rightarrow> event_catalog \<Rightarrow> (json \<Rightarrow> sip_error + int) \<Rightarrow> env \<Rightarrow> autoscaling_args \<Rightarrow> db
     \<Rightarrow> sip_error + (autoscaling_policy_row \<times> bool) \<times> db" where
  "register_autoscaling_policy rt cat to_int E a s =
     bindE (check_autoscaling to_int a) (\<lambda>_.
     bindE (require_tenant (xa_tenant_id a) s) (\<lambda>_.
     bindE (if truthy_str (xa_project_id a)
            then bindE (require_project (xa_tenant_id a) (str_or (xa_project_id a) []) s) (\<lambda>_. Inr ()) else Inr ()) (\<lambda>_.
     let row = new_autoscaling rt E a in
     case find (\<lambda>x. ax_policy_hash x = ax_policy_hash row) (autoscaling_policies s) of
       Some existing \<Rightarrow> Inr ((existing, True), s)
     | None \<Rightarrow>
         bindE (insert_autoscaling row s) (\<lambda>s1.
         bindE (emit_event rt cat (ids E 1) (clk E 2)
           (deployment_event ''deployment.autoscaling.registered'' (xa_tenant_id a) (xa_project_id a) ''autoscaling_policy'' (ids E 0)
              (xa_actor_id a) [(''queue_class'', JStr (xa_queue_class a)), (''max_replicas'', JInt (xa_max_replicas a)),
                (''budget_limit'', JFloat (xa_global_budget_limit a))]) s1) (\<lambda>s2.
         Inr ((row, False), s2))))))"

record scaling_call =
  xc_tenant_id :: string
  xc_project_id :: "string option"
  xc_autoscaling_policy_id :: string
  xc_compute_profile :: string
  xc_requested_replicas :: int
  xc_current_tenant_jobs :: int
  xc_projected_cost :: rat
  xc_actor_id :: string
  xc_current_replicas :: int

text \<open>The reason of the decision; \<open>ALLOW\<close> when the request is within every limit.\<close>

definition scaling_reason :: "autoscaling_policy_row \<Rightarrow> scaling_call \<Rightarrow> string" where
  "scaling_reason p c =
     (let quota = (case map_of (ax_profile_quotas_json p) (xc_compute_profile c) of None \<Rightarrow> 0 | Some n \<Rightarrow> n) in
      if xc_requested_replicas c < ax_min_replicas p \<or> xc_requested_replicas c > ax_max_replicas p then ''AUTOSCALING_REPLICA_LIMIT''
      else if xc_requested_replicas c > quota then ''AUTOSCALING_PROFILE_QUOTA''
      else if xc_current_tenant_jobs c + xc_requested_replicas c > ax_tenant_concurrency_limit p then ''AUTOSCALING_TENANT_QUOTA''
      else if xc_projected_cost c > ax_global_budget_limit p then ''AUTOSCALING_GLOBAL_BUDGET''
      else if \<not> ax_restricted_egress p then ''AUTOSCALING_EGRESS_POLICY''
      else ''ALLOW'')"

definition scaling_allowed :: "autoscaling_policy_row \<Rightarrow> scaling_call \<Rightarrow> bool" where
  "scaling_allowed p c \<longleftrightarrow> scaling_reason p c = ''ALLOW''"

definition scaling_body :: "autoscaling_policy_row \<Rightarrow> scaling_call \<Rightarrow> fields" where
  "scaling_body p c = [(''tenant_id'', JStr (xc_tenant_id c)), (''project_id'', jopt (xc_project_id c)),
     (''autoscaling_policy_id'', JStr (xc_autoscaling_policy_id c)), (''queue_class'', JStr (ax_queue_class p)),
     (''capability_profile'', JStr (xc_compute_profile c)), (''current_replicas'', JInt (xc_current_replicas c)),
     (''requested_replicas'', JInt (xc_requested_replicas c)), (''active_jobs'', JInt (xc_current_tenant_jobs c)),
     (''estimated_incremental_cost'', JFloat (xc_projected_cost c)), (''global_cost_after'', JFloat (xc_projected_cost c)),
     (''decision'', JStr (if scaling_allowed p c then ''allow'' else ''deny'')), (''reason_code'', JStr (scaling_reason p c))]"

definition new_scaling :: "runtime \<Rightarrow> env \<Rightarrow> autoscaling_policy_row \<Rightarrow> scaling_call \<Rightarrow> autoscaling_admission_row" where
  "new_scaling rt E p c =
     \<lparr>aa_admission_id = ids E 0, aa_tenant_id = xc_tenant_id c, aa_project_id = xc_project_id c,
      aa_autoscaling_policy_id = xc_autoscaling_policy_id c, aa_queue_class = ax_queue_class p,
      aa_capability_profile = xc_compute_profile c, aa_current_replicas = xc_current_replicas c,
      aa_requested_replicas = xc_requested_replicas c,
      aa_admitted_replicas = (if scaling_allowed p c then xc_requested_replicas c else xc_current_replicas c),
      aa_active_jobs = xc_current_tenant_jobs c, aa_estimated_incremental_cost = xc_projected_cost c,
      aa_global_cost_after = xc_projected_cost c, aa_decision = (if scaling_allowed p c then ''allow'' else ''deny''),
      aa_reason_code = scaling_reason p c, aa_decision_hash = canonical_sha256 rt (JObj (scaling_body p c)),
      aa_requested_by = xc_actor_id c, aa_decided_at = clk E 1\<rparr>"

definition scaling_event :: "env \<Rightarrow> scaling_call \<Rightarrow> autoscaling_admission_row \<Rightarrow> event_spec" where
  "scaling_event E c row =
     deployment_event ''deployment.autoscaling.decided'' (xc_tenant_id c) (xc_project_id c) ''autoscaling_admission'' (ids E 0)
       (xc_actor_id c) [(''decision'', JStr (aa_decision row)), (''reason_code'', JStr (aa_reason_code row)),
         (''requested_replicas'', JInt (xc_requested_replicas c)), (''admitted_replicas'', JInt (aa_admitted_replicas row))]"

definition scaling_audit :: "env \<Rightarrow> scaling_call \<Rightarrow> autoscaling_admission_row \<Rightarrow> audit_call" where
  "scaling_audit E c row =
     audit_entry (xc_tenant_id c) (xc_project_id c) (xc_actor_id c) ''deployment.autoscaling.admit'' ''autoscaling_admission''
       (ids E 0) (if aa_decision row = ''allow'' then ''allowed'' else ''denied'')
       [(''reason_code'', JStr (aa_reason_code row)), (''decision_hash'', JStr (aa_decision_hash row))]"

definition scaling_session ::
  "runtime \<Rightarrow> string \<Rightarrow> event_catalog \<Rightarrow> env \<Rightarrow> scaling_call \<Rightarrow> db
     \<Rightarrow> sip_error + (autoscaling_policy_row \<times> autoscaling_admission_row \<times> bool) \<times> db" where
  "scaling_session rt key cat E c s =
     (case tget ax_autoscaling_policy_id (autoscaling_policies s) (xc_autoscaling_policy_id c) of
        None \<Rightarrow> Inl (NotFoundError ''autoscaling_policy'' (xc_autoscaling_policy_id c))
      | Some p \<Rightarrow>
          if ax_tenant_id p \<noteq> xc_tenant_id c \<or> ax_project_id p \<noteq> xc_project_id c \<or> ax_state p \<noteq> ''active''
          then Inl (NotFoundError ''autoscaling_policy'' (xc_autoscaling_policy_id c))
          else let row = new_scaling rt E p c in
            (case find (\<lambda>x. aa_decision_hash x = aa_decision_hash row) (autoscaling_admissions s) of
               Some existing \<Rightarrow> Inr ((p, existing, True), s)
             | None \<Rightarrow>
                 bindE (insert_row aa_admission_id row (autoscaling_admissions s)) (\<lambda>rows.
                 bindE (announce rt key cat E
                   (scaling_event E c row) (scaling_audit E c row)
                   (s\<lparr>autoscaling_admissions := rows\<rparr>)) (\<lambda>s1.
                 Inr ((p, row, False), s1)))))"

text \<open>Sessions are interleaved as wholes here, so the constraint on the digest that the sources catch
  between two sessions is never violated.\<close>

definition admit_autoscaling ::
  "runtime \<Rightarrow> string \<Rightarrow> event_catalog \<Rightarrow> env \<Rightarrow> scaling_call \<Rightarrow> db \<Rightarrow> (sip_error + autoscaling_admission_row \<times> bool) \<times> db" where
  "admit_autoscaling rt key cat E c s =
     (case session (scaling_session rt key cat E c) s of
        (Inl e, t) \<Rightarrow> (Inl e, t)
      | (Inr (p, row, replay), t) \<Rightarrow>
          if \<not> scaling_allowed p c
          then (Inl (AuthorizationError (scaling_reason p c) [(''autoscaling_admission_id'', JStr (aa_admission_id row))]), t)
          else (Inr (row, replay), t))"

section \<open>Handlers\<close>

definition api_register_profile ::
  "runtime \<Rightarrow> string \<Rightarrow> event_catalog \<Rightarrow> builtins \<Rightarrow> (json \<Rightarrow> sip_error + int) \<Rightarrow> (sip_error + fields) \<Rightarrow> env \<Rightarrow> env \<Rightarrow> principal
     \<Rightarrow> profile_args \<Rightarrow> db \<Rightarrow> (sip_error + deployment_profile_row \<times> bool) \<times> db" where
  "api_register_profile rt key cat B to_int contracts_of E F p a s =
     guarded rt key E p (api_request ''deployment:profile_manage'' (p_tenant_id p) None)
       (register_profile rt key cat B to_int contracts_of F (a\<lparr>pf_actor_id := subject_id p\<rparr>)) s"

definition api_get_profile ::
  "runtime \<Rightarrow> string \<Rightarrow> env \<Rightarrow> principal \<Rightarrow> string \<Rightarrow> db \<Rightarrow> (sip_error + deployment_profile_row) \<times> db" where
  "api_get_profile rt key E p k s = guarded rt key E p (api_request ''deployment:read'' (p_tenant_id p) None) (get_profile k) s"

definition api_feature_availability ::
  "runtime \<Rightarrow> string \<Rightarrow> env \<Rightarrow> principal \<Rightarrow> string \<Rightarrow> string \<Rightarrow> db \<Rightarrow> (sip_error + feature_view) \<times> db" where
  "api_feature_availability rt key E p k feature s =
     guarded rt key E p (api_request ''deployment:read'' (p_tenant_id p) None) (feature_availability k feature) s"

definition api_assign_profile ::
  "runtime \<Rightarrow> string \<Rightarrow> event_catalog \<Rightarrow> env \<Rightarrow> env \<Rightarrow> principal \<Rightarrow> string \<Rightarrow> assign_args \<Rightarrow> db
     \<Rightarrow> (sip_error + project_deployment_row \<times> bool) \<times> db" where
  "api_assign_profile rt key cat E F p project a s =
     guarded rt key E p (api_request ''deployment:project_assign'' (p_tenant_id p) (Some project))
       (assign_project_profile rt key cat F (a\<lparr>ag_tenant_id := p_tenant_id p, ag_project_id := project, ag_actor_id := subject_id p\<rparr>)) s"

definition api_register_residency ::
  "runtime \<Rightarrow> string \<Rightarrow> event_catalog \<Rightarrow> env \<Rightarrow> env \<Rightarrow> principal \<Rightarrow> string \<Rightarrow> residency_args \<Rightarrow> db
     \<Rightarrow> (sip_error + residency_policy_row \<times> bool) \<times> db" where
  "api_register_residency rt key cat E F p project a s =
     guarded rt key E p (api_request ''deployment:residency_manage'' (p_tenant_id p) (Some project))
       (register_residency_policy rt key cat F (a\<lparr>rg_tenant_id := p_tenant_id p, rg_project_id := project, rg_actor_id := subject_id p\<rparr>)) s"

definition api_register_transfer ::
  "runtime \<Rightarrow> string \<Rightarrow> event_catalog \<Rightarrow> builtins \<Rightarrow> env \<Rightarrow> env \<Rightarrow> principal \<Rightarrow> string \<Rightarrow> transfer_args \<Rightarrow> db
     \<Rightarrow> (sip_error + transfer_policy_row \<times> bool) \<times> db" where
  "api_register_transfer rt key cat B E F p project a s =
     guarded rt key E p (api_request ''deployment:transfer_manage'' (p_tenant_id p) (Some project))
       (register_transfer_policy rt key cat B F (a\<lparr>tf_tenant_id := p_tenant_id p, tf_project_id := project, tf_actor_id := subject_id p\<rparr>)) s"

definition api_authorize_admission ::
  "runtime \<Rightarrow> string \<Rightarrow> event_catalog \<Rightarrow> builtins \<Rightarrow> env \<Rightarrow> env \<Rightarrow> principal \<Rightarrow> string \<Rightarrow> admission_call \<Rightarrow> db
     \<Rightarrow> (sip_error + deployment_admission_row) \<times> db" where
  "api_authorize_admission rt key cat B E F p project c s =
     (case require rt key E p (api_request ''deployment:admit'' (p_tenant_id p) (Some project)) s of
        (Inl e, t) \<Rightarrow> (Inl e, t)
      | (Inr _, t) \<Rightarrow> authorize_admission rt key cat B F
          (c\<lparr>da_tenant_id := p_tenant_id p, da_project_id := Some project, da_actor_id := subject_id p\<rparr>) t)"

definition api_register_autoscaling ::
  "runtime \<Rightarrow> string \<Rightarrow> event_catalog \<Rightarrow> (json \<Rightarrow> sip_error + int) \<Rightarrow> env \<Rightarrow> env \<Rightarrow> principal \<Rightarrow> string \<Rightarrow> autoscaling_args \<Rightarrow> db
     \<Rightarrow> (sip_error + autoscaling_policy_row \<times> bool) \<times> db" where
  "api_register_autoscaling rt key cat to_int E F p tenant a s =
     guarded rt key E p (api_request ''deployment:autoscale_manage'' tenant (xa_project_id a))
       (register_autoscaling_policy rt cat to_int F (a\<lparr>xa_tenant_id := tenant, xa_actor_id := subject_id p\<rparr>)) s"

definition api_admit_autoscaling ::
  "runtime \<Rightarrow> string \<Rightarrow> event_catalog \<Rightarrow> env \<Rightarrow> env \<Rightarrow> principal \<Rightarrow> string \<Rightarrow> scaling_call \<Rightarrow> db
     \<Rightarrow> (sip_error + autoscaling_admission_row \<times> bool) \<times> db" where
  "api_admit_autoscaling rt key cat E F p tenant c s =
     (case require rt key E p (api_request ''deployment:autoscale_manage'' tenant (xc_project_id c)) s of
        (Inl e, t) \<Rightarrow> (Inl e, t)
      | (Inr _, t) \<Rightarrow> admit_autoscaling rt key cat F (c\<lparr>xc_tenant_id := tenant, xc_actor_id := subject_id p\<rparr>) t)"

end
