(* ===== verification/Publication.thy ===== *)
theory Publication
  imports Representations
begin

text \<open>
  \<open>RepresentationPublisher\<close> of \<open>src/sip/representations.py\<close>: the publication of an approved
  representation on a scene commit, for candidates of governed conversions and for others, with the
  integrity checks of provider descriptors, revisions and promotions that it calls, and the handler
  of \<open>src/sip/api.py\<close>. The theory \<open>Publication_Safety\<close> holds the properties.
\<close>

section \<open>Integrity of provider records\<close>

definition descriptor_body :: "fields \<Rightarrow> fields" where
  "descriptor_body descriptor = filter (\<lambda>(k, _). k \<noteq> ''manifest_hash'' \<and> k \<noteq> ''manifest_signature'') descriptor"

text \<open>\<open>hexdigest()\<close>, two digits for each byte.\<close>

definition hexdigest :: "string \<Rightarrow> string" where
  "hexdigest bytes = concat (map (\<lambda>c. let n = of_char c :: nat in [hex_char (n div 16), hex_char (n mod 16)]) bytes)"

definition provider_signature :: "runtime \<Rightarrow> string \<Rightarrow> string \<Rightarrow> string" where
  "provider_signature rt provider_key digest = hexdigest (rt_hmac rt provider_key digest)"

definition provider_integrity_valid :: "runtime \<Rightarrow> string \<Rightarrow> provider_manifest_row \<Rightarrow> bool" where
  "provider_integrity_valid rt provider_key row \<longleftrightarrow>
     (let digest = canonical_sha256 rt (JObj (descriptor_body (pm_descriptor_json row))) in
      pm_descriptor_json row \<noteq> [] \<and> truthy_str (pm_manifest_signature row) \<and> digest = pm_manifest_hash row \<and>
      pm_manifest_signature row = Some (provider_signature rt provider_key digest))"

definition revision_integrity_valid :: "runtime \<Rightarrow> builtins \<Rightarrow> string \<Rightarrow> provider_revision_row \<Rightarrow> bool" where
  "revision_integrity_valid rt B provider_key row \<longleftrightarrow>
     (let digest = canonical_sha256 rt (JObj (descriptor_body (pv_descriptor_json row))) in
      digest = pv_manifest_hash row \<and> pv_manifest_signature row = provider_signature rt provider_key digest \<and>
      pv_provider_id row = json_str (bt_str B) (jget (pv_descriptor_json row) ''provider_id'') \<and>
      pv_provider_version row = json_str (bt_str B) (jget (pv_descriptor_json row) ''provider_version''))"

definition promotion_body :: "provider_promotion_row \<Rightarrow> fields" where
  "promotion_body row = [(''promotion_id'', JStr (pp_promotion_id row)), (''provider_id'', JStr (pp_provider_id row)),
     (''provider_version'', JStr (pp_provider_version row)), (''provider_manifest_hash'', JStr (pp_provider_manifest_hash row)),
     (''state'', JStr (pp_state row)), (''data_classifications'', jarr (sorted_set (pp_data_classifications_json row))),
     (''scene_classes'', jarr (sorted_set (pp_scene_classes_json row))),
     (''output_roles'', jarr (sorted_set (pp_output_roles_json row))),
     (''intended_uses'', jarr (sorted_set (pp_intended_uses_json row))),
     (''execution_zones'', jarr (sorted_set (pp_execution_zones_json row))),
     (''hardware_profiles'', jarr (sorted_set (pp_hardware_profiles_json row))),
     (''benchmark_evidence_hash'', JStr (pp_benchmark_evidence_hash row)),
     (''policy_snapshot_hash'', JStr (pp_policy_snapshot_hash row)), (''valid_from'', JStr (isoformat (pp_valid_from row))),
     (''valid_until'', case pp_valid_until row of None \<Rightarrow> JNull | Some t \<Rightarrow> JStr (isoformat t)),
     (''signed_by'', JStr (pp_signed_by row))]"

definition promotion_integrity_valid :: "runtime \<Rightarrow> string \<Rightarrow> provider_promotion_row \<Rightarrow> bool" where
  "promotion_integrity_valid rt provider_key row \<longleftrightarrow>
     (let digest = canonical_sha256 rt (JObj (promotion_body row)) in
      digest = pp_promotion_hash row \<and> pp_signature row = provider_signature rt provider_key digest)"

section \<open>Governed conversions\<close>

text \<open>The uses that the review of a representation has approved.\<close>

definition reviewed_uses :: "representation_row \<Rightarrow> sip_error + json list" where
  "reviewed_uses r = bindE (attr_get (jget_or (re_quality_json r) ''review'' (JObj [])) ''approved_uses'' (JArr [])) members"

definition approved_by_review :: "json list \<Rightarrow> string list \<Rightarrow> bool" where
  "approved_by_review reviewed uses = list_all (\<lambda>u. JStr u \<in> set reviewed) uses"

definition provenance_mismatches :: "spatial_conversion_row \<Rightarrow> representation_row \<Rightarrow> string list" where
  "provenance_mismatches c r = sorted_set (map fst (filter (\<lambda>(k, v). jget (re_provenance_json r) k \<noteq> JStr v)
     [(''conversion_id'', cv_conversion_id c), (''operation_id'', cv_operation_id c), (''request_hash'', cv_request_hash c),
      (''admission_decision_hash'', cv_admission_decision_hash c), (''provider_id'', cv_provider_id c),
      (''provider_version'', cv_provider_version c), (''provider_manifest_hash'', cv_provider_manifest_hash c),
      (''promotion_id'', cv_promotion_id c)]))"

definition check_conversion ::
  "builtins \<Rightarrow> spatial_conversion_row \<Rightarrow> representation_row \<Rightarrow> scene_commit_row \<Rightarrow> string \<Rightarrow> sip_error + unit" where
  "check_conversion B c r revision role =
     (if cv_candidate_representation_id c \<noteq> Some (re_representation_id r)
      then Inl (AuthorizationError ''HYB_PUBLICATION_CANDIDATE_MISMATCH'' [])
      else if cv_state c \<noteq> ''validated''
      then Inl (AuthorizationError ''HYB_PUBLICATION_CONVERSION_NOT_VALIDATED'' [(''state'', JStr (cv_state c))])
      else if sc_commit_id revision \<noteq> cv_scene_revision_id c
      then Inl (AuthorizationError ''HYB_PUBLICATION_SCENE_SNAPSHOT_STALE'' [])
      else if role \<notin> set (cv_output_roles_json c) then Inl (AuthorizationError ''HYB_PUBLICATION_ROLE_UNADMITTED'' [])
      else if json_str (bt_str B) (jget_or (re_metadata_json r) ''output_role'' (JStr role)) \<noteq> role
      then Inl (AuthorizationError ''HYB_PUBLICATION_OUTPUT_ROLE_MISMATCH'' [])
      else if provenance_mismatches c r \<noteq> []
      then Inl (AuthorizationError ''HYB_PUBLICATION_PROVENANCE_MISMATCH'' [(''fields'', jarr (provenance_mismatches c r))])
      else if \<not> truthy_str (re_manifest_hash r) then Inl (AuthorizationError ''HYB_PUBLICATION_CANDIDATE_HASH_MISSING'' [])
      else Inr ())"

text \<open>The descriptor the conversion was admitted with is still the provider's; the result is the
  provider part of the admission decision.\<close>

definition check_descriptor ::
  "runtime \<Rightarrow> builtins \<Rightarrow> string \<Rightarrow> spatial_conversion_row \<Rightarrow> db \<Rightarrow> sip_error + fields" where
  "check_descriptor rt B provider_key c s =
     (case (get_provider s (cv_provider_id c), tget pv_manifest_hash (provider_manifest_revisions s) (cv_provider_manifest_hash c)) of
        (Some p, Some v) \<Rightarrow>
          if pm_version p \<noteq> cv_provider_version c \<or> pm_manifest_hash p \<noteq> cv_provider_manifest_hash c \<or>
            \<not> provider_integrity_valid rt provider_key p \<or> \<not> revision_integrity_valid rt B provider_key v
          then Inl (AuthorizationError ''HYB_PUBLICATION_PROVIDER_SNAPSHOT_STALE'' [])
          else bindE (py_dict B (jget_or (cv_admission_decision_json c) ''provider'' (JObj []))) (\<lambda>admission.
            bindE (py_dict B (jget_or admission ''descriptor_snapshot'' (JObj []))) (\<lambda>snapshot.
            if jget admission ''descriptor_snapshot_hash'' \<noteq> JStr (cv_provider_manifest_hash c) \<or>
              canonical_sha256 rt (JObj (descriptor_body snapshot)) \<noteq> cv_provider_manifest_hash c \<or>
              \<not> py_eq (JObj snapshot) (JObj (pv_descriptor_json v))
            then Inl (AuthorizationError ''HYB_PUBLICATION_DESCRIPTOR_SNAPSHOT_INVALID'' [])
            else Inr admission))
      | _ \<Rightarrow> Inl (AuthorizationError ''HYB_PUBLICATION_PROVIDER_SNAPSHOT_STALE'' []))"

definition check_promotion ::
  "runtime \<Rightarrow> string \<Rightarrow> time \<Rightarrow> spatial_conversion_row \<Rightarrow> fields \<Rightarrow> db \<Rightarrow> sip_error + provider_promotion_row" where
  "check_promotion rt provider_key now c admission s =
     (case tget pp_promotion_id (provider_promotions s) (cv_promotion_id c) of
        None \<Rightarrow> Inl (AuthorizationError ''HYB_PUBLICATION_PROMOTION_STALE'' [])
      | Some p \<Rightarrow>
          if pp_superseded_at p \<noteq> None \<or> pp_state p \<notin> set [''active'', ''limited''] \<or> pp_provider_id p \<noteq> cv_provider_id c \<or>
            pp_provider_version p \<noteq> cv_provider_version c \<or> pp_provider_manifest_hash p \<noteq> cv_provider_manifest_hash c \<or>
            pp_valid_from p > now \<or> expired_at (pp_valid_until p) now \<or> \<not> promotion_integrity_valid rt provider_key p
          then Inl (AuthorizationError ''HYB_PUBLICATION_PROMOTION_STALE'' [])
          else if jget admission ''promotion_hash'' \<noteq> JStr (pp_promotion_hash p)
          then Inl (AuthorizationError ''HYB_PUBLICATION_PROMOTION_SNAPSHOT_MISMATCH'' [])
          else Inr p)"

definition uses_or :: "string list option \<Rightarrow> string list \<Rightarrow> string list" where
  "uses_or uses d = sorted_set (case uses of None \<Rightarrow> d | Some us \<Rightarrow> if us = [] then d else us)"

definition passing_validations ::
  "spatial_conversion_row \<Rightarrow> representation_row \<Rightarrow> string list \<Rightarrow> db \<Rightarrow> use_validation_row list" where
  "passing_validations c r uses s = filter (\<lambda>v. uv_conversion_id v = cv_conversion_id c \<and>
     uv_representation_id v = re_representation_id r \<and> uv_intended_use v \<in> set uses \<and> uv_passed v \<and>
     Some (uv_candidate_snapshot_hash v) = re_manifest_hash r \<and> uv_policy_snapshot_hash v = cv_admission_decision_hash c)
     (intended_use_validations s)"

definition independent_validator :: "spatial_conversion_row \<Rightarrow> use_validation_row \<Rightarrow> bool" where
  "independent_validator c v \<longleftrightarrow> \<not> prefix ''sip-worker:'' (uv_validator_id v) \<and> \<not> prefix ''sip-provider:'' (uv_validator_id v) \<and>
     uv_validator_id v \<noteq> cv_provider_id c \<and> uv_validator_id v \<noteq> cv_requested_by c"

definition check_uses ::
  "spatial_conversion_row \<Rightarrow> representation_row \<Rightarrow> provider_promotion_row \<Rightarrow> string list \<Rightarrow> db
     \<Rightarrow> sip_error + use_validation_row list" where
  "check_uses c r p uses s =
     (let rows = passing_validations c r uses s;
          missing = sorted_set (filter (\<lambda>u. u \<notin> set (map uv_intended_use rows)) uses) in
      if uses = [] then Inl (ValidationError ''HYB_PUBLICATION_USE_REQUIRED'' [])
      else if \<not> set uses \<subseteq> set (cv_intended_uses_json c) then Inl (AuthorizationError ''HYB_PUBLICATION_USE_UNADMITTED'' [])
      else if \<not> set uses \<subseteq> set (pp_intended_uses_json p) then Inl (AuthorizationError ''HYB_PUBLICATION_USE_PROMOTION_DENIED'' [])
      else if missing \<noteq> [] then Inl (AuthorizationError ''HYB_PUBLICATION_VALIDATION_MISSING'' [(''uses'', jarr missing)])
      else if \<not> list_all (independent_validator c) rows
      then Inl (AuthorizationError ''HYB_PUBLICATION_VALIDATOR_NOT_INDEPENDENT'' [])
      else bindE (reviewed_uses r) (\<lambda>reviewed.
        if \<not> approved_by_review reviewed uses then Inl (AuthorizationError ''HYB_PUBLICATION_REVIEW_SNAPSHOT_MISMATCH'' [])
        else Inr rows))"

definition governed_review ::
  "spatial_conversion_row \<Rightarrow> representation_row \<Rightarrow> provider_promotion_row \<Rightarrow> use_validation_row list \<Rightarrow> string list \<Rightarrow> fields" where
  "governed_review c r p rows uses = [(''mode'', JStr ''governed_conversion''), (''conversion_id'', JStr (cv_conversion_id c)),
     (''request_hash'', JStr (cv_request_hash c)), (''admission_decision_hash'', JStr (cv_admission_decision_hash c)),
     (''provider_manifest_hash'', JStr (cv_provider_manifest_hash c)), (''promotion_id'', JStr (pp_promotion_id p)),
     (''promotion_hash'', JStr (pp_promotion_hash p)), (''candidate_snapshot_hash'', jopt (re_manifest_hash r)),
     (''validation_ids'', jarr (sort (map uv_validation_id rows))),
     (''validation_hashes'', jarr (sort (map uv_validation_hash rows))), (''approved_uses'', jarr uses),
     (''independent_validation'', JBool True)]"

definition authorize_governed_publication ::
  "runtime \<Rightarrow> builtins \<Rightarrow> string \<Rightarrow> time \<Rightarrow> spatial_conversion_row \<Rightarrow> representation_row \<Rightarrow> scene_commit_row \<Rightarrow> string
     \<Rightarrow> string list option \<Rightarrow> db \<Rightarrow> sip_error + string list \<times> fields" where
  "authorize_governed_publication rt B provider_key now c r revision role uses s =
     bindE (check_conversion B c r revision role) (\<lambda>_.
     bindE (check_descriptor rt B provider_key c s) (\<lambda>admission.
     bindE (check_promotion rt provider_key now c admission s) (\<lambda>p.
     let bound = uses_or uses (cv_intended_uses_json c) in
     bindE (check_uses c r p bound s) (\<lambda>rows. Inr (bound, governed_review c r p rows bound)))))"

section \<open>Publication\<close>

record publish_args =
  pu_representation_id :: string
  pu_commit_id :: string
  pu_role :: string
  pu_publisher_id :: string
  pu_transform :: "rat list list option"
  pu_intended_uses :: "string list option"
  pu_review_decision :: "fields option"
  pu_audience_policy :: "fields option"
  pu_client_profile :: "fields option"

definition identity_transform :: "rat list list" where
  "identity_transform = [[1, 0, 0, 0], [0, 1, 0, 0], [0, 0, 1, 0], [0, 0, 0, 1]]"

definition binding_transform :: "publish_args \<Rightarrow> rat list list" where
  "binding_transform a = (case pu_transform a of None \<Rightarrow> identity_transform | Some m \<Rightarrow> if m = [] then identity_transform else m)"

text \<open>\<open>value or default\<close> for an optional dict.\<close>

definition fields_or :: "fields option \<Rightarrow> fields \<Rightarrow> fields" where
  "fields_or v d = (case v of None \<Rightarrow> d | Some kvs \<Rightarrow> if kvs = [] then d else kvs)"

definition check_publishable ::
  "publish_args \<Rightarrow> time \<Rightarrow> db \<Rightarrow> sip_error + representation_row \<times> scene_commit_row" where
  "check_publishable a now s =
     (case get_representation s (pu_representation_id a) of
        None \<Rightarrow> Inl (NotFoundError ''representation'' (pu_representation_id a))
      | Some r \<Rightarrow>
        (case get_commit s (pu_commit_id a) of
           None \<Rightarrow> Inl (ValidationError ''REPRESENTATION_COMMIT_SCOPE_MISMATCH'' [])
         | Some c \<Rightarrow>
             if sc_tenant_id c \<noteq> re_tenant_id r \<or> sc_project_id c \<noteq> re_project_id r \<or> sc_scene_id c \<noteq> re_scene_id r
             then Inl (ValidationError ''REPRESENTATION_COMMIT_SCOPE_MISMATCH'' [])
             else if re_state r \<noteq> ''approved'' then Inl (ConflictError ''REPRESENTATION_NOT_APPROVED'' [])
             else (case get_provider s (re_provider_id r) of
                None \<Rightarrow> Inl (AuthorizationError ''PROVIDER_PUBLICATION_DENIED'' [])
              | Some p \<Rightarrow>
                  if pm_approval_state p \<noteq> ''approved'' \<or> expired_at (pm_expires_at p) now
                  then Inl (AuthorizationError ''PROVIDER_PUBLICATION_DENIED'' [])
                  else let admitted = jget (re_provenance_json r) ''provider_manifest_hash'' in
                    if truthy admitted \<and> admitted \<noteq> JStr (pm_manifest_hash p)
                    then Inl (AuthorizationError ''PROVIDER_MANIFEST_CHANGED'' [])
                    else if pu_role a \<in> set (re_prohibited_uses_json r)
                    then Inl (AuthorizationError ''REPRESENTATION_USE_PROHIBITED'' [])
                    else Inr (r, c))))"

definition conversion_of :: "representation_row \<Rightarrow> db \<Rightarrow> spatial_conversion_row option" where
  "conversion_of r s = (if truthy_str (re_operation_id r)
     then find (\<lambda>c. Some (cv_operation_id c) = re_operation_id r) (spatial_conversions s) else None)"

text \<open>The uses that are bound and the review decision that is stored.\<close>

definition authorize_uses ::
  "runtime \<Rightarrow> builtins \<Rightarrow> string \<Rightarrow> time \<Rightarrow> publish_args \<Rightarrow> representation_row \<Rightarrow> scene_commit_row \<Rightarrow> db
     \<Rightarrow> sip_error + string list \<times> fields" where
  "authorize_uses rt B provider_key now a r revision s =
     (case conversion_of r s of
        Some c \<Rightarrow>
          bindE (authorize_governed_publication rt B provider_key now c r revision (pu_role a) (pu_intended_uses a) s) (\<lambda>(uses, review).
          Inr (uses, fields_or (pu_review_decision a) review))
      | None \<Rightarrow>
          bindE (reviewed_uses r) (\<lambda>reviewed.
          let uses = uses_or (pu_intended_uses a) [pu_role a];
              unauthorized = sorted_set (filter (\<lambda>u. JStr u \<notin> set reviewed) uses) in
          if JStr (pu_role a) \<notin> set reviewed then Inl (AuthorizationError ''REPRESENTATION_USE_NOT_APPROVED'' [])
          else if unauthorized \<noteq> []
          then Inl (AuthorizationError ''REPRESENTATION_USE_NOT_APPROVED'' [(''uses'', jarr unauthorized)])
          else bindE (if fields_or (pu_review_decision a) [] \<noteq> [] then Inr (fields_or (pu_review_decision a) [])
                      else py_dict B (jget_or (re_quality_json r) ''review'' (JObj []))) (\<lambda>review.
            Inr (uses, review))))"

record publication_policy =
  po_policy :: fields
  po_audiences :: "string list"
  po_purpose :: string

definition publication_policy_of ::
  "builtins \<Rightarrow> publish_args \<Rightarrow> fields \<Rightarrow> sip_error + publication_policy" where
  "publication_policy_of B a inherited =
     bindE (strs B (jget_or inherited ''policy_blockers'' (JArr []))) (\<lambda>blockers.
     if blockers \<noteq> []
     then Inl (AuthorizationError ''REPRESENTATION_POLICY_BLOCKED'' [(''policy_blockers'', jarr (sorted_set blockers))])
     else let policy0 = fields_or (pu_audience_policy a) inherited in
       bindE (strs B (jget_or inherited ''allowed_audiences'' (JArr []))) (\<lambda>inherited_audiences.
       bindE (strs B (jget_or policy0 ''allowed_audiences'' (JArr []))) (\<lambda>requested0.
       let defaulted = inherited_audiences \<noteq> [] \<and> requested0 = [];
           requested = (if defaulted then inherited_audiences else requested0);
           policy = (if defaulted then jset ''allowed_audiences'' (jarr (sorted_set requested)) policy0 else policy0) in
       if inherited_audiences \<noteq> [] \<and> \<not> set requested \<subseteq> set inherited_audiences
       then Inl (AuthorizationError ''REPRESENTATION_AUDIENCE_WIDENING_DENIED''
              [(''inherited_audiences'', jarr (sorted_set inherited_audiences)),
               (''requested_audiences'', jarr (sorted_set requested))])
       else let asked = jget policy ''purpose''; given = jget inherited ''purpose'';
                purpose = (if truthy asked then json_str (bt_str B) asked
                  else if truthy given then json_str (bt_str B) given else pu_role a) in
         bindE (strs B (jget_or inherited ''allowed_purposes'' (JArr []))) (\<lambda>purposes.
         if purposes \<noteq> [] \<and> purpose \<notin> set purposes
         then Inl (AuthorizationError ''REPRESENTATION_PURPOSE_DENIED''
                [(''purpose'', JStr purpose), (''allowed_purposes'', jarr (sorted_set purposes))])
         else Inr \<lparr>po_policy = policy, po_audiences = requested, po_purpose = purpose\<rparr>))))"

definition grant_in_force :: "representation_row \<Rightarrow> time \<Rightarrow> consent_grant_row \<Rightarrow> bool" where
  "grant_in_force r now g \<longleftrightarrow> cg_tenant_id g = re_tenant_id r \<and> cg_project_id g = re_project_id r \<and> cg_state g = ''active'' \<and>
     cg_revoked_at g = None \<and> \<not> expired_at (cg_expires_at g) now"

definition check_grant ::
  "representation_row \<Rightarrow> time \<Rightarrow> publication_policy \<Rightarrow> string list \<Rightarrow> db \<Rightarrow> string \<Rightarrow> sip_error + unit" where
  "check_grant r now p scopes s grant_id =
     (case tget cg_grant_id (consent_grants s) grant_id of
        None \<Rightarrow> Inl (AuthorizationError ''REPRESENTATION_CONSENT_INVALID'' [(''grant_id'', JStr grant_id)])
      | Some g \<Rightarrow>
          if \<not> grant_in_force r now g
          then Inl (AuthorizationError ''REPRESENTATION_CONSENT_INVALID'' [(''grant_id'', JStr grant_id)])
          else if po_purpose p \<notin> set (cg_purposes_json g)
          then Inl (AuthorizationError ''REPRESENTATION_CONSENT_PURPOSE_DENIED''
                 [(''grant_id'', JStr grant_id), (''purpose'', JStr (po_purpose p))])
          else if po_audiences p \<noteq> [] \<and> \<not> set (po_audiences p) \<subseteq> set (cg_audiences_json g)
          then Inl (AuthorizationError ''REPRESENTATION_CONSENT_AUDIENCE_DENIED''
                 [(''grant_id'', JStr grant_id), (''requested_audiences'', jarr (sorted_set (po_audiences p)))])
          else if scopes \<noteq> [] \<and> \<not> set scopes \<subseteq> set (cg_scopes_json g)
          then Inl (AuthorizationError ''REPRESENTATION_CONSENT_SCOPE_DENIED''
                 [(''grant_id'', JStr grant_id), (''required_scopes'', jarr (sorted_set scopes))])
          else Inr ())"

definition check_consent ::
  "builtins \<Rightarrow> representation_row \<Rightarrow> time \<Rightarrow> publication_policy \<Rightarrow> db \<Rightarrow> sip_error + unit" where
  "check_consent B r now p s =
     bindE (strs B (jget_or (re_privacy_inheritance_json r) ''required_scopes'' (JArr []))) (\<lambda>scopes.
     bindE (strs B (jget_or (re_privacy_inheritance_json r) ''consent_grant_ids'' (JArr []))) (\<lambda>grants.
     foldE (\<lambda>k _. check_grant r now p scopes s k) (sorted_set grants) ()))"

text \<open>The bindings that a new one replaces: the current ones of the same scene and role.\<close>

definition same_slot :: "representation_row \<Rightarrow> string \<Rightarrow> representation_binding_row \<Rightarrow> bool" where
  "same_slot r role b \<longleftrightarrow> bi_tenant_id b = re_tenant_id r \<and> bi_project_id b = re_project_id r \<and>
     bi_scene_id b = re_scene_id r \<and> bi_role b = role \<and> bi_superseded_at b = None"

definition new_binding ::
  "env \<Rightarrow> publish_args \<Rightarrow> representation_row \<Rightarrow> string list \<Rightarrow> fields \<Rightarrow> publication_policy \<Rightarrow> representation_binding_row" where
  "new_binding E a r uses review p =
     \<lparr>bi_binding_id = ids E 0, bi_tenant_id = re_tenant_id r, bi_project_id = re_project_id r, bi_scene_id = re_scene_id r,
      bi_commit_id = pu_commit_id a, bi_representation_id = pu_representation_id a, bi_role = pu_role a,
      bi_coordinate_frame_id = re_coordinate_frame_id r, bi_transform_json = binding_transform a,
      bi_authority_class = re_authority_class r, bi_authority_ceiling = re_authority_ceiling r,
      bi_intended_uses_json = uses, bi_review_decision_json = review,
      bi_audience_policy_json = jset ''purpose'' (JStr (po_purpose p)) (po_policy p),
      bi_client_profile_json = fields_or (pu_client_profile a) [], bi_published_by = pu_publisher_id a,
      bi_published_at = clk E 3, bi_superseded_at = None\<rparr>"

definition publication_event :: "publish_args \<Rightarrow> representation_row \<Rightarrow> representation_binding_row \<Rightarrow> event_spec" where
  "publication_event a r b =
     \<lparr>es_event_type = ''representation.published'', es_schema_version = ''1.0.0'', es_tenant_id = re_tenant_id r,
      es_project_id = Some (re_project_id r), es_aggregate_type = ''representation_binding'', es_aggregate_id = bi_binding_id b,
      es_payload = [(''binding_id'', JStr (bi_binding_id b)), (''representation_id'', JStr (pu_representation_id a)),
        (''commit_id'', JStr (pu_commit_id a)), (''role'', JStr (pu_role a)),
        (''coordinate_frame_id'', JStr (re_coordinate_frame_id r)), (''authority_ceiling'', JStr (re_authority_ceiling r)),
        (''intended_uses'', jarr (bi_intended_uses_json b))],
      es_producer = ''representation-publisher'', es_actor_id = Some (pu_publisher_id a), es_workload_identity = None,
      es_traceparent = None, es_correlation_id = None, es_causation_id = Some (pu_representation_id a)\<rparr>"

definition bind_representation ::
  "runtime \<Rightarrow> string \<Rightarrow> event_catalog \<Rightarrow> env \<Rightarrow> publish_args \<Rightarrow> representation_row \<Rightarrow> representation_binding_row \<Rightarrow> db
     \<Rightarrow> sip_error + string \<times> db" where
  "bind_representation rt key cat E a r b s =
     (let s1 = supersede_bindings (same_slot r (pu_role a)) (clk E 2) s in
      bindE (insert_row bi_binding_id b (representation_bindings s1)) (\<lambda>rows.
      bindE (emit_event rt cat (ids E 1) (clk E 5) (publication_event a r b)
        (put_representation (r\<lparr>re_state := ''published''\<rparr>) (s1\<lparr>representation_bindings := rows\<rparr>))) (\<lambda>s2.
      bindE (append_audit rt key (ids E 2) (clk E 6)
        (audit_entry (re_tenant_id r) (Some (re_project_id r)) (pu_publisher_id a) ''representation:publish''
           ''representation_binding'' (bi_binding_id b) ''allowed'' [(''representation_id'', JStr (pu_representation_id a)),
             (''commit_id'', JStr (pu_commit_id a)), (''role'', JStr (pu_role a))]) s2) (\<lambda>s3.
      Inr (bi_binding_id b, s3)))))"

definition publish ::
  "runtime \<Rightarrow> string \<Rightarrow> event_catalog \<Rightarrow> builtins \<Rightarrow> string \<Rightarrow> env \<Rightarrow> publish_args \<Rightarrow> db \<Rightarrow> sip_error + string \<times> db" where
  "publish rt key cat B provider_key E a s =
     (if is_worker (pu_publisher_id a) then Inl (AuthorizationError ''WORKER_PUBLICATION_DENIED'' [])
      else if length (binding_transform a) \<noteq> 4 \<or> \<not> list_all (\<lambda>row. length row = 4) (binding_transform a)
      then Inl (ValidationError ''REPRESENTATION_BINDING_TRANSFORM_INVALID'' [])
      else bindE (check_publishable a (clk E 0) s) (\<lambda>(r, revision).
        bindE (authorize_uses rt B provider_key (clk E 4) a r revision s) (\<lambda>(uses, review).
        bindE (publication_policy_of B a (re_privacy_inheritance_json r)) (\<lambda>p.
        bindE (check_consent B r (clk E 1) p s) (\<lambda>_.
        bind_representation rt key cat E a r (new_binding E a r uses review p) s)))))"

definition api_publish_representation ::
  "runtime \<Rightarrow> string \<Rightarrow> event_catalog \<Rightarrow> builtins \<Rightarrow> string \<Rightarrow> env \<Rightarrow> env \<Rightarrow> principal \<Rightarrow> publish_args \<Rightarrow> db
     \<Rightarrow> (sip_error + json) \<times> db" where
  "api_publish_representation rt key cat B provider_key E F p a s =
     guarded rt key E p (api_request ''representation:publish'' (p_tenant_id p) None)
       (id_response ''binding_id'' (publish rt key cat B provider_key F (a\<lparr>pu_publisher_id := subject_id p\<rparr>))) s"

end
