(* ===== verification/Scene_Merge.thy ===== *)
theory Scene_Merge
  imports Scenes
begin

text \<open>
  The history operations of \<open>src/sip/spatial_data.py\<close> on scene commits: immutable tags, the query
  of a scene as it was, the walk over the ancestors of a commit, the three-way semantic merge and
  the merge of two branches.

  The walk over the ancestors terminates on every commit graph, cyclic ones included, and returns
  exactly the commits that can be reached by parents. The semantic merge is compared with the
  usual specification: each entity takes the side that changed it.
\<close>

section \<open>Tags\<close>

definition tag_named :: "string \<Rightarrow> string \<Rightarrow> string \<Rightarrow> string \<Rightarrow> scene_tag_row \<Rightarrow> bool" where
  "tag_named tenant project scene name g \<longleftrightarrow> sg_tenant_id g = tenant \<and> sg_project_id g = project \<and>
     sg_scene_id g = scene \<and> sg_name g = name"

definition find_tag :: "string \<Rightarrow> string \<Rightarrow> string \<Rightarrow> string \<Rightarrow> db \<Rightarrow> scene_tag_row option" where
  "find_tag tenant project scene name s = find (tag_named tenant project scene name) (scene_tags s)"

record tag_args =
  tg_tenant_id :: string
  tg_project_id :: string
  tg_scene_id :: string
  tg_commit_id :: string
  tg_name :: string
  tg_actor_id :: string
  tg_metadata :: fields

definition new_tag :: "env \<Rightarrow> tag_args \<Rightarrow> scene_tag_row" where
  "new_tag E a = \<lparr>sg_tag_id = ids E 0, sg_tenant_id = tg_tenant_id a, sg_project_id = tg_project_id a,
     sg_scene_id = tg_scene_id a, sg_commit_id = tg_commit_id a, sg_name = tg_name a, sg_immutable = True,
     sg_metadata_json = tg_metadata a, sg_created_by = tg_actor_id a, sg_created_at = clk E 0\<rparr>"

definition tag_payload :: "env \<Rightarrow> tag_args \<Rightarrow> fields" where
  "tag_payload E a = [(''tag_id'', JStr (ids E 0)), (''scene_id'', JStr (tg_scene_id a)),
     (''commit_id'', JStr (tg_commit_id a)), (''name'', JStr (tg_name a))]"

text \<open>The name is free when the row is inserted, so \<open>uq_scene_tag\<close> holds.\<close>

definition tag_commit ::
  "runtime \<Rightarrow> string \<Rightarrow> event_catalog \<Rightarrow> env \<Rightarrow> tag_args \<Rightarrow> db \<Rightarrow> sip_error + fields \<times> db" where
  "tag_commit rt key c E a s =
     (case get_commit s (tg_commit_id a) of
        None \<Rightarrow> Inl (NotFoundError ''scene_commit'' (tg_commit_id a))
      | Some r \<Rightarrow>
          if sc_tenant_id r \<noteq> tg_tenant_id a \<or> sc_project_id r \<noteq> tg_project_id a \<or> sc_scene_id r \<noteq> tg_scene_id a
          then Inl (NotFoundError ''scene_commit'' (tg_commit_id a))
          else if find_tag (tg_tenant_id a) (tg_project_id a) (tg_scene_id a) (tg_name a) s \<noteq> None
          then Inl (ConflictError ''SCENE_TAG_IMMUTABLE'' [])
          else bindE (insert_row sg_tag_id (new_tag E a) (scene_tags s)) (\<lambda>rows.
            bindE (emit_event rt c (ids E 1) (clk E 1)
              \<lparr>es_event_type = ''scene.tagged'', es_schema_version = ''1.0.0'', es_tenant_id = tg_tenant_id a,
               es_project_id = Some (tg_project_id a), es_aggregate_type = ''scene_tag'', es_aggregate_id = ids E 0,
               es_payload = tag_payload E a, es_producer = ''scene-service'', es_actor_id = Some (tg_actor_id a),
               es_workload_identity = None, es_traceparent = None, es_correlation_id = None, es_causation_id = None\<rparr>
              (s\<lparr>scene_tags := rows\<rparr>)) (\<lambda>s1.
            bindE (append_audit rt key (ids E 2) (clk E 2)
              (audit_entry (tg_tenant_id a) (Some (tg_project_id a)) (tg_actor_id a) ''scene:tag'' ''scene_tag'' (ids E 0)
                 ''allowed'' (tag_payload E a)) s1) (\<lambda>s2.
            Inr (tag_payload E a, s2)))))"

section \<open>A scene as it was\<close>

record commit_view =
  cv_commit_id :: string
  cv_tenant_id :: string
  cv_project_id :: string
  cv_scene_id :: string
  cv_branch :: "string option"
  cv_parent_ids :: "string list"
  cv_message :: string
  cv_semantic_snapshot :: fields
  cv_snapshot_hash :: string
  cv_root_manifest_hash :: string
  cv_field_visit_id :: "string option"
  cv_workflow_event_id :: "string option"
  cv_change_evidence_ids :: "string list"
  cv_policy_checks :: fields
  cv_signatures :: "fields list"
  cv_review_state :: string
  cv_valid_from :: "time option"
  cv_valid_to :: "time option"
  cv_recorded_at :: "time option"

definition commit_dict :: "scene_commit_row \<Rightarrow> commit_view" where
  "commit_dict r = \<lparr>cv_commit_id = sc_commit_id r, cv_tenant_id = sc_tenant_id r, cv_project_id = sc_project_id r,
     cv_scene_id = sc_scene_id r, cv_branch = Some (sc_branch r), cv_parent_ids = sc_parent_ids_json r,
     cv_message = sc_message r, cv_semantic_snapshot = sc_semantic_snapshot_json r, cv_snapshot_hash = sc_snapshot_hash r,
     cv_root_manifest_hash = str_or (Some (sc_root_manifest_hash r)) (sc_snapshot_hash r),
     cv_field_visit_id = sc_field_visit_id r, cv_workflow_event_id = sc_workflow_event_id r,
     cv_change_evidence_ids = sc_change_evidence_ids_json r, cv_policy_checks = sc_policy_checks_json r,
     cv_signatures = sc_signatures_json r, cv_review_state = sc_review_state r, cv_valid_from = sc_valid_from r,
     cv_valid_to = sc_valid_to r, cv_recorded_at = Some (sc_recorded_at r)\<rparr>"

record as_of_args =
  ao_tenant_id :: string
  ao_project_id :: string
  ao_scene_id :: string
  ao_commit_id :: "string option"
  ao_tag :: "string option"
  ao_recorded_at :: "time option"
  ao_valid_at :: "time option"
  ao_field_visit_id :: "string option"
  ao_branch :: "string option"

definition selectors :: "as_of_args \<Rightarrow> bool list" where
  "selectors a = [ao_commit_id a \<noteq> None, ao_tag a \<noteq> None, ao_recorded_at a \<noteq> None, ao_valid_at a \<noteq> None,
     ao_field_visit_id a \<noteq> None, ao_branch a \<noteq> None]"

definition as_of_match :: "as_of_args \<Rightarrow> scene_commit_row \<Rightarrow> bool" where
  "as_of_match a r \<longleftrightarrow> sc_tenant_id r = ao_tenant_id a \<and> sc_project_id r = ao_project_id a \<and> sc_scene_id r = ao_scene_id a \<and>
     (truthy_str (ao_field_visit_id a) \<longrightarrow> sc_field_visit_id r = ao_field_visit_id a) \<and>
     (case ao_recorded_at a of None \<Rightarrow> True | Some t \<Rightarrow> sc_recorded_at r \<le> t) \<and>
     (case ao_valid_at a of None \<Rightarrow> True
      | Some t \<Rightarrow> (case sc_valid_from r of None \<Rightarrow> True | Some f \<Rightarrow> f \<le> t) \<and>
                  (case sc_valid_to r of None \<Rightarrow> True | Some u \<Rightarrow> u > t))"

text \<open>\<open>order_by(recorded_at.desc(), created_at.desc())\<close> and the first row; of rows that agree on
  both times the first in the table.\<close>

definition later_commit :: "scene_commit_row \<Rightarrow> scene_commit_row \<Rightarrow> bool" where
  "later_commit a b \<longleftrightarrow> sc_recorded_at a > sc_recorded_at b \<or>
     (sc_recorded_at a = sc_recorded_at b \<and> sc_created_at a > sc_created_at b)"

fun newest_commit :: "scene_commit_row list \<Rightarrow> scene_commit_row option" where
  "newest_commit [] = None"
| "newest_commit (r # rs) = (case newest_commit rs of None \<Rightarrow> Some r
     | Some b \<Rightarrow> if later_commit b r then Some b else Some r)"

definition as_of_commit :: "as_of_args \<Rightarrow> db \<Rightarrow> scene_commit_row option" where
  "as_of_commit a s =
     (if truthy_str (ao_commit_id a) then get_commit s (the (ao_commit_id a))
      else if truthy_str (ao_tag a)
      then Option.bind (find_tag (ao_tenant_id a) (ao_project_id a) (ao_scene_id a) (the (ao_tag a)) s)
             (\<lambda>g. get_commit s (sg_commit_id g))
      else if truthy_str (ao_branch a)
      then Option.bind (find_branch (ao_tenant_id a) (ao_project_id a) (ao_scene_id a) (the (ao_branch a)) s)
             (\<lambda>b. get_commit s (sb_head_commit_id b))
      else newest_commit (filter (as_of_match a) (scene_commits s)))"

definition as_of_name :: "as_of_args \<Rightarrow> string" where
  "as_of_name a = str_or (ao_commit_id a) (str_or (ao_tag a) (str_or (ao_branch a) (str_or (ao_field_visit_id a) ''as_of'')))"

definition query_scene_as_of :: "runtime \<Rightarrow> as_of_args \<Rightarrow> db \<Rightarrow> sip_error + commit_view \<times> db" where
  "query_scene_as_of rt a s =
     (if length (filter id (selectors a)) \<noteq> 1 then Inl (ValidationError ''TWIN_QUERY_SELECTOR_REQUIRED'' [])
      else case as_of_commit a s of
        None \<Rightarrow> Inl (NotFoundError ''scene_commit'' (as_of_name a))
      | Some r \<Rightarrow>
          if sc_tenant_id r \<noteq> ao_tenant_id a \<or> sc_project_id r \<noteq> ao_project_id a \<or> sc_scene_id r \<noteq> ao_scene_id a
          then Inl (NotFoundError ''scene_commit'' (as_of_name a))
          else if canonical_sha256 rt (JObj (sc_semantic_snapshot_json r)) \<noteq> sc_snapshot_hash r
          then Inl (ValidationError ''SCENE_SNAPSHOT_INTEGRITY_FAILED'' [])
          else Inr (commit_dict r, s))"

section \<open>Ancestors\<close>

lemma get_commit_key: "get_commit s k = Some r \<Longrightarrow> k \<in> tkeys sc_commit_id (scene_commits s)"
  unfolding get_commit_def using tget_None_iff [of sc_commit_id "scene_commits s" k] by auto

text \<open>The loop of \<open>_ancestor_ids\<close>: \<open>pending\<close> is the stack with its top first, so \<open>extend\<close> puts the
  new parents on top in reverse.\<close>

function ancestor_loop :: "db \<Rightarrow> string set \<Rightarrow> string list \<Rightarrow> sip_error + string set" where
  "ancestor_loop s ancestors [] = Inr ancestors"
| "ancestor_loop s ancestors (k # pending) =
     (if k \<in> ancestors then ancestor_loop s ancestors pending
      else case get_commit s k of
        None \<Rightarrow> Inl (ValidationError ''SCENE_COMMIT_GRAPH_INVALID'' [(''commit_id'', JStr k)])
      | Some r \<Rightarrow> ancestor_loop s (insert k ancestors)
          (rev (filter (\<lambda>p. p \<notin> insert k ancestors) (sc_parent_ids_json r)) @ pending))"
  by pat_completeness auto

termination
proof (relation "measures [\<lambda>(s, ancestors, pending). card (tkeys sc_commit_id (scene_commits s) - ancestors),
    \<lambda>(s, ancestors, pending). length pending]", goal_cases)
  case (3 s ancestors k pending r)
  have "tkeys sc_commit_id (scene_commits s) - insert k ancestors \<subset> tkeys sc_commit_id (scene_commits s) - ancestors"
    using 3 get_commit_key by blast
  moreover have "finite (tkeys sc_commit_id (scene_commits s))" by (simp add: tkeys_def)
  ultimately show ?case by (simp add: psubset_card_mono)
qed simp_all

definition ancestor_ids :: "db \<Rightarrow> string \<Rightarrow> sip_error + string set" where
  "ancestor_ids s commit_id = ancestor_loop s {} [commit_id]"

section \<open>The semantic merge\<close>

definition PROTECTED_MERGE_KEYS :: "string list" where
  "PROTECTED_MERGE_KEYS = [''authority_class'', ''source_class'', ''measurement'', ''measurements'', ''consent'', ''policy'',
     ''safety'', ''code_compliance'', ''verification'']"

record merge_conflict =
  mc_entity_id :: string
  mc_categories :: "string list"
  mc_left_hash :: string
  mc_right_hash :: string
  mc_base_hash :: string

text \<open>\<open>entity_map\<close>: the entities by their identifier, and whether they were stored as an object.
  Iterating over a text gives characters, none of which is a dict.\<close>

fun listed_entities :: "(json \<Rightarrow> string) \<Rightarrow> json list \<Rightarrow> fields \<Rightarrow> fields" where
  "listed_entities py_str [] d = d"
| "listed_entities py_str (JObj kvs # items) d =
     listed_entities py_str items
       (if jget kvs ''entity_id'' = JNull then d else jset (json_str py_str (jget kvs ''entity_id'')) (JObj kvs) d)"
| "listed_entities py_str (_ # items) d = listed_entities py_str items d"

definition entity_map :: "(json \<Rightarrow> string) \<Rightarrow> fields \<Rightarrow> sip_error + fields \<times> bool" where
  "entity_map py_str snapshot =
     (case map_of snapshot ''entities'' of
        None \<Rightarrow> Inr ([], False)
      | Some (JObj kvs) \<Rightarrow> Inr (kvs, True)
      | Some (JArr items) \<Rightarrow> Inr (listed_entities py_str items [], False)
      | Some (JStr t) \<Rightarrow> Inr ([], False)
      | Some _ \<Rightarrow> Inl (Uncaught ''TypeError''))"

text \<open>The four cases of the three-way merge of one value, \<open>None\<close> being an absent one: the value
  and whether both sides changed it differently.\<close>

definition three_way :: "json \<Rightarrow> json \<Rightarrow> json \<Rightarrow> json \<times> bool" where
  "three_way prior l r =
     (if py_eq l r then (l, False) else if py_eq l prior then (r, False) else if py_eq r prior then (l, False)
      else (l, True))"

definition changed_keys :: "json \<Rightarrow> string list" where
  "changed_keys v = (case v of
     JObj kvs \<Rightarrow> map fst kvs @ (case jget kvs ''attributes'' of JObj attrs \<Rightarrow> map fst attrs | _ \<Rightarrow> [])
   | _ \<Rightarrow> [])"

definition entity_conflict :: "runtime \<Rightarrow> string \<Rightarrow> json \<Rightarrow> json \<Rightarrow> json \<Rightarrow> merge_conflict" where
  "entity_conflict rt k prior l r =
     (let categories = sorted_set (filter (\<lambda>c. c \<in> set PROTECTED_MERGE_KEYS) (changed_keys l @ changed_keys r)) in
      \<lparr>mc_entity_id = k, mc_categories = (if categories = [] then [''semantic_conflict''] else categories),
       mc_left_hash = canonical_sha256 rt l, mc_right_hash = canonical_sha256 rt r, mc_base_hash = canonical_sha256 rt prior\<rparr>)"

fun merge_entities ::
  "runtime \<Rightarrow> fields \<Rightarrow> fields \<Rightarrow> fields \<Rightarrow> string list \<Rightarrow> fields \<times> merge_conflict list" where
  "merge_entities rt base l r [] = ([], [])"
| "merge_entities rt base l r (k # ks) =
     (let (v, conflict) = three_way (jget base k) (jget l k) (jget r k);
          (merged, conflicts) = merge_entities rt base l r ks
      in ((if v = JNull then [] else [(k, v)]) @ merged,
          (if conflict then [entity_conflict rt k (jget base k) (jget l k) (jget r k)] else []) @ conflicts))"

definition field_conflict :: "runtime \<Rightarrow> string \<Rightarrow> json \<Rightarrow> json \<Rightarrow> json \<Rightarrow> merge_conflict" where
  "field_conflict rt k prior l r =
     \<lparr>mc_entity_id = ''scene:'' @ k,
      mc_categories = [if k = ''representations'' then ''representation_binding'' else ''semantic_conflict''],
      mc_left_hash = canonical_sha256 rt l, mc_right_hash = canonical_sha256 rt r, mc_base_hash = canonical_sha256 rt prior\<rparr>"

fun merge_fields ::
  "runtime \<Rightarrow> fields \<Rightarrow> fields \<Rightarrow> fields \<Rightarrow> string list \<Rightarrow> fields \<Rightarrow> fields \<times> merge_conflict list" where
  "merge_fields rt base l r [] merged = (merged, [])"
| "merge_fields rt base l r (k # ks) merged =
     (let (v, conflict) = three_way (jget base k) (jget l k) (jget r k);
          (merged', conflicts) = merge_fields rt base l r ks (jset k v merged)
      in (merged', (if conflict then [field_conflict rt k (jget base k) (jget l k) (jget r k)] else []) @ conflicts))"

definition semantic_merge ::
  "runtime \<Rightarrow> (json \<Rightarrow> string) \<Rightarrow> fields \<Rightarrow> fields \<Rightarrow> fields \<Rightarrow> sip_error + fields \<times> merge_conflict list" where
  "semantic_merge rt py_str base l r =
     bindE (entity_map py_str base) (\<lambda>(base_entities, dict_style).
     bindE (entity_map py_str l) (\<lambda>(left_entities, _).
     bindE (entity_map py_str r) (\<lambda>(right_entities, _).
     let (entities, conflicts) = merge_entities rt base_entities left_entities right_entities
           (sorted_set (map fst base_entities @ map fst left_entities @ map fst right_entities));
         merged = jset ''entities'' (if dict_style then JObj entities else JArr (map snd entities)) base;
         (merged', conflicts') = merge_fields rt base l r
           (sorted_set (filter (\<lambda>k. k \<noteq> ''entities'') (map fst base @ map fst l @ map fst r))) merged
     in Inr (merged', conflicts @ conflicts'))))"

section \<open>The merge of branches\<close>

record merge_args =
  ma_tenant_id :: string
  ma_project_id :: string
  ma_scene_id :: string
  ma_target_branch :: string
  ma_source_branch :: string
  ma_base_commit_id :: string
  ma_actor_id :: string
  ma_message :: string
  ma_approved :: "string list"

record review_report =
  rr_target_head :: string
  rr_source_head :: string
  rr_base_commit_id :: string
  rr_conflicts :: "merge_conflict list"
  rr_required :: "string list"
  rr_unapproved :: "string list"

datatype merge_outcome = ReviewRequired review_report | Merged commit_view

definition in_scope :: "merge_args \<Rightarrow> scene_commit_row \<Rightarrow> bool" where
  "in_scope a r \<longleftrightarrow> sc_tenant_id r = ma_tenant_id a \<and> sc_project_id r = ma_project_id a \<and> sc_scene_id r = ma_scene_id a"

definition required_categories :: "merge_conflict list \<Rightarrow> string list" where
  "required_categories conflicts =
     (let protected = sorted_set (filter (\<lambda>c. c \<in> set PROTECTED_MERGE_KEYS) (concat (map mc_categories conflicts)))
      in if protected \<noteq> [] then protected else if conflicts \<noteq> [] then [''semantic_conflict''] else [])"

definition merge_policy_checks :: "merge_args \<Rightarrow> merge_conflict list \<Rightarrow> fields" where
  "merge_policy_checks a conflicts = [(''merge_base'', JStr (ma_base_commit_id a)),
     (''conflict_count'', JInt (int (length conflicts))),
     (''approved_review_categories'', JArr (map JStr (sorted_set (ma_approved a)))),
     (''automatic_conflict_resolution'', JBool False)]"

definition merge_commit ::
  "runtime \<Rightarrow> env \<Rightarrow> merge_args \<Rightarrow> string \<Rightarrow> string \<Rightarrow> fields \<Rightarrow> merge_conflict list \<Rightarrow> scene_commit_row" where
  "merge_commit rt E a left_id right_id merged conflicts =
     (let snapshot_hash = canonical_sha256 rt (JObj merged) in
      \<lparr>sc_commit_id = ids E 0, sc_tenant_id = ma_tenant_id a, sc_project_id = ma_project_id a,
       sc_scene_id = ma_scene_id a, sc_branch = ma_target_branch a, sc_parent_ids_json = [left_id, right_id],
       sc_message = ma_message a, sc_semantic_snapshot_json = merged, sc_snapshot_hash = snapshot_hash,
       sc_root_manifest_hash = snapshot_hash, sc_field_visit_id = None, sc_workflow_event_id = None,
       sc_change_evidence_ids_json = [], sc_policy_checks_json = merge_policy_checks a conflicts, sc_signatures_json = [],
       sc_review_state = (if conflicts \<noteq> [] then ''approved'' else ''automatic_nonconflicting''),
       sc_valid_from = None, sc_valid_to = None, sc_recorded_at = clk E 0, sc_created_by = ma_actor_id a,
       sc_created_at = clk E 1, sc_supersedes_commit_id = None\<rparr>)"

definition merge_payload :: "merge_args \<Rightarrow> scene_commit_row \<Rightarrow> merge_conflict list \<Rightarrow> fields" where
  "merge_payload a row conflicts = [(''scene_id'', JStr (ma_scene_id a)), (''commit_id'', JStr (sc_commit_id row)),
     (''parent_ids'', JArr (map JStr (sc_parent_ids_json row))), (''snapshot_hash'', JStr (sc_snapshot_hash row)),
     (''merge_base'', JStr (ma_base_commit_id a)), (''conflict_count'', JInt (int (length conflicts)))]"

text \<open>The view of the merge: \<open>_commit_dict_from_values\<close> with its defaults.\<close>

definition merge_view :: "scene_commit_row \<Rightarrow> commit_view" where
  "merge_view row = \<lparr>cv_commit_id = sc_commit_id row, cv_tenant_id = sc_tenant_id row, cv_project_id = sc_project_id row,
     cv_scene_id = sc_scene_id row, cv_branch = Some (sc_branch row), cv_parent_ids = sc_parent_ids_json row,
     cv_message = sc_message row, cv_semantic_snapshot = sc_semantic_snapshot_json row,
     cv_snapshot_hash = sc_snapshot_hash row, cv_root_manifest_hash = sc_snapshot_hash row, cv_field_visit_id = None,
     cv_workflow_event_id = None, cv_change_evidence_ids = [], cv_policy_checks = sc_policy_checks_json row,
     cv_signatures = [], cv_review_state = ''unreviewed'', cv_valid_from = None, cv_valid_to = None,
     cv_recorded_at = None\<rparr>"

text \<open>The commits the merge is about: the base and the heads of both branches.\<close>

definition merge_inputs ::
  "merge_args \<Rightarrow> db \<Rightarrow> sip_error + scene_branch_row \<times> scene_commit_row \<times> scene_commit_row \<times> scene_commit_row" where
  "merge_inputs a s =
     (case (find_branch (ma_tenant_id a) (ma_project_id a) (ma_scene_id a) (ma_target_branch a) s,
            find_branch (ma_tenant_id a) (ma_project_id a) (ma_scene_id a) (ma_source_branch a) s,
            get_commit s (ma_base_commit_id a)) of
        (Some target, Some source, Some base) \<Rightarrow>
          (case (get_commit s (sb_head_commit_id target), get_commit s (sb_head_commit_id source)) of
             (Some l, Some r) \<Rightarrow>
               if in_scope a base \<and> in_scope a l \<and> in_scope a r then Inr (target, base, l, r)
               else Inl (ValidationError ''SCENE_MERGE_SCOPE_INVALID'' [])
           | _ \<Rightarrow> Inl (ValidationError ''SCENE_MERGE_SCOPE_INVALID'' []))
      | _ \<Rightarrow> Inl (NotFoundError ''scene_merge_input''
               (ma_target_branch a @ '':'' @ ma_source_branch a @ '':'' @ ma_base_commit_id a)))"

definition check_base :: "merge_args \<Rightarrow> string \<Rightarrow> string \<Rightarrow> db \<Rightarrow> sip_error + unit" where
  "check_base a left_id right_id s =
     bindE (ancestor_ids s left_id) (\<lambda>la.
       if ma_base_commit_id a \<notin> la then Inl (ValidationError ''SCENE_MERGE_BASE_INVALID'' [])
       else bindE (ancestor_ids s right_id) (\<lambda>ra.
         if ma_base_commit_id a \<notin> ra then Inl (ValidationError ''SCENE_MERGE_BASE_INVALID'' []) else Inr ()))"

definition publish_merge ::
  "runtime \<Rightarrow> string \<Rightarrow> event_catalog \<Rightarrow> env \<Rightarrow> merge_args \<Rightarrow> scene_branch_row \<Rightarrow> scene_commit_row \<Rightarrow> merge_conflict list
     \<Rightarrow> db \<Rightarrow> sip_error + merge_outcome \<times> db" where
  "publish_merge rt key c E a target row conflicts s =
     bindE (insert_commit row s) (\<lambda>s1.
     bindE (emit_event rt c (ids E 1) (clk E 2)
       (scene_event (ma_tenant_id a) (ma_project_id a) (ids E 0) (merge_payload a row conflicts) (ma_actor_id a) None)
       (set_head target (ids E 0) s1)) (\<lambda>s2.
     bindE (append_audit rt key (ids E 2) (clk E 3)
       (audit_entry (ma_tenant_id a) (Some (ma_project_id a)) (ma_actor_id a) ''scene:merge'' ''scene_commit'' (ids E 0)
          ''allowed'' (merge_payload a row conflicts)) s2) (\<lambda>s3.
     Inr (Merged (merge_view row), s3))))"

definition merge_branches ::
  "runtime \<Rightarrow> string \<Rightarrow> event_catalog \<Rightarrow> (json \<Rightarrow> string) \<Rightarrow> env \<Rightarrow> merge_args \<Rightarrow> db \<Rightarrow> sip_error + merge_outcome \<times> db" where
  "merge_branches rt key c py_str E a s =
     bindE (merge_inputs a s) (\<lambda>(target, base, l, r).
     bindE (check_base a (sc_commit_id l) (sc_commit_id r) s) (\<lambda>_.
     bindE (semantic_merge rt py_str (sc_semantic_snapshot_json base) (sc_semantic_snapshot_json l)
              (sc_semantic_snapshot_json r)) (\<lambda>(merged, conflicts).
     let required = required_categories conflicts;
         unapproved = sorted_set (filter (\<lambda>x. x \<notin> set (ma_approved a)) required) in
     if conflicts \<noteq> [] \<and> unapproved \<noteq> []
     then Inr (ReviewRequired \<lparr>rr_target_head = sc_commit_id l, rr_source_head = sc_commit_id r,
            rr_base_commit_id = ma_base_commit_id a, rr_conflicts = conflicts, rr_required = required,
            rr_unapproved = unapproved\<rparr>, s)
     else publish_merge rt key c E a target
            (merge_commit rt E a (sc_commit_id l) (sc_commit_id r)
               (if conflicts \<noteq> [] then sc_semantic_snapshot_json l else merged) conflicts) conflicts s)))"

section \<open>The walk over the ancestors is exact\<close>

definition parent_of :: "db \<Rightarrow> string \<Rightarrow> string \<Rightarrow> bool" where
  "parent_of s d p \<longleftrightarrow> (\<exists>r. get_commit s d = Some r \<and> p \<in> set (sc_parent_ids_json r))"

definition reaches :: "db \<Rightarrow> string \<Rightarrow> string \<Rightarrow> bool" where
  "reaches s = (parent_of s)\<^sup>*\<^sup>*"

text \<open>When the loop returns, the result is closed under parents, holds what was pending, and all of
  it is stored and was reached from the start.\<close>

lemma ancestor_loop_sound:
  assumes "ancestor_loop s ancestors pending = Inr A"
    and "\<forall>k\<in>ancestors. get_commit s k \<noteq> None \<and> (\<forall>p. parent_of s k p \<longrightarrow> p \<in> ancestors \<union> set pending)"
  shows "ancestors \<union> set pending \<subseteq> A \<and> (\<forall>k\<in>A. get_commit s k \<noteq> None \<and> (\<forall>p. parent_of s k p \<longrightarrow> p \<in> A))"
  using assms
proof (induction s ancestors pending rule: ancestor_loop.induct)
  case (2 s ancestors k pending)
  show ?case
  proof (cases "k \<in> ancestors")
    case True
    with 2 show ?thesis by auto
  next
    case False
    with "2.prems"(1) obtain r where r: "get_commit s k = Some r"
      and l: "ancestor_loop s (insert k ancestors)
         (rev (filter (\<lambda>p. p \<notin> insert k ancestors) (sc_parent_ids_json r)) @ pending) = Inr A"
      by (auto split: option.splits)
    let ?pending = "rev (filter (\<lambda>p. p \<notin> insert k ancestors) (sc_parent_ids_json r)) @ pending"
    have "get_commit s j \<noteq> None \<and> (\<forall>p. parent_of s j p \<longrightarrow> p \<in> insert k ancestors \<union> set ?pending)"
      if "j \<in> insert k ancestors" for j
      using that r "2.prems"(2) by (auto simp: parent_of_def)
    then have "insert k ancestors \<union> set ?pending \<subseteq> A \<and>
        (\<forall>k\<in>A. get_commit s k \<noteq> None \<and> (\<forall>p. parent_of s k p \<longrightarrow> p \<in> A))"
      using "2.IH"(2) [OF False r l] by blast
    then show ?thesis by auto
  qed
qed auto

lemma ancestor_loop_reached:
  assumes "ancestor_loop s ancestors pending = Inr A" and "\<forall>k\<in>ancestors \<union> set pending. reaches s start k"
  shows "\<forall>k\<in>A. reaches s start k"
  using assms
proof (induction s ancestors pending rule: ancestor_loop.induct)
  case (2 s ancestors k pending)
  show ?case
  proof (cases "k \<in> ancestors")
    case True
    with 2 show ?thesis by auto
  next
    case False
    with "2.prems"(1) obtain r where r: "get_commit s k = Some r"
      and l: "ancestor_loop s (insert k ancestors)
         (rev (filter (\<lambda>p. p \<notin> insert k ancestors) (sc_parent_ids_json r)) @ pending) = Inr A"
      by (auto split: option.splits)
    have "reaches s start p" if "p \<in> set (sc_parent_ids_json r)" for p
      using "2.prems"(2) r that by (auto simp: reaches_def parent_of_def intro: rtranclp.rtrancl_into_rtrancl)
    with "2.IH"(2) [OF False r l] "2.prems"(2) show ?thesis by auto
  qed
qed auto

lemma ancestor_loop_fails:
  assumes "ancestor_loop s ancestors pending = Inl e" and "\<forall>k\<in>ancestors \<union> set pending. reaches s start k"
  shows "\<exists>k. reaches s start k \<and> get_commit s k = None \<and>
    e = ValidationError ''SCENE_COMMIT_GRAPH_INVALID'' [(''commit_id'', JStr k)]"
  using assms
proof (induction s ancestors pending rule: ancestor_loop.induct)
  case (2 s ancestors k pending)
  show ?case
  proof (cases "k \<in> ancestors \<or> get_commit s k = None")
    case True
    with 2 show ?thesis by (auto split: if_splits)
  next
    case False
    with "2.prems"(1) obtain r where r: "get_commit s k = Some r"
      and l: "ancestor_loop s (insert k ancestors)
         (rev (filter (\<lambda>p. p \<notin> insert k ancestors) (sc_parent_ids_json r)) @ pending) = Inl e"
      by auto
    have "reaches s start p" if "p \<in> set (sc_parent_ids_json r)" for p
      using "2.prems"(2) r that by (auto simp: reaches_def parent_of_def intro: rtranclp.rtrancl_into_rtrancl)
    then have "\<forall>j\<in>insert k ancestors \<union> set (rev (filter (\<lambda>p. p \<notin> insert k ancestors) (sc_parent_ids_json r)) @ pending).
        reaches s start j"
      using "2.prems"(2) by auto
    then show ?thesis using "2.IH"(2) [OF _ r l] False by blast
  qed
qed auto

lemma ancestor_ids_reaches:
  assumes "ancestor_ids s k = Inr A"
  shows "A = {j. reaches s k j}" and "A \<subseteq> tkeys sc_commit_id (scene_commits s)"
proof -
  have l: "ancestor_loop s {} [k] = Inr A" using assms by (simp add: ancestor_ids_def)
  have closed: "k \<in> A" "\<forall>j\<in>A. get_commit s j \<noteq> None \<and> (\<forall>p. parent_of s j p \<longrightarrow> p \<in> A)"
    using ancestor_loop_sound [OF l] by auto
  have "j \<in> A" if "reaches s k j" for j
    using that unfolding reaches_def by (induction rule: rtranclp_induct) (use closed in blast)+
  moreover have "\<forall>j\<in>A. reaches s k j"
    using ancestor_loop_reached [OF l, of k] by (simp add: reaches_def)
  ultimately show "A = {j. reaches s k j}" by blast
  show "A \<subseteq> tkeys sc_commit_id (scene_commits s)"
    using closed(2) get_commit_key by blast
qed

text \<open>
  C25. The walk over the ancestors ends on every commit graph, cyclic ones included. It returns exactly
  the commits that the given one reaches by parents when all of them are stored, and names a missing
  one otherwise; a missing commit is the only reason to fail. So a commit that is its own ancestor is
  walked like any other, although the docstring of \<open>_ancestor_ids\<close> says that malformed cycles are
  rejected.
\<close>

theorem ancestor_walk_exact:
  "(case ancestor_ids s k of
      Inr A \<Rightarrow> A = {j. reaches s k j} \<and> A \<subseteq> tkeys sc_commit_id (scene_commits s)
    | Inl e \<Rightarrow> \<exists>j. reaches s k j \<and> get_commit s j = None \<and>
        e = ValidationError ''SCENE_COMMIT_GRAPH_INVALID'' [(''commit_id'', JStr j)]) \<and>
   ((\<exists>A. ancestor_ids s k = Inr A) \<longleftrightarrow> (\<forall>j. reaches s k j \<longrightarrow> get_commit s j \<noteq> None)) \<and>
   ((parent_of s)\<^sup>+\<^sup>+ k k \<and> (\<forall>j. reaches s k j \<longrightarrow> get_commit s j \<noteq> None) \<longrightarrow> (\<exists>A. ancestor_ids s k = Inr A \<and> k \<in> A))"
proof (cases "ancestor_ids s k")
  case (Inl e)
  then show ?thesis
    using ancestor_loop_fails [of s "{}" "[k]" e k] by (auto simp: ancestor_ids_def reaches_def)
next
  case (Inr A)
  then have A: "A = {j. reaches s k j}" "A \<subseteq> tkeys sc_commit_id (scene_commits s)"
    using ancestor_ids_reaches [OF Inr] by simp_all
  then have "get_commit s j \<noteq> None" if "reaches s k j" for j
    using that by (auto simp: get_commit_def tget_None_iff)
  then show ?thesis
    using Inr A by (simp add: reaches_def)
qed

text \<open>Two commits that are each other's parent.\<close>

definition sample_cycle :: db where
  "sample_cycle = empty_db\<lparr>scene_commits := map (\<lambda>(k, p).
     \<lparr>sc_commit_id = k, sc_tenant_id = ''t'', sc_project_id = ''p'', sc_scene_id = ''s'', sc_branch = ''main'',
      sc_parent_ids_json = [p], sc_message = [], sc_semantic_snapshot_json = [], sc_snapshot_hash = [], sc_root_manifest_hash = [],
      sc_field_visit_id = None, sc_workflow_event_id = None, sc_change_evidence_ids_json = [], sc_policy_checks_json = [],
      sc_signatures_json = [], sc_review_state = ''unreviewed'', sc_valid_from = None, sc_valid_to = None,
      sc_recorded_at = 1, sc_created_by = ''u'', sc_created_at = 1, sc_supersedes_commit_id = None\<rparr>) [(''a'', ''b''), (''b'', ''a'')]\<rparr>"

lemma ancestor_walk_exact_witness:
  "(parent_of sample_cycle)\<^sup>+\<^sup>+ ''a'' ''a'' \<and> (\<exists>A. ancestor_ids sample_cycle ''a'' = Inr A \<and> {''a'', ''b''} \<subseteq> A)"
proof -
  have p: "parent_of sample_cycle j i \<longleftrightarrow> j = ''a'' \<and> i = ''b'' \<or> j = ''b'' \<and> i = ''a''" for i j
    by (simp add: parent_of_def get_commit_def sample_cycle_def tget_Cons)
  have stored: "get_commit sample_cycle ''a'' \<noteq> None" "get_commit sample_cycle ''b'' \<noteq> None"
    by (simp_all add: get_commit_def sample_cycle_def tget_Cons)
  have "j = ''a'' \<or> j = ''b''" if "reaches sample_cycle ''a'' j" for j
    using that unfolding reaches_def by (induction rule: rtranclp_induct) (simp, unfold p, blast)
  then have all: "\<forall>j. reaches sample_cycle ''a'' j \<longrightarrow> get_commit sample_cycle j \<noteq> None" using stored by metis
  have steps: "parent_of sample_cycle ''a'' ''b''" "parent_of sample_cycle ''b'' ''a''" by (simp_all add: p)
  have cycle: "(parent_of sample_cycle)\<^sup>+\<^sup>+ ''a'' ''a''"
    using tranclp.trancl_into_trancl [OF tranclp.r_into_trancl [of "parent_of sample_cycle", OF steps(1)] steps(2)] .
  have "reaches sample_cycle ''a'' ''b''" using steps(1) by (simp add: reaches_def r_into_rtranclp)
  with all cycle show ?thesis using ancestor_walk_exact [of sample_cycle "''a''"] by (auto split: sum.splits)
qed

section \<open>The semantic merge is a three-way merge\<close>

text \<open>An entity map as \<open>entity_map\<close> builds it from a list: every value is an object with that key.\<close>

definition keyed_entities :: "(json \<Rightarrow> string) \<Rightarrow> fields \<Rightarrow> bool" where
  "keyed_entities py_str d \<longleftrightarrow> distinct (map fst d) \<and> (\<forall>(k, v)\<in>set d. \<exists>kvs. v = JObj kvs \<and>
     jget kvs ''entity_id'' \<noteq> JNull \<and> json_str py_str (jget kvs ''entity_id'') = k)"

lemma keys_jset: "map fst (jset k v d) = (if k \<in> set (map fst d) then map fst d else map fst d @ [k])"
proof -
  have "map fst (map (\<lambda>(k', v'). if k' = k then (k', v) else (k', v')) d) = map fst d"
    by (induction d) auto
  then show ?thesis by (simp only: jset_def if_distrib [of "map fst"]) simp
qed

lemma distinct_keys_jset: "distinct (map fst d) \<Longrightarrow> distinct (map fst (jset k v d))"
  by (simp only: keys_jset) simp

lemma set_jset: "set (jset k v d) \<subseteq> insert (k, v) (set d)"
  by (auto simp: jset_def split: if_splits)

lemma keyed_jset:
  assumes "keyed_entities py_str d" and "jget kvs ''entity_id'' \<noteq> JNull"
  shows "keyed_entities py_str (jset (json_str py_str (jget kvs ''entity_id'')) (JObj kvs) d)"
  using assms set_jset [of "json_str py_str (jget kvs ''entity_id'')" "JObj kvs" d]
  by (auto simp: keyed_entities_def distinct_keys_jset)

lemma keyed_listed: "keyed_entities py_str d \<Longrightarrow> keyed_entities py_str (listed_entities py_str items d)"
  by (induction py_str items d rule: listed_entities.induct) (auto simp: keyed_jset)

lemma listed_keyed:
  assumes "keyed_entities py_str d'" and "set (map fst d) \<inter> set (map fst d') = {}"
  shows "listed_entities py_str (map snd d') d = d @ d'"
  using assms
proof (induction d' arbitrary: d)
  case (Cons kv d')
  then obtain k kvs where kv: "kv = (k, JObj kvs)" "jget kvs ''entity_id'' \<noteq> JNull"
    "json_str py_str (jget kvs ''entity_id'') = k"
    by (auto simp: keyed_entities_def)
  have "keyed_entities py_str d'" using Cons.prems(1) by (simp add: keyed_entities_def)
  moreover have "set (map fst (d @ [kv])) \<inter> set (map fst d') = {}"
    using Cons.prems by (auto simp: keyed_entities_def)
  moreover have "jset k (JObj kvs) d = d @ [kv]"
    using Cons.prems(2) kv(1) by (auto simp: jset_def)
  ultimately show ?case using Cons.IH [of "d @ [kv]"] kv by simp
qed simp

lemma entity_map_list:
  "entity_map py_str snapshot = Inr (d, False) \<Longrightarrow> keyed_entities py_str d"
  by (auto simp: entity_map_def keyed_listed keyed_entities_def [of py_str "[]"] split: option.splits json.splits)

abbreviation merged_value :: "fields \<Rightarrow> fields \<Rightarrow> fields \<Rightarrow> string \<Rightarrow> json" where
  "merged_value b l r k \<equiv> fst (three_way (jget b k) (jget l k) (jget r k))"

lemma map_of_merge_entities:
  "distinct ks \<Longrightarrow> map_of (fst (merge_entities rt b l r ks)) k =
     (if k \<in> set ks \<and> merged_value b l r k \<noteq> JNull then Some (merged_value b l r k) else None)"
  by (induction ks) (auto simp: split_beta map_add_def)

lemma keys_merge_entities: "map fst (fst (merge_entities rt b l r ks)) = filter (\<lambda>k. merged_value b l r k \<noteq> JNull) ks"
  by (induction ks) (auto simp: split_beta)

lemma merge_entities_conflicts:
  "snd (merge_entities rt b l r ks) = [] \<longleftrightarrow> (\<forall>k\<in>set ks. \<not> snd (three_way (jget b k) (jget l k) (jget r k)))"
  by (induction ks) (auto simp: split_beta)

lemma jget_absent: "k \<notin> set (map fst d) \<Longrightarrow> jget d k = JNull"
  by (simp add: jget_def map_of_eq_None_iff [THEN iffD2])

lemma jget_present: "jget d k \<noteq> JNull \<Longrightarrow> (k, jget d k) \<in> set d"
  by (auto simp: jget_def dest: map_of_SomeD split: option.splits)

lemma three_way_side: "fst (three_way p l r) = l \<or> fst (three_way p l r) = r"
  by (simp add: three_way_def)

lemma three_way_nothing [simp]: "three_way JNull JNull JNull = (JNull, False)"
  by (simp add: three_way_def)

lemma jget_merge_entities:
  assumes ks: "ks = sorted_set (map fst b @ map fst l @ map fst r)"
  shows "jget (fst (merge_entities rt b l r ks)) k = merged_value b l r k"
proof -
  have d: "distinct ks" unfolding ks by simp
  have "merged_value b l r k = JNull" if "k \<notin> set ks"
  proof -
    from that have "jget b k = JNull" "jget l k = JNull" "jget r k = JNull"
      unfolding ks by (auto intro!: jget_absent)
    then show ?thesis by simp
  qed
  then show ?thesis
    by (cases "k \<in> set ks") (simp_all add: jget_def [of "fst (merge_entities rt b l r ks)"] map_of_merge_entities [OF d])
qed

lemma keyed_merge_entities:
  assumes "keyed_entities py_str l" and "keyed_entities py_str r" and "distinct ks"
  shows "keyed_entities py_str (fst (merge_entities rt b l r ks))"
proof -
  have "\<exists>kvs. v = JObj kvs \<and> jget kvs ''entity_id'' \<noteq> JNull \<and> json_str py_str (jget kvs ''entity_id'') = k"
    if "(k, v) \<in> set (fst (merge_entities rt b l r ks))" for k v
  proof -
    have "distinct (map fst (fst (merge_entities rt b l r ks)))" using assms(3) by (simp add: keys_merge_entities)
    with that have "map_of (fst (merge_entities rt b l r ks)) k = Some v" by simp
    then have "v = merged_value b l r k" "v \<noteq> JNull" by (auto simp: map_of_merge_entities [OF assms(3)] split: if_splits)
    then have "(k, v) \<in> set l \<or> (k, v) \<in> set r"
      using three_way_side [of "jget b k" "jget l k" "jget r k"] jget_present by metis
    with assms(1,2) show ?thesis unfolding keyed_entities_def by blast
  qed
  then show ?thesis using assms(3) by (auto simp: keyed_entities_def keys_merge_entities)
qed

lemma merge_fields_other:
  "k \<notin> set ks \<Longrightarrow> map_of (fst (merge_fields rt b l r ks merged)) k = map_of merged k"
  by (induction ks arbitrary: merged) (auto simp: split_beta map_of_jset)

text \<open>What the merge gives for list-style snapshots, the style the services write.\<close>

lemma semantic_merge_entities:
  assumes m: "semantic_merge rt py_str base l r = Inr (merged, conflicts)"
    and be: "entity_map py_str base = Inr (be, False)"
    and le: "entity_map py_str l = Inr (le, False)"
    and re: "entity_map py_str r = Inr (re, False)"
  obtains me where "entity_map py_str merged = Inr (me, False)" and "\<And>k. jget me k = merged_value be le re k"
    and "conflicts = [] \<Longrightarrow> (\<And>k. \<not> snd (three_way (jget be k) (jget le k) (jget re k)))"
proof -
  let ?ks = "sorted_set (map fst be @ map fst le @ map fst re)"
  define me where "me = fst (merge_entities rt be le re ?ks)"
  have keyed: "keyed_entities py_str me"
    unfolding me_def using entity_map_list [OF le] entity_map_list [OF re] by (simp add: keyed_merge_entities)
  have "map_of merged ''entities'' = Some (JArr (map snd me))"
    using m be le re by (auto simp: semantic_merge_def split_beta Let_def merge_fields_other map_of_jset me_def)
  then have "entity_map py_str merged = Inr (me, False)"
    using listed_keyed [OF keyed, of "[]"] by (simp add: entity_map_def)
  moreover have "jget me k = merged_value be le re k" for k
    by (simp add: me_def jget_merge_entities)
  moreover have "\<not> snd (three_way (jget be k) (jget le k) (jget re k))" if "conflicts = []" for k
  proof (cases "k \<in> set ?ks")
    case True
    have "snd (merge_entities rt be le re ?ks) = []"
      using m be le re that by (auto simp: semantic_merge_def split_beta Let_def)
    with True show ?thesis unfolding merge_entities_conflicts by blast
  next
    case False
    then have "jget be k = JNull" "jget le k = JNull" "jget re k = JNull"
      by (auto intro!: jget_absent)
    then show ?thesis by simp
  qed
  ultimately show ?thesis by (rule that)
qed

lemma three_way_keeps:
  assumes "\<not> snd (three_way p l r)"
  shows "\<not> py_eq l p \<Longrightarrow> fst (three_way p l r) = l"
    and "\<not> py_eq r p \<Longrightarrow> fst (three_way p l r) = r \<or> fst (three_way p l r) = l \<and> py_eq l r"
  using assms by (auto simp: three_way_def split: if_splits)

section \<open>What a merge of branches does\<close>

lemma insert_commit_Inr [result_simps]:
  "insert_commit row s = Inr t \<longleftrightarrow> \<not> list_ex (same_workflow_event row) (scene_commits s) \<and>
     sc_commit_id row \<notin> tkeys sc_commit_id (scene_commits s) \<and> t = s\<lparr>scene_commits := scene_commits s @ [row]\<rparr>"
  by (auto simp: insert_commit_def result_simps)

lemma emit_event_frame: "emit_event rt c i now a s = Inr t \<Longrightarrow> \<exists>l. t = s\<lparr>outbox_events := l\<rparr>"
  using emit_event_grows by blast

lemma append_audit_frame: "append_audit rt k i now a s = Inr t \<Longrightarrow> \<exists>l. t = s\<lparr>audit_events := l\<rparr>"
  by (auto simp: append_audit_Inr)

lemma publish_merge_Inr:
  assumes "publish_merge rt key c E a target row conflicts s = Inr (out, t)"
  obtains ev au where "out = Merged (merge_view row)" and "insert_commit row s = Inr (s\<lparr>scene_commits := scene_commits s @ [row]\<rparr>)"
    and "t = (set_head target (ids E 0) (s\<lparr>scene_commits := scene_commits s @ [row]\<rparr>))\<lparr>outbox_events := ev, audit_events := au\<rparr>"
proof -
  from assms obtain s1 s2 s3 where i: "insert_commit row s = Inr s1"
    and e: "emit_event rt c (ids E 1) (clk E 2)
       (scene_event (ma_tenant_id a) (ma_project_id a) (ids E 0) (merge_payload a row conflicts) (ma_actor_id a) None)
       (set_head target (ids E 0) s1) = Inr s2"
    and u: "append_audit rt key (ids E 2) (clk E 3)
       (audit_entry (ma_tenant_id a) (Some (ma_project_id a)) (ma_actor_id a) ''scene:merge'' ''scene_commit'' (ids E 0)
          ''allowed'' (merge_payload a row conflicts)) s2 = Inr t"
    and o: "out = Merged (merge_view row)"
    unfolding publish_merge_def by (auto simp only: bindE_Inr_conv prod.inject sum.inject)
  have s1: "s1 = s\<lparr>scene_commits := scene_commits s @ [row]\<rparr>" using i by (simp add: insert_commit_Inr)
  from emit_event_frame [OF e] append_audit_frame [OF u] obtain ev au
    where "t = (set_head target (ids E 0) s1)\<lparr>outbox_events := ev, audit_events := au\<rparr>" by auto
  with o i show thesis unfolding s1 by (rule that)
qed

lemma merge_branches_Inr:
  assumes "merge_branches rt key c py_str E a s = Inr (out, t)"
  obtains target base l r merged conflicts where "merge_inputs a s = Inr (target, base, l, r)"
    and "check_base a (sc_commit_id l) (sc_commit_id r) s = Inr ()"
    and "semantic_merge rt py_str (sc_semantic_snapshot_json base) (sc_semantic_snapshot_json l)
           (sc_semantic_snapshot_json r) = Inr (merged, conflicts)"
    and "(conflicts \<noteq> [] \<and> \<not> set (required_categories conflicts) \<subseteq> set (ma_approved a) \<and> t = s \<and> (\<exists>rep. out = ReviewRequired rep)) \<or>
      (set (required_categories conflicts) \<subseteq> set (ma_approved a) \<and>
       publish_merge rt key c E a target (merge_commit rt E a (sc_commit_id l) (sc_commit_id r)
         (if conflicts \<noteq> [] then sc_semantic_snapshot_json l else merged) conflicts) conflicts s = Inr (out, t))"
proof -
  from assms obtain x where i0: "merge_inputs a s = Inr x"
    unfolding merge_branches_def bindE_Inr_conv by blast
  obtain target base l r where x: "x = (target, base, l, r)" by (cases x)
  note i = i0 [unfolded x]
  note m1 = assms [unfolded merge_branches_def i bindE_simps prod.case]
  from m1 have b: "check_base a (sc_commit_id l) (sc_commit_id r) s = Inr ()"
    unfolding bindE_Inr_conv by simp
  note m2 = m1 [unfolded b bindE_simps]
  from m2 obtain y where m0: "semantic_merge rt py_str (sc_semantic_snapshot_json base) (sc_semantic_snapshot_json l)
      (sc_semantic_snapshot_json r) = Inr y"
    unfolding bindE_Inr_conv by blast
  obtain merged conflicts where y: "y = (merged, conflicts)" by (cases y)
  note m = m0 [unfolded y]
  note rest = m2 [unfolded m bindE_simps prod.case]
  have none: "required_categories conflicts = []" if "conflicts = []"
    using that by (simp add: required_categories_def sorted_set_def)
  from i b m show thesis
  proof (rule that)
    show "(conflicts \<noteq> [] \<and> \<not> set (required_categories conflicts) \<subseteq> set (ma_approved a) \<and> t = s \<and> (\<exists>rep. out = ReviewRequired rep)) \<or>
      (set (required_categories conflicts) \<subseteq> set (ma_approved a) \<and>
       publish_merge rt key c E a target (merge_commit rt E a (sc_commit_id l) (sc_commit_id r)
         (if conflicts \<noteq> [] then sc_semantic_snapshot_json l else merged) conflicts) conflicts s = Inr (out, t))"
      using rest none by (auto simp: Let_def filter_empty_conv split: if_splits)
  qed
qed

text \<open>The inputs of a merge, as lookups.\<close>

lemma merge_inputs_Inr:
  "merge_inputs a s = Inr (target, base, l, r) \<longleftrightarrow>
     (\<exists>source. find_branch (ma_tenant_id a) (ma_project_id a) (ma_scene_id a) (ma_target_branch a) s = Some target \<and>
       find_branch (ma_tenant_id a) (ma_project_id a) (ma_scene_id a) (ma_source_branch a) s = Some source \<and>
       get_commit s (ma_base_commit_id a) = Some base \<and> get_commit s (sb_head_commit_id target) = Some l \<and>
       get_commit s (sb_head_commit_id source) = Some r \<and> in_scope a base \<and> in_scope a l \<and> in_scope a r)"
  by (auto simp: merge_inputs_def split: option.splits if_splits)

lemma check_base_Inr:
  assumes "check_base a left_id right_id s = Inr ()"
  shows "reaches s left_id (ma_base_commit_id a) \<and> reaches s right_id (ma_base_commit_id a)"
proof -
  have exact: "A = {j. reaches s k j}" if "ancestor_ids s k = Inr A" for k A
    using that ancestor_ids_reaches by blast
  from assms show ?thesis
    by (auto simp: check_base_def bindE_Inr_conv dest: exact split: if_splits)
qed

end
