(* ===== verification/Scene_History.thy ===== *)
theory Scene_History
  imports Scene_Merge Operation_Lifecycle
begin

text \<open>
  The history of scenes over any sequence of calls. The calls of \<open>Scenes\<close> and \<open>Scene_Merge\<close> refine
  an abstract machine with five moves on the tables of commits, branches and tags (a new scene, a
  commit on top of a branch head, a new branch, a new tag, nothing); the invariant of the commit
  graph and the progress of branch heads are proved once on that machine. What other services do to
  the other tables is left open: the call \<open>Elsewhere d\<close> replaces all other tables by those of \<open>d\<close>.
\<close>

section \<open>The abstract machine\<close>

definition commit_in :: "db \<Rightarrow> string \<Rightarrow> string \<Rightarrow> string \<Rightarrow> string \<Rightarrow> bool" where
  "commit_in s tenant project scene k \<longleftrightarrow> (\<exists>r. get_commit s k = Some r \<and>
     sc_tenant_id r = tenant \<and> sc_project_id r = project \<and> sc_scene_id r = scene)"

definition branch_key :: "scene_branch_row \<Rightarrow> string \<times> string \<times> string \<times> string" where
  "branch_key b = (sb_tenant_id b, sb_project_id b, sb_scene_id b, sb_name b)"

definition tag_key :: "scene_tag_row \<Rightarrow> string \<times> string \<times> string \<times> string" where
  "tag_key g = (sg_tenant_id g, sg_project_id g, sg_scene_id g, sg_name g)"

definition fresh_commit :: "runtime \<Rightarrow> scene_commit_row \<Rightarrow> db \<Rightarrow> bool" where
  "fresh_commit rt row s \<longleftrightarrow> sc_commit_id row \<notin> tkeys sc_commit_id (scene_commits s) \<and>
     \<not> list_ex (same_workflow_event row) (scene_commits s) \<and>
     sc_snapshot_hash row = canonical_sha256 rt (JObj (sc_semantic_snapshot_json row))"

inductive scene_move :: "runtime \<Rightarrow> db \<Rightarrow> db \<Rightarrow> bool" for rt s where
  none: "scene_commits t = scene_commits s \<Longrightarrow> scene_branches t = scene_branches s \<Longrightarrow> scene_tags t = scene_tags s \<Longrightarrow>
    scene_move rt s t"
| root: "fresh_commit rt row s \<Longrightarrow> sc_parent_ids_json row = [] \<Longrightarrow>
    sb_branch_id b \<notin> tkeys sb_branch_id (scene_branches s) \<Longrightarrow> branch_key b \<notin> branch_key ` set (scene_branches s) \<Longrightarrow>
    sb_head_commit_id b = sc_commit_id row \<Longrightarrow> sb_tenant_id b = sc_tenant_id row \<Longrightarrow> sb_project_id b = sc_project_id row \<Longrightarrow>
    sb_scene_id b = sc_scene_id row \<Longrightarrow>
    scene_commits t = scene_commits s @ [row] \<Longrightarrow> scene_branches t = scene_branches s @ [b] \<Longrightarrow> scene_tags t = scene_tags s \<Longrightarrow>
    scene_move rt s t"
| extend: "fresh_commit rt row s \<Longrightarrow> b \<in> set (scene_branches s) \<Longrightarrow> sb_head_commit_id b \<in> set (sc_parent_ids_json row) \<Longrightarrow>
    sb_tenant_id b = sc_tenant_id row \<Longrightarrow> sb_project_id b = sc_project_id row \<Longrightarrow> sb_scene_id b = sc_scene_id row \<Longrightarrow>
    (\<forall>p\<in>set (sc_parent_ids_json row). commit_in s (sc_tenant_id row) (sc_project_id row) (sc_scene_id row) p) \<Longrightarrow>
    scene_commits t = scene_commits s @ [row] \<Longrightarrow>
    scene_branches t = tput sb_branch_id (b\<lparr>sb_head_commit_id := sc_commit_id row\<rparr>) (scene_branches s) \<Longrightarrow>
    scene_tags t = scene_tags s \<Longrightarrow> scene_move rt s t"
| branch: "sb_branch_id b \<notin> tkeys sb_branch_id (scene_branches s) \<Longrightarrow> branch_key b \<notin> branch_key ` set (scene_branches s) \<Longrightarrow>
    commit_in s (sb_tenant_id b) (sb_project_id b) (sb_scene_id b) (sb_head_commit_id b) \<Longrightarrow>
    scene_commits t = scene_commits s \<Longrightarrow> scene_branches t = scene_branches s @ [b] \<Longrightarrow> scene_tags t = scene_tags s \<Longrightarrow>
    scene_move rt s t"
| tag: "sg_tag_id g \<notin> tkeys sg_tag_id (scene_tags s) \<Longrightarrow> tag_key g \<notin> tag_key ` set (scene_tags s) \<Longrightarrow>
    commit_in s (sg_tenant_id g) (sg_project_id g) (sg_scene_id g) (sg_commit_id g) \<Longrightarrow>
    scene_commits t = scene_commits s \<Longrightarrow> scene_branches t = scene_branches s \<Longrightarrow> scene_tags t = scene_tags s @ [g] \<Longrightarrow>
    scene_move rt s t"

text \<open>The invariant: keys are unique, parents are earlier commits of the same scene, heads and tags
  point to commits of their scene, and every snapshot has its hash.\<close>

fun parents_earlier :: "scene_commit_row list \<Rightarrow> bool" where
  "parents_earlier [] \<longleftrightarrow> True"
| "parents_earlier (r # rs) \<longleftrightarrow> parents_earlier rs \<and> (\<forall>p\<in>set (sc_parent_ids_json r). \<exists>q\<in>set rs. sc_commit_id q = p \<and>
     sc_tenant_id q = sc_tenant_id r \<and> sc_project_id q = sc_project_id r \<and> sc_scene_id q = sc_scene_id r)"

definition scenes_wf :: "runtime \<Rightarrow> db \<Rightarrow> bool" where
  "scenes_wf rt s \<longleftrightarrow>
     distinct (map sc_commit_id (scene_commits s)) \<and>
     distinct (map sb_branch_id (scene_branches s)) \<and> distinct (map branch_key (scene_branches s)) \<and>
     distinct (map sg_tag_id (scene_tags s)) \<and> distinct (map tag_key (scene_tags s)) \<and>
     parents_earlier (rev (scene_commits s)) \<and>
     (\<forall>r\<in>set (scene_commits s). sc_snapshot_hash r = canonical_sha256 rt (JObj (sc_semantic_snapshot_json r))) \<and>
     (\<forall>b\<in>set (scene_branches s). commit_in s (sb_tenant_id b) (sb_project_id b) (sb_scene_id b) (sb_head_commit_id b)) \<and>
     (\<forall>g\<in>set (scene_tags s). commit_in s (sg_tenant_id g) (sg_project_id g) (sg_scene_id g) (sg_commit_id g)) \<and>
     (\<forall>r\<in>set (scene_commits s). \<forall>q\<in>set (scene_commits s). same_workflow_event r q \<longrightarrow> sc_commit_id r = sc_commit_id q)"

definition get_branch :: "db \<Rightarrow> string \<Rightarrow> scene_branch_row option" where
  "get_branch s k = tget sb_branch_id (scene_branches s) k"

text \<open>A later state: nothing recorded changes, and a branch keeps all but its head, which descends
  from the earlier one.\<close>

definition scenes_below :: "db \<Rightarrow> db \<Rightarrow> bool" where
  "scenes_below s t \<longleftrightarrow> prefix (scene_commits s) (scene_commits t) \<and> prefix (scene_tags s) (scene_tags t) \<and>
     kept (get_branch s) (get_branch t)
       (\<lambda>b b'. b'\<lparr>sb_head_commit_id := sb_head_commit_id b\<rparr> = b \<and> reaches t (sb_head_commit_id b') (sb_head_commit_id b))"

section \<open>Commits are found again\<close>

lemma tget_prefix:
  assumes "prefix xs ys" and "tget key xs k = Some r"
  shows "tget key ys k = Some r"
  using assms by (auto simp: prefix_def tget_append)

lemma get_commit_prefix:
  "prefix (scene_commits s) (scene_commits t) \<Longrightarrow> get_commit s k = Some r \<Longrightarrow> get_commit t k = Some r"
  unfolding get_commit_def by (rule tget_prefix)

lemma commit_in_prefix:
  "prefix (scene_commits s) (scene_commits t) \<Longrightarrow> commit_in s a b c k \<Longrightarrow> commit_in t a b c k"
  unfolding commit_in_def using get_commit_prefix by blast

lemma parent_of_prefix:
  "prefix (scene_commits s) (scene_commits t) \<Longrightarrow> parent_of s d p \<Longrightarrow> parent_of t d p"
  unfolding parent_of_def using get_commit_prefix by blast

lemma reaches_prefix:
  assumes "prefix (scene_commits s) (scene_commits t)" and "reaches s d p"
  shows "reaches t d p"
  using assms(2) unfolding reaches_def
  by (rule rtranclp_mono [THEN predicate2D, rotated]) (use assms(1) parent_of_prefix in blast)

lemma reaches_refl: "reaches s k k"
  by (simp add: reaches_def)

lemma reaches_trans: "reaches s a b \<Longrightarrow> reaches s b c \<Longrightarrow> reaches s a c"
  unfolding reaches_def by (rule rtranclp_trans)

lemma scenes_below_refl: "scenes_below s s"
  by (simp add: scenes_below_def kept_def reaches_refl)

lemma scenes_below_trans:
  assumes st: "scenes_below s t" and tu: "scenes_below t u"
  shows "scenes_below s u"
proof -
  have p: "prefix (scene_commits t) (scene_commits u)" using tu by (simp add: scenes_below_def)
  have "\<exists>d. get_branch u k = Some d \<and> d\<lparr>sb_head_commit_id := sb_head_commit_id b\<rparr> = b \<and>
      reaches u (sb_head_commit_id d) (sb_head_commit_id b)" if "get_branch s k = Some b" for k b
  proof -
    from st that obtain b' where b': "get_branch t k = Some b'" "b'\<lparr>sb_head_commit_id := sb_head_commit_id b\<rparr> = b"
      "reaches t (sb_head_commit_id b') (sb_head_commit_id b)"
      unfolding scenes_below_def kept_def by blast
    from tu b'(1) obtain d where d: "get_branch u k = Some d" "d\<lparr>sb_head_commit_id := sb_head_commit_id b'\<rparr> = b'"
      "reaches u (sb_head_commit_id d) (sb_head_commit_id b')"
      unfolding scenes_below_def kept_def by blast
    have "d\<lparr>sb_head_commit_id := sb_head_commit_id b\<rparr> = (d\<lparr>sb_head_commit_id := sb_head_commit_id b'\<rparr>)\<lparr>sb_head_commit_id := sb_head_commit_id b\<rparr>"
      by simp
    then have "d\<lparr>sb_head_commit_id := sb_head_commit_id b\<rparr> = b" unfolding d(2) b'(2) .
    with d(1,3) reaches_prefix [OF p b'(3)] show ?thesis by (blast intro: reaches_trans)
  qed
  with st tu show ?thesis unfolding scenes_below_def kept_def by (auto intro: prefix_order.trans)
qed

section \<open>The invariant and the progress of the machine\<close>

lemma parents_earlier_snoc:
  assumes "distinct (map sc_commit_id (scene_commits s))" and "parents_earlier (rev (scene_commits s))"
    and "\<forall>p\<in>set (sc_parent_ids_json row). commit_in s (sc_tenant_id row) (sc_project_id row) (sc_scene_id row) p"
  shows "parents_earlier (rev (scene_commits s @ [row]))"
  using assms by (fastforce simp: commit_in_def get_commit_def dest: tget_SomeD)

lemma distinct_key_tput:
  assumes "distinct (map key rows)" and "distinct (map f rows)" and "tget key rows (key r) = Some old" and "f r = f old"
  shows "map f (tput key r rows) = map f rows"
proof -
  have "f (if key x = key r then r else x) = f x" if "x \<in> set rows" for x
    using that assms tget_unique_row [OF assms(1) that] by auto
  then show ?thesis by (simp add: tput_def)
qed

lemma get_branch_mem:
  "scenes_wf rt s \<Longrightarrow> b \<in> set (scene_branches s) \<Longrightarrow> get_branch s (sb_branch_id b) = Some b"
  by (simp add: get_branch_def scenes_wf_def tget_unique_row)

lemma fresh_commit_wf:
  assumes wf: "scenes_wf rt s" and f: "fresh_commit rt row s"
    and ps: "\<forall>p\<in>set (sc_parent_ids_json row). commit_in s (sc_tenant_id row) (sc_project_id row) (sc_scene_id row) p"
    and c: "scene_commits t = scene_commits s @ [row]"
  shows "distinct (map sc_commit_id (scene_commits t))" and "parents_earlier (rev (scene_commits t))"
    and "\<forall>r\<in>set (scene_commits t). sc_snapshot_hash r = canonical_sha256 rt (JObj (sc_semantic_snapshot_json r))"
    and "\<forall>r\<in>set (scene_commits t). \<forall>q\<in>set (scene_commits t). same_workflow_event r q \<longrightarrow> sc_commit_id r = sc_commit_id q"
    and "get_commit t (sc_commit_id row) = Some row" and "prefix (scene_commits s) (scene_commits t)"
proof -
  show "distinct (map sc_commit_id (scene_commits t))"
    using wf f by (auto simp: scenes_wf_def fresh_commit_def c tkeys_def)
  show "parents_earlier (rev (scene_commits t))"
    unfolding c using wf ps by (intro parents_earlier_snoc) (auto simp: scenes_wf_def)
  show "\<forall>r\<in>set (scene_commits t). sc_snapshot_hash r = canonical_sha256 rt (JObj (sc_semantic_snapshot_json r))"
    using wf f by (auto simp: scenes_wf_def fresh_commit_def c)
  have "same_workflow_event q row \<Longrightarrow> same_workflow_event row q" for q
    by (auto simp: same_workflow_event_def)
  then have "\<not> same_workflow_event q row \<and> \<not> same_workflow_event row q" if "q \<in> set (scene_commits s)" for q
    using f that unfolding fresh_commit_def list_ex_iff by blast
  with wf show "\<forall>r\<in>set (scene_commits t). \<forall>q\<in>set (scene_commits t). same_workflow_event r q \<longrightarrow> sc_commit_id r = sc_commit_id q"
    unfolding scenes_wf_def c by auto
  have "tget sc_commit_id (scene_commits s) (sc_commit_id row) = None"
    using f by (simp add: fresh_commit_def tget_None_iff)
  then show "get_commit t (sc_commit_id row) = Some row"
    by (simp add: get_commit_def c tget_append tget_Cons)
  show "prefix (scene_commits s) (scene_commits t)" by (simp add: c)
qed

text \<open>Heads and tags stay in their scene when commits are only added.\<close>

lemma pointers_kept:
  assumes "scenes_wf rt s" and "prefix (scene_commits s) (scene_commits t)"
  shows "b \<in> set (scene_branches s) \<Longrightarrow> commit_in t (sb_tenant_id b) (sb_project_id b) (sb_scene_id b) (sb_head_commit_id b)"
    and "g \<in> set (scene_tags s) \<Longrightarrow> commit_in t (sg_tenant_id g) (sg_project_id g) (sg_scene_id g) (sg_commit_id g)"
  using assms commit_in_prefix unfolding scenes_wf_def by blast+

lemma move_wf:
  assumes wf: "scenes_wf rt s" and m: "scene_move rt s t"
  shows "scenes_wf rt t"
  using m
proof cases
  case none
  with wf show ?thesis by (simp add: scenes_wf_def commit_in_def get_commit_def)
next
  case (root row b)
  note f = fresh_commit_wf [OF wf root(1) _ root(9)]
  have ps: "\<forall>p\<in>set (sc_parent_ids_json row). commit_in s (sc_tenant_id row) (sc_project_id row) (sc_scene_id row) p"
    using root(2) by simp
  have "commit_in t (sb_tenant_id b) (sb_project_id b) (sb_scene_id b) (sb_head_commit_id b)"
    using f(5) [OF ps] root(5-8) by (simp add: commit_in_def)
  with f [OF ps] wf root(3,4,10,11) pointers_kept [OF wf f(6) [OF ps]] show ?thesis
    by (auto simp: scenes_wf_def tkeys_def)
next
  case (extend row b)
  note f = fresh_commit_wf [OF wf extend(1,7,8)]
  let ?b = "b\<lparr>sb_head_commit_id := sc_commit_id row\<rparr>"
  have old: "tget sb_branch_id (scene_branches s) (sb_branch_id ?b) = Some b"
    using get_branch_mem [OF wf extend(2)] by (simp add: get_branch_def)
  have "map branch_key (scene_branches t) = map branch_key (scene_branches s)"
    unfolding extend(9) using wf by (intro distinct_key_tput [OF _ _ old]) (auto simp: scenes_wf_def branch_key_def)
  moreover have "commit_in t (sb_tenant_id b') (sb_project_id b') (sb_scene_id b') (sb_head_commit_id b')"
    if "b' \<in> set (scene_branches t)" for b'
  proof -
    from that set_tput_subset [of sb_branch_id ?b "scene_branches s"]
    have "b' = ?b \<or> b' \<in> set (scene_branches s)" unfolding extend(9) by blast
    then show ?thesis
      using f(5) extend(4-6) pointers_kept(1) [OF wf f(6)] by (auto simp: commit_in_def)
  qed
  ultimately show ?thesis
    using f(1-4) wf extend(9,10) pointers_kept(2) [OF wf f(6)] unfolding scenes_wf_def by simp
next
  case (branch b)
  have p: "prefix (scene_commits s) (scene_commits t)" by (simp add: branch(4))
  have "commit_in t (sb_tenant_id b) (sb_project_id b) (sb_scene_id b) (sb_head_commit_id b)"
    by (rule commit_in_prefix [OF p branch(3)])
  with wf branch(1,2,4-6) pointers_kept [OF wf p] show ?thesis
    by (auto simp: scenes_wf_def tkeys_def)
next
  case (tag g)
  have p: "prefix (scene_commits s) (scene_commits t)" by (simp add: tag(4))
  have "commit_in t (sg_tenant_id g) (sg_project_id g) (sg_scene_id g) (sg_commit_id g)"
    by (rule commit_in_prefix [OF p tag(3)])
  with wf tag(1,2,4-6) pointers_kept [OF wf p] show ?thesis
    by (auto simp: scenes_wf_def tkeys_def)
qed

lemma get_branch_snoc:
  "scene_branches t = scene_branches s @ [b] \<Longrightarrow> get_branch s k = Some x \<Longrightarrow> get_branch t k = Some x"
  unfolding get_branch_def by (rule tget_prefix [of "scene_branches s"]) simp_all

lemma move_below:
  assumes wf: "scenes_wf rt s" and m: "scene_move rt s t"
  shows "scenes_below s t"
  using m
proof cases
  case none
  then show ?thesis by (simp add: scenes_below_def kept_def get_branch_def reaches_refl)
next
  case (root row b)
  then show ?thesis
    using get_branch_snoc [OF root(10)] by (auto simp: scenes_below_def kept_def reaches_refl)
next
  case (extend row b)
  note f = fresh_commit_wf [OF wf extend(1,7,8)]
  let ?b = "b\<lparr>sb_head_commit_id := sc_commit_id row\<rparr>"
  have old: "tget sb_branch_id (scene_branches s) (sb_branch_id ?b) = Some b"
    using get_branch_mem [OF wf extend(2)] by (simp add: get_branch_def)
  have "parent_of t (sc_commit_id row) (sb_head_commit_id b)"
    using f(5) extend(3) by (auto simp: parent_of_def)
  then have "reaches t (sb_head_commit_id ?b) (sb_head_commit_id b)" by (simp add: reaches_def r_into_rtranclp)
  then have "kept (tget sb_branch_id (scene_branches s)) (tget sb_branch_id (tput sb_branch_id ?b (scene_branches s)))
       (\<lambda>b b'. b'\<lparr>sb_head_commit_id := sb_head_commit_id b\<rparr> = b \<and> reaches t (sb_head_commit_id b') (sb_head_commit_id b))"
    by (intro kept_tput [OF old]) (simp_all add: reaches_refl)
  then show ?thesis
    using extend(8,10) by (simp add: scenes_below_def get_branch_def [abs_def] extend(9))
next
  case (branch b)
  then show ?thesis
    using get_branch_snoc [OF branch(5)] by (auto simp: scenes_below_def kept_def reaches_refl)
next
  case (tag g)
  then show ?thesis by (simp add: scenes_below_def kept_def get_branch_def reaches_refl)
qed

section \<open>The calls refine the machine\<close>

datatype scene_call =
    CreateScene env string string string string
  | CreateEntity env entity_args
  | CommitScene env commit_args
  | CreateBranch env string string string string string bool
  | Rollback env string string string string string string
  | TagCommit env tag_args
  | MergeBranches env merge_args
  | Elsewhere db

fun scene_step :: "runtime \<Rightarrow> string \<Rightarrow> event_catalog \<Rightarrow> (json \<Rightarrow> string) \<Rightarrow> db \<Rightarrow> scene_call \<Rightarrow> sip_error + db" where
  "scene_step rt key c py_str s (CreateScene E tenant project name actor) =
     bindE (create_scene rt key c E tenant project name actor s) (\<lambda>(_, t). Inr t)"
| "scene_step rt key c py_str s (CreateEntity E a) = bindE (create_entity rt key py_str E a s) (\<lambda>(_, t). Inr t)"
| "scene_step rt key c py_str s (CommitScene E a) = bindE (commit_in_session rt key c E a s) (\<lambda>(_, t). Inr t)"
| "scene_step rt key c py_str s (CreateBranch E tenant project scene name from_commit protected) =
     bindE (create_branch E tenant project scene name from_commit protected s) (\<lambda>(_, t). Inr t)"
| "scene_step rt key c py_str s (Rollback E tenant project scene branch target_id actor) =
     bindE (rollback_branch E tenant project scene branch target_id actor s) (\<lambda>(_, t). Inr t)"
| "scene_step rt key c py_str s (TagCommit E a) = bindE (tag_commit rt key c E a s) (\<lambda>(_, t). Inr t)"
| "scene_step rt key c py_str s (MergeBranches E a) = bindE (merge_branches rt key c py_str E a s) (\<lambda>(_, t). Inr t)"
| "scene_step rt key c py_str s (Elsewhere d) =
     Inr (d\<lparr>scene_commits := scene_commits s, scene_branches := scene_branches s, scene_tags := scene_tags s\<rparr>)"

lemma insert_branch_Inr [result_simps]:
  "insert_branch b s = Inr t \<longleftrightarrow> branch_key b \<notin> branch_key ` set (scene_branches s) \<and>
     sb_branch_id b \<notin> tkeys sb_branch_id (scene_branches s) \<and> t = s\<lparr>scene_branches := scene_branches s @ [b]\<rparr>"
proof -
  have "list_ex (branch_named (sb_tenant_id b) (sb_project_id b) (sb_scene_id b) (sb_name b)) (scene_branches s)
      \<longleftrightarrow> branch_key b \<in> branch_key ` set (scene_branches s)"
    by (auto simp: list_ex_iff branch_named_def branch_key_def intro: rev_image_eqI)
  then show ?thesis by (auto simp: insert_branch_def result_simps)
qed

lemma find_branch_Some:
  "find_branch tenant project scene name s = Some b \<Longrightarrow> b \<in> set (scene_branches s) \<and> sb_tenant_id b = tenant \<and>
     sb_project_id b = project \<and> sb_scene_id b = scene \<and> sb_name b = name"
  by (auto simp: find_branch_def branch_named_def find_Some_iff)

lemma find_branch_None:
  "find_branch tenant project scene name s = None \<longleftrightarrow> (tenant, project, scene, name) \<notin> branch_key ` set (scene_branches s)"
  by (auto simp: find_branch_def branch_named_def branch_key_def find_None_iff image_iff)

text \<open>Emitting the event and writing the audit entry leave the three tables alone.\<close>

lemma recorded_frame:
  assumes "emit_event rt c i now a s = Inr u" and "append_audit rt k j now' e u = Inr t"
  shows "scene_commits t = scene_commits s \<and> scene_branches t = scene_branches s \<and> scene_tags t = scene_tags s"
  using emit_event_frame [OF assms(1)] append_audit_frame [OF assms(2)] by auto

lemma create_scene_move:
  assumes "create_scene rt key c E tenant project name actor s = Inr (x, t)"
  shows "scene_move rt s t"
proof -
  let ?row = "initial_commit rt E tenant project name actor" and ?b = "main_branch E tenant project"
  from assms obtain s1 s2 s3 where i: "insert_commit ?row s = Inr s1" and b: "insert_branch ?b s1 = Inr s2"
    and e: "emit_event rt c (ids E 3) (clk E 2) (scene_event tenant project (ids E 1)
                 [(''scene_id'', JStr (ids E 0)), (''branch'', JStr ''main''),
                  (''snapshot_hash'', JStr (sc_snapshot_hash ?row)), (''parent_count'', JInt 0)] actor None) s2 = Inr s3"
    and u: "append_audit rt key (ids E 4) (clk E 3)
              (audit_entry tenant (Some project) actor ''scene:create'' ''scene'' (ids E 0) ''allowed''
                 [(''commit_id'', JStr (ids E 1))]) s3 = Inr t"
    unfolding create_scene_def Let_def by (auto simp only: bindE_Inr_conv prod.inject sum.inject split: option.splits if_splits)
  from i have f: "fresh_commit rt ?row s" and s1: "s1 = s\<lparr>scene_commits := scene_commits s @ [?row]\<rparr>"
    by (auto simp: insert_commit_Inr fresh_commit_def initial_commit_def Let_def)
  from b s1 have k: "sb_branch_id ?b \<notin> tkeys sb_branch_id (scene_branches s)"
      "branch_key ?b \<notin> branch_key ` set (scene_branches s)"
    and s2: "s2 = s\<lparr>scene_commits := scene_commits s @ [?row], scene_branches := scene_branches s @ [?b]\<rparr>"
    unfolding insert_branch_Inr by auto
  from recorded_frame [OF e u] s2 show ?thesis
    by (intro scene_move.root [OF f _ k]) (simp_all add: initial_commit_def main_branch_def Let_def)
qed

lemma create_entity_move:
  assumes "create_entity rt key py_str E a s = Inr (x, t)"
  shows "scene_move rt s t"
proof -
  from assms obtain rows where "append_audit rt key (ids E 1) (clk E 1)
      (audit_entry (ea_tenant_id a) (Some (ea_project_id a)) (ea_actor_id a) ''scene_entity:create'' ''scene_entity''
         (str_or (ea_entity_id a) (ids E 0)) ''allowed'' [(''scene_id'', JStr (ea_scene_id a)), (''entity_type'', JStr (ea_entity_type a)),
           (''source_class'', JStr (source_class_value (ea_source_class a)))]) (s\<lparr>scene_entities := rows\<rparr>) = Inr t"
    unfolding create_entity_def Let_def
    by (auto simp only: result_simps prod.inject sum.inject split: if_splits)
  from append_audit_frame [OF this] show ?thesis by (auto intro: scene_move.none)
qed

text \<open>A commit on top of a branch head, as \<open>commit_in_session\<close>, \<open>rollback_branch\<close> and
  \<open>publish_merge\<close> make it.\<close>

lemma commit_on_head_move:
  assumes wf: "scenes_wf rt s" and f: "fresh_commit rt row s" and b: "find_branch tenant project scene name s = Some b"
    and row: "sc_tenant_id row = tenant" "sc_project_id row = project" "sc_scene_id row = scene" "sc_commit_id row = k"
    and ps: "sb_head_commit_id b \<in> set (sc_parent_ids_json row)"
      "\<forall>p\<in>set (sc_parent_ids_json row). commit_in s tenant project scene p"
    and t: "scene_commits t = scene_commits s @ [row]"
      "scene_branches t = tput sb_branch_id (b\<lparr>sb_head_commit_id := k\<rparr>) (scene_branches s)"
      "scene_tags t = scene_tags s"
  shows "scene_move rt s t"
  using find_branch_Some [OF b] ps row t by (intro scene_move.extend [OF f, of b]) auto

lemma head_in_scene:
  assumes "scenes_wf rt s" and "find_branch tenant project scene name s = Some b"
  shows "commit_in s tenant project scene (sb_head_commit_id b)"
  using assms find_branch_Some [OF assms(2)] unfolding scenes_wf_def by blast

lemma find_branch_own:
  assumes "scenes_wf rt s" and "b \<in> set (scene_branches s)"
  shows "find_branch (sb_tenant_id b) (sb_project_id b) (sb_scene_id b) (sb_name b) s = Some b"
proof (cases "find_branch (sb_tenant_id b) (sb_project_id b) (sb_scene_id b) (sb_name b) s")
  case None
  then show ?thesis using assms(2) by (auto simp: find_branch_None branch_key_def)
next
  case (Some b')
  then have "b' \<in> set (scene_branches s)" "branch_key b' = branch_key b"
    using find_branch_Some [OF Some] by (auto simp: branch_key_def)
  moreover have "inj_on branch_key (set (scene_branches s))"
    using assms(1) by (simp add: scenes_wf_def distinct_map)
  ultimately show ?thesis using assms(2) Some by (auto dest: inj_onD)
qed

lemma commit_in_session_Inr:
  assumes "commit_in_session rt key c E a s = Inr (v, t)"
  obtains (replay) r where "bound_commit a s = Some r" and "sc_scene_id r = co_scene_id a" and "sc_branch r = co_branch a"
      and "sc_review_state r = co_review_state a" and "v = commit_result_of r True" and "t = s"
  | (new) b ev au where "bound_commit a s = None"
      and "find_branch (co_tenant_id a) (co_project_id a) (co_scene_id a) (co_branch a) s = Some b"
      and "sb_head_commit_id b = co_expected_head a" and "v = commit_result_of (new_commit rt E a s) False"
      and "insert_commit (new_commit rt E a s) s = Inr (s\<lparr>scene_commits := scene_commits s @ [new_commit rt E a s]\<rparr>)"
      and "t = (set_head b (ids E 0) (s\<lparr>scene_commits := scene_commits s @ [new_commit rt E a s]\<rparr>))
             \<lparr>outbox_events := ev, audit_events := au\<rparr>"
proof (cases "bound_commit a s")
  case (Some r)
  with assms show thesis
    by (intro replay [of r]) (auto simp: commit_in_session_def split: if_splits)
next
  case None
  let ?row = "new_commit rt E a s"
  from assms None obtain b s1 s2 where b: "find_branch (co_tenant_id a) (co_project_id a) (co_scene_id a) (co_branch a) s = Some b"
    and h: "sb_head_commit_id b = co_expected_head a" and i: "insert_commit ?row s = Inr s1"
    and e: "emit_event rt c (ids E 1) (clk E 2) (commit_event a ?row) (set_head b (ids E 0) s1) = Inr s2"
    and u: "append_audit rt key (ids E 2) (clk E 3)
        (audit_entry (co_tenant_id a) (Some (co_project_id a)) (co_actor_id a) ''scene:commit'' ''scene_commit''
           (ids E 0) ''allowed'' [(''scene_id'', JStr (co_scene_id a)), (''branch'', JStr (co_branch a)),
             (''parent'', JStr (co_expected_head a)), (''snapshot_hash'', JStr (sc_snapshot_hash ?row))]) s2 = Inr t"
    and v: "v = commit_result_of ?row False"
    unfolding commit_in_session_def Let_def
    by (auto simp only: bindE_Inr_conv option.case prod.inject sum.inject split: if_splits option.splits)
  have s1: "s1 = s\<lparr>scene_commits := scene_commits s @ [?row]\<rparr>" using i by (simp add: insert_commit_Inr)
  from emit_event_frame [OF e] append_audit_frame [OF u] obtain ev au
    where "t = (set_head b (ids E 0) s1)\<lparr>outbox_events := ev, audit_events := au\<rparr>" by auto
  with None b h v i show thesis unfolding s1 by (rule new)
qed

lemma set_head_tables [simp]:
  "scene_commits (set_head b k s) = scene_commits s" "scene_tags (set_head b k s) = scene_tags s"
  "scene_branches (set_head b k s) = tput sb_branch_id (b\<lparr>sb_head_commit_id := k\<rparr>) (scene_branches s)"
  by (simp_all add: set_head_def)

lemma fresh_commitI:
  "insert_commit row s = Inr t \<Longrightarrow> sc_snapshot_hash row = canonical_sha256 rt (JObj (sc_semantic_snapshot_json row)) \<Longrightarrow>
     fresh_commit rt row s"
  by (simp add: insert_commit_Inr fresh_commit_def)

lemma commit_move:
  assumes wf: "scenes_wf rt s" and ok: "commit_in_session rt key c E a s = Inr (v, t)"
  shows "scene_move rt s t"
  using ok
proof (cases rule: commit_in_session_Inr)
  case replay
  then show ?thesis by (simp add: scene_move.none)
next
  case (new b ev au)
  have "fresh_commit rt (new_commit rt E a s) s"
    by (rule fresh_commitI [OF new(5)]) (simp add: new_commit_def Let_def)
  then show ?thesis
    by (rule commit_on_head_move [OF wf _ new(2), where k = "ids E 0"])
      (use new(3,6) head_in_scene [OF wf new(2)] in \<open>simp_all add: new_commit_def Let_def\<close>)
qed

lemma create_branch_move:
  assumes "create_branch E tenant project scene name from_commit protected s = Inr (x, t)"
  shows "scene_move rt s t"
proof -
  let ?b = "new_branch E tenant project scene name from_commit protected"
  from assms obtain r where r: "get_commit s from_commit = Some r" "sc_tenant_id r = tenant" "sc_project_id r = project"
      "sc_scene_id r = scene" and i: "insert_branch ?b s = Inr t"
    unfolding create_branch_def by (auto simp: bindE_Inr_conv split: option.splits if_splits)
  from i show ?thesis
    unfolding insert_branch_Inr using r
    by (intro scene_move.branch [of ?b]) (auto simp: commit_in_def new_branch_def)
qed

lemma rollback_move:
  assumes wf: "scenes_wf rt s" and ok: "rollback_branch E tenant project scene branch target_id actor s = Inr (x, t)"
  shows "scene_move rt s t"
proof -
  from ok obtain target b s1 where g: "get_commit s target_id = Some target" and b: "find_branch tenant project scene branch s = Some b"
    and i: "insert_commit (rollback_commit E tenant project scene branch (sb_head_commit_id b) target actor) s = Inr s1"
    and t: "t = set_head b (ids E 0) s1"
    by (auto simp: rollback_branch_def Let_def bindE_Inr_conv split: option.splits if_splits)
  let ?row = "rollback_commit E tenant project scene branch (sb_head_commit_id b) target actor"
  have "target \<in> set (scene_commits s)" using g by (auto simp: get_commit_def dest: tget_SomeD)
  then have "sc_snapshot_hash target = canonical_sha256 rt (JObj (sc_semantic_snapshot_json target))"
    using wf unfolding scenes_wf_def by blast
  then have "fresh_commit rt ?row s" by (intro fresh_commitI [OF i]) (simp add: rollback_commit_def)
  then show ?thesis
    by (rule commit_on_head_move [OF wf _ b, where k = "ids E 0"])
      (use i head_in_scene [OF wf b] in \<open>simp_all add: t rollback_commit_def insert_commit_Inr\<close>)
qed

lemma tag_move:
  assumes "tag_commit rt key c E a s = Inr (x, t)"
  shows "scene_move rt s t"
proof -
  from assms obtain r rows u where r: "get_commit s (tg_commit_id a) = Some r" "sc_tenant_id r = tg_tenant_id a"
      "sc_project_id r = tg_project_id a" "sc_scene_id r = tg_scene_id a"
    and n: "find_tag (tg_tenant_id a) (tg_project_id a) (tg_scene_id a) (tg_name a) s = None"
    and i: "insert_row sg_tag_id (new_tag E a) (scene_tags s) = Inr rows"
    and e: "\<exists>spec. emit_event rt c (ids E 1) (clk E 1) spec (s\<lparr>scene_tags := rows\<rparr>) = Inr u"
    and au: "append_audit rt key (ids E 2) (clk E 2)
      (audit_entry (tg_tenant_id a) (Some (tg_project_id a)) (tg_actor_id a) ''scene:tag'' ''scene_tag'' (ids E 0)
         ''allowed'' (tag_payload E a)) u = Inr t"
    unfolding tag_commit_def
    by (auto simp only: bindE_Inr_conv prod.inject sum.inject not_not split: option.splits if_splits)
  from n have "tag_key (new_tag E a) \<notin> tag_key ` set (scene_tags s)"
    by (auto simp: find_tag_def find_None_iff tag_named_def tag_key_def new_tag_def)
  moreover from e recorded_frame [OF _ au] have "scene_commits t = scene_commits s" "scene_branches t = scene_branches s"
    "scene_tags t = rows" by auto
  ultimately show ?thesis
    using r i by (intro scene_move.tag [of "new_tag E a"]) (auto simp: insert_row_Inr commit_in_def new_tag_def)
qed

lemma merge_commit_fields [simp]:
  "sc_commit_id (merge_commit rt E a l r m cs) = ids E 0" "sc_tenant_id (merge_commit rt E a l r m cs) = ma_tenant_id a"
  "sc_project_id (merge_commit rt E a l r m cs) = ma_project_id a" "sc_scene_id (merge_commit rt E a l r m cs) = ma_scene_id a"
  "sc_parent_ids_json (merge_commit rt E a l r m cs) = [l, r]" "sc_semantic_snapshot_json (merge_commit rt E a l r m cs) = m"
  "sc_policy_checks_json (merge_commit rt E a l r m cs) = merge_policy_checks a cs"
  by (simp_all add: merge_commit_def Let_def)

lemma merge_move:
  assumes wf: "scenes_wf rt s" and ok: "merge_branches rt key c py_str E a s = Inr (out, t)"
  shows "scene_move rt s t"
  using ok
proof (rule merge_branches_Inr)
  fix target base merged conflicts and l r :: scene_commit_row
  let ?row = "merge_commit rt E a (sc_commit_id l) (sc_commit_id r)
         (if conflicts \<noteq> [] then sc_semantic_snapshot_json l else merged) conflicts"
  assume inp: "merge_inputs a s = Inr (target, base, l, r)"
    and o: "(conflicts \<noteq> [] \<and> \<not> set (required_categories conflicts) \<subseteq> set (ma_approved a) \<and> t = s \<and> (\<exists>rep. out = ReviewRequired rep)) \<or>
      (set (required_categories conflicts) \<subseteq> set (ma_approved a) \<and> publish_merge rt key c E a target ?row conflicts s = Inr (out, t))"
  from inp obtain source :: scene_branch_row where tb: "find_branch (ma_tenant_id a) (ma_project_id a) (ma_scene_id a) (ma_target_branch a) s = Some target"
    and l: "get_commit s (sb_head_commit_id target) = Some l" "in_scope a l"
    and r: "get_commit s (sb_head_commit_id source) = Some r" "in_scope a r"
    unfolding merge_inputs_Inr by blast
  have ids: "sc_commit_id l = sb_head_commit_id target" "sc_commit_id r = sb_head_commit_id source"
    using l r by (auto simp: get_commit_def dest: tget_SomeD)
  show "scene_move rt s t"
  proof (cases "t = s")
    case False
    with o have "publish_merge rt key c E a target ?row conflicts s = Inr (out, t)" by blast
    then obtain ev au where i: "insert_commit ?row s = Inr (s\<lparr>scene_commits := scene_commits s @ [?row]\<rparr>)"
      and t: "t = (set_head target (ids E 0) (s\<lparr>scene_commits := scene_commits s @ [?row]\<rparr>))\<lparr>outbox_events := ev, audit_events := au\<rparr>"
      by (rule publish_merge_Inr)
    have "fresh_commit rt ?row s" by (rule fresh_commitI [OF i]) (simp add: merge_commit_def Let_def)
    moreover have "commit_in s (ma_tenant_id a) (ma_project_id a) (ma_scene_id a) p"
      if "p \<in> {sb_head_commit_id target, sb_head_commit_id source}" for p
      using that l r by (auto simp: commit_in_def in_scope_def)
    ultimately show ?thesis
      by (intro commit_on_head_move [OF wf _ tb, where k = "ids E 0"]) (simp_all add: t ids)
  qed (simp add: scene_move.none)
qed

text \<open>The refinement.\<close>

lemma scene_step_refines:
  assumes wf: "scenes_wf rt s" and st: "scene_step rt key c py_str s e = Inr t"
  shows "scene_move rt s t"
proof (cases e)
  case (Elsewhere d)
  with st show ?thesis by (auto intro: scene_move.none)
qed (use wf st in \<open>auto simp: bindE_Inr_conv dest: create_scene_move create_entity_move commit_move create_branch_move
    rollback_move tag_move merge_move\<close>)

interpretation scenes: monotone_component "scene_step rt key c py_str" "scenes_wf rt" scenes_below
  for rt key c py_str
  by unfold_locales (blast dest: scene_step_refines intro: move_wf move_below scenes_below_refl scenes_below_trans)+

lemma scenes_wf_empty: "scenes_wf rt empty_db"
  by (simp add: scenes_wf_def empty_db_def)

section \<open>The commit graph has no cycles\<close>

text \<open>The number of commits from a commit back to the oldest one, the newest commit first.\<close>

definition rank :: "scene_commit_row list \<Rightarrow> string \<Rightarrow> nat" where
  "rank rs k = length (dropWhile (\<lambda>r. sc_commit_id r \<noteq> k) rs)"

lemma rank_le: "rank rs k \<le> length rs"
  by (simp add: rank_def length_dropWhile_le)

lemma parents_recorded:
  assumes "parents_earlier rs" and "r \<in> set rs" and "p \<in> set (sc_parent_ids_json r)"
  shows "\<exists>q\<in>set rs. sc_commit_id q = p \<and> sc_tenant_id q = sc_tenant_id r \<and> sc_project_id q = sc_project_id r \<and> sc_scene_id q = sc_scene_id r"
  using assms by (induction rs) auto

lemma parent_rank:
  assumes "parents_earlier rs" and "distinct (map sc_commit_id rs)" and "r \<in> set rs" and "p \<in> set (sc_parent_ids_json r)"
  shows "rank rs p < rank rs (sc_commit_id r)"
  using assms
proof (induction rs)
  case (Cons x rs)
  have p: "p \<in> sc_commit_id ` set rs"
  proof (cases "r = x")
    case True
    with Cons.prems(1,4) show ?thesis by force
  next
    case False
    with Cons.prems have "r \<in> set rs" "parents_earlier rs" by auto
    from parents_recorded [OF this(2,1) Cons.prems(4)] show ?thesis by blast
  qed
  then have px: "sc_commit_id x \<noteq> p" using Cons.prems(2) by auto
  show ?case
  proof (cases "r = x")
    case True
    with px rank_le [of rs p] show ?thesis by (simp add: rank_def)
  next
    case False
    with Cons.prems have r: "r \<in> set rs" by auto
    then have "sc_commit_id x \<noteq> sc_commit_id r" using Cons.prems(2) by auto
    with Cons.IH Cons.prems r px show ?thesis by (simp add: rank_def)
  qed
qed simp

lemma get_commit_mem: "get_commit s k = Some r \<Longrightarrow> r \<in> set (scene_commits s) \<and> sc_commit_id r = k"
  by (auto simp: get_commit_def dest: tget_SomeD)

lemma parent_of_rank:
  assumes "scenes_wf rt s" and "parent_of s d p"
  shows "rank (rev (scene_commits s)) p < rank (rev (scene_commits s)) d"
proof -
  from assms(2) obtain r where r: "r \<in> set (scene_commits s)" "sc_commit_id r = d" "p \<in> set (sc_parent_ids_json r)"
    unfolding parent_of_def using get_commit_mem by blast
  moreover have "parents_earlier (rev (scene_commits s))" and "distinct (map sc_commit_id (rev (scene_commits s)))"
    using assms(1) by (simp_all add: scenes_wf_def rev_map [symmetric])
  ultimately show ?thesis using parent_rank [of "rev (scene_commits s)" r p] by simp
qed

lemma ancestry_rank:
  assumes "scenes_wf rt s" and "(parent_of s)\<^sup>+\<^sup>+ d p"
  shows "rank (rev (scene_commits s)) p < rank (rev (scene_commits s)) d"
  using assms(2) by (induction rule: tranclp_induct) (use parent_of_rank [OF assms(1)] in \<open>auto intro: less_trans\<close>)

lemma no_cycle: "scenes_wf rt s \<Longrightarrow> \<not> (parent_of s)\<^sup>+\<^sup>+ k k"
  using ancestry_rank by blast

lemma parent_in_scene:
  assumes wf: "scenes_wf rt s" and "commit_in s tenant project scene d" and "parent_of s d p"
  shows "commit_in s tenant project scene p"
proof -
  from assms(2,3) obtain r where r: "r \<in> set (scene_commits s)" "sc_tenant_id r = tenant" "sc_project_id r = project"
      "sc_scene_id r = scene" "p \<in> set (sc_parent_ids_json r)"
    unfolding parent_of_def commit_in_def using get_commit_mem by fastforce
  have "parents_earlier (rev (scene_commits s))" using wf by (simp add: scenes_wf_def)
  from parents_recorded [OF this _ r(5)] r(1) obtain q where "q \<in> set (scene_commits s)" "sc_commit_id q = p"
      "sc_tenant_id q = sc_tenant_id r" "sc_project_id q = sc_project_id r" "sc_scene_id q = sc_scene_id r" by auto
  moreover from this(1,2) have "get_commit s p = Some q"
    using wf tget_unique_row [of sc_commit_id "scene_commits s" q] by (simp add: scenes_wf_def get_commit_def)
  ultimately show ?thesis using r by (simp add: commit_in_def)
qed

lemma reached_in_scene:
  assumes wf: "scenes_wf rt s" and d: "commit_in s tenant project scene d" and "reaches s d p"
  shows "commit_in s tenant project scene p"
  using assms(3) unfolding reaches_def
  by (induction rule: rtranclp_induct) (use d parent_in_scene [OF wf] in auto)

lemma ancestor_ids_in_scene:
  assumes wf: "scenes_wf rt s" and d: "commit_in s tenant project scene d"
  shows "ancestor_ids s d = Inr {p. reaches s d p}"
proof (cases "ancestor_ids s d")
  case (Inl e)
  from ancestor_loop_fails [of s "{}" "[d]" e d] Inl obtain j where "reaches s d j" "get_commit s j = None"
    by (auto simp: ancestor_ids_def reaches_def)
  from reached_in_scene [OF wf d this(1)] this(2) show ?thesis by (auto simp: commit_in_def)
next
  case (Inr A)
  with ancestor_ids_reaches(1) show ?thesis by simp
qed

section \<open>Properties of the history\<close>

text \<open>
  C5. Over any calls, whatever other services do in between, recorded commits and tags never change
  or disappear, and the head of a branch only moves to a descendant of the earlier head: also a
  rollback adds a commit on top.
\<close>

theorem scene_history_append_only:
  assumes "scenes_wf rt s" and "t = run (scene_step rt key c py_str) es s"
  shows "prefix (scene_commits s) (scene_commits t) \<and> prefix (scene_tags s) (scene_tags t) \<and>
    (\<forall>k b. get_branch s k = Some b \<longrightarrow> (\<exists>b'. get_branch t k = Some b' \<and>
       b'\<lparr>sb_head_commit_id := sb_head_commit_id b\<rparr> = b \<and> reaches t (sb_head_commit_id b') (sb_head_commit_id b)))"
  using scenes.run_below [OF assms(1), of key c py_str es]
  unfolding assms(2) scenes_below_def kept_def .

text \<open>
  C15. Over any calls from an empty database the commit graph has no cycle, the ancestors of every
  branch head are stored and belong to the scene of the branch, the walk over them succeeds, and a
  query by branch returns the head with an intact snapshot.
\<close>

theorem scene_graph_sound:
  assumes "s = run (scene_step rt key c py_str) es empty_db" and "b \<in> set (scene_branches s)"
  shows "\<not> (parent_of s)\<^sup>+\<^sup>+ k k \<and>
    ancestor_ids s (sb_head_commit_id b) = Inr {p. reaches s (sb_head_commit_id b) p} \<and>
    (\<forall>p. reaches s (sb_head_commit_id b) p \<longrightarrow> commit_in s (sb_tenant_id b) (sb_project_id b) (sb_scene_id b) p) \<and>
    (sb_name b \<noteq> [] \<longrightarrow> (\<exists>r. get_commit s (sb_head_commit_id b) = Some r \<and>
       query_scene_as_of rt \<lparr>ao_tenant_id = sb_tenant_id b, ao_project_id = sb_project_id b, ao_scene_id = sb_scene_id b,
         ao_commit_id = None, ao_tag = None, ao_recorded_at = None, ao_valid_at = None, ao_field_visit_id = None,
         ao_branch = Some (sb_name b)\<rparr> s = Inr (commit_dict r, s)))"
proof -
  have wf: "scenes_wf rt s" unfolding assms(1) by (rule scenes.run_inv [OF scenes_wf_empty])
  have h: "commit_in s (sb_tenant_id b) (sb_project_id b) (sb_scene_id b) (sb_head_commit_id b)"
    using wf assms(2) unfolding scenes_wf_def by blast
  then obtain r where r: "get_commit s (sb_head_commit_id b) = Some r" "sc_tenant_id r = sb_tenant_id b"
      "sc_project_id r = sb_project_id b" "sc_scene_id r = sb_scene_id b"
    unfolding commit_in_def by blast
  have hash: "canonical_sha256 rt (JObj (sc_semantic_snapshot_json r)) = sc_snapshot_hash r"
    using get_commit_mem [OF r(1)] wf unfolding scenes_wf_def by auto
  have "find_branch (sb_tenant_id b) (sb_project_id b) (sb_scene_id b) (sb_name b) s = Some b"
    by (rule find_branch_own [OF wf assms(2)])
  with r hash have "sb_name b \<noteq> [] \<longrightarrow> query_scene_as_of rt \<lparr>ao_tenant_id = sb_tenant_id b, ao_project_id = sb_project_id b, ao_scene_id = sb_scene_id b,
         ao_commit_id = None, ao_tag = None, ao_recorded_at = None, ao_valid_at = None, ao_field_visit_id = None,
         ao_branch = Some (sb_name b)\<rparr> s = Inr (commit_dict r, s)"
    by (simp add: query_scene_as_of_def selectors_def as_of_commit_def)
  with no_cycle [OF wf] ancestor_ids_in_scene [OF wf h] reached_in_scene [OF wf h] r(1) show ?thesis by blast
qed

text \<open>
  C2. No lost update: after a commit on a branch, every call that would add a commit with the same
  expected head to that branch is refused, whatever happened in between.
\<close>

theorem stale_commit_never_lands:
  assumes wf: "scenes_wf rt s" and ok: "commit_in_session rt key c E a s = Inr (v, t)" and nr: "\<not> cm_idempotent_replay v"
    and u: "u = run (scene_step rt key c py_str) es t"
    and same: "co_tenant_id a' = co_tenant_id a" "co_project_id a' = co_project_id a" "co_scene_id a' = co_scene_id a"
      "co_branch a' = co_branch a" "co_expected_head a' = co_expected_head a"
    and nb: "bound_commit a' u = None"
  shows "\<exists>e. commit_in_session rt key c E' a' u = Inl e"
proof (rule ccontr)
  assume "\<nexists>e. commit_in_session rt key c E' a' u = Inl e"
  then obtain v' u' where "commit_in_session rt key c E' a' u = Inr (v', u')"
    by (metis sumE surj_pair)
  then show False
  proof (cases rule: commit_in_session_Inr)
  case (new b2)
  note wft = move_wf [OF wf commit_move [OF wf ok]]
  have wfu: "scenes_wf rt u" unfolding u by (rule scenes.run_inv [OF wft])
  have "bound_commit a s = None"
    using ok nr by (cases rule: commit_in_session_Inr) (simp_all add: commit_result_of_def)
  with ok obtain b ev au where b: "find_branch (co_tenant_id a) (co_project_id a) (co_scene_id a) (co_branch a) s = Some b"
    and h: "sb_head_commit_id b = co_expected_head a"
    and i: "insert_commit (new_commit rt E a s) s = Inr (s\<lparr>scene_commits := scene_commits s @ [new_commit rt E a s]\<rparr>)"
    and t: "t = (set_head b (ids E 0) (s\<lparr>scene_commits := scene_commits s @ [new_commit rt E a s]\<rparr>))
             \<lparr>outbox_events := ev, audit_events := au\<rparr>"
    by (cases rule: commit_in_session_Inr) auto
  have row: "sc_commit_id (new_commit rt E a s) = ids E 0" "sc_parent_ids_json (new_commit rt E a s) = [co_expected_head a]"
    by (simp_all add: new_commit_def Let_def)
  have "tget sc_commit_id (scene_commits s) (ids E 0) = None"
    using i row(1) by (simp add: insert_commit_Inr tget_None_iff)
  then have "get_commit t (ids E 0) = Some (new_commit rt E a s)"
    using row(1) by (simp add: t get_commit_def tget_append tget_Cons)
  then have par: "parent_of t (ids E 0) (co_expected_head a)" using row(2) by (auto simp: parent_of_def)
  have bm: "b \<in> set (scene_branches s)" using find_branch_Some [OF b] by blast
  have "get_branch t (sb_branch_id b) = Some (b\<lparr>sb_head_commit_id := ids E 0\<rparr>)"
    using get_branch_mem [OF wf bm] by (simp add: t get_branch_def tget_tput_same)
  then obtain b' where b': "get_branch u (sb_branch_id b) = Some b'"
      "b'\<lparr>sb_head_commit_id := ids E 0\<rparr> = b\<lparr>sb_head_commit_id := ids E 0\<rparr>" "reaches u (sb_head_commit_id b') (ids E 0)"
    and pre: "prefix (scene_commits t) (scene_commits u)"
    using scenes.run_below [OF wft, of key c py_str es] unfolding u [symmetric] scenes_below_def kept_def by fastforce
  have b'm: "b' \<in> set (scene_branches u)" using b'(1) by (auto simp: get_branch_def dest: tget_SomeD)
  have "branch_key b' = branch_key (b'\<lparr>sb_head_commit_id := ids E 0\<rparr>)" by (simp add: branch_key_def)
  also have "\<dots> = branch_key b" unfolding b'(2) by (simp add: branch_key_def)
  finally have "find_branch (co_tenant_id a) (co_project_id a) (co_scene_id a) (co_branch a) u = Some b'"
    using find_branch_own [OF wfu b'm] find_branch_Some [OF b] by (simp add: branch_key_def)
  with new(2,3) same have "sb_head_commit_id b' = co_expected_head a" by simp
  with b'(3) parent_of_prefix [OF pre par] have "(parent_of u)\<^sup>+\<^sup>+ (ids E 0) (ids E 0)"
    by (simp add: reaches_def rtranclp_into_tranclp2)
  with no_cycle [OF wfu] show ?thesis by blast
  qed (simp add: nb)
qed

lemma bound_commit_own:
  assumes wf: "scenes_wf rt s" and r: "r \<in> set (scene_commits s)" and w: "truthy_str (co_workflow_event_id a)"
    and same: "sc_tenant_id r = co_tenant_id a" "sc_project_id r = co_project_id a"
      "sc_workflow_event_id r = co_workflow_event_id a"
  shows "bound_commit a s = Some r"
proof -
  let ?P = "\<lambda>r. sc_tenant_id r = co_tenant_id a \<and> sc_project_id r = co_project_id a \<and>
      sc_workflow_event_id r = co_workflow_event_id a"
  obtain q where q: "find ?P (scene_commits s) = Some q"
    using r same by (cases "find ?P (scene_commits s)") (auto simp: find_None_iff)
  then have "q \<in> set (scene_commits s)" "?P q" by (auto simp: find_Some_iff)
  moreover from this same w have "same_workflow_event r q"
    by (cases "co_workflow_event_id a") (auto simp: same_workflow_event_def)
  ultimately have "sc_commit_id r = sc_commit_id q" using wf r unfolding scenes_wf_def by blast
  then have "r = q"
    using wf r \<open>q \<in> set (scene_commits s)\<close> by (auto simp: scenes_wf_def distinct_map dest: inj_onD)
  with q w show ?thesis by (simp add: bound_commit_def)
qed

text \<open>
  A commit with a workflow event is idempotent: repeating the call after any other calls
  returns the same commit, marked as a replay, and changes nothing.
\<close>

lemma workflow_commit_idempotent:
  assumes wf: "scenes_wf rt s" and ok: "commit_in_session rt key c E a s = Inr (v, t)"
    and w: "truthy_str (co_workflow_event_id a)" and u: "u = run (scene_step rt key c py_str) es t"
  shows "commit_in_session rt key c E' a u = Inr (v\<lparr>cm_idempotent_replay := True\<rparr>, u)"
proof -
  have wft: "scenes_wf rt t" by (rule move_wf [OF wf commit_move [OF wf ok]])
  have wfu: "scenes_wf rt u" unfolding u by (rule scenes.run_inv [OF wft])
  have pre: "prefix (scene_commits t) (scene_commits u)"
    using scenes.run_below [OF wft, of key c py_str es] by (simp add: u scenes_below_def)
  have "\<exists>r\<in>set (scene_commits t). sc_tenant_id r = co_tenant_id a \<and> sc_project_id r = co_project_id a \<and>
      sc_workflow_event_id r = co_workflow_event_id a \<and> sc_scene_id r = co_scene_id a \<and> sc_branch r = co_branch a \<and>
      sc_review_state r = co_review_state a \<and> (\<exists>x. v = commit_result_of r x)"
    using ok
  proof (cases rule: commit_in_session_Inr)
    case (replay r)
    from replay(1) w have "r \<in> set (scene_commits s)" "sc_tenant_id r = co_tenant_id a" "sc_project_id r = co_project_id a"
      "sc_workflow_event_id r = co_workflow_event_id a"
      by (auto simp: bound_commit_def find_Some_iff split: if_splits)
    with replay show ?thesis by blast
  next
    case (new b ev au)
    then show ?thesis by (intro bexI [of _ "new_commit rt E a s"]) (auto simp: new_commit_def Let_def)
  qed
  then obtain r x where r: "r \<in> set (scene_commits u)" "sc_tenant_id r = co_tenant_id a" "sc_project_id r = co_project_id a"
      "sc_workflow_event_id r = co_workflow_event_id a" "sc_scene_id r = co_scene_id a" "sc_branch r = co_branch a"
      "sc_review_state r = co_review_state a" and v: "v = commit_result_of r x"
    using pre set_mono_prefix by blast
  have b: "bound_commit a u = Some r" by (rule bound_commit_own [OF wfu r(1) w r(2-4)])
  have "\<not> (case (co_valid_from a, co_valid_to a) of (Some f, Some t) \<Rightarrow> t \<le> f | _ \<Rightarrow> False)"
    using ok by (auto simp: commit_in_session_def)
  with b r show ?thesis
    by (simp add: commit_in_session_def v) (simp add: commit_result_of_def)
qed

text \<open>
  A branch cannot be rolled back to a commit that a workflow event made: the rollback copies
  the workflow event, and the unique index on it refuses the row.
\<close>

lemma rollback_to_workflow_commit_fails:
  assumes "get_commit s target_id = Some r" and "sc_tenant_id r = tenant" and "sc_project_id r = project"
    and "sc_scene_id r = scene" and "sc_workflow_event_id r = Some w" and "find_branch tenant project scene branch s = Some b"
  shows "rollback_branch E tenant project scene branch target_id actor s = Inl (Uncaught ''IntegrityError'')"
proof -
  let ?row = "rollback_commit E tenant project scene branch (sb_head_commit_id b) r actor"
  have "same_workflow_event ?row r" using assms(2,3,5) by (simp add: same_workflow_event_def rollback_commit_def)
  then have "list_ex (same_workflow_event ?row) (scene_commits s)"
    using get_commit_mem [OF assms(1)] unfolding list_ex_iff by blast
  with assms(1,4,6) show ?thesis by (simp add: rollback_branch_def insert_commit_def Let_def)
qed

text \<open>
  The difference of two commits is served to every caller who may read scenes of its own
  tenant: neither the handler nor the service compares the tenant of the commits with the caller's.
\<close>

lemma diff_crosses_tenants:
  assumes "allowed (authorize_decision p (api_request ''scene:read'' (p_tenant_id p) None))"
    and "get_commit s left_id = Some l" and "get_commit s right_id = Some r" and "sc_tenant_id l \<noteq> p_tenant_id p"
    and "sc_tenant_id l = sc_tenant_id r" and "sc_project_id l = sc_project_id r" and "sc_scene_id l = sc_scene_id r"
    and "entity_index (sc_semantic_snapshot_json l) = Inr ls" and "entity_index (sc_semantic_snapshot_json r) = Inr rs"
  shows "\<exists>changed. api_diff_scene rt key E p left_id right_id s = (Inr (diff_report left_id right_id ls rs changed), s)"
  using assms by (simp add: api_diff_scene_def guarded_def require_def authorize_def Let_def scene_diff_def session_def, blast)

section \<open>Properties of merges\<close>

text \<open>
  C8. A merge without conflicts keeps both sides: in the merged snapshot every entity that the
  target changed since the base has the target's value, every entity that the source changed has
  the source's value (or the equal one of the target), and the base is an ancestor of both heads.
\<close>

theorem clean_merge_keeps_both_sides:
  assumes m: "merge_branches rt key c py_str E a s = Inr (Merged v, t)"
    and clean: "jget (cv_policy_checks v) ''conflict_count'' = JInt 0"
    and target: "find_branch (ma_tenant_id a) (ma_project_id a) (ma_scene_id a) (ma_target_branch a) s = Some target"
    and source: "find_branch (ma_tenant_id a) (ma_project_id a) (ma_scene_id a) (ma_source_branch a) s = Some source"
    and l: "get_commit s (sb_head_commit_id target) = Some l" and r: "get_commit s (sb_head_commit_id source) = Some r"
    and b: "get_commit s (ma_base_commit_id a) = Some b"
    and be: "entity_map py_str (sc_semantic_snapshot_json b) = Inr (be, False)"
    and le: "entity_map py_str (sc_semantic_snapshot_json l) = Inr (le, False)"
    and re: "entity_map py_str (sc_semantic_snapshot_json r) = Inr (re, False)"
  shows "reaches s (sb_head_commit_id target) (ma_base_commit_id a) \<and> reaches s (sb_head_commit_id source) (ma_base_commit_id a) \<and>
    (\<exists>me. entity_map py_str (cv_semantic_snapshot v) = Inr (me, False) \<and>
      (\<forall>k. jget me k \<in> {jget le k, jget re k} \<and>
        (\<not> py_eq (jget le k) (jget be k) \<longrightarrow> jget me k = jget le k) \<and>
        (\<not> py_eq (jget re k) (jget be k) \<longrightarrow>
           jget me k = jget re k \<or> jget me k = jget le k \<and> py_eq (jget le k) (jget re k))))"
  using m
proof (rule merge_branches_Inr)
  fix target' base' merged conflicts and l' r' :: scene_commit_row
  assume inp: "merge_inputs a s = Inr (target', base', l', r')" and cb: "check_base a (sc_commit_id l') (sc_commit_id r') s = Inr ()"
    and sm: "semantic_merge rt py_str (sc_semantic_snapshot_json base') (sc_semantic_snapshot_json l')
           (sc_semantic_snapshot_json r') = Inr (merged, conflicts)"
    and o: "(conflicts \<noteq> [] \<and> \<not> set (required_categories conflicts) \<subseteq> set (ma_approved a) \<and> t = s \<and> (\<exists>rep. Merged v = ReviewRequired rep)) \<or>
      (set (required_categories conflicts) \<subseteq> set (ma_approved a) \<and> publish_merge rt key c E a target'
         (merge_commit rt E a (sc_commit_id l') (sc_commit_id r')
            (if conflicts \<noteq> [] then sc_semantic_snapshot_json l' else merged) conflicts) conflicts s = Inr (Merged v, t))"
  from inp have eqs: "base' = b" "l' = l" "r' = r" using target source l r b by (auto simp: merge_inputs_Inr)
  from o have "publish_merge rt key c E a target' (merge_commit rt E a (sc_commit_id l') (sc_commit_id r')
            (if conflicts \<noteq> [] then sc_semantic_snapshot_json l' else merged) conflicts) conflicts s = Inr (Merged v, t)" by blast
  then have v: "v = merge_view (merge_commit rt E a (sc_commit_id l') (sc_commit_id r')
            (if conflicts \<noteq> [] then sc_semantic_snapshot_json l' else merged) conflicts)"
    by (rule publish_merge_Inr) simp
  with clean have none: "conflicts = []" by (simp add: merge_view_def merge_policy_checks_def jget_def)
  then have snap: "cv_semantic_snapshot v = merged" by (simp add: v merge_view_def)
  have ids: "sc_commit_id l = sb_head_commit_id target" "sc_commit_id r = sb_head_commit_id source"
    using get_commit_mem [OF l] get_commit_mem [OF r] by auto
  from sm [unfolded eqs] be le re obtain me where me: "entity_map py_str merged = Inr (me, False)"
    and val: "\<And>k. jget me k = merged_value be le re k"
    and nc: "\<And>k. \<not> snd (three_way (jget be k) (jget le k) (jget re k))"
    by (rule semantic_merge_entities) (use none in blast)
  have "jget me k \<in> {jget le k, jget re k} \<and> (\<not> py_eq (jget le k) (jget be k) \<longrightarrow> jget me k = jget le k) \<and>
        (\<not> py_eq (jget re k) (jget be k) \<longrightarrow> jget me k = jget re k \<or> jget me k = jget le k \<and> py_eq (jget le k) (jget re k))" for k
    unfolding val using three_way_keeps [OF nc] three_way_side by blast
  with me check_base_Inr [OF cb] show ?thesis unfolding snap eqs ids by blast
qed

text \<open>
  A merge with conflicts is published only when every required review category is approved,
  and then the new commit has both heads as parents but exactly the snapshot of the target: no
  change of the source is taken over, also those that do not conflict. Otherwise nothing is written.
\<close>

lemma conflicting_merge_keeps_target:
  assumes m: "merge_branches rt key c py_str E a s = Inr (out, t)"
    and target: "find_branch (ma_tenant_id a) (ma_project_id a) (ma_scene_id a) (ma_target_branch a) s = Some target"
    and source: "find_branch (ma_tenant_id a) (ma_project_id a) (ma_scene_id a) (ma_source_branch a) s = Some source"
    and l: "get_commit s (sb_head_commit_id target) = Some l" and r: "get_commit s (sb_head_commit_id source) = Some r"
    and b: "get_commit s (ma_base_commit_id a) = Some b"
    and sm: "semantic_merge rt py_str (sc_semantic_snapshot_json b) (sc_semantic_snapshot_json l)
      (sc_semantic_snapshot_json r) = Inr (merged, conflicts)" and c: "conflicts \<noteq> []"
  shows "if set (required_categories conflicts) \<subseteq> set (ma_approved a)
    then (\<exists>v. out = Merged v \<and> cv_semantic_snapshot v = sc_semantic_snapshot_json l \<and>
           cv_parent_ids v = [sb_head_commit_id target, sb_head_commit_id source] \<and>
           scene_commits t \<noteq> scene_commits s)
    else t = s \<and> (\<exists>rep. out = ReviewRequired rep)"
  using m
proof (rule merge_branches_Inr)
  fix target' base' merged' conflicts' and l' r' :: scene_commit_row
  let ?row = "merge_commit rt E a (sc_commit_id l') (sc_commit_id r')
            (if conflicts' \<noteq> [] then sc_semantic_snapshot_json l' else merged') conflicts'"
  assume inp: "merge_inputs a s = Inr (target', base', l', r')"
    and sm': "semantic_merge rt py_str (sc_semantic_snapshot_json base') (sc_semantic_snapshot_json l')
           (sc_semantic_snapshot_json r') = Inr (merged', conflicts')"
    and o: "(conflicts' \<noteq> [] \<and> \<not> set (required_categories conflicts') \<subseteq> set (ma_approved a) \<and> t = s \<and> (\<exists>rep. out = ReviewRequired rep)) \<or>
      (set (required_categories conflicts') \<subseteq> set (ma_approved a) \<and> publish_merge rt key c E a target' ?row conflicts' s = Inr (out, t))"
  from inp have eqs: "base' = b" "l' = l" "r' = r" using target source l r b by (auto simp: merge_inputs_Inr)
  with sm sm' have cs: "conflicts' = conflicts" by simp
  have ids: "sc_commit_id l = sb_head_commit_id target" "sc_commit_id r = sb_head_commit_id source"
    using get_commit_mem [OF l] get_commit_mem [OF r] by auto
  show ?thesis
  proof (cases "set (required_categories conflicts) \<subseteq> set (ma_approved a)")
    case True
    with o cs have "publish_merge rt key c E a target' ?row conflicts' s = Inr (out, t)" by blast
    then obtain ev au where "out = Merged (merge_view ?row)"
      and "t = (set_head target' (ids E 0) (s\<lparr>scene_commits := scene_commits s @ [?row]\<rparr>))\<lparr>outbox_events := ev, audit_events := au\<rparr>"
      by (rule publish_merge_Inr)
    with True c cs show ?thesis by (simp add: merge_view_def eqs ids)
  qed (use o cs in simp)
qed

section \<open>Instances\<close>

definition scene_catalog :: event_catalog where
  "scene_catalog = [\<lparr>ec_type = ''scene.committed'', ec_version = ''1.0.0'', ec_aggregate = ''scene_commit'',
     ec_owner = ''scene-service'', ec_classification = ''inherits_project''\<rparr>]"

definition sample_entities :: "(string \<times> string) list \<Rightarrow> fields" where
  "sample_entities es = [(''entities'', JArr (map (\<lambda>(k, n). JObj [(''entity_id'', JStr k), (''name'', JStr n)]) es))]"

definition sample_commit :: "string \<Rightarrow> string list \<Rightarrow> (string \<times> string) list \<Rightarrow> string option \<Rightarrow> scene_commit_row" where
  "sample_commit k ps es w =
     \<lparr>sc_commit_id = k, sc_tenant_id = ''other'', sc_project_id = ''p'', sc_scene_id = ''s'', sc_branch = ''main'',
      sc_parent_ids_json = ps, sc_message = [], sc_semantic_snapshot_json = sample_entities es,
      sc_snapshot_hash = canonical_sha256 hex_runtime (JObj (sample_entities es)), sc_root_manifest_hash = [],
      sc_field_visit_id = None, sc_workflow_event_id = w, sc_change_evidence_ids_json = [], sc_policy_checks_json = [],
      sc_signatures_json = [], sc_review_state = ''unreviewed'', sc_valid_from = None, sc_valid_to = None,
      sc_recorded_at = 1, sc_created_by = ''v'', sc_created_at = 1, sc_supersedes_commit_id = None\<rparr>"

definition sample_branch :: "string \<Rightarrow> string \<Rightarrow> scene_branch_row" where
  "sample_branch name head = \<lparr>sb_branch_id = name, sb_tenant_id = ''other'', sb_project_id = ''p'', sb_scene_id = ''s'',
     sb_name = name, sb_head_commit_id = head, sb_protected = False\<rparr>"

text \<open>A base commit and two branches that changed it.\<close>

definition sample_scenes :: "(string \<times> string) list \<Rightarrow> (string \<times> string) list \<Rightarrow> db" where
  "sample_scenes ls rs = empty_db\<lparr>scene_commits :=
     [sample_commit ''b'' [] [(''x'', ''wall'')] None, sample_commit ''l'' [''b''] ls (Some ''w''), sample_commit ''r'' [''b''] rs None],
     scene_branches := [sample_branch ''main'' ''l'', sample_branch ''side'' ''r'']\<rparr>"

lemma sample_lookups [simp]:
  "get_commit (sample_scenes ls rs) ''b'' = Some (sample_commit ''b'' [] [(''x'', ''wall'')] None)"
  "get_commit (sample_scenes ls rs) ''l'' = Some (sample_commit ''l'' [''b''] ls (Some ''w''))"
  "get_commit (sample_scenes ls rs) ''r'' = Some (sample_commit ''r'' [''b''] rs None)"
  "find_branch ''other'' ''p'' ''s'' ''main'' (sample_scenes ls rs) = Some (sample_branch ''main'' ''l'')"
  "find_branch ''other'' ''p'' ''s'' ''side'' (sample_scenes ls rs) = Some (sample_branch ''side'' ''r'')"
  "sb_head_commit_id (sample_branch name head) = head"
  by (simp_all add: get_commit_def sample_scenes_def tget_Cons sample_commit_def find_branch_def branch_named_def sample_branch_def)

lemma sample_scenes_wf: "scenes_wf hex_runtime (sample_scenes ls rs)"
  by (auto simp: scenes_wf_def sample_scenes_def empty_db_def sample_commit_def sample_branch_def branch_key_def
      commit_in_def get_commit_def tget_Cons same_workflow_event_def)

lemma scene_event_returns:
  assumes "outbox_events s = []" and "validate_payload hex_runtime payload = Inr ()"
  shows "\<exists>l. emit_event hex_runtime scene_catalog i now (scene_event tenant project k payload actor causation) s
     = Inr (s\<lparr>outbox_events := l\<rparr>)"
proof -
  obtain e where "catalog_get scene_catalog ''scene.committed'' ''1.0.0'' = Inr e" "ec_owner e = ''scene-service''"
      "ec_aggregate e = ''scene_commit''"
    by (simp add: catalog_get_def scene_catalog_def entry_key_def)
  then have "emit_event hex_runtime scene_catalog i now (scene_event tenant project k payload actor causation) s
      = Inr (s\<lparr>outbox_events := outbox_events s @ [outbox_row hex_runtime i now
          (scene_event tenant project k payload actor causation) (project_classification s (Some project))]\<rparr>)"
    using emit_event_returns [of scene_catalog "scene_event tenant project k payload actor causation" e i s now] assms
    by (simp add: scene_event_def tkeys_def)
  then show ?thesis by blast
qed

lemma scene_history_append_only_witness:
  "prefix (scene_commits (sample_scenes [] [])) (scene_commits (run (scene_step hex_runtime ''k'' scene_catalog (\<lambda>_. []))
     [Rollback (at_time 5) ''other'' ''p'' ''s'' ''side'' ''b'' ''u'', Elsewhere empty_db] (sample_scenes [] [])))"
  by (rule scene_history_append_only [OF sample_scenes_wf refl, THEN conjunct1])

definition sample_commit_args :: "string option \<Rightarrow> commit_args" where
  "sample_commit_args w = \<lparr>co_tenant_id = ''other'', co_project_id = ''p'', co_scene_id = ''s'', co_branch = ''side'',
     co_expected_head = ''r'', co_message = [], co_actor_id = ''u'', co_field_visit_id = None, co_workflow_event_id = w,
     co_change_evidence_ids = [], co_policy_checks = [], co_signatures = [], co_review_state = ''unreviewed'',
     co_valid_from = None, co_valid_to = None\<rparr>"

lemma sample_snapshot:
  "scene_snapshot ''other'' ''p'' ''s'' (sample_scenes [] []) =
     [(''schema_version'', JStr ''1.0.0''), (''scene_id'', JStr ''s''), (''entities'', JArr []), (''representations'', JArr [])]"
  by (simp add: scene_snapshot_def live_entities_def live_bindings_def sample_scenes_def empty_db_def)

lemma commit_payload_ok:
  assumes "length h = 64"
  shows "validate_payload rt [(''scene_id'', JStr ''s''), (''branch'', JStr ''side''), (''snapshot_hash'', JStr h),
      (''parent_count'', JInt 1), (''review_state'', JStr ''unreviewed''), (''change_evidence_count'', JInt 0)] = Inr ()"
proof (rule small_payload)
  have "int_repr 0 = ''0''" "int_repr 1 = ''1''" by code_simp+
  with assms show "fields_bound rt [(''scene_id'', JStr ''s''), (''branch'', JStr ''side''), (''snapshot_hash'', JStr h),
      (''parent_count'', JInt 1), (''review_state'', JStr ''unreviewed''), (''change_evidence_count'', JInt 0)] \<le> 65534"
    by simp
  show "walk (JObj [(''scene_id'', JStr ''s''), (''branch'', JStr ''side''), (''snapshot_hash'', JStr h),
      (''parent_count'', JInt 1), (''review_state'', JStr ''unreviewed''), (''change_evidence_count'', JInt 0)]) [] = Inr ()"
    by code_simp
qed

text \<open>A commit on the side branch returns.\<close>

lemma recording_returns:
  assumes "outbox_events s = []" and "audit_events s = []" and "validate_payload hex_runtime payload = Inr ()"
  shows "\<exists>u t. emit_event hex_runtime scene_catalog i now (scene_event tenant project k payload actor causation) s = Inr u \<and>
    append_audit rt key j now' e u = Inr t"
proof -
  obtain l where l: "emit_event hex_runtime scene_catalog i now (scene_event tenant project k payload actor causation) s
      = Inr (s\<lparr>outbox_events := l\<rparr>)"
    using scene_event_returns [OF assms(1,3)] by blast
  have "audit_events (s\<lparr>outbox_events := l\<rparr>) = []" using assms(2) by simp
  from l append_audit_first [OF this] show ?thesis by blast
qed

lemma sample_commit_returns:
  assumes w: "w \<in> {None, Some ''w2''}"
  shows "\<exists>v t. commit_in_session hex_runtime ''k'' scene_catalog (at_time 5) (sample_commit_args w) (sample_scenes [] [])
      = Inr (v, t) \<and> \<not> cm_idempotent_replay v"
proof -
  let ?s = "sample_scenes [] []" and ?a = "sample_commit_args w"
  let ?row = "new_commit hex_runtime (at_time 5) ?a ?s"
  let ?s1 = "set_head (sample_branch ''side'' ''r'') (ids (at_time 5) 0) (?s\<lparr>scene_commits := scene_commits ?s @ [?row]\<rparr>)"
  have none: "bound_commit ?a ?s = None"
    using w by (auto simp: bound_commit_def sample_commit_args_def sample_scenes_def sample_commit_def)
  have i: "insert_commit ?row ?s = Inr (?s\<lparr>scene_commits := scene_commits ?s @ [?row]\<rparr>)"
    using w by (auto simp: insert_commit_Inr new_commit_def Let_def sample_commit_args_def sample_scenes_def tkeys_def
        sample_commit_def same_workflow_event_def at_time_def)
  have h: "length (sc_snapshot_hash ?row) = 64" by (simp add: new_commit_def Let_def length_hex_digest)
  have ev: "commit_event ?a ?row = scene_event ''other'' ''p'' (sc_commit_id ?row) [(''scene_id'', JStr ''s''), (''branch'', JStr ''side''),
      (''snapshot_hash'', JStr (sc_snapshot_hash ?row)), (''parent_count'', JInt 1), (''review_state'', JStr ''unreviewed''),
      (''change_evidence_count'', JInt 0)] ''u'' w"
    by (simp add: commit_event_def sample_commit_args_def sorted_set_def)
  have o: "outbox_events ?s1 = []" "audit_events ?s1 = []" by (simp_all add: set_head_def sample_scenes_def empty_db_def)
  obtain u t where "emit_event hex_runtime scene_catalog (ids (at_time 5) 1) (clk (at_time 5) 2) (commit_event ?a ?row) ?s1 = Inr u"
    and "append_audit hex_runtime ''k'' (ids (at_time 5) 2) (clk (at_time 5) 3)
        (audit_entry (co_tenant_id ?a) (Some (co_project_id ?a)) (co_actor_id ?a) ''scene:commit'' ''scene_commit''
           (ids (at_time 5) 0) ''allowed'' [(''scene_id'', JStr (co_scene_id ?a)), (''branch'', JStr (co_branch ?a)),
             (''parent'', JStr (co_expected_head ?a)), (''snapshot_hash'', JStr (sc_snapshot_hash ?row))]) u = Inr t"
    unfolding ev using recording_returns [OF o commit_payload_ok [OF h]] by blast
  moreover have "co_change_evidence_ids ?a = []" "co_valid_from ?a = None" "co_expected_head ?a = ''r''"
    "find_branch (co_tenant_id ?a) (co_project_id ?a) (co_scene_id ?a) (co_branch ?a) ?s = Some (sample_branch ''side'' ''r'')"
    by (simp_all add: sample_commit_args_def)
  ultimately show ?thesis
    using none i by (simp add: commit_in_session_def Let_def sorted_set_def) (simp add: commit_result_of_def)
qed

lemma stale_commit_never_lands_witness:
  "\<exists>v t. commit_in_session hex_runtime ''k'' scene_catalog (at_time 5) (sample_commit_args None) (sample_scenes [] []) = Inr (v, t) \<and>
     (\<exists>e. commit_in_session hex_runtime ''k'' scene_catalog (at_time 9) (sample_commit_args None)
        (run (scene_step hex_runtime ''k'' scene_catalog (\<lambda>_. []))
           [Rollback (at_time 7) ''other'' ''p'' ''s'' ''side'' ''r'' ''u''] t) = Inl e)"
proof -
  obtain v t where v: "commit_in_session hex_runtime ''k'' scene_catalog (at_time 5) (sample_commit_args None) (sample_scenes [] [])
      = Inr (v, t)" "\<not> cm_idempotent_replay v"
    using sample_commit_returns [of None] by auto
  have "bound_commit (sample_commit_args None) u = None" for u
    by (simp add: bound_commit_def sample_commit_args_def)
  from stale_commit_never_lands [OF sample_scenes_wf v refl refl refl refl refl refl this] v(1) show ?thesis by blast
qed

lemma workflow_commit_idempotent_witness:
  "\<exists>v t. commit_in_session hex_runtime ''k'' scene_catalog (at_time 5) (sample_commit_args (Some ''w2'')) (sample_scenes [] []) = Inr (v, t) \<and>
     commit_in_session hex_runtime ''k'' scene_catalog (at_time 9) (sample_commit_args (Some ''w2''))
        (run (scene_step hex_runtime ''k'' scene_catalog (\<lambda>_. [])) [Elsewhere empty_db] t)
      = Inr (v\<lparr>cm_idempotent_replay := True\<rparr>, run (scene_step hex_runtime ''k'' scene_catalog (\<lambda>_. [])) [Elsewhere empty_db] t)"
proof -
  obtain v t where v: "commit_in_session hex_runtime ''k'' scene_catalog (at_time 5) (sample_commit_args (Some ''w2'')) (sample_scenes [] [])
      = Inr (v, t)"
    using sample_commit_returns [of "Some ''w2''"] by auto
  have "truthy_str (co_workflow_event_id (sample_commit_args (Some ''w2'')))" by (simp add: sample_commit_args_def)
  from workflow_commit_idempotent [OF sample_scenes_wf v this refl] v show ?thesis by blast
qed

lemma rollback_to_workflow_commit_fails_witness:
  "rollback_branch (at_time 5) ''other'' ''p'' ''s'' ''side'' ''l'' ''u'' (sample_scenes [] []) = Inl (Uncaught ''IntegrityError'')"
  by (rule rollback_to_workflow_commit_fails [OF sample_lookups(2) _ _ _ _ sample_lookups(5)]) (simp_all add: sample_commit_def)

lemma diff_crosses_tenants_witness:
  "\<exists>ls rs changed. api_diff_scene hex_runtime ''k'' (at_time 5) sample_principal ''b'' ''l'' (sample_scenes [(''y'', ''door'')] [])
     = (Inr (diff_report ''b'' ''l'' ls rs changed), sample_scenes [(''y'', ''door'')] [])"
proof -
  have "allowed (authorize_decision sample_principal (api_request ''scene:read'' (p_tenant_id sample_principal) None))"
    by code_simp
  moreover have "\<exists>ls. entity_index (sample_entities [(''x'', ''wall'')]) = Inr ls" "\<exists>rs. entity_index (sample_entities [(''y'', ''door'')]) = Inr rs"
    by (simp_all add: entity_index_def sample_entities_def entity_key_def)
  then obtain ls rs where "entity_index (sample_entities [(''x'', ''wall'')]) = Inr ls" "entity_index (sample_entities [(''y'', ''door'')]) = Inr rs"
    by blast
  ultimately have "\<exists>changed. api_diff_scene hex_runtime ''k'' (at_time 5) sample_principal ''b'' ''l'' (sample_scenes [(''y'', ''door'')] [])
     = (Inr (diff_report ''b'' ''l'' ls rs changed), sample_scenes [(''y'', ''door'')] [])"
    by (intro diff_crosses_tenants [OF _ sample_lookups(1,2)]) (simp_all add: sample_commit_def sample_principal_def)
  then show ?thesis by blast
qed

definition sample_merge :: "string list \<Rightarrow> merge_args" where
  "sample_merge approved = \<lparr>ma_tenant_id = ''other'', ma_project_id = ''p'', ma_scene_id = ''s'', ma_target_branch = ''main'',
     ma_source_branch = ''side'', ma_base_commit_id = ''b'', ma_actor_id = ''u'', ma_message = [], ma_approved = approved\<rparr>"

lemma sample_merge_inputs:
  "merge_inputs (sample_merge xs) (sample_scenes ls rs) = Inr (sample_branch ''main'' ''l'',
     sample_commit ''b'' [] [(''x'', ''wall'')] None, sample_commit ''l'' [''b''] ls (Some ''w''), sample_commit ''r'' [''b''] rs None)"
  "check_base (sample_merge xs) ''l'' ''r'' (sample_scenes ls rs) = Inr ()"
proof -
  show "merge_inputs (sample_merge xs) (sample_scenes ls rs) = Inr (sample_branch ''main'' ''l'',
     sample_commit ''b'' [] [(''x'', ''wall'')] None, sample_commit ''l'' [''b''] ls (Some ''w''), sample_commit ''r'' [''b''] rs None)"
    unfolding merge_inputs_Inr by (simp add: sample_merge_def) (simp add: in_scope_def sample_commit_def)
  have "ancestor_ids (sample_scenes ls rs) ''l'' = Inr {''b'', ''l''}" "ancestor_ids (sample_scenes ls rs) ''r'' = Inr {''b'', ''r''}"
    by (simp_all add: ancestor_ids_def sample_commit_def)
  then show "check_base (sample_merge xs) ''l'' ''r'' (sample_scenes ls rs) = Inr ()"
    by (simp add: check_base_def sample_merge_def)
qed

lemmas merge_simps = entity_map_def sample_entities_def json_str_def jset_def jget_def three_way_def sorted_set_def Let_def

lemma conflicting_merge_keeps_target_witness:
  "\<exists>out t. merge_branches hex_runtime ''k'' scene_catalog (\<lambda>_. []) (at_time 5) (sample_merge [])
     (sample_scenes [(''x'', ''door'')] [(''x'', ''pipe'')]) = Inr (out, t) \<and> t = sample_scenes [(''x'', ''door'')] [(''x'', ''pipe'')]"
proof -
  let ?s = "sample_scenes [(''x'', ''door'')] [(''x'', ''pipe'')]"
  obtain merged conflicts where sm: "semantic_merge hex_runtime (\<lambda>_. []) (sample_entities [(''x'', ''wall'')]) (sample_entities [(''x'', ''door'')])
      (sample_entities [(''x'', ''pipe'')]) = Inr (merged, conflicts)" "conflicts \<noteq> []" "required_categories conflicts = [''semantic_conflict'']"
    by (simp add: semantic_merge_def merge_simps entity_conflict_def required_categories_def changed_keys_def PROTECTED_MERGE_KEYS_def)
  have snap: "sc_semantic_snapshot_json (sample_commit k ps es w) = sample_entities es" "sc_commit_id (sample_commit k ps es w) = k" for k ps es w
    by (simp_all add: sample_commit_def)
  have "ma_approved (sample_merge []) = []" by (simp add: sample_merge_def)
  with sm have m: "\<exists>out t. merge_branches hex_runtime ''k'' scene_catalog (\<lambda>_. []) (at_time 5) (sample_merge []) ?s = Inr (out, t)"
    by (simp add: merge_branches_def sample_merge_inputs snap Let_def sorted_set_def)
  then obtain out t where m: "merge_branches hex_runtime ''k'' scene_catalog (\<lambda>_. []) (at_time 5) (sample_merge []) ?s = Inr (out, t)" by blast
  have "if set (required_categories conflicts) \<subseteq> set (ma_approved (sample_merge []))
    then (\<exists>v. out = Merged v \<and> cv_semantic_snapshot v = sc_semantic_snapshot_json (sample_commit ''l'' [''b''] [(''x'', ''door'')] (Some ''w'')) \<and>
           cv_parent_ids v = [sb_head_commit_id (sample_branch ''main'' ''l''), sb_head_commit_id (sample_branch ''side'' ''r'')] \<and>
           scene_commits t \<noteq> scene_commits ?s)
    else t = ?s \<and> (\<exists>rep. out = ReviewRequired rep)"
    by (rule conflicting_merge_keeps_target [OF m, where b = "sample_commit ''b'' [] [(''x'', ''wall'')] None"
          and r = "sample_commit ''r'' [''b''] [(''x'', ''pipe'')] None" and merged = merged])
      (simp_all add: sample_merge_def snap sm(1,2))
  with m sm(3) show ?thesis by (simp add: sample_merge_def)
qed

lemma merge_payload_ok:
  assumes "length h = 64"
  shows "validate_payload rt [(''scene_id'', JStr ''s''), (''commit_id'', JStr ''id0''), (''parent_ids'', JArr [JStr ''l'', JStr ''r'']),
      (''snapshot_hash'', JStr h), (''merge_base'', JStr ''b''), (''conflict_count'', JInt 0)] = Inr ()"
proof (rule small_payload)
  have "int_repr 0 = ''0''" by code_simp
  with assms show "fields_bound rt [(''scene_id'', JStr ''s''), (''commit_id'', JStr ''id0''), (''parent_ids'', JArr [JStr ''l'', JStr ''r'']),
      (''snapshot_hash'', JStr h), (''merge_base'', JStr ''b''), (''conflict_count'', JInt 0)] \<le> 65534"
    by simp
  show "walk (JObj [(''scene_id'', JStr ''s''), (''commit_id'', JStr ''id0''), (''parent_ids'', JArr [JStr ''l'', JStr ''r'']),
      (''snapshot_hash'', JStr h), (''merge_base'', JStr ''b''), (''conflict_count'', JInt 0)]) [] = Inr ()"
    by code_simp
qed

lemma clean_merge_keeps_both_sides_witness:
  "\<exists>v t me. merge_branches hex_runtime ''k'' scene_catalog (\<lambda>_. []) (at_time 5) (sample_merge [])
     (sample_scenes [(''x'', ''door'')] [(''x'', ''wall''), (''z'', ''pipe'')]) = Inr (Merged v, t) \<and>
     entity_map (\<lambda>_. []) (cv_semantic_snapshot v) = Inr (me, False) \<and>
     jget me ''x'' = JObj [(''entity_id'', JStr ''x''), (''name'', JStr ''door'')] \<and>
     jget me ''z'' = JObj [(''entity_id'', JStr ''z''), (''name'', JStr ''pipe'')]"
proof -
  let ?ls = "[(''x'', ''door'')]" and ?rs = "[(''x'', ''wall''), (''z'', ''pipe'')]"
  let ?s = "sample_scenes ?ls ?rs" and ?a = "sample_merge []"
  obtain merged where sm: "semantic_merge hex_runtime (\<lambda>_. []) (sample_entities [(''x'', ''wall'')]) (sample_entities ?ls)
      (sample_entities ?rs) = Inr (merged, [])"
    by (simp add: semantic_merge_def merge_simps)
  have snap: "sc_semantic_snapshot_json (sample_commit k ps es w) = sample_entities es" "sc_commit_id (sample_commit k ps es w) = k" for k ps es w
    by (simp_all add: sample_commit_def)
  let ?row = "merge_commit hex_runtime (at_time 5) ?a ''l'' ''r'' merged []"
  let ?s1 = "set_head (sample_branch ''main'' ''l'') (ids (at_time 5) 0) (?s\<lparr>scene_commits := scene_commits ?s @ [?row]\<rparr>)"
  have id0: "ids (at_time 5) 0 = ''id0''" by code_simp
  have i: "insert_commit ?row ?s = Inr (?s\<lparr>scene_commits := scene_commits ?s @ [?row]\<rparr>)"
    by (auto simp: insert_commit_Inr id0 sample_scenes_def tkeys_def sample_commit_def same_workflow_event_def merge_commit_def Let_def)
  have h: "length (sc_snapshot_hash ?row) = 64" by (simp add: merge_commit_def Let_def length_hex_digest)
  have pay: "merge_payload ?a ?row [] = [(''scene_id'', JStr ''s''), (''commit_id'', JStr ''id0''),
      (''parent_ids'', JArr [JStr ''l'', JStr ''r'']), (''snapshot_hash'', JStr (sc_snapshot_hash ?row)),
      (''merge_base'', JStr ''b''), (''conflict_count'', JInt 0)]"
    by (simp add: merge_payload_def id0) (simp add: sample_merge_def)
  have o: "outbox_events ?s1 = []" "audit_events ?s1 = []" by (simp_all add: set_head_def sample_scenes_def empty_db_def)
  have p: "validate_payload hex_runtime (merge_payload ?a ?row []) = Inr ()"
    unfolding pay by (rule merge_payload_ok [OF h])
  obtain u t where "emit_event hex_runtime scene_catalog (ids (at_time 5) 1) (clk (at_time 5) 2)
       (scene_event (ma_tenant_id ?a) (ma_project_id ?a) (ids (at_time 5) 0) (merge_payload ?a ?row []) (ma_actor_id ?a) None) ?s1 = Inr u"
    and "append_audit hex_runtime ''k'' (ids (at_time 5) 2) (clk (at_time 5) 3)
       (audit_entry (ma_tenant_id ?a) (Some (ma_project_id ?a)) (ma_actor_id ?a) ''scene:merge'' ''scene_commit'' (ids (at_time 5) 0)
          ''allowed'' (merge_payload ?a ?row [])) u = Inr t"
    using recording_returns [OF o p] by blast
  then have pub: "publish_merge hex_runtime ''k'' scene_catalog (at_time 5) ?a (sample_branch ''main'' ''l'') ?row [] ?s
      = Inr (Merged (merge_view ?row), t)"
    unfolding publish_merge_def i bindE_simps by simp
  have "required_categories [] = []" by (simp add: required_categories_def sorted_set_def)
  with pub have m: "merge_branches hex_runtime ''k'' scene_catalog (\<lambda>_. []) (at_time 5) ?a ?s = Inr (Merged (merge_view ?row), t)"
    by (simp add: merge_branches_def sample_merge_inputs snap sm Let_def sorted_set_def)
  let ?ent = "\<lambda>k n. JObj [(''entity_id'', JStr k), (''name'', JStr n)]"
  have maps: "entity_map (\<lambda>_. []) (sample_entities [(''x'', ''wall'')]) = Inr ([(''x'', ?ent ''x'' ''wall'')], False)"
    "entity_map (\<lambda>_. []) (sample_entities ?ls) = Inr ([(''x'', ?ent ''x'' ''door'')], False)"
    "entity_map (\<lambda>_. []) (sample_entities ?rs) = Inr ([(''x'', ?ent ''x'' ''wall''), (''z'', ?ent ''z'' ''pipe'')], False)"
    by (simp_all add: merge_simps)
  let ?be = "[(''x'', ?ent ''x'' ''wall'')]" and ?le = "[(''x'', ?ent ''x'' ''door'')]"
    and ?re = "[(''x'', ?ent ''x'' ''wall''), (''z'', ?ent ''z'' ''pipe'')]"
  have "reaches ?s (sb_head_commit_id (sample_branch ''main'' ''l'')) (ma_base_commit_id ?a) \<and>
      reaches ?s (sb_head_commit_id (sample_branch ''side'' ''r'')) (ma_base_commit_id ?a) \<and>
    (\<exists>me. entity_map (\<lambda>_. []) (cv_semantic_snapshot (merge_view ?row)) = Inr (me, False) \<and>
      (\<forall>k. jget me k \<in> {jget ?le k, jget ?re k} \<and>
        (\<not> py_eq (jget ?le k) (jget ?be k) \<longrightarrow> jget me k = jget ?le k) \<and>
        (\<not> py_eq (jget ?re k) (jget ?be k) \<longrightarrow>
           jget me k = jget ?re k \<or> jget me k = jget ?le k \<and> py_eq (jget ?le k) (jget ?re k))))"
    by (rule clean_merge_keeps_both_sides [OF m, where b = "sample_commit ''b'' [] [(''x'', ''wall'')] None"
          and l = "sample_commit ''l'' [''b''] ?ls (Some ''w'')" and r = "sample_commit ''r'' [''b''] ?rs None"])
      (simp_all add: snap maps sample_merge_def merge_view_def merge_policy_checks_def jget_def)
  then obtain me where me: "entity_map (\<lambda>_. []) (cv_semantic_snapshot (merge_view ?row)) = Inr (me, False)"
    and l: "\<And>k. \<not> py_eq (jget ?le k) (jget ?be k) \<Longrightarrow> jget me k = jget ?le k"
    and r: "\<And>k. \<not> py_eq (jget ?re k) (jget ?be k) \<Longrightarrow> jget me k = jget ?re k \<or> jget me k = jget ?le k \<and> py_eq (jget ?le k) (jget ?re k)"
    by blast
  have "jget me ''x'' = ?ent ''x'' ''door''" using l [of "''x''"] by (simp add: jget_def)
  moreover have "jget me ''z'' = ?ent ''z'' ''pipe''" using r [of "''z''"] by (simp add: jget_def)
  ultimately show ?thesis using m me by blast
qed

lemma scene_payload_ok:
  assumes "length h = 64"
  shows "validate_payload rt [(''scene_id'', JStr ''id0''), (''branch'', JStr ''main''), (''snapshot_hash'', JStr h),
      (''parent_count'', JInt 0)] = Inr ()"
proof (rule small_payload)
  have "int_repr 0 = ''0''" by code_simp
  with assms show "fields_bound rt [(''scene_id'', JStr ''id0''), (''branch'', JStr ''main''), (''snapshot_hash'', JStr h),
      (''parent_count'', JInt 0)] \<le> 65534"
    by simp
  show "walk (JObj [(''scene_id'', JStr ''id0''), (''branch'', JStr ''main''), (''snapshot_hash'', JStr h),
      (''parent_count'', JInt 0)]) [] = Inr ()"
    by code_simp
qed

definition sample_site :: db where
  "sample_site = empty_db\<lparr>projects := [\<lparr>pr_project_id = ''p'', pr_tenant_id = ''t'', pr_name = ''Site'', pr_vertical = ''construction'', pr_classification = ''internal'',
     pr_status = ''active'', pr_created_at = 0\<rparr>]\<rparr>"

lemma sample_site_scene:
  "\<exists>x t. create_scene hex_runtime ''k'' scene_catalog (at_time 5) ''t'' ''p'' ''Site'' ''u'' sample_site = Inr (x, t) \<and>
     scene_branches t = [main_branch (at_time 5) ''t'' ''p'']"
proof -
  let ?row = "initial_commit hex_runtime (at_time 5) ''t'' ''p'' ''Site'' ''u''" and ?b = "main_branch (at_time 5) ''t'' ''p''"
  let ?s2 = "sample_site\<lparr>scene_commits := [?row], scene_branches := [?b]\<rparr>"
  have i: "insert_commit ?row sample_site = Inr (sample_site\<lparr>scene_commits := [?row]\<rparr>)"
    by (simp add: insert_commit_Inr sample_site_def empty_db_def tkeys_def)
  have b: "insert_branch ?b (sample_site\<lparr>scene_commits := [?row]\<rparr>) = Inr ?s2"
    by (simp add: insert_branch_Inr sample_site_def empty_db_def tkeys_def)
  have h: "length (sc_snapshot_hash ?row) = 64" by (simp add: initial_commit_def Let_def length_hex_digest)
  have id0: "ids (at_time 5) 0 = ''id0''" by code_simp
  have o: "outbox_events ?s2 = []" "audit_events ?s2 = []" by (simp_all add: sample_site_def empty_db_def)
  obtain u t where e: "emit_event hex_runtime scene_catalog (ids (at_time 5) 3) (clk (at_time 5) 2)
      (scene_event ''t'' ''p'' (ids (at_time 5) 1) [(''scene_id'', JStr (ids (at_time 5) 0)), (''branch'', JStr ''main''),
          (''snapshot_hash'', JStr (sc_snapshot_hash ?row)), (''parent_count'', JInt 0)] ''u'' None) ?s2 = Inr u"
    and a: "append_audit hex_runtime ''k'' (ids (at_time 5) 4) (clk (at_time 5) 3)
        (audit_entry ''t'' (Some ''p'') ''u'' ''scene:create'' ''scene'' (ids (at_time 5) 0) ''allowed''
           [(''commit_id'', JStr (ids (at_time 5) 1))]) u = Inr t"
    unfolding id0 using recording_returns [OF o scene_payload_ok [OF h]] by blast
  have "get_project sample_site ''p'' = Some \<lparr>pr_project_id = ''p'', pr_tenant_id = ''t'', pr_name = ''Site'',
      pr_vertical = ''construction'', pr_classification = ''internal'', pr_status = ''active'', pr_created_at = 0\<rparr>"
    by (simp add: get_project_def sample_site_def tget_Cons)
  with i b e a have "\<exists>x. create_scene hex_runtime ''k'' scene_catalog (at_time 5) ''t'' ''p'' ''Site'' ''u'' sample_site = Inr (x, t)"
    by (simp add: create_scene_def Let_def)
  moreover have "scene_branches t = [?b]" using recorded_frame [OF e a] by simp
  ultimately show ?thesis by blast
qed

lemma scene_graph_sound_witness:
  "\<exists>s b. s = run (scene_step hex_runtime ''k'' scene_catalog (\<lambda>_. []))
       [Elsewhere sample_site, CreateScene (at_time 5) ''t'' ''p'' ''Site'' ''u''] empty_db \<and> b \<in> set (scene_branches s) \<and>
     ancestor_ids s (sb_head_commit_id b) = Inr {p. reaches s (sb_head_commit_id b) p}"
proof -
  let ?s = "run (scene_step hex_runtime ''k'' scene_catalog (\<lambda>_. []))
       [Elsewhere sample_site, CreateScene (at_time 5) ''t'' ''p'' ''Site'' ''u''] empty_db"
  have "sample_site\<lparr>scene_commits := scene_commits empty_db, scene_branches := scene_branches empty_db, scene_tags := scene_tags empty_db\<rparr>
      = sample_site"
    by (simp add: sample_site_def empty_db_def)
  then have "main_branch (at_time 5) ''t'' ''p'' \<in> set (scene_branches ?s)"
    using sample_site_scene by (auto simp: settle_def)
  from scene_graph_sound [OF refl this] this show ?thesis by blast
qed

end
