(* ===== verification/Measurement_Evidence.thy ===== *)
theory Measurement_Evidence
  imports Measurements Scene_History
begin

text \<open>
  What measurements rest on. Recording refines an abstract machine on the table of measurements (a new
  row, or a new row that replaces a current one); its invariant says which rows may claim field
  verification and that every measurement is replaced at most once. A hit on an interaction proxy
  leads to a measurement only through metric evidence, and what was recorded reads back.
\<close>

section \<open>What a call records\<close>

lemma validate_measurement_Inr [result_simps]:
  "validate_measurement B c = Inr d \<longleftrightarrow> d = c \<and> contract_fields_ok c \<and>
     (\<forall>hit. mt_interaction_hit c = Some hit \<longrightarrow> validate_hit B hit = Inr () \<and> mt_originating_representation_id c \<noteq> None) \<and>
     (\<forall>ev. mt_resolved_metric_evidence c = Some ev \<longrightarrow> validate_evidence B ev = Inr ()) \<and>
     (mt_verification_status c = ''verified'' \<longrightarrow> truthy_str (mt_verifier_id c) \<and> mt_verification_date c \<noteq> None \<and>
        mt_authority_class c = Authority_FIELD_VERIFIED \<and> 0 < mt_uncertainty c)"
  by (auto simp: validate_measurement_def result_simps split: option.splits)

lemma ex_unit: "(\<exists>x :: unit. P x) \<longleftrightarrow> P ()"
  by auto

lemma supersede_Inr:
  assumes "supersede a s = Inr t"
  obtains (keep) "\<not> truthy_str (ms_supersedes_measurement_id a)" and "t = s"
  | (replace) k r where "ms_supersedes_measurement_id a = Some k" and "k \<noteq> []" and "get_measurement_row s k = Some r"
      and "me_tenant_id r = ms_tenant_id a" and "me_project_id r = ms_project_id a" and "me_scene_id r = ms_scene_id a"
      and "me_state r \<noteq> ''superseded''"
      and "t = s\<lparr>measurements := tput me_measurement_id (r\<lparr>me_state := ''superseded''\<rparr>) (measurements s)\<rparr>"
proof (cases "truthy_str (ms_supersedes_measurement_id a)")
  case True
  then obtain k where k: "ms_supersedes_measurement_id a = Some k" "k \<noteq> []"
    by (cases "ms_supersedes_measurement_id a") auto
  with assms obtain r where "get_measurement_row s k = Some r"
    by (cases "get_measurement_row s k") (auto simp: supersede_def Let_def str_or_def)
  with assms k show thesis
    by (intro replace [of k r]) (simp_all add: supersede_def Let_def str_or_def split: if_splits)
next
  case False
  with assms have "t = s" by (simp add: supersede_def)
  with False show thesis by (rule keep)
qed

lemma record_measurement_Inr:
  assumes "record_measurement rt key cat B E a c s = Inr (k, t)"
  obtains e au where "k = mt_measurement_id c" and "mt_measurement_id c \<notin> tkeys me_measurement_id (measurements s)"
    and "e_payload_json e = measurement_payload rt B c" and "e_aggregate_id e = mt_measurement_id c"
    and "t = s\<lparr>measurements := measurements s @ [new_measurement E a c], outbox_events := outbox_events s @ [e], audit_events := au\<rparr>"
proof -
  let ?s = "s\<lparr>measurements := measurements s @ [new_measurement E a c]\<rparr>" and ?p = "measurement_payload rt B c"
  from assms obtain s1 where
    k: "k = mt_measurement_id c" and f: "mt_measurement_id c \<notin> tkeys me_measurement_id (measurements s)"
    and e: "emit_event rt cat (ids E 1) (clk E 3) (measurement_event a (mt_measurement_id c) ?p) ?s = Inr s1"
    and u: "append_audit rt key (ids E 2) (clk E 4)
        (audit_entry (ms_tenant_id a) (Some (ms_project_id a)) (ms_actor_id a) ''measurement:record'' ''measurement''
           (mt_measurement_id c) ''allowed'' ?p) s1 = Inr t"
    unfolding record_measurement_def Let_def
    by (auto simp only: result_simps prod.inject sum.inject) (simp add: new_measurement_def)
  from emit_event_grows [OF e] obtain r where
    s1: "s1 = ?s\<lparr>outbox_events := outbox_events ?s @ [r]\<rparr>" and r: "e_payload_json r = ?p" "e_aggregate_id r = mt_measurement_id c"
    unfolding measurement_event_def by auto
  from append_audit_frame [OF u] s1 obtain au where
    "t = s\<lparr>measurements := measurements s @ [new_measurement E a c], outbox_events := outbox_events s @ [r], audit_events := au\<rparr>"
    by auto
  from that [OF k f r this] show thesis .
qed

lemma create_measurement_Inr:
  assumes "create_measurement rt key cat B E a s = Inr (k, t)"
  obtains commit_id hit ev s1 where "check_measurement_args a = Inr ()" and "source_commit a s = Inr commit_id"
    and "check_entity a s = Inr ()"
    and "check_frame (ms_tenant_id a) (ms_project_id a) (ms_coordinate_frame_id a) s = Inr ()"
    and "check_origin B a s = Inr (hit, ev)" and "check_sources a s = Inr ()" and "supersede a s = Inr s1"
    and "check_verification a = Inr ()"
    and "validate_measurement B (new_contract E a commit_id hit ev) = Inr (new_contract E a commit_id hit ev)"
    and "record_measurement rt key cat B E a (new_contract E a commit_id hit ev) s1 = Inr (k, t)"
proof -
  from assms obtain commit_id hit ev s1 c where 1: "check_measurement_args a = Inr ()" "source_commit a s = Inr commit_id"
    "check_entity a s = Inr ()" "check_frame (ms_tenant_id a) (ms_project_id a) (ms_coordinate_frame_id a) s = Inr ()"
    "check_origin B a s = Inr (hit, ev)" "check_sources a s = Inr ()" "supersede a s = Inr s1" "check_verification a = Inr ()"
    and c: "validate_measurement B (new_contract E a commit_id hit ev) = Inr c"
    and r: "record_measurement rt key cat B E a c s1 = Inr (k, t)"
    unfolding create_measurement_def by (simp only: bindE_Inr_conv split_paired_Ex ex_unit prod.case) blast
  from c have "c = new_contract E a commit_id hit ev" unfolding validate_measurement_Inr by blast
  with 1 c r that show thesis by blast
qed

section \<open>The measurements of a database\<close>

text \<open>What each row promises: a verified or field-verified measurement names a verifier other than its
  creator, a date, a calibration and an uncertainty; no row permits a forbidden use; a hit is stored
  together with the metric evidence it was resolved to, and never on a verified measurement.\<close>

definition measurement_ok :: "measurement_row \<Rightarrow> bool" where
  "measurement_ok r \<longleftrightarrow>
     me_authority_class r \<in> {''metric'', ''field_verified''} \<and>
     (me_state r = ''verified'' \<longrightarrow> me_authority_class r = ''field_verified'') \<and>
     (me_authority_class r = ''field_verified'' \<longrightarrow>
        (\<exists>v. me_verifier_id r = Some v \<and> v \<noteq> [] \<and> v \<noteq> me_created_by r) \<and> me_verified_at r \<noteq> None \<and>
        0 < me_uncertainty r \<and> me_interaction_hit_json r = None) \<and>
     (me_interaction_hit_json r = None \<longleftrightarrow> me_resolved_metric_evidence_json r = None) \<and>
     0 \<le> me_uncertainty r \<and> me_calibration_json r \<noteq> [] \<and> me_source_asset_ids_json r \<noteq> [] \<and>
     me_permitted_uses_json r \<noteq> [] \<and> set (me_permitted_uses_json r) \<inter> set forbidden_uses = {}"

text \<open>A measurement that another one replaces is superseded, is of the same scene, and is replaced
  once.\<close>

definition replaces :: "measurement_row list \<Rightarrow> measurement_row \<Rightarrow> string \<Rightarrow> bool" where
  "replaces rows r k \<longleftrightarrow> r \<in> set rows \<and> me_supersedes_measurement_id r = Some k \<and> k \<noteq> []"

definition same_scene :: "measurement_row \<Rightarrow> measurement_row \<Rightarrow> bool" where
  "same_scene q r \<longleftrightarrow> me_tenant_id q = me_tenant_id r \<and> me_project_id q = me_project_id r \<and> me_scene_id q = me_scene_id r"

definition measurements_wf :: "measurement_row list \<Rightarrow> bool" where
  "measurements_wf rows \<longleftrightarrow> distinct (map me_measurement_id rows) \<and> (\<forall>r\<in>set rows. measurement_ok r) \<and>
     (\<forall>r k. replaces rows r k \<longrightarrow> (\<exists>q. tget me_measurement_id rows k = Some q \<and> me_state q = ''superseded'' \<and> same_scene q r)) \<and>
     (\<forall>r r' k. replaces rows r k \<longrightarrow> replaces rows r' k \<longrightarrow> me_measurement_id r = me_measurement_id r')"

definition measurement_below :: "measurement_row \<Rightarrow> measurement_row \<Rightarrow> bool" where
  "measurement_below r r' \<longleftrightarrow> r' = r \<or> r' = r\<lparr>me_state := ''superseded''\<rparr>"

definition measurements_below :: "db \<Rightarrow> db \<Rightarrow> bool" where
  "measurements_below s t \<longleftrightarrow> kept (get_measurement_row s) (get_measurement_row t) measurement_below"

text \<open>The abstract machine: nothing, a new row, or a new row that replaces a current one.\<close>

inductive measurement_move :: "measurement_row list \<Rightarrow> measurement_row list \<Rightarrow> bool" where
  none: "measurement_move rows rows"
| add: "measurement_ok r \<Longrightarrow> me_measurement_id r \<notin> tkeys me_measurement_id rows \<Longrightarrow>
    \<not> truthy_str (me_supersedes_measurement_id r) \<Longrightarrow> measurement_move rows (rows @ [r])"
| replace: "measurement_ok r \<Longrightarrow> me_measurement_id r \<notin> tkeys me_measurement_id rows \<Longrightarrow>
    me_supersedes_measurement_id r = Some k \<Longrightarrow> k \<noteq> [] \<Longrightarrow> tget me_measurement_id rows k = Some q \<Longrightarrow>
    same_scene q r \<Longrightarrow> me_state q \<noteq> ''superseded'' \<Longrightarrow>
    measurement_move rows (tput me_measurement_id (q\<lparr>me_state := ''superseded''\<rparr>) rows @ [r])"

datatype measurement_call = Record env measurement_args | Other_Tables db

fun measurement_step ::
  "runtime \<Rightarrow> string \<Rightarrow> event_catalog \<Rightarrow> builtins \<Rightarrow> db \<Rightarrow> measurement_call \<Rightarrow> sip_error + db" where
  "measurement_step rt key cat B s (Record E a) = bindE (create_measurement rt key cat B E a s) (\<lambda>(_, t). Inr t)"
| "measurement_step rt key cat B s (Other_Tables d) = Inr (d\<lparr>measurements := measurements s\<rparr>)"

lemma check_origin_pair:
  assumes "check_origin B a s = Inr (hit, ev)"
  shows "(hit = None \<longleftrightarrow> ev = None) \<and> (hit \<noteq> None \<longrightarrow> \<not> ms_verified a)"
  using assms
  by (auto simp: check_origin_def resolve_origin_def Let_def result_simps split: option.splits if_splits sum.splits
      proxy_resolution.splits bool.splits)

lemma uses_permitted:
  assumes "check_measurement_args a = Inr ()"
  shows "set (effective_uses (ms_permitted_uses a)) \<inter> set forbidden_uses = {}"
  using assms by (auto simp: check_measurement_args_def Let_def filter_empty_conv result_simps split: if_splits)

lemma new_measurement_ok:
  assumes "check_measurement_args a = Inr ()" and "check_origin B a s = Inr (hit, ev)" and "check_verification a = Inr ()"
    and "validate_measurement B (new_contract E a commit_id hit ev) = Inr c"
  shows "measurement_ok (new_measurement E a c)"
proof -
  have c: "c = new_contract E a commit_id hit ev" and f: "contract_fields_ok c"
    and v: "mt_verification_status c = ''verified'' \<longrightarrow> truthy_str (mt_verifier_id c) \<and> mt_verification_date c \<noteq> None \<and>
        mt_authority_class c = Authority_FIELD_VERIFIED \<and> 0 < mt_uncertainty c"
    using assms(4) unfolding validate_measurement_Inr by blast+
  from assms(3) have w: "ms_verified a \<longrightarrow> ms_verifier_id a \<noteq> Some (ms_actor_id a)"
    by (simp add: check_verification_def split: if_splits)
  from check_origin_pair [OF assms(2)] uses_permitted [OF assms(1)] f v w show ?thesis
    by (cases "ms_verified a"; cases "ms_verifier_id a")
      (simp_all add: measurement_ok_def new_measurement_def c new_contract_def contract_fields_ok_def)
qed

lemma create_measurement_move:
  assumes "create_measurement rt key cat B E a s = Inr (k, t)"
  shows "measurement_move (measurements s) (measurements t)"
proof -
  from assms obtain commit_id hit ev s1 where ok: "check_measurement_args a = Inr ()" "check_origin B a s = Inr (hit, ev)"
      "check_verification a = Inr ()"
    and sup: "supersede a s = Inr s1"
    and v: "validate_measurement B (new_contract E a commit_id hit ev) = Inr (new_contract E a commit_id hit ev)"
    and rec: "record_measurement rt key cat B E a (new_contract E a commit_id hit ev) s1 = Inr (k, t)"
    by (rule create_measurement_Inr)
  let ?r = "new_measurement E a (new_contract E a commit_id hit ev)"
  have r: "measurement_ok ?r" by (rule new_measurement_ok [OF ok v])
  have f [simp]: "me_measurement_id ?r = mt_measurement_id (new_contract E a commit_id hit ev)"
      "me_supersedes_measurement_id ?r = ms_supersedes_measurement_id a" "me_tenant_id ?r = ms_tenant_id a"
      "me_project_id ?r = ms_project_id a" "me_scene_id ?r = ms_scene_id a"
    by (simp_all add: new_measurement_def new_contract_def)
  from rec have new: "me_measurement_id ?r \<notin> tkeys me_measurement_id (measurements s1)"
    and t: "measurements t = measurements s1 @ [?r]"
    by (auto elim!: record_measurement_Inr)
  from sup show ?thesis
  proof (cases rule: supersede_Inr)
    case keep
    with new show ?thesis unfolding t by (simp add: measurement_move.add [OF r])
  next
    case (replace k r)
    with new show ?thesis unfolding t
      by (simp add: measurement_move.replace [OF r] get_measurement_row_def same_scene_def)
  qed
qed

lemma measurement_step_refines:
  "measurement_step rt key cat B s e = Inr t \<Longrightarrow> measurement_move (measurements s) (measurements t)"
  by (cases e) (auto simp: bindE_Inr_conv intro: create_measurement_move measurement_move.none)

lemma measurement_ok_superseded: "measurement_ok r \<Longrightarrow> measurement_ok (r\<lparr>me_state := ''superseded''\<rparr>)"
  by (simp add: measurement_ok_def)

lemma measurement_add_wf:
  assumes "measurements_wf rows" and "measurement_ok r" and "me_measurement_id r \<notin> tkeys me_measurement_id rows"
    and "\<And>k. me_supersedes_measurement_id r = Some k \<Longrightarrow> k \<noteq> [] \<Longrightarrow>
      \<exists>q. tget me_measurement_id rows k = Some q \<and> me_state q = ''superseded'' \<and> same_scene q r \<and> (\<forall>r'. \<not> replaces rows r' k)"
  shows "measurements_wf (rows @ [r])"
proof -
  have rep: "replaces (rows @ [r]) x k \<longleftrightarrow> replaces rows x k \<or> x = r \<and> me_supersedes_measurement_id r = Some k \<and> k \<noteq> []" for x k
    by (auto simp: replaces_def)
  have get: "tget me_measurement_id (rows @ [r]) k = Some q" if "tget me_measurement_id rows k = Some q" for k q
    using that by (simp add: tget_append)
  show ?thesis
    unfolding measurements_wf_def
  proof (intro conjI allI impI)
    show "distinct (map me_measurement_id (rows @ [r]))"
      using assms(1,3) by (auto simp: measurements_wf_def tkeys_def)
    show "\<forall>r\<in>set (rows @ [r]). measurement_ok r" using assms(1,2) by (auto simp: measurements_wf_def)
  next
    fix x k assume "replaces (rows @ [r]) x k"
    then show "\<exists>q. tget me_measurement_id (rows @ [r]) k = Some q \<and> me_state q = ''superseded'' \<and> same_scene q x"
      using assms(1,4) get unfolding rep measurements_wf_def by blast
  next
    fix x y k assume "replaces (rows @ [r]) x k" "replaces (rows @ [r]) y k"
    then show "me_measurement_id x = me_measurement_id y"
      using assms(1,4) unfolding rep measurements_wf_def by blast
  qed
qed

lemma replaces_tput:
  assumes "tget me_measurement_id rows k = Some q"
  shows "replaces (tput me_measurement_id (q\<lparr>me_state := ''superseded''\<rparr>) rows) r j \<Longrightarrow>
    \<exists>r'. replaces rows r' j \<and> me_measurement_id r' = me_measurement_id r \<and> same_scene r' r"
  using tget_SomeD [OF assms] unfolding replaces_def
  by (auto dest!: set_tput_unique simp: same_scene_def)

lemma supersede_wf:
  assumes wf: "measurements_wf rows" and q: "tget me_measurement_id rows k = Some q"
  shows "measurements_wf (tput me_measurement_id (q\<lparr>me_state := ''superseded''\<rparr>) rows)" (is "measurements_wf ?rows")
  unfolding measurements_wf_def
proof (intro conjI allI impI ballI)
  show "distinct (map me_measurement_id ?rows)" using wf by (simp add: measurements_wf_def)
  fix r assume "r \<in> set ?rows"
  then show "measurement_ok r"
    using wf tget_SomeD [OF q] measurement_ok_superseded by (auto simp: measurements_wf_def dest!: set_tput_unique)
next
  fix r j assume "replaces ?rows r j"
  then obtain r' where r': "replaces rows r' j" "same_scene r' r" using replaces_tput [OF q] by blast
  then obtain x where x: "tget me_measurement_id rows j = Some x" "me_state x = ''superseded''" "same_scene x r'"
    using wf unfolding measurements_wf_def by blast
  have k: "me_measurement_id q = k" using tget_SomeD [OF q] by simp
  show "\<exists>y. tget me_measurement_id ?rows j = Some y \<and> me_state y = ''superseded'' \<and> same_scene y r"
  proof (cases "j = k")
    case True
    then have "tget me_measurement_id ?rows j = Some (q\<lparr>me_state := ''superseded''\<rparr>)" using q k by (intro tget_tput_same) auto
    with True x q r'(2) show ?thesis by (simp add: same_scene_def)
  next
    case False
    then have "tget me_measurement_id ?rows j = Some x" using x k by (simp add: tget_tput_other)
    with x r'(2) show ?thesis by (simp add: same_scene_def)
  qed
next
  fix r r' j assume "replaces ?rows r j" "replaces ?rows r' j"
  then show "me_measurement_id r = me_measurement_id r'"
    using wf replaces_tput [OF q] unfolding measurements_wf_def by metis
qed

lemma measurement_move_wf:
  assumes "measurement_move rows rows'" and "measurements_wf rows"
  shows "measurements_wf rows'"
  using assms
proof (cases rule: measurement_move.cases)
  case (add r)
  show ?thesis unfolding add(1)
    by (rule measurement_add_wf [OF assms(2) add(2,3)]) (use add(4) in simp)
next
  case (replace r k q)
  let ?rows = "tput me_measurement_id (q\<lparr>me_state := ''superseded''\<rparr>) rows"
  have k: "me_measurement_id q = k" using tget_SomeD [OF replace(6)] by simp
  have fresh: "\<not> replaces ?rows r' k" for r'
  proof
    assume "replaces ?rows r' k"
    then obtain x where "replaces rows x k" using replaces_tput [OF replace(6)] by blast
    then obtain y where "tget me_measurement_id rows k = Some y" "me_state y = ''superseded''"
      using assms(2) unfolding measurements_wf_def by blast
    with replace(6,8) show False by simp
  qed
  have "tget me_measurement_id ?rows k = Some (q\<lparr>me_state := ''superseded''\<rparr>)"
    using replace(6) k by (intro tget_tput_same) auto
  then show ?thesis
    unfolding replace(1) using replace fresh
    by (intro measurement_add_wf [OF supersede_wf [OF assms(2) replace(6)]]) (auto simp: same_scene_def)
qed simp

lemma measurement_below_refl: "measurement_below r r"
  by (simp add: measurement_below_def)

lemma measurement_below_trans: "measurement_below a b \<Longrightarrow> measurement_below b c \<Longrightarrow> measurement_below a c"
  by (auto simp: measurement_below_def)

lemma measurement_move_below:
  assumes "measurement_move rows rows'"
  shows "kept (tget me_measurement_id rows) (tget me_measurement_id rows') measurement_below"
  using assms
proof (cases rule: measurement_move.cases)
  case none
  then show ?thesis by (simp add: kept_refl measurement_below_refl)
next
  case (add r)
  then show ?thesis by (simp add: kept_insert tget_None_iff measurement_below_refl)
next
  case (replace r k q)
  have "kept (tget me_measurement_id rows)
      (tget me_measurement_id (tput me_measurement_id (q\<lparr>me_state := ''superseded''\<rparr>) rows)) measurement_below"
    using replace(6) tget_SomeD [OF replace(6)]
    by (intro kept_tput [where old = q]) (simp_all add: measurement_below_def)
  moreover have "tget me_measurement_id (tput me_measurement_id (q\<lparr>me_state := ''superseded''\<rparr>) rows) (me_measurement_id r) = None"
    using replace(3) by (simp add: tget_None_iff)
  ultimately show ?thesis unfolding replace(1)
    by (rule kept_trans [OF _ kept_insert]) (auto intro: measurement_below_refl measurement_below_trans)
qed

interpretation measuring: monotone_component "measurement_step rt key cat B" "\<lambda>s. measurements_wf (measurements s)" measurements_below
  for rt key cat B
proof
  fix s t u e
  show "measurements_below s s" by (simp add: measurements_below_def kept_refl measurement_below_refl)
  show "measurements_below s u" if "measurements_below s t" "measurements_below t u"
    using that unfolding measurements_below_def by (rule kept_trans) (rule measurement_below_trans)
  assume st: "measurement_step rt key cat B s e = Inr t"
  show "measurements_below s t"
    using measurement_move_below [OF measurement_step_refines [OF st]] by (simp add: measurements_below_def get_measurement_row_def [abs_def])
  show "measurements_wf (measurements t)" if "measurements_wf (measurements s)"
    using measurement_move_wf [OF measurement_step_refines [OF st] that] .
qed

section \<open>Authority and supersession\<close>

text \<open>
  C10. Over any calls, every measurement that claims field verification has an uncertainty, a
  verification date and a named verifier other than its creator, and does not come from a proxy hit;
  a measurement in the state verified has that authority; and no measurement permits survey,
  fabrication, contract or certification use.
\<close>

theorem measurement_authority_sound:
  assumes "measurements_wf (measurements s)"
    and "r \<in> set (measurements (run (measurement_step rt key cat B) calls s))"
  shows "(me_state r = ''verified'' \<longrightarrow> me_authority_class r = ''field_verified'') \<and>
    (me_authority_class r = ''field_verified'' \<longrightarrow>
       (\<exists>v. me_verifier_id r = Some v \<and> v \<noteq> me_created_by r) \<and> me_verified_at r \<noteq> None \<and> 0 < me_uncertainty r \<and>
       me_interaction_hit_json r = None) \<and>
    set (me_permitted_uses_json r) \<inter> set forbidden_uses = {}"
  using measuring.run_inv [of s rt key cat B calls] assms unfolding measurements_wf_def measurement_ok_def by blast

text \<open>
  C18. Over any calls, a recorded measurement never changes except that it becomes superseded, which
  is final, and at most one measurement ever replaces it, in the same tenant, project and scene.
\<close>

theorem supersession_is_linear:
  assumes wf: "measurements_wf (measurements s)" and r: "get_measurement_row s k = Some r" and k: "k \<noteq> []"
    and t: "t = run (measurement_step rt key cat B) calls s"
  shows "(\<exists>r'. get_measurement_row t k = Some r' \<and> (r' = r \<or> r' = r\<lparr>me_state := ''superseded''\<rparr>) \<and>
      (\<forall>n\<in>set (measurements t). me_supersedes_measurement_id n = Some k \<longrightarrow> me_state r' = ''superseded'' \<and>
         me_tenant_id n = me_tenant_id r \<and> me_project_id n = me_project_id r \<and> me_scene_id n = me_scene_id r)) \<and>
    card {n \<in> set (measurements t). me_supersedes_measurement_id n = Some k} \<le> 1"
proof -
  have wf': "measurements_wf (measurements t)" unfolding t by (rule measuring.run_inv [OF wf])
  have "measurements_below s t" unfolding t by (rule measuring.run_below [OF wf])
  with r obtain r' where r': "get_measurement_row t k = Some r'" "r' = r \<or> r' = r\<lparr>me_state := ''superseded''\<rparr>"
    unfolding measurements_below_def kept_def measurement_below_def by blast
  have rep: "replaces (measurements t) n k \<longleftrightarrow> n \<in> set (measurements t) \<and> me_supersedes_measurement_id n = Some k" for n
    using k by (simp add: replaces_def)
  have "me_state r' = ''superseded'' \<and> same_scene r' n" if n: "replaces (measurements t) n k" for n
  proof -
    obtain q where "get_measurement_row t k = Some q" "me_state q = ''superseded''" "same_scene q n"
      using n wf' unfolding measurements_wf_def get_measurement_row_def by blast
    with r'(1) show ?thesis by simp
  qed
  moreover have "same_scene r' n \<longleftrightarrow> same_scene r n" for n using r'(2) by (auto simp: same_scene_def)
  moreover have "n = m" if "replaces (measurements t) n k" "replaces (measurements t) m k" for n m
  proof -
    have "me_measurement_id n = me_measurement_id m" and "inj_on me_measurement_id (set (measurements t))"
      using that wf' unfolding measurements_wf_def by (blast, simp add: distinct_map)
    with that show ?thesis unfolding rep by (blast dest: inj_onD)
  qed
  then have "card {n \<in> set (measurements t). me_supersedes_measurement_id n = Some k} \<le> 1"
    using card_le_Suc0_iff_eq [of "{n \<in> set (measurements t). me_supersedes_measurement_id n = Some k}"]
    unfolding rep by simp
  ultimately show ?thesis using r' unfolding rep same_scene_def by (intro conjI exI [of _ r']) simp_all
qed

section \<open>Reading a measurement back\<close>

lemma authority_class_round_trip: "authority_class_of (authority_class_value x) = Inr x"
  by (cases x) (simp_all add: authority_class_of_def authority_classes_def)

lemma row_contract_new:
  "mt_coordinate_frame_id c \<noteq> [] \<Longrightarrow> mt_permitted_uses c \<noteq> [] \<Longrightarrow>
     row_contract (new_measurement E a c) (mt_source_commit_id c) (mt_authority_class c) = c"
  by (simp add: row_contract_def new_measurement_def str_or_def)

lemma source_commit_Inr:
  assumes "source_commit a s = Inr k"
  shows "str_or (Some k) (case find_branch (ms_tenant_id a) (ms_project_id a) (ms_scene_id a) ''main'' s of
      None \<Rightarrow> ''unknown'' | Some b \<Rightarrow> sb_head_commit_id b) = k"
  using assms by (auto simp: source_commit_def Let_def str_or_def split: option.splits if_splits)

lemma recorded_row:
  assumes "record_measurement rt key cat B E a c s = Inr (k, t)"
  shows "k = mt_measurement_id c \<and> get_measurement_row t k = Some (new_measurement E a c) \<and> scene_branches t = scene_branches s"
  using assms
proof (rule record_measurement_Inr)
  fix e :: outbox_event_row and au
  assume "k = mt_measurement_id c" and f: "mt_measurement_id c \<notin> tkeys me_measurement_id (measurements s)"
    and "t = s\<lparr>measurements := measurements s @ [new_measurement E a c], outbox_events := outbox_events s @ [e], audit_events := au\<rparr>"
  moreover have "me_measurement_id (new_measurement E a c) = mt_measurement_id c" by (simp add: new_measurement_def)
  moreover have "tget me_measurement_id (measurements s) (mt_measurement_id c) = None" using f by (simp add: tget_None_iff)
  ultimately show ?thesis by (simp add: get_measurement_row_def tget_append tget_Cons)
qed

lemma supersede_branches: "supersede a s = Inr t \<Longrightarrow> scene_branches t = scene_branches s"
  by (erule supersede_Inr) simp_all

text \<open>
  A measurement that was recorded can be read at once, and the contract read is the one the
  caller asked for: the value, unit, uncertainty, geometry, sources, calibration, uses, creator and
  verifier of the call, with the verification that was granted.
\<close>

lemma measurement_reads_back:
  assumes cr: "create_measurement rt key cat B E a s = Inr (k, t)" and frame: "ms_coordinate_frame_id a \<noteq> []"
  shows "\<exists>c. get_measurement B (ms_tenant_id a) (ms_project_id a) (ms_scene_id a) k t = Inr (c, t) \<and>
    mt_measurement_id c = k \<and> mt_value c = ms_value a \<and> mt_unit c = ms_unit a \<and> Finite (mt_uncertainty c) = ms_uncertainty a \<and>
    Some (mt_geometry c) = ms_geometry a \<and> mt_coordinate_frame_id c = ms_coordinate_frame_id a \<and>
    mt_source_asset_ids c = ms_source_asset_ids a \<and> mt_calibration c = ms_calibration a \<and>
    mt_permitted_uses c = effective_uses (ms_permitted_uses a) \<and> mt_creator_id c = ms_actor_id a \<and>
    mt_verifier_id c = ms_verifier_id a \<and> mt_supersedes_measurement_id c = ms_supersedes_measurement_id a \<and>
    mt_verification_status c = (if ms_verified a then ''verified'' else ms_state a) \<and>
    mt_authority_class c = (if ms_verified a then Authority_FIELD_VERIFIED else Authority_METRIC)"
proof -
  from cr obtain commit_id hit ev s1 where ar: "check_measurement_args a = Inr ()" and sc: "source_commit a s = Inr commit_id"
    and sup: "supersede a s = Inr s1"
    and v: "validate_measurement B (new_contract E a commit_id hit ev) = Inr (new_contract E a commit_id hit ev)"
    and rec: "record_measurement rt key cat B E a (new_contract E a commit_id hit ev) s1 = Inr (k, t)"
    by (rule create_measurement_Inr)
  let ?c = "new_contract E a commit_id hit ev"
  have c: "mt_coordinate_frame_id ?c \<noteq> []" "mt_permitted_uses ?c \<noteq> []" "mt_source_commit_id ?c = commit_id"
    using v frame unfolding validate_measurement_Inr contract_fields_ok_def by (simp_all add: new_contract_def)
  note row = recorded_row [OF rec] supersede_branches [OF sup]
  have f: "me_source_commit_id (new_measurement E a ?c) = Some commit_id"
      "me_authority_class (new_measurement E a ?c) = authority_class_value (mt_authority_class ?c)"
      "me_tenant_id (new_measurement E a ?c) = ms_tenant_id a" "me_project_id (new_measurement E a ?c) = ms_project_id a"
      "me_scene_id (new_measurement E a ?c) = ms_scene_id a"
    by (simp_all add: new_measurement_def new_contract_def)
  have "find_branch (ms_tenant_id a) (ms_project_id a) (ms_scene_id a) ''main'' t
      = find_branch (ms_tenant_id a) (ms_project_id a) (ms_scene_id a) ''main'' s"
    using row by (simp add: find_branch_def)
  then have "get_measurement B (ms_tenant_id a) (ms_project_id a) (ms_scene_id a) k t = Inr (?c, t)"
    using row(1) [THEN conjunct2, THEN conjunct1] source_commit_Inr [OF sc] row_contract_new [OF c(1,2)] v c(3)
    by (simp add: get_measurement_def f authority_class_round_trip)
  moreover have "mt_measurement_id ?c = k" using row by simp
  moreover have "is_finite (ms_uncertainty a)" "ms_geometry a \<noteq> None"
    using ar by (auto simp: check_measurement_args_def split: if_splits option.splits)
  ultimately show ?thesis
    by (intro exI [of _ ?c]) (auto simp: new_contract_def is_finite_def rat_of_def split: py_float.splits)
qed

section \<open>Proxy hits\<close>

lemma candidate_assets_Inr:
  "candidate_assets metric = Inr names \<Longrightarrow> re_asset_id metric \<in> set names"
  by (auto simp: candidate_assets_def result_simps)

lemma supporting_metric_Inr:
  assumes "supporting_metric B proxy s = Inr (Some metric)"
  shows "get_representation s (re_representation_id metric) = Some metric"
proof -
  from assms obtain k where "get_representation s k = Some metric"
    by (auto simp: supporting_metric_def Let_def result_simps split: if_splits)
  then show ?thesis unfolding get_representation_def using tget_SomeD by fastforce
qed

text \<open>What a hit that may carry a measurement rests on.\<close>

definition supported ::
  "builtins \<Rightarrow> string \<Rightarrow> string \<Rightarrow> representation_row \<Rightarrow> py_float \<Rightarrow> metric_evidence \<Rightarrow> representation_row \<Rightarrow> db \<Rightarrow> bool" where
  "supported B tenant project proxy tolerance ev metric s \<longleftrightarrow>
     re_tenant_id proxy = tenant \<and> re_project_id proxy = project \<and> re_kind proxy = ''interaction'' \<and>
     re_state proxy = ''published'' \<and> re_deprecated_at proxy = None \<and>
     get_representation s (re_representation_id metric) = Some metric \<and> metric_eligible tenant project proxy metric \<and>
     support_residual B proxy = Finite (mv_residual ev) \<and> tolerance = Finite (mv_threshold ev) \<and>
     0 \<le> mv_residual ev \<and> mv_residual ev \<le> mv_threshold ev \<and>
     mv_metric_representation_id ev = re_representation_id metric \<and>
     (\<forall>k\<in>set (mv_source_asset_ids ev). \<exists>r\<in>set (asset_refs s). r_asset_id r = k \<and> r_tenant_id r = tenant \<and>
        r_project_id r = project \<and> r_tombstoned_at r = None) \<and>
     re_asset_id metric \<in> set (mv_source_asset_ids ev)"

lemma reproject_allowed:
  assumes "reproject B tenant project hit q proxy metric s = Inr (Reprojected p h ev True)"
  shows "support_residual B proxy = Finite (mv_residual ev) \<and> mv_threshold ev = q \<and> 0 \<le> mv_residual ev \<and> mv_residual ev \<le> q \<and>
     mv_metric_representation_id ev = re_representation_id metric \<and>
     (\<forall>k\<in>set (mv_source_asset_ids ev). \<exists>r\<in>set (asset_refs s). r_asset_id r = k \<and> r_tenant_id r = tenant \<and>
        r_project_id r = project \<and> r_tombstoned_at r = None) \<and>
     re_asset_id metric \<in> set (mv_source_asset_ids ev)"
proof (cases "support_residual B proxy")
  case (Finite residual)
  with assms obtain names where "candidate_assets metric = Inr names" "\<not> residual < 0" "residual \<le> q"
    and ev: "ev = \<lparr>mv_metric_representation_id = re_representation_id metric,
        mv_source_asset_ids = sorted_set (map r_asset_id (live_assets tenant project (set names) s)),
        mv_residual = residual, mv_threshold = q, mv_coordinate_frame_id = re_coordinate_frame_id metric\<rparr>"
    and "re_asset_id metric \<in> set (sorted_set (map r_asset_id (live_assets tenant project (set names) s)))"
    by (auto simp: reproject_def Let_def result_simps split: if_splits)
  with Finite show ?thesis by (auto simp: live_assets_def)
qed (use assms in \<open>simp_all add: reproject_def\<close>)

lemma resolve_allowed:
  assumes "resolve_in_session B tenant project hit tolerance s = Inr (Reprojected p h ev True)"
    and "get_representation s (ph_representation_id hit) = Some proxy"
  shows "\<exists>metric. supported B tenant project proxy tolerance ev metric s"
proof -
  from assms obtain metric where m: "supporting_metric B proxy s = Inr (Some metric)"
      "metric_eligible tenant project proxy metric"
    and p: "re_tenant_id proxy = tenant" "re_project_id proxy = project" "re_kind proxy = ''interaction''"
      "re_state proxy = ''published''" "re_deprecated_at proxy = None" "is_finite tolerance"
    and r: "reproject B tenant project hit (rat_of tolerance) proxy metric s = Inr (Reprojected p h ev True)"
    by (auto simp: resolve_in_session_def result_simps split: if_splits option.splits)
  from p(6) have t: "tolerance = Finite (rat_of tolerance)" by (simp add: is_finite_def rat_of_def split: py_float.splits)
  from reproject_allowed [OF r] supporting_metric_Inr [OF m(1)] m(2) p t have "supported B tenant project proxy tolerance ev metric s"
    unfolding supported_def by simp
  then show ?thesis ..
qed

lemma parse_hit_id: "parse_hit B origin hit = Inr h \<Longrightarrow> ph_representation_id h = origin"
  by (auto simp: parse_hit_def result_simps split: option.splits)

lemma resolve_origin_Inr:
  assumes "resolve_origin B a origin s = Inr (hit, ev)" and "get_representation s origin = Some proxy"
  shows "\<exists>metric m h. supported B (ms_tenant_id a) (ms_project_id a) proxy (ms_proxy_tolerance_m a) m metric s \<and>
    set (mv_source_asset_ids m) \<subseteq> set (ms_source_asset_ids a) \<and> hit = Some h \<and> ev = Some (evidence_fields m) \<and> \<not> ms_verified a"
proof -
  from assms(1) obtain i h p r m where "parse_hit B origin i = Inr h"
    and res: "resolve_in_session B (ms_tenant_id a) (ms_project_id a) h (ms_proxy_tolerance_m a) s = Inr (Reprojected p r m True)"
    and rest: "set (mv_source_asset_ids m) \<subseteq> set (ms_source_asset_ids a)" "hit = Some r" "ev = Some (evidence_fields m)"
      "\<not> ms_verified a"
    by (auto simp: resolve_origin_def result_simps split: if_splits option.splits sum.splits proxy_resolution.splits bool.splits)
  then have "ph_representation_id h = origin" by (simp add: parse_hit_id)
  with resolve_allowed [OF res] assms(2) rest show ?thesis by blast
qed

text \<open>
  C17. A measurement taken on an interaction representation is recorded only as a metric candidate and
  only if the hit was resolved again to metric evidence: a published representation of the same scene
  and frame that is approved for measurement, with a residual within the tolerance, whose live assets
  are all among the sources of the measurement. The row names that evidence.
\<close>

theorem interaction_measurement_grounded:
  assumes "create_measurement rt key cat B E a s = Inr (k, t)" and "ms_originating_representation_id a = Some origin"
    and "origin \<noteq> []" and "get_representation s origin = Some proxy" and "re_kind proxy = ''interaction''"
  shows "\<exists>metric m row. supported B (ms_tenant_id a) (ms_project_id a) proxy (ms_proxy_tolerance_m a) m metric s \<and>
    set (mv_source_asset_ids m) \<subseteq> set (ms_source_asset_ids a) \<and> get_measurement_row t k = Some row \<and>
    me_resolved_metric_evidence_json row = Some (evidence_fields m) \<and> me_authority_class row = ''metric'' \<and>
    me_state row \<noteq> ''verified''"
proof -
  from assms(1) obtain commit_id hit ev s1 where o: "check_origin B a s = Inr (hit, ev)"
    and v: "validate_measurement B (new_contract E a commit_id hit ev) = Inr (new_contract E a commit_id hit ev)"
    and rec: "record_measurement rt key cat B E a (new_contract E a commit_id hit ev) s1 = Inr (k, t)"
    by (rule create_measurement_Inr)
  from o assms(2-5) have "resolve_origin B a origin s = Inr (hit, ev)"
    by (simp add: check_origin_def Let_def str_or_def split: if_splits)
  from resolve_origin_Inr [OF this assms(4)] obtain metric m h where
    m: "supported B (ms_tenant_id a) (ms_project_id a) proxy (ms_proxy_tolerance_m a) m metric s"
      "set (mv_source_asset_ids m) \<subseteq> set (ms_source_asset_ids a)" and ev: "ev = Some (evidence_fields m)" and nv: "\<not> ms_verified a"
    by blast
  let ?row = "new_measurement E a (new_contract E a commit_id hit ev)"
  have "mt_authority_class (new_contract E a commit_id hit ev) = Authority_METRIC" using nv by (simp add: new_contract_def)
  then have "mt_verification_status (new_contract E a commit_id hit ev) \<noteq> ''verified''"
    using v unfolding validate_measurement_Inr by auto
  then have "me_resolved_metric_evidence_json ?row = Some (evidence_fields m)"
      "me_authority_class ?row = ''metric''" "me_state ?row \<noteq> ''verified''"
    using nv ev by (simp_all add: new_measurement_def) (simp_all add: new_contract_def)
  with m recorded_row [OF rec] show ?thesis by blast
qed

section \<open>Instances\<close>

definition measurement_catalog :: event_catalog where
  "measurement_catalog = [\<lparr>ec_type = ''measurement.recorded'', ec_version = ''1.0.0'', ec_aggregate = ''measurement'',
     ec_owner = ''scene-service'', ec_classification = ''inherits_project''\<rparr>]"

definition sample_builtins :: builtins where
  "sample_builtins = \<lparr>bt_str = (\<lambda>_. []), bt_float_of_text = (\<lambda>_. None), bt_dict_of_list = (\<lambda>_. None),
     bt_bind_key = (\<lambda>_. Inl (Uncaught ''TypeError'')), bt_model_dump = (\<lambda>c. JStr (mt_measurement_id c))\<rparr>"

definition sample_frame :: coordinate_frame_row where
  "sample_frame = \<lparr>cf_frame_id = ''f'', cf_tenant_id = ''other'', cf_project_id = ''p'', cf_name = ''site'', cf_parent_frame_id = None,
     cf_semantic_type = ''local_cartesian'', cf_convention = ''right_handed_z_up_meters'', cf_units = ''meter'',
     cf_unit_scale_to_meters = 1, cf_original_units = ''meter'', cf_original_unit_scale_to_meters = 1,
     cf_axis_convention = ''right_handed_z_up'', cf_axis_directions_json = [], cf_handedness = ''right'',
     cf_origin_description = ''origin'', cf_gravity_alignment = None, cf_source = ''platform'', cf_crs_identifier = None,
     cf_vertical_datum = None, cf_geodetic_json = None, cf_metadata_json = [], cf_transform_json = None,
     cf_uncertainty_m = None, cf_supersedes_frame_id = None, cf_deprecated_at = None, cf_created_at = 1\<rparr>"

definition sample_scan :: asset_ref_row where
  "sample_scan = \<lparr>r_asset_id = ''scan'', r_tenant_id = ''other'', r_project_id = ''p'', r_sha256 = [], r_original_name = ''scan.e57'',
     r_classification = ''internal'', r_retention_class = ''standard'', r_source_class = ''direct_capture'',
     r_authority_class = ''evidence'', r_provenance_json = [], r_legal_hold = False, r_created_by = ''u'',
     r_created_at = 1, r_tombstoned_at = None\<rparr>"

definition sample_representation :: "string \<Rightarrow> string \<Rightarrow> string \<Rightarrow> fields \<Rightarrow> representation_row" where
  "sample_representation k kind authority support = \<lparr>re_representation_id = k, re_tenant_id = ''other'', re_project_id = ''p'',
     re_scene_id = ''s'', re_asset_id = ''scan'', re_operation_id = None, re_kind = kind, re_provider_id = ''local'',
     re_coordinate_frame_id = ''f'', re_source_class = ''measured'', re_authority_class = authority,
     re_authority_ceiling = authority, re_disposable = True, re_lossy = False, re_intended_uses_json = [''measurement''],
     re_prohibited_uses_json = [], re_quality_json = [], re_provenance_json = [], re_support_map_json = support,
     re_format_json = [], re_derivation_policy_json = [], re_limitations_json = [], re_information_loss_json = [],
     re_privacy_inheritance_json = [], re_dependencies_json = [], re_fallback_representation_id = None,
     re_manifest_hash = None, re_metadata_json = [], re_deprecated_at = None, re_state = ''published'', re_created_at = 1\<rparr>"

definition sample_survey :: db where
  "sample_survey = (sample_scenes [] [])\<lparr>coordinate_frames := [sample_frame], asset_refs := [sample_scan],
     representations := [sample_representation ''cloud'' ''metric'' ''metric'' [],
       sample_representation ''proxy'' ''interaction'' ''derived_non_authoritative''
         [(''metric_representation_id'', JStr ''cloud''), (''max_reprojection_error_m'', JFloat (1 / 100))]]\<rparr>"

definition sample_measurement :: "bool \<Rightarrow> measurement_args" where
  "sample_measurement on_proxy = \<lparr>ms_tenant_id = ''other'', ms_project_id = ''p'', ms_scene_id = ''s'', ms_entity_id = None,
     ms_value = 2, ms_unit = ''m'', ms_uncertainty = Finite (1 / 10), ms_source_asset_ids = [''scan''],
     ms_calibration = [(''device'', JStr ''tape'')], ms_verifier_id = (if on_proxy then None else Some ''w''),
     ms_verified = (\<not> on_proxy), ms_actor_id = ''u'', ms_originating_representation_id = (if on_proxy then Some ''proxy'' else None),
     ms_interaction_hit = (if on_proxy then Some [(''representation_id'', JStr ''proxy''), (''world_point'', JArr [JInt 1, JInt 2, JInt 3])]
       else None),
     ms_measurement_type = ''distance'', ms_geometry = Some [(''length'', JInt 2)], ms_source_method = ''direct'',
     ms_measured_at = None, ms_coordinate_frame_id = ''f'', ms_source_commit_id = None, ms_permitted_uses = None,
     ms_state = ''measured'', ms_supersedes_measurement_id = None, ms_proxy_tolerance_m = Finite (3 / 100)\<rparr>"

lemma sample_survey_fields [simp]:
  "measurements sample_survey = []" "outbox_events sample_survey = []" "audit_events sample_survey = []"
  "construction_records sample_survey = []" "get_commit sample_survey k = get_commit (sample_scenes [] []) k"
  "find_branch tenant project scene name sample_survey = find_branch tenant project scene name (sample_scenes [] [])"
  "get_representation sample_survey ''proxy'' = Some (sample_representation ''proxy'' ''interaction'' ''derived_non_authoritative''
     [(''metric_representation_id'', JStr ''cloud''), (''max_reprojection_error_m'', JFloat (1 / 100))])"
  "get_representation sample_survey ''cloud'' = Some (sample_representation ''cloud'' ''metric'' ''metric'' [])"
  by (simp_all add: sample_survey_def sample_scenes_def empty_db_def get_commit_def find_branch_def get_representation_def
      tget_Cons sample_representation_def)

definition sample_evidence :: metric_evidence where
  "sample_evidence = \<lparr>mv_metric_representation_id = ''cloud'', mv_source_asset_ids = [''scan''], mv_residual = 1 / 100,
     mv_threshold = 3 / 100, mv_coordinate_frame_id = ''f''\<rparr>"

definition sample_hit :: "fields" where
  "sample_hit = [(''representation_id'', JStr ''proxy''), (''representation_kind'', JStr ''interaction''),
     (''world_point'', JArr [JFloat 1, JFloat 2, JFloat 3]), (''normal'', JNull), (''support_hint'', JObj [])]"

lemma sample_live [simp]: "live_assets ''other'' ''p'' {''scan''} sample_survey = [sample_scan]"
  by (simp add: live_assets_def sample_survey_def) (simp add: sample_scan_def)

lemma sample_hit_resolves: "resolve_in_session sample_builtins ''other'' ''p''
    \<lparr>ph_representation_id = ''proxy'', ph_world_point = [Finite 1, Finite 2, Finite 3], ph_normal = None, ph_support_hint = []\<rparr>
    (Finite (3 / 100)) sample_survey = Inr (Reprojected ''proxy'' sample_hit sample_evidence True)"
proof -
  have "r_asset_id sample_scan = ''scan''" by (simp add: sample_scan_def)
  then show ?thesis
    by (simp add: resolve_in_session_def is_finite_def rat_of_def three_finite_def supporting_metric_def jget_def metric_eligible_def
        sample_representation_def reproject_def support_residual_def to_float_def candidate_assets_def sorted_set_def
        interaction_record_def coordinates_def sample_hit_def sample_evidence_def Let_def)
qed

lemma sample_origin:
  "check_origin sample_builtins (sample_measurement b) sample_survey
     = Inr (if b then (Some sample_hit, Some (evidence_fields sample_evidence)) else (None, None))"
proof -
  have "parse_hit sample_builtins ''proxy'' [(''representation_id'', JStr ''proxy''), (''world_point'', JArr [JInt 1, JInt 2, JInt 3])]
      = Inr \<lparr>ph_representation_id = ''proxy'', ph_world_point = [Finite 1, Finite 2, Finite 3], ph_normal = None, ph_support_hint = []\<rparr>"
    by (simp add: parse_hit_def floats_def iterate_def to_float_def to_dict_def jget_def)
  moreover have "mv_source_asset_ids sample_evidence = [''scan'']" by (simp add: sample_evidence_def)
  ultimately show ?thesis
    using sample_hit_resolves
    by (simp add: check_origin_def sample_measurement_def str_or_def sample_representation_def resolve_origin_def json_str_def jget_def Let_def)
qed

lemma sample_valid:
  assumes "(hit, ev) = (if b then (Some sample_hit, Some (evidence_fields sample_evidence)) else (None, None))"
  shows "validate_measurement sample_builtins (new_contract E (sample_measurement b) commit_id hit ev)
    = Inr (new_contract E (sample_measurement b) commit_id hit ev)"
proof -
  have "validate_hit sample_builtins sample_hit = Inr ()"
    by (simp add: validate_hit_def sample_hit_def jget_def to_float_def is_finite_def)
  moreover have "validate_evidence sample_builtins (evidence_fields sample_evidence) = Inr ()"
    by (simp add: validate_evidence_def evidence_fields_def sample_evidence_def jget_def to_float_def is_finite_def rat_of_def)
  moreover have "effective_uses None = [''reference'']" by (simp add: effective_uses_def sorted_set_def)
  ultimately show ?thesis
    using assms unfolding validate_measurement_Inr
    by (simp add: new_contract_def sample_measurement_def contract_fields_ok_def rat_of_def split: if_splits)
qed

lemma sample_payload:
  "validate_payload hex_runtime (measurement_payload hex_runtime B (new_contract (at_time 5) (sample_measurement b) ''l'' hit ev)) = Inr ()"
proof (rule small_payload)
  let ?c = "new_contract (at_time 5) (sample_measurement b) ''l'' hit ev"
  have i: "ids (at_time 5) 0 = ''id0''" by code_simp
  have h: "length (canonical_sha256 hex_runtime (bt_model_dump B ?c)) = 64" by (rule length_hex_digest)
  show "fields_bound hex_runtime (measurement_payload hex_runtime B ?c) \<le> 65534"
    using h by (simp add: measurement_payload_def i new_contract_def sample_measurement_def)
  have "walk (JObj [(''measurement_id'', JStr k), (''scene_id'', JStr n), (''entity_id'', JNull), (''verification_status'', JStr v),
      (''authority_class'', JStr u), (''source_commit_id'', JStr d), (''interaction_resolved_to_metric'', JBool r),
      (''contract_hash'', JStr g)]) [] = Inr ()" for k n v u d r g
    by code_simp
  then show "walk (JObj (measurement_payload hex_runtime B ?c)) [] = Inr ()"
    by (simp add: measurement_payload_def new_contract_def sample_measurement_def)
qed

lemma sample_measurement_returns:
  "\<exists>t. create_measurement hex_runtime ''k'' measurement_catalog sample_builtins (at_time 5) (sample_measurement b) sample_survey
     = Inr (ids (at_time 5) 0, t)"
proof -
  let ?a = "sample_measurement b"
  obtain hit ev where he: "(hit, ev) = (if b then (Some sample_hit, Some (evidence_fields sample_evidence)) else (None, None))"
    by (metis surj_pair)
  let ?c = "new_contract (at_time 5) ?a ''l'' hit ev"
  let ?p = "measurement_payload hex_runtime sample_builtins ?c"
  let ?s = "sample_survey\<lparr>measurements := [new_measurement (at_time 5) ?a ?c]\<rparr>"
  have a: "check_measurement_args ?a = Inr ()" "check_entity ?a sample_survey = Inr ()" "check_verification ?a = Inr ()"
      "supersede ?a sample_survey = Inr sample_survey"
    by (simp_all add: check_measurement_args_def check_entity_def check_verification_def supersede_def sample_measurement_def
        is_finite_def rat_of_def effective_uses_def sorted_set_def forbidden_uses_def)
  have b: "check_sources ?a sample_survey = Inr ()" by (simp add: check_sources_def sample_measurement_def)
  have c: "source_commit ?a sample_survey = Inr ''l''"
    by (simp add: source_commit_def sample_measurement_def str_or_def) (simp add: sample_commit_def)
  have d: "check_frame (ms_tenant_id ?a) (ms_project_id ?a) (ms_coordinate_frame_id ?a) sample_survey = Inr ()"
    by (simp add: check_frame_def get_frame_def sample_survey_def tget_Cons sample_frame_def sample_measurement_def)
  obtain e where "catalog_get measurement_catalog ''measurement.recorded'' ''1.0.0'' = Inr e" "ec_owner e = ''scene-service''"
      "ec_aggregate e = ''measurement''"
    by (simp add: catalog_get_def measurement_catalog_def entry_key_def)
  then have ev: "emit_event hex_runtime measurement_catalog (ids (at_time 5) 1) (clk (at_time 5) 3)
      (measurement_event ?a (mt_measurement_id ?c) ?p) ?s = Inr (?s\<lparr>outbox_events := outbox_events ?s @ [outbox_row hex_runtime
        (ids (at_time 5) 1) (clk (at_time 5) 3) (measurement_event ?a (mt_measurement_id ?c) ?p)
        (project_classification ?s (es_project_id (measurement_event ?a (mt_measurement_id ?c) ?p)))]\<rparr>)"
    using sample_payload by (intro emit_event_returns [where e = e]) (simp_all add: measurement_event_def tkeys_def)
  have i: "insert_row me_measurement_id (new_measurement (at_time 5) ?a ?c) (measurements sample_survey)
      = Inr [new_measurement (at_time 5) ?a ?c]"
    by (simp add: insert_row_def)
  have k: "mt_measurement_id ?c = ids (at_time 5) 0" by (simp add: new_contract_def)
  have "check_origin sample_builtins ?a sample_survey = Inr (hit, ev)" using sample_origin [of b] he by simp
  moreover have "\<exists>t. record_measurement hex_runtime ''k'' measurement_catalog sample_builtins (at_time 5) ?a ?c sample_survey
      = Inr (ids (at_time 5) 0, t)"
    unfolding record_measurement_def Let_def i bindE_simps ev by (simp add: append_audit_first k)
  ultimately show ?thesis
    using a b c d sample_valid [OF he] by (simp add: create_measurement_def)
qed

lemma sample_survey_wf: "measurements_wf (measurements sample_survey)"
  by (simp add: measurements_wf_def replaces_def)

lemma created_row:
  assumes "create_measurement rt key cat B E a s = Inr (k, t)"
  shows "\<exists>row. get_measurement_row t k = Some row \<and> row \<in> set (measurements t) \<and>
    me_authority_class row = (if ms_verified a then ''field_verified'' else ''metric'')"
proof -
  from assms obtain commit_id hit ev s1 where
    "record_measurement rt key cat B E a (new_contract E a commit_id hit ev) s1 = Inr (k, t)"
    by (rule create_measurement_Inr)
  then have r: "get_measurement_row t k = Some (new_measurement E a (new_contract E a commit_id hit ev))"
    by (simp add: recorded_row)
  then have "new_measurement E a (new_contract E a commit_id hit ev) \<in> set (measurements t)"
    unfolding get_measurement_row_def by (rule tget_SomeD [THEN conjunct1])
  moreover have "me_authority_class (new_measurement E a (new_contract E a commit_id hit ev))
      = (if ms_verified a then ''field_verified'' else ''metric'')"
    by (simp add: new_measurement_def new_contract_def)
  ultimately show ?thesis using r by blast
qed

lemma sample_measurement_run:
  "\<exists>t. create_measurement hex_runtime ''k'' measurement_catalog sample_builtins (at_time 5) (sample_measurement b) sample_survey
     = Inr (ids (at_time 5) 0, t) \<and>
   run (measurement_step hex_runtime ''k'' measurement_catalog sample_builtins) [Record (at_time 5) (sample_measurement b)] sample_survey = t"
  using sample_measurement_returns [of b] by (auto simp: settle_def)

lemma measurement_authority_sound_witness:
  "\<exists>r \<in> set (measurements (run (measurement_step hex_runtime ''k'' measurement_catalog sample_builtins)
       [Record (at_time 5) (sample_measurement False)] sample_survey)).
     me_authority_class r = ''field_verified'' \<and> (\<exists>v. me_verifier_id r = Some v \<and> v \<noteq> me_created_by r)"
proof -
  obtain t where t: "create_measurement hex_runtime ''k'' measurement_catalog sample_builtins (at_time 5) (sample_measurement False) sample_survey
      = Inr (ids (at_time 5) 0, t)"
    "run (measurement_step hex_runtime ''k'' measurement_catalog sample_builtins) [Record (at_time 5) (sample_measurement False)] sample_survey = t"
    using sample_measurement_run by blast
  from created_row [OF t(1)] obtain r where r: "r \<in> set (measurements t)" "me_authority_class r = ''field_verified''"
    by (auto simp: sample_measurement_def)
  from measurement_authority_sound [OF sample_survey_wf r(1) [folded t(2)]] r show ?thesis unfolding t(2) by blast
qed

lemma supersession_is_linear_witness:
  "\<exists>t r'. create_measurement hex_runtime ''k'' measurement_catalog sample_builtins (at_time 5) (sample_measurement False) sample_survey
      = Inr (''id0'', t) \<and>
    get_measurement_row (run (measurement_step hex_runtime ''k'' measurement_catalog sample_builtins)
      [Other_Tables empty_db, Record (at_time 9) ((sample_measurement True)\<lparr>ms_supersedes_measurement_id := Some ''id0''\<rparr>)] t) ''id0'' = Some r'"
proof -
  have i: "ids (at_time 5) 0 = ''id0''" by code_simp
  obtain t where t: "create_measurement hex_runtime ''k'' measurement_catalog sample_builtins (at_time 5) (sample_measurement False) sample_survey
      = Inr (''id0'', t)"
    "run (measurement_step hex_runtime ''k'' measurement_catalog sample_builtins) [Record (at_time 5) (sample_measurement False)] sample_survey = t"
    using sample_measurement_run [of False] unfolding i by blast
  have wf: "measurements_wf (measurements t)" using measuring.run_inv [OF sample_survey_wf] unfolding t(2) [symmetric] .
  from created_row [OF t(1)] obtain r where r: "get_measurement_row t ''id0'' = Some r" by blast
  from supersession_is_linear [OF wf r _ refl] t(1) show ?thesis by blast
qed

lemma measurement_reads_back_witness:
  "\<exists>t c. create_measurement hex_runtime ''k'' measurement_catalog sample_builtins (at_time 5) (sample_measurement True) sample_survey
      = Inr (ids (at_time 5) 0, t) \<and>
    get_measurement sample_builtins ''other'' ''p'' ''s'' (ids (at_time 5) 0) t = Inr (c, t) \<and> mt_value c = 2"
proof -
  obtain t where t: "create_measurement hex_runtime ''k'' measurement_catalog sample_builtins (at_time 5) (sample_measurement True) sample_survey
      = Inr (ids (at_time 5) 0, t)"
    using sample_measurement_run by blast
  have "ms_coordinate_frame_id (sample_measurement True) \<noteq> []" by (simp add: sample_measurement_def)
  from measurement_reads_back [OF t this] t show ?thesis by (auto simp: sample_measurement_def)
qed

lemma interaction_measurement_grounded_witness:
  "\<exists>t metric m. create_measurement hex_runtime ''k'' measurement_catalog sample_builtins (at_time 5) (sample_measurement True) sample_survey
      = Inr (ids (at_time 5) 0, t) \<and>
    supported sample_builtins ''other'' ''p'' (sample_representation ''proxy'' ''interaction'' ''derived_non_authoritative''
      [(''metric_representation_id'', JStr ''cloud''), (''max_reprojection_error_m'', JFloat (1 / 100))]) (Finite (3 / 100)) m metric sample_survey"
proof -
  obtain t where t: "create_measurement hex_runtime ''k'' measurement_catalog sample_builtins (at_time 5) (sample_measurement True) sample_survey
      = Inr (ids (at_time 5) 0, t)"
    using sample_measurement_run by blast
  have o: "ms_originating_representation_id (sample_measurement True) = Some ''proxy''" by (simp add: sample_measurement_def)
  from interaction_measurement_grounded [OF t o _ sample_survey_fields(7)] t show ?thesis
    by (auto simp: sample_representation_def) (auto simp: sample_measurement_def)
qed

end
