(* ===== verification/Publication_Safety.thy ===== *)
theory Publication_Safety
  imports Publication Measurement_Evidence
begin

text \<open>
  The life of representations and of their bindings to scenes, over any sequence of calls. The calls
  refine an abstract machine with five moves on the two tables (nothing, a new candidate, a step of
  one representation, a publication, an invalidation); the invariant says that what is bound was
  reviewed for the bound uses, that a scene has one current binding for each role and that nothing
  invalidated is bound.
\<close>

section \<open>The machine\<close>

text \<open>The columns of a representation that never change.\<close>

definition core :: "representation_row \<Rightarrow> representation_row" where
  "core r = r\<lparr>re_quality_json := [], re_provenance_json := [], re_support_map_json := [], re_metadata_json := [],
     re_deprecated_at := None, re_state := []\<rparr>"

definition open_states :: "string list" where
  "open_states = [''quarantined'', ''quality_failed'', ''approved'']"

definition bound_states :: "string list" where
  "bound_states = [''published'', ''invalidated'', ''superseded'']"

definition rep_ok :: "representation_row \<Rightarrow> bool" where
  "rep_ok r \<longleftrightarrow> re_state r \<in> set open_states \<union> set bound_states \<and>
     (re_deprecated_at r \<noteq> None \<longrightarrow> re_state r \<in> {''invalidated'', ''superseded''}) \<and>
     (re_kind r = ''interaction'' \<longrightarrow> re_authority_class r = ''derived_non_authoritative'' \<and>
        re_authority_ceiling r = ''derived_non_authoritative'' \<and> re_disposable r) \<and>
     (re_kind r = ''visual'' \<longrightarrow> re_authority_class r \<notin> {''metric'', ''field_verified''})"

definition uses_approved :: "representation_row \<Rightarrow> string list \<Rightarrow> bool" where
  "uses_approved r uses \<longleftrightarrow> (\<exists>reviewed. reviewed_uses r = Inr reviewed \<and> approved_by_review reviewed uses)"

text \<open>What a binding takes over from its representation.\<close>

definition binds_as :: "representation_row \<Rightarrow> representation_binding_row \<Rightarrow> bool" where
  "binds_as r b \<longleftrightarrow> bi_representation_id b = re_representation_id r \<and> bi_tenant_id b = re_tenant_id r \<and>
     bi_project_id b = re_project_id r \<and> bi_scene_id b = re_scene_id r \<and>
     bi_coordinate_frame_id b = re_coordinate_frame_id r \<and> bi_authority_class b = re_authority_class r \<and>
     bi_authority_ceiling b = re_authority_ceiling r \<and> bi_role b \<notin> set (re_prohibited_uses_json r)"

definition bind_ok :: "representation_row list \<Rightarrow> representation_binding_row \<Rightarrow> bool" where
  "bind_ok reps b \<longleftrightarrow> \<not> is_worker (bi_published_by b) \<and>
     (\<exists>r. tget re_representation_id reps (bi_representation_id b) = Some r \<and> binds_as r b \<and> re_state r \<in> set bound_states \<and>
        uses_approved r (bi_intended_uses_json b) \<and> (bi_superseded_at b = None \<longrightarrow> re_deprecated_at r = None))"

definition slot :: "representation_binding_row \<Rightarrow> string \<times> string \<times> string \<times> string" where
  "slot b = (bi_tenant_id b, bi_project_id b, bi_scene_id b, bi_role b)"

definition publication_wf :: "representation_row list \<times> representation_binding_row list \<Rightarrow> bool" where
  "publication_wf = (\<lambda>(reps, bs). distinct (map re_representation_id reps) \<and> distinct (map bi_binding_id bs) \<and>
     (\<forall>r\<in>set reps. rep_ok r) \<and> (\<forall>b\<in>set bs. bind_ok reps b) \<and>
     (\<forall>b\<in>set bs. \<forall>b'\<in>set bs. bi_superseded_at b = None \<longrightarrow> bi_superseded_at b' = None \<longrightarrow> slot b = slot b' \<longrightarrow> b = b'))"

definition rep_step :: "representation_row \<Rightarrow> representation_row \<Rightarrow> bool" where
  "rep_step r r' \<longleftrightarrow> core r' = core r \<and> re_deprecated_at r' = re_deprecated_at r \<and>
     (re_state r' = re_state r \<or> re_state r \<in> set open_states \<and> re_state r' \<in> {''approved'', ''quality_failed''} \<or>
      re_state r' = ''superseded'') \<and>
     (re_quality_json r' = re_quality_json r \<or> re_state r \<in> set open_states \<and> re_state r' \<in> set open_states)"

definition retire :: "(representation_binding_row \<Rightarrow> bool) \<Rightarrow> time \<Rightarrow> representation_binding_row list \<Rightarrow> representation_binding_row list" where
  "retire P now bs = map (\<lambda>b. if P b then b\<lparr>bi_superseded_at := Some now\<rparr> else b) bs"

inductive publication_move ::
  "representation_row list \<times> representation_binding_row list \<Rightarrow> representation_row list \<times> representation_binding_row list \<Rightarrow> bool" where
  candidate: "rep_ok r \<Longrightarrow> re_state r = ''quarantined'' \<Longrightarrow> re_representation_id r \<notin> tkeys re_representation_id reps \<Longrightarrow>
    publication_move (reps, bs) (reps @ [r], bs)"
| step: "tget re_representation_id reps k = Some r \<Longrightarrow> rep_step r r' \<Longrightarrow>
    publication_move (reps, bs) (tput re_representation_id r' reps, bs)"
| publish: "tget re_representation_id reps k = Some r \<Longrightarrow> re_state r = ''approved'' \<Longrightarrow> binds_as r b \<Longrightarrow>
    uses_approved r (bi_intended_uses_json b) \<Longrightarrow> \<not> is_worker (bi_published_by b) \<Longrightarrow> bi_superseded_at b = None \<Longrightarrow>
    bi_binding_id b \<notin> tkeys bi_binding_id bs \<Longrightarrow>
    publication_move (reps, bs) (tput re_representation_id (r\<lparr>re_state := ''published''\<rparr>) reps,
      retire (same_slot r (bi_role b)) now bs @ [b])"
| invalidate: "tget re_representation_id reps k = Some r \<Longrightarrow> re_deprecated_at r = None \<Longrightarrow> core r' = core r \<Longrightarrow>
    re_quality_json r' = re_quality_json r \<Longrightarrow> re_state r' = ''invalidated'' \<Longrightarrow>
    publication_move (reps, bs) (tput re_representation_id r' reps, retire (binds r) now bs)"

lemma core_fields:
  assumes "core r' = core r"
  shows "re_representation_id r' = re_representation_id r" "re_tenant_id r' = re_tenant_id r" "re_project_id r' = re_project_id r"
    "re_scene_id r' = re_scene_id r" "re_kind r' = re_kind r" "re_coordinate_frame_id r' = re_coordinate_frame_id r"
    "re_authority_class r' = re_authority_class r" "re_authority_ceiling r' = re_authority_ceiling r"
    "re_disposable r' = re_disposable r" "re_prohibited_uses_json r' = re_prohibited_uses_json r"
    "re_intended_uses_json r' = re_intended_uses_json r" "re_asset_id r' = re_asset_id r"
    "re_privacy_inheritance_json r' = re_privacy_inheritance_json r"
proof -
  have "f (core r') = f (core r)" for f :: "representation_row \<Rightarrow> 'x" using assms by simp
  from this [of re_representation_id] this [of re_tenant_id] this [of re_project_id] this [of re_scene_id] this [of re_kind]
    this [of re_coordinate_frame_id] this [of re_authority_class] this [of re_authority_ceiling] this [of re_disposable]
    this [of re_prohibited_uses_json] this [of re_intended_uses_json] this [of re_asset_id] this [of re_privacy_inheritance_json]
  show "re_representation_id r' = re_representation_id r" "re_tenant_id r' = re_tenant_id r" "re_project_id r' = re_project_id r"
    "re_scene_id r' = re_scene_id r" "re_kind r' = re_kind r" "re_coordinate_frame_id r' = re_coordinate_frame_id r"
    "re_authority_class r' = re_authority_class r" "re_authority_ceiling r' = re_authority_ceiling r"
    "re_disposable r' = re_disposable r" "re_prohibited_uses_json r' = re_prohibited_uses_json r"
    "re_intended_uses_json r' = re_intended_uses_json r" "re_asset_id r' = re_asset_id r"
    "re_privacy_inheritance_json r' = re_privacy_inheritance_json r"
    by (simp_all add: core_def)
qed


lemma uses_approved_cong: "re_quality_json r' = re_quality_json r \<Longrightarrow> uses_approved r' uses = uses_approved r uses"
  by (simp add: uses_approved_def reviewed_uses_def)

lemma binds_as_core:
  assumes "core r' = core r"
  shows "binds_as r' b = binds_as r b"
  using core_fields [OF assms] by (simp add: binds_as_def)

lemma bind_okE:
  assumes "bind_ok reps b"
  obtains r where "\<not> is_worker (bi_published_by b)" and "tget re_representation_id reps (bi_representation_id b) = Some r"
    and "binds_as r b" and "re_state r \<in> set bound_states" and "uses_approved r (bi_intended_uses_json b)"
    and "bi_superseded_at b = None \<longrightarrow> re_deprecated_at r = None"
proof -
  from assms obtain r where "tget re_representation_id reps (bi_representation_id b) = Some r \<and> binds_as r b \<and>
      re_state r \<in> set bound_states \<and> uses_approved r (bi_intended_uses_json b) \<and>
      (bi_superseded_at b = None \<longrightarrow> re_deprecated_at r = None)"
    unfolding bind_ok_def by (elim conjE exE) (rule that, intro conjI)
  with assms that show thesis unfolding bind_ok_def by simp
qed

lemma bind_okI:
  assumes "\<not> is_worker (bi_published_by b)" and "tget re_representation_id reps (bi_representation_id b) = Some r"
    and "binds_as r b" and "re_state r \<in> set bound_states" and "uses_approved r (bi_intended_uses_json b)"
    and "bi_superseded_at b = None \<Longrightarrow> re_deprecated_at r = None"
  shows "bind_ok reps b"
  unfolding bind_ok_def using assms by (intro conjI exI [of _ r]) simp_all

lemma rep_stepD:
  assumes "rep_step r r'"
  shows "core r' = core r" and "re_deprecated_at r' = re_deprecated_at r"
    and "re_state r' = re_state r \<or> re_state r \<in> set open_states \<and> re_state r' \<in> {''approved'', ''quality_failed''} \<or>
      re_state r' = ''superseded''"
    and "re_quality_json r' = re_quality_json r \<or> re_state r \<in> set open_states \<and> re_state r' \<in> set open_states"
  using assms [unfolded rep_step_def] by - (elim conjE, assumption)+

lemma bind_ok_tput:
  assumes b: "bind_ok reps b" and r: "tget re_representation_id reps k = Some r" and c: "core r' = core r"
    and keep: "bi_representation_id b = k \<Longrightarrow> re_state r \<in> set bound_states \<Longrightarrow>
      re_state r' \<in> set bound_states \<and> re_quality_json r' = re_quality_json r \<and>
      (bi_superseded_at b = None \<longrightarrow> re_deprecated_at r = None \<longrightarrow> re_deprecated_at r' = None)"
  shows "bind_ok (tput re_representation_id r' reps) b"
proof -
  have k: "re_representation_id r = k" "re_representation_id r' = k"
    using tget_SomeD [OF r] core_fields(1) [OF c] by simp_all
  from b obtain x where x: "\<not> is_worker (bi_published_by b)" "tget re_representation_id reps (bi_representation_id b) = Some x"
      "binds_as x b" "re_state x \<in> set bound_states" "uses_approved x (bi_intended_uses_json b)"
      "bi_superseded_at b = None \<longrightarrow> re_deprecated_at x = None"
    by (rule bind_okE)
  show ?thesis
  proof (cases "bi_representation_id b = k")
    case True
    with x(2) r have "x = r" by simp
    moreover have "tget re_representation_id (tput re_representation_id r' reps) k = Some r'" by (rule tget_tput_same [OF k(2) r])
    ultimately show ?thesis
      using x keep [OF True] uses_approved_cong [of r' r] binds_as_core [OF c, of b] True
      by (intro bind_okI [where r = r']) simp_all
  next
    case False
    with k(2) have "tget re_representation_id (tput re_representation_id r' reps) (bi_representation_id b) = Some x"
      using x(2) by (simp add: tget_tput_other)
    with x show ?thesis by (intro bind_okI [where r = x]) simp_all
  qed
qed

lemma update_wf:
  assumes wf: "publication_wf (reps, bs)" and r: "tget re_representation_id reps k = Some r" and c: "core r' = core r"
    and ok: "rep_ok r'"
    and keep: "\<And>b. b \<in> set bs \<Longrightarrow> bi_representation_id b = k \<Longrightarrow> re_state r \<in> set bound_states \<Longrightarrow>
      re_state r' \<in> set bound_states \<and> re_quality_json r' = re_quality_json r \<and>
      (bi_superseded_at b = None \<longrightarrow> re_deprecated_at r = None \<longrightarrow> re_deprecated_at r' = None)"
  shows "publication_wf (tput re_representation_id r' reps, bs)"
proof -
  have "rep_ok x" if "x \<in> set (tput re_representation_id r' reps)" for x
    using set_tput_unique [OF that] wf ok unfolding publication_wf_def prod.case by blast
  moreover have "bind_ok (tput re_representation_id r' reps) b" if b: "b \<in> set bs" for b
    using wf b unfolding publication_wf_def prod.case by (intro bind_ok_tput [OF _ r c keep [OF b]]) blast+
  ultimately show ?thesis using wf unfolding publication_wf_def prod.case map_key_tput by blast
qed

lemma retire_same: "bi_superseded_at b' = None \<Longrightarrow> b' \<in> set (retire P now bs) \<Longrightarrow> b' \<in> set bs \<and> \<not> P b'"
  by (auto simp: retire_def)

lemma retire_from: "b' \<in> set (retire P now bs) \<Longrightarrow> \<exists>b\<in>set bs. b' = b \<or> b' = b\<lparr>bi_superseded_at := Some now\<rparr>"
  by (auto simp: retire_def)

lemma retire_ids [simp]: "map bi_binding_id (retire P now bs) = map bi_binding_id bs"
  by (simp add: retire_def)

lemma bind_ok_superseded: "bind_ok reps b \<Longrightarrow> bind_ok reps (b\<lparr>bi_superseded_at := Some now\<rparr>)"
  by (auto simp: bind_ok_def binds_as_def)

lemma retire_wf:
  assumes wf: "publication_wf (reps, bs)"
  shows "publication_wf (reps, retire P now bs)"
proof -
  have "bind_ok reps b" if b: "b \<in> set (retire P now bs)" for b
    using retire_from [OF b] wf bind_ok_superseded unfolding publication_wf_def prod.case by blast
  moreover have "b = b'" if "b \<in> set (retire P now bs)" "b' \<in> set (retire P now bs)" "bi_superseded_at b = None"
      "bi_superseded_at b' = None" "slot b = slot b'" for b b'
    using retire_same [OF that(3,1)] retire_same [OF that(4,2)] that(3-5) wf unfolding publication_wf_def prod.case by blast
  ultimately show ?thesis using wf unfolding publication_wf_def prod.case retire_ids by blast
qed

lemma bind_wf:
  assumes wf: "publication_wf (reps, bs)" and b: "bind_ok reps b" "bi_binding_id b \<notin> tkeys bi_binding_id bs"
    and free: "\<And>b'. b' \<in> set bs \<Longrightarrow> bi_superseded_at b' = None \<Longrightarrow> slot b' \<noteq> slot b"
  shows "publication_wf (reps, bs @ [b])"
proof -
  have "distinct (map bi_binding_id (bs @ [b]))" using wf b(2) by (auto simp: publication_wf_def tkeys_def)
  moreover have "x = y" if "x \<in> set (bs @ [b])" "y \<in> set (bs @ [b])" "bi_superseded_at x = None" "bi_superseded_at y = None"
      "slot x = slot y" for x y
  proof (cases "x = b \<or> y = b")
    case True
    with that free [of x] free [of y] show ?thesis by auto
  next
    case False
    with that have "x \<in> set bs" "y \<in> set bs" by auto
    with that(3-5) wf show ?thesis unfolding publication_wf_def prod.case by blast
  qed
  moreover have "\<forall>x\<in>set (bs @ [b]). bind_ok reps x" using wf b(1) by (auto simp: publication_wf_def)
  ultimately show ?thesis using wf unfolding publication_wf_def prod.case by blast
qed

lemma rep_ok_change:
  assumes "rep_ok r" and c: "core r' = core r" and "re_state r' \<in> set open_states \<union> set bound_states"
    and "re_deprecated_at r' \<noteq> None \<Longrightarrow> re_state r' \<in> {''invalidated'', ''superseded''}"
  shows "rep_ok r'"
  using assms(1,3,4) core_fields [OF c] unfolding rep_ok_def by simp

lemma wf_rep_ok: "publication_wf (reps, bs) \<Longrightarrow> tget re_representation_id reps k = Some r \<Longrightarrow> rep_ok r"
  unfolding publication_wf_def prod.case using tget_SomeD by metis

lemma step_wf:
  assumes wf: "publication_wf (reps, bs)" and r: "tget re_representation_id reps k = Some r" and st: "rep_step r r'"
  shows "publication_wf (tput re_representation_id r' reps, bs)"
proof (rule update_wf [OF wf r])
  note st = rep_stepD [OF st]
  show c: "core r' = core r" by (rule st(1))
  have ok: "rep_ok r" by (rule wf_rep_ok [OF wf r])
  have "re_state r \<in> set open_states \<union> set bound_states"
      "re_deprecated_at r \<noteq> None \<longrightarrow> re_state r \<in> {''invalidated'', ''superseded''}"
    using ok unfolding rep_ok_def by blast+
  then show "rep_ok r'" using st(2,3) by (intro rep_ok_change [OF ok c]) (auto simp: open_states_def bound_states_def)
  fix b assume "re_state r \<in> set bound_states"
  then have "re_state r \<notin> set open_states" by (auto simp: open_states_def bound_states_def)
  with st(2-4) \<open>re_state r \<in> set bound_states\<close> show "re_state r' \<in> set bound_states \<and> re_quality_json r' = re_quality_json r \<and>
      (bi_superseded_at b = None \<longrightarrow> re_deprecated_at r = None \<longrightarrow> re_deprecated_at r' = None)"
    by (auto simp: bound_states_def)
qed

lemma publication_move_wf:
  assumes "publication_move x y" and "publication_wf x"
  shows "publication_wf y"
  using assms
proof (induction rule: publication_move.induct)
  case (candidate r reps bs)
  have get: "tget re_representation_id (reps @ [r]) k = Some x" if "tget re_representation_id reps k = Some x" for k x
    using that by (simp add: tget_append)
  have "bind_ok (reps @ [r]) b" if "b \<in> set bs" for b
    using candidate(4) that get unfolding publication_wf_def prod.case bind_ok_def by blast
  moreover have "distinct (map re_representation_id (reps @ [r]))"
    using candidate(3,4) by (auto simp: publication_wf_def tkeys_def)
  moreover have "\<forall>x\<in>set (reps @ [r]). rep_ok x" using candidate(1,4) by (auto simp: publication_wf_def)
  ultimately show ?case using candidate(4) unfolding publication_wf_def prod.case by blast
next
  case (step reps k r r' bs)
  then show ?case by (intro step_wf)
next
  case (publish reps k r b bs now)
  let ?r = "r\<lparr>re_state := ''published''\<rparr>" and ?bs = "retire (same_slot r (bi_role b)) now bs"
  have c: "core ?r = core r" by (simp add: core_def)
  have ok: "rep_ok r" by (rule wf_rep_ok [OF publish(8,1)])
  then have d: "re_deprecated_at r = None" using publish(2) by (auto simp: rep_ok_def)
  have "publication_wf (tput re_representation_id ?r reps, ?bs)"
  proof (rule update_wf [OF retire_wf [OF publish(8)] publish(1) c])
    show "rep_ok ?r" by (rule rep_ok_change [OF ok c]) (simp_all add: d bound_states_def)
  qed (use publish(2) in \<open>simp add: bound_states_def\<close>)
  moreover have "bind_ok (tput re_representation_id ?r reps) b"
  proof -
    have "bi_representation_id b = re_representation_id ?r" using publish(3) by (simp add: binds_as_def)
    moreover have "tget re_representation_id (tput re_representation_id ?r reps) (re_representation_id ?r) = Some ?r"
      using publish(1) tget_SomeD [OF publish(1)] by (intro tget_tput_same) auto
    ultimately show ?thesis
      using publish(3,4,5) d binds_as_core [OF c, of b] uses_approved_cong [of ?r r]
      by (intro bind_okI [where r = ?r]) (simp_all add: bound_states_def)
  qed
  moreover have "bi_binding_id b \<notin> tkeys bi_binding_id ?bs" using publish(7) unfolding tkeys_def set_map [symmetric] by simp
  moreover have "slot b' \<noteq> slot b" if b': "b' \<in> set ?bs" "bi_superseded_at b' = None" for b'
    using retire_same [OF b'(2,1)] b'(2) publish(3) by (auto simp: slot_def same_slot_def binds_as_def)
  ultimately show ?case by (rule bind_wf)
next
  case (invalidate reps k r r' bs now)
  have k: "re_representation_id r = k" using tget_SomeD [OF invalidate(1)] by simp
  show ?case
  proof (rule update_wf [OF retire_wf [OF invalidate(6)] invalidate(1,3)])
    show "rep_ok r'" by (rule rep_ok_change [OF wf_rep_ok [OF invalidate(6,1)] invalidate(3)]) (simp_all add: invalidate(5) bound_states_def)
    fix b assume b: "b \<in> set (retire (binds r) now bs)" "bi_representation_id b = k"
    have "bi_superseded_at b \<noteq> None"
    proof
      assume n: "bi_superseded_at b = None"
      from retire_same [OF n b(1)] have "b \<in> set bs" "\<not> binds r b" by simp_all
      moreover from \<open>b \<in> set bs\<close> invalidate(1,6) b(2) have "binds_as r b"
        unfolding publication_wf_def prod.case by (auto elim!: bind_okE)
      ultimately show False using n by (simp add: binds_def binds_as_def)
    qed
    then show "re_state r' \<in> set bound_states \<and> re_quality_json r' = re_quality_json r \<and>
      (bi_superseded_at b = None \<longrightarrow> re_deprecated_at r = None \<longrightarrow> re_deprecated_at r' = None)"
      using invalidate(4,5) by (auto simp: bound_states_def)
  qed
qed


section \<open>What never goes back\<close>

definition state_below :: "string \<Rightarrow> string \<Rightarrow> bool" where
  "state_below x y \<longleftrightarrow> x = y \<or> y \<noteq> ''quarantined'' \<and> (x \<in> set bound_states \<longrightarrow> y \<in> {''invalidated'', ''superseded''})"

definition rep_below :: "representation_row \<Rightarrow> representation_row \<Rightarrow> bool" where
  "rep_below r r' \<longleftrightarrow> core r' = core r \<and> state_below (re_state r) (re_state r') \<and>
     (re_deprecated_at r = None \<or> re_deprecated_at r' = re_deprecated_at r) \<and>
     (re_state r \<in> set bound_states \<longrightarrow> re_quality_json r' = re_quality_json r)"

definition binding_below :: "representation_binding_row \<Rightarrow> representation_binding_row \<Rightarrow> bool" where
  "binding_below b b' \<longleftrightarrow> b' = b \<or> bi_superseded_at b = None \<and> (\<exists>now. b' = b\<lparr>bi_superseded_at := Some now\<rparr>)"

type_synonym publication_tables = "representation_row list \<times> representation_binding_row list"

definition publication_below :: "publication_tables \<Rightarrow> publication_tables \<Rightarrow> bool" where
  "publication_below x y \<longleftrightarrow> kept (tget re_representation_id (fst x)) (tget re_representation_id (fst y)) rep_below \<and>
     kept (tget bi_binding_id (snd x)) (tget bi_binding_id (snd y)) binding_below"

lemma state_below_bound: "state_below x y \<Longrightarrow> x \<in> set bound_states \<Longrightarrow> y \<in> set bound_states"
  by (auto simp: state_below_def bound_states_def)

lemma state_below_trans: "state_below x y \<Longrightarrow> state_below y z \<Longrightarrow> state_below x z"
  by (auto simp: state_below_def bound_states_def)

lemma rep_below_refl: "rep_below r r"
  by (simp add: rep_below_def state_below_def)

lemma rep_belowD:
  assumes "rep_below r r'"
  shows "core r' = core r" and "state_below (re_state r) (re_state r')"
    and "re_deprecated_at r = None \<or> re_deprecated_at r' = re_deprecated_at r"
    and "re_state r \<in> set bound_states \<longrightarrow> re_quality_json r' = re_quality_json r"
  using assms [unfolded rep_below_def] by - (elim conjE, assumption)+

lemma rep_below_trans:
  assumes "rep_below x y" and "rep_below y z"
  shows "rep_below x z"
  unfolding rep_below_def
proof (intro conjI)
  note xy = rep_belowD [OF assms(1)] and yz = rep_belowD [OF assms(2)]
  show "core z = core x" using xy(1) yz(1) by simp
  show "state_below (re_state x) (re_state z)" by (rule state_below_trans [OF xy(2) yz(2)])
  show "re_deprecated_at x = None \<or> re_deprecated_at z = re_deprecated_at x" using xy(3) yz(3) by auto
  show "re_state x \<in> set bound_states \<longrightarrow> re_quality_json z = re_quality_json x"
    using xy(4) yz(4) state_below_bound [OF xy(2)] by simp
qed

lemma binding_below_refl: "binding_below b b"
  by (simp add: binding_below_def)

lemma binding_below_trans: "binding_below x y \<Longrightarrow> binding_below y z \<Longrightarrow> binding_below x z"
  unfolding binding_below_def by (elim disjE conjE exE) auto

lemma publication_below_refl: "publication_below x x"
  by (simp add: publication_below_def kept_refl rep_below_refl binding_below_refl)

lemma publication_below_trans: "publication_below x y \<Longrightarrow> publication_below y z \<Longrightarrow> publication_below x z"
  unfolding publication_below_def by (blast intro: kept_trans rep_below_trans binding_below_trans)

lemma rep_step_below:
  assumes "rep_step r r'"
  shows "rep_below r r'"
  unfolding rep_below_def
proof (intro conjI)
  note st = rep_stepD [OF assms]
  show "core r' = core r" by (rule st(1))
  show "state_below (re_state r) (re_state r')" using st(3) by (auto simp: state_below_def open_states_def bound_states_def)
  show "re_deprecated_at r = None \<or> re_deprecated_at r' = re_deprecated_at r" using st(2) by simp
  show "re_state r \<in> set bound_states \<longrightarrow> re_quality_json r' = re_quality_json r"
    using st(4) by (auto simp: open_states_def bound_states_def)
qed

lemma tput_below:
  assumes "tget re_representation_id reps k = Some r" and "rep_below r r'"
  shows "kept (tget re_representation_id reps) (tget re_representation_id (tput re_representation_id r' reps)) rep_below"
proof (rule kept_tput [where old = r, OF _ assms(2) rep_below_refl])
  show "tget re_representation_id reps (re_representation_id r') = Some r"
    using assms(1) tget_SomeD [OF assms(1)] core_fields(1) [OF rep_belowD(1) [OF assms(2)]] by simp
qed

lemma retire_below:
  assumes "\<And>b. P b \<Longrightarrow> bi_superseded_at b = None"
  shows "kept (tget bi_binding_id bs) (tget bi_binding_id (retire P now bs)) binding_below"
proof -
  have g: "tget bi_binding_id (retire P now bs) k
      = map_option (\<lambda>b. if P b then b\<lparr>bi_superseded_at := Some now\<rparr> else b) (tget bi_binding_id bs k)" for k
    unfolding retire_def by (rule tget_map_same_key) simp
  show ?thesis unfolding kept_def g using assms by (auto simp: binding_below_def)
qed

lemma publication_move_below:
  assumes "publication_move x y"
  shows "publication_below x y"
  using assms
proof (induction rule: publication_move.induct)
  case (candidate r reps bs)
  then show ?case
    by (auto simp: publication_below_def tget_None_iff intro: kept_insert kept_refl rep_below_refl binding_below_refl)
next
  case (step reps k r r' bs)
  then show ?case
    by (simp add: publication_below_def tput_below rep_step_below kept_refl binding_below_refl)
next
  case (publish reps k r b bs now)
  have "rep_below r (r\<lparr>re_state := ''published''\<rparr>)"
    using publish(2) by (simp add: rep_below_def core_def state_below_def bound_states_def)
  note reps = tput_below [OF publish(1) this]
  have "kept (tget bi_binding_id bs) (tget bi_binding_id (retire (same_slot r (bi_role b)) now bs)) binding_below"
    by (rule retire_below) (simp add: same_slot_def)
  moreover have "tget bi_binding_id (retire (same_slot r (bi_role b)) now bs) (bi_binding_id b) = None"
    using publish(7) unfolding tget_None_iff tkeys_def set_map [symmetric] by simp
  ultimately have "kept (tget bi_binding_id bs) (tget bi_binding_id (retire (same_slot r (bi_role b)) now bs @ [b])) binding_below"
    by (rule kept_trans [OF _ kept_insert]) (auto intro: binding_below_refl binding_below_trans)
  with reps show ?case by (simp add: publication_below_def)
next
  case (invalidate reps k r r' bs now)
  have "rep_below r r'"
    unfolding rep_below_def by (intro conjI) (use invalidate(2-5) in \<open>simp_all add: state_below_def\<close>)
  note reps = tput_below [OF invalidate(1) this]
  have "kept (tget bi_binding_id bs) (tget bi_binding_id (retire (binds r) now bs)) binding_below"
    by (rule retire_below) (simp add: binds_def)
  with reps show ?case by (simp add: publication_below_def)
qed

lemma publication_moves:
  assumes "publication_move\<^sup>*\<^sup>* x y"
  shows "publication_below x y" and "publication_wf x \<Longrightarrow> publication_wf y"
proof -
  show "publication_below x y" using assms
    by (induction rule: rtranclp_induct) (blast intro: publication_below_refl publication_below_trans publication_move_below)+
  show "publication_wf x \<Longrightarrow> publication_wf y" using assms
    by (induction rule: rtranclp_induct) (blast intro: publication_move_wf)+
qed


section \<open>The calls refine the machine\<close>

datatype publication_call =
    Candidate env candidate_args
  | Receipt env string string string string string string
  | Review env review_args
  | Invalidate env string string string string string bool
  | Replace_Proxy string string
  | Publish env publish_args
  | Rest_Of_Database db

abbreviation tables :: "db \<Rightarrow> publication_tables" where
  "tables s \<equiv> (representations s, representation_bindings s)"

text \<open>An invalidation keeps what its session committed also when the call raises afterwards.\<close>

fun publication_step ::
  "runtime \<Rightarrow> string \<Rightarrow> event_catalog \<Rightarrow> builtins \<Rightarrow> string \<Rightarrow> db \<Rightarrow> publication_call \<Rightarrow> sip_error + db" where
  "publication_step rt key cat B pk s (Candidate E a) = bindE (create_candidate rt key cat B E a s) (\<lambda>(_, t). Inr t)"
| "publication_step rt key cat B pk s (Receipt E tenant project operation_id receipt_hash core_hash actor) =
     bindE (attach_worker_receipt rt key E tenant project operation_id receipt_hash core_hash actor s) (\<lambda>(_, t). Inr t)"
| "publication_step rt key cat B pk s (Review E a) = bindE (review_quality rt key B E a s) (\<lambda>(_, t). Inr t)"
| "publication_step rt key cat B pk s (Invalidate E tenant project changed reason actor requeue) =
     Inr (snd (invalidate_dependencies rt key cat B E tenant project changed reason actor requeue s))"
| "publication_step rt key cat B pk s (Replace_Proxy old new) = bindE (replace_proxy old new s) (\<lambda>(_, t). Inr t)"
| "publication_step rt key cat B pk s (Publish E a) = bindE (publish rt key cat B pk E a s) (\<lambda>(_, t). Inr t)"
| "publication_step rt key cat B pk s (Rest_Of_Database d) =
     Inr (d\<lparr>representations := representations s, representation_bindings := representation_bindings s\<rparr>)"

lemma emit_event_tables: "emit_event rt c i now a s = Inr t \<Longrightarrow> tables t = tables s"
  by (drule emit_event_frame) auto

lemma append_audit_tables: "append_audit rt k i now a s = Inr t \<Longrightarrow> tables t = tables s"
  by (drule append_audit_frame) auto

lemma check_output_asset_frame:
  "check_output_asset tenant project out c hold s = Inr (bl, t) \<Longrightarrow> \<exists>l. t = s\<lparr>asset_refs := l\<rparr>"
  by (auto simp: check_output_asset_def inherit_hold_def put_asset_ref_def split: option.splits if_splits intro: exI [of _ "asset_refs s"])

lemma effective_privacy_frame:
  "effective_privacy_inheritance rt B tenant project out prov req s = Inr (privacy, t) \<Longrightarrow> \<exists>l. t = s\<lparr>asset_refs := l\<rparr>"
  by (auto simp: effective_privacy_inheritance_def Let_def bindE_Inr_conv split: if_splits dest: check_output_asset_frame)

lemma new_candidate_ok:
  assumes "check_candidate B k a = Inr ()"
  shows "rep_ok (new_candidate rt now a k privacy)" and "re_state (new_candidate rt now a k privacy) = ''quarantined''"
  using assms
  by (cases "cd_kind a"; cases "cd_authority_class a";
      simp add: rep_ok_def new_candidate_def authority_ceiling_of_def open_states_def check_candidate_def split: if_splits)+

lemma add_candidate_Inr:
  assumes "add_candidate rt key cat E a k privacy s = Inr (k', t)"
  shows "k' = k \<and> k \<notin> tkeys re_representation_id (representations s) \<and>
    tables t = (representations s @ [new_candidate rt (clk E 1) a k privacy], representation_bindings s) \<and> asset_refs t = asset_refs s"
proof -
  let ?r = "new_candidate rt (clk E 1) a k privacy"
  have k: "re_representation_id ?r = k" by (simp add: new_candidate_def)
  from assms obtain s1 s2 e u where i: "insert_representation ?r s = Inr s1"
    and e: "emit_event rt cat (ids E 1) (clk E 2) e s1 = Inr s2"
    and u: "append_audit rt key (ids E 2) (clk E 3) u s2 = Inr t" and "k' = k"
    unfolding add_candidate_def Let_def by (auto simp only: bindE_Inr_conv sum.inject prod.inject)
  from i k have "k \<notin> tkeys re_representation_id (representations s)" "s1 = s\<lparr>representations := representations s @ [?r]\<rparr>"
    by (auto simp: insert_representation_def result_simps)
  with \<open>k' = k\<close> emit_event_frame [OF e] append_audit_frame [OF u] show ?thesis by auto
qed

lemma create_candidate_Inr:
  assumes "create_candidate rt key cat B E a s = Inr (k, t)"
  obtains privacy s1 where "check_candidate B (str_or (cd_representation_id a) (ids E 0)) a = Inr ()" and "check_candidate_asset a s = Inr ()"
    and "effective_privacy_inheritance rt B (cd_tenant_id a) (cd_project_id a) (cd_asset_id a) (cd_provenance a)
      (cd_privacy_inheritance a) s = Inr (privacy, s1)"
    and "t = s1 \<and> get_representation s k \<noteq> None \<or>
      add_candidate rt key cat E a (str_or (cd_representation_id a) (ids E 0)) privacy s1 = Inr (k, t)"
proof -
  let ?k = "str_or (cd_representation_id a) (ids E 0)"
  from assms obtain privacy s1 where 1: "check_candidate B ?k a = Inr ()" "check_candidate_asset a s = Inr ()"
    "effective_privacy_inheritance rt B (cd_tenant_id a) (cd_project_id a) (cd_asset_id a) (cd_provenance a)
      (cd_privacy_inheritance a) s = Inr (privacy, s1)"
    and f: "(case (if truthy_str (cd_operation_id a)
                 then representation_of_operation (cd_tenant_id a) (cd_project_id a) (str_or (cd_operation_id a) []) s1 else None) of
        Some existing \<Rightarrow>
          if \<not> same_candidate rt a privacy existing then Inl (ConflictError ''REPRESENTATION_OPERATION_CONFLICT'' [])
          else if re_representation_id existing \<noteq> ?k
          then Inl (ConflictError ''REPRESENTATION_IDEMPOTENCY_CONFLICT'' [])
          else Inr (re_representation_id existing, s1)
      | None \<Rightarrow>
          if get_representation s1 ?k \<noteq> None
          then Inl (ConflictError ''REPRESENTATION_ID_CONFLICT'' [(''representation_id'', JStr ?k)])
          else add_candidate rt key cat E a ?k privacy s1) = Inr (k, t)"
    unfolding create_candidate_def Let_def
    by (simp only: bindE_Inr_conv raise_if_Inr_conv split_paired_Ex ex_unit prod.case) blast
  from effective_privacy_frame [OF 1(3)] have g: "get_representation s1 = get_representation s"
    by (auto simp: get_representation_def [abs_def])
  have "t = s1 \<and> get_representation s k \<noteq> None \<or> add_candidate rt key cat E a ?k privacy s1 = Inr (k, t)"
  proof (cases "if truthy_str (cd_operation_id a)
      then representation_of_operation (cd_tenant_id a) (cd_project_id a) (str_or (cd_operation_id a) []) s1 else None")
    case None
    with f show ?thesis by (simp add: raise_if_Inr_conv)
  next
    case (Some x)
    with f have "t = s1" "k = re_representation_id x" by (auto simp: raise_if_Inr_conv)
    moreover from Some have "x \<in> set (representations s1)"
      by (auto simp: representation_of_operation_def find_Some_iff split: if_splits)
    then have "get_representation s1 (re_representation_id x) \<noteq> None"
      unfolding get_representation_def tget_None_iff not_not tkeys_def by (rule imageI)
    ultimately show ?thesis using g by simp
  qed
  with 1 that show thesis by blast
qed

lemma create_candidate_move:
  assumes "create_candidate rt key cat B E a s = Inr (k, t)"
  shows "publication_move\<^sup>*\<^sup>* (tables s) (tables t)"
proof -
  let ?k = "str_or (cd_representation_id a) (ids E 0)"
  from assms obtain privacy s1 where c: "check_candidate B ?k a = Inr ()"
    and p: "effective_privacy_inheritance rt B (cd_tenant_id a) (cd_project_id a) (cd_asset_id a) (cd_provenance a)
      (cd_privacy_inheritance a) s = Inr (privacy, s1)"
    and t: "t = s1 \<and> get_representation s k \<noteq> None \<or> add_candidate rt key cat E a ?k privacy s1 = Inr (k, t)"
    by (rule create_candidate_Inr)
  from effective_privacy_frame [OF p] have s1: "tables s1 = tables s" by auto
  from t show ?thesis
  proof
    assume "t = s1 \<and> get_representation s k \<noteq> None"
    with s1 show ?thesis by simp
  next
    assume "add_candidate rt key cat E a ?k privacy s1 = Inr (k, t)"
    from add_candidate_Inr [OF this] s1 have f: "?k \<notin> tkeys re_representation_id (representations s)"
      and t: "tables t = (representations s @ [new_candidate rt (clk E 1) a ?k privacy], representation_bindings s)" by simp_all
    have "re_representation_id (new_candidate rt (clk E 1) a ?k privacy) = ?k" by (simp add: new_candidate_def)
    with f publication_move.candidate [OF new_candidate_ok [OF c]] show ?thesis unfolding t by (intro r_into_rtranclp) simp
  qed
qed

lemma receipt_step: "rep_step r (r\<lparr>re_provenance_json := p\<rparr>)"
  by (simp add: rep_step_def core_def)

lemma found_row:
  assumes "publication_wf (tables s)" and "representation_of_operation tenant project k s = Some r"
  shows "tget re_representation_id (representations s) (re_representation_id r) = Some r"
proof (rule tget_unique_row)
  show "distinct (map re_representation_id (representations s))" using assms(1) by (simp add: publication_wf_def)
  show "r \<in> set (representations s)" using assms(2) by (auto simp: representation_of_operation_def find_Some_iff)
qed

lemma attach_worker_receipt_move:
  assumes wf: "publication_wf (tables s)"
    and "attach_worker_receipt rt key E tenant project operation_id receipt_hash core_hash actor s = Inr (k, t)"
  shows "publication_move\<^sup>*\<^sup>* (tables s) (tables t)"
proof -
  from assms(2) obtain r p u where r: "representation_of_operation tenant project operation_id s = Some r"
    and t: "append_audit rt key (ids E 0) (clk E 0) u (put_representation (r\<lparr>re_provenance_json := p\<rparr>) s) = Inr t"
    by (auto simp: attach_worker_receipt_def Let_def result_simps split: option.splits if_splits)
  have "tables t = (tput re_representation_id (r\<lparr>re_provenance_json := p\<rparr>) (representations s), representation_bindings s)"
    using append_audit_tables [OF t] by (simp add: put_representation_def)
  with publication_move.step [OF found_row [OF wf r] receipt_step] show ?thesis by auto
qed

lemma review_quality_move:
  assumes "review_quality rt key B E a s = Inr (k, t)"
  shows "publication_move\<^sup>*\<^sup>* (tables s) (tables t)"
proof -
  from assms obtain r q st u where r: "get_representation s (rv_representation_id a) = Some r"
    and o: "re_state r \<in> set open_states" and st: "st = ''approved'' \<or> st = ''quality_failed''"
    and t: "append_audit rt key (ids E 0) (clk E 1) u (put_representation (r\<lparr>re_quality_json := q, re_state := st\<rparr>) s) = Inr t"
    by (auto simp: review_quality_def Let_def result_simps open_states_def split: option.splits if_splits)
  let ?r = "r\<lparr>re_quality_json := q, re_state := st\<rparr>"
  have "rep_step r ?r" using o st by (auto simp: rep_step_def core_def open_states_def)
  moreover have "tables t = (tput re_representation_id ?r (representations s), representation_bindings s)"
    using append_audit_tables [OF t] by (simp add: put_representation_def)
  ultimately show ?thesis
    using r publication_move.step [of "representations s" "rv_representation_id a" r ?r "representation_bindings s"]
    unfolding get_representation_def by auto
qed

lemma replace_proxy_move:
  assumes "replace_proxy old new s = Inr (k, t)"
  shows "publication_move\<^sup>*\<^sup>* (tables s) (tables t)"
proof -
  from assms obtain r m where r: "get_representation s new = Some r"
    and t: "t = (let s1 = put_representation (r\<lparr>re_support_map_json := m\<rparr>) s in
       case get_representation s1 old of None \<Rightarrow> s1 | Some r' \<Rightarrow> put_representation (r'\<lparr>re_state := ''superseded''\<rparr>) s1)"
    by (cases "get_representation s old"; cases "get_representation s new") (auto simp: replace_proxy_def Let_def result_simps)
  let ?s = "put_representation (r\<lparr>re_support_map_json := m\<rparr>) s"
  have "rep_step r (r\<lparr>re_support_map_json := m\<rparr>)" by (simp add: rep_step_def core_def)
  with r have 1: "publication_move (tables s) (tables ?s)"
    unfolding get_representation_def put_representation_def by (simp add: publication_move.step)
  have "rep_step r' (r'\<lparr>re_state := ''superseded''\<rparr>)" for r' by (simp add: rep_step_def core_def)
  then have 2: "publication_move (tables ?s) (tables (put_representation (r'\<lparr>re_state := ''superseded''\<rparr>) ?s))"
    if "get_representation ?s old = Some r'" for r'
    using that publication_move.step [of "representations ?s" old r' "r'\<lparr>re_state := ''superseded''\<rparr>" "representation_bindings ?s"]
    unfolding get_representation_def by (simp add: put_representation_def)
  show ?thesis
  proof (cases "get_representation ?s old")
    case None
    then have "t = ?s" unfolding t Let_def by simp
    with 1 show ?thesis by simp
  next
    case (Some r')
    then have "t = put_representation (r'\<lparr>re_state := ''superseded''\<rparr>) ?s" unfolding t Let_def by simp
    with 1 2 [OF Some] show ?thesis by (auto intro: rtranclp.rtrancl_into_rtrancl)
  qed
qed


lemma authorize_uses_approved:
  assumes "authorize_uses rt B pk now a r revision s = Inr (uses, review)"
  shows "uses_approved r uses"
proof (cases "conversion_of r s")
  case None
  with assms obtain reviewed where "reviewed_uses r = Inr reviewed"
    "sorted_set (filter (\<lambda>u. JStr u \<notin> set reviewed) uses) = []"
    by (auto simp: authorize_uses_def Let_def result_simps)
  then have "approved_by_review reviewed uses"
    by (auto simp: filter_empty_conv approved_by_review_def list_all_iff)
  with \<open>reviewed_uses r = Inr reviewed\<close> show ?thesis unfolding uses_approved_def by blast
next
  case (Some c)
  with assms obtain p rows where "check_uses c r p uses s = Inr rows"
    by (auto simp: authorize_uses_def authorize_governed_publication_def Let_def result_simps)
  then show ?thesis by (auto simp: check_uses_def Let_def result_simps uses_approved_def)
qed

lemma check_publishable_Inr:
  assumes "check_publishable a now s = Inr (r, c)"
  shows "get_representation s (pu_representation_id a) = Some r \<and> get_commit s (pu_commit_id a) = Some c \<and> re_state r = ''approved'' \<and>
    pu_role a \<notin> set (re_prohibited_uses_json r)"
  using assms by (auto simp: check_publishable_def Let_def result_simps split: option.splits)

lemma publish_Inr:
  assumes "publish rt key cat B pk E a s = Inr (k, t)"
  obtains r c uses review p where "\<not> is_worker (pu_publisher_id a)" and "check_publishable a (clk E 0) s = Inr (r, c)"
    and "authorize_uses rt B pk (clk E 4) a r c s = Inr (uses, review)"
    and "publication_policy_of B a (re_privacy_inheritance_json r) = Inr p" and "check_consent B r (clk E 1) p s = Inr ()"
    and "bind_representation rt key cat E a r (new_binding E a r uses review p) s = Inr (k, t)"
  using assms unfolding publish_def
  by (simp only: bindE_Inr_conv raise_if_Inr_conv split_paired_Ex ex_unit prod.case) blast

lemma bind_representation_Inr:
  assumes "bind_representation rt key cat E a r b s = Inr (k, t)"
  shows "k = bi_binding_id b \<and> bi_binding_id b \<notin> tkeys bi_binding_id (representation_bindings s) \<and>
    tables t = (tput re_representation_id (r\<lparr>re_state := ''published''\<rparr>) (representations s),
      retire (same_slot r (pu_role a)) (clk E 2) (representation_bindings s) @ [b])"
proof -
  let ?s = "supersede_bindings (same_slot r (pu_role a)) (clk E 2) s"
  have bs: "representation_bindings ?s = retire (same_slot r (pu_role a)) (clk E 2) (representation_bindings s)"
    and rs: "representations ?s = representations s"
    by (simp_all add: supersede_bindings_def retire_def)
  from assms obtain s2 e u where n: "bi_binding_id b \<notin> tkeys bi_binding_id (representation_bindings ?s)"
    and e: "emit_event rt cat (ids E 1) (clk E 5) e (put_representation (r\<lparr>re_state := ''published''\<rparr>)
        (?s\<lparr>representation_bindings := representation_bindings ?s @ [b]\<rparr>)) = Inr s2"
    and u: "append_audit rt key (ids E 2) (clk E 6) u s2 = Inr t" and "k = bi_binding_id b"
    unfolding bind_representation_def Let_def by (auto simp only: bindE_Inr_conv insert_row_Inr sum.inject prod.inject)
  have "tkeys bi_binding_id (retire P now l) = tkeys bi_binding_id l" for P now l
    unfolding tkeys_def set_map [symmetric] by simp
  with n bs \<open>k = bi_binding_id b\<close> emit_event_tables [OF e] append_audit_tables [OF u] rs show ?thesis
    by (simp add: put_representation_def)
qed

lemma publish_move:
  assumes "publish rt key cat B pk E a s = Inr (k, t)"
  shows "publication_move\<^sup>*\<^sup>* (tables s) (tables t)"
proof -
  from assms obtain r c uses review p where w: "\<not> is_worker (pu_publisher_id a)"
    and c: "check_publishable a (clk E 0) s = Inr (r, c)"
    and u: "authorize_uses rt B pk (clk E 4) a r c s = Inr (uses, review)"
    and b: "bind_representation rt key cat E a r (new_binding E a r uses review p) s = Inr (k, t)"
    by (rule publish_Inr)
  let ?b = "new_binding E a r uses review p"
  note c = check_publishable_Inr [OF c] and b = bind_representation_Inr [OF b]
  have k: "re_representation_id r = pu_representation_id a" and r: "tget re_representation_id (representations s) (pu_representation_id a) = Some r"
    using c tget_SomeD [of re_representation_id "representations s" "pu_representation_id a" r] by (simp_all add: get_representation_def)
  have f: "bi_published_by ?b = pu_publisher_id a" "bi_intended_uses_json ?b = uses" "bi_superseded_at ?b = None"
      "bi_role ?b = pu_role a"
    by (simp_all add: new_binding_def)
  have "binds_as r ?b" using c k by (simp add: binds_as_def new_binding_def)
  from publication_move.publish [OF r _ this, of "representation_bindings s" "clk E 2"] c w b authorize_uses_approved [OF u] f
  show ?thesis by auto
qed

section \<open>Invalidation\<close>

definition depends_on :: "string \<Rightarrow> representation_row \<Rightarrow> bool" where
  "depends_on changed r \<longleftrightarrow> (\<exists>refs. references r = Inr refs \<and> JStr changed \<in> set refs)"

lemma invalidate_one_Inr:
  assumes "invalidate_one rt key cat B E tenant project changed reason actor r (rep, s) = Inr (rep', t)"
  obtains (unrelated) "\<not> depends_on changed r" and "rep' = rep" and "t = s"
  | (withdrawn) plan where "depends_on changed r"
    and "tables t = (tput re_representation_id (invalidated changed reason (clk E 0) plan r) (representations s),
      retire (binds r) (clk E 0) (representation_bindings s))"
    and "ir_invalidated rep' = ir_invalidated rep @ [re_representation_id r]" and "ir_plans rep' = ir_plans rep @ [plan]"
    and "regeneration_plan_of rt B changed reason r = Inr plan"
proof -
  from assms obtain refs where refs: "references r = Inr refs"
    by (auto simp: invalidate_one_def bindE_Inr_conv)
  show thesis
  proof (cases "JStr changed \<in> set refs")
    case False
    with refs have "\<not> depends_on changed r" by (simp add: depends_on_def)
    with assms False refs show thesis by (intro unrelated) (simp_all add: invalidate_one_def)
  next
    case True
    with assms refs obtain plan e s1 u i i' j j' where plan: "regeneration_plan_of rt B changed reason r = Inr plan"
      and e: "emit_event rt cat i i' e (supersede_bindings (binds r) (clk E 0)
         (put_representation (invalidated changed reason (clk E 0) plan r) s)) = Inr s1"
      and u: "append_audit rt key j j' u s1 = Inr t"
      and rep: "ir_invalidated rep' = ir_invalidated rep @ [re_representation_id r]" "ir_plans rep' = ir_plans rep @ [plan]"
      unfolding invalidate_one_def Let_def by (auto simp: bindE_Inr_conv)
    have "tables t = (tput re_representation_id (invalidated changed reason (clk E 0) plan r) (representations s),
      retire (binds r) (clk E 0) (representation_bindings s))"
      using emit_event_tables [OF e] append_audit_tables [OF u]
      by (simp add: supersede_bindings_def put_representation_def retire_def)
    with True refs rep plan show thesis by (intro withdrawn) (simp_all add: depends_on_def)
  qed
qed

lemma invalidated_fields:
  "core (invalidated changed reason now plan r) = core r" "re_quality_json (invalidated changed reason now plan r) = re_quality_json r"
  "re_state (invalidated changed reason now plan r) = ''invalidated''"
  "re_deprecated_at (invalidated changed reason now plan r) = Some now"
  "re_representation_id (invalidated changed reason now plan r) = re_representation_id r"
  by (simp_all add: invalidated_def core_def)

text \<open>What the loop over the rows leaves.\<close>

definition withdrawn_from ::
  "string \<Rightarrow> time \<Rightarrow> representation_row list \<Rightarrow> publication_tables \<Rightarrow> publication_tables \<Rightarrow> bool" where
  "withdrawn_from changed now rows x y \<longleftrightarrow>
     (\<forall>r\<in>set rows. depends_on changed r \<longrightarrow> (\<exists>r'. tget re_representation_id (fst y) (re_representation_id r) = Some r' \<and>
        core r' = core r \<and> re_state r' = ''invalidated'' \<and> re_deprecated_at r' = Some now)) \<and>
     (\<forall>k. k \<notin> re_representation_id ` {r \<in> set rows. depends_on changed r} \<longrightarrow>
        tget re_representation_id (fst y) k = tget re_representation_id (fst x) k) \<and>
     snd y = retire (\<lambda>b. \<exists>r\<in>set rows. depends_on changed r \<and> binds r b) now (snd x)"

lemma retire_retire:
  assumes "\<And>b. Q b \<Longrightarrow> bi_superseded_at b = None"
  shows "retire Q now (retire P now bs) = retire (\<lambda>b. P b \<or> Q b) now bs"
  unfolding retire_def map_map by (rule map_cong) (use assms in force)+

lemma retire_never: "(\<And>b. \<not> P b) \<Longrightarrow> retire P now bs = bs"
  by (simp add: retire_def)

lemma retire_cong: "(\<And>b. P b = Q b) \<Longrightarrow> retire P now bs = retire Q now bs"
  by (simp add: retire_def)

lemma withdrawn_none: "withdrawn_from changed now [] x x"
  by (simp add: withdrawn_from_def retire_never)

lemma withdrawn_skip:
  assumes "\<not> depends_on changed r" and "withdrawn_from changed now rows x y"
  shows "withdrawn_from changed now (r # rows) x y"
proof -
  have "{x \<in> set (r # rows). depends_on changed x} = {x \<in> set rows. depends_on changed x}" using assms(1) by auto
  moreover have "(\<exists>x\<in>set (r # rows). depends_on changed x \<and> binds x b) = (\<exists>x\<in>set rows. depends_on changed x \<and> binds x b)" for b
    using assms(1) by auto
  ultimately show ?thesis using assms unfolding withdrawn_from_def by simp
qed

lemma withdrawn_Cons:
  assumes dep: "depends_on changed r" and r: "tget re_representation_id reps (re_representation_id r) = Some r"
    and r': "core r' = core r" "re_state r' = ''invalidated''" "re_deprecated_at r' = Some now"
    and new: "re_representation_id r \<notin> re_representation_id ` set rows"
    and w: "withdrawn_from changed now rows (tput re_representation_id r' reps, retire (binds r) now bs) y"
  shows "withdrawn_from changed now (r # rows) (reps, bs) y"
  unfolding withdrawn_from_def
proof (intro conjI ballI allI impI)
  have k: "re_representation_id r' = re_representation_id r" by (rule core_fields(1) [OF r'(1)])
  have other: "tget re_representation_id (fst y) k = tget re_representation_id (tput re_representation_id r' reps) k"
    if "k \<notin> re_representation_id ` {x \<in> set rows. depends_on changed x}" for k
    using w that unfolding withdrawn_from_def fst_conv by blast
  have "re_representation_id r \<notin> re_representation_id ` {x \<in> set rows. depends_on changed x}" using new by auto
  from other [OF this] have y: "tget re_representation_id (fst y) (re_representation_id r) = Some r'"
    using tget_tput_same [OF k r] by simp
  show "\<exists>x'. tget re_representation_id (fst y) (re_representation_id x) = Some x' \<and> core x' = core x \<and> re_state x' = ''invalidated'' \<and>
      re_deprecated_at x' = Some now" if x: "x \<in> set (r # rows)" "depends_on changed x" for x
  proof (cases "x = r")
    case True
    with y r' show ?thesis by (intro exI [of _ r']) (simp only: simp_thms)
  next
    case False
    with x w show ?thesis unfolding withdrawn_from_def by (simp only: set_simps insert_iff) blast
  qed
  show "tget re_representation_id (fst y) k = tget re_representation_id (fst (reps, bs)) k"
    if n: "k \<notin> re_representation_id ` {x \<in> set (r # rows). depends_on changed x}" for k
  proof -
    from n dep have "k \<notin> re_representation_id ` {x \<in> set rows. depends_on changed x}" and "re_representation_id r' \<noteq> k"
      using k by auto
    from other [OF this(1)] tget_tput_other [where key = re_representation_id, OF this(2), of reps] show ?thesis by simp
  qed
  have "snd y = retire (\<lambda>b. \<exists>r\<in>set rows. depends_on changed r \<and> binds r b) now (retire (binds r) now bs)"
    using w unfolding withdrawn_from_def by simp
  also have "\<dots> = retire (\<lambda>b. binds r b \<or> (\<exists>r\<in>set rows. depends_on changed r \<and> binds r b)) now bs"
    by (rule retire_retire) (auto simp: binds_def)
  also have "\<dots> = retire (\<lambda>b. \<exists>x\<in>set (r # rows). depends_on changed x \<and> binds x b) now bs"
    by (rule retire_cong) (use dep in auto)
  finally show "snd y = retire (\<lambda>b. \<exists>x\<in>set (r # rows). depends_on changed x \<and> binds x b) now (snd (reps, bs))" by simp
qed

lemma invalidation_loop:
  assumes "foldE (invalidate_one rt key cat B E tenant project changed reason actor) rows (rep, s) = Inr (rep', t)"
    and "distinct (map re_representation_id rows)"
    and "\<forall>r\<in>set rows. tget re_representation_id (representations s) (re_representation_id r) = Some r \<and> re_deprecated_at r = None"
  shows "publication_move\<^sup>*\<^sup>* (tables s) (tables t) \<and> withdrawn_from changed (clk E 0) rows (tables s) (tables t) \<and>
    ir_invalidated rep' = ir_invalidated rep @ map re_representation_id (filter (depends_on changed) rows)"
  using assms
proof (induction rows arbitrary: rep s)
  case Nil
  then show ?case by (simp add: withdrawn_none)
next
  case (Cons r rows)
  from Cons.prems(1) obtain rep1 s1 where 1: "invalidate_one rt key cat B E tenant project changed reason actor r (rep, s) = Inr (rep1, s1)"
    and 2: "foldE (invalidate_one rt key cat B E tenant project changed reason actor) rows (rep1, s1) = Inr (rep', t)"
    by (auto simp: bindE_Inr_conv)
  from 1 show ?case
  proof (cases rule: invalidate_one_Inr)
    case unrelated
    with Cons.IH [OF 2] Cons.prems(2,3) show ?thesis by (simp add: withdrawn_skip)
  next
    case (withdrawn plan)
    let ?r = "invalidated changed reason (clk E 0) plan r"
    have r: "tget re_representation_id (representations s) (re_representation_id r) = Some r" "re_deprecated_at r = None"
      and new: "re_representation_id r \<notin> re_representation_id ` set rows" using Cons.prems(2,3) by simp_all
    have "tget re_representation_id (representations s1) (re_representation_id x) = Some x \<and> re_deprecated_at x = None" if "x \<in> set rows" for x
    proof -
      have "re_representation_id ?r \<noteq> re_representation_id x" using new that unfolding invalidated_fields by auto
      moreover have "representations s1 = tput re_representation_id ?r (representations s)" using withdrawn(2) by simp
      ultimately show ?thesis using Cons.prems(3) that by (simp add: tget_tput_other)
    qed
    then have ih: "publication_move\<^sup>*\<^sup>* (tables s1) (tables t) \<and> withdrawn_from changed (clk E 0) rows (tables s1) (tables t) \<and>
        ir_invalidated rep' = ir_invalidated rep1 @ map re_representation_id (filter (depends_on changed) rows)"
      using Cons.IH [OF 2] Cons.prems(2) by simp
    have "publication_move (tables s) (tables s1)"
      unfolding withdrawn(2) by (rule publication_move.invalidate [OF r]) (rule invalidated_fields)+
    with ih have "publication_move\<^sup>*\<^sup>* (tables s) (tables t)" by (auto intro: converse_rtranclp_into_rtranclp)
    moreover have "withdrawn_from changed (clk E 0) (r # rows) (tables s) (tables t)"
    proof (rule withdrawn_Cons [OF withdrawn(1) r(1) invalidated_fields(1,3,4) new])
      show "withdrawn_from changed (clk E 0) rows (tput re_representation_id ?r (representations s),
          retire (binds r) (clk E 0) (representation_bindings s)) (tables t)"
        using ih unfolding withdrawn(2) by blast
    qed
    ultimately show ?thesis using ih withdrawn(1,3) by simp
  qed
qed

lemma invalidation_session_Inr:
  assumes "publication_wf (tables s)" and "invalidation_session rt key cat B E tenant project changed reason actor s = Inr (report, t)"
    and "rows = filter (\<lambda>r. re_tenant_id r = tenant \<and> re_project_id r = project \<and> re_deprecated_at r = None) (representations s)"
  shows "publication_move\<^sup>*\<^sup>* (tables s) (tables t) \<and> withdrawn_from changed (clk E 0) rows (tables s) (tables t) \<and>
    ir_invalidated report = map re_representation_id (filter (depends_on changed) rows)"
proof -
  have d: "distinct (map re_representation_id (representations s))" using assms(1) by (simp add: publication_wf_def)
  then have "distinct (map re_representation_id rows)" unfolding assms(3) by (rule distinct_map_filter)
  moreover have "\<forall>r\<in>set rows. tget re_representation_id (representations s) (re_representation_id r) = Some r \<and> re_deprecated_at r = None"
    using tget_unique_row [OF d] by (simp add: assms(3))
  ultimately show ?thesis
    using invalidation_loop assms(2) unfolding invalidation_session_def assms(3) [symmetric] by fastforce
qed

lemma publication_step_refines:
  assumes wf: "publication_wf (tables s)" and st: "publication_step rt key cat B pk s e = Inr t"
  shows "publication_move\<^sup>*\<^sup>* (tables s) (tables t)"
proof (cases e)
  case (Invalidate E tenant project changed reason actor requeue)
  show ?thesis
  proof (cases "reason = []")
    case True
    with st Invalidate show ?thesis by (simp add: invalidate_dependencies_def)
  next
    case False
    show ?thesis
    proof (cases "invalidation_session rt key cat B E tenant project changed reason actor s")
      case (Inl x)
      with False st Invalidate show ?thesis by (simp add: invalidate_dependencies_def session_def)
    next
      case (Inr x)
      then obtain report u where u: "invalidation_session rt key cat B E tenant project changed reason actor s = Inr (report, u)"
        by (cases x) simp
      with False st Invalidate have "t = u" by (auto simp: invalidate_dependencies_def session_def split: if_splits)
      with invalidation_session_Inr [OF wf u refl] show ?thesis by simp
    qed
  qed
qed (use st wf in \<open>auto simp: bindE_Inr_conv intro: create_candidate_move attach_worker_receipt_move review_quality_move
      replace_proxy_move publish_move\<close>)

interpretation publishing: monotone_component "publication_step rt key cat B pk" "\<lambda>s. publication_wf (tables s)"
    "\<lambda>s t. publication_below (tables s) (tables t)"
  for rt key cat B pk
  by unfold_locales (blast intro: publication_moves publication_step_refines publication_below_refl publication_below_trans)+

end
