(* ===== verification/Review_History.thy ===== *)
theory Review_History
  imports Publication_Safety
begin

text \<open>
  Where the approved uses of a representation come from. \<open>publish\<close> reads them from
  \<open>quality_json.review.approved_uses\<close>, a record that \<open>review_quality\<close> extends and that
  \<open>create_candidate\<close> takes over from its caller unread. The theory traces every use in that record
  back through any sequence of calls: to a passing review by someone who is not a worker, to the
  caller who created the candidate, or to the state the calls started from.
\<close>

section \<open>The uses a quality record states\<close>

text \<open>The approved uses in a quality record, as \<open>review_quality\<close> reads them.\<close>

definition stated_uses :: "builtins \<Rightarrow> fields \<Rightarrow> string set" where
  "stated_uses B quality =
     (case bindE (py_dict B (jget_or quality ''review'' (JObj []))) (\<lambda>prior. strs B (jget_or prior ''approved_uses'' (JArr []))) of
        Inr uses \<Rightarrow> set uses | Inl _ \<Rightarrow> {})"

definition quality_of :: "representation_row list \<Rightarrow> string \<Rightarrow> fields option" where
  "quality_of reps k = map_option re_quality_json (tget re_representation_id reps k)"

definition stored_uses :: "builtins \<Rightarrow> db \<Rightarrow> string \<Rightarrow> string set" where
  "stored_uses B s k = (case quality_of (representations s) k of None \<Rightarrow> {} | Some quality \<Rightarrow> stated_uses B quality)"

text \<open>A review in the history of the calls that returned, passed and approved the use, by a reviewer who
  is not a worker; and a candidate that was created with the use already stated as approved.\<close>

definition approved_in ::
  "runtime \<Rightarrow> string \<Rightarrow> event_catalog \<Rightarrow> builtins \<Rightarrow> string \<Rightarrow> db \<Rightarrow> publication_call list \<Rightarrow> string \<Rightarrow> string \<Rightarrow> bool" where
  "approved_in rt key cat B pk s calls k u \<longleftrightarrow> (\<exists>before E a after out t. calls = before @ Review E a # after \<and>
     review_quality rt key B E a (run (publication_step rt key cat B pk) before s) = Inr (out, t) \<and>
     rv_representation_id a = k \<and> rv_passed a \<and> u \<in> set (rv_approved_uses a) \<and> \<not> prefix ''sip-worker:'' (rv_reviewer_id a))"

definition stated_in ::
  "runtime \<Rightarrow> string \<Rightarrow> event_catalog \<Rightarrow> builtins \<Rightarrow> string \<Rightarrow> db \<Rightarrow> publication_call list \<Rightarrow> string \<Rightarrow> string \<Rightarrow> bool" where
  "stated_in rt key cat B pk s calls k u \<longleftrightarrow> (\<exists>before E a after t. calls = before @ Candidate E a # after \<and>
     create_candidate rt key cat B E a (run (publication_step rt key cat B pk) before s) = Inr (k, t) \<and>
     u \<in> stated_uses B (cd_quality a))"

lemma reviewed_stated:
  assumes "reviewed_uses r = Inr reviewed" and "JStr u \<in> set reviewed"
  shows "u \<in> stated_uses B (re_quality_json r)"
proof -
  from assms(1) obtain prior where p: "jget_or (re_quality_json r) ''review'' (JObj []) = JObj prior"
    and i: "iterate (jget_or prior ''approved_uses'' (JArr [])) = Inr reviewed"
    by (auto simp: reviewed_uses_def attr_get_def members_def bindE_Inr_conv split: json.splits if_splits)
  from assms(2) have "u \<in> json_str (bt_str B) ` set reviewed"
    by (intro image_eqI [of _ _ "JStr u"]) (simp_all add: json_str_def)
  with p i show ?thesis by (simp add: stated_uses_def py_dict_def strs_def)
qed

lemma merge_review_stated:
  assumes "merge_review rt B now a quality = Inr (merged, q)"
  shows "stated_uses B q = stated_uses B quality \<union> set (newly_approved a)"
proof -
  from assms obtain prior approved review where
    o: "py_dict B (jget_or quality ''review'' (JObj [])) = Inr prior" "strs B (jget_or prior ''approved_uses'' (JArr [])) = Inr approved"
    and q: "q = jset ''review'' (JObj review) quality" "jget_or review ''approved_uses'' (JArr []) = jarr (sorted_set (approved @ newly_approved a))"
    by (auto simp: merge_review_def Let_def bindE_Inr_conv jget_or_def)
  then have "jget_or q ''review'' (JObj []) = JObj review" by (simp add: jget_or_def map_of_jset)
  with o q(2) show ?thesis by (simp add: stated_uses_def py_dict_def strs_def iterate_def comp_def json_str_def)
qed

section \<open>What each call does to the record\<close>

lemma quality_tput:
  assumes "tget re_representation_id reps (re_representation_id r') = Some r"
  shows "quality_of (tput re_representation_id r' reps) k
    = (if k = re_representation_id r' then Some (re_quality_json r') else quality_of reps k)"
proof (cases "k = re_representation_id r'")
  case True
  with tget_tput_same [OF refl assms] show ?thesis by (simp add: quality_of_def)
next
  case False
  then have "re_representation_id r' \<noteq> k" by simp
  from tget_tput_other [where key = re_representation_id, OF this] False show ?thesis by (simp add: quality_of_def)
qed

lemma quality_kept:
  assumes "tget re_representation_id reps (re_representation_id r') = Some r" and "re_quality_json r' = re_quality_json r"
  shows "quality_of (tput re_representation_id r' reps) = quality_of reps"
  using quality_tput [OF assms(1)] assms by (auto simp: quality_of_def)

lemma create_candidate_quality:
  assumes "create_candidate rt key cat B E a s = Inr (k, t)"
  shows "quality_of (representations t) = quality_of (representations s)
    \<or> quality_of (representations t) = (quality_of (representations s))(k \<mapsto> cd_quality a)"
proof -
  from assms obtain privacy s1 where p: "effective_privacy_inheritance rt B (cd_tenant_id a) (cd_project_id a) (cd_asset_id a) (cd_provenance a)
      (cd_privacy_inheritance a) s = Inr (privacy, s1)"
    and t: "t = s1 \<and> get_representation s k \<noteq> None \<or>
      add_candidate rt key cat E a (str_or (cd_representation_id a) (ids E 0)) privacy s1 = Inr (k, t)"
    by (rule create_candidate_Inr)
  from effective_privacy_frame [OF p] have s1: "representations s1 = representations s" by auto
  from t show ?thesis
  proof
    assume "add_candidate rt key cat E a (str_or (cd_representation_id a) (ids E 0)) privacy s1 = Inr (k, t)"
    from add_candidate_Inr [OF this] s1 have "representations t = representations s @ [new_candidate rt (clk E 1) a k privacy]"
      "k \<notin> tkeys re_representation_id (representations s)" by auto
    then have "quality_of (representations t) = (quality_of (representations s))(k \<mapsto> cd_quality a)"
      by (auto simp: quality_of_def fun_eq_iff tget_append tget_Cons new_candidate_def tget_None_iff [symmetric] split: option.splits)
    then show ?thesis ..
  qed (use s1 in simp)
qed

lemma receipt_quality:
  assumes "publication_wf (tables s)"
    and "attach_worker_receipt rt key E tenant project operation_id receipt_hash core_hash actor s = Inr (k, t)"
  shows "quality_of (representations t) = quality_of (representations s)"
proof -
  from assms(2) obtain r p u where r: "representation_of_operation tenant project operation_id s = Some r"
    and t: "append_audit rt key (ids E 0) (clk E 0) u (put_representation (r\<lparr>re_provenance_json := p\<rparr>) s) = Inr t"
    by (auto simp: attach_worker_receipt_def Let_def result_simps split: option.splits if_splits)
  have "representations t = tput re_representation_id (r\<lparr>re_provenance_json := p\<rparr>) (representations s)"
    using append_audit_tables [OF t] by (simp add: put_representation_def)
  with found_row [OF assms(1) r] show ?thesis by (simp add: quality_kept)
qed

lemma replace_proxy_quality:
  assumes "replace_proxy old new s = Inr (k, t)"
  shows "quality_of (representations t) = quality_of (representations s)"
proof -
  from assms obtain r m where r: "get_representation s new = Some r"
    and t: "t = (let s1 = put_representation (r\<lparr>re_support_map_json := m\<rparr>) s in
       case get_representation s1 old of None \<Rightarrow> s1 | Some r' \<Rightarrow> put_representation (r'\<lparr>re_state := ''superseded''\<rparr>) s1)"
    by (cases "get_representation s old"; cases "get_representation s new") (auto simp: replace_proxy_def Let_def result_simps)
  have put: "quality_of (representations (put_representation x' s)) = quality_of (representations s)"
    if "get_representation s j = Some x" "re_representation_id x' = re_representation_id x" "re_quality_json x' = re_quality_json x" for j x x' s
    using that tget_SomeD [of re_representation_id "representations s" j x]
    by (simp add: put_representation_def get_representation_def quality_kept)
  show ?thesis
    unfolding t Let_def by (split option.split) (use put [OF r] put in simp)
qed

lemma publish_quality:
  assumes "publish rt key cat B pk E a s = Inr (k, t)"
  shows "quality_of (representations t) = quality_of (representations s)"
proof -
  from assms obtain r c uses review p where c: "check_publishable a (clk E 0) s = Inr (r, c)"
    and b: "bind_representation rt key cat E a r (new_binding E a r uses review p) s = Inr (k, t)"
    by (rule publish_Inr)
  from check_publishable_Inr [OF c] tget_SomeD [of re_representation_id "representations s" "pu_representation_id a" r]
  have "tget re_representation_id (representations s) (re_representation_id (r\<lparr>re_state := ''published''\<rparr>)) = Some r"
    by (simp add: get_representation_def)
  from quality_kept [OF this] bind_representation_Inr [OF b] show ?thesis by simp
qed

lemma invalidation_quality:
  assumes "foldE (invalidate_one rt key cat B E tenant project changed reason actor) rows (rep, s) = Inr (rep', t)"
    and "distinct (map re_representation_id rows)"
    and "\<forall>r\<in>set rows. tget re_representation_id (representations s) (re_representation_id r) = Some r"
  shows "quality_of (representations t) = quality_of (representations s)"
  using assms
proof (induction rows arbitrary: rep s)
  case (Cons r rows)
  from Cons.prems(1) obtain rep1 s1 where 1: "invalidate_one rt key cat B E tenant project changed reason actor r (rep, s) = Inr (rep1, s1)"
    and 2: "foldE (invalidate_one rt key cat B E tenant project changed reason actor) rows (rep1, s1) = Inr (rep', t)"
    by (auto simp: bindE_Inr_conv)
  have r: "tget re_representation_id (representations s) (re_representation_id r) = Some r" using Cons.prems(3) by simp
  from 1 show ?case
  proof (cases rule: invalidate_one_Inr)
    case unrelated
    with Cons.IH [OF 2] Cons.prems(2,3) show ?thesis by simp
  next
    case (withdrawn plan)
    let ?r = "invalidated changed reason (clk E 0) plan r"
    have s1: "representations s1 = tput re_representation_id ?r (representations s)" using withdrawn(2) by simp
    have "tget re_representation_id (representations s1) (re_representation_id x) = Some x" if "x \<in> set rows" for x
    proof -
      have "re_representation_id ?r \<noteq> re_representation_id x" using Cons.prems(2) that unfolding invalidated_fields by auto
      with Cons.prems(3) that show ?thesis by (simp add: s1 tget_tput_other)
    qed
    then have "quality_of (representations t) = quality_of (representations s1)" using Cons.IH [OF 2] Cons.prems(2) by simp
    also have "\<dots> = quality_of (representations s)" unfolding s1 by (rule quality_kept) (simp_all add: invalidated_fields r)
    finally show ?thesis .
  qed
qed simp

lemma invalidate_quality:
  assumes wf: "publication_wf (tables s)"
  shows "quality_of (representations (snd (invalidate_dependencies rt key cat B E tenant project changed reason actor requeue s)))
    = quality_of (representations s)"
proof (cases "invalidation_session rt key cat B E tenant project changed reason actor s")
  case (Inl e)
  then show ?thesis by (simp add: invalidate_dependencies_def session_def)
next
  case (Inr x)
  then obtain report u where u: "invalidation_session rt key cat B E tenant project changed reason actor s = Inr (report, u)"
    by (cases x) simp
  let ?rows = "filter (\<lambda>r. re_tenant_id r = tenant \<and> re_project_id r = project \<and> re_deprecated_at r = None) (representations s)"
  have d: "distinct (map re_representation_id (representations s))" using wf by (simp add: publication_wf_def)
  have "quality_of (representations u) = quality_of (representations s)"
    using invalidation_quality [of rt key cat B E tenant project changed reason actor ?rows _ s report u] u distinct_map_filter [OF d] tget_unique_row [OF d]
    unfolding invalidation_session_def by fastforce
  with u show ?thesis by (simp add: invalidate_dependencies_def session_def split: if_splits)
qed

lemma review_quality_Inr:
  assumes "review_quality rt key B E a s = Inr (out, t)"
  shows "\<not> is_worker (rv_reviewer_id a) \<and> stored_uses B t k =
    (if k = rv_representation_id a then stored_uses B s k \<union> set (newly_approved a) else stored_uses B s k)"
proof -
  from assms obtain r m q st u where r: "get_representation s (rv_representation_id a) = Some r" and w: "\<not> is_worker (rv_reviewer_id a)"
    and m: "merge_review rt B (clk E 0) a (re_quality_json r) = Inr (m, q)"
    and t: "append_audit rt key (ids E 0) (clk E 1) u (put_representation (r\<lparr>re_quality_json := q, re_state := st\<rparr>) s) = Inr t"
    by (auto simp: review_quality_def Let_def result_simps split: option.splits if_splits)
  have k: "re_representation_id r = rv_representation_id a" and g: "tget re_representation_id (representations s) (rv_representation_id a) = Some r"
    using r tget_SomeD [of re_representation_id "representations s" "rv_representation_id a" r] by (simp_all add: get_representation_def)
  have "representations t = tput re_representation_id (r\<lparr>re_quality_json := q, re_state := st\<rparr>) (representations s)"
    using append_audit_tables [OF t] by (simp add: put_representation_def)
  moreover have "quality_of (representations s) (rv_representation_id a) = Some (re_quality_json r)" using g by (simp add: quality_of_def)
  ultimately show ?thesis
    using w merge_review_stated [OF m] g k by (simp add: stored_uses_def quality_tput)
qed

section \<open>Every stored use has an origin\<close>

lemma publication_step_uses:
  assumes wf: "publication_wf (tables s)" and st: "publication_step rt key cat B pk s e = Inr t" and u: "u \<in> stored_uses B t k"
  shows "u \<in> stored_uses B s k \<or>
    (\<exists>E a out. e = Review E a \<and> review_quality rt key B E a s = Inr (out, t) \<and> rv_representation_id a = k \<and> rv_passed a \<and>
       u \<in> set (rv_approved_uses a) \<and> \<not> is_worker (rv_reviewer_id a)) \<or>
    (\<exists>E a. e = Candidate E a \<and> create_candidate rt key cat B E a s = Inr (k, t) \<and> u \<in> stated_uses B (cd_quality a))"
proof -
  have keep: "u \<in> stored_uses B s k" if "quality_of (representations t) = quality_of (representations s)"
    using u that by (simp add: stored_uses_def)
  show ?thesis
  proof (cases e)
    case (Candidate E a)
    with st obtain j where c: "create_candidate rt key cat B E a s = Inr (j, t)" by (auto simp: bindE_Inr_conv)
    from create_candidate_quality [OF c] show ?thesis
    proof
      assume q: "quality_of (representations t) = (quality_of (representations s))(j \<mapsto> cd_quality a)"
      show ?thesis
      proof (cases "k = j")
        case True
        with u q have "u \<in> stated_uses B (cd_quality a)" by (simp add: stored_uses_def)
        with Candidate c True show ?thesis by blast
      next
        case False
        with u q show ?thesis by (simp add: stored_uses_def)
      qed
    qed (use keep in blast)
  next
    case (Review E a)
    with st obtain out where r: "review_quality rt key B E a s = Inr (out, t)" by (auto simp: bindE_Inr_conv)
    from review_quality_Inr [OF r, of k] u Review r show ?thesis by (auto simp: newly_approved_def split: if_splits)
  next
    case (Receipt E tenant project operation_id receipt_hash core_hash actor)
    with st keep receipt_quality [OF wf] show ?thesis by (auto simp: bindE_Inr_conv)
  next
    case (Invalidate E tenant project changed reason actor requeue)
    with st keep invalidate_quality [OF wf] show ?thesis by auto
  next
    case (Replace_Proxy old new)
    with st keep replace_proxy_quality show ?thesis by (auto simp: bindE_Inr_conv)
  next
    case (Publish E a)
    with st keep publish_quality show ?thesis by (auto simp: bindE_Inr_conv)
  next
    case (Rest_Of_Database d)
    with st keep show ?thesis by auto
  qed
qed

lemma history_snoc:
  "approved_in rt key cat B pk s calls k u \<Longrightarrow> approved_in rt key cat B pk s (calls @ [e]) k u"
  "stated_in rt key cat B pk s calls k u \<Longrightarrow> stated_in rt key cat B pk s (calls @ [e]) k u"
  unfolding approved_in_def stated_in_def by (metis append.assoc append_Cons)+

lemma stored_use_origin:
  assumes wf: "publication_wf (tables s)" and "u \<in> stored_uses B (run (publication_step rt key cat B pk) calls s) k"
  shows "approved_in rt key cat B pk s calls k u \<or> stated_in rt key cat B pk s calls k u \<or> u \<in> stored_uses B s k"
  using assms(2)
proof (induction calls rule: rev_induct)
  case (snoc e calls)
  let ?s = "run (publication_step rt key cat B pk) calls s"
  have old: ?case if "u \<in> stored_uses B ?s k" using snoc.IH [OF that] history_snoc by blast
  show ?case
  proof (cases "publication_step rt key cat B pk ?s e")
    case (Inl x)
    with snoc.prems old show ?thesis by (simp add: run_append settle_def)
  next
    case (Inr t)
    with snoc.prems have u: "u \<in> stored_uses B t k" by (simp add: run_append settle_def)
    from publication_step_uses [OF publishing.run_inv [OF wf] Inr u] old show ?thesis
      unfolding approved_in_def stated_in_def is_worker_def by blast
  qed
qed simp

lemma bound_use_origin:
  assumes wf: "publication_wf (tables s)" and "t = run (publication_step rt key cat B pk) calls s"
    and "get_representation t k = Some r" and "reviewed_uses r = Inr reviewed" and "JStr u \<in> set reviewed"
  shows "approved_in rt key cat B pk s calls k u \<or> stated_in rt key cat B pk s calls k u \<or> u \<in> stored_uses B s k"
proof (rule stored_use_origin [OF wf])
  show "u \<in> stored_uses B (run (publication_step rt key cat B pk) calls s) k"
    using reviewed_stated [OF assms(4,5)] assms(2,3) by (simp add: stored_uses_def quality_of_def get_representation_def)
qed

text \<open>Nothing is stated in advance when no candidate is created with approved uses.\<close>

lemma never_stated:
  assumes "\<forall>E a. Candidate E a \<in> set calls \<longrightarrow> stated_uses B (cd_quality a) = {}"
  shows "\<not> stated_in rt key cat B pk s calls k u"
  using assms unfolding stated_in_def by fastforce

end
