(* ===== verification/Published_Scenes.thy ===== *)
theory Published_Scenes
  imports Review_History
begin

text \<open>
  The properties of representations and their publication: the life of a representation, what a
  binding rests on, what a candidate inherits from its sources, what a view is served and what an
  invalidation withdraws.
\<close>

section \<open>The life of a representation\<close>

lemma publication_run_refines:
  "publication_wf (tables s) \<Longrightarrow> publication_move\<^sup>*\<^sup>* (tables s) (tables (run (publication_step rt key cat B pk) calls s))"
proof (induction calls arbitrary: s)
  case (Cons e calls)
  let ?u = "settle (publication_step rt key cat B pk) s e"
  have "publication_move\<^sup>*\<^sup>* (tables s) (tables ?u)"
    using publication_step_refines [OF Cons.prems] by (auto simp: settle_def split: sum.split)
  moreover have "publication_move\<^sup>*\<^sup>* (tables ?u) (tables (run (publication_step rt key cat B pk) calls ?u))"
    by (rule Cons.IH) (rule publishing.settle_inv [OF Cons.prems])
  ultimately show ?case by (simp add: rtranclp_trans)
qed simp

text \<open>
  C20. Every sequence of calls, failed ones included, is a sequence of moves of the abstract machine:
  a new quarantined candidate, a step of one representation, a publication, an invalidation. So a
  representation never disappears, never goes back to quarantine, keeps the columns that identify,
  classify and restrict it, and once it was bound it can only be invalidated or superseded; a
  deprecation is final, and a binding changes once, when it is superseded.
\<close>

theorem representation_lifecycle:
  assumes wf: "publication_wf (tables s)" and t: "t = run (publication_step rt key cat B pk) calls s"
  shows "publication_move\<^sup>*\<^sup>* (tables s) (tables t) \<and>
    (\<forall>k r. get_representation s k = Some r \<longrightarrow> (\<exists>r'. get_representation t k = Some r' \<and> core r' = core r \<and>
       (re_state r' = re_state r \<or> re_state r' \<noteq> ''quarantined'' \<and>
          (re_state r \<in> set bound_states \<longrightarrow> re_state r' \<in> {''invalidated'', ''superseded''})) \<and>
       (re_deprecated_at r = None \<or> re_deprecated_at r' = re_deprecated_at r))) \<and>
    (\<forall>k b. tget bi_binding_id (representation_bindings s) k = Some b \<longrightarrow>
       (\<exists>b'. tget bi_binding_id (representation_bindings t) k = Some b' \<and>
          (b' = b \<or> bi_superseded_at b = None \<and> (\<exists>now. b' = b\<lparr>bi_superseded_at := Some now\<rparr>))))"
proof (intro conjI allI impI)
  show "publication_move\<^sup>*\<^sup>* (tables s) (tables t)" unfolding t by (rule publication_run_refines [OF wf])
  then have b: "publication_below (tables s) (tables t)" by (rule publication_moves(1))
  show "\<exists>r'. get_representation t k = Some r' \<and> core r' = core r \<and>
       (re_state r' = re_state r \<or> re_state r' \<noteq> ''quarantined'' \<and>
          (re_state r \<in> set bound_states \<longrightarrow> re_state r' \<in> {''invalidated'', ''superseded''})) \<and>
       (re_deprecated_at r = None \<or> re_deprecated_at r' = re_deprecated_at r)"
    if r: "get_representation s k = Some r" for k r
  proof -
    from b r obtain r' where r': "get_representation t k = Some r'" "rep_below r r'"
      unfolding publication_below_def kept_def get_representation_def fst_conv by blast
    note below = rep_belowD [OF r'(2)]
    from below(2) have "re_state r' = re_state r \<or> re_state r' \<noteq> ''quarantined'' \<and>
          (re_state r \<in> set bound_states \<longrightarrow> re_state r' \<in> {''invalidated'', ''superseded''})"
      unfolding state_below_def by auto
    with r'(1) below(1,3) show ?thesis by (intro exI [of _ r'] conjI)
  qed
  show "\<exists>b'. tget bi_binding_id (representation_bindings t) k = Some b' \<and>
          (b' = b \<or> bi_superseded_at b = None \<and> (\<exists>now. b' = b\<lparr>bi_superseded_at := Some now\<rparr>))"
    if "tget bi_binding_id (representation_bindings s) k = Some b" for k b
    using b that unfolding publication_below_def kept_def binding_below_def snd_conv by blast
qed

section \<open>What a binding rests on\<close>

text \<open>
  C9. Over any calls, every binding of a representation to a scene was made by someone who is not a
  worker, for uses that the quality record of the representation lists as approved, in a role it does
  not prohibit, with the frame, the authority and the authority ceiling of the representation. The
  current binding of a scene and role is unique and its representation is not deprecated. Each bound use
  was approved by a \<open>review_quality\<close> call among the calls that returned, passed and named the use, by a
  reviewer who is not a worker, or the caller of \<open>create_candidate\<close> had stated it as approved in the
  quality of the candidate, or the starting state had it. So when nothing is stated in advance, no use
  is bound that no reviewer approved.
\<close>

theorem published_uses_were_reviewed:
  assumes wf: "publication_wf (tables s)" and t: "t = run (publication_step rt key cat B pk) calls s"
    and b: "b \<in> set (representation_bindings t)"
  shows "(\<forall>u\<in>set (bi_intended_uses_json b). approved_in rt key cat B pk s calls (bi_representation_id b) u \<or>
      stated_in rt key cat B pk s calls (bi_representation_id b) u \<or> u \<in> stored_uses B s (bi_representation_id b)) \<and>
    ((\<forall>k. stored_uses B s k = {}) \<and> (\<forall>E a. Candidate E a \<in> set calls \<longrightarrow> stated_uses B (cd_quality a) = {}) \<longrightarrow>
      (\<forall>u\<in>set (bi_intended_uses_json b). approved_in rt key cat B pk s calls (bi_representation_id b) u)) \<and>
    \<not> prefix ''sip-worker:'' (bi_published_by b) \<and>
    (\<exists>r reviewed. get_representation t (bi_representation_id b) = Some r \<and> reviewed_uses r = Inr reviewed \<and>
       (\<forall>u\<in>set (bi_intended_uses_json b). JStr u \<in> set reviewed) \<and> bi_role b \<notin> set (re_prohibited_uses_json r) \<and>
       bi_scene_id b = re_scene_id r \<and> bi_coordinate_frame_id b = re_coordinate_frame_id r \<and>
       bi_authority_class b = re_authority_class r \<and> bi_authority_ceiling b = re_authority_ceiling r \<and>
       (bi_superseded_at b = None \<longrightarrow> re_deprecated_at r = None)) \<and>
    (bi_superseded_at b = None \<longrightarrow> (\<forall>b'\<in>set (representation_bindings t). bi_superseded_at b' = None \<and> bi_tenant_id b' = bi_tenant_id b \<and>
       bi_project_id b' = bi_project_id b \<and> bi_scene_id b' = bi_scene_id b \<and> bi_role b' = bi_role b \<longrightarrow> b' = b))"
proof -
  have wf': "publication_wf (tables t)" unfolding t by (rule publishing.run_inv [OF wf])
  then have "bind_ok (representations t) b" using b unfolding publication_wf_def prod.case by blast
  then obtain r where r: "\<not> is_worker (bi_published_by b)" "tget re_representation_id (representations t) (bi_representation_id b) = Some r"
      "binds_as r b" "uses_approved r (bi_intended_uses_json b)" "bi_superseded_at b = None \<longrightarrow> re_deprecated_at r = None"
    by (rule bind_okE)
  from r(4) obtain reviewed where rv: "reviewed_uses r = Inr reviewed" "\<forall>u\<in>set (bi_intended_uses_json b). JStr u \<in> set reviewed"
    unfolding uses_approved_def approved_by_review_def list_all_iff by blast
  have origin: "\<forall>u\<in>set (bi_intended_uses_json b). approved_in rt key cat B pk s calls (bi_representation_id b) u \<or>
      stated_in rt key cat B pk s calls (bi_representation_id b) u \<or> u \<in> stored_uses B s (bi_representation_id b)"
    using bound_use_origin [OF wf t _ rv(1)] r(2) rv(2) unfolding get_representation_def by blast
  have listing: "\<exists>r reviewed. get_representation t (bi_representation_id b) = Some r \<and> reviewed_uses r = Inr reviewed \<and>
       (\<forall>u\<in>set (bi_intended_uses_json b). JStr u \<in> set reviewed) \<and> bi_role b \<notin> set (re_prohibited_uses_json r) \<and>
       bi_scene_id b = re_scene_id r \<and> bi_coordinate_frame_id b = re_coordinate_frame_id r \<and>
       bi_authority_class b = re_authority_class r \<and> bi_authority_ceiling b = re_authority_ceiling r \<and>
       (bi_superseded_at b = None \<longrightarrow> re_deprecated_at r = None)"
    using r(2,3,5) rv unfolding get_representation_def binds_as_def by (intro exI [of _ r] exI [of _ reviewed] conjI) simp_all
  have "b' = b" if "bi_superseded_at b = None" "b' \<in> set (representation_bindings t)" "bi_superseded_at b' = None \<and> bi_tenant_id b' = bi_tenant_id b \<and>
       bi_project_id b' = bi_project_id b \<and> bi_scene_id b' = bi_scene_id b \<and> bi_role b' = bi_role b" for b'
    using that wf' b unfolding publication_wf_def prod.case slot_def by simp
  moreover have "\<not> prefix ''sip-worker:'' (bi_published_by b)" using r(1) by (simp add: is_worker_def)
  moreover have "\<forall>u\<in>set (bi_intended_uses_json b). approved_in rt key cat B pk s calls (bi_representation_id b) u"
    if none: "\<forall>k. stored_uses B s k = {}" "\<forall>E a. Candidate E a \<in> set calls \<longrightarrow> stated_uses B (cd_quality a) = {}"
    using origin never_stated [OF none(2), of rt key cat pk s] none(1) by blast
  ultimately show ?thesis using origin listing by blast
qed

section \<open>What a view is served\<close>

lemma get_representation_id: "get_representation s k = Some r \<Longrightarrow> re_representation_id r = k"
  unfolding get_representation_def by (rule tget_SomeD [THEN conjunct2])

lemma mapE_Inr: "mapE f xs = Inr ys \<Longrightarrow> y \<in> set ys \<Longrightarrow> \<exists>x\<in>set xs. f x = Inr y"
  by (induction xs arbitrary: ys) (auto simp: bindE_Inr_conv)

lemma selected_layers:
  assumes "select_for_view a s = Inr (v, s')" and "l \<in> set (vr_selected v)"
  obtains capabilities b where "b \<in> set (view_bindings a s)" and "view_decision_of a capabilities s b = Inr (Selected l)"
proof -
  from assms obtain capabilities ds b d where ds: "mapE (\<lambda>b. bindE (view_decision_of a capabilities s b) (\<lambda>d. Inr (b, d))) (view_bindings a s) = Inr ds"
    and d: "(b, d) \<in> set ds" "l \<in> set (case d of Selected l \<Rightarrow> [l] | _ \<Rightarrow> [])"
    by (auto simp: select_for_view_def Let_def bindE_Inr_conv)
  from d(2) have "d = Selected l" by (simp split: view_decision.splits)
  with mapE_Inr [OF ds d(1)] that show thesis by (auto simp: bindE_Inr_conv)
qed

text \<open>
  C22. A layer served for an intended use, after any calls, comes from a current binding of the requested
  tenant, project and scene that lists the use; the audience is one of the allowed ones where the
  binding names any; the bound representation is published and not deprecated. The use was approved by a
  passing \<open>review_quality\<close> call on that representation by a reviewer who is not a worker, or stated
  as approved by the caller that created the candidate, or in the starting state; when nothing is stated
  in advance, a reviewer approved it. What is served is that representation under the authority of the
  binding, or, for a client without the required capabilities, its fallback, which is published and not
  deprecated and whose own reviews are not consulted.
\<close>

theorem view_serves_reviewed:
  assumes wf0: "publication_wf (tables s0)" and s: "s = run (publication_step rt key cat B pk) calls s0"
    and v: "select_for_view a s = Inr (v, s')" and l: "l \<in> set (vr_selected v)"
  shows "\<exists>b r. b \<in> set (representation_bindings s) \<and> bi_binding_id b = sl_binding_id l \<and> bi_superseded_at b = None \<and>
    bi_tenant_id b = vw_tenant_id a \<and> bi_project_id b = vw_project_id a \<and> bi_scene_id b = vw_scene_id a \<and>
    vw_intended_use a \<in> set (bi_intended_uses_json b) \<and> get_representation s (bi_representation_id b) = Some r \<and>
    (approved_in rt key cat B pk s0 calls (bi_representation_id b) (vw_intended_use a) \<or>
     stated_in rt key cat B pk s0 calls (bi_representation_id b) (vw_intended_use a) \<or>
     vw_intended_use a \<in> stored_uses B s0 (bi_representation_id b)) \<and>
    ((\<forall>k. stored_uses B s0 k = {}) \<and> (\<forall>E a. Candidate E a \<in> set calls \<longrightarrow> stated_uses B (cd_quality a) = {}) \<longrightarrow>
       approved_in rt key cat B pk s0 calls (bi_representation_id b) (vw_intended_use a)) \<and>
    re_state r = ''published'' \<and> re_deprecated_at r = None \<and>
    sl_authority_class l = re_authority_class r \<and> sl_authority_ceiling l = re_authority_ceiling r \<and>
    (\<forall>v. map_of (bi_audience_policy_json b) ''allowed_audiences'' = Some v \<longrightarrow>
       (\<exists>allowed. members v = Inr allowed \<and> JStr (vw_audience a) \<in> set allowed)) \<and>
    (if sl_used_fallback l
     then \<exists>f k. re_fallback_representation_id r = Some k \<and> get_representation s k = Some f \<and> sl_representation_id l = k \<and>
       re_state f = ''published'' \<and> re_deprecated_at f = None
     else sl_representation_id l = bi_representation_id b)"
proof -
  have wf: "publication_wf (tables s)" unfolding s by (rule publishing.run_inv [OF wf0])
  from v l obtain capabilities b where vb: "b \<in> set (view_bindings a s)" and d: "view_decision_of a capabilities s b = Inr (Selected l)"
    by (rule selected_layers)
  from vb have b: "b \<in> set (representation_bindings s)" "bi_superseded_at b = None" "bi_tenant_id b = vw_tenant_id a"
      "bi_project_id b = vw_project_id a" "bi_scene_id b = vw_scene_id a"
    by (auto simp: view_bindings_def)
  from d obtain allowed r required where use: "vw_intended_use a \<in> set (bi_intended_uses_json b)"
    and al: "members (jget_or (bi_audience_policy_json b) ''allowed_audiences'' (JArr [JStr (vw_audience a)])) = Inr allowed"
      "JStr (vw_audience a) \<in> set allowed"
    and r: "get_representation s (bi_representation_id b) = Some r" "available (Some r)"
    and cl: "client_decision capabilities required b r s = Selected l"
    by (auto simp: view_decision_of_def bindE_Inr_conv split: if_splits option.splits)
  from wf b(1) have "bind_ok (representations s) b" unfolding publication_wf_def prod.case by blast
  then obtain x where "tget re_representation_id (representations s) (bi_representation_id b) = Some x" and x: "binds_as x b"
      "uses_approved x (bi_intended_uses_json b)"
    by (rule bind_okE)
  with r(1) have "x = r" by (simp add: get_representation_def)
  with x(2) use obtain reviewed where rv: "reviewed_uses r = Inr reviewed" "JStr (vw_intended_use a) \<in> set reviewed"
    unfolding uses_approved_def approved_by_review_def list_all_iff by blast
  note origin = bound_use_origin [OF wf0 s r(1) rv]
  have reviewed: "(\<forall>k. stored_uses B s0 k = {}) \<and> (\<forall>E a. Candidate E a \<in> set calls \<longrightarrow> stated_uses B (cd_quality a) = {}) \<longrightarrow>
      approved_in rt key cat B pk s0 calls (bi_representation_id b) (vw_intended_use a)"
    using origin never_stated [of calls B rt key cat pk s0] by blast
  have k: "re_representation_id r = bi_representation_id b" by (rule get_representation_id [OF r(1)])
  have layer: "bi_binding_id b = sl_binding_id l \<and> sl_authority_class l = bi_authority_class b \<and> sl_authority_ceiling l = bi_authority_ceiling b"
    using cl by (auto simp: client_decision_def layer_of_def split: if_splits option.splits)
  have served: "if sl_used_fallback l
     then \<exists>f k. re_fallback_representation_id r = Some k \<and> get_representation s k = Some f \<and> sl_representation_id l = k \<and>
       re_state f = ''published'' \<and> re_deprecated_at f = None
     else sl_representation_id l = bi_representation_id b"
  proof (cases "list_all (\<lambda>x. list_ex (py_eq x) capabilities) required")
    case True
    with cl k show ?thesis by (auto simp: client_decision_def layer_of_def)
  next
    case False
    with cl obtain f where f: "fallback_of r s = Some f" "available (Some f)" "l = layer_of b f True"
      by (auto simp: client_decision_def split: option.splits if_splits)
    from f(1) obtain n where n: "re_fallback_representation_id r = Some n" "get_representation s n = Some f"
      by (cases "re_fallback_representation_id r") (auto simp: fallback_of_def str_or_def split: if_splits)
    then have "re_representation_id f = n" by (intro get_representation_id)
    with n f show ?thesis by (simp add: layer_of_def available_def)
  qed
  have "\<forall>v. map_of (bi_audience_policy_json b) ''allowed_audiences'' = Some v \<longrightarrow>
       (\<exists>allowed. members v = Inr allowed \<and> JStr (vw_audience a) \<in> set allowed)"
    using al by (auto simp: jget_or_def)
  moreover have "bi_authority_class b = re_authority_class r" "bi_authority_ceiling b = re_authority_ceiling r"
    using x(1) \<open>x = r\<close> by (simp_all add: binds_as_def)
  ultimately show ?thesis
    using b use r layer origin reviewed served by (intro exI [of _ b] exI [of _ r]) (simp only: available_def option.case simp_thms)
qed

section \<open>What an invalidation withdraws\<close>

lemma retire_elsewhere:
  assumes "\<And>b. P b \<Longrightarrow> bi_representation_id b \<noteq> k"
  shows "filter (\<lambda>b. bi_representation_id b = k) (retire P now bs) = filter (\<lambda>b. bi_representation_id b = k) bs"
proof -
  let ?f = "\<lambda>b. if P b then b\<lparr>bi_superseded_at := Some now\<rparr> else b"
  have "bi_representation_id (?f b) = bi_representation_id b" for b by simp
  then have "filter (\<lambda>b. bi_representation_id b = k) (retire P now bs) = map ?f (filter (\<lambda>b. bi_representation_id b = k) bs)"
    unfolding retire_def filter_map comp_def by presburger
  also have "\<dots> = filter (\<lambda>b. bi_representation_id b = k) bs"
  proof (rule map_idI)
    fix b assume "b \<in> set (filter (\<lambda>b. bi_representation_id b = k) bs)"
    then have "\<not> P b" using assms [of b] unfolding set_filter by blast
    then show "?f b = b" by (rule if_not_P)
  qed
  finally show ?thesis .
qed

text \<open>The rows an invalidation concerns.\<close>

definition dependants :: "string \<Rightarrow> string \<Rightarrow> string \<Rightarrow> db \<Rightarrow> representation_row list" where
  "dependants tenant project changed s = filter (\<lambda>r. re_tenant_id r = tenant \<and> re_project_id r = project \<and>
     re_deprecated_at r = None \<and> depends_on changed r) (representations s)"

lemma withdrawn_effect:
  assumes wf: "publication_wf (tables s)"
    and w: "withdrawn_from changed now (filter (\<lambda>r. re_tenant_id r = tenant \<and> re_project_id r = project \<and> re_deprecated_at r = None)
      (representations s)) (tables s) (tables t)"
  shows "r \<in> set (dependants tenant project changed s) \<Longrightarrow>
      (\<exists>r'. get_representation t (re_representation_id r) = Some r' \<and> re_state r' = ''invalidated'' \<and> re_deprecated_at r' = Some now) \<and>
      (\<forall>b\<in>set (representation_bindings t). bi_representation_id b = re_representation_id r \<longrightarrow> bi_superseded_at b \<noteq> None)"
    and "k \<notin> re_representation_id ` set (dependants tenant project changed s) \<Longrightarrow> get_representation t k = get_representation s k \<and>
      filter (\<lambda>b. bi_representation_id b = k) (representation_bindings t) = filter (\<lambda>b. bi_representation_id b = k) (representation_bindings s)"
proof -
  let ?rows = "filter (\<lambda>r. re_tenant_id r = tenant \<and> re_project_id r = project \<and> re_deprecated_at r = None) (representations s)"
  let ?P = "\<lambda>b. \<exists>r\<in>set ?rows. depends_on changed r \<and> binds r b"
  have d: "{x \<in> set ?rows. depends_on changed x} = set (dependants tenant project changed s)" by (auto simp: dependants_def)
  have bs: "representation_bindings t = retire ?P now (representation_bindings s)" using w unfolding withdrawn_from_def by simp
  show "(\<exists>r'. get_representation t (re_representation_id r) = Some r' \<and> re_state r' = ''invalidated'' \<and> re_deprecated_at r' = Some now) \<and>
      (\<forall>b\<in>set (representation_bindings t). bi_representation_id b = re_representation_id r \<longrightarrow> bi_superseded_at b \<noteq> None)"
    if r: "r \<in> set (dependants tenant project changed s)"
  proof (intro conjI ballI impI notI)
    have in_rows: "r \<in> set ?rows" "depends_on changed r" using r by (simp_all add: dependants_def)
    then show "\<exists>r'. get_representation t (re_representation_id r) = Some r' \<and> re_state r' = ''invalidated'' \<and> re_deprecated_at r' = Some now"
      using w unfolding withdrawn_from_def get_representation_def fst_conv by blast
    fix b assume b: "b \<in> set (representation_bindings t)" "bi_representation_id b = re_representation_id r" "bi_superseded_at b = None"
    from retire_same [OF b(3)] b(1) have b': "b \<in> set (representation_bindings s)" "\<not> ?P b" unfolding bs by blast+
    have "distinct (map re_representation_id (representations s))" using wf by (simp add: publication_wf_def)
    then have g: "tget re_representation_id (representations s) (bi_representation_id b) = Some r"
      using in_rows b(2) tget_unique_row [of re_representation_id "representations s" r] by simp
    from wf b'(1) have "bind_ok (representations s) b" unfolding publication_wf_def prod.case by blast
    then obtain x where "tget re_representation_id (representations s) (bi_representation_id b) = Some x" "binds_as x b" by (rule bind_okE)
    with g b(3) have "binds r b" by (simp add: binds_as_def binds_def)
    with b'(2) in_rows show False by blast
  qed
  show "get_representation t k = get_representation s k \<and>
      filter (\<lambda>b. bi_representation_id b = k) (representation_bindings t) = filter (\<lambda>b. bi_representation_id b = k) (representation_bindings s)"
    if k: "k \<notin> re_representation_id ` set (dependants tenant project changed s)"
  proof
    show "get_representation t k = get_representation s k"
      using w k unfolding withdrawn_from_def d get_representation_def fst_conv by blast
    show "filter (\<lambda>b. bi_representation_id b = k) (representation_bindings t) = filter (\<lambda>b. bi_representation_id b = k) (representation_bindings s)"
      unfolding bs by (rule retire_elsewhere) (use k in \<open>auto simp: dependants_def binds_def\<close>)
  qed
qed

text \<open>
  C21. An invalidation either raises before anything is written, or it withdraws exactly the
  derivatives that name the changed resource among their dependencies, sources, consents or deletion
  dependencies: they are invalidated and deprecated, none of them stays bound, every other
  representation and its bindings are unchanged. A request to queue the rebuilds returns only when
  every rebuild is blocked; otherwise it raises after the withdrawal was committed.
\<close>

theorem invalidation_withdraws_dependants:
  assumes wf: "publication_wf (tables s)"
    and inv: "invalidate_dependencies rt key cat B E tenant project changed reason actor requeue s = (res, t)"
  shows "t = s \<and> (\<exists>e. res = Inl e) \<or>
    (\<forall>r\<in>set (dependants tenant project changed s).
       (\<exists>r'. get_representation t (re_representation_id r) = Some r' \<and> re_state r' = ''invalidated'' \<and> re_deprecated_at r' = Some (clk E 0)) \<and>
       (\<forall>b\<in>set (representation_bindings t). bi_representation_id b = re_representation_id r \<longrightarrow> bi_superseded_at b \<noteq> None)) \<and>
    (\<forall>k. k \<notin> re_representation_id ` set (dependants tenant project changed s) \<longrightarrow> get_representation t k = get_representation s k \<and>
       filter (\<lambda>b. bi_representation_id b = k) (representation_bindings t) = filter (\<lambda>b. bi_representation_id b = k) (representation_bindings s)) \<and>
    (case res of
       Inr report \<Rightarrow> ir_invalidated report = map re_representation_id (dependants tenant project changed s) \<and>
         (requeue \<longrightarrow> (\<forall>p\<in>set (ir_plans report). rp_blocked_reasons p \<noteq> []))
     | Inl e \<Rightarrow> requeue \<and> e = Uncaught ''AttributeError'')"
proof (cases "reason = [] \<or> (\<exists>e. invalidation_session rt key cat B E tenant project changed reason actor s = Inl e)")
  case True
  with inv show ?thesis by (auto simp: invalidate_dependencies_def session_def split: if_splits)
next
  case False
  then obtain report u where u: "invalidation_session rt key cat B E tenant project changed reason actor s = Inr (report, u)"
    by (cases "invalidation_session rt key cat B E tenant project changed reason actor s") auto
  with False inv have t: "t = u"
    and res: "res = (if requeue \<and> list_ex (\<lambda>p. rp_blocked_reasons p = []) (ir_plans report) then Inl (Uncaught ''AttributeError'') else Inr report)"
    by (auto simp: invalidate_dependencies_def session_def split: if_splits)
  note w = invalidation_session_Inr [OF wf u refl]
  have ids: "ir_invalidated report = map re_representation_id (dependants tenant project changed s)"
    using w by (simp add: dependants_def conj_ac)
  note effect = withdrawn_effect [OF wf w [THEN conjunct2, THEN conjunct1], folded t]
  show ?thesis
  proof (rule disjI2, intro conjI ballI allI impI)
    show "case res of
       Inr report \<Rightarrow> ir_invalidated report = map re_representation_id (dependants tenant project changed s) \<and>
         (requeue \<longrightarrow> (\<forall>p\<in>set (ir_plans report). rp_blocked_reasons p \<noteq> []))
     | Inl e \<Rightarrow> requeue \<and> e = Uncaught ''AttributeError''"
      unfolding res using ids by (auto simp: list_ex_iff)
  qed (use effect in blast)+
qed


section \<open>What a candidate inherits\<close>

lemma jget_jupdate: "jget (jupdate kvs us) k = (case map_of (rev us) k of None \<Rightarrow> jget kvs k | Some v \<Rightarrow> v)"
  by (induction us arbitrary: kvs) (auto simp: jupdate_def jget_jset map_of_append map_add_def split: option.splits)

lemma jget_seal: "k \<noteq> ''inheritance_hash'' \<Longrightarrow> jget (seal_inheritance rt d) k = jget d k"
  by (simp add: seal_inheritance_def jget_jset)

lemma max_by_ge: "f best \<le> f (max_by f best xs) \<and> (\<forall>x\<in>set xs. f x \<le> f (max_by f best xs))"
proof (induction xs arbitrary: best)
  case (Cons x xs)
  show ?case using Cons.IH [of x] Cons.IH [of best] by auto
qed simp

lemma effective_classification_ge: "c \<in> set cs \<Longrightarrow> classification_rank c \<le> classification_rank (effective_classification cs)"
  using max_by_ge [of classification_rank] by (cases cs) (auto simp: effective_classification_def)

lemma gather_member:
  assumes "gather B key policies = Inr xs" and "p \<in> set policies" and "strs B (jget_or p key (JArr [])) = Inr ys"
  shows "set ys \<subseteq> set xs"
proof -
  have "mapE (\<lambda>p. strs B (jget_or p key (JArr []))) ps = Inr xss \<Longrightarrow> p \<in> set ps \<Longrightarrow> ys \<in> set xss" for ps xss
    by (induction ps arbitrary: xss) (use assms(3) in \<open>auto simp: bindE_Inr_conv\<close>)
  moreover from assms(1) obtain xss where "mapE (\<lambda>p. strs B (jget_or p key (JArr []))) policies = Inr xss" "xs = concat xss"
    by (auto simp: gather_def bindE_Inr_conv)
  ultimately have "ys \<in> set xss" "xs = concat xss" using assms(2) by blast+
  then show ?thesis by auto
qed

text \<open>The in-scope sources of a candidate: their classifications, whether they are on hold, and their
  policies.\<close>

definition source_of :: "builtins \<Rightarrow> candidate_args \<Rightarrow> string list \<Rightarrow> db \<Rightarrow> string list \<Rightarrow> bool \<Rightarrow> fields list \<Rightarrow> bool" where
  "source_of B a named s cs hold policies \<longleftrightarrow>
     (\<exists>r\<in>set (asset_refs s). r_tenant_id r = cd_tenant_id a \<and> r_project_id r = cd_project_id a \<and> r_asset_id r \<in> set named \<and>
        cs = [r_classification r] \<and> hold = r_legal_hold r \<and> policies = asset_policy r) \<or>
     (\<exists>r\<in>set (representations s). re_tenant_id r = cd_tenant_id a \<and> re_project_id r = cd_project_id a \<and> re_representation_id r \<in> set named \<and>
        cs = policy_classification B (re_privacy_inheritance_json r) \<and>
        hold = truthy (jget (re_privacy_inheritance_json r) ''legal_hold'') \<and> policies = [re_privacy_inheritance_json r])"

lemma source_of_terms:
  assumes "source_of B a named s cs hold policies" and "set named \<subseteq> set names"
  shows "(\<forall>c\<in>set cs. c \<in> set (source_classifications B (asset_sources (cd_tenant_id a) (cd_project_id a) names s)
      (representation_sources (cd_tenant_id a) (cd_project_id a) names s) requested)) \<and>
    (hold \<longrightarrow> source_legal_hold (asset_sources (cd_tenant_id a) (cd_project_id a) names s)
      (representation_sources (cd_tenant_id a) (cd_project_id a) names s) requested) \<and>
    set policies \<subseteq> set (source_policies (asset_sources (cd_tenant_id a) (cd_project_id a) names s)
      (representation_sources (cd_tenant_id a) (cd_project_id a) names s))"
proof -
  let ?as = "asset_sources (cd_tenant_id a) (cd_project_id a) names s" and ?rs = "representation_sources (cd_tenant_id a) (cd_project_id a) names s"
  from assms(1) show ?thesis unfolding source_of_def
  proof (elim disjE bexE conjE)
    fix r assume r: "r \<in> set (asset_refs s)" "r_tenant_id r = cd_tenant_id a" "r_project_id r = cd_project_id a" "r_asset_id r \<in> set named"
      and t: "cs = [r_classification r]" "hold = r_legal_hold r" "policies = asset_policy r"
    have "r \<in> set ?as" using r assms(2) by (auto simp: asset_sources_def)
    then show ?thesis unfolding t source_classifications_def source_legal_hold_def source_policies_def by (auto simp: list_ex_iff)
  next
    fix r assume r: "r \<in> set (representations s)" "re_tenant_id r = cd_tenant_id a" "re_project_id r = cd_project_id a"
        "re_representation_id r \<in> set named"
      and t: "cs = policy_classification B (re_privacy_inheritance_json r)"
        "hold = truthy (jget (re_privacy_inheritance_json r) ''legal_hold'')" "policies = [re_privacy_inheritance_json r]"
    have "r \<in> set ?rs" using r assms(2) by (auto simp: representation_sources_def)
    then show ?thesis unfolding t source_classifications_def source_legal_hold_def source_policies_def by (auto simp: list_ex_iff)
  qed
qed

lemma check_output_asset_Inr:
  assumes "check_output_asset tenant project out c hold s = Inr (bl, t)" and "tget r_asset_id (asset_refs s) out = Some r"
    and "r_tenant_id r = tenant" and "r_project_id r = project"
  shows "\<exists>r'. tget r_asset_id (asset_refs t) out = Some r' \<and> classification_rank c \<le> classification_rank (r_classification r') \<and>
    (hold \<longrightarrow> r_legal_hold r')"
proof -
  have k: "r_asset_id r = out" using assms(2) by (rule tget_SomeD [THEN conjunct2])
  from assms have "t = inherit_hold hold r s" "classification_rank c \<le> classification_rank (r_classification r)"
    by (auto simp: check_output_asset_def split: if_splits)
  moreover have "tget r_asset_id (tput r_asset_id (r\<lparr>r_legal_hold := True\<rparr>) (asset_refs s)) out = Some (r\<lparr>r_legal_hold := True\<rparr>)"
    by (rule tget_tput_same [OF _ assms(2)]) (simp add: k)
  ultimately show ?thesis using assms(2) by (cases hold) (simp_all add: inherit_hold_def put_asset_ref_def)
qed


lemma audience_sets_member:
  assumes "audience_sets B policies = Inr auds" and "p \<in> set policies" and "truthy (jget p ''allowed_audiences'')"
  shows "\<exists>ys. strs B (jget p ''allowed_audiences'') = Inr ys \<and> ys \<in> set auds"
proof -
  have "mapE f ps = Inr yss \<Longrightarrow> p \<in> set ps \<Longrightarrow> \<exists>y. f p = Inr y \<and> y \<in> set yss" for ps yss and f :: "fields \<Rightarrow> sip_error + string list"
    by (induction ps arbitrary: yss) (auto simp: bindE_Inr_conv)
  from this [OF assms(1) [unfolded audience_sets_def]] assms(2,3) show ?thesis by simp
qed

lemma common_members_subset: "ys \<in> set yss \<Longrightarrow> set (common_members yss) \<subseteq> set ys"
  by (cases yss) (auto simp: common_members_def list_all_iff)

lemma effective_privacy_Inr:
  assumes "effective_privacy_inheritance rt B tenant project out prov req s = Inr (privacy, t)"
    and "texts (jget_or prov ''source_ids'' (JArr [])) = Inr named"
  obtains names bl consents auds as rs where "set named \<subseteq> set names" and "as = asset_sources tenant project names s"
    and "rs = representation_sources tenant project names s"
    and "check_output_asset tenant project out (effective_classification (source_classifications B as rs req))
      (source_legal_hold as rs req) s = Inr (bl, t)"
    and "gather B ''consent_grant_ids'' (source_policies as rs @ [req]) = Inr consents"
    and "audience_sets B (source_policies as rs @ [req]) = Inr auds"
    and "jget privacy ''legal_hold'' = JBool (source_legal_hold as rs req)"
    and "jget privacy ''consent_grant_ids'' = jarr (sorted_set consents)"
    and "auds \<noteq> [] \<longrightarrow> jget privacy ''allowed_audiences'' = jarr (common_members auds)"
proof -
  from assms(1) obtain named' asked where n: "texts (jget_or prov ''source_ids'' (JArr [])) = Inr named'"
      "texts (jget_or req ''source_ids'' (JArr [])) = Inr asked"
    unfolding effective_privacy_inheritance_def by (simp only: bindE_Inr_conv) blast
  let ?names = "sorted_set (named' @ asked)"
  let ?as = "asset_sources tenant project ?names s" and ?rs = "representation_sources tenant project ?names s"
  from assms(1) obtain retention auds consents exports deletions holds bl where
      a: "audience_sets B (source_policies ?as ?rs @ [req]) = Inr auds" "\<not> (auds \<noteq> [] \<and> common_members auds = [])"
    and c: "gather B ''consent_grant_ids'' (source_policies ?as ?rs @ [req]) = Inr consents"
    and o: "check_output_asset tenant project out (effective_classification (source_classifications B ?as ?rs req))
      (source_legal_hold ?as ?rs req) s = Inr (bl, t)"
    and p: "\<exists>x1 x2 x3 x4 x5 x6 x7 x8. privacy = seal_inheritance rt (jupdate req
           ([(''source_ids'', x1), (''resolved_source_ids'', x2),
             (''unresolved_source_policy_ids'', x3), (''classification'', x4),
             (''retention_classes'', x5),
             (''legal_hold'', JBool (source_legal_hold ?as ?rs req)), (''policy_blockers'', x6),
             (''consent_grant_ids'', jarr (sorted_set consents)), (''export_dependencies'', x7),
             (''deletion_dependencies'', x8), (''legal_hold_ids'', jarr (sorted_set holds))]
            @ (if common_members auds \<noteq> [] then [(''allowed_audiences'', jarr (common_members auds))] else [])))"
    unfolding effective_privacy_inheritance_def Let_def n bindE_simps
    by (simp only: bindE_Inr_conv raise_if_Inr_conv split_paired_Ex prod.case sum.inject prod.inject) blast
  have "jget privacy ''legal_hold'' = JBool (source_legal_hold ?as ?rs req)" "jget privacy ''consent_grant_ids'' = jarr (sorted_set consents)"
    using p by (auto simp: jget_seal jget_jupdate split: option.splits if_splits)
  moreover have "jget privacy ''allowed_audiences'' = jarr (common_members auds)" if "auds \<noteq> []"
    using p a(2) that by (auto simp: jget_seal jget_jupdate)
  moreover have "set named \<subseteq> set ?names" using n(1) assms(2) by simp
  ultimately show thesis using that [OF _ refl refl o c a(1)] by blast
qed

text \<open>
  C19. A candidate never relaxes what its sources impose. For every asset or representation of the
  project that its provenance names, the output asset is at least as classified and is put on legal
  hold when the source is; a new candidate records the hold, all consent grants of the source, and
  only audiences that the source allows.
\<close>

theorem derivative_keeps_restrictions:
  assumes cr: "create_candidate rt key cat B E a s = Inr (k, t)"
    and named: "texts (jget_or (cd_provenance a) ''source_ids'' (JArr [])) = Inr named"
    and src: "source_of B a named s cs hold policies"
  shows "(\<exists>out. tget r_asset_id (asset_refs t) (cd_asset_id a) = Some out \<and> (hold \<longrightarrow> r_legal_hold out) \<and>
      (\<forall>c\<in>set cs. classification_rank c \<le> classification_rank (r_classification out))) \<and>
    (get_representation s k = None \<longrightarrow> (\<exists>row consents. get_representation t k = Some row \<and>
      (hold \<longrightarrow> jget (re_privacy_inheritance_json row) ''legal_hold'' = JBool True) \<and>
      jget (re_privacy_inheritance_json row) ''consent_grant_ids'' = jarr consents \<and>
      (\<forall>p\<in>set policies. \<forall>gs. strs B (jget_or p ''consent_grant_ids'' (JArr [])) = Inr gs \<longrightarrow> set gs \<subseteq> set consents) \<and>
      (\<forall>p\<in>set policies. truthy (jget p ''allowed_audiences'') \<longrightarrow> (\<exists>allowed ys. strs B (jget p ''allowed_audiences'') = Inr ys \<and>
         jget (re_privacy_inheritance_json row) ''allowed_audiences'' = jarr allowed \<and> set allowed \<subseteq> set ys))))"
proof -
  from cr obtain privacy s1 where ca: "check_candidate_asset a s = Inr ()"
    and p: "effective_privacy_inheritance rt B (cd_tenant_id a) (cd_project_id a) (cd_asset_id a) (cd_provenance a)
      (cd_privacy_inheritance a) s = Inr (privacy, s1)"
    and t: "t = s1 \<and> get_representation s k \<noteq> None \<or>
      add_candidate rt key cat E a (str_or (cd_representation_id a) (ids E 0)) privacy s1 = Inr (k, t)"
    by (rule create_candidate_Inr)
  from p named obtain names bl consents auds as rs where n: "set named \<subseteq> set names"
    and as: "as = asset_sources (cd_tenant_id a) (cd_project_id a) names s"
    and rs: "rs = representation_sources (cd_tenant_id a) (cd_project_id a) names s"
    and o: "check_output_asset (cd_tenant_id a) (cd_project_id a) (cd_asset_id a)
      (effective_classification (source_classifications B as rs (cd_privacy_inheritance a)))
      (source_legal_hold as rs (cd_privacy_inheritance a)) s = Inr (bl, s1)"
    and g: "gather B ''consent_grant_ids'' (source_policies as rs @ [cd_privacy_inheritance a]) = Inr consents"
    and au: "audience_sets B (source_policies as rs @ [cd_privacy_inheritance a]) = Inr auds"
    and j: "jget privacy ''legal_hold'' = JBool (source_legal_hold as rs (cd_privacy_inheritance a))"
      "jget privacy ''consent_grant_ids'' = jarr (sorted_set consents)"
      "auds \<noteq> [] \<longrightarrow> jget privacy ''allowed_audiences'' = jarr (common_members auds)"
    by (rule effective_privacy_Inr)
  note terms = source_of_terms [OF src n, of "cd_privacy_inheritance a", folded as rs]
  obtain r where r: "tget r_asset_id (asset_refs s) (cd_asset_id a) = Some r" "r_tenant_id r = cd_tenant_id a" "r_project_id r = cd_project_id a"
    using ca by (auto simp: check_candidate_asset_def split: option.splits if_splits)
  from check_output_asset_Inr [OF o r] obtain out where out: "tget r_asset_id (asset_refs s1) (cd_asset_id a) = Some out"
      "classification_rank (effective_classification (source_classifications B as rs (cd_privacy_inheritance a)))
        \<le> classification_rank (r_classification out)"
      "source_legal_hold as rs (cd_privacy_inheritance a) \<longrightarrow> r_legal_hold out"
    by blast
  have "asset_refs t = asset_refs s1" using t add_candidate_Inr by blast
  then have 1: "\<exists>out. tget r_asset_id (asset_refs t) (cd_asset_id a) = Some out \<and> (hold \<longrightarrow> r_legal_hold out) \<and>
      (\<forall>c\<in>set cs. classification_rank c \<le> classification_rank (r_classification out))"
    using out terms effective_classification_ge order_trans by (intro exI [of _ out]) (simp, blast)
  have 2: "\<exists>row consents. get_representation t k = Some row \<and>
      (hold \<longrightarrow> jget (re_privacy_inheritance_json row) ''legal_hold'' = JBool True) \<and>
      jget (re_privacy_inheritance_json row) ''consent_grant_ids'' = jarr consents \<and>
      (\<forall>p\<in>set policies. \<forall>gs. strs B (jget_or p ''consent_grant_ids'' (JArr [])) = Inr gs \<longrightarrow> set gs \<subseteq> set consents) \<and>
      (\<forall>p\<in>set policies. truthy (jget p ''allowed_audiences'') \<longrightarrow> (\<exists>allowed ys. strs B (jget p ''allowed_audiences'') = Inr ys \<and>
         jget (re_privacy_inheritance_json row) ''allowed_audiences'' = jarr allowed \<and> set allowed \<subseteq> set ys))"
    if new: "get_representation s k = None"
  proof -
    let ?k = "str_or (cd_representation_id a) (ids E 0)"
    let ?row = "new_candidate rt (clk E 1) a ?k privacy"
    from t new have ad: "add_candidate rt key cat E a ?k privacy s1 = Inr (k, t)" by blast
    have "re_representation_id ?row = ?k" and pr: "re_privacy_inheritance_json ?row = privacy" by (simp_all add: new_candidate_def)
    then have row: "get_representation t k = Some ?row"
      using add_candidate_Inr [OF ad] by (simp add: get_representation_def tget_append tget_Cons tget_None_iff [symmetric])
    have in_policies: "q \<in> set (source_policies as rs @ [cd_privacy_inheritance a])" if "q \<in> set policies" for q
      using that terms by auto
    have consent: "set gs \<subseteq> set (sorted_set consents)" if "q \<in> set policies" "strs B (jget_or q ''consent_grant_ids'' (JArr [])) = Inr gs" for q gs
      using gather_member [OF g in_policies [OF that(1)] that(2)] by simp
    have audience: "\<exists>allowed ys. strs B (jget q ''allowed_audiences'') = Inr ys \<and> jget privacy ''allowed_audiences'' = jarr allowed \<and>
        set allowed \<subseteq> set ys" if q: "q \<in> set policies" "truthy (jget q ''allowed_audiences'')" for q
    proof -
      from audience_sets_member [OF au in_policies [OF q(1)] q(2)] obtain ys
        where ys: "strs B (jget q ''allowed_audiences'') = Inr ys" "ys \<in> set auds" by blast
      then have "auds \<noteq> []" by auto
      with ys j(3) common_members_subset [OF ys(2)] show ?thesis by blast
    qed
    have "hold \<longrightarrow> jget privacy ''legal_hold'' = JBool True" using terms unfolding j(1) by simp
    with row j(2) consent audience show ?thesis
      by (intro exI [of _ ?row] exI [of _ "sorted_set consents"]) (simp only: pr simp_thms, blast)
  qed
  from 1 2 show ?thesis by blast
qed


section \<open>Instances\<close>

definition publication_catalog :: event_catalog where
  "publication_catalog = [
     \<lparr>ec_type = ''representation.candidate_created'', ec_version = ''1.0.0'', ec_aggregate = ''representation'',
      ec_owner = ''representation-api'', ec_classification = ''inherits_project''\<rparr>,
     \<lparr>ec_type = ''representation.dependency_invalidated'', ec_version = ''1.0.0'', ec_aggregate = ''representation'',
      ec_owner = ''representation-api'', ec_classification = ''inherits_project''\<rparr>,
     \<lparr>ec_type = ''representation.published'', ec_version = ''1.0.0'', ec_aggregate = ''representation_binding'',
      ec_owner = ''representation-publisher'', ec_classification = ''inherits_project''\<rparr>]"

definition sample_provider :: provider_manifest_row where
  "sample_provider = \<lparr>pm_provider_id = ''local'', pm_version = ''1'', pm_provider_class = ''local'', pm_source_url = [], pm_source_revision = [],
     pm_image_digest = None, pm_executable_digest = None, pm_license_id = [], pm_approval_state = ''approved'',
     pm_allowed_classifications_json = [], pm_allowed_purposes_json = [], pm_allowed_regions_json = [], pm_deployments_json = [],
     pm_execution_modes_json = [], pm_input_roles_json = [], pm_output_roles_json = [], pm_supported_formats_json = [],
     pm_coordinate_contract_json = [], pm_reproducibility_json = [], pm_security_contract_json = [], pm_recovery_contract_json = [],
     pm_model_manifest_ids_json = [], pm_dependency_inventory_json = [],
     pm_license_evidence_json = [], pm_benchmark_profile_ids_json = [], pm_descriptor_json = [], pm_retention_days = None, pm_expires_at = None,
     pm_manifest_hash = [], pm_manifest_signature = None, pm_signed_by = None, pm_registered_at = None, pm_updated_at = None\<rparr>"

text \<open>A mesh derived from the scan, reviewed for presentation.\<close>

definition sample_mesh :: "string \<Rightarrow> representation_row" where
  "sample_mesh state = (sample_representation ''mesh'' ''visual'' ''derived_non_authoritative'' [])\<lparr>
     re_intended_uses_json := [''presentation''], re_dependencies_json := [''scan''],
     re_derivation_policy_json := [(''operation_type'', JStr ''mesh'')],
     re_quality_json := [(''review'', JObj [(''approved_uses'', JArr [JStr ''presentation''])])], re_state := state\<rparr>"

definition sample_publish :: publish_args where
  "sample_publish = \<lparr>pu_representation_id = ''mesh'', pu_commit_id = ''l'', pu_role = ''presentation'', pu_publisher_id = ''u'',
     pu_transform = None, pu_intended_uses = None, pu_review_decision = None, pu_audience_policy = None, pu_client_profile = None\<rparr>"

definition sample_gallery :: "string \<Rightarrow> representation_binding_row list \<Rightarrow> db" where
  "sample_gallery state bs = sample_survey\<lparr>representations := [sample_mesh state], representation_bindings := bs,
     provider_manifests := [sample_provider]\<rparr>"

definition gallery_binding :: representation_binding_row where
  "gallery_binding = new_binding (at_time 4) sample_publish (sample_mesh ''published'') [''presentation''] []
     \<lparr>po_policy = [(''allowed_audiences'', JArr [JStr ''client''])], po_audiences = [''client''], po_purpose = ''presentation''\<rparr>"

lemma sample_mesh_fields [simp]:
  "re_representation_id (sample_mesh st) = ''mesh''" "re_tenant_id (sample_mesh st) = ''other''" "re_project_id (sample_mesh st) = ''p''"
  "re_scene_id (sample_mesh st) = ''s''" "re_state (sample_mesh st) = st" "re_deprecated_at (sample_mesh st) = None"
  "re_kind (sample_mesh st) = ''visual''" "re_authority_class (sample_mesh st) = ''derived_non_authoritative''"
  "re_authority_ceiling (sample_mesh st) = ''derived_non_authoritative''" "re_coordinate_frame_id (sample_mesh st) = ''f''"
  "re_provider_id (sample_mesh st) = ''local''" "re_provenance_json (sample_mesh st) = []" "re_prohibited_uses_json (sample_mesh st) = []"
  "re_operation_id (sample_mesh st) = None" "re_privacy_inheritance_json (sample_mesh st) = []"
  "re_quality_json (sample_mesh st) = [(''review'', JObj [(''approved_uses'', JArr [JStr ''presentation''])])]"
  "re_dependencies_json (sample_mesh st) = [''scan'']" "re_fallback_representation_id (sample_mesh st) = None"
  "re_derivation_policy_json (sample_mesh st) = [(''operation_type'', JStr ''mesh'')]" "re_manifest_hash (sample_mesh st) = None"
  by (simp_all add: sample_mesh_def sample_representation_def)

lemma sample_gallery_fields [simp]:
  "representations (sample_gallery st bs) = [sample_mesh st]" "representation_bindings (sample_gallery st bs) = bs"
  "get_representation (sample_gallery st bs) ''mesh'' = Some (sample_mesh st)" "get_commit (sample_gallery st bs) k = get_commit (sample_scenes [] []) k"
  "get_provider (sample_gallery st bs) ''local'' = Some sample_provider" "outbox_events (sample_gallery st bs) = []"
  "audit_events (sample_gallery st bs) = []" "spatial_conversions (sample_gallery st bs) = []"
  "asset_refs (sample_gallery st bs) = [sample_scan]"
  by (simp_all add: sample_gallery_def get_representation_def get_provider_def tget_Cons sample_provider_def)
    (simp_all add: sample_survey_def sample_scenes_def empty_db_def get_commit_def)

lemma sample_uses: "uses_approved (sample_mesh st) [''presentation'']"
  by (simp add: uses_approved_def reviewed_uses_def attr_get_def jget_or_def members_def iterate_def approved_by_review_def)

lemma gallery_binding_fields [simp]:
  "bi_representation_id gallery_binding = ''mesh''" "bi_intended_uses_json gallery_binding = [''presentation'']" "bi_superseded_at gallery_binding = None"
  "bi_published_by gallery_binding = ''u''" "bi_role gallery_binding = ''presentation''" "bi_tenant_id gallery_binding = ''other''"
  "bi_project_id gallery_binding = ''p''" "bi_scene_id gallery_binding = ''s''" "bi_client_profile_json gallery_binding = []"
  "bi_audience_policy_json gallery_binding = [(''allowed_audiences'', JArr [JStr ''client'']), (''purpose'', JStr ''presentation'')]"
  by (simp_all add: gallery_binding_def new_binding_def sample_publish_def fields_or_def jset_def)

lemma sample_gallery_wf: "publication_wf (tables (sample_gallery ''approved'' []))" "publication_wf (tables (sample_gallery ''published'' [gallery_binding]))"
proof -
  have "rep_ok (sample_mesh st)" if "st = ''approved'' \<or> st = ''published''" for st
    using that by (auto simp: rep_ok_def open_states_def bound_states_def)
  moreover have "bind_ok [sample_mesh ''published''] gallery_binding"
    by (rule bind_okI [where r = "sample_mesh ''published''"])
      (simp_all add: is_worker_def tget_Cons bound_states_def sample_uses, simp add: binds_as_def gallery_binding_def new_binding_def sample_publish_def)
  ultimately show "publication_wf (tables (sample_gallery ''approved'' []))" "publication_wf (tables (sample_gallery ''published'' [gallery_binding]))"
    by (simp_all add: publication_wf_def)
qed


lemma publication_event_returns:
  assumes "(es_event_type a, es_producer a, es_aggregate_type a) \<in> {(''representation.candidate_created'', ''representation-api'', ''representation''),
      (''representation.dependency_invalidated'', ''representation-api'', ''representation''),
      (''representation.published'', ''representation-publisher'', ''representation_binding'')}"
    and "es_schema_version a = ''1.0.0''" and "validate_payload hex_runtime (es_payload a) = Inr ()" and "outbox_events s = []"
  shows "\<exists>l. emit_event hex_runtime publication_catalog i now a s = Inr (s\<lparr>outbox_events := l\<rparr>)"
proof -
  have "\<exists>e. catalog_get publication_catalog (es_event_type a) ''1.0.0'' = Inr e \<and> ec_owner e = es_producer a \<and> ec_aggregate e = es_aggregate_type a"
    using assms(1) by (auto simp: catalog_get_def publication_catalog_def entry_key_def)
  with assms show ?thesis using emit_event_returns [of publication_catalog a _ i s now] by (auto simp: tkeys_def)
qed

lemma sample_ids: "ids (at_time n) 0 = ''id0''" "ids (at_time n) 1 = ''id1''" "clk (at_time n) i = n"
  by (simp_all add: at_time_def, code_simp+)

lemma published_payload: "validate_payload hex_runtime [(''binding_id'', JStr ''id0''), (''representation_id'', JStr ''mesh''), (''commit_id'', JStr ''l''),
    (''role'', JStr ''presentation''), (''coordinate_frame_id'', JStr ''f''), (''authority_ceiling'', JStr ''derived_non_authoritative''),
    (''intended_uses'', JArr [JStr ''presentation''])] = Inr ()"
  by (rule small_payload) (simp, code_simp)

text \<open>The gallery with another quality record of the mesh.\<close>

definition rated_gallery :: "string \<Rightarrow> fields \<Rightarrow> db" where
  "rated_gallery st q = (sample_gallery st [])\<lparr>representations := [(sample_mesh st)\<lparr>re_quality_json := q\<rparr>]\<rparr>"

lemma rated_gallery_fields [simp]:
  "representations (rated_gallery st q) = [(sample_mesh st)\<lparr>re_quality_json := q\<rparr>]" "representation_bindings (rated_gallery st q) = []"
  "get_representation (rated_gallery st q) ''mesh'' = Some ((sample_mesh st)\<lparr>re_quality_json := q\<rparr>)"
  "get_commit (rated_gallery st q) k = get_commit (sample_scenes [] []) k"
  "get_provider (rated_gallery st q) ''local'' = Some sample_provider" "outbox_events (rated_gallery st q) = []"
  "audit_events (rated_gallery st q) = []" "spatial_conversions (rated_gallery st q) = []"
  by (simp_all add: rated_gallery_def get_representation_def tget_Cons)
    (simp_all add: sample_gallery_def sample_survey_def sample_scenes_def empty_db_def get_commit_def get_provider_def tget_Cons sample_provider_def)

definition rated_binding :: "fields \<Rightarrow> fields \<Rightarrow> representation_binding_row" where
  "rated_binding q review = new_binding (at_time 5) sample_publish ((sample_mesh ''approved'')\<lparr>re_quality_json := q\<rparr>) [''presentation''] review
     \<lparr>po_policy = [], po_audiences = [], po_purpose = ''presentation''\<rparr>"

lemma rated_publish_returns:
  assumes q: "jget_or q ''review'' (JObj []) = JObj review" and review: "jget_or review ''approved_uses'' (JArr []) = JArr [JStr ''presentation'']"
  shows "\<exists>t. publish hex_runtime ''k'' publication_catalog sample_builtins ''pk'' (at_time 5) sample_publish (rated_gallery ''approved'' q) = Inr (''id0'', t) \<and>
     tables t = ([(sample_mesh ''published'')\<lparr>re_quality_json := q\<rparr>], [rated_binding q review])"
proof -
  let ?s = "rated_gallery ''approved'' q" and ?r = "(sample_mesh ''approved'')\<lparr>re_quality_json := q\<rparr>"
  let ?p = "\<lparr>po_policy = [], po_audiences = [], po_purpose = ''presentation''\<rparr>"
  let ?b = "new_binding (at_time 5) sample_publish ?r [''presentation''] review ?p"
  have c: "check_publishable sample_publish 5 ?s = Inr (?r, sample_commit ''l'' [''b''] [] (Some ''w''))"
    by (simp add: check_publishable_def sample_publish_def)
      (simp add: sample_commit_def sample_provider_def expired_at_def jget_def)
  have u: "authorize_uses hex_runtime sample_builtins ''pk'' 5 sample_publish ?r (sample_commit ''l'' [''b''] [] (Some ''w'')) ?s
      = Inr ([''presentation''], review)"
    by (simp add: authorize_uses_def conversion_of_def reviewed_uses_def attr_get_def members_def iterate_def sample_publish_def q review
        uses_or_def sorted_set_def fields_or_def py_dict_def Let_def)
  have p: "publication_policy_of sample_builtins sample_publish [] = Inr ?p"
    by (simp add: publication_policy_of_def strs_def jget_or_def jget_def iterate_def fields_or_def sample_publish_def Let_def)
  have g: "check_consent sample_builtins ?r 5 ?p ?s = Inr ()"
    by (simp add: check_consent_def strs_def jget_or_def iterate_def sorted_set_def)
  let ?s1 = "supersede_bindings (same_slot ?r ''presentation'') 5 ?s"
  let ?s2 = "put_representation (?r\<lparr>re_state := ''published''\<rparr>) (?s1\<lparr>representation_bindings := [?b]\<rparr>)"
  have s1: "representation_bindings ?s1 = []" "outbox_events ?s2 = []" "audit_events ?s2 = []"
    by (simp_all add: supersede_bindings_def put_representation_def)
  have k: "bi_binding_id ?b = ''id0''" by (simp add: new_binding_def sample_ids)
  obtain l where e: "emit_event hex_runtime publication_catalog ''id1'' 5 (publication_event sample_publish ?r ?b) ?s2 = Inr (?s2\<lparr>outbox_events := l\<rparr>)"
  proof (rule exE [OF publication_event_returns [of "publication_event sample_publish ?r ?b" ?s2 "''id1''" 5]])
    show "validate_payload hex_runtime (es_payload (publication_event sample_publish ?r ?b)) = Inr ()"
      using published_payload by (simp add: publication_event_def k) (simp add: sample_publish_def new_binding_def)
  qed (simp_all add: publication_event_def s1)
  have f: "pu_publisher_id sample_publish = ''u''" "pu_role sample_publish = ''presentation''" "pu_transform sample_publish = None"
    by (simp_all add: sample_publish_def)
  have a: "audit_events (?s2\<lparr>outbox_events := l\<rparr>) = []" using s1 by simp
  have "\<exists>t. bind_representation hex_runtime ''k'' publication_catalog (at_time 5) sample_publish ?r ?b ?s = Inr (''id0'', t)"
    unfolding bind_representation_def Let_def f sample_ids s1 insert_row_def
    by (simp add: e append_audit_first [OF a] k)
  then obtain t where t: "bind_representation hex_runtime ''k'' publication_catalog (at_time 5) sample_publish ?r ?b ?s = Inr (''id0'', t)" by blast
  have "?r\<lparr>re_state := ''published''\<rparr> = (sample_mesh ''published'')\<lparr>re_quality_json := q\<rparr>" by (simp add: sample_mesh_def)
  with bind_representation_Inr [OF t] have "tables t = ([(sample_mesh ''published'')\<lparr>re_quality_json := q\<rparr>], [rated_binding q review])"
    by (simp add: rated_binding_def retire_def tput_def)
  then show ?thesis
    using c u p g t by (simp add: publish_def sample_ids f is_worker_def binding_transform_def identity_transform_def)
qed

text \<open>A mesh without a quality record is reviewed, other components act, and it is published.\<close>

definition sample_review :: review_args where
  "sample_review = \<lparr>rv_representation_id = ''mesh'', rv_reviewer_id = ''v'', rv_approved_uses = [''presentation''],
     rv_metrics = [(''points'', JInt 9)], rv_passed = True\<rparr>"

definition sample_history :: "publication_call list" where
  "sample_history = [Review (at_time 4) sample_review, Rest_Of_Database (sample_gallery ''approved'' []), Publish (at_time 5) sample_publish]"

lemma sample_review_returns:
  "\<exists>out t q review. review_quality hex_runtime ''k'' sample_builtins (at_time 4) sample_review (rated_gallery ''quarantined'' []) = Inr (out, t) \<and>
     tables t = ([(sample_mesh ''approved'')\<lparr>re_quality_json := q\<rparr>], []) \<and>
     jget_or q ''review'' (JObj []) = JObj review \<and> jget_or review ''approved_uses'' (JArr []) = JArr [JStr ''presentation'']"
proof -
  let ?r = "(sample_mesh ''quarantined'')\<lparr>re_quality_json := []\<rparr>"
  obtain q review where m: "merge_review hex_runtime sample_builtins 4 sample_review [] = Inr ([''presentation''], q)"
    and q: "jget_or q ''review'' (JObj []) = JObj review" "jget_or review ''approved_uses'' (JArr []) = JArr [JStr ''presentation'']"
    by (simp add: merge_review_def py_dict_def strs_def iterate_def jget_or_def jset_def newly_approved_def sample_review_def sorted_set_def Let_def)
  have a: "audit_events (put_representation x (rated_gallery ''quarantined'' [])) = []" for x by (simp add: put_representation_def)
  have f: "rv_representation_id sample_review = ''mesh''" "rv_reviewer_id sample_review = ''v''" "rv_approved_uses sample_review = [''presentation'']"
      "rv_metrics sample_review = [(''points'', JInt 9)]" "rv_passed sample_review" "re_intended_uses_json ?r = [''presentation'']"
    by (simp_all add: sample_review_def sample_mesh_def)
  have n: "?r\<lparr>re_quality_json := q, re_state := ''approved''\<rparr> = (sample_mesh ''approved'')\<lparr>re_quality_json := q\<rparr>" by (simp add: sample_mesh_def)
  have "\<exists>out t. review_quality hex_runtime ''k'' sample_builtins (at_time 4) sample_review (rated_gallery ''quarantined'' []) = Inr (out, t) \<and>
     tables t = ([(sample_mesh ''approved'')\<lparr>re_quality_json := q\<rparr>], [])"
    using m n by (simp add: review_quality_def f sample_ids is_worker_def sorted_set_def append_audit_first [OF a] Let_def)
      (simp add: put_representation_def tput_def)
  with q show ?thesis by blast
qed

lemma sample_history_returns:
  "\<exists>q review. tables (run (publication_step hex_runtime ''k'' publication_catalog sample_builtins ''pk'') sample_history (rated_gallery ''quarantined'' []))
     = ([(sample_mesh ''published'')\<lparr>re_quality_json := q\<rparr>], [rated_binding q review])"
proof -
  obtain out t q review where r: "review_quality hex_runtime ''k'' sample_builtins (at_time 4) sample_review (rated_gallery ''quarantined'' []) = Inr (out, t)"
    and t: "tables t = ([(sample_mesh ''approved'')\<lparr>re_quality_json := q\<rparr>], [])"
    and q: "jget_or q ''review'' (JObj []) = JObj review" "jget_or review ''approved_uses'' (JArr []) = JArr [JStr ''presentation'']"
    using sample_review_returns by blast
  have g: "(sample_gallery ''approved'' [])\<lparr>representations := representations t, representation_bindings := representation_bindings t\<rparr> = rated_gallery ''approved'' q"
    using t by (simp add: rated_gallery_def sample_gallery_def)
  obtain u where u: "publish hex_runtime ''k'' publication_catalog sample_builtins ''pk'' (at_time 5) sample_publish (rated_gallery ''approved'' q) = Inr (''id0'', u)"
    "tables u = ([(sample_mesh ''published'')\<lparr>re_quality_json := q\<rparr>], [rated_binding q review])"
    using rated_publish_returns [OF q] by blast
  have "run (publication_step hex_runtime ''k'' publication_catalog sample_builtins ''pk'') sample_history (rated_gallery ''quarantined'' []) = u"
    by (simp add: sample_history_def settle_def r g u(1))
  with u(2) show ?thesis by blast
qed

lemma sample_history_start:
  "publication_wf (tables (rated_gallery ''quarantined'' []))" "stored_uses B (rated_gallery ''quarantined'' []) k = {}"
  "Candidate E a \<notin> set sample_history"
proof -
  show "publication_wf (tables (rated_gallery ''quarantined'' []))"
    by (simp add: publication_wf_def rep_ok_def open_states_def)
  show "stored_uses B (rated_gallery ''quarantined'' []) k = {}"
    by (simp add: stored_uses_def quality_of_def tget_Cons stated_uses_def jget_or_def py_dict_def strs_def iterate_def)
  show "Candidate E a \<notin> set sample_history" by (simp add: sample_history_def)
qed

lemma rated_binding_fields [simp]:
  "bi_representation_id (rated_binding q review) = ''mesh''" "bi_intended_uses_json (rated_binding q review) = [''presentation'']"
  "bi_superseded_at (rated_binding q review) = None" "bi_role (rated_binding q review) = ''presentation''"
  "bi_tenant_id (rated_binding q review) = ''other''" "bi_project_id (rated_binding q review) = ''p''" "bi_scene_id (rated_binding q review) = ''s''"
  "bi_client_profile_json (rated_binding q review) = []" "bi_audience_policy_json (rated_binding q review) = [(''purpose'', JStr ''presentation'')]"
  by (simp_all add: rated_binding_def new_binding_def sample_publish_def fields_or_def jset_def)

definition sample_view :: view_args where
  "sample_view = \<lparr>vw_tenant_id = ''other'', vw_project_id = ''p'', vw_scene_id = ''s'', vw_intended_use = ''presentation'',
     vw_audience = ''client'', vw_role = None, vw_client_profile = []\<rparr>"

lemma sample_view_returns:
  assumes "tables s = ([(sample_mesh ''published'')\<lparr>re_quality_json := q\<rparr>], [rated_binding q review])"
  shows "\<exists>v s' l. select_for_view sample_view s = Inr (v, s') \<and> l \<in> set (vr_selected v) \<and> sl_binding_id l = bi_binding_id (rated_binding q review)"
proof -
  let ?r = "(sample_mesh ''published'')\<lparr>re_quality_json := q\<rparr>" and ?b = "rated_binding q review"
  have "view_bindings sample_view s = [?b]" using assms by (simp add: view_bindings_def sample_view_def)
  moreover have "view_decision_of sample_view [] s ?b = Inr (Selected (layer_of ?b ?r False))"
    using assms by (simp add: view_decision_of_def sample_view_def members_def jget_or_def iterate_def available_def client_decision_def
        get_representation_def tget_Cons)
  moreover have "sl_binding_id (layer_of ?b ?r False) = bi_binding_id ?b" by (simp add: layer_of_def)
  ultimately show ?thesis
    by (simp add: select_for_view_def members_def jget_or_def iterate_def Let_def) (simp add: sample_view_def)
qed

lemma invalidated_payload:
  assumes "length h = 64"
  shows "validate_payload rt [(''representation_id'', JStr ''mesh''), (''changed_resource_id'', JStr ''scan''), (''reason'', JStr ''rescan''),
    (''superseded_binding_count'', JInt 1), (''regeneration_plan_hash'', JStr h), (''regeneration_blocked_reasons'', JArr [])] = Inr ()"
proof (rule small_payload)
  have "walk (JObj [(''representation_id'', JStr a), (''changed_resource_id'', JStr b), (''reason'', JStr c),
    (''superseded_binding_count'', JInt d), (''regeneration_plan_hash'', JStr h), (''regeneration_blocked_reasons'', JArr [])]) [] = Inr ()" for a b c d h
    by code_simp
  then show "walk (JObj [(''representation_id'', JStr ''mesh''), (''changed_resource_id'', JStr ''scan''), (''reason'', JStr ''rescan''),
    (''superseded_binding_count'', JInt 1), (''regeneration_plan_hash'', JStr h), (''regeneration_blocked_reasons'', JArr [])]) [] = Inr ()" .
  have "nat_repr (Suc 0) = ''1''" by code_simp
  with assms show "fields_bound rt [(''representation_id'', JStr ''mesh''), (''changed_resource_id'', JStr ''scan''), (''reason'', JStr ''rescan''),
    (''superseded_binding_count'', JInt 1), (''regeneration_plan_hash'', JStr h), (''regeneration_blocked_reasons'', JArr [])] \<le> 65534"
    by (simp add: int_repr_def)
qed

lemma sample_plan: "\<exists>plan. regeneration_plan_of hex_runtime sample_builtins ''scan'' ''rescan'' (sample_mesh st) = Inr plan \<and> rp_blocked_reasons plan = [] \<and>
    length (rp_input_manifest_hash plan) = 64"
proof -
  have "py_strip ''mesh'' = ''mesh''" "policy_revocation ''rescan'' = False" by code_simp+
  then show ?thesis
    by (simp add: regeneration_plan_of_def texts_def strs_def jget_or_def iterate_def json_str_def Let_def length_hex_digest sorted_set_def)
qed

lemma sample_invalidation:
  "\<exists>t. invalidate_dependencies hex_runtime ''k'' publication_catalog sample_builtins (at_time 9) ''other'' ''p'' ''scan'' ''rescan'' ''u'' True
      (sample_gallery ''published'' [gallery_binding]) = (Inl (Uncaught ''AttributeError''), t) \<and> audit_events t \<noteq> []"
proof -
  let ?s = "sample_gallery ''published'' [gallery_binding]" and ?r = "sample_mesh ''published''"
  obtain plan where plan: "regeneration_plan_of hex_runtime sample_builtins ''scan'' ''rescan'' ?r = Inr plan" "rp_blocked_reasons plan = []"
      "length (rp_input_manifest_hash plan) = 64"
    using sample_plan by blast
  have refs: "references ?r = Inr [JStr ''scan'']" by (simp add: references_def members_def jget_or_def iterate_def)
  have b: "binds ?r gallery_binding" by (simp add: binds_def)
  let ?payload = "[(''representation_id'', JStr ''mesh''), (''changed_resource_id'', JStr ''scan''), (''reason'', JStr ''rescan''),
    (''superseded_binding_count'', JInt 1), (''regeneration_plan_hash'', JStr (rp_input_manifest_hash plan)), (''regeneration_blocked_reasons'', JArr [])]"
  let ?s1 = "supersede_bindings (binds ?r) 9 (put_representation (invalidated ''scan'' ''rescan'' 9 plan ?r) ?s)"
  let ?e = "representation_event ''representation.dependency_invalidated'' ''other'' ''p'' ''mesh'' ?payload ''u'' None (Some ''scan'')"
  have s1: "outbox_events ?s1 = []" "audit_events ?s1 = []" by (simp_all add: supersede_bindings_def put_representation_def)
  obtain l where e: "emit_event hex_runtime publication_catalog ''id0'' 9 ?e ?s1 = Inr (?s1\<lparr>outbox_events := l\<rparr>)"
    using publication_event_returns [of ?e ?s1 "''id0''" 9] s1 invalidated_payload [OF plan(3)] by (auto simp: representation_event_def)
  have a: "audit_events (?s1\<lparr>outbox_events := l\<rparr>) = []" using s1 by simp
  have n: "ids (at_time 9) (Suc 0) = ''id1''" using sample_ids(2) by simp
  have "\<exists>rep u. invalidation_session hex_runtime ''k'' publication_catalog sample_builtins (at_time 9) ''other'' ''p'' ''scan'' ''rescan'' ''u'' ?s
      = Inr (rep, u) \<and> ir_plans rep = [plan] \<and> audit_events u \<noteq> []"
    unfolding invalidation_session_def
    by (simp add: invalidate_one_def refs plan b sample_ids Let_def e n append_audit_first [OF a])
  then show ?thesis using plan(2) by (auto simp: invalidate_dependencies_def session_def)
qed


text \<open>A restricted scan on legal hold, with a consent, as the source of a drawing.\<close>

definition held_scan :: asset_ref_row where
  "held_scan = sample_scan\<lparr>r_classification := ''restricted'', r_legal_hold := True,
     r_provenance_json := [(''policy'', JObj [(''consent_grant_ids'', JArr [JStr ''grant'']), (''allowed_audiences'', JArr [JStr ''client''])])]\<rparr>"

definition sample_archive :: db where
  "sample_archive = (sample_gallery ''approved'' [])\<lparr>asset_refs := [held_scan, sample_scan\<lparr>r_asset_id := ''out'', r_classification := ''restricted''\<rparr>]\<rparr>"

definition sample_candidate :: candidate_args where
  "sample_candidate = \<lparr>cd_tenant_id = ''other'', cd_project_id = ''p'', cd_scene_id = ''s'', cd_asset_id = ''out'', cd_kind = Kind_VISUAL,
     cd_provider_id = ''local'', cd_coordinate_frame_id = ''f'', cd_source_class = Source_GENERATED,
     cd_authority_class = Authority_DERIVED_NON_AUTHORITATIVE, cd_lossy = False, cd_intended_uses = [''presentation''], cd_prohibited_uses = [],
     cd_quality = [], cd_provenance = [(''source_ids'', JArr [JStr ''scan''])], cd_support_map = [], cd_actor_id = ''u'',
     cd_operation_id = None, cd_representation_id = Some ''drawing'', cd_format_metadata = [], cd_derivation_policy = [], cd_limitations = [],
     cd_information_losses = [], cd_privacy_inheritance = [], cd_dependencies = [], cd_fallback_representation_id = None, cd_metadata = []\<rparr>"

lemma held_scan_fields [simp]:
  "r_asset_id held_scan = ''scan''" "r_tenant_id held_scan = ''other''" "r_project_id held_scan = ''p''" "r_classification held_scan = ''restricted''"
  "r_legal_hold held_scan" "r_retention_class held_scan = ''standard''" "r_tombstoned_at held_scan = None"
  "asset_policy held_scan = [[(''consent_grant_ids'', JArr [JStr ''grant'']), (''allowed_audiences'', JArr [JStr ''client''])]]"
  by (simp_all add: held_scan_def sample_scan_def asset_policy_def jget_or_def)

lemma sample_archive_fields [simp]:
  "asset_refs sample_archive = [held_scan, sample_scan\<lparr>r_asset_id := ''out'', r_classification := ''restricted''\<rparr>]"
  "representations sample_archive = [sample_mesh ''approved'']" "outbox_events sample_archive = []" "audit_events sample_archive = []"
  "get_provider sample_archive ''local'' = Some sample_provider" "get_representation sample_archive ''drawing'' = None"
  by (simp_all add: sample_archive_def get_representation_def tget_Cons) (simp add: get_provider_def sample_gallery_def tget_Cons sample_provider_def)

lemma sample_inheritance:
  "\<exists>privacy s1. effective_privacy_inheritance hex_runtime sample_builtins ''other'' ''p'' ''out'' [(''source_ids'', JArr [JStr ''scan''])] [] sample_archive
     = Inr (privacy, s1) \<and> outbox_events s1 = [] \<and> audit_events s1 = [] \<and> representations s1 = [sample_mesh ''approved'']"
proof -
  have as: "asset_sources ''other'' ''p'' [''scan''] sample_archive = [held_scan]" and rs: "representation_sources ''other'' ''p'' [''scan''] sample_archive = []"
    by (simp_all add: asset_sources_def representation_sources_def)
  have c: "effective_classification (source_classifications sample_builtins [held_scan] [] []) = ''restricted''"
    by (simp add: effective_classification_def source_classifications_def policy_classification_def jget_def)
  obtain s1 where o: "check_output_asset ''other'' ''p'' ''out'' ''restricted'' True sample_archive = Inr ([], s1)"
      "outbox_events s1 = []" "audit_events s1 = []" "representations s1 = [sample_mesh ''approved'']"
    by (simp add: check_output_asset_def tget_Cons) (simp add: sample_scan_def inherit_hold_def put_asset_ref_def)
  have n: "sorted_set [''scan''] = [''scan'']" by (simp add: sorted_set_def)
  have h: "source_legal_hold [held_scan] [] []" by (simp add: source_legal_hold_def)
  show ?thesis
    unfolding effective_privacy_inheritance_def
    using o by (simp add: texts_def jget_or_def iterate_def as rs n c h gather_def strs_def audience_sets_def source_policies_def jget_def
        common_members_def Let_def json_str_def)
qed

lemma candidate_payload:
  assumes "length h = 64"
  shows "validate_payload hex_runtime [(''candidate_id'', JStr ''drawing''), (''representation_id'', JStr ''drawing''),
            (''operation_id'', JNull), (''asset_id'', JStr ''out''), (''kind'', JStr ''visual''),
            (''provider_id'', JStr ''local''), (''state'', JStr ''quarantined''),
            (''manifest_hash'', JStr h), (''authority_ceiling'', JStr ''derived_non_authoritative'')] = Inr ()"
proof (rule small_payload)
  have "walk (JObj [(''candidate_id'', JStr a), (''representation_id'', JStr b),
            (''operation_id'', JNull), (''asset_id'', JStr c), (''kind'', JStr d),
            (''provider_id'', JStr e), (''state'', JStr f),
            (''manifest_hash'', JStr h), (''authority_ceiling'', JStr g)]) [] = Inr ()" for a b c d e f g
    by code_simp
  then show "walk (JObj [(''candidate_id'', JStr ''drawing''), (''representation_id'', JStr ''drawing''),
            (''operation_id'', JNull), (''asset_id'', JStr ''out''), (''kind'', JStr ''visual''),
            (''provider_id'', JStr ''local''), (''state'', JStr ''quarantined''),
            (''manifest_hash'', JStr h), (''authority_ceiling'', JStr ''derived_non_authoritative'')]) [] = Inr ()" .
qed (use assms in simp)

lemma sample_candidate_returns:
  "\<exists>t. create_candidate hex_runtime ''k'' publication_catalog sample_builtins (at_time 5) sample_candidate sample_archive = Inr (''drawing'', t)"
proof -
  obtain privacy s1 where p: "effective_privacy_inheritance hex_runtime sample_builtins ''other'' ''p'' ''out''
        [(''source_ids'', JArr [JStr ''scan''])] [] sample_archive = Inr (privacy, s1)"
      "outbox_events s1 = []" "audit_events s1 = []" "representations s1 = [sample_mesh ''approved'']"
    using sample_inheritance by blast
  let ?row = "new_candidate hex_runtime 5 sample_candidate ''drawing'' privacy"
  let ?s = "s1\<lparr>representations := representations s1 @ [?row]\<rparr>"
  have a: "check_candidate_asset sample_candidate sample_archive = Inr ()"
    by (simp add: check_candidate_asset_def sample_candidate_def tget_Cons) (simp add: sample_scan_def)
  have b: "check_candidate sample_builtins ''drawing'' sample_candidate = Inr ()"
    by (simp add: check_candidate_def sample_candidate_def jget_or_def json_str_def) code_simp
  have c: "check_frame ''other'' ''p'' ''f'' sample_archive = Inr ()" "scene_exists ''other'' ''p'' ''s'' sample_archive"
    by (simp_all add: check_frame_def get_frame_def scene_exists_def sample_archive_def sample_gallery_def sample_survey_def tget_Cons)
      (simp_all add: sample_frame_def sample_scenes_def sample_commit_def)
  have d: "check_provider sample_candidate 5 sample_archive = Inr ()" "check_fallback sample_candidate s1 = Inr ()"
    by (simp_all add: check_provider_def check_fallback_def sample_candidate_def) (simp add: sample_provider_def expired_at_def)
  have r: "re_representation_id ?row = ''drawing''" "re_operation_id ?row = None" by (simp_all add: new_candidate_def sample_candidate_def)
  have g: "get_representation s1 ''drawing'' = None" by (simp add: get_representation_def p tget_Cons)
  have i: "insert_representation ?row s1 = Inr ?s" by (simp add: insert_representation_def insert_row_def r p tget_Cons)
  have h: "re_manifest_hash ?row = Some (canonical_sha256 hex_runtime (JObj (candidate_manifest hex_runtime sample_candidate ''drawing'' privacy)))"
    by (simp add: new_candidate_def)
  have s: "outbox_events ?s = []" "audit_events ?s = []" using p by simp_all
  have "\<exists>l. emit_event hex_runtime publication_catalog ''id1'' 5
      (representation_event ''representation.candidate_created'' ''other'' ''p'' ''drawing''
         [(''candidate_id'', JStr ''drawing''), (''representation_id'', JStr ''drawing''), (''operation_id'', JNull), (''asset_id'', JStr ''out''),
          (''kind'', JStr ''visual''), (''provider_id'', JStr ''local''), (''state'', JStr ''quarantined''),
          (''manifest_hash'', jopt (re_manifest_hash ?row)), (''authority_ceiling'', JStr ''derived_non_authoritative'')]
         ''u'' (Some ''drawing'') None) ?s = Inr (?s\<lparr>outbox_events := l\<rparr>)"
    using candidate_payload [OF length_hex_digest] s by (intro publication_event_returns) (simp_all add: representation_event_def h)
  then obtain l where e: "emit_event hex_runtime publication_catalog ''id1'' 5
      (representation_event ''representation.candidate_created'' ''other'' ''p'' ''drawing''
         [(''candidate_id'', JStr ''drawing''), (''representation_id'', JStr ''drawing''), (''operation_id'', JNull), (''asset_id'', JStr ''out''),
          (''kind'', JStr ''visual''), (''provider_id'', JStr ''local''), (''state'', JStr ''quarantined''),
          (''manifest_hash'', jopt (re_manifest_hash ?row)), (''authority_ceiling'', JStr ''derived_non_authoritative'')]
         ''u'' (Some ''drawing'') None) ?s = Inr (?s\<lparr>outbox_events := l\<rparr>)" by blast
  have au: "audit_events (?s\<lparr>outbox_events := l\<rparr>) = []" using s by simp
  have f: "cd_representation_id sample_candidate = Some ''drawing''" "cd_operation_id sample_candidate = None" "cd_tenant_id sample_candidate = ''other''"
      "cd_project_id sample_candidate = ''p''" "cd_asset_id sample_candidate = ''out''" "cd_kind sample_candidate = Kind_VISUAL"
      "cd_provider_id sample_candidate = ''local''" "cd_actor_id sample_candidate = ''u''" "cd_scene_id sample_candidate = ''s''"
      "cd_coordinate_frame_id sample_candidate = ''f''" "cd_provenance sample_candidate = [(''source_ids'', JArr [JStr ''scan''])]"
      "cd_privacy_inheritance sample_candidate = []" "cd_dependencies sample_candidate = []"
      "authority_ceiling_of sample_candidate = ''derived_non_authoritative''"
    by (simp_all add: sample_candidate_def authority_ceiling_of_def)
  have "\<exists>t. add_candidate hex_runtime ''k'' publication_catalog (at_time 5) sample_candidate ''drawing'' privacy s1 = Inr (''drawing'', t)"
    unfolding add_candidate_def Let_def sample_ids f i bindE_simps representation_kind_value.simps
    using e by (simp add: str_or_def append_audit_first [OF au])
  then show ?thesis
    using a b c d p(1) g by (simp add: create_candidate_def f str_or_def sample_ids)
qed

lemma representation_lifecycle_witness:
  "\<exists>r. get_representation (run (publication_step hex_runtime ''k'' publication_catalog sample_builtins ''pk'')
      [Publish (at_time 5) sample_publish, Invalidate (at_time 9) ''other'' ''p'' ''scan'' ''rescan'' ''u'' True] (sample_gallery ''approved'' [])) ''mesh''
    = Some r \<and> core r = core (sample_mesh ''approved'')"
  using representation_lifecycle [OF sample_gallery_wf(1) refl, of hex_runtime "''k''" publication_catalog sample_builtins "''pk''"
      "[Publish (at_time 5) sample_publish, Invalidate (at_time 9) ''other'' ''p'' ''scan'' ''rescan'' ''u'' True]"]
    sample_gallery_fields(3) by blast

lemma published_uses_were_reviewed_witness:
  "\<exists>b\<in>set (representation_bindings (run (publication_step hex_runtime ''k'' publication_catalog sample_builtins ''pk'')
       sample_history (rated_gallery ''quarantined'' []))). \<not> prefix ''sip-worker:'' (bi_published_by b) \<and>
     bi_intended_uses_json b = [''presentation''] \<and>
     approved_in hex_runtime ''k'' publication_catalog sample_builtins ''pk'' (rated_gallery ''quarantined'' []) sample_history ''mesh'' ''presentation''"
proof -
  let ?t = "run (publication_step hex_runtime ''k'' publication_catalog sample_builtins ''pk'') sample_history (rated_gallery ''quarantined'' [])"
  obtain q review where b: "representation_bindings ?t = [rated_binding q review]" using sample_history_returns by auto
  then have "rated_binding q review \<in> set (representation_bindings ?t)" by simp
  from published_uses_were_reviewed [OF sample_history_start(1) refl this] sample_history_start(2,3) b show ?thesis by auto
qed

lemma view_serves_reviewed_witness:
  "\<exists>v s' l (b :: representation_binding_row). select_for_view sample_view (run (publication_step hex_runtime ''k'' publication_catalog sample_builtins ''pk'')
       sample_history (rated_gallery ''quarantined'' [])) = Inr (v, s') \<and> l \<in> set (vr_selected v) \<and> bi_binding_id b = sl_binding_id l \<and>
     approved_in hex_runtime ''k'' publication_catalog sample_builtins ''pk'' (rated_gallery ''quarantined'' []) sample_history
       (bi_representation_id b) ''presentation''"
proof -
  let ?t = "run (publication_step hex_runtime ''k'' publication_catalog sample_builtins ''pk'') sample_history (rated_gallery ''quarantined'' [])"
  have use: "vw_intended_use sample_view = ''presentation''" by (simp add: sample_view_def)
  obtain v s' l where v: "select_for_view sample_view ?t = Inr (v, s')" "l \<in> set (vr_selected v)"
    using sample_history_returns sample_view_returns by blast
  from view_serves_reviewed [OF sample_history_start(1) refl v, unfolded use] obtain b :: representation_binding_row where "bi_binding_id b = sl_binding_id l"
    "(\<forall>k. stored_uses sample_builtins (rated_gallery ''quarantined'' []) k = {}) \<and>
       (\<forall>E a. Candidate E a \<in> set sample_history \<longrightarrow> stated_uses sample_builtins (cd_quality a) = {}) \<longrightarrow>
     approved_in hex_runtime ''k'' publication_catalog sample_builtins ''pk'' (rated_gallery ''quarantined'' []) sample_history (bi_representation_id b) ''presentation''"
    by (elim exE conjE) (rule that, assumption+)
  with v sample_history_start(2,3) show ?thesis by blast
qed

lemma invalidation_withdraws_dependants_witness:
  "\<exists>t r. invalidate_dependencies hex_runtime ''k'' publication_catalog sample_builtins (at_time 9) ''other'' ''p'' ''scan'' ''rescan'' ''u'' True
      (sample_gallery ''published'' [gallery_binding]) = (Inl (Uncaught ''AttributeError''), t) \<and>
    get_representation t ''mesh'' = Some r \<and> re_state r = ''invalidated''"
proof -
  let ?s = "sample_gallery ''published'' [gallery_binding]"
  obtain t where t: "invalidate_dependencies hex_runtime ''k'' publication_catalog sample_builtins (at_time 9) ''other'' ''p'' ''scan'' ''rescan'' ''u'' True ?s
      = (Inl (Uncaught ''AttributeError''), t)" "audit_events t \<noteq> []"
    using sample_invalidation by blast
  then have "t \<noteq> ?s" by auto
  have "depends_on ''scan'' (sample_mesh ''published'')"
    by (simp add: depends_on_def references_def members_def jget_or_def iterate_def)
  then have "sample_mesh ''published'' \<in> set (dependants ''other'' ''p'' ''scan'' ?s)" by (simp add: dependants_def)
  with invalidation_withdraws_dependants [OF sample_gallery_wf(2) t(1)] \<open>t \<noteq> ?s\<close> obtain r where
    "get_representation t (re_representation_id (sample_mesh ''published'')) = Some r" "re_state r = ''invalidated''" by blast
  with t(1) show ?thesis by auto
qed

lemma derivative_keeps_restrictions_witness:
  "\<exists>t out. create_candidate hex_runtime ''k'' publication_catalog sample_builtins (at_time 5) sample_candidate sample_archive = Inr (''drawing'', t) \<and>
     tget r_asset_id (asset_refs t) ''out'' = Some out \<and> r_legal_hold out"
proof -
  obtain t where t: "create_candidate hex_runtime ''k'' publication_catalog sample_builtins (at_time 5) sample_candidate sample_archive = Inr (''drawing'', t)"
    using sample_candidate_returns by blast
  have n: "texts (jget_or (cd_provenance sample_candidate) ''source_ids'' (JArr [])) = Inr [''scan'']"
    by (simp add: sample_candidate_def texts_def jget_or_def iterate_def)
  have "source_of sample_builtins sample_candidate [''scan''] sample_archive [''restricted''] True (asset_policy held_scan)"
    unfolding source_of_def by (rule disjI1, rule bexI [of _ held_scan]) (simp_all add: sample_candidate_def)
  from derivative_keeps_restrictions [OF t n this] obtain out where
    "tget r_asset_id (asset_refs t) (cd_asset_id sample_candidate) = Some out" "r_legal_hold out" by blast
  with t show ?thesis by (auto simp: sample_candidate_def)
qed

end
