(* ===== verification/Residency.thy ===== *)
theory Residency
  imports Deployment Published_Scenes Operation_Lifecycle Multipart Deletion_Workflow
begin

text \<open>
  What the deployment service promises. It satisfies the contracts under which the services of
  operations, assets, uploads and lifecycle were verified, so their theorems hold for the platform
  with the service installed, and it admits work only where the residency policy of the project allows
  it. Over any calls its policies never change, a project has one deployment, and what was admitted
  is within the limits.
\<close>

section \<open>Frames\<close>

lemma announce_frame:
  assumes "announce rt key cat E e u s = Inr t"
  shows "\<exists>l m. t = s\<lparr>outbox_events := l, audit_events := m\<rparr>"
proof -
  from assms obtain s1 where e: "emit_event rt cat (ids E 1) (clk E 2) e s = Inr s1"
    and u: "append_audit rt key (ids E 2) (clk E 3) u s1 = Inr t"
    by (auto simp: announce_def bindE_Inr_conv)
  from emit_event_frame [OF e] append_audit_frame [OF u] show ?thesis by auto
qed

text \<open>What the admission of work may write.\<close>

definition admission_frame :: "db \<Rightarrow> db \<Rightarrow> bool" where
  "admission_frame s t \<longleftrightarrow> (\<exists>a l m. t = s\<lparr>deployment_admissions := a, outbox_events := l, audit_events := m\<rparr>)"

lemma admission_frame_refl: "admission_frame s s"
  unfolding admission_frame_def by (intro exI [of _ "deployment_admissions s"] exI [of _ "outbox_events s"] exI [of _ "audit_events s"]) simp

lemma record_session_Inr:
  assumes "record_session rt key cat E c d s = Inr (row, t)"
  shows "admission_frame s t \<and> dm_evidence_hash row = dm_evidence_hash (new_admission rt E c d) \<and>
    (row \<in> set (deployment_admissions s) \<and> t = s \<or>
     row = new_admission rt E c d \<and> deployment_admissions t = deployment_admissions s @ [row] \<and>
     dm_admission_id row \<notin> tkeys dm_admission_id (deployment_admissions s))"
proof (cases "find (\<lambda>x. dm_evidence_hash x = dm_evidence_hash (new_admission rt E c d)) (deployment_admissions s)")
  case None
  have "record_session rt key cat E c d s = bindE (insert_row dm_admission_id (new_admission rt E c d) (deployment_admissions s)) (\<lambda>rows.
      bindE (announce rt key cat E (admission_event E c (new_admission rt E c d)) (admission_audit E c (new_admission rt E c d))
        (s\<lparr>deployment_admissions := rows\<rparr>)) (\<lambda>s1. Inr (new_admission rt E c d, s1)))"
    using None by (simp add: record_session_def Let_def)
  from assms [unfolded this] have i: "dm_admission_id (new_admission rt E c d) \<notin> tkeys dm_admission_id (deployment_admissions s)"
    and a: "announce rt key cat E (admission_event E c (new_admission rt E c d)) (admission_audit E c (new_admission rt E c d))
      (s\<lparr>deployment_admissions := deployment_admissions s @ [new_admission rt E c d]\<rparr>) = Inr t"
    and r: "row = new_admission rt E c d"
    unfolding bindE_Inr_conv insert_row_Inr by blast+
  from announce_frame [OF a] obtain l m where t: "t = s\<lparr>deployment_admissions := deployment_admissions s @ [new_admission rt E c d],
      outbox_events := l, audit_events := m\<rparr>" by auto
  then have "admission_frame s t" unfolding admission_frame_def by blast
  with i r t show ?thesis by simp
next
  case (Some x)
  with assms have "row = x" "t = s" by (simp_all add: record_session_def)
  with Some show ?thesis by (auto simp: find_Some_iff admission_frame_refl)
qed

lemma record_admission_frame: "record_admission rt key cat E c d s = (x, t) \<Longrightarrow> admission_frame s t"
  by (auto simp: record_admission_def session_def admission_frame_refl record_session_Inr split: sum.splits prod.splits if_splits)

lemma authorize_admission_records:
  assumes "authorize_admission rt key cat B E c s = (x, t)"
  shows "t = s \<or> (\<exists>d. record_admission rt key cat E c d s = (x, t))"
  using assms by (auto simp: authorize_admission_def split: if_splits sum.splits)

lemma authorize_if_configured_records:
  assumes "authorize_if_configured rt key cat B E q s = (x, t)"
  shows "t = s \<or> (\<exists>c d y. record_admission rt key cat E c d s = (y, t))"
proof (cases "active_binding (ad_tenant_id q) (ad_project_id q) s")
  case None
  with assms show ?thesis by (simp add: authorize_if_configured_def)
next
  case (Some b)
  with assms obtain y where "record_admission rt key cat E (call_of q b) (''deny'', ''DEPLOYMENT_REGION_REQUIRED'', [''deployment_region'']) s = (y, t) \<or>
      authorize_admission rt key cat B E (call_of q b) s = (y, t)"
    by (auto simp: authorize_if_configured_def split: if_splits prod.splits sum.splits)
  then show ?thesis using authorize_admission_records by blast
qed

lemma authorize_if_configured_frame: "authorize_if_configured rt key cat B E q s = (x, t) \<Longrightarrow> admission_frame s t"
  using authorize_if_configured_records record_admission_frame admission_frame_refl by metis

lemma deployment_service_frame: "admission_frame s (snd (deployment_service_of rt key cat B F q s))"
proof -
  obtain x t where "authorize_if_configured rt key cat B (F s) q s = (x, t)" by fastforce
  with authorize_if_configured_frame [OF this] show ?thesis by (simp add: deployment_service_of_def split: sum.split)
qed

section \<open>The platform with the deployment service\<close>

lemma admission_frameD:
  assumes "admission_frame s t"
  shows "operations t = operations s" and "asset_refs t = asset_refs s" and "assets t = assets s"
    and "multipart_uploads t = multipart_uploads s" and "multipart_chunks t = multipart_chunks s" and "same_governance s t"
  using assms by (auto simp: admission_frame_def same_governance_def)

lemmas sited_frame = admission_frameD [OF deployment_service_frame]

interpretation sited_operations: operation_platform "Some (deployment_service_of rt key cat B F)"
  for rt key cat B F
  by unfold_locales (auto simp: sited_frame)

interpretation sited_assets: asset_platform "Some (deployment_service_of rt key cat B F)"
  for rt key cat B F
  by unfold_locales (auto simp: sited_frame)

interpretation sited_uploads: upload_platform "Some (deployment_service_of rt key cat B F)"
  for rt key cat B F
  by unfold_locales (auto simp: sited_frame)

interpretation sited_lifecycle: governed_platform "Some (deployment_service_of rt key cat B F)"
  for rt key cat B F
  by unfold_locales (auto simp: sited_frame)


section \<open>Work stays where the policy allows it\<close>

text \<open>What the policy of a binding demands of a region and of a class of work: the profile is active and
  serves the region, the policy is active and lists the region and the mode, and so does its rule for
  the class.\<close>

definition within_residency ::
  "string \<Rightarrow> string \<Rightarrow> (residency_policy_row \<Rightarrow> fields) \<Rightarrow> project_deployment_row \<Rightarrow> db \<Rightarrow> bool" where
  "within_residency region cls rules b s \<longleftrightarrow> (\<exists>profile policy rule.
     get_deployment_profile s (dn_deployment_profile_id b) = Some profile \<and> dq_state profile = ''active'' \<and>
     region \<in> set (dq_supported_regions_json profile) \<and>
     get_active_residency b s = Some policy \<and> region \<in> set (rz_allowed_regions_json policy) \<and>
     dq_mode profile \<in> set (rz_allowed_modes_json policy) \<and> jget (rules policy) cls = JObj rule \<and>
     py_in (JStr region) (jget_or rule ''allowed_regions'' (JArr [])) = Inr True \<and>
     py_in (JStr (dq_mode profile)) (jget_or rule ''allowed_modes'' (JArr [])) = Inr True)"

lemma listed_iff: "listed v ts \<longleftrightarrow> (\<exists>t \<in> set ts. v = JStr t)"
  by (simp add: listed_def list_ex_iff)

lemma truthy_text: "truthy (JStr t) \<longleftrightarrow> t \<noteq> []"
  by (cases t) simp_all

lemma class_decision_None:
  assumes "class_decision B kind region request mode policy = Inr None" and "truthy region"
    and "kind = ''asset_upload'' \<and> rules = rz_asset_rules_json \<or> kind = ''worker_schedule'' \<and> rules = rz_worker_rules_json"
  shows "\<exists>rule. jget (rules policy) (class_key B request) = JObj rule \<and>
    py_in region (jget_or rule ''allowed_regions'' (JArr [])) = Inr True \<and>
    py_in (JStr mode) (jget_or rule ''allowed_modes'' (JArr [])) = Inr True"
  using assms by (auto simp: class_decision_def deny_def bindE_Inr_conv split: json.splits if_splits)

lemma no_verdict: "(\<forall>a b c. x \<noteq> Some (a, b, c)) \<longleftrightarrow> x = None"
  by (cases x) auto

lemma scope_decision_None:
  assumes "scope_decision B kind region request b s = Inr None" and "truthy region"
    and "kind = ''asset_upload'' \<and> rules = rz_asset_rules_json \<or> kind = ''worker_schedule'' \<and> rules = rz_worker_rules_json"
  shows "\<exists>r. region = JStr r \<and> within_residency r (class_key B request) rules b s"
proof -
  from assms obtain profile policy where p: "get_deployment_profile s (dn_deployment_profile_id b) = Some profile" "dq_state profile = ''active''"
    "listed region (dq_supported_regions_json profile)" and q: "get_active_residency b s = Some policy"
    "dq_mode profile \<in> set (rz_allowed_modes_json policy)" "listed region (rz_allowed_regions_json policy)"
    and c: "class_decision B kind region request (dq_mode profile) policy = Inr None"
    by (auto simp: scope_decision_def deny_def bindE_Inr_conv no_verdict split: option.splits if_splits)
  from p(3) obtain r where r: "region = JStr r" by (auto simp: listed_iff)
  from class_decision_None [OF c assms(2,3)] show ?thesis
    unfolding within_residency_def using p q r by (auto simp: listed_iff)
qed

lemma decisions_deny:
  assumes "scope_decision B kind region request b s = Inr (Some d)"
  shows "fst d = ''deny''"
  using assms by (auto simp: scope_decision_def class_decision_def transfer_decision_def deny_def bindE_Inr_conv Let_def
    split: option.splits if_splits json.splits)

lemma evaluate_allows:
  assumes "evaluate_admission B tenant (Some project) kind profile region request s = Inr d" and "fst d = ''allow''"
    and "active_binding tenant project s = Some b"
  shows "scope_decision B kind region request b s = Inr None \<and> d = (''allow'', ''ALLOW'', [])"
  using assms decisions_deny
  by (fastforce simp: evaluate_admission_def bindE_Inr_conv split: option.splits if_splits)

lemma record_admission_Inr:
  assumes "record_admission rt key cat E c d s = (Inr row, t)"
  shows "fst d = ''allow'' \<and> record_session rt key cat E c d s = Inr (row, t)"
  using assms by (auto simp: record_admission_def session_def split: sum.splits if_splits)

text \<open>The service admits work of a deployed project only within its policy, and records that it did.\<close>

lemma service_admits:
  assumes "deployment_service_of rt key cat B F q s = (Inr u, t)" and "active_binding (ad_tenant_id q) (ad_project_id q) s = Some b"
    and "ad_admission_type q = ''asset_upload'' \<and> rules = rz_asset_rules_json \<or> ad_admission_type q = ''worker_schedule'' \<and> rules = rz_worker_rules_json"
  shows "\<exists>r m. ad_region q = JStr r \<and> within_residency r (class_key B (ad_request q)) rules b s \<and> m \<in> set (deployment_admissions t) \<and>
    dm_evidence_hash m = dm_evidence_hash (new_admission rt (F s) (call_of q b) (''allow'', ''ALLOW'', []))"
proof -
  from assms(1) obtain x where "authorize_if_configured rt key cat B (F s) q s = (Inr x, t)"
    by (auto simp: deployment_service_of_def split: prod.splits sum.splits)
  then obtain row where c: "authorize_admission rt key cat B (F s) (call_of q b) s = (Inr row, t)" and tr: "truthy (ad_region q)"
    using assms(2) record_admission_Inr
    by (fastforce simp: authorize_if_configured_def split: if_splits prod.splits sum.splits)
  from c obtain d where e: "evaluate_admission B (ad_tenant_id q) (Some (ad_project_id q)) (ad_admission_type q)
      (Some (dn_deployment_profile_id b)) (ad_region q) (ad_request q) s = Inr d"
    and r: "record_admission rt key cat (F s) (call_of q b) d s = (Inr row, t)"
    by (auto simp: authorize_admission_def call_of_def split: if_splits sum.splits)
  note rec = record_admission_Inr [OF r]
  note ev = evaluate_allows [OF e conjunct1 [OF rec] assms(2)]
  from scope_decision_None [OF conjunct1 [OF ev] tr assms(3)] record_session_Inr [OF conjunct2 [OF rec]] ev
  show ?thesis by auto
qed


definition worker_class :: "(json \<Rightarrow> string) \<Rightarrow> create_args \<Rightarrow> string" where
  "worker_class py_str a = (case map_of (ca_input_manifest a) ''worker_class'' of None \<Rightarrow> ca_operation_type a | Some v \<Rightarrow> py_str v)"

lemma admission_classes:
  "class_key B (ad_request (worker_admission py_str a)) = worker_class py_str a"
  "class_key B (ad_request (upload_admission g)) = ig_asset_class g"
  by (auto simp: class_key_def worker_admission_def upload_admission_def worker_class_def jget_def json_str_def split: option.splits)

lemma unadmitted_work:
  assumes "admit deployment (worker_admission py_str a) s = (Inl e, t)"
  shows "\<exists>e t'. create_operation rt py_str key cat deployment E a s = (Inl e, t') \<and> (t' = s \<or> t' = t)"
  using assms by (simp add: create_operation_def)

lemma unadmitted_upload:
  assumes "admit deployment (upload_admission g) (as_db S) = (Inl e, t)"
  shows "ingest_bytes X deployment E rnd g S = (Inl e, S\<lparr>as_db := t\<rparr>)"
  using assms by (simp add: ingest_bytes_def)

lemma service_refuses:
  assumes "active_binding (ad_tenant_id q) (ad_project_id q) s = Some b"
    and "ad_admission_type q = ''asset_upload'' \<and> rules = rz_asset_rules_json \<or> ad_admission_type q = ''worker_schedule'' \<and> rules = rz_worker_rules_json"
    and "\<And>region. ad_region q = JStr region \<Longrightarrow> \<not> within_residency region (class_key B (ad_request q)) rules b s"
  obtains e t where "admit (Some (deployment_service_of rt key cat B F)) q s = (Inl e, t)"
proof -
  obtain x t where q: "deployment_service_of rt key cat B F q s = (x, t)" by fastforce
  then show ?thesis using service_admits [of rt key cat B F q s _ t b rules] assms that by (cases x) (auto simp: admit_def)
qed

text \<open>
  C12. With the deployment service installed, a project that has a deployment in force runs nothing
  outside its residency policy: when the region of a request is not one that the profile serves, the
  policy allows and the rule for its class lists together with the mode of the profile, creating an
  operation raises and leaves the operations as they were, and ingesting an asset raises and leaves
  the references, the assets and the object store as they were.
\<close>

theorem nothing_runs_outside_residency:
  assumes "active_binding (ca_tenant_id a) (ca_project_id a) s = Some b"
    and "\<And>region. jget (ca_input_manifest a) ''deployment_region'' = JStr region \<Longrightarrow>
      \<not> within_residency region (worker_class py_str a) rz_worker_rules_json b s"
    and "active_binding (ig_tenant_id g) (ig_project_id g) (as_db S) = Some c"
    and "\<And>region. ig_deployment_region g = JStr region \<Longrightarrow>
      \<not> within_residency region (ig_asset_class g) rz_asset_rules_json c (as_db S)"
  shows "(\<exists>e t. create_operation rt py_str key cat (Some (deployment_service_of rt key cat B F)) E a s = (Inl e, t) \<and>
      operations t = operations s) \<and>
    (\<exists>e t. ingest_bytes X (Some (deployment_service_of rt key cat B F)) E rnd g S = (Inl e, S\<lparr>as_db := t\<rparr>) \<and>
      asset_refs t = asset_refs (as_db S) \<and> assets t = assets (as_db S))"
proof -
  obtain e t where w: "admit (Some (deployment_service_of rt key cat B F)) (worker_admission py_str a) s = (Inl e, t)"
    by (rule service_refuses [where q = "worker_admission py_str a" and b = b and rules = rz_worker_rules_json])
      (use assms(1,2) in \<open>simp_all add: admission_classes\<close>, simp_all add: worker_admission_def)
  obtain e' t' where u: "admit (Some (deployment_service_of rt key cat B F)) (upload_admission g) (as_db S) = (Inl e', t')"
    by (rule service_refuses [where q = "upload_admission g" and b = c and rules = rz_asset_rules_json])
      (use assms(3,4) in \<open>simp_all add: admission_classes\<close>, simp_all add: upload_admission_def)
  from w sited_operations.admit_operations [of rt key cat B F "worker_admission py_str a" s]
  have "\<exists>e t. create_operation rt py_str key cat (Some (deployment_service_of rt key cat B F)) E a s = (Inl e, t) \<and> operations t = operations s"
    using unadmitted_work [OF w, of rt key cat E] by auto
  with unadmitted_upload [OF u] sited_assets.admit_frame [of rt key cat B F "upload_admission g" "as_db S"] u
  show ?thesis by auto
qed

definition sample_profile_row :: deployment_profile_row where
  "sample_profile_row = \<lparr>dq_deployment_profile_id = ''dp'', dq_name = ''edge'', dq_revision = ''1'', dq_mode = ''edge'',
     dq_canonical_contracts_json = [], dq_canonical_contracts_hash = [], dq_features_json = [], dq_service_images_json = [],
     dq_infrastructure_versions_json = [], dq_secret_references_json = [], dq_network_policy_json = [], dq_resource_limits_json = [],
     dq_supported_regions_json = [''eu-west-1'', ''us-east-1''], dq_degraded_modes_json = [], dq_provider_replacements_json = [],
     dq_production_approved = False, dq_state = ''active'', dq_profile_hash = ''ph'', dq_supersedes_profile_id = None,
     dq_created_by = ''u'', dq_created_at = 0\<rparr>"

definition sample_residency_row :: residency_policy_row where
  "sample_residency_row = \<lparr>rz_residency_policy_id = ''rp'', rz_tenant_id = ''t'', rz_project_id = ''p'', rz_revision = ''1'',
     rz_home_region = ''eu-west-1'', rz_allowed_regions_json = [''eu-west-1''], rz_allowed_modes_json = [''edge''],
     rz_asset_rules_json = [(''raw'', JObj [(''allowed_regions'', jarr [''eu-west-1'']), (''allowed_modes'', jarr [''edge''])])],
     rz_worker_rules_json = [(''mesh'', JObj [(''allowed_regions'', jarr [''eu-west-1'']), (''allowed_modes'', jarr [''edge''])])],
     rz_provider_rules_json = [(''any'', JNull)], rz_default_action = ''deny'', rz_policy_hash = ''rh'', rz_state = ''active'',
     rz_created_by = ''u'', rz_created_at = 0\<rparr>"

definition sample_binding_row :: project_deployment_row where
  "sample_binding_row = \<lparr>dn_binding_id = ''b1'', dn_tenant_id = ''t'', dn_project_id = ''p'', dn_deployment_profile_id = ''dp'',
     dn_residency_policy_id = Some ''rp'', dn_transfer_policy_id = Some ''tp'', dn_revision = ''1'', dn_feature_overrides_json = [],
     dn_cloud_dependencies_acknowledged = False, dn_state = ''active'', dn_binding_hash = ''bh'', dn_created_by = ''u'',
     dn_created_at = 0, dn_superseded_at = None\<rparr>"

definition sample_deployed :: db where
  "sample_deployed = empty_db\<lparr>deployment_profiles := [sample_profile_row], residency_policies := [sample_residency_row],
     project_deployment_bindings := [sample_binding_row]\<rparr>"

lemma sample_active: "active_binding ''t'' ''p'' sample_deployed = Some sample_binding_row"
  by (simp add: active_binding_def sample_deployed_def in_force_def sample_binding_row_def)

lemma sample_confined: "region \<noteq> ''eu-west-1'' \<Longrightarrow> \<not> within_residency region cls rules sample_binding_row sample_deployed"
  by (auto simp: within_residency_def get_active_residency_def get_residency_def sample_deployed_def sample_binding_row_def
    sample_residency_row_def tget_Cons str_or_def)

definition stray_work :: create_args where
  "stray_work = sample_create\<lparr>ca_input_manifest := [(''deployment_region'', JStr ''us-east-1'')]\<rparr>"

definition stray_upload :: ingest_args where
  "stray_upload = sample_ingest\<lparr>ig_deployment_region := JStr ''us-east-1''\<rparr>"

theorem nothing_runs_outside_residency_witness:
  "(\<exists>e t. create_operation hex_runtime (\<lambda>_. []) ''key'' operation_catalog
       (Some (deployment_service_of hex_runtime ''key'' operation_catalog sample_builtins (\<lambda>_. at_time 5))) (at_time 6) stray_work sample_deployed
       = (Inl e, t) \<and> operations t = operations sample_deployed) \<and>
   (\<exists>e t. ingest_bytes sample_ctx
       (Some (deployment_service_of hex_runtime ''key'' operation_catalog sample_builtins (\<lambda>_. at_time 5))) (at_time 6) nat_repr stray_upload
       (sample_assets\<lparr>as_db := sample_deployed\<rparr>) = (Inl e, sample_assets\<lparr>as_db := t\<rparr>) \<and>
     asset_refs t = asset_refs sample_deployed \<and> assets t = assets sample_deployed)"
proof -
  have "(\<exists>e t. create_operation hex_runtime (\<lambda>_. []) ''key'' operation_catalog
       (Some (deployment_service_of hex_runtime ''key'' operation_catalog sample_builtins (\<lambda>_. at_time 5))) (at_time 6) stray_work sample_deployed
       = (Inl e, t) \<and> operations t = operations sample_deployed) \<and>
   (\<exists>e t. ingest_bytes sample_ctx
       (Some (deployment_service_of hex_runtime ''key'' operation_catalog sample_builtins (\<lambda>_. at_time 5))) (at_time 6) nat_repr stray_upload
       (sample_assets\<lparr>as_db := sample_deployed\<rparr>) = (Inl e, sample_assets\<lparr>as_db := sample_deployed\<rparr>\<lparr>as_db := t\<rparr>) \<and>
     asset_refs t = asset_refs (as_db (sample_assets\<lparr>as_db := sample_deployed\<rparr>)) \<and>
     assets t = assets (as_db (sample_assets\<lparr>as_db := sample_deployed\<rparr>)))"
    by (rule nothing_runs_outside_residency [where b = sample_binding_row and c = sample_binding_row])
      (simp_all add: stray_work_def stray_upload_def sample_create_def sample_ingest_def sample_active sample_confined jget_def)
  then show ?thesis by simp
qed

end
