(* ===== verification/Project_Migration.thy ===== *)
theory Project_Migration
  imports Deployment
begin

text \<open>
  The migration of a project between deployment profiles: \<open>create_project_migration\<close>,
  \<open>complete_project_migration\<close> and \<open>_project_snapshot\<close> of \<open>src/sip/deployment.py\<close>, with their handlers.
  A plan records what must survive (identity, permissions, consent, hashes, history, manifests); the
  completion moves the project to the target profile only if that is unchanged.
\<close>

section \<open>Snapshot\<close>

text \<open>\<open>sorted({tuple, ...})\<close> of tuples that begin with the primary key of their table: the rows in
  the order of that key.\<close>

definition snapshot_part :: "('r \<Rightarrow> string) \<Rightarrow> ('r \<Rightarrow> json list) \<Rightarrow> 'r list \<Rightarrow> json" where
  "snapshot_part key parts rows = JArr (map (\<lambda>r. JArr (JStr (key r) # parts r)) (sort_key key rows))"

definition permission_parts :: "runtime \<Rightarrow> role_binding_row \<Rightarrow> json list" where
  "permission_parts rt r = [JStr (rb_identity_id r), JStr (rb_role r), JStr (canonical_sha256 rt (jarr (rb_purposes_json r))),
     JStr (canonical_sha256 rt (JArr (map JObj (rb_spatial_restrictions_json r))))]"

definition consent_parts :: "runtime \<Rightarrow> consent_grant_row \<Rightarrow> json list" where
  "consent_parts rt r = [JStr (cg_subject_id r), JStr (canonical_sha256 rt (jarr (cg_purposes_json r))),
     JStr (canonical_sha256 rt (jarr (cg_audiences_json r))), JStr (canonical_sha256 rt (jarr (cg_scopes_json r))),
     JStr (cg_state r), JStr (isoformat (cg_created_at r))]"

definition asset_parts :: "asset_ref_row \<Rightarrow> json list" where
  "asset_parts r = [JStr (r_sha256 r), JStr (r_classification r), JStr (r_source_class r), JStr (r_authority_class r)]"

definition commit_parts :: "runtime \<Rightarrow> scene_commit_row \<Rightarrow> json list" where
  "commit_parts rt r = [JStr (sc_scene_id r), JStr (canonical_sha256 rt (jarr (sc_parent_ids_json r))), JStr (sc_snapshot_hash r),
     JStr (sc_root_manifest_hash r)]"

definition operation_parts :: "operation_row \<Rightarrow> json list" where
  "operation_parts r = [JStr (o_operation_type r), JStr (o_input_manifest_hash r), JStr (str_or (o_output_hash r) [])]"

definition export_version :: "export_row \<Rightarrow> json" where
  "export_version r = jget_or (x_manifest_json r) ''schema_version'' (JStr [])"

definition model_parts :: "model_manifest_row \<Rightarrow> json list" where
  "model_parts r = [JStr (mm_version r), JStr (mm_checkpoint_hash r), JStr (mm_manifest_hash r)]"

definition project_part :: "project_row \<Rightarrow> json" where
  "project_part p = JObj [(''project_id'', JStr (pr_project_id p)), (''tenant_id'', JStr (pr_tenant_id p)),
     (''vertical'', JStr (pr_vertical p)), (''classification'', JStr (pr_classification p)),
     (''created_at'', JStr (isoformat (pr_created_at p)))]"

definition snapshot_body :: "runtime \<Rightarrow> string \<Rightarrow> string \<Rightarrow> project_row \<Rightarrow> db \<Rightarrow> fields" where
  "snapshot_body rt tenant project p s =
     [(''project'', project_part p),
      (''permissions'', snapshot_part rb_binding_id (permission_parts rt)
         (filter (\<lambda>r. rb_tenant_id r = tenant \<and> rb_project_id r = Some project) (role_bindings s))),
      (''consent'', snapshot_part cg_grant_id (consent_parts rt)
         (filter (\<lambda>r. cg_tenant_id r = tenant \<and> cg_project_id r = project) (consent_grants s))),
      (''asset_hashes'', snapshot_part r_asset_id asset_parts
         (filter (\<lambda>r. r_tenant_id r = tenant \<and> r_project_id r = project) (asset_refs s))),
      (''scene_history'', snapshot_part sc_commit_id (commit_parts rt)
         (filter (\<lambda>r. sc_tenant_id r = tenant \<and> sc_project_id r = project) (scene_commits s))),
      (''run_manifests'', snapshot_part o_operation_id operation_parts
         (filter (\<lambda>r. o_tenant_id r = tenant \<and> o_project_id r = project) (operations s))),
      (''exports'', snapshot_part x_export_id (\<lambda>r. [JStr (x_root_hash r), export_version r])
         (filter (\<lambda>r. x_tenant_id r = tenant \<and> x_project_id r = project) (exports s))),
      (''model_manifests'', snapshot_part mm_model_id model_parts (model_manifests s))]"

text \<open>The set of the exports needs a hashable version.\<close>

definition project_snapshot :: "runtime \<Rightarrow> string \<Rightarrow> string \<Rightarrow> db \<Rightarrow> sip_error + fields" where
  "project_snapshot rt tenant project s =
     bindE (require_project tenant project s) (\<lambda>p.
     if list_ex (\<lambda>r. x_tenant_id r = tenant \<and> x_project_id r = project \<and> \<not> hashable (export_version r)) (exports s)
     then Inl (Uncaught ''TypeError'')
     else Inr (snapshot_body rt tenant project p s))"

section \<open>Plan\<close>

record migration_args =
  gm_tenant_id :: string
  gm_project_id :: string
  gm_source_profile_id :: string
  gm_target_profile_id :: string
  gm_idempotency_key :: string
  gm_actor_id :: string

definition same_migration :: "migration_args \<Rightarrow> migration_row \<Rightarrow> bool" where
  "same_migration a r \<longleftrightarrow> mg_tenant_id r = gm_tenant_id a \<and> mg_project_id r = gm_project_id a \<and>
     mg_idempotency_key r = gm_idempotency_key a"

definition migration_body :: "migration_args \<Rightarrow> string \<Rightarrow> fields" where
  "migration_body a source_hash = [(''tenant_id'', JStr (gm_tenant_id a)), (''project_id'', JStr (gm_project_id a)),
     (''source_profile_id'', JStr (gm_source_profile_id a)), (''target_profile_id'', JStr (gm_target_profile_id a)),
     (''idempotency_key'', JStr (gm_idempotency_key a)), (''source_snapshot_hash'', JStr source_hash)]"

definition new_migration :: "runtime \<Rightarrow> env \<Rightarrow> migration_args \<Rightarrow> fields \<Rightarrow> migration_row" where
  "new_migration rt E a snapshot = (let source_hash = canonical_sha256 rt (JObj snapshot) in
     \<lparr>mg_migration_id = ids E 0, mg_tenant_id = gm_tenant_id a, mg_project_id = gm_project_id a,
      mg_source_profile_id = gm_source_profile_id a, mg_target_profile_id = gm_target_profile_id a,
      mg_idempotency_key = gm_idempotency_key a, mg_source_snapshot_json = snapshot, mg_source_snapshot_hash = source_hash,
      mg_target_snapshot_json = [], mg_target_snapshot_hash = None, mg_validation_json = [(''state'', JStr ''pending'')],
      mg_state = ''planned'', mg_migration_hash = canonical_sha256 rt (JObj (migration_body a source_hash)),
      mg_created_by = gm_actor_id a, mg_created_at = clk E 1, mg_completed_at = None\<rparr>)"

definition insert_migration :: "migration_row \<Rightarrow> db \<Rightarrow> sip_error + db" where
  "insert_migration r s =
     (if list_ex (\<lambda>x. mg_migration_hash x = mg_migration_hash r \<or>
           mg_tenant_id x = mg_tenant_id r \<and> mg_project_id x = mg_project_id r \<and> mg_idempotency_key x = mg_idempotency_key r)
           (project_deployment_migrations s)
      then Inl (Uncaught ''IntegrityError'')
      else bindE (insert_row mg_migration_id r (project_deployment_migrations s)) (\<lambda>rows.
        Inr (s\<lparr>project_deployment_migrations := rows\<rparr>)))"

definition create_project_migration ::
  "runtime \<Rightarrow> event_catalog \<Rightarrow> env \<Rightarrow> migration_args \<Rightarrow> db \<Rightarrow> sip_error + (migration_row \<times> bool) \<times> db" where
  "create_project_migration rt cat E a s =
     (if py_strip (gm_idempotency_key a) = [] then Inl (ValidationError ''DEPLOYMENT_MIGRATION_IDEMPOTENCY_REQUIRED'' [])
      else bindE (require_project (gm_tenant_id a) (gm_project_id a) s) (\<lambda>_.
      if get_deployment_profile s (gm_source_profile_id a) = None then Inl (NotFoundError ''deployment_profile'' (gm_source_profile_id a))
      else if get_deployment_profile s (gm_target_profile_id a) = None
      then Inl (NotFoundError ''deployment_profile'' (gm_target_profile_id a))
      else (case find (same_migration a) (project_deployment_migrations s) of
          Some existing \<Rightarrow>
            if mg_source_profile_id existing \<noteq> gm_source_profile_id a \<or> mg_target_profile_id existing \<noteq> gm_target_profile_id a
            then Inl (ConflictError ''DEPLOYMENT_MIGRATION_IDEMPOTENCY_CONFLICT'' [])
            else Inr ((existing, True), s)
        | None \<Rightarrow>
            bindE (project_snapshot rt (gm_tenant_id a) (gm_project_id a) s) (\<lambda>snapshot.
            let row = new_migration rt E a snapshot in
            bindE (insert_migration row s) (\<lambda>s1.
            bindE (emit_event rt cat (ids E 1) (clk E 2)
              (deployment_event ''deployment.migration.created'' (gm_tenant_id a) (Some (gm_project_id a)) ''deployment_migration'' (ids E 0)
                 (gm_actor_id a) [(''source_profile_id'', JStr (gm_source_profile_id a)),
                   (''target_profile_id'', JStr (gm_target_profile_id a)),
                   (''source_snapshot_hash'', JStr (mg_source_snapshot_hash row))]) s1) (\<lambda>s2.
            Inr ((row, False), s2)))))))"

section \<open>Completion\<close>

definition get_migration :: "db \<Rightarrow> string \<Rightarrow> migration_row option" where
  "get_migration s k = tget mg_migration_id (project_deployment_migrations s) k"

text \<open>The binding to the target profile takes the policies of the one it replaces.\<close>

definition moved_assignment ::
  "runtime \<Rightarrow> env \<Rightarrow> migration_row \<Rightarrow> project_deployment_row option \<Rightarrow> string \<Rightarrow> project_deployment_row" where
  "moved_assignment rt E m current actor =
     \<lparr>dn_binding_id = ids E 0, dn_tenant_id = mg_tenant_id m, dn_project_id = mg_project_id m,
      dn_deployment_profile_id = mg_target_profile_id m,
      dn_residency_policy_id = (case current of None \<Rightarrow> None | Some b \<Rightarrow> dn_residency_policy_id b),
      dn_transfer_policy_id = (case current of None \<Rightarrow> None | Some b \<Rightarrow> dn_transfer_policy_id b),
      dn_revision = ''migration-'' @ mg_migration_id m,
      dn_feature_overrides_json = (case current of None \<Rightarrow> [] | Some b \<Rightarrow> dn_feature_overrides_json b),
      dn_cloud_dependencies_acknowledged = (case current of None \<Rightarrow> False | Some b \<Rightarrow> dn_cloud_dependencies_acknowledged b),
      dn_state = ''active'',
      dn_binding_hash = canonical_sha256 rt (JObj [(''tenant_id'', JStr (mg_tenant_id m)), (''project_id'', JStr (mg_project_id m)),
        (''deployment_profile_id'', JStr (mg_target_profile_id m)), (''migration_id'', JStr (mg_migration_id m))]),
      dn_created_by = actor, dn_created_at = clk E 1, dn_superseded_at = None\<rparr>"

definition validation_of :: "migration_row \<Rightarrow> fields \<Rightarrow> string \<Rightarrow> bool \<Rightarrow> fields" where
  "validation_of m target target_hash preserved =
     [(''preserved'', JBool preserved), (''source_snapshot_hash'', JStr (mg_source_snapshot_hash m)),
      (''target_snapshot_hash'', JStr target_hash), (''checked_categories'', jarr (sorted_set (map fst target)))]"

definition completed_migration :: "migration_row \<Rightarrow> fields \<Rightarrow> string \<Rightarrow> time \<Rightarrow> migration_row" where
  "completed_migration m target target_hash now =
     m\<lparr>mg_target_snapshot_json := target, mg_target_snapshot_hash := Some target_hash,
       mg_validation_json := validation_of m target target_hash True, mg_state := ''completed'', mg_completed_at := Some now\<rparr>"

definition put_migration :: "migration_row \<Rightarrow> db \<Rightarrow> db" where
  "put_migration m s = s\<lparr>project_deployment_migrations := tput mg_migration_id m (project_deployment_migrations s)\<rparr>"

text \<open>The move of the binding, as the session holds it before the snapshot is compared.\<close>

definition move_binding :: "runtime \<Rightarrow> env \<Rightarrow> migration_row \<Rightarrow> string \<Rightarrow> db \<Rightarrow> sip_error + db" where
  "move_binding rt E m actor s =
     (let current = active_binding (mg_tenant_id m) (mg_project_id m) s in
      if (case current of None \<Rightarrow> False | Some b \<Rightarrow> dn_deployment_profile_id b \<noteq> mg_source_profile_id m)
      then Inl (ConflictError ''DEPLOYMENT_MIGRATION_SOURCE_DRIFT'' [])
      else insert_assignment (moved_assignment rt E m current actor) (supersede_assignment current (clk E 0) s))"

definition completion_event :: "migration_row \<Rightarrow> string \<Rightarrow> string \<Rightarrow> event_spec" where
  "completion_event m actor target_hash =
     deployment_event ''deployment.migration.completed'' (mg_tenant_id m) (Some (mg_project_id m)) ''deployment_migration''
       (mg_migration_id m) actor [(''source_profile_id'', JStr (mg_source_profile_id m)),
         (''target_profile_id'', JStr (mg_target_profile_id m)), (''snapshot_hash'', JStr target_hash), (''preserved'', JBool True)]"

definition completion_audit :: "migration_row \<Rightarrow> string \<Rightarrow> audit_call" where
  "completion_audit done actor =
     audit_entry (mg_tenant_id done) (Some (mg_project_id done)) actor ''deployment.migration.complete'' ''deployment_migration''
       (mg_migration_id done) ''allowed'' (mg_validation_json done)"

definition finish_migration ::
  "runtime \<Rightarrow> string \<Rightarrow> event_catalog \<Rightarrow> env \<Rightarrow> migration_row \<Rightarrow> string \<Rightarrow> fields \<Rightarrow> db \<Rightarrow> sip_error + (migration_row \<times> bool) \<times> db" where
  "finish_migration rt key cat E m actor target s =
     (let target_hash = canonical_sha256 rt (JObj target) in
      if \<not> py_eq (JObj target) (JObj (mg_source_snapshot_json m))
      then Inl (ConflictError ''DEPLOYMENT_MIGRATION_SEMANTIC_DRIFT'' (validation_of m target target_hash False))
      else let done = completed_migration m target target_hash (clk E 2) in
        bindE (emit_event rt cat (ids E 1) (clk E 3) (completion_event m actor target_hash) (put_migration done s)) (\<lambda>s2.
        bindE (append_audit rt key (ids E 2) (clk E 4) (completion_audit done actor) s2) (\<lambda>s3.
        Inr ((done, False), s3))))"

definition complete_project_migration ::
  "runtime \<Rightarrow> string \<Rightarrow> event_catalog \<Rightarrow> env \<Rightarrow> string \<Rightarrow> string \<Rightarrow> string \<Rightarrow> string \<Rightarrow> db \<Rightarrow> sip_error + (migration_row \<times> bool) \<times> db" where
  "complete_project_migration rt key cat E tenant project k actor s =
     (case get_migration s k of
        None \<Rightarrow> Inl (NotFoundError ''deployment_migration'' k)
      | Some m \<Rightarrow>
          if mg_tenant_id m \<noteq> tenant \<or> mg_project_id m \<noteq> project then Inl (NotFoundError ''deployment_migration'' k)
          else if mg_state m = ''completed'' then Inr ((m, True), s)
          else bindE (move_binding rt E m actor s) (\<lambda>s1.
            bindE (project_snapshot rt tenant project s1) (\<lambda>target.
            finish_migration rt key cat E m actor target s1)))"

section \<open>Handlers\<close>

definition api_create_migration ::
  "runtime \<Rightarrow> string \<Rightarrow> event_catalog \<Rightarrow> env \<Rightarrow> env \<Rightarrow> principal \<Rightarrow> string \<Rightarrow> migration_args \<Rightarrow> db
     \<Rightarrow> (sip_error + migration_row \<times> bool) \<times> db" where
  "api_create_migration rt key cat E F p project a s =
     guarded rt key E p (api_request ''deployment:migrate'' (p_tenant_id p) (Some project))
       (create_project_migration rt cat F (a\<lparr>gm_tenant_id := p_tenant_id p, gm_project_id := project, gm_actor_id := subject_id p\<rparr>)) s"

definition api_complete_migration ::
  "runtime \<Rightarrow> string \<Rightarrow> event_catalog \<Rightarrow> env \<Rightarrow> env \<Rightarrow> principal \<Rightarrow> string \<Rightarrow> string \<Rightarrow> db
     \<Rightarrow> (sip_error + migration_row \<times> bool) \<times> db" where
  "api_complete_migration rt key cat E F p project k s =
     guarded rt key E p (api_request ''deployment:migrate'' (p_tenant_id p) (Some project))
       (complete_project_migration rt key cat F (p_tenant_id p) project k (subject_id p)) s"

end
