(* ===== verification/Deployment_History.thy ===== *)
theory Deployment_History
  imports Residency Project_Migration
begin

text \<open>
  The deployment service over any sequence of its calls: the invariant of its tables and the order in
  which they grow. Profiles and policies are never changed or removed, a project has one deployment in
  force whose policies are its own, a binding is only ever superseded, and what autoscaling admitted is
  within the limits of its policy.
\<close>

section \<open>Calls\<close>

datatype deployment_call =
    Register_Profile env profile_args
  | Register_Residency env residency_args
  | Register_Transfer env transfer_args
  | Assign env assign_args
  | Plan_Migration env migration_args
  | Complete_Migration env string string string string
  | Admit env admission_call
  | Admit_If_Configured env admission_request
  | Register_Autoscaling env autoscaling_args
  | Admit_Autoscaling env scaling_call

definition state_of :: "sip_error + 'a \<times> db \<Rightarrow> sip_error + db" where
  "state_of r = bindE r (\<lambda>(_, t). Inr t)"

text \<open>A denied admission is committed before it is raised.\<close>

fun deployment_step ::
  "runtime \<Rightarrow> string \<Rightarrow> event_catalog \<Rightarrow> builtins \<Rightarrow> (json \<Rightarrow> sip_error + int) \<Rightarrow> (sip_error + fields) \<Rightarrow> db \<Rightarrow> deployment_call
     \<Rightarrow> sip_error + db" where
  "deployment_step rt key cat B to_int contracts_of s (Register_Profile E a) =
     state_of (register_profile rt key cat B to_int contracts_of E a s)"
| "deployment_step rt key cat B to_int contracts_of s (Register_Residency E a) = state_of (register_residency_policy rt key cat E a s)"
| "deployment_step rt key cat B to_int contracts_of s (Register_Transfer E a) = state_of (register_transfer_policy rt key cat B E a s)"
| "deployment_step rt key cat B to_int contracts_of s (Assign E a) = state_of (assign_project_profile rt key cat E a s)"
| "deployment_step rt key cat B to_int contracts_of s (Plan_Migration E a) = state_of (create_project_migration rt cat E a s)"
| "deployment_step rt key cat B to_int contracts_of s (Complete_Migration E tenant project k actor) =
     state_of (complete_project_migration rt key cat E tenant project k actor s)"
| "deployment_step rt key cat B to_int contracts_of s (Admit E c) = Inr (snd (authorize_admission rt key cat B E c s))"
| "deployment_step rt key cat B to_int contracts_of s (Admit_If_Configured E q) = Inr (snd (authorize_if_configured rt key cat B E q s))"
| "deployment_step rt key cat B to_int contracts_of s (Register_Autoscaling E a) = state_of (register_autoscaling_policy rt cat to_int E a s)"
| "deployment_step rt key cat B to_int contracts_of s (Admit_Autoscaling E c) = Inr (snd (admit_autoscaling rt key cat E c s))"

lemma state_of_Inr: "state_of r = Inr t \<longleftrightarrow> (\<exists>v. r = Inr (v, t))"
  by (auto simp: state_of_def bindE_Inr_conv)

section \<open>The invariant\<close>

definition profile_ok :: "deployment_profile_row \<Rightarrow> bool" where
  "profile_ok p \<longleftrightarrow> dq_mode p \<in> set modes \<and> dq_state p = ''active'' \<and> \<not> dq_production_approved p \<and>
     dq_supported_regions_json p \<noteq> [] \<and> list_all region_text (dq_supported_regions_json p) \<and>
     list_all (\<lambda>(_, v). image_text v) (dq_service_images_json p) \<and>
     list_all (\<lambda>(_, v). secret_reference v) (dq_secret_references_json p)"

definition residency_ok :: "residency_policy_row \<Rightarrow> bool" where
  "residency_ok p \<longleftrightarrow> rz_state p = ''active'' \<and> rz_default_action p = ''deny'' \<and> rz_home_region p \<in> set (rz_allowed_regions_json p) \<and>
     list_all region_text (rz_allowed_regions_json p) \<and> rz_allowed_modes_json p \<noteq> [] \<and> set (rz_allowed_modes_json p) \<subseteq> set modes"

definition rule_ok :: "transfer_rule \<Rightarrow> bool" where
  "rule_ok r \<longleftrightarrow> hr_minimum_stage r \<in> set transfer_stages \<and> hr_allowed_regions r \<noteq> [] \<and> list_all region_text (hr_allowed_regions r) \<and>
     (hr_asset_class r \<in> set sensitive_asset_classes \<longrightarrow> stage_rank ''redacted_derivative'' \<le> stage_rank (hr_minimum_stage r))"

definition transfer_ok :: "transfer_policy_row \<Rightarrow> bool" where
  "transfer_ok p \<longleftrightarrow> ht_state p = ''active'' \<and> list_all rule_ok (ht_rules_json p)"

definition autoscaling_ok :: "autoscaling_policy_row \<Rightarrow> bool" where
  "autoscaling_ok p \<longleftrightarrow> 0 \<le> ax_min_replicas p \<and> ax_min_replicas p \<le> ax_max_replicas p \<and> 1 \<le> ax_max_replicas p \<and>
     1 \<le> ax_tenant_concurrency_limit p \<and> 0 < ax_global_budget_limit p \<and> ax_restricted_egress p"

text \<open>A binding names a profile that exists and policies of its own project.\<close>

definition site_ok :: "db \<Rightarrow> project_deployment_row \<Rightarrow> bool" where
  "site_ok s b \<longleftrightarrow> get_deployment_profile s (dn_deployment_profile_id b) \<noteq> None \<and>
     (truthy_str (dn_residency_policy_id b) \<longrightarrow> (\<exists>p. get_residency s (str_or (dn_residency_policy_id b) []) = Some p \<and>
        rz_tenant_id p = dn_tenant_id b \<and> rz_project_id p = dn_project_id b)) \<and>
     (truthy_str (dn_transfer_policy_id b) \<longrightarrow> (\<exists>p. get_transfer s (str_or (dn_transfer_policy_id b) []) = Some p \<and>
        ht_tenant_id p = dn_tenant_id b \<and> ht_project_id p = dn_project_id b))"

definition single_active :: "db \<Rightarrow> bool" where
  "single_active s \<longleftrightarrow> distinct (map dn_binding_id (project_deployment_bindings s)) \<and>
     (\<forall>tenant project. length (filter (in_force tenant project) (project_deployment_bindings s)) \<le> 1)"

definition quota_of :: "autoscaling_policy_row \<Rightarrow> string \<Rightarrow> int" where
  "quota_of p profile = (case map_of (ax_profile_quotas_json p) profile of None \<Rightarrow> 0 | Some n \<Rightarrow> n)"

text \<open>An autoscaling decision: within every limit of the policy when it allows, no change when it
  denies.\<close>

definition within_limits :: "autoscaling_policy_row \<Rightarrow> autoscaling_admission_row \<Rightarrow> bool" where
  "within_limits p x \<longleftrightarrow> aa_admitted_replicas x = aa_requested_replicas x \<and>
     ax_min_replicas p \<le> aa_admitted_replicas x \<and> aa_admitted_replicas x \<le> ax_max_replicas p \<and>
     aa_admitted_replicas x \<le> quota_of p (aa_capability_profile x) \<and>
     aa_active_jobs x + aa_admitted_replicas x \<le> ax_tenant_concurrency_limit p \<and>
     aa_global_cost_after x \<le> ax_global_budget_limit p"

definition scaling_ok :: "db \<Rightarrow> autoscaling_admission_row \<Rightarrow> bool" where
  "scaling_ok s x \<longleftrightarrow> (\<exists>p. tget ax_autoscaling_policy_id (autoscaling_policies s) (aa_autoscaling_policy_id x) = Some p \<and>
     ax_tenant_id p = aa_tenant_id x \<and> ax_project_id p = aa_project_id x \<and>
     (if aa_decision x = ''allow'' then within_limits p x else aa_admitted_replicas x = aa_current_replicas x))"

definition migration_ok :: "db \<Rightarrow> migration_row \<Rightarrow> bool" where
  "migration_ok s m \<longleftrightarrow> get_deployment_profile s (mg_source_profile_id m) \<noteq> None \<and>
     get_deployment_profile s (mg_target_profile_id m) \<noteq> None \<and>
     (mg_state m = ''completed'' \<longrightarrow> py_eq (JObj (mg_target_snapshot_json m)) (JObj (mg_source_snapshot_json m)))"

definition deployment_wf :: "db \<Rightarrow> bool" where
  "deployment_wf s \<longleftrightarrow> list_all profile_ok (deployment_profiles s) \<and> list_all residency_ok (residency_policies s) \<and>
     list_all transfer_ok (hybrid_transfer_policies s) \<and> list_all autoscaling_ok (autoscaling_policies s) \<and>
     list_all (site_ok s) (project_deployment_bindings s) \<and> single_active s \<and>
     list_all (scaling_ok s) (autoscaling_admissions s) \<and> list_all (migration_ok s) (project_deployment_migrations s)"

section \<open>The order\<close>

definition site_below :: "project_deployment_row \<Rightarrow> project_deployment_row \<Rightarrow> bool" where
  "site_below b c \<longleftrightarrow> c = b \<or>
     dn_state b = ''active'' \<and> (\<exists>now. c = b\<lparr>dn_state := ''superseded'', dn_superseded_at := Some now\<rparr>)"

definition migration_below :: "migration_row \<Rightarrow> migration_row \<Rightarrow> bool" where
  "migration_below m n \<longleftrightarrow> n = m \<or> mg_state m \<noteq> ''completed'' \<and> (\<exists>target h now. n = completed_migration m target h now)"

definition policies_below :: "db \<Rightarrow> db \<Rightarrow> bool" where
  "policies_below s t \<longleftrightarrow> prefix (deployment_profiles s) (deployment_profiles t) \<and> prefix (residency_policies s) (residency_policies t) \<and>
     prefix (hybrid_transfer_policies s) (hybrid_transfer_policies t) \<and> prefix (autoscaling_policies s) (autoscaling_policies t)"

definition deployment_below :: "db \<Rightarrow> db \<Rightarrow> bool" where
  "deployment_below s t \<longleftrightarrow> policies_below s t \<and> prefix (autoscaling_admissions s) (autoscaling_admissions t) \<and>
     prefix (deployment_admissions s) (deployment_admissions t) \<and>
     kept (tget dn_binding_id (project_deployment_bindings s)) (tget dn_binding_id (project_deployment_bindings t)) site_below \<and>
     kept (get_migration s) (get_migration t) migration_below"

lemma site_below_refl [simp]: "site_below b b"
  by (simp add: site_below_def)

lemma migration_below_refl [simp]: "migration_below m m"
  by (simp add: migration_below_def)

lemma site_below_trans: "site_below a b \<Longrightarrow> site_below b c \<Longrightarrow> site_below a c"
  by (auto simp: site_below_def)

lemma migration_below_trans: "migration_below a b \<Longrightarrow> migration_below b c \<Longrightarrow> migration_below a c"
  by (auto simp: migration_below_def completed_migration_def)

lemma policies_below_refl [simp]: "policies_below s s"
  by (simp add: policies_below_def)

lemma deployment_below_refl [simp]: "deployment_below s s"
  by (simp add: deployment_below_def kept_refl)

lemma deployment_below_trans:
  assumes "deployment_below s t" and "deployment_below t u"
  shows "deployment_below s u"
  using assms unfolding deployment_below_def policies_below_def
  by (blast intro: prefix_order.trans kept_trans site_below_trans migration_below_trans)

text \<open>What the invariant reads of the policies survives their growth.\<close>

lemma policies_keep:
  assumes "policies_below s t"
  shows "get_deployment_profile s k = Some p \<Longrightarrow> get_deployment_profile t k = Some p"
    and "get_residency s k = Some q \<Longrightarrow> get_residency t k = Some q"
    and "get_transfer s k = Some r \<Longrightarrow> get_transfer t k = Some r"
    and "tget ax_autoscaling_policy_id (autoscaling_policies s) k = Some x \<Longrightarrow>
      tget ax_autoscaling_policy_id (autoscaling_policies t) k = Some x"
  using assms by (auto simp: policies_below_def get_deployment_profile_def get_residency_def get_transfer_def intro: tget_prefix)

lemma site_ok_mono: "policies_below s t \<Longrightarrow> site_ok s b \<Longrightarrow> site_ok t b"
  unfolding site_ok_def by (blast dest: policies_keep)

lemma scaling_ok_mono: "policies_below s t \<Longrightarrow> scaling_ok s x \<Longrightarrow> scaling_ok t x"
  unfolding scaling_ok_def by (blast dest: policies_keep)

lemma migration_ok_mono: "policies_below s t \<Longrightarrow> migration_ok s m \<Longrightarrow> migration_ok t m"
  unfolding migration_ok_def by (blast dest: policies_keep)


section \<open>What a call writes\<close>

text \<open>The tables of the component; events and audit records are outside it.\<close>

definition same_deployment :: "db \<Rightarrow> db \<Rightarrow> bool" where
  "same_deployment s t \<longleftrightarrow> deployment_profiles t = deployment_profiles s \<and> residency_policies t = residency_policies s \<and>
     hybrid_transfer_policies t = hybrid_transfer_policies s \<and> autoscaling_policies t = autoscaling_policies s \<and>
     project_deployment_bindings t = project_deployment_bindings s \<and> autoscaling_admissions t = autoscaling_admissions s \<and>
     deployment_admissions t = deployment_admissions s \<and> project_deployment_migrations t = project_deployment_migrations s"

definition progress :: "db \<Rightarrow> db \<Rightarrow> bool" where
  "progress s t \<longleftrightarrow> deployment_wf t \<and> deployment_below s t"

lemma announce_same: "announce rt key cat E e u s = Inr t \<Longrightarrow> same_deployment s t"
  by (drule announce_frame) (auto simp: same_deployment_def)

lemma emit_same: "emit_event rt cat k now e s = Inr t \<Longrightarrow> same_deployment s t"
  by (drule emit_event_frame) (auto simp: same_deployment_def)

lemma audit_same: "append_audit rt key k now u s = Inr t \<Longrightarrow> same_deployment s t"
  by (drule append_audit_frame) (auto simp: same_deployment_def)

lemma same_trans: "same_deployment s t \<Longrightarrow> same_deployment t u \<Longrightarrow> same_deployment s u"
  by (simp add: same_deployment_def)

lemma same_policies: "same_deployment s t \<Longrightarrow> policies_below s t"
  by (simp add: same_deployment_def policies_below_def)

lemma same_wf:
  assumes "same_deployment s t" and "deployment_wf s"
  shows "deployment_wf t"
  using assms site_ok_mono [OF same_policies [OF assms(1)]] scaling_ok_mono [OF same_policies [OF assms(1)]]
    migration_ok_mono [OF same_policies [OF assms(1)]]
  by (simp add: deployment_wf_def single_active_def same_deployment_def list_all_iff)

lemma same_below:
  assumes "same_deployment s t" and "deployment_below r s"
  shows "deployment_below r t"
  using assms by (simp add: deployment_below_def policies_below_def same_deployment_def get_migration_def [abs_def])

lemma progress_same: "progress r s \<Longrightarrow> same_deployment s t \<Longrightarrow> progress r t"
  using same_wf same_below unfolding progress_def by blast

lemma progress_refl: "deployment_wf s \<Longrightarrow> progress s s"
  by (simp add: progress_def)

text \<open>The growth of the tables of policies.\<close>

lemma grow_policies:
  assumes "deployment_wf s" and "policies_below s t"
    and "project_deployment_bindings t = project_deployment_bindings s" and "autoscaling_admissions t = autoscaling_admissions s"
    and "deployment_admissions t = deployment_admissions s" and "project_deployment_migrations t = project_deployment_migrations s"
    and "list_all profile_ok (deployment_profiles t)" and "list_all residency_ok (residency_policies t)"
    and "list_all transfer_ok (hybrid_transfer_policies t)" and "list_all autoscaling_ok (autoscaling_policies t)"
  shows "progress s t"
proof -
  note mono = site_ok_mono [OF assms(2)] scaling_ok_mono [OF assms(2)] migration_ok_mono [OF assms(2)]
  have "deployment_wf t" using assms mono by (simp add: deployment_wf_def single_active_def list_all_iff)
  moreover have "deployment_below s t" using assms(2-6) by (simp add: deployment_below_def get_migration_def [abs_def] kept_refl)
  ultimately show ?thesis by (simp add: progress_def)
qed

lemma add_profile: "deployment_wf s \<Longrightarrow> profile_ok p \<Longrightarrow> progress s (s\<lparr>deployment_profiles := deployment_profiles s @ [p]\<rparr>)"
  by (rule grow_policies) (simp_all add: deployment_wf_def policies_below_def)

lemma add_residency: "deployment_wf s \<Longrightarrow> residency_ok p \<Longrightarrow> progress s (s\<lparr>residency_policies := residency_policies s @ [p]\<rparr>)"
  by (rule grow_policies) (simp_all add: deployment_wf_def policies_below_def)

lemma add_transfer: "deployment_wf s \<Longrightarrow> transfer_ok p \<Longrightarrow> progress s (s\<lparr>hybrid_transfer_policies := hybrid_transfer_policies s @ [p]\<rparr>)"
  by (rule grow_policies) (simp_all add: deployment_wf_def policies_below_def)

lemma add_autoscaling: "deployment_wf s \<Longrightarrow> autoscaling_ok p \<Longrightarrow> progress s (s\<lparr>autoscaling_policies := autoscaling_policies s @ [p]\<rparr>)"
  by (rule grow_policies) (simp_all add: deployment_wf_def policies_below_def)

lemma add_scaling:
  assumes "deployment_wf s" and "scaling_ok s x"
  shows "progress s (s\<lparr>autoscaling_admissions := autoscaling_admissions s @ [x]\<rparr>)"
proof -
  let ?t = "s\<lparr>autoscaling_admissions := autoscaling_admissions s @ [x]\<rparr>"
  have p: "policies_below s ?t" by (simp add: policies_below_def)
  have "deployment_wf ?t"
    using assms site_ok_mono [OF p] scaling_ok_mono [OF p] migration_ok_mono [OF p]
    by (simp add: deployment_wf_def single_active_def list_all_iff)
  then show ?thesis using p by (simp add: progress_def deployment_below_def get_migration_def [abs_def] kept_refl)
qed

lemma add_admission:
  assumes "deployment_wf s"
  shows "progress s (s\<lparr>deployment_admissions := deployment_admissions s @ [x]\<rparr>)"
proof -
  let ?t = "s\<lparr>deployment_admissions := deployment_admissions s @ [x]\<rparr>"
  have p: "policies_below s ?t" by (simp add: policies_below_def)
  have "deployment_wf ?t"
    using assms site_ok_mono [OF p] scaling_ok_mono [OF p] migration_ok_mono [OF p]
    by (simp add: deployment_wf_def single_active_def list_all_iff)
  then show ?thesis using p by (simp add: progress_def deployment_below_def get_migration_def [abs_def] kept_refl)
qed


text \<open>A new binding of a project, in place of the one in force.\<close>

lemma filter_tput: "\<not> P r \<Longrightarrow> filter P (tput key r xs) = filter (\<lambda>x. P x \<and> key x \<noteq> key r) xs"
  by (induction xs) (auto simp: tput_def)

lemma single_activeD:
  assumes "single_active s" and "active_binding tenant project s = Some b"
  shows "filter (in_force tenant project) (project_deployment_bindings s) = [b]"
proof -
  have "b \<in> set (filter (in_force tenant project) (project_deployment_bindings s))"
    using assms(2) by (auto simp: active_binding_def find_Some_iff)
  moreover have "length (filter (in_force tenant project) (project_deployment_bindings s)) \<le> 1"
    using assms(1) by (simp add: single_active_def)
  ultimately show ?thesis by (cases "filter (in_force tenant project) (project_deployment_bindings s)") auto
qed

lemma active_None: "active_binding tenant project s = None \<Longrightarrow> filter (in_force tenant project) (project_deployment_bindings s) = []"
  by (auto simp: active_binding_def find_None_iff filter_empty_conv)

definition superseded_rows :: "project_deployment_row option \<Rightarrow> time \<Rightarrow> project_deployment_row list \<Rightarrow> project_deployment_row list" where
  "superseded_rows current now rows = (case current of None \<Rightarrow> rows
     | Some b \<Rightarrow> tput dn_binding_id (b\<lparr>dn_state := ''superseded'', dn_superseded_at := Some now\<rparr>) rows)"

lemma supersede_rows: "supersede_assignment current now s =
    s\<lparr>project_deployment_bindings := superseded_rows current now (project_deployment_bindings s)\<rparr>"
  by (simp add: supersede_assignment_def superseded_rows_def split: option.split)

lemma active_bindingD:
  assumes "active_binding tenant project s = Some b"
  shows "b \<in> set (project_deployment_bindings s)" and "in_force tenant project b"
  using assms by (auto simp: active_binding_def find_Some_iff)

lemma superseded_single:
  assumes "single_active s"
  shows "map dn_binding_id (superseded_rows (active_binding tenant project s) now (project_deployment_bindings s)) =
      map dn_binding_id (project_deployment_bindings s)"
    and "length (filter (in_force u v) (superseded_rows (active_binding tenant project s) now (project_deployment_bindings s)))
      \<le> (if u = tenant \<and> v = project then 0 else 1)"
proof -
  let ?bs = "project_deployment_bindings s"
  show "map dn_binding_id (superseded_rows (active_binding tenant project s) now ?bs) = map dn_binding_id ?bs"
    by (simp add: superseded_rows_def tput_def split: option.split)
  have le: "length (filter (in_force u v) ?bs) \<le> 1" for u v using assms by (simp add: single_active_def)
  show "length (filter (in_force u v) (superseded_rows (active_binding tenant project s) now ?bs))
      \<le> (if u = tenant \<and> v = project then 0 else 1)"
  proof (cases "active_binding tenant project s")
    case None
    then show ?thesis using le [of u v] active_None [OF None] by (simp add: superseded_rows_def)
  next
    case (Some b)
    let ?r = "b\<lparr>dn_state := ''superseded'', dn_superseded_at := Some now\<rparr>"
    have f: "filter (in_force u v) (tput dn_binding_id ?r ?bs) = filter (\<lambda>x. dn_binding_id x \<noteq> dn_binding_id b) (filter (in_force u v) ?bs)"
      by (simp add: filter_tput in_force_def conj_commute)
    have "length (filter (in_force u v) (tput dn_binding_id ?r ?bs)) \<le> length (filter (in_force u v) ?bs)"
      unfolding f by (rule length_filter_le)
    moreover have "filter (in_force tenant project) (tput dn_binding_id ?r ?bs) = []" if "u = tenant" "v = project"
      using f that single_activeD [OF assms Some] by simp
    ultimately show ?thesis using Some le [of u v] by (simp add: superseded_rows_def)
  qed
qed

lemma superseded_kept:
  assumes "single_active s"
  shows "kept (tget dn_binding_id (project_deployment_bindings s))
    (tget dn_binding_id (superseded_rows (active_binding tenant project s) now (project_deployment_bindings s))) site_below"
proof (cases "active_binding tenant project s")
  case (Some b)
  have "tget dn_binding_id (project_deployment_bindings s) (dn_binding_id b) = Some b"
    using assms active_bindingD(1) [OF Some] by (intro tget_unique_row) (simp_all add: single_active_def)
  moreover have "site_below b (b\<lparr>dn_state := ''superseded'', dn_superseded_at := Some now\<rparr>)"
    using active_bindingD(2) [OF Some] by (auto simp: site_below_def in_force_def)
  ultimately show ?thesis using Some by (auto simp: superseded_rows_def intro!: kept_tput)
qed (simp add: superseded_rows_def kept_refl)

lemma superseded_ok:
  assumes "list_all (site_ok s) rows" and "\<And>b. current = Some b \<Longrightarrow> b \<in> set rows"
  shows "list_all (site_ok s) (superseded_rows current now rows)"
proof (cases current)
  case (Some b)
  have "site_ok s b" using assms Some by (auto simp: list_all_iff)
  then have "site_ok s (b\<lparr>dn_state := ''superseded'', dn_superseded_at := Some now\<rparr>)" by (simp add: site_ok_def)
  then show ?thesis using assms(1) Some by (auto simp: superseded_rows_def tput_def list_all_iff)
qed (use assms in \<open>simp add: superseded_rows_def\<close>)

lemma replace_binding:
  assumes "deployment_wf s" and "site_ok s r" and "dn_tenant_id r = tenant" and "dn_project_id r = project"
    and "dn_binding_id r \<notin> tkeys dn_binding_id (project_deployment_bindings s)"
    and t: "t = s\<lparr>project_deployment_bindings := superseded_rows (active_binding tenant project s) now (project_deployment_bindings s) @ [r]\<rparr>"
  shows "progress s t"
proof -
  let ?rows = "superseded_rows (active_binding tenant project s) now (project_deployment_bindings s)"
  have sa: "single_active s" using assms(1) by (simp add: deployment_wf_def)
  have p: "policies_below s t" by (simp add: policies_below_def t)
  note mono = site_ok_mono [OF p] scaling_ok_mono [OF p] migration_ok_mono [OF p]
  have keys: "map dn_binding_id ?rows = map dn_binding_id (project_deployment_bindings s)" by (rule superseded_single(1) [OF sa])
  have "distinct (map dn_binding_id ?rows @ [dn_binding_id r])"
    unfolding keys using sa assms(5) by (simp add: single_active_def tkeys_def)
  moreover have "length (filter (in_force u v) (?rows @ [r])) \<le> 1" for u v
  proof (cases "u = tenant \<and> v = project")
    case False
    then have "\<not> in_force u v r" using assms(3,4) by (auto simp: in_force_def)
    then show ?thesis using superseded_single(2) [OF sa, of u v tenant project now] False by simp
  qed (use superseded_single(2) [OF sa, of u v tenant project now] in simp)
  ultimately have "single_active t" by (simp add: single_active_def t)
  moreover have "list_all (site_ok s) (?rows @ [r])"
    using assms(1,2) active_bindingD(1) superseded_ok by (simp add: deployment_wf_def)
  then have "list_all (site_ok t) (project_deployment_bindings t)" using mono by (simp add: list_all_iff t)
  ultimately have "deployment_wf t"
    using assms(1) mono by (simp add: deployment_wf_def list_all_iff t)
  moreover have fresh: "tget dn_binding_id ?rows (dn_binding_id r) = None"
    using assms(5) keys by (metis list.set_map tget_None_iff tkeys_def)
  have "kept (tget dn_binding_id (project_deployment_bindings s)) (tget dn_binding_id (?rows @ [r])) site_below"
    by (rule kept_trans [OF superseded_kept [OF sa] kept_insert [OF fresh]]) (auto intro: site_below_trans)
  then have "deployment_below s t" using p by (simp add: deployment_below_def t get_migration_def [abs_def] kept_refl)
  ultimately show ?thesis by (simp add: progress_def)
qed

lemma add_migration:
  assumes "deployment_wf s" and "migration_ok s m" and "mg_migration_id m \<notin> tkeys mg_migration_id (project_deployment_migrations s)"
  shows "progress s (s\<lparr>project_deployment_migrations := project_deployment_migrations s @ [m]\<rparr>)"
proof -
  let ?t = "s\<lparr>project_deployment_migrations := project_deployment_migrations s @ [m]\<rparr>"
  have p: "policies_below s ?t" by (simp add: policies_below_def)
  have "deployment_wf ?t"
    using assms site_ok_mono [OF p] scaling_ok_mono [OF p] migration_ok_mono [OF p]
    by (simp add: deployment_wf_def single_active_def list_all_iff)
  then show ?thesis using p assms(3)
    by (simp add: progress_def deployment_below_def get_migration_def [abs_def] kept_refl kept_insert tget_None_iff)
qed

lemma replace_migration:
  assumes "deployment_wf s" and "get_migration s (mg_migration_id m) = Some m" and "mg_state m \<noteq> ''completed''"
    and "py_eq (JObj target) (JObj (mg_source_snapshot_json m))"
  shows "progress s (put_migration (completed_migration m target h now) s)"
proof -
  let ?n = "completed_migration m target h now"
  let ?t = "put_migration ?n s"
  have p: "policies_below s ?t" by (simp add: policies_below_def put_migration_def)
  have g: "tget mg_migration_id (project_deployment_migrations s) (mg_migration_id ?n) = Some m"
    using assms(2) by (simp add: get_migration_def completed_migration_def)
  have "migration_ok s m" using assms(1) tget_SomeD [OF g] by (simp add: deployment_wf_def list_all_iff)
  then have "migration_ok s ?n" using assms(4) by (simp add: migration_ok_def completed_migration_def)
  then have "list_all (migration_ok ?t) (project_deployment_migrations ?t)"
    using assms(1) migration_ok_mono [OF p] by (auto simp: deployment_wf_def list_all_iff put_migration_def dest!: set_tput_unique)
  then have "deployment_wf ?t"
    using assms(1) site_ok_mono [OF p] scaling_ok_mono [OF p]
    by (simp add: deployment_wf_def single_active_def list_all_iff put_migration_def)
  moreover have "migration_below m ?n" using assms(3) by (auto simp: migration_below_def)
  then have "kept (tget mg_migration_id (project_deployment_migrations s))
      (tget mg_migration_id (tput mg_migration_id ?n (project_deployment_migrations s))) migration_below"
    by (rule kept_tput [where R = migration_below, OF g]) simp
  then have "deployment_below s ?t"
    using p by (simp add: deployment_below_def put_migration_def get_migration_def [abs_def] kept_refl)
  ultimately show ?thesis by (simp add: progress_def)
qed


section \<open>Every call makes progress\<close>

lemma insert_profile_Inr: "insert_profile r s = Inr t \<Longrightarrow> t = s\<lparr>deployment_profiles := deployment_profiles s @ [r]\<rparr>"
  by (auto simp: insert_profile_def result_simps)

lemma insert_residency_Inr: "insert_residency r s = Inr t \<Longrightarrow> t = s\<lparr>residency_policies := residency_policies s @ [r]\<rparr>"
  by (auto simp: insert_residency_def result_simps)

lemma insert_transfer_Inr: "insert_transfer r s = Inr t \<Longrightarrow> t = s\<lparr>hybrid_transfer_policies := hybrid_transfer_policies s @ [r]\<rparr>"
  by (auto simp: insert_transfer_def result_simps)

lemma insert_autoscaling_Inr: "insert_autoscaling r s = Inr t \<Longrightarrow> t = s\<lparr>autoscaling_policies := autoscaling_policies s @ [r]\<rparr>"
  by (auto simp: insert_autoscaling_def result_simps)

lemma insert_assignment_Inr: "insert_assignment r s = Inr t \<Longrightarrow>
    t = s\<lparr>project_deployment_bindings := project_deployment_bindings s @ [r]\<rparr> \<and>
    dn_binding_id r \<notin> tkeys dn_binding_id (project_deployment_bindings s)"
  by (auto simp: insert_assignment_def result_simps)

lemma insert_migration_Inr: "insert_migration r s = Inr t \<Longrightarrow>
    t = s\<lparr>project_deployment_migrations := project_deployment_migrations s @ [r]\<rparr> \<and>
    mg_migration_id r \<notin> tkeys mg_migration_id (project_deployment_migrations s)"
  by (auto simp: insert_migration_def result_simps)

lemma validate_regions_Inr: "validate_regions vs = Inr rs \<Longrightarrow> rs \<noteq> [] \<and> list_all region_text rs \<and> set rs = set vs"
  by (auto simp: validate_regions_def Let_def split: if_splits)

lemma check_profile_Inr:
  assumes "check_profile B to_int a = Inr regions"
  shows "profile_ok (new_profile rt E a contracts regions)"
proof -
  from assms obtain u where m: "pf_mode a \<in> set modes" and r: "validate_regions (pf_supported_regions a) = Inr regions"
    and v: "validate_pins B to_int (pf_service_images a) (pf_infrastructure_versions a) (pf_secret_references a)
      (pf_network_policy a) (pf_resource_limits a) = Inr u"
    unfolding check_profile_def bindE_Inr_conv raise_if_Inr_conv by blast
  from v have "list_all (\<lambda>(_, v). image_text v) (pf_service_images a)" and "list_all (\<lambda>(_, v). secret_reference v) (pf_secret_references a)"
    by (simp_all add: validate_pins_def split: if_splits)
  with m validate_regions_Inr [OF r] show ?thesis by (simp add: profile_ok_def new_profile_def list_all_iff)
qed

lemma register_profile_progress:
  assumes "deployment_wf s" and "register_profile rt key cat B to_int contracts_of E a s = Inr (v, t)"
  shows "progress s t"
proof (cases "t = s")
  case False
  from assms(2) False obtain regions contracts s1 e u where c: "check_profile B to_int a = Inr regions"
    and i: "insert_profile (new_profile rt E a contracts regions) s = Inr s1" and n: "announce rt key cat E e u s1 = Inr t"
    by (auto simp: register_profile_def Let_def bindE_Inr_conv split: option.splits if_splits)
  show ?thesis
    using progress_same [OF add_profile [OF assms(1) check_profile_Inr [OF c]] announce_same [OF n [unfolded insert_profile_Inr [OF i]]]] .
qed (use assms progress_refl in simp)

lemma check_residency_Inr:
  assumes "check_residency a = Inr regions"
  shows "residency_ok (new_residency rt E a regions)"
  using assms validate_regions_Inr [of "rg_allowed_regions a" regions]
  by (auto simp: check_residency_def bindE_Inr_conv residency_ok_def new_residency_def simp flip: set_empty split: if_splits)

lemma register_residency_progress:
  assumes "deployment_wf s" and "register_residency_policy rt key cat E a s = Inr (v, t)"
  shows "progress s t"
proof (cases "t = s")
  case False
  from assms(2) False obtain regions s1 e u where c: "check_residency a = Inr regions"
    and i: "insert_residency (new_residency rt E a regions) s = Inr s1" and n: "announce rt key cat E e u s1 = Inr t"
    by (auto simp: register_residency_policy_def Let_def bindE_Inr_conv split: option.splits if_splits)
  show ?thesis
    using progress_same [OF add_residency [OF assms(1) check_residency_Inr [OF c]] announce_same [OF n [unfolded insert_residency_Inr [OF i]]]] .
qed (use assms progress_refl in simp)

lemma normalize_rule_Inr: "normalize_rule B purpose rule = Inr r \<Longrightarrow> rule_ok r"
  by (auto simp: normalize_rule_def Let_def bindE_Inr_conv rule_ok_def not_less dest!: validate_regions_Inr split: if_splits)

lemma check_transfer_Inr:
  assumes "check_transfer B a = Inr rules"
  shows "transfer_ok (new_transfer rt E a rules)"
proof -
  from assms obtain xs where m: "mapE (normalize_rule B (tf_purpose a)) (tf_rules a) = Inr xs" and r: "rules = sort_key hr_asset_class xs"
    by (auto simp: check_transfer_def bindE_Inr_conv split: if_splits)
  have "rule_ok x" if "x \<in> set xs" for x
    using mapE_Inr [OF m that] normalize_rule_Inr by blast
  then show ?thesis by (simp add: transfer_ok_def new_transfer_def r list_all_iff)
qed

lemma register_transfer_progress:
  assumes "deployment_wf s" and "register_transfer_policy rt key cat B E a s = Inr (v, t)"
  shows "progress s t"
proof (cases "t = s")
  case False
  from assms(2) False obtain rules s1 e u where c: "check_transfer B a = Inr rules"
    and i: "insert_transfer (new_transfer rt E a rules) s = Inr s1" and n: "announce rt key cat E e u s1 = Inr t"
    by (auto simp: register_transfer_policy_def Let_def bindE_Inr_conv split: option.splits if_splits)
  show ?thesis
    using progress_same [OF add_transfer [OF assms(1) check_transfer_Inr [OF c]] announce_same [OF n [unfolded insert_transfer_Inr [OF i]]]] .
qed (use assms progress_refl in simp)

lemma check_autoscaling_Inr: "check_autoscaling to_int a = Inr u \<Longrightarrow> autoscaling_ok (new_autoscaling rt E a)"
  by (auto simp: check_autoscaling_def bindE_Inr_conv autoscaling_ok_def new_autoscaling_def not_le not_less split: if_splits)

lemma register_autoscaling_progress:
  assumes "deployment_wf s" and "register_autoscaling_policy rt cat to_int E a s = Inr (v, t)"
  shows "progress s t"
proof (cases "t = s")
  case False
  from assms(2) False obtain x s1 e where c: "check_autoscaling to_int a = Inr x"
    and i: "insert_autoscaling (new_autoscaling rt E a) s = Inr s1" and n: "emit_event rt cat (ids E 1) (clk E 2) e s1 = Inr t"
    by (auto simp: register_autoscaling_policy_def Let_def bindE_Inr_conv split: option.splits)
  show ?thesis
    using progress_same [OF add_autoscaling [OF assms(1) check_autoscaling_Inr [OF c]] emit_same [OF n [unfolded insert_autoscaling_Inr [OF i]]]] .
qed (use assms progress_refl in simp)


text \<open>The assignment of a profile.\<close>

lemma check_assignment_Inr:
  assumes "check_assignment a s = Inr u"
  shows "site_ok s (new_assignment rt E a)"
proof -
  from assms obtain p x y where p: "get_deployment_profile s (ag_deployment_profile_id a) = Some p"
    and r: "check_residency_scope a s = Inr x" and t: "check_transfer_scope a s = Inr y"
    by (auto simp: check_assignment_def bindE_Inr_conv split: option.splits if_splits)
  from r t have "truthy_str (ag_residency_policy_id a) \<longrightarrow> (\<exists>q. get_residency s (str_or (ag_residency_policy_id a) []) = Some q \<and>
      rz_tenant_id q = ag_tenant_id a \<and> rz_project_id q = ag_project_id a)"
    and "truthy_str (ag_transfer_policy_id a) \<longrightarrow> (\<exists>q. get_transfer s (str_or (ag_transfer_policy_id a) []) = Some q \<and>
      ht_tenant_id q = ag_tenant_id a \<and> ht_project_id q = ag_project_id a)"
    by (auto simp: check_residency_scope_def check_transfer_scope_def split: option.splits if_splits)
  with p show ?thesis by (simp add: site_ok_def new_assignment_def)
qed

lemma superseded_keys:
  "dn_binding_id r \<notin> tkeys dn_binding_id (superseded_rows current now rows) \<longleftrightarrow> dn_binding_id r \<notin> tkeys dn_binding_id rows"
  by (simp add: superseded_rows_def split: option.split)

lemma place_binding:
  assumes "deployment_wf s" and "site_ok s r" and "dn_tenant_id r = tenant" and "dn_project_id r = project"
    and i: "insert_assignment r (supersede_assignment (active_binding tenant project s) now s) = Inr t"
  shows "progress s t"
proof (rule replace_binding [OF assms(1-4)])
  note c = insert_assignment_Inr [OF i [unfolded supersede_rows]]
  show "dn_binding_id r \<notin> tkeys dn_binding_id (project_deployment_bindings s)" using c by (simp add: superseded_keys)
  show "t = s\<lparr>project_deployment_bindings := superseded_rows (active_binding tenant project s) now (project_deployment_bindings s) @ [r]\<rparr>"
    using c by simp
qed

lemma assign_progress:
  assumes "deployment_wf s" and "assign_project_profile rt key cat E a s = Inr (v, t)"
  shows "progress s t"
proof (cases "t = s")
  case False
  from assms(2) False obtain x s1 e u where c: "check_assignment a s = Inr x"
    and i: "insert_assignment (new_assignment rt E a) (supersede_assignment (active_binding (ag_tenant_id a) (ag_project_id a) s) (clk E 0) s) = Inr s1"
    and n: "announce rt key cat E e u s1 = Inr t"
    by (auto simp: assign_project_profile_def Let_def bindE_Inr_conv split: option.splits if_splits)
  have "progress s s1"
    by (rule place_binding [OF assms(1) check_assignment_Inr [OF c] _ _ i]) (simp_all add: new_assignment_def)
  then show ?thesis using announce_same [OF n] by (rule progress_same)
qed (use assms progress_refl in simp)

text \<open>Migrations.\<close>

lemma create_migration_progress:
  assumes "deployment_wf s" and "create_project_migration rt cat E a s = Inr (v, t)"
  shows "progress s t"
proof (cases "t = s")
  case False
  from assms(2) False obtain snapshot s1 e where p: "get_deployment_profile s (gm_source_profile_id a) \<noteq> None"
    "get_deployment_profile s (gm_target_profile_id a) \<noteq> None"
    and i: "insert_migration (new_migration rt E a snapshot) s = Inr s1" and n: "emit_event rt cat (ids E 1) (clk E 2) e s1 = Inr t"
    by (auto simp: create_project_migration_def Let_def bindE_Inr_conv split: option.splits if_splits)
  have "migration_ok s (new_migration rt E a snapshot)" using p by (simp add: migration_ok_def new_migration_def Let_def)
  from progress_same [OF add_migration [OF assms(1) this] emit_same [OF n [unfolded conjunct1 [OF insert_migration_Inr [OF i]]]]]
  show ?thesis using insert_migration_Inr [OF i] by simp
qed (use assms progress_refl in simp)

lemma finish_migration_Inr:
  assumes "finish_migration rt key cat E m actor target s = Inr (v, t)"
  shows "py_eq (JObj target) (JObj (mg_source_snapshot_json m)) \<and>
    v = (completed_migration m target (canonical_sha256 rt (JObj target)) (clk E 2), False) \<and>
    (\<exists>l n. t = (put_migration (fst v) s)\<lparr>outbox_events := l, audit_events := n\<rparr>)"
proof -
  let ?done = "completed_migration m target (canonical_sha256 rt (JObj target)) (clk E 2)"
  from assms obtain e u s2 where "py_eq (JObj target) (JObj (mg_source_snapshot_json m))" and v: "v = (?done, False)"
    and e: "emit_event rt cat (ids E 1) (clk E 3) e (put_migration ?done s) = Inr s2"
    and u: "append_audit rt key (ids E 2) (clk E 4) u s2 = Inr t"
    by (auto simp: finish_migration_def Let_def bindE_Inr_conv split: if_splits)
  then show ?thesis using emit_event_frame [OF e] append_audit_frame [OF u] by auto
qed

lemma move_binding_Inr:
  assumes "move_binding rt E m actor s = Inr t"
  shows "insert_assignment (moved_assignment rt E m (active_binding (mg_tenant_id m) (mg_project_id m) s) actor)
      (supersede_assignment (active_binding (mg_tenant_id m) (mg_project_id m) s) (clk E 0) s) = Inr t"
    and "active_binding (mg_tenant_id m) (mg_project_id m) s = Some b \<Longrightarrow> dn_deployment_profile_id b = mg_source_profile_id m"
  using assms by (auto simp: move_binding_def Let_def split: option.splits if_splits)

lemma moved_site_ok:
  assumes "deployment_wf s" and "migration_ok s m"
  shows "site_ok s (moved_assignment rt E m (active_binding (mg_tenant_id m) (mg_project_id m) s) actor)"
proof (cases "active_binding (mg_tenant_id m) (mg_project_id m) s")
  case None
  with assms show ?thesis by (simp add: site_ok_def moved_assignment_def migration_ok_def)
next
  case (Some b)
  with assms(1) active_bindingD [OF Some] have "site_ok s b" "dn_tenant_id b = mg_tenant_id m" "dn_project_id b = mg_project_id m"
    by (auto simp: deployment_wf_def list_all_iff in_force_def)
  with Some assms(2) show ?thesis by (simp add: site_ok_def moved_assignment_def migration_ok_def)
qed

lemma progress_trans: "progress s t \<Longrightarrow> progress t u \<Longrightarrow> progress s u"
  using deployment_below_trans unfolding progress_def by blast

lemma complete_migration_progress:
  assumes "deployment_wf s" and "complete_project_migration rt key cat E tenant project k actor s = Inr (v, t)"
  shows "progress s t"
proof (cases "t = s")
  case False
  from assms(2) False obtain m s1 target where g: "get_migration s k = Some m" and st: "mg_state m \<noteq> ''completed''"
    and mv: "move_binding rt E m actor s = Inr s1" and f: "finish_migration rt key cat E m actor target s1 = Inr (v, t)"
    by (auto simp: complete_project_migration_def bindE_Inr_conv split: option.splits if_splits)
  have k: "mg_migration_id m = k" and "migration_ok s m"
    using g assms(1) by (auto simp: get_migration_def deployment_wf_def list_all_iff dest!: tget_SomeD)
  have "progress s s1"
    by (rule place_binding [OF assms(1) moved_site_ok [OF assms(1) \<open>migration_ok s m\<close>] _ _ move_binding_Inr(1) [OF mv]])
      (simp_all add: moved_assignment_def)
  have "get_migration s1 k = Some m"
    using g insert_assignment_Inr [OF move_binding_Inr(1) [OF mv]] by (simp add: get_migration_def supersede_rows)
  then have "progress s1 (put_migration (fst v) s1)"
    using replace_migration [of s1 m target] finish_migration_Inr [OF f] st k \<open>progress s s1\<close> by (auto simp: progress_def)
  with \<open>progress s s1\<close> have "progress s (put_migration (fst v) s1)" by (rule progress_trans)
  then show ?thesis
    by (rule progress_same) (use finish_migration_Inr [OF f] in \<open>auto simp: same_deployment_def\<close>)
qed (use assms progress_refl in simp)


text \<open>Admissions.\<close>

lemma record_admission_progress:
  assumes "deployment_wf s" and "record_admission rt key cat E c d s = (x, t)"
  shows "progress s t"
proof (cases "record_session rt key cat E c d s")
  case (Inl e)
  with assms show ?thesis by (simp add: record_admission_def progress_refl)
next
  case (Inr r)
  obtain row u where r: "r = (row, u)" by fastforce
  with Inr have "record_session rt key cat E c d s = Inr (row, t)" using assms(2) by (auto simp: record_admission_def split: if_splits)
  from record_session_Inr [OF this] have "t = s \<or> same_deployment (s\<lparr>deployment_admissions := deployment_admissions s @ [row]\<rparr>) t"
    by (auto simp: admission_frame_def same_deployment_def)
  then show ?thesis using assms(1) progress_refl add_admission progress_same by blast
qed

lemma scaling_reason_allow:
  assumes "scaling_allowed p c"
  shows "within_limits p (new_scaling rt E p c)"
  using assms unfolding scaling_allowed_def scaling_reason_def
  by (auto simp: within_limits_def new_scaling_def quota_of_def scaling_allowed_def scaling_reason_def Let_def not_less split: if_splits)

lemma scaling_session_progress:
  assumes "deployment_wf s" and "scaling_session rt key cat E c s = Inr (v, t)"
  shows "progress s t"
proof (cases "t = s")
  case False
  from assms(2) False obtain p e u where p: "tget ax_autoscaling_policy_id (autoscaling_policies s) (xc_autoscaling_policy_id c) = Some p"
    and sc: "ax_tenant_id p = xc_tenant_id c" "ax_project_id p = xc_project_id c"
    and n: "announce rt key cat E e u (s\<lparr>autoscaling_admissions := autoscaling_admissions s @ [new_scaling rt E p c]\<rparr>) = Inr t"
    by (auto simp: scaling_session_def Let_def bindE_Inr_conv insert_row_Inr split: option.splits if_splits)
  have "scaling_ok s (new_scaling rt E p c)"
    unfolding scaling_ok_def using p sc scaling_reason_allow [of p c rt E]
    by (intro exI [of _ p]) (auto simp: new_scaling_def)
  from progress_same [OF add_scaling [OF assms(1) this] announce_same [OF n]] show ?thesis .
qed (use assms progress_refl in simp)

lemma admit_autoscaling_progress: "deployment_wf s \<Longrightarrow> progress s (snd (admit_autoscaling rt key cat E c s))"
  using scaling_session_progress progress_refl by (auto simp: admit_autoscaling_def session_def split: sum.split)

lemma deployment_step_progress:
  assumes "deployment_wf s" and "deployment_step rt key cat B to_int contracts_of s e = Inr t"
  shows "progress s t"
proof (cases e)
  case (Admit E c)
  then obtain x where "authorize_admission rt key cat B E c s = (x, t)" using assms(2) by (cases "authorize_admission rt key cat B E c s") auto
  then show ?thesis using authorize_admission_records record_admission_progress assms(1) progress_refl by blast
next
  case (Admit_If_Configured E q)
  then obtain x where "authorize_if_configured rt key cat B E q s = (x, t)"
    using assms(2) by (cases "authorize_if_configured rt key cat B E q s") auto
  then show ?thesis using authorize_if_configured_records record_admission_progress assms(1) progress_refl by blast
qed (use assms in \<open>auto simp: state_of_Inr intro: register_profile_progress register_residency_progress register_transfer_progress
    assign_progress create_migration_progress complete_migration_progress register_autoscaling_progress admit_autoscaling_progress\<close>)

interpretation deployment: monotone_component "deployment_step rt key cat B to_int contracts_of" deployment_wf deployment_below
  for rt key cat B to_int contracts_of
  by unfold_locales (auto simp: progress_def dest: deployment_step_progress intro: deployment_below_trans)

text \<open>A platform without deployments satisfies the invariant.\<close>

definition undeployed :: "db \<Rightarrow> bool" where
  "undeployed s \<longleftrightarrow> deployment_profiles s = [] \<and> residency_policies s = [] \<and> hybrid_transfer_policies s = [] \<and> autoscaling_policies s = [] \<and>
     project_deployment_bindings s = [] \<and> autoscaling_admissions s = [] \<and> project_deployment_migrations s = []"

lemma undeployed_wf: "undeployed s \<Longrightarrow> deployment_wf s"
  by (simp add: undeployed_def deployment_wf_def single_active_def)


section \<open>Properties\<close>

lemma wf_binding:
  assumes "deployment_wf s" and "active_binding tenant project s = Some b"
  shows "site_ok s b" and "dn_tenant_id b = tenant" and "dn_project_id b = project"
  using assms active_bindingD [OF assms(2)] by (auto simp: deployment_wf_def list_all_iff in_force_def)

lemma wf_policies:
  assumes "deployment_wf s"
  shows "get_deployment_profile s k = Some p \<Longrightarrow> profile_ok p" and "get_residency s k = Some q \<Longrightarrow> residency_ok q"
    and "get_transfer s k = Some r \<Longrightarrow> transfer_ok r"
  using assms by (auto simp: deployment_wf_def list_all_iff get_deployment_profile_def get_residency_def get_transfer_def dest!: tget_SomeD)

lemma no_residency_no_admission:
  assumes "active_binding tenant project s = Some b" and "\<not> truthy_str (dn_residency_policy_id b)"
    and "evaluate_admission B tenant (Some project) kind profile_id region request s = Inr d"
  shows "fst d = ''deny''"
  using assms by (auto simp: evaluate_admission_def scope_decision_def get_active_residency_def deny_def result_simps split: if_splits option.splits)

text \<open>
  C13. After any calls of the deployment service a project has at most one deployment in force. Its
  profile exists, is not marked approved for production, pins every image by digest and refers to
  secrets without holding them. A residency policy is optional: when the deployment names one, the
  policy belongs to the project, denies by default and allows its own home region; when it names none,
  no request of the project is admitted. Whatever is called later, the profile and the policy are
  found unchanged and the deployment is unchanged or superseded.
\<close>

theorem deployment_in_force:
  assumes "deployment_wf s" and "t = run (deployment_step rt key cat B to_int contracts_of) calls s"
    and "u = run (deployment_step rt key cat B to_int contracts_of) later_calls t"
    and "active_binding tenant project t = Some b"
  shows "filter (in_force tenant project) (project_deployment_bindings t) = [b] \<and>
    (\<exists>p. get_deployment_profile t (dn_deployment_profile_id b) = Some p \<and> get_deployment_profile u (dn_deployment_profile_id b) = Some p \<and>
       profile_ok p) \<and>
    (truthy_str (dn_residency_policy_id b) \<longrightarrow> (\<exists>q. get_residency t (str_or (dn_residency_policy_id b) []) = Some q \<and>
       get_residency u (str_or (dn_residency_policy_id b) []) = Some q \<and> rz_tenant_id q = tenant \<and> rz_project_id q = project \<and>
       residency_ok q)) \<and>
    (\<not> truthy_str (dn_residency_policy_id b) \<longrightarrow> (\<forall>C kind profile_id region request d.
       evaluate_admission C tenant (Some project) kind profile_id region request t = Inr d \<longrightarrow> fst d = ''deny'')) \<and>
    (\<exists>c. tget dn_binding_id (project_deployment_bindings u) (dn_binding_id b) = Some c \<and> site_below b c)"
proof -
  have w: "deployment_wf t" using assms(1,2) deployment.run_inv by blast
  have tu: "deployment_below t u" using w assms(3) deployment.run_below by blast
  then have pol: "policies_below t u" by (simp add: deployment_below_def)
  have sa: "single_active t" using w by (simp add: deployment_wf_def)
  note b = wf_binding [OF w assms(4)]
  have "tget dn_binding_id (project_deployment_bindings t) (dn_binding_id b) = Some b"
    using sa active_bindingD(1) [OF assms(4)] by (intro tget_unique_row) (simp_all add: single_active_def)
  then have "\<exists>c. tget dn_binding_id (project_deployment_bindings u) (dn_binding_id b) = Some c \<and> site_below b c"
    using tu unfolding deployment_below_def kept_def by blast
  moreover have "\<not> truthy_str (dn_residency_policy_id b) \<longrightarrow> (\<forall>C kind profile_id region request d.
       evaluate_admission C tenant (Some project) kind profile_id region request t = Inr d \<longrightarrow> fst d = ''deny'')"
    using no_residency_no_admission [OF assms(4)] by blast
  ultimately show ?thesis
    using single_activeD [OF sa assms(4)] b policies_keep(1,2) [OF pol] wf_policies(1,2) [OF w] unfolding site_ok_def by blast
qed

text \<open>
  C38. Every autoscaling decision that the service recorded names a policy of its tenant and project, and
  the policy is still the one it was decided by. When it allows, the replicas it admits are the
  replicas requested, between the minimum and the maximum, at most the quota of the compute profile;
  with the active jobs they are at most the concurrency limit of the tenant, and the projected cost is
  at most the budget. When it denies, the number of replicas stays.
\<close>

theorem autoscaling_within_limits:
  assumes "deployment_wf s" and "t = run (deployment_step rt key cat B to_int contracts_of) calls s"
    and "u = run (deployment_step rt key cat B to_int contracts_of) later_calls t" and "x \<in> set (autoscaling_admissions t)"
  shows "x \<in> set (autoscaling_admissions u) \<and> (\<exists>p. tget ax_autoscaling_policy_id (autoscaling_policies u) (aa_autoscaling_policy_id x) = Some p \<and>
    tget ax_autoscaling_policy_id (autoscaling_policies t) (aa_autoscaling_policy_id x) = Some p \<and>
    ax_tenant_id p = aa_tenant_id x \<and> ax_project_id p = aa_project_id x \<and> ax_restricted_egress p \<and>
    (if aa_decision x = ''allow'' then within_limits p x \<and> 0 \<le> aa_admitted_replicas x
     else aa_admitted_replicas x = aa_current_replicas x))"
proof -
  have w: "deployment_wf t" using assms(1,2) deployment.run_inv by blast
  have tu: "deployment_below t u" using w assms(3) deployment.run_below by blast
  then have pol: "policies_below t u" by (simp add: deployment_below_def)
  from tu assms(4) have "x \<in> set (autoscaling_admissions u)" by (auto simp: deployment_below_def prefix_def)
  moreover from w assms(4) have "scaling_ok t x" by (simp add: deployment_wf_def list_all_iff)
  then obtain p where p: "tget ax_autoscaling_policy_id (autoscaling_policies t) (aa_autoscaling_policy_id x) = Some p"
    and sc: "ax_tenant_id p = aa_tenant_id x" "ax_project_id p = aa_project_id x"
    "if aa_decision x = ''allow'' then within_limits p x else aa_admitted_replicas x = aa_current_replicas x"
    unfolding scaling_ok_def by blast
  moreover from w tget_SomeD [OF p] have "autoscaling_ok p" by (simp add: deployment_wf_def list_all_iff)
  ultimately show ?thesis
    using policies_keep(4) [OF pol p] by (auto simp: autoscaling_ok_def within_limits_def)
qed

lemma transfer_decision_None:
  assumes "transfer_decision B ''asset_transfer'' region request b s = Inr None"
    and "json_str (bt_str B) (jget_or request ''asset_class'' (JStr [])) = cls"
  shows "\<exists>p rule. get_active_transfer b s = Some p \<and> rule \<in> set (ht_rules_json p) \<and> hr_asset_class rule = cls \<and>
    json_str (bt_str B) (jget_or request ''processing_stage'' (JStr [])) \<in> set transfer_stages \<and>
    stage_rank (hr_minimum_stage rule) \<le> stage_rank (json_str (bt_str B) (jget_or request ''processing_stage'' (JStr []))) \<and>
    listed region (hr_allowed_regions rule) \<and>
    json_str (bt_str B) (jget_or request ''purpose'' (JStr [])) \<in> set (hr_allowed_purposes rule)"
proof -
  from assms obtain p rule where p: "get_active_transfer b s = Some p" "find (\<lambda>r. hr_asset_class r = cls) (ht_rules_json p) = Some rule"
    and g: "json_str (bt_str B) (jget_or request ''processing_stage'' (JStr [])) \<in> set transfer_stages"
    "stage_rank (hr_minimum_stage rule) \<le> stage_rank (json_str (bt_str B) (jget_or request ''processing_stage'' (JStr [])))"
    "listed region (hr_allowed_regions rule)" "json_str (bt_str B) (jget_or request ''purpose'' (JStr [])) \<in> set (hr_allowed_purposes rule)"
    by (auto simp: transfer_decision_def deny_def Let_def not_less split: option.splits if_splits)
  from find_SomeD [OF p(2)] p(1) g show ?thesis by blast
qed

text \<open>
  C23. After any calls, an asset of a sensitive class is admitted for transfer out of a project only once
  it is redacted: the stage that the request names is at or after the redacted derivative, the region is
  one the rule of the transfer policy lists, and so is the purpose.
\<close>

theorem sensitive_assets_leave_redacted:
  assumes "deployment_wf s" and "t = run (deployment_step rt key cat B to_int contracts_of) calls s"
    and "authorize_admission rt key cat B E c t = (Inr row, u)" and "da_admission_type c = ''asset_transfer''"
    and "da_project_id c = Some project" and "jget (da_request c) ''asset_class'' = JStr cls" and "cls \<in> set sensitive_asset_classes"
  shows "\<exists>b p r. active_binding (da_tenant_id c) project t = Some b \<and> get_active_transfer b t = Some p \<and> r \<in> set (ht_rules_json p) \<and>
    hr_asset_class r = cls \<and> listed (da_region c) (hr_allowed_regions r) \<and>
    json_str (bt_str B) (jget_or (da_request c) ''processing_stage'' (JStr [])) \<in> set transfer_stages \<and>
    stage_rank ''redacted_derivative'' \<le> stage_rank (json_str (bt_str B) (jget_or (da_request c) ''processing_stage'' (JStr []))) \<and>
    json_str (bt_str B) (jget_or (da_request c) ''purpose'' (JStr [])) \<in> set (hr_allowed_purposes r)"
proof -
  have w: "deployment_wf t" using assms(1,2) deployment.run_inv by blast
  from assms(3,5) obtain d where e: "evaluate_admission B (da_tenant_id c) (Some project) (da_admission_type c) (da_deployment_profile_id c)
      (da_region c) (da_request c) t = Inr d" and r: "record_admission rt key cat E c d t = (Inr row, u)"
    by (auto simp: authorize_admission_def split: if_splits sum.splits)
  have al: "fst d = ''allow''" using record_admission_Inr [OF r] by simp
  with e obtain b where b: "active_binding (da_tenant_id c) project t = Some b"
    by (cases "active_binding (da_tenant_id c) project t") (auto simp: evaluate_admission_def bindE_Inr_conv)
  have cls: "json_str (bt_str B) (jget_or (da_request c) ''asset_class'' (JStr [])) = cls"
    using assms(6) by (auto simp: jget_def jget_or_def json_str_def split: option.splits)
  have "scope_decision B ''asset_transfer'' (da_region c) (da_request c) b t = Inr None"
    using evaluate_allows [OF e al b] assms(4) by simp
  then have "transfer_decision B ''asset_transfer'' (da_region c) (da_request c) b t = Inr None"
    by (auto simp: scope_decision_def deny_def bindE_Inr_conv no_verdict split: option.splits if_splits)
  from transfer_decision_None [OF this cls] obtain p rule where p: "get_active_transfer b t = Some p" "rule \<in> set (ht_rules_json p)" "hr_asset_class rule = cls"
    and g: "json_str (bt_str B) (jget_or (da_request c) ''processing_stage'' (JStr [])) \<in> set transfer_stages"
    "stage_rank (hr_minimum_stage rule) \<le> stage_rank (json_str (bt_str B) (jget_or (da_request c) ''processing_stage'' (JStr [])))"
    "listed (da_region c) (hr_allowed_regions rule)" "json_str (bt_str B) (jget_or (da_request c) ''purpose'' (JStr [])) \<in> set (hr_allowed_purposes rule)"
    by blast
  have "transfer_ok p"
    using p(1) wf_policies(3) [OF w] by (auto simp: get_active_transfer_def split: option.splits if_splits)
  then have "stage_rank ''redacted_derivative'' \<le> stage_rank (hr_minimum_stage rule)"
    using p(2,3) assms(7) by (auto simp: transfer_ok_def rule_ok_def list_all_iff)
  then have "stage_rank ''redacted_derivative'' \<le> stage_rank (json_str (bt_str B) (jget_or (da_request c) ''processing_stage'' (JStr [])))"
    using g(2) by (rule le_trans)
  then show ?thesis using b p g by blast
qed


lemma in_force_only:
  assumes "single_active s" and "b \<in> set (project_deployment_bindings s)" and "in_force tenant project b"
  shows "filter (in_force tenant project) (project_deployment_bindings s) = [b]"
proof -
  have "b \<in> set (filter (in_force tenant project) (project_deployment_bindings s))" using assms(2,3) by simp
  moreover have "length (filter (in_force tenant project) (project_deployment_bindings s)) \<le> 1"
    using assms(1) by (simp add: single_active_def)
  ultimately show ?thesis by (cases "filter (in_force tenant project) (project_deployment_bindings s)") auto
qed

lemma complete_migration_Inr:
  assumes "complete_project_migration rt key cat E tenant project k actor s = Inr ((m, False), t)"
  obtains plan s1 target where "get_migration s k = Some plan" and "mg_tenant_id plan = tenant" and "mg_project_id plan = project"
    and "mg_state plan \<noteq> ''completed''" and "move_binding rt E plan actor s = Inr s1"
    and "project_snapshot rt tenant project s1 = Inr target" and "finish_migration rt key cat E plan actor target s1 = Inr ((m, False), t)"
  using assms by (auto simp: complete_project_migration_def bindE_Inr_conv split: option.splits if_splits)

lemma snapshot_frame:
  "project_snapshot rt tenant project (s\<lparr>project_deployment_bindings := bs\<rparr>) = project_snapshot rt tenant project s"
  "project_snapshot rt tenant project (put_migration m s) = project_snapshot rt tenant project s"
  "project_snapshot rt tenant project (s\<lparr>outbox_events := l, audit_events := n\<rparr>) = project_snapshot rt tenant project s"
  by (simp_all add: project_snapshot_def snapshot_body_def require_project_def get_project_def put_migration_def cong: if_cong)

text \<open>
  C24. A migration that completes preserves the project. What the plan recorded of its identity,
  permissions, consent, asset hashes, scene history, run manifests, exports and model manifests is what the
  project has before and after the completion; the project then has exactly one deployment in force, on the target profile and
  under the residency and transfer policies it had, and it was on the source profile (or on none)
  before.
\<close>

theorem migration_preserves_project:
  assumes "deployment_wf s" and "complete_project_migration rt key cat E tenant project k actor s = Inr ((m, False), t)"
  shows "\<exists>plan snapshot b. get_migration s k = Some plan \<and> mg_state plan \<noteq> ''completed'' \<and>
    get_migration t k = Some m \<and> mg_state m = ''completed'' \<and>
    project_snapshot rt tenant project s = Inr snapshot \<and> project_snapshot rt tenant project t = Inr snapshot \<and>
    py_eq (JObj snapshot) (JObj (mg_source_snapshot_json plan)) \<and>
    filter (in_force tenant project) (project_deployment_bindings t) = [b] \<and>
    dn_deployment_profile_id b = mg_target_profile_id plan \<and>
    (case active_binding tenant project s of
       None \<Rightarrow> dn_residency_policy_id b = None \<and> dn_transfer_policy_id b = None
     | Some c \<Rightarrow> dn_deployment_profile_id c = mg_source_profile_id plan \<and> dn_residency_policy_id b = dn_residency_policy_id c \<and>
         dn_transfer_policy_id b = dn_transfer_policy_id c)"
proof -
  from complete_migration_Inr [OF assms(2)] obtain plan s1 target where g: "get_migration s k = Some plan" "mg_tenant_id plan = tenant"
    "mg_project_id plan = project" "mg_state plan \<noteq> ''completed''" and mv: "move_binding rt E plan actor s = Inr s1"
    and sn: "project_snapshot rt tenant project s1 = Inr target" and f: "finish_migration rt key cat E plan actor target s1 = Inr ((m, False), t)" .
  let ?b = "moved_assignment rt E plan (active_binding tenant project s) actor"
  let ?rows = "superseded_rows (active_binding tenant project s) (clk E 0) (project_deployment_bindings s)"
  have s1: "s1 = s\<lparr>project_deployment_bindings := ?rows @ [?b]\<rparr>"
    using insert_assignment_Inr [OF move_binding_Inr(1) [OF mv]] g(2,3) by (simp add: supersede_rows)
  from finish_migration_Inr [OF f] obtain l n where eq: "py_eq (JObj target) (JObj (mg_source_snapshot_json plan))"
    and m: "m = completed_migration plan target (canonical_sha256 rt (JObj target)) (clk E 2)"
    and t: "t = (put_migration m s1)\<lparr>outbox_events := l, audit_events := n\<rparr>" by auto
  have snaps: "project_snapshot rt tenant project s = Inr target" "project_snapshot rt tenant project t = Inr target"
    using sn by (simp_all only: s1 t snapshot_frame)
  have k: "mg_migration_id m = k" using g(1) m by (auto simp: get_migration_def completed_migration_def dest!: tget_SomeD)
  have "get_migration t k = Some m"
    using tget_tput_same [where key = mg_migration_id and r = m, OF k] g(1) by (simp add: t put_migration_def s1 get_migration_def)
  moreover have "single_active t" using complete_migration_progress [OF assms] by (simp add: progress_def deployment_wf_def)
  then have "filter (in_force tenant project) (project_deployment_bindings t) = [?b]"
    by (rule in_force_only) (use g(2,3) in \<open>simp_all add: t put_migration_def s1 in_force_def moved_assignment_def\<close>)
  moreover have "mg_state m = ''completed''" by (simp add: m completed_migration_def)
  ultimately show ?thesis
    using g eq snaps move_binding_Inr(2) [OF mv]
    by (intro exI [of _ plan] exI [of _ target] exI [of _ ?b]) (auto simp: moved_assignment_def split: option.splits)
qed

section \<open>Instances\<close>

definition sample_transfer_row :: transfer_policy_row where
  "sample_transfer_row = \<lparr>ht_transfer_policy_id = ''tp'', ht_tenant_id = ''t'', ht_project_id = ''p'', ht_revision = ''1'',
     ht_source_profile_id = ''dp'', ht_destination_profile_id = ''dp'',
     ht_rules_json = [\<lparr>hr_asset_class = ''biometric'', hr_minimum_stage = ''redacted_derivative'', hr_allowed_regions = [''eu-west-1''],
       hr_allowed_purposes = [''care''], hr_requires_approval = False\<rparr>],
     ht_purpose = ''care'', ht_policy_hash = ''th'', ht_state = ''active'', ht_created_by = ''u'', ht_created_at = 0\<rparr>"

definition sample_scaling_row :: autoscaling_policy_row where
  "sample_scaling_row = \<lparr>ax_autoscaling_policy_id = ''xp'', ax_tenant_id = ''t'', ax_project_id = Some ''p'', ax_queue_class = ''gpu'',
     ax_revision = ''1'', ax_min_replicas = 0, ax_max_replicas = 4, ax_tenant_concurrency_limit = 8, ax_profile_quotas_json = [(''a100'', 3)],
     ax_global_budget_limit = 100, ax_currency = ''EUR'', ax_dead_letter_json = [], ax_restricted_egress = True, ax_policy_hash = ''xh'',
     ax_state = ''active'', ax_created_by = ''u'', ax_created_at = 0\<rparr>"

definition sample_project_row :: project_row where
  "sample_project_row = \<lparr>pr_project_id = ''p'', pr_tenant_id = ''t'', pr_name = ''site'', pr_vertical = ''construction'',
     pr_classification = ''internal'', pr_status = ''active'', pr_created_at = 0\<rparr>"

definition sample_cloud_row :: deployment_profile_row where
  "sample_cloud_row = sample_profile_row\<lparr>dq_deployment_profile_id := ''dp2'', dq_name := ''cloud'', dq_mode := ''single_tenant_cloud''\<rparr>"

definition sample_governed :: db where
  "sample_governed = sample_deployed\<lparr>deployment_profiles := [sample_profile_row, sample_cloud_row], projects := [sample_project_row], hybrid_transfer_policies := [sample_transfer_row],
     autoscaling_policies := [sample_scaling_row]\<rparr>"

lemma sample_regions: "region_text ''eu-west-1''" "region_text ''us-east-1''"
  by code_simp+

lemmas sample_tables = sample_governed_def sample_deployed_def empty_db_def

lemma sample_governed_wf: "deployment_wf sample_governed"
proof -
  have "profile_ok sample_profile_row"
    using sample_regions by (simp add: profile_ok_def sample_profile_row_def modes_def)
  moreover have "profile_ok sample_cloud_row"
    using sample_regions by (simp add: profile_ok_def sample_profile_row_def sample_cloud_row_def modes_def)
  moreover have "residency_ok sample_residency_row"
    using sample_regions by (simp add: residency_ok_def sample_residency_row_def modes_def)
  moreover have "transfer_ok sample_transfer_row"
    using sample_regions by (simp add: transfer_ok_def sample_transfer_row_def rule_ok_def transfer_stages_def)
  moreover have "autoscaling_ok sample_scaling_row" by (simp add: autoscaling_ok_def sample_scaling_row_def)
  moreover have "site_ok sample_governed sample_binding_row"
    by (simp add: site_ok_def get_deployment_profile_def get_residency_def get_transfer_def sample_tables tget_Cons
      sample_profile_row_def sample_residency_row_def sample_transfer_row_def sample_binding_row_def str_or_def)
  ultimately show ?thesis by (simp add: deployment_wf_def single_active_def sample_tables)
qed

lemma governed_active: "active_binding ''t'' ''p'' sample_governed = Some sample_binding_row"
  using sample_active by (simp add: active_binding_def sample_governed_def)


definition deployment_catalog :: event_catalog where
  "deployment_catalog = map (\<lambda>(t, a). \<lparr>ec_type = t, ec_version = ''1.0.0'', ec_aggregate = a, ec_owner = ''deployment-control'',
       ec_classification = ''internal''\<rparr>)
     [(''deployment.admission.decided'', ''deployment_admission''), (''deployment.autoscaling.decided'', ''autoscaling_admission''),
      (''deployment.migration.completed'', ''deployment_migration''), (''deployment.project.assigned'', ''project_deployment'')]"

lemma deployment_event_returns:
  assumes "(es_event_type e, es_aggregate_type e) \<in> {(''deployment.admission.decided'', ''deployment_admission''),
      (''deployment.autoscaling.decided'', ''autoscaling_admission''), (''deployment.migration.completed'', ''deployment_migration''),
      (''deployment.project.assigned'', ''project_deployment'')}"
    and "es_schema_version e = ''1.0.0''" and "es_producer e = ''deployment-control''"
    and "validate_payload hex_runtime (es_payload e) = Inr ()" and "outbox_events s = []"
  shows "\<exists>l. emit_event hex_runtime deployment_catalog i now e s = Inr (s\<lparr>outbox_events := l\<rparr>)"
proof -
  have "\<exists>x. catalog_get deployment_catalog (es_event_type e) ''1.0.0'' = Inr x \<and> ec_owner x = ''deployment-control'' \<and> ec_aggregate x = es_aggregate_type e"
    using assms(1) by (auto simp: catalog_get_def deployment_catalog_def entry_key_def)
  with assms show ?thesis using emit_event_returns [of deployment_catalog e _ i s now] by (auto simp: tkeys_def)
qed

lemma announce_returns:
  assumes "\<exists>l. emit_event hex_runtime deployment_catalog (ids E 1) (clk E 2) e s = Inr (s\<lparr>outbox_events := l\<rparr>)" and "audit_events s = []"
  shows "\<exists>l m. announce hex_runtime key deployment_catalog E e u s = Inr (s\<lparr>outbox_events := l, audit_events := m\<rparr>)"
proof -
  from assms(1) obtain l where e: "emit_event hex_runtime deployment_catalog (ids E 1) (clk E 2) e s = Inr (s\<lparr>outbox_events := l\<rparr>)" ..
  have "announce hex_runtime key deployment_catalog E e u s = Inr (s\<lparr>outbox_events := l,
      audit_events := [audit_event hex_runtime key (ids E 2) (clk E 3) u genesis_hash]\<rparr>)"
    using assms(2) by (simp add: announce_def e [unfolded One_nat_def] append_audit_first)
  then show ?thesis by blast
qed

text \<open>A request for two replicas.\<close>

definition sample_scale :: scaling_call where
  "sample_scale = \<lparr>xc_tenant_id = ''t'', xc_project_id = Some ''p'', xc_autoscaling_policy_id = ''xp'', xc_compute_profile = ''a100'',
     xc_requested_replicas = 2, xc_current_tenant_jobs = 5, xc_projected_cost = 40, xc_actor_id = ''u'', xc_current_replicas = 1\<rparr>"

definition sample_decision :: autoscaling_admission_row where
  "sample_decision = new_scaling hex_runtime (at_time 5) sample_scaling_row sample_scale"

lemma sample_decision_fields:
  "aa_decision sample_decision = ''allow''" "aa_reason_code sample_decision = ''ALLOW''" "aa_admitted_replicas sample_decision = 2"
proof -
  have "scaling_reason sample_scaling_row sample_scale = ''ALLOW''"
    by (simp add: scaling_reason_def sample_scaling_row_def sample_scale_def)
  then show "aa_decision sample_decision = ''allow''" "aa_reason_code sample_decision = ''ALLOW''" "aa_admitted_replicas sample_decision = 2"
    by (simp_all add: sample_decision_def new_scaling_def scaling_allowed_def) (simp add: sample_scale_def)
qed

lemma scaling_payload: "validate_payload hex_runtime [(''decision'', JStr ''allow''), (''reason_code'', JStr ''ALLOW''),
    (''requested_replicas'', JInt 2), (''admitted_replicas'', JInt 2)] = Inr ()"
proof (rule small_payload)
  have "walk (JObj [(''decision'', JStr a), (''reason_code'', JStr b), (''requested_replicas'', JInt c), (''admitted_replicas'', JInt d)]) [] = Inr ()"
    for a b c d by code_simp
  then show "walk (JObj [(''decision'', JStr ''allow''), (''reason_code'', JStr ''ALLOW''),
    (''requested_replicas'', JInt 2), (''admitted_replicas'', JInt 2)]) [] = Inr ()" .
  have "length (nat_repr 2) = 1" by code_simp
  then show "fields_bound hex_runtime [(''decision'', JStr ''allow''), (''reason_code'', JStr ''ALLOW''),
    (''requested_replicas'', JInt 2), (''admitted_replicas'', JInt 2)] \<le> 65534" by (simp add: int_repr_def)
qed

lemma sample_scaled:
  "autoscaling_admissions (snd (admit_autoscaling hex_runtime ''k'' deployment_catalog (at_time 5) sample_scale sample_governed)) = [sample_decision]"
proof -
  let ?s = "sample_governed\<lparr>autoscaling_admissions := [sample_decision]\<rparr>"
  let ?e = "scaling_event (at_time 5) sample_scale sample_decision" and ?u = "scaling_audit (at_time 5) sample_scale sample_decision"
  have g: "tget ax_autoscaling_policy_id (autoscaling_policies sample_governed) ''xp'' = Some sample_scaling_row"
    by (simp add: sample_tables tget_Cons sample_scaling_row_def)
  have em: "\<exists>l. emit_event hex_runtime deployment_catalog (ids (at_time 5) 1) (clk (at_time 5) 2) ?e ?s = Inr (?s\<lparr>outbox_events := l\<rparr>)"
    by (rule deployment_event_returns)
      (use scaling_payload in \<open>simp_all add: scaling_event_def deployment_event_def sample_decision_fields sample_tables\<close>, simp add: sample_scale_def)
  have empty: "autoscaling_admissions sample_governed = []" "audit_events ?s = []" by (simp_all add: sample_tables)
  from announce_returns [OF em empty(2)] obtain l m
    where an: "announce hex_runtime ''k'' deployment_catalog (at_time 5) ?e ?u ?s = Inr (?s\<lparr>outbox_events := l, audit_events := m\<rparr>)" by blast
  have f: "xc_autoscaling_policy_id sample_scale = ''xp''" "ax_tenant_id sample_scaling_row = xc_tenant_id sample_scale"
    "ax_project_id sample_scaling_row = xc_project_id sample_scale" "ax_state sample_scaling_row = ''active''"
    by (simp_all add: sample_scale_def sample_scaling_row_def)
  have "scaling_session hex_runtime ''k'' deployment_catalog (at_time 5) sample_scale sample_governed =
      Inr ((sample_scaling_row, sample_decision, False), ?s\<lparr>outbox_events := l, audit_events := m\<rparr>)"
    unfolding scaling_session_def Let_def f(1) g empty(1)
    by (simp add: f insert_row_def an flip: sample_decision_def)
  then show ?thesis by (simp add: admit_autoscaling_def)
qed


theorem autoscaling_within_limits_witness:
  "\<exists>p. tget ax_autoscaling_policy_id (autoscaling_policies (run (deployment_step hex_runtime ''k'' deployment_catalog sample_builtins (\<lambda>_. Inr 0) (Inr []))
      [Admit_Autoscaling (at_time 5) sample_scale] sample_governed)) (aa_autoscaling_policy_id sample_decision) = Some p \<and>
    within_limits p sample_decision \<and> aa_admitted_replicas sample_decision = 2"
proof -
  let ?step = "deployment_step hex_runtime ''k'' deployment_catalog sample_builtins (\<lambda>_. Inr 0) (Inr [])"
  have m: "sample_decision \<in> set (autoscaling_admissions (run ?step [Admit_Autoscaling (at_time 5) sample_scale] sample_governed))"
    using sample_scaled by (simp add: settle_def)
  show ?thesis
    using autoscaling_within_limits [OF sample_governed_wf refl, of "run ?step [] (run ?step [Admit_Autoscaling (at_time 5) sample_scale] sample_governed)", OF refl m]
      sample_decision_fields by auto
qed

text \<open>A later assignment does not disturb what is in force before it.\<close>

definition sample_assign :: assign_args where
  "sample_assign = \<lparr>ag_tenant_id = ''t'', ag_project_id = ''p'', ag_deployment_profile_id = ''dp2'', ag_residency_policy_id = Some ''rp'',
     ag_transfer_policy_id = None, ag_revision = ''2'', ag_feature_overrides = [], ag_cloud_dependencies_acknowledged = True, ag_actor_id = ''u''\<rparr>"

theorem deployment_in_force_witness:
  "filter (in_force ''t'' ''p'') (project_deployment_bindings sample_governed) = [sample_binding_row] \<and>
   (\<exists>p. get_deployment_profile (run (deployment_step hex_runtime ''k'' deployment_catalog sample_builtins (\<lambda>_. Inr 0) (Inr []))
      [Assign (at_time 5) sample_assign] sample_governed) ''dp'' = Some p \<and> profile_ok p) \<and>
   (\<exists>c. tget dn_binding_id (project_deployment_bindings (run (deployment_step hex_runtime ''k'' deployment_catalog sample_builtins (\<lambda>_. Inr 0) (Inr []))
      [Assign (at_time 5) sample_assign] sample_governed)) ''b1'' = Some c \<and> site_below sample_binding_row c)"
proof -
  let ?step = "deployment_step hex_runtime ''k'' deployment_catalog sample_builtins (\<lambda>_. Inr 0) (Inr [])"
  have "dn_deployment_profile_id sample_binding_row = ''dp''" "dn_binding_id sample_binding_row = ''b1''"
    by (simp_all add: sample_binding_row_def)
  then show ?thesis
    using deployment_in_force [of sample_governed sample_governed hex_runtime "''k''" deployment_catalog sample_builtins "\<lambda>_. Inr 0" "Inr []" "[]"
      "run ?step [Assign (at_time 5) sample_assign] sample_governed" "[Assign (at_time 5) sample_assign]" "''t''" "''p''" sample_binding_row]
      sample_governed_wf governed_active
    by (simp only: run_simps) auto
qed

text \<open>A redacted biometric asset leaves for a listed region and purpose.\<close>

definition sample_transfer :: admission_call where
  "sample_transfer = \<lparr>da_tenant_id = ''t'', da_project_id = Some ''p'', da_admission_type = ''asset_transfer'', da_deployment_profile_id = None,
     da_region = JStr ''eu-west-1'', da_request = [(''asset_class'', JStr ''biometric''), (''processing_stage'', JStr ''approved_derivative''),
       (''purpose'', JStr ''care'')], da_actor_id = ''u''\<rparr>"

lemma governed_lookups:
  "get_deployment_profile sample_governed ''dp'' = Some sample_profile_row" "get_residency sample_governed ''rp'' = Some sample_residency_row"
  "get_transfer sample_governed ''tp'' = Some sample_transfer_row" "require_project ''t'' ''p'' sample_governed = Inr sample_project_row"
  by (simp_all add: get_deployment_profile_def get_residency_def get_transfer_def require_project_def get_project_def sample_tables tget_Cons
    sample_profile_row_def sample_residency_row_def sample_transfer_row_def sample_project_row_def)

lemma sample_transfer_allowed:
  "evaluate_admission sample_builtins ''t'' (Some ''p'') ''asset_transfer'' None (JStr ''eu-west-1'') (da_request sample_transfer) sample_governed
     = Inr (''allow'', ''ALLOW'', [])"
proof -
  have b: "get_active_residency sample_binding_row sample_governed = Some sample_residency_row"
    "get_active_transfer sample_binding_row sample_governed = Some sample_transfer_row"
    by (simp_all add: get_active_residency_def get_active_transfer_def sample_binding_row_def str_or_def governed_lookups)
      (simp_all add: sample_residency_row_def sample_transfer_row_def)
  have "dn_deployment_profile_id sample_binding_row = ''dp''" by (simp add: sample_binding_row_def)
  then have "scope_decision sample_builtins ''asset_transfer'' (JStr ''eu-west-1'') (da_request sample_transfer) sample_binding_row sample_governed = Inr None"
    by (simp add: scope_decision_def governed_lookups b class_decision_def transfer_decision_def)
      (simp add: sample_profile_row_def sample_residency_row_def sample_transfer_row_def sample_transfer_def listed_def jget_or_def json_str_def
        transfer_stages_def stage_rank_def)
  then show ?thesis by (simp add: evaluate_admission_def governed_lookups governed_active)
qed


lemma admission_payload: "validate_payload hex_runtime [(''decision'', JStr ''allow''), (''reason_code'', JStr ''ALLOW''),
    (''admission_type'', JStr ''asset_transfer'')] = Inr ()"
  by (rule small_payload) (simp, code_simp)

lemma sample_transfer_admitted:
  "\<exists>row u. authorize_admission hex_runtime ''k'' deployment_catalog sample_builtins (at_time 5) sample_transfer sample_governed = (Inr row, u)"
proof -
  let ?d = "(''allow'', ''ALLOW'', []) :: verdict"
  let ?row = "new_admission hex_runtime (at_time 5) sample_transfer ?d"
  let ?s = "sample_governed\<lparr>deployment_admissions := [?row]\<rparr>"
  have em: "\<exists>l. emit_event hex_runtime deployment_catalog (ids (at_time 5) 1) (clk (at_time 5) 2) (admission_event (at_time 5) sample_transfer ?row) ?s
      = Inr (?s\<lparr>outbox_events := l\<rparr>)"
    by (rule deployment_event_returns)
      (use admission_payload in \<open>simp_all add: admission_event_def deployment_event_def new_admission_def sample_tables\<close>, simp add: sample_transfer_def)
  have empty: "deployment_admissions sample_governed = []" "audit_events ?s = []" by (simp_all add: sample_tables)
  from announce_returns [OF em empty(2)] obtain l m
    where an: "announce hex_runtime ''k'' deployment_catalog (at_time 5) (admission_event (at_time 5) sample_transfer ?row)
      (admission_audit (at_time 5) sample_transfer ?row) ?s = Inr (?s\<lparr>outbox_events := l, audit_events := m\<rparr>)" by blast
  have "record_session hex_runtime ''k'' deployment_catalog (at_time 5) sample_transfer ?d sample_governed
      = Inr (?row, ?s\<lparr>outbox_events := l, audit_events := m\<rparr>)"
    unfolding record_session_def Let_def empty(1) by (simp add: insert_row_def an)
  then have "\<exists>row u. record_admission hex_runtime ''k'' deployment_catalog (at_time 5) sample_transfer ?d sample_governed = (Inr row, u)"
    by (simp add: record_admission_def)
  moreover have "list_ex (\<lambda>(k, _). prefix ''precomputed_'' k) (da_request sample_transfer) = False"
    by (simp add: sample_transfer_def)
  ultimately show ?thesis
    using sample_transfer_allowed unfolding authorize_admission_def
    by (simp add: admission_types_def) (simp add: sample_transfer_def)
qed

theorem sensitive_assets_leave_redacted_witness:
  "\<exists>row u r. authorize_admission hex_runtime ''k'' deployment_catalog sample_builtins (at_time 5) sample_transfer sample_governed = (Inr row, u) \<and>
     r \<in> set (ht_rules_json sample_transfer_row) \<and> hr_asset_class r = ''biometric'' \<and> listed (JStr ''eu-west-1'') (hr_allowed_regions r) \<and>
     stage_rank ''redacted_derivative'' \<le> stage_rank ''approved_derivative''"
proof -
  obtain row u where a: "authorize_admission hex_runtime ''k'' deployment_catalog sample_builtins (at_time 5) sample_transfer sample_governed = (Inr row, u)"
    using sample_transfer_admitted by blast
  have p: "get_active_transfer sample_binding_row sample_governed = Some sample_transfer_row"
    by (simp add: get_active_transfer_def sample_binding_row_def str_or_def governed_lookups) (simp add: sample_transfer_row_def)
  have "sample_governed = run (deployment_step hex_runtime ''k'' deployment_catalog sample_builtins (\<lambda>_. Inr 0) (Inr [])) [] sample_governed" by simp
  from sensitive_assets_leave_redacted [OF sample_governed_wf this a, of "''p''" "''biometric''"] a p governed_active
  show ?thesis
    by (simp add: sample_transfer_def jget_def sensitive_asset_classes_def jget_or_def json_str_def) blast
qed

text \<open>A planned migration to the second profile.\<close>

definition sample_plan_row :: migration_row where
  "sample_plan_row = new_migration hex_runtime (at_time 3) \<lparr>gm_tenant_id = ''t'', gm_project_id = ''p'', gm_source_profile_id = ''dp'',
     gm_target_profile_id = ''dp2'', gm_idempotency_key = ''k'', gm_actor_id = ''u''\<rparr> (snapshot_body hex_runtime ''t'' ''p'' sample_project_row sample_governed)"

definition sample_planned :: db where
  "sample_planned = sample_governed\<lparr>project_deployment_migrations := [sample_plan_row]\<rparr>"

lemma sample_plan_fields:
  "mg_migration_id sample_plan_row = ''id0''" "mg_tenant_id sample_plan_row = ''t''" "mg_project_id sample_plan_row = ''p''"
  "mg_source_profile_id sample_plan_row = ''dp''" "mg_target_profile_id sample_plan_row = ''dp2''" "mg_state sample_plan_row = ''planned''"
  "mg_source_snapshot_json sample_plan_row = snapshot_body hex_runtime ''t'' ''p'' sample_project_row sample_governed"
  by (simp_all add: sample_plan_row_def new_migration_def Let_def sample_ids)

lemma sample_snapshot_eq:
  "py_eq (JObj (snapshot_body hex_runtime ''t'' ''p'' sample_project_row sample_governed)) (JObj (snapshot_body hex_runtime ''t'' ''p'' sample_project_row sample_governed))"
  by (simp add: snapshot_body_def snapshot_part_def project_part_def sample_tables)

lemma sample_planned_wf: "deployment_wf sample_planned"
proof -
  have "migration_ok sample_governed sample_plan_row"
    by (simp add: migration_ok_def sample_plan_fields get_deployment_profile_def sample_tables tget_Cons sample_profile_row_def sample_cloud_row_def)
  from add_migration [OF sample_governed_wf this] show ?thesis
    by (simp add: progress_def sample_planned_def) (simp add: sample_tables tkeys_def)
qed


lemma completion_payload:
  assumes "length h = 64"
  shows "validate_payload hex_runtime [(''source_profile_id'', JStr ''dp''), (''target_profile_id'', JStr ''dp2''), (''snapshot_hash'', JStr h),
    (''preserved'', JBool True)] = Inr ()"
proof (rule small_payload)
  have "walk (JObj [(''source_profile_id'', JStr a), (''target_profile_id'', JStr b), (''snapshot_hash'', JStr c), (''preserved'', JBool d)]) [] = Inr ()"
    for a b c d by code_simp
  then show "walk (JObj [(''source_profile_id'', JStr ''dp''), (''target_profile_id'', JStr ''dp2''), (''snapshot_hash'', JStr h),
    (''preserved'', JBool True)]) [] = Inr ()" .
  show "fields_bound hex_runtime [(''source_profile_id'', JStr ''dp''), (''target_profile_id'', JStr ''dp2''), (''snapshot_hash'', JStr h),
    (''preserved'', JBool True)] \<le> 65534" using assms by simp
qed

lemma sample_moves:
  "\<exists>rows. move_binding hex_runtime (at_time 5) sample_plan_row ''u'' sample_planned = Inr (sample_planned\<lparr>project_deployment_bindings := rows\<rparr>)"
proof -
  have a: "active_binding ''t'' ''p'' sample_planned = Some sample_binding_row"
    using governed_active by (simp add: active_binding_def sample_planned_def)
  let ?c = "sample_binding_row\<lparr>dn_state := ''superseded'', dn_superseded_at := Some (clk (at_time 5) 0)\<rparr>"
  let ?n = "moved_assignment hex_runtime (at_time 5) sample_plan_row (Some sample_binding_row) ''u''"
  have "length (dn_binding_hash ?n) = 64" by (simp add: moved_assignment_def length_hex_digest)
  then have h: "dn_binding_hash ?n \<noteq> ''bh''" by auto
  have k: "dn_binding_id ?n = ''id0''" "dn_revision ?n = ''migration-id0''" by (simp_all add: moved_assignment_def sample_ids sample_plan_fields)
  have c: "dn_binding_hash ?c = ''bh''" "dn_binding_id ?c = ''b1''" "dn_revision ?c = ''1''" by (simp_all add: sample_binding_row_def)
  have rows: "project_deployment_bindings sample_planned = [sample_binding_row]" by (simp add: sample_planned_def sample_tables)
  have p: "dn_deployment_profile_id sample_binding_row = ''dp''" by (simp add: sample_binding_row_def)
  have "insert_assignment ?n (sample_planned\<lparr>project_deployment_bindings := [?c]\<rparr>)
      = Inr (sample_planned\<lparr>project_deployment_bindings := [?c, ?n]\<rparr>)"
    using h k c by (simp add: insert_assignment_def insert_row_def tget_Cons)
  then have "move_binding hex_runtime (at_time 5) sample_plan_row ''u'' sample_planned = Inr (sample_planned\<lparr>project_deployment_bindings := [?c, ?n]\<rparr>)"
    unfolding move_binding_def sample_plan_fields a Let_def by (simp add: p supersede_assignment_def rows tput_def)
  then show ?thesis by blast
qed

theorem migration_preserves_project_witness:
  "\<exists>m t b. complete_project_migration hex_runtime ''k'' deployment_catalog (at_time 5) ''t'' ''p'' ''id0'' ''u'' sample_planned = Inr ((m, False), t) \<and>
     mg_state m = ''completed'' \<and> filter (in_force ''t'' ''p'') (project_deployment_bindings t) = [b] \<and> dn_deployment_profile_id b = ''dp2'' \<and>
     dn_residency_policy_id b = Some ''rp''"
proof -
  let ?plan = sample_plan_row and ?target = "snapshot_body hex_runtime ''t'' ''p'' sample_project_row sample_governed"
  let ?done = "completed_migration ?plan ?target (canonical_sha256 hex_runtime (JObj ?target)) (clk (at_time 5) 2)"
  let ?e = "completion_event ?plan ''u'' (canonical_sha256 hex_runtime (JObj ?target))"
  from sample_moves obtain rows where mv: "move_binding hex_runtime (at_time 5) ?plan ''u'' sample_planned
      = Inr (sample_planned\<lparr>project_deployment_bindings := rows\<rparr>)" ..
  let ?s = "put_migration ?done (sample_planned\<lparr>project_deployment_bindings := rows\<rparr>)"
  have g: "get_migration sample_planned ''id0'' = Some ?plan" by (simp add: get_migration_def sample_planned_def tget_Cons sample_plan_fields)
  have "project_snapshot hex_runtime ''t'' ''p'' sample_governed = Inr ?target"
    by (simp add: project_snapshot_def governed_lookups) (simp add: sample_tables)
  then have sn: "project_snapshot hex_runtime ''t'' ''p'' (sample_planned\<lparr>project_deployment_bindings := rows\<rparr>) = Inr ?target"
    unfolding snapshot_frame by (simp add: sample_planned_def project_snapshot_def snapshot_body_def require_project_def get_project_def cong: if_cong)
  have "\<exists>l. emit_event hex_runtime deployment_catalog (ids (at_time 5) 1) (clk (at_time 5) 3) ?e ?s = Inr (?s\<lparr>outbox_events := l\<rparr>)"
    by (rule deployment_event_returns)
      (use completion_payload [OF length_hex_digest] in \<open>simp_all add: completion_event_def deployment_event_def sample_plan_fields put_migration_def sample_planned_def sample_tables\<close>)
  then obtain l where em: "emit_event hex_runtime deployment_catalog (ids (at_time 5) 1) (clk (at_time 5) 3) ?e ?s = Inr (?s\<lparr>outbox_events := l\<rparr>)" ..
  have "audit_events (?s\<lparr>outbox_events := l\<rparr>) = []" by (simp add: put_migration_def sample_planned_def sample_tables)
  note au = append_audit_first [OF this]
  have "\<exists>t. finish_migration hex_runtime ''k'' deployment_catalog (at_time 5) ?plan ''u'' ?target (sample_planned\<lparr>project_deployment_bindings := rows\<rparr>)
      = Inr ((?done, False), t)"
    using sample_snapshot_eq unfolding finish_migration_def Let_def sample_plan_fields(7) by (simp only: em au bindE_simps if_False simp_thms) blast
  then obtain t where c: "complete_project_migration hex_runtime ''k'' deployment_catalog (at_time 5) ''t'' ''p'' ''id0'' ''u'' sample_planned
      = Inr ((?done, False), t)"
    by (auto simp: complete_project_migration_def g mv sn sample_plan_fields)
  have a: "active_binding ''t'' ''p'' sample_planned = Some sample_binding_row"
    using governed_active by (simp add: active_binding_def sample_planned_def)
  from migration_preserves_project [OF sample_planned_wf c] obtain b where "mg_state ?done = ''completed''"
    "filter (in_force ''t'' ''p'') (project_deployment_bindings t) = [b]" "dn_deployment_profile_id b = mg_target_profile_id ?plan"
    "dn_residency_policy_id b = dn_residency_policy_id sample_binding_row"
    by (auto simp: g a)
  with c show ?thesis by (auto simp: sample_plan_fields) (auto simp: sample_binding_row_def)
qed

end
