(* ===== verification/Spec2Isabelle.thy ===== *)
theory Spec2Isabelle
  imports Policy Operation_Lifecycle Multipart Deletion_Workflow Restricted_Data Deployment_History
begin

text \<open>
  Verification of the core services of the spatial-intelligence platform (\<open>src/sip\<close>).

  \<^bold>\<open>The program.\<close> The platform is a set of Python services over one relational database and one
  content-addressed object store. A request is authenticated to a principal, the policy service
  decides whether the principal holds the grant it needs, and a service method then works in one
  database session: it reads and writes rows, appends to the tenant's audit chain and puts events
  into the outbox, all of which commit or roll back together. Long work is a durable operation that
  workers lease, report on and complete. Bytes are encrypted under an envelope key and kept under
  their digest. Deletion is a workflow with a second approver. Scenes are versioned like source
  code, with commits, branches, tags and three-way merges.

  \<^bold>\<open>Theories and sources\<close>, in the order of their imports.

  \<^item> \<open>Sip_Prelude\<close>: Python text operations, the result type \<open>sip_error + 'a\<close> with \<open>bindE\<close> and
    the collection \<open>result_simps\<close> that inverts successful calls, keyed tables, and the interfaces
    \<open>row_store\<close> (rows under a primary key), \<open>invariant_component\<close> (calls that keep an invariant)
    and \<open>monotone_component\<close> (calls that also move up a preorder). Every service with an
    invariant is an interpretation of one of the last two.
  \<^item> \<open>Canonical\<close> (\<open>canonical.py\<close>): JSON values, canonical serialisation and digests. Shown: values
    have the same canonical text exactly if they are equal up to the order of object keys.
  \<^item> \<open>Sip_Errors\<close> (\<open>errors.py\<close>, \<open>models.py\<close>): exceptions as values, the domain enumerations.
  \<^item> \<open>Floats\<close>: the \<open>float\<close> of the language as IEEE doubles, with rounding, infinities and NaN. Shown: the
    rounding error of an operation.
  \<^item> \<open>Sip_Database\<close> (\<open>database.py\<close>): one record per table row, the database as a record of tables,
    and \<open>session\<close> with its commit and rollback.
  \<^item> \<open>Base64\<close>, \<open>Security\<close> (\<open>security.py\<close>): the envelope cipher and signed tokens. Shown: the
    round trips, and which tokens the decoder accepts.
  \<^item> \<open>Audit_Log\<close> (\<open>audit.py\<close>): the hash chain of each tenant. Shown: an append in order extends a
    verified chain; two verified chains with one head have one history, column by column.
  \<^item> \<open>Policy\<close> (\<open>policy.py\<close>, \<open>tenancy.py\<close>): roles, bindings, grants, identities. Shown: the decision
    procedure refines a declarative policy; access needs a binding in force.
  \<^item> \<open>Failures\<close> (\<open>failures.py\<close>) and \<open>Events\<close> (\<open>events.py\<close>, the envelope of \<open>contracts.py\<close>): the
    failure catalogue; the event catalogue, outbox events, the idempotent consumer and retries.
  \<^item> \<open>Operations\<close>, \<open>Operation_Lifecycle\<close> (\<open>operations.py\<close>): the methods of durable operations; the
    state machine they refine, and properties of all sequences of calls (leases exclude other
    workers, nothing is published after a cancellation, creation is idempotent).
  \<^item> \<open>Assets\<close>, \<open>Asset_Lifecycle\<close>, \<open>Multipart\<close> (\<open>assets.py\<close>): the local store, ingest, lookup, read
    tokens, tombstones, key rotation and multipart uploads. Shown: live assets stay readable with
    the same bytes over any calls, a tombstone removes exactly what nothing else shares, an upload
    completes with exactly the declared bytes and its accepted parts are never lost.
  \<^item> \<open>Lifecycle\<close>, \<open>Deletion_Workflow\<close> (\<open>lifecycle.py\<close>): retention, legal holds, planned and approved
    deletions, quotas. Shown: every executed deletion was approved by somebody other than its
    requester, holds protect what they name, and exactly when usage is admitted under a quota, in the
    arithmetic of floats: the hard limit binds up to rounding, and not at all for NaN.
  \<^item> \<open>Restricted_Data\<close> (\<open>restricted_data.py\<close>): the check and the scrub of secrets in JSON, described
    by paths into the value.
  \<^item> \<open>Collaboration\<close> (\<open>collaboration.py\<close>, handlers of \<open>api.py\<close>): comments, tasks, notifications.
  \<^item> \<open>Scenes\<close>, \<open>Scene_Merge\<close>, \<open>Scene_History\<close> (\<open>scene.py\<close>, the history operations of
    \<open>spatial_data.py\<close>, handlers of \<open>api.py\<close>): commits, branches, rollbacks, differences, tags, the
    as-of query, the ancestor walk and the merge. Shown: the calls refine an abstract machine whose
    commits never change and whose branch heads only move to descendants; a commit on a stale head
    never lands; the ancestor walk ends on every graph, cyclic ones included, and is exact; a clean merge keeps both sides.
  \<^item> \<open>Measurements\<close>, \<open>Measurement_Evidence\<close> (\<open>scene.py\<close>, the contract in \<open>contracts.py\<close>, handlers of
    \<open>api.py\<close>): recording, reading and replacing measurements, and the resolution of a hit on an
    interaction proxy to metric evidence. Shown: who may claim field verification, what a measurement
    from a proxy hit rests on, that a measurement is replaced at most once and reads back.
  \<^item> \<open>Representations\<close>, \<open>Publication\<close> (\<open>RepresentationService\<close> and \<open>RepresentationPublisher\<close> of
    \<open>representations.py\<close>, handlers of \<open>api.py\<close>): candidates and the policy they inherit, worker
    receipts, reviews, invalidation, selection for a view, proxy replacement; publication on a commit
    with governed conversions and consent grants. \<open>Publication_Safety\<close> has the abstract machine that
    the calls refine and its invariant. \<open>Review_History\<close> traces the approved uses of a representation
    to the call that brought them in: a passing review, or the caller who created the candidate, whose
    quality record is stored unread. \<open>Published_Scenes\<close> has the properties: every bound and every
    served use has such an origin, and is a reviewer's when nothing was stated in advance; derivatives
    keep the restrictions of their sources; an invalidation withdraws exactly the dependants.
  \<^item> \<open>Deployment\<close>, \<open>Project_Migration\<close> (\<open>DeploymentService\<close> of \<open>deployment.py\<close>, handlers of \<open>api.py\<close>):
    profiles, residency and transfer policies, the assignment of a profile to a project, admissions,
    autoscaling, and the migration of a project between profiles. \<open>Residency\<close> shows that the service
    keeps the contracts under which operations, assets, uploads and deletions were verified, and that
    with it nothing runs outside the residency policy of a project. \<open>Deployment_History\<close> has the invariant
    and the order of its tables over any calls: one deployment in force per project, with a residency
    policy of the project or no admission at all, policies that never change, sensitive assets that leave only redacted, migrations that preserve the project,
    and autoscaling within its limits.

  \<^bold>\<open>Reading the model.\<close> A method is the body of its session, \<open>db \<Rightarrow> sip_error + 'a \<times> db\<close>, in the
  order of the source; every raise is an \<open>Inl\<close> with the error class, the code and the details, the
  message left out. A method with work outside its session (assets, uploads) returns the state it
  leaves on failure too. \<open>E\<close> supplies the identifiers and the time of each call site. Sequences of
  calls are \<open>run step calls\<close>, where a call that raises leaves the state that its session rolled
  back to.

  \<^bold>\<open>Parameters.\<close> Code outside the sources is an argument, and what is needed of it is a hypothesis:
  SHA-256, HMAC and the text of a float are \<open>runtime\<close> (injectivity where a theorem speaks of
  collisions), AES-GCM is \<open>aead\<close> (\<open>aead_ok\<close>: it decrypts what it encrypted), \<open>json.loads\<close> is
  \<open>loads\<close>, \<open>str()\<close> of arbitrary values is \<open>py_str\<close>, the built-ins \<open>str\<close>, \<open>float\<close> and \<open>dict\<close> on JSON
  values and the dump of a contract are \<open>builtins\<close>, the reflection of all database tables is
  \<open>reflect\<close>, what the quotas need of the database engine (the place of NULL in an order, NaN in a
  column, \<open>SUM\<close> of floats) is \<open>sql_engine\<close>, \<open>int\<close> of a JSON value is \<open>to_int\<close>, and the canonical contracts that a profile records are
  read from files. The deployment service that is injected into operations and assets is an argument
  of their methods too, with the locales \<open>operation_platform\<close>, \<open>asset_platform\<close>, \<open>upload_platform\<close> and
  \<open>governed_platform\<close> as its contract. They are interpreted at \<open>None\<close>, the configuration without such
  a service, and in \<open>Residency\<close> at the service of \<open>deployment.py\<close>; a theorem about any service that
  keeps the contract has it as a hypothesis.

  \<^bold>\<open>Bounds and termination.\<close> All functions are total; no fuel is used. The two loops of the sources
  without a structural measure are the ancestor walk, which ends because each round visits a commit
  of the finite table for the first time, and the base-64 and text scanners, which consume their
  input. Python integers are \<open>int\<close> or \<open>nat\<close>; text is 8-bit. The floats of quotas and
  usage, and those that the sources test for finiteness, are the \<open>py_float\<close> of theory \<open>Floats\<close>; every other float
  is an exact rational: the sources store, compare and serialise it without arithmetic, and NaN and the
  infinities are left out there.

  \<^bold>\<open>Not modelled.\<close> Most route handlers and request models of \<open>api.py\<close>, configuration and header parsing,
  the S3 store (remote service), backups and restores, the registration and promotion of providers,
  floating-point geometry over numpy and what
  rests on it (captures, coordinate transforms, search ranking), worker processes
  and sandboxes, vertical products, edge nodes with their updates, cloud environments and release
  tooling. Concurrency is the interleaving
  of whole sessions: the sources rely on the isolation of the database.
\<close>

end
